(* ===== verification/CTF_Prelude.thy ===== *)
theory CTF_Prelude
  imports Main "HOL-Library.Word" "HOL-Library.Multiset" "HOL-Library.AList"
begin

unbundle bit_operations_syntax

text \<open>
  Shared vocabulary of the development: the machine integers of the C++ sources, the
  pieces of the C++ standard library the sources call (\<^verbatim>\<open>std::sort\<close>,
  \<^verbatim>\<open>std::lower_bound\<close>, \<^verbatim>\<open>std::unordered_map\<close>), the name tables of the
  \<^verbatim>\<open>to_string\<close> / \<^verbatim>\<open>from_string\<close> pairs, and the lemmas on 64-bit words, sorted
  vectors and bounded tables that the component theories rest on.

  The interfaces are locales: \<open>comparator\<close> and \<open>total_comparator\<close> (what
  \<^verbatim>\<open>std::sort\<close> needs of a comparison), \<open>keyed_map\<close> (what the clients of an
  \<^verbatim>\<open>IdentityMap\<close> rely on), \<open>name_table\<close> (an enumeration with a name table),
  \<open>invariant_system\<close> (a step function with an invariant), \<open>simulation\<close> (a step function
  that refines a specification) and \<open>component\<close> (a part of a composed system).
\<close>

type_synonym u8 = "8 word"
type_synonym u16 = "16 word"
type_synonym u32 = "32 word"
type_synonym u64 = "64 word"

named_theorems idmap_simps \<open>lookups in and sizes of identity maps\<close>
named_theorems sort_simps \<open>what std::sort keeps of its input\<close>
named_theorems bound_simps \<open>word-level bounds read as natural numbers\<close>


section \<open>Machine words\<close>

text \<open>\<^verbatim>\<open>std::min\<close> and \<^verbatim>\<open>std::max\<close> on unsigned words are HOL's \<open>min\<close> and \<open>max\<close>.\<close>

lemma xorshift_bit:
  "bit (x XOR drop_bit k x) n \<longleftrightarrow> (bit x n \<noteq> bit x (n + k))" for x :: u64
  by (auto simp: bit_simps add.commute)

lemma bit_u64_high: "64 \<le> n \<Longrightarrow> \<not> bit (x :: u64) n"
  using bit_imp_le_length by fastforce

lemma xorshift_inj:
  fixes x y :: u64
  assumes k: "0 < k" and eq: "x XOR drop_bit k x = y XOR drop_bit k y"
  shows "x = y"
proof -
  have "bit x n = bit y n" for n
  proof (induction "64 - n" arbitrary: n rule: less_induct)
    case less
    show ?case
    proof (cases "64 \<le> n")
      case True
      then show ?thesis by (simp add: bit_u64_high)
    next
      case False
      with k have "64 - (n + k) < 64 - n" by simp
      then have "bit x (n + k) = bit y (n + k)" by (rule less)
      moreover have "(bit x n \<noteq> bit x (n + k)) = (bit y n \<noteq> bit y (n + k))"
        using eq xorshift_bit [of x k n] xorshift_bit [of y k n] by simp
      ultimately show ?thesis by blast
    qed
  qed
  then show ?thesis by (simp add: bit_eq_iff)
qed

lemma mult_unit_inj:
  fixes c :: u64
  assumes "c * d = 1" and "x * c = y * c"
  shows "x = y"
proof -
  have "x * c * d = y * c * d" using assms(2) by simp
  then show ?thesis using assms(1) by (simp add: mult.assoc)
qed

lemma xor_left_inj: "a XOR x = a XOR y \<Longrightarrow> x = y" for a x y :: u64
proof -
  assume "a XOR x = a XOR y"
  then have "a XOR (a XOR x) = a XOR (a XOR y)" by simp
  then show ?thesis by (simp flip: xor.assoc)
qed

lemma xor_right_inj: "x XOR a = y XOR a \<Longrightarrow> x = y" for a x y :: u64
  using xor_left_inj [of a x y] by (simp add: xor.commute)

lemma unat_lt_u64 [simp]: "unat (x :: u64) < 18446744073709551616"
  using unsigned_less [of x, where ?'a = nat] by simp

lemma unat_le_u64: "unat (x :: u64) \<le> 18446744073709551615"
  using unat_lt_u64 [of x] by linarith

lemma unat_add_u64 [bound_simps]:
  "unat (x + y :: u64) = (unat x + unat y) mod 18446744073709551616"
  by (simp add: unat_word_ariths)

lemma unat_mult_u64 [bound_simps]:
  "unat (x * y :: u64) = (unat x * unat y) mod 18446744073709551616"
  by (simp add: unat_word_ariths)

lemma unat_add_small_u64:
  "unat x + unat y < 18446744073709551616 \<Longrightarrow> unat (x + y :: u64) = unat x + unat y"
  by (simp add: unat_add_u64)

lemma mod_wrap_once: "m \<le> a \<Longrightarrow> a < m + m \<Longrightarrow> a mod m = a - m" for a m :: nat
  by (simp add: le_mod_geq less_diff_conv2)

lemma unat_add_wrap_u64:
  "18446744073709551616 \<le> unat x + unat y \<Longrightarrow> unat (x + y :: u64) = unat x + unat y - 18446744073709551616"
  unfolding unat_add_u64 by (rule mod_wrap_once, assumption, rule add_less_mono, simp_all)

lemma unat_mult_small_u64:
  "unat x * unat y < 18446744073709551616 \<Longrightarrow> unat (x * y :: u64) = unat x * unat y"
  by (simp add: unat_mult_u64)

lemma unat_sub_u64: "y \<le> x \<Longrightarrow> unat (x - y :: u64) = unat x - unat y"
  by (simp add: unat_sub)

lemma unat_min_u64 [bound_simps]: "unat (min x y :: u64) = min (unat x) (unat y)"
  by (simp add: min_def word_le_nat_alt)

lemma unat_max_u64 [bound_simps]: "unat (max x y :: u64) = max (unat x) (unat y)"
  by (simp add: max_def word_le_nat_alt)

lemma unat_div_u64 [bound_simps]: "unat (x div y :: u64) = unat x div unat y"
  by (rule unat_div)

lemma unat_mod_u64 [bound_simps]: "unat (x mod y :: u64) = unat x mod unat y"
  by (rule unat_mod)


section \<open>Sorting with a comparison function\<close>

text \<open>
  \<^verbatim>\<open>std::sort(first, last, lt)\<close> leaves a permutation of the range in an order the
  comparison accepts. The model is an insertion sort. Where the comparison is total the
  result is the only sorted permutation (\<open>std_sort_unique\<close>), so no other sorting
  algorithm can give a different one; where the sources sort by a key only, the
  validation that follows refuses equal keys.
\<close>

fun insert_by :: "('a \<Rightarrow> 'a \<Rightarrow> bool) \<Rightarrow> 'a \<Rightarrow> 'a list \<Rightarrow> 'a list" where
  "insert_by lt x [] = [x]"
| "insert_by lt x (y # ys) = (if lt y x then y # insert_by lt x ys else x # y # ys)"

fun std_sort :: "('a \<Rightarrow> 'a \<Rightarrow> bool) \<Rightarrow> 'a list \<Rightarrow> 'a list" where
  "std_sort lt [] = []"
| "std_sort lt (x # xs) = insert_by lt x (std_sort lt xs)"

lemma mset_insert_by [sort_simps]: "mset (insert_by lt x xs) = add_mset x (mset xs)"
  by (induction xs) auto

lemma mset_std_sort [sort_simps]: "mset (std_sort lt xs) = mset xs"
  by (induction xs) (auto simp: mset_insert_by)

lemma set_std_sort [sort_simps]: "set (std_sort lt xs) = set xs"
  by (metis mset_std_sort set_mset_mset)

lemma set_insert_by [sort_simps]: "set (insert_by lt x xs) = insert x (set xs)"
  by (metis mset_insert_by set_mset_mset set_mset_add_mset_insert)

lemma length_std_sort [sort_simps]: "length (std_sort lt xs) = length xs"
  by (metis mset_std_sort size_mset)

text \<open>What \<^verbatim>\<open>std::sort\<close> asks of a comparison: a strict weak order.\<close>

locale comparator =
  fixes lt :: "'a \<Rightarrow> 'a \<Rightarrow> bool"
  assumes less_irrefl: "\<not> lt x x"
    and less_trans: "lt x y \<Longrightarrow> lt y z \<Longrightarrow> lt x z"
    and less_weak: "lt x z \<Longrightarrow> lt x y \<or> lt y z"
begin

lemma less_asym: "lt x y \<Longrightarrow> \<not> lt y x"
  using less_irrefl less_trans by blast

lemma insert_by_sorted:
  "sorted_wrt (\<lambda>a b. \<not> lt b a) xs \<Longrightarrow> sorted_wrt (\<lambda>a b. \<not> lt b a) (insert_by lt x xs)"
proof (induction xs)
  case Nil
  then show ?case by simp
next
  case (Cons y ys)
  show ?case
  proof (cases "lt y x")
    case True
    with Cons show ?thesis by (auto simp: set_insert_by dest: less_asym)
  next
    case False
    have "\<not> lt z x" if "z \<in> set ys" for z
      using that False Cons.prems less_weak [of z x y] by auto
    with False Cons.prems show ?thesis by simp
  qed
qed

lemma std_sort_sorted: "sorted_wrt (\<lambda>a b. \<not> lt b a) (std_sort lt xs)"
  by (induction xs) (simp_all add: insert_by_sorted)

lemma insert_by_id: "(\<And>y. y \<in> set xs \<Longrightarrow> \<not> lt y x) \<Longrightarrow> insert_by lt x xs = x # xs"
  by (cases xs) auto

lemma std_sort_id: "sorted_wrt (\<lambda>a b. \<not> lt b a) xs \<Longrightarrow> std_sort lt xs = xs"
  by (induction xs) (simp_all add: insert_by_id)

end

text \<open>A comparison that separates any two different values has one sorted permutation only.\<close>

locale total_comparator = comparator +
  assumes less_total: "x \<noteq> y \<Longrightarrow> lt x y \<or> lt y x"
begin

lemma sorted_unique:
  "sorted_wrt (\<lambda>a b. \<not> lt b a) xs \<Longrightarrow> sorted_wrt (\<lambda>a b. \<not> lt b a) ys \<Longrightarrow>
   mset xs = mset ys \<Longrightarrow> xs = ys"
proof (induction xs arbitrary: ys)
  case Nil
  then show ?case by simp
next
  case (Cons x xs)
  then obtain y zs where ys: "ys = y # zs" by (cases ys) auto
  have "x = y"
  proof (rule ccontr)
    assume ne: "x \<noteq> y"
    have "x \<in> set ys" "y \<in> set (x # xs)"
      using Cons.prems(3) ys by (metis list.set_intros(1) set_mset_mset)+
    with ne ys have "x \<in> set zs" "y \<in> set xs" by auto
    with Cons.prems ys have "\<not> lt x y" "\<not> lt y x" by auto
    with ne less_total show False by blast
  qed
  with Cons ys show ?case by auto
qed

lemma std_sort_unique:
  "sorted_wrt (\<lambda>a b. \<not> lt b a) ys \<Longrightarrow> mset ys = mset xs \<Longrightarrow> std_sort lt xs = ys"
  by (rule sorted_unique) (simp_all add: std_sort_sorted mset_std_sort)

lemma std_sort_perm: "mset xs = mset ys \<Longrightarrow> std_sort lt xs = std_sort lt ys"
  by (rule sorted_unique) (simp_all add: std_sort_sorted mset_std_sort)

end

text \<open>Comparing by a key of a linear order, the comparison of every \<^verbatim>\<open>canonicalize()\<close>.\<close>

lemma comparator_key: "comparator (\<lambda>a b. f a < (f b :: 'k :: linorder))"
  by unfold_locales auto

lemma total_comparator_less: "total_comparator (\<lambda>a b. a < (b :: 'k :: linorder))"
  by unfold_locales auto

lemma std_sort_less_eq_sort: "std_sort (\<lambda>a b. a < (b :: 'k :: linorder)) xs = sort xs"
  by (rule total_comparator.std_sort_unique [OF total_comparator_less])
    (simp_all add: not_less)

text \<open>Keys that are strictly ascending: what the sources call canonical order.\<close>

definition ascending :: "('a \<Rightarrow> 'k :: linorder) \<Rightarrow> 'a list \<Rightarrow> bool" where
  "ascending f xs \<longleftrightarrow> sorted_wrt (\<lambda>a b. f a < f b) xs"

lemma ascending_Nil [simp]: "ascending f []"
  and ascending_Cons [simp]: "ascending f (x # xs) \<longleftrightarrow> (\<forall>y\<in>set xs. f x < f y) \<and> ascending f xs"
  by (simp_all add: ascending_def)

lemma ascending_distinct: "ascending f xs \<Longrightarrow> distinct (map f xs)"
  by (induction xs) auto

lemma ascending_std_sort_id: "ascending f xs \<Longrightarrow> std_sort (\<lambda>a b. f a < f b) xs = xs"
proof (rule comparator.std_sort_id [OF comparator_key])
  assume "ascending f xs"
  then show "sorted_wrt (\<lambda>a b. \<not> f b < f a) xs"
    unfolding ascending_def by (rule sorted_wrt_mono_rel [rotated]) auto
qed

lemma weakly_ascending:
  "sorted_wrt (\<lambda>a b. \<not> f b < f a) ys \<Longrightarrow> distinct (map f ys) \<Longrightarrow> ascending f ys"
  by (induction ys) (auto simp: not_less less_le)

lemma std_sort_ascending:
  assumes "distinct (map f xs)"
  shows "ascending f (std_sort (\<lambda>a b. f a < f b) xs)"
proof (rule weakly_ascending)
  show "sorted_wrt (\<lambda>a b. \<not> f b < f a) (std_sort (\<lambda>a b. f a < f b) xs)"
    by (rule comparator.std_sort_sorted [OF comparator_key])
  have "mset (map f (std_sort (\<lambda>a b. f a < f b) xs)) = mset (map f xs)"
    by (simp add: mset_std_sort)
  then show "distinct (map f (std_sort (\<lambda>a b. f a < f b) xs))"
    using assms by (metis mset_eq_imp_distinct_iff)
qed


section \<open>Binary search\<close>

text \<open>
  \<^verbatim>\<open>std::lower_bound\<close> halves the range \<open>[first, first + len)\<close> until it is empty;
  \<open>below\<close> is the comparison of an element with the key. It is modelled as the
  search itself, not as its result: \<open>lower_bound_first\<close> shows that on a range
  that is partitioned by \<open>below\<close> it ends at the first element that is not below.
\<close>

function lower_bound :: "('a \<Rightarrow> bool) \<Rightarrow> 'a list \<Rightarrow> nat \<Rightarrow> nat \<Rightarrow> nat" where
  "lower_bound below xs first len =
     (if len = 0 then first
      else let half = len div 2; mid = first + half in
        if below (xs ! mid) then lower_bound below xs (mid + 1) (len - half - 1)
        else lower_bound below xs first half)"
  by pat_completeness auto
termination
  by (relation "measure (\<lambda>(below, xs, first, len). len)") auto

declare lower_bound.simps [simp del]

lemma lower_bound_first:
  assumes "first + len \<le> length xs"
    and "first \<le> n" "n \<le> first + len"
    and "\<And>i. first \<le> i \<Longrightarrow> i < n \<Longrightarrow> below (xs ! i)"
    and "\<And>i. n \<le> i \<Longrightarrow> i < first + len \<Longrightarrow> \<not> below (xs ! i)"
  shows "lower_bound below xs first len = n"
  using assms
proof (induction below xs first len arbitrary: n rule: lower_bound.induct)
  case (1 below xs first len)
  show ?case
  proof (cases "len = 0")
    case True
    with "1.prems" show ?thesis by (simp add: lower_bound.simps)
  next
    case False
    define mid where "mid = first + len div 2"
    have mid: "first \<le> mid" "mid < first + len" using False by (auto simp: mid_def)
    show ?thesis
    proof (cases "below (xs ! mid)")
      case True
      with "1.prems"(5) [of mid] mid have "mid < n" by (meson not_le)
      then have "lower_bound below xs (mid + 1) (len - len div 2 - 1) = n"
        using "1.prems" False True mid
        by (intro "1.IH"(1) [OF False refl mid_def]) (auto simp: mid_def)
      with False True show ?thesis by (simp add: lower_bound.simps [of below xs first] mid_def Let_def)
    next
      case below: False
      with "1.prems"(4) [of mid] mid have "n \<le> mid" by (meson not_le)
      then have "lower_bound below xs first (len div 2) = n"
        using "1.prems" False below mid
        by (intro "1.IH"(2) [OF False refl mid_def]) (auto simp: mid_def)
      with False below show ?thesis by (simp add: lower_bound.simps [of below xs first] mid_def Let_def)
    qed
  qed
qed

text \<open>\<^verbatim>\<open>binary_find\<close> of src/evidence.cpp: the element with the key, if the search ends on it.\<close>

definition binary_find :: "('a \<Rightarrow> 'k :: linorder) \<Rightarrow> 'a list \<Rightarrow> 'k \<Rightarrow> 'a option" where
  "binary_find project items key =
     (let position = lower_bound (\<lambda>item. project item < key) items 0 (length items) in
      if position = length items \<or> project (items ! position) \<noteq> key then None
      else Some (items ! position))"

lemma ascending_nth: "ascending f xs \<Longrightarrow> i < j \<Longrightarrow> j < length xs \<Longrightarrow> f (xs ! i) < f (xs ! j)"
  unfolding ascending_def by (simp add: sorted_wrt_iff_nth_less)

lemma lower_bound_ascending:
  assumes asc: "ascending f xs"
  shows "lower_bound (\<lambda>x. f x < k) xs 0 (length xs) = length (takeWhile (\<lambda>x. f x < k) xs)"
    (is "_ = ?n")
proof (rule lower_bound_first)
  show "?n \<le> 0 + length xs" by (simp add: length_takeWhile_le)
  show "f (xs ! i) < k" if "i < ?n" for i
    using that nth_length_takeWhile [of "\<lambda>x. f x < k" xs]
    by (metis (mono_tags, lifting) nth_mem set_takeWhileD takeWhile_nth)
  show "\<not> f (xs ! i) < k" if "?n \<le> i" "i < 0 + length xs" for i
  proof (cases "i = ?n")
    case True
    with that show ?thesis using nth_length_takeWhile [of "\<lambda>x. f x < k" xs] by simp
  next
    case False
    with that have "?n < i" "?n < length xs" by simp_all
    then have "f (xs ! ?n) < f (xs ! i)" using asc that by (simp add: ascending_nth)
    moreover have "\<not> f (xs ! ?n) < k"
      using nth_length_takeWhile [OF \<open>?n < length xs\<close>] .
    ultimately show ?thesis by simp
  qed
qed simp_all

lemma binary_find_Some:
  assumes "binary_find f xs k = Some x"
  shows "f x = k"
  using assms by (auto simp: binary_find_def Let_def split: if_splits)

text \<open>On a canonical vector the binary search agrees with a scan from the left.\<close>

lemma binary_find_eq_find:
  assumes asc: "ascending f xs"
  shows "binary_find f xs k = find (\<lambda>x. f x = k) xs"
proof -
  define n where "n = length (takeWhile (\<lambda>x. f x < k) xs)"
  have pos: "lower_bound (\<lambda>x. f x < k) xs 0 (length xs) = n"
    using lower_bound_ascending [OF asc] by (simp add: n_def)
  have before: "f (xs ! i) < k" if "i < n" for i
    using that unfolding n_def by (metis (mono_tags, lifting) nth_mem set_takeWhileD takeWhile_nth)
  have after: "k \<le> f (xs ! n)" if "n < length xs"
    using that nth_length_takeWhile [of "\<lambda>x. f x < k" xs] by (simp add: n_def not_less)
  show ?thesis
  proof (cases "n < length xs \<and> f (xs ! n) = k")
    case True
    then have "find (\<lambda>x. f x = k) xs = Some (xs ! n)"
      unfolding find_Some_iff by (intro exI [of _ n]) (auto dest: before)
    with True show ?thesis by (simp add: binary_find_def pos)
  next
    case False
    have "n \<le> length xs" by (simp add: n_def length_takeWhile_le)
    have "f (xs ! i) \<noteq> k" if "i < length xs" for i
    proof (cases i n rule: linorder_cases)
      case less
      then show ?thesis by (auto dest: before)
    next
      case equal
      with False that show ?thesis by auto
    next
      case greater
      with that have "f (xs ! n) < f (xs ! i)" "n < length xs"
        using ascending_nth [OF asc] by auto
      with after show ?thesis by auto
    qed
    then have "find (\<lambda>x. f x = k) xs = None"
      by (auto simp: find_None_iff in_set_conv_nth)
    with False \<open>n \<le> length xs\<close> show ?thesis by (auto simp: binary_find_def pos)
  qed
qed

lemma find_ascending_Some:
  assumes "ascending f xs" and "x \<in> set xs"
  shows "find (\<lambda>y. f y = f x) xs = Some x"
  using assms by (induction xs) auto

lemma binary_find_mem:
  "ascending f xs \<Longrightarrow> binary_find f xs k = Some x \<longleftrightarrow> x \<in> set xs \<and> f x = k"
  by (auto simp: binary_find_eq_find find_ascending_Some dest: find_ascending_Some)
    (auto simp: find_Some_iff)


section \<open>Identity maps\<close>

text \<open>
  \<^verbatim>\<open>std::unordered_map\<close> as an association list with distinct keys. The order of the
  list stands for the unspecified iteration order; every result that leaves a component
  is sorted first, or is a count.
\<close>

type_synonym ('k, 'v) idmap = "('k \<times> 'v) list"

definition idm_find :: "('k, 'v) idmap \<Rightarrow> 'k \<Rightarrow> 'v option" where
  "idm_find m k = map_of m k"

definition idm_store :: "'k \<Rightarrow> 'v \<Rightarrow> ('k, 'v) idmap \<Rightarrow> ('k, 'v) idmap" where
  "idm_store k v m = AList.update k v m"

definition idm_erase :: "'k \<Rightarrow> ('k, 'v) idmap \<Rightarrow> ('k, 'v) idmap" where
  "idm_erase k m = AList.delete k m"

definition idm_size :: "('k, 'v) idmap \<Rightarrow> nat" where
  "idm_size m = length m"

definition idm_values :: "('k, 'v) idmap \<Rightarrow> 'v list" where
  "idm_values m = map snd m"

definition idm_each :: "('v \<Rightarrow> 'v) \<Rightarrow> ('k, 'v) idmap \<Rightarrow> ('k, 'v) idmap" where
  "idm_each f m = map (\<lambda>(k, v). (k, f v)) m"

definition idm_wf :: "('k, 'v) idmap \<Rightarrow> bool" where
  "idm_wf m \<longleftrightarrow> distinct (map fst m)"

locale keyed_map =
  fixes lookup :: "'m \<Rightarrow> 'k \<Rightarrow> 'v option"
    and store :: "'k \<Rightarrow> 'v \<Rightarrow> 'm \<Rightarrow> 'm"
    and erase :: "'k \<Rightarrow> 'm \<Rightarrow> 'm"
    and entries :: "'m \<Rightarrow> nat"
    and wf :: "'m \<Rightarrow> bool"
    and void :: 'm
  assumes wf_void: "wf void"
    and lookup_void: "lookup void k = None"
    and entries_void: "entries void = 0"
    and wf_store: "wf m \<Longrightarrow> wf (store k v m)"
    and wf_erase: "wf m \<Longrightarrow> wf (erase k m)"
    and lookup_store: "lookup (store k v m) k' = (if k' = k then Some v else lookup m k')"
    and lookup_erase: "wf m \<Longrightarrow> lookup (erase k m) k' = (if k' = k then None else lookup m k')"
    and entries_store:
      "entries (store k v m) = (if lookup m k = None then Suc (entries m) else entries m)"
    and entries_erase: "entries (erase k m) \<le> entries m"
begin

text \<open>
  The insertion discipline of every bounded table of the runtime: an unknown key is
  stored only while the table is below its capacity.
\<close>

lemma bounded_store:
  "entries m \<le> cap \<Longrightarrow> lookup m k \<noteq> None \<or> entries m < cap \<Longrightarrow> entries (store k v m) \<le> cap"
  by (auto simp: entries_store)

lemma bounded_erase: "entries m \<le> cap \<Longrightarrow> entries (erase k m) \<le> cap"
  using entries_erase le_trans by blast

end

interpretation idm: keyed_map idm_find idm_store idm_erase idm_size idm_wf "[]"
proof
  show "idm_size (idm_store k v m) = (if idm_find m k = None then Suc (idm_size m) else idm_size m)"
    for k v m
    by (induction m) (auto simp: idm_size_def idm_store_def idm_find_def)
qed (auto simp: idm_wf_def idm_find_def idm_store_def idm_erase_def idm_size_def
    distinct_update distinct_delete update_conv' delete_conv' length_delete_le)

lemmas [idmap_simps, simp] = idm.wf_void idm.lookup_void idm.entries_void idm.wf_store idm.wf_erase
  idm.lookup_store idm.lookup_erase

lemma idm_find_each [idmap_simps, simp]: "idm_find (idm_each f m) k = map_option f (idm_find m k)"
  by (induction m) (auto simp: idm_find_def idm_each_def)

lemma idm_wf_each [idmap_simps, simp]: "idm_wf (idm_each f m) = idm_wf m"
  by (simp add: idm_wf_def idm_each_def case_prod_unfold comp_def)

lemma idm_size_each [idmap_simps, simp]: "idm_size (idm_each f m) = idm_size m"
  by (simp add: idm_size_def idm_each_def)

lemma idm_values_find:
  "idm_wf m \<Longrightarrow> v \<in> set (idm_values m) \<longleftrightarrow> (\<exists>k. idm_find m k = Some v)"
  by (force simp: idm_wf_def idm_values_def idm_find_def dest: map_of_SomeD)


section \<open>Name tables\<close>

text \<open>
  The \<^verbatim>\<open>x_from_string\<close> functions scan a constant table for the spelling and report
  failure when it is not there; \<open>None\<close> is the result \<^verbatim>\<open>false\<close>.
\<close>

fun table_find :: "(string \<times> 'e) list \<Rightarrow> string \<Rightarrow> 'e option" where
  "table_find [] text = None"
| "table_find (entry # rest) text = (if fst entry = text then Some (snd entry) else table_find rest text)"

lemma table_find_eq_map_of: "table_find table text = map_of table text"
  by (induction table) auto

locale name_table =
  fixes name :: "'e \<Rightarrow> string"
    and table :: "(string \<times> 'e) list"
  assumes table_names: "list_all (\<lambda>(n, e). name e = n) table"
    and table_distinct: "distinct (map fst table)"
    and table_complete: "e \<in> snd ` set table"
begin

lemma parse_print: "table_find table (name e) = Some e"
proof -
  from table_complete obtain n where n: "(n, e) \<in> set table" by force
  with table_names have "name e = n" by (auto simp: list_all_iff)
  with n table_distinct show ?thesis by (simp add: table_find_eq_map_of)
qed

lemma print_parse: "table_find table text = Some e \<Longrightarrow> name e = text"
  using table_names by (auto simp: table_find_eq_map_of list_all_iff dest: map_of_SomeD)

lemma parse_iff: "table_find table text = Some e \<longleftrightarrow> text = name e"
  using parse_print print_parse by blast

lemma name_inj: "name e = name e' \<longleftrightarrow> e = e'"
  by (metis option.inject parse_print)

end


section \<open>Step functions and invariants\<close>

text \<open>
  A component whose operations are steps of one machine. An invariant every step keeps
  holds after every sequence of steps, whatever the order in which the callers
  interleave them under the component's lock.
\<close>

locale invariant_system =
  fixes step :: "'s \<Rightarrow> 'op \<Rightarrow> 's"
    and inv :: "'s \<Rightarrow> bool"
  assumes step_inv: "inv s \<Longrightarrow> inv (step s op)"
begin

lemma run_inv: "inv s \<Longrightarrow> inv (foldl step s ops)"
  by (induction ops arbitrary: s) (simp_all add: step_inv)

lemma run_prefix_inv: "inv s \<Longrightarrow> inv (foldl step s (take n ops))"
  by (rule run_inv)

end

text \<open>
  A concrete step function that simulates an abstract one under a representation relation:
  the refinement of a component to its specification.
\<close>

locale simulation =
  fixes step :: "'s \<Rightarrow> 'op \<Rightarrow> 's"
    and spec_step :: "'a \<Rightarrow> 'op \<Rightarrow> 'a"
    and represents :: "'a \<Rightarrow> 's \<Rightarrow> bool"
  assumes step_represents: "represents a s \<Longrightarrow> represents (spec_step a op) (step s op)"
begin

lemma run_represents: "represents a s \<Longrightarrow> represents (foldl spec_step a ops) (foldl step s ops)"
  by (induction ops arbitrary: a s) (simp_all add: step_represents)

end

text \<open>
  A system built from parts: every operation of the system is a sequence of operations of the part. What a
  part guarantees of its own runs then holds of every run of the system.
\<close>

definition reaches :: "('s \<Rightarrow> 'op \<Rightarrow> 's) \<Rightarrow> 's \<Rightarrow> 's \<Rightarrow> bool" where
  "reaches step s t \<longleftrightarrow> (\<exists>ops. t = foldl step s ops)"

lemma reaches_refl [simp, intro]: "reaches step s s"
  unfolding reaches_def by (rule exI [of _ "[]"]) simp

lemma reaches_step: "reaches step s (step s op)"
  unfolding reaches_def by (rule exI [of _ "[op]"]) simp

lemma reaches_trans: "reaches step s t \<Longrightarrow> reaches step t u \<Longrightarrow> reaches step s u"
  unfolding reaches_def by (metis foldl_append)

locale component =
  fixes step :: "'s \<Rightarrow> 'op \<Rightarrow> 's"
    and allowed :: "'op \<Rightarrow> bool"
    and part :: "'s \<Rightarrow> 'c"
    and part_step :: "'c \<Rightarrow> 'cop \<Rightarrow> 'c"
  assumes step_part: "allowed op \<Longrightarrow> reaches part_step (part s) (part (step s op))"
begin

lemma run_part: "list_all allowed ops \<Longrightarrow> reaches part_step (part s) (part (foldl step s ops))"
proof (induction ops arbitrary: s)
  case (Cons op ops)
  then show ?case using reaches_trans [OF step_part [of op s] Cons.IH] by simp
qed simp

lemma run_part_inv:
  assumes "invariant_system part_step good" "list_all allowed ops" "good (part s)"
  shows "good (part (foldl step s ops))"
proof -
  from run_part [OF assms(2)] obtain cops where "part (foldl step s ops) = foldl part_step (part s) cops"
    unfolding reaches_def by blast
  then show ?thesis using invariant_system.run_inv [OF assms(1,3)] by simp
qed

end

end
