(* ===== verification/CTF_Identity.thy ===== *)
theory CTF_Identity
  imports CTF_Prelude
begin

text \<open>
  include/ctf/identity.hpp and src/identity.cpp: the opaque 128-bit identity with its
  total order, its canonical 32-character spelling, the deterministic
  \<^verbatim>\<open>IdentityMinter\<close>, the process-wide \<^verbatim>\<open>mint_identity\<close> and the
  \<^verbatim>\<open>Sequence\<close> counter.

  \<^verbatim>\<open>entropy_seed()\<close> reads the operating system's entropy, the clock and the process
  identifier; its result is a field of the minting state, so every statement about
  minted identities holds for every seed.
\<close>


section \<open>Identities\<close>

datatype Identity = Identity (high: u64) (low: u64)

definition no_identity :: Identity where
  "no_identity = Identity 0 0"

definition is_none :: "Identity \<Rightarrow> bool" where
  "is_none i \<longleftrightarrow> high i = 0 \<and> low i = 0"

definition is_some :: "Identity \<Rightarrow> bool" where
  "is_some i \<longleftrightarrow> \<not> is_none i"

definition identity_less :: "Identity \<Rightarrow> Identity \<Rightarrow> bool" where
  "identity_less a b \<longleftrightarrow> (if high a \<noteq> high b then high a < high b else low a < low b)"

lemma is_none_iff: "is_none i \<longleftrightarrow> i = no_identity"
  by (cases i) (simp add: is_none_def no_identity_def)

lemma is_none_no_identity [simp]: "is_none no_identity" "\<not> is_some no_identity"
  by (simp_all add: is_none_iff is_some_def)

instantiation Identity :: linorder
begin

definition less_Identity :: "Identity \<Rightarrow> Identity \<Rightarrow> bool" where
  "less_Identity a b = identity_less a b"

definition less_eq_Identity :: "Identity \<Rightarrow> Identity \<Rightarrow> bool" where
  "less_eq_Identity a b = (\<not> identity_less b a)"

instance
  by standard
    (auto simp: less_Identity_def less_eq_Identity_def identity_less_def Identity.expand
      split: if_splits)

end

type_synonym CollectiveId = Identity
type_synonym CollectiveGeneration = Identity
type_synonym CollectiveAttemptId = Identity
type_synonym ParticipantId = Identity
type_synonym FlowGroupId = Identity
type_synonym TopologyGeneration = Identity
type_synonym PolicyGeneration = Identity
type_synonym CoordinatorEpoch = Identity
type_synonym BootIncarnation = Identity
type_synonym EvidenceGeneration = Identity
type_synonym SessionId = Identity
type_synonym NodeId = Identity
type_synonym RackId = Identity
type_synonym SwitchId = Identity
type_synonym LinkId = Identity
type_synonym FabricInstanceId = Identity


section \<open>Canonical spelling\<close>

definition kHexDigits :: string where
  "kHexDigits = ''0123456789abcdef''"

text \<open>The loop fills the 16-character buffer from its last position.\<close>

fun append_hex64_loop :: "nat \<Rightarrow> u64 \<Rightarrow> string \<Rightarrow> string" where
  "append_hex64_loop 0 v buffer = buffer"
| "append_hex64_loop (Suc n) v buffer =
     append_hex64_loop n (drop_bit 4 v) (kHexDigits ! unat (v AND 15) # buffer)"

definition append_hex64 :: "string \<Rightarrow> u64 \<Rightarrow> string" where
  "append_hex64 out v = out @ append_hex64_loop 16 v []"

definition hex_value :: "char \<Rightarrow> int" where
  "hex_value c =
     (let n = of_char c in
      if 48 \<le> n \<and> n \<le> 57 then n - 48 else if 97 \<le> n \<and> n \<le> 102 then n - 97 + 10 else - 1)"

definition identity_to_string :: "Identity \<Rightarrow> string" where
  "identity_to_string i = append_hex64 (append_hex64 [] (high i)) (low i)"

fun identity_parse_loop :: "string \<Rightarrow> nat \<Rightarrow> u64 \<Rightarrow> u64 \<Rightarrow> Identity option" where
  "identity_parse_loop [] index hi lo = Some (Identity hi lo)"
| "identity_parse_loop (c # cs) index hi lo =
     (let nibble = hex_value c in
      if nibble < 0 then None
      else if index < 16
      then identity_parse_loop cs (Suc index) (push_bit 4 hi OR word_of_int nibble) lo
      else identity_parse_loop cs (Suc index) hi (push_bit 4 lo OR word_of_int nibble))"

definition identity_parse :: "string \<Rightarrow> Identity option" where
  "identity_parse text = (if length text \<noteq> 32 then None else identity_parse_loop text 0 0 0)"


section \<open>Minting\<close>

definition mix64 :: "u64 \<Rightarrow> u64" where
  "mix64 v0 =
     (let v1 = v0 + 0x9E3779B97F4A7C15;
          v2 = (v1 XOR drop_bit 30 v1) * 0xBF58476D1CE4E5B9;
          v3 = (v2 XOR drop_bit 27 v2) * 0x94D049BB133111EB
      in v3 XOR drop_bit 31 v3)"

text \<open>\<^verbatim>\<open>IdentityMinter\<close>: the state is the mixed seed.\<close>

definition minter_new :: "u64 \<Rightarrow> u64" where
  "minter_new seed =
     (let v1 = seed + 0x9E3779B97F4A7C15;
          v2 = (v1 XOR drop_bit 30 v1) * 0xBF58476D1CE4E5B9;
          v3 = (v2 XOR drop_bit 27 v2) * 0x94D049BB133111EB
      in v3 XOR drop_bit 31 v3)"

definition minter_next :: "u64 \<Rightarrow> Identity \<times> u64" where
  "minter_next state =
     (let state' = mix64 state;
          hi = mix64 state';
          lo = mix64 ((state' XOR 0xA5A5A5A5A5A5A5A5) XOR hi)
      in (Identity hi lo, state'))"

record mint_source =
  ms_entropy :: u64
  ms_counter :: u64

definition mint_identity :: "mint_source \<Rightarrow> Identity \<times> mint_source" where
  "mint_identity ms =
     (let counter = ms_counter ms;
          ms' = ms\<lparr>ms_counter := counter + 1\<rparr>;
          hi = mix64 (ms_entropy ms XOR (counter * 0x9E3779B97F4A7C15));
          lo = mix64 (ms_entropy ms + 0x165667B19E3779F9 + counter);
          minted = Identity hi lo
      in if is_none minted then (Identity 1 1, ms') else (minted, ms'))"

text \<open>
  The loop of \<^verbatim>\<open>AuthorityState::begin_boot\<close>: mint until the candidate differs from
  the last durable epoch and from the current one.
\<close>

partial_function (option) mint_fresh ::
  "Identity \<Rightarrow> Identity \<Rightarrow> mint_source \<Rightarrow> (Identity \<times> mint_source) option" where
  "mint_fresh durable cur ms =
     (case mint_identity ms of (candidate, ms') \<Rightarrow>
        if candidate = durable \<or> candidate = cur then mint_fresh durable cur ms'
        else Some (candidate, ms'))"


section \<open>Sequence numbers\<close>

type_synonym Sequence = u64

definition is_unset :: "Sequence \<Rightarrow> bool" where
  "is_unset s \<longleftrightarrow> s = 0"

function decimal_loop :: "u64 \<Rightarrow> string \<Rightarrow> string" where
  "decimal_loop v digits =
     (if v = 0 then digits else decimal_loop (v div 10) (char_of (48 + unat (v mod 10)) # digits))"
  by pat_completeness auto
termination
proof (relation "measure (\<lambda>(v, digits). unat v)")
  fix v :: u64 and digits :: string
  assume "v \<noteq> 0"
  then have "0 < unat v" by (simp add: unat_gt_0)
  then show "((v div 10, char_of (48 + unat (v mod 10)) # digits), (v, digits))
    \<in> measure (\<lambda>(v, digits). unat v)"
    by (simp add: unat_div_u64)
qed simp

declare decimal_loop.simps [simp del]

definition decimal :: "u64 \<Rightarrow> string" where
  "decimal v = (if v = 0 then ''0'' else decimal_loop v [])"

definition sequence_to_string :: "Sequence \<Rightarrow> string" where
  "sequence_to_string s = ''seq:'' @ (if s = 0 then ''0'' else decimal_loop s [])"


section \<open>The mixing function is injective\<close>

lemma minter_new_eq_mix64: "minter_new = mix64"
  by (simp add: fun_eq_iff minter_new_def mix64_def)

lemma xorshift_mult_inj:
  fixes c d x y :: u64
  assumes "c * d = 1" "0 < k" "(x XOR drop_bit k x) * c = (y XOR drop_bit k y) * c"
  shows "x = y"
  using mult_unit_inj [OF assms(1,3)] assms(2) by (rule xorshift_inj [rotated])

lemma mix64_multipliers:
  "(0xBF58476D1CE4E5B9 :: u64) * 0x96DE1B173F119089 = 1"
  "(0x94D049BB133111EB :: u64) * 0x319642B2D24D8EC3 = 1"
  "(0x9E3779B97F4A7C15 :: u64) * 0xF1DE83E19937733D = 1"
  by simp_all

lemma mix64_inj: "mix64 x = mix64 y \<longleftrightarrow> x = y"
proof
  assume eq: "mix64 x = mix64 y"
  define a where "a v = v + (0x9E3779B97F4A7C15 :: u64)" for v
  define f where "f v = (v XOR drop_bit 30 v) * (0xBF58476D1CE4E5B9 :: u64)" for v
  define g where "g v = (v XOR drop_bit 27 v) * (0x94D049BB133111EB :: u64)" for v
  have "g (f (a x)) XOR drop_bit 31 (g (f (a x))) = g (f (a y)) XOR drop_bit 31 (g (f (a y)))"
    using eq unfolding mix64_def Let_def a_def f_def g_def .
  then have "g (f (a x)) = g (f (a y))"
    by (rule xorshift_inj [rotated]) simp
  then have "f (a x) = f (a y)"
    unfolding g_def by (rule xorshift_mult_inj [OF mix64_multipliers(2), rotated]) simp
  then have "a x = a y"
    unfolding f_def by (rule xorshift_mult_inj [OF mix64_multipliers(1), rotated]) simp
  then show "x = y" by (simp add: a_def)
qed simp

text \<open>Two generations minted from different seeds differ in their high word already.\<close>

lemma minter_next_inj:
  "fst (minter_next (minter_new s)) = fst (minter_next (minter_new t)) \<longleftrightarrow> s = t"
  by (auto simp: minter_next_def Let_def minter_new_eq_mix64 mix64_inj)


section \<open>Minted identities\<close>

lemma mint_identity_some: "is_some (fst (mint_identity ms))"
  by (simp add: mint_identity_def Let_def is_some_def is_none_def)

lemma mint_identity_source:
  "snd (mint_identity ms) = ms\<lparr>ms_counter := ms_counter ms + 1\<rparr>"
  by (simp add: mint_identity_def Let_def)

text \<open>The identity computed from a counter value before the unset value is replaced.\<close>

definition raw_identity :: "u64 \<Rightarrow> u64 \<Rightarrow> Identity" where
  "raw_identity entropy counter =
     Identity (mix64 (entropy XOR (counter * 0x9E3779B97F4A7C15)))
       (mix64 (entropy + 0x165667B19E3779F9 + counter))"

lemma mint_identity_raw:
  "fst (mint_identity ms) =
     (let raw = raw_identity (ms_entropy ms) (ms_counter ms)
      in if is_none raw then Identity 1 1 else raw)"
  by (simp add: mint_identity_def raw_identity_def Let_def)

lemma raw_identity_inj: "raw_identity e c = raw_identity e d \<longleftrightarrow> c = d"
proof
  assume "raw_identity e c = raw_identity e d"
  then have "e XOR (c * 0x9E3779B97F4A7C15) = e XOR (d * 0x9E3779B97F4A7C15)"
    by (simp add: raw_identity_def mix64_inj)
  then have "c * 0x9E3779B97F4A7C15 = d * 0x9E3779B97F4A7C15"
    by (rule xor_left_inj)
  then show "c = d"
    by (rule mult_unit_inj [OF mix64_multipliers(3)])
qed simp

definition minted :: "u64 \<Rightarrow> u64 \<Rightarrow> Identity" where
  "minted entropy counter =
     (let raw = raw_identity entropy counter in if is_none raw then Identity 1 1 else raw)"

lemma mint_identity_eq:
  "mint_identity ms = (minted (ms_entropy ms) (ms_counter ms), ms\<lparr>ms_counter := ms_counter ms + 1\<rparr>)"
  by (rule prod_eqI) (simp_all add: mint_identity_raw minted_def mint_identity_source)

text \<open>
  An identity other than \<open>Identity 1 1\<close> comes from at most one counter value. That one
  has two sources at most: its own counter, and the counter whose raw identity is unset.
\<close>

lemma minted_eq_cases:
  assumes "minted e c = v"
  shows "raw_identity e c = v \<or> v = Identity 1 1 \<and> raw_identity e c = no_identity"
  using assms by (auto simp: minted_def Let_def is_none_iff split: if_splits)

lemma minted_collision:
  assumes "minted e c = v" "minted e d = v" "c \<noteq> d"
  shows "v = Identity 1 1"
  using minted_eq_cases [OF assms(1)] minted_eq_cases [OF assms(2)] assms(3)
  by (metis raw_identity_inj)

lemma minted_at_most_two:
  assumes "minted e a = v" "minted e b = v" "minted e c = v" "a \<noteq> b" "a \<noteq> c"
  shows "b = c"
  using minted_eq_cases [OF assms(1)] minted_eq_cases [OF assms(2)] minted_eq_cases [OF assms(3)]
    assms(4,5) by (metis raw_identity_inj)

lemma two_values_four_tries:
  assumes "\<And>i j :: nat. i < j \<Longrightarrow> j < 4 \<Longrightarrow> f i = f j \<Longrightarrow> f i = v"
    and "\<And>i j k :: nat. i < j \<Longrightarrow> j < k \<Longrightarrow> k < 4 \<Longrightarrow> \<not> (f i = v \<and> f j = v \<and> f k = v)"
  shows "\<exists>k<4. f k \<notin> {x, y}"
proof -
  have p: "f 0 = f 1 \<longrightarrow> f 0 = v" "f 0 = f 2 \<longrightarrow> f 0 = v" "f 0 = f 3 \<longrightarrow> f 0 = v"
      "f 1 = f 2 \<longrightarrow> f 1 = v" "f 1 = f 3 \<longrightarrow> f 1 = v" "f 2 = f 3 \<longrightarrow> f 2 = v"
    using assms(1) [of 0 1] assms(1) [of 0 2] assms(1) [of 0 3] assms(1) [of 1 2]
      assms(1) [of 1 3] assms(1) [of 2 3] by simp_all
  have t: "\<not> (f 0 = v \<and> f 1 = v \<and> f 2 = v)" "\<not> (f 0 = v \<and> f 1 = v \<and> f 3 = v)"
      "\<not> (f 0 = v \<and> f 2 = v \<and> f 3 = v)" "\<not> (f 1 = v \<and> f 2 = v \<and> f 3 = v)"
    using assms(2) [of 0 1 2] assms(2) [of 0 1 3] assms(2) [of 0 2 3] assms(2) [of 1 2 3] by auto
  have "f 0 \<notin> {x, y} \<or> f 1 \<notin> {x, y} \<or> f 2 \<notin> {x, y} \<or> f 3 \<notin> {x, y}"
  proof (rule ccontr)
    assume "\<not> ?thesis"
    then have h: "f 0 = x \<or> f 0 = y" "f 1 = x \<or> f 1 = y" "f 2 = x \<or> f 2 = y" "f 3 = x \<or> f 3 = y"
      by auto
    with p t show False by metis
  qed
  moreover have "(0 :: nat) < 4" "(1 :: nat) < 4" "(2 :: nat) < 4" "(3 :: nat) < 4" by simp_all
  ultimately show ?thesis by blast
qed

lemma fresh_within_four: "\<exists>k<4. minted e (c + of_nat k) \<notin> {x, y}"
proof (rule two_values_four_tries [where v = "Identity 1 1"])
  have ne: "c + of_nat i \<noteq> c + (of_nat j :: u64)" if "i < j" "j < 4" for i j
  proof -
    have "unat (of_nat i :: u64) = i" "unat (of_nat j :: u64) = j"
      using that by (simp_all add: unat_of_nat)
    with that have "(of_nat i :: u64) \<noteq> of_nat j" by force
    then show ?thesis by simp
  qed
  show "minted e (c + of_nat i) = Identity 1 1"
    if "i < j" "j < 4" "minted e (c + of_nat i) = minted e (c + of_nat j)" for i j
    using minted_collision [OF that(3) refl ne [OF that(1,2)]] that(3) by simp
  show "\<not> (minted e (c + of_nat i) = Identity 1 1 \<and> minted e (c + of_nat j) = Identity 1 1 \<and>
      minted e (c + of_nat k) = Identity 1 1)" if "i < j" "j < k" "k < 4" for i j k
    using minted_at_most_two [of e "c + of_nat i" "Identity 1 1" "c + of_nat j" "c + of_nat k"]
      ne [of i j] ne [of i k] ne [of j k] that by auto
qed

text \<open>How the loop unfolds, and that it ends within four rounds.\<close>

lemma mint_fresh_unfold:
  "mint_fresh x y ms =
     (let cand = minted (ms_entropy ms) (ms_counter ms); ms' = ms\<lparr>ms_counter := ms_counter ms + 1\<rparr>
      in if cand = x \<or> cand = y then mint_fresh x y ms' else Some (cand, ms'))"
  by (subst mint_fresh.simps) (simp add: mint_identity_eq Let_def)

lemma mint_fresh_ends:
  assumes "minted (ms_entropy ms) (ms_counter ms + of_nat k) \<notin> {x, y}"
  shows "\<exists>cand ms'. mint_fresh x y ms = Some (cand, ms') \<and> cand \<noteq> x \<and> cand \<noteq> y \<and> is_some cand
     \<and> ms_entropy ms' = ms_entropy ms"
  using assms
proof (induction k arbitrary: ms)
  case 0
  then show ?case
    by (subst mint_fresh_unfold)
      (auto simp: Let_def minted_def is_some_def is_none_def split: if_splits)
next
  case (Suc k)
  let ?ms = "ms\<lparr>ms_counter := ms_counter ms + 1\<rparr>"
  have "\<exists>cand ms'. mint_fresh x y ?ms = Some (cand, ms') \<and> cand \<noteq> x \<and> cand \<noteq> y \<and> is_some cand
     \<and> ms_entropy ms' = ms_entropy ?ms"
    using Suc.prems by (intro Suc.IH) (simp add: algebra_simps)
  then show ?case
    by (subst mint_fresh_unfold)
      (auto simp: Let_def minted_def is_some_def is_none_def split: if_splits)
qed


section \<open>The canonical spelling round-trips\<close>

lemma hex_value_of_digit: "n < 16 \<Longrightarrow> hex_value (kHexDigits ! n) = int n"
proof -
  have "list_all (\<lambda>n. hex_value (kHexDigits ! n) = int n) [0..<16]" by code_simp
  then show "n < 16 \<Longrightarrow> hex_value (kHexDigits ! n) = int n" by (simp add: list_all_iff)
qed

lemma digit_of_hex_value:
  assumes "0 \<le> hex_value c"
  shows "nat (hex_value c) < 16 \<and> kHexDigits ! nat (hex_value c) = c"
proof -
  define n :: nat where "n = of_char c"
  have c: "c = char_of n" and n: "(of_char c :: int) = int n" by (simp_all add: n_def of_nat_of_char)
  have "48 \<le> n \<and> n \<le> 57 \<or> 97 \<le> n \<and> n \<le> 102"
    using assms n by (auto simp: hex_value_def Let_def split: if_splits)
  then have "n = 48 \<or> n = 49 \<or> n = 50 \<or> n = 51 \<or> n = 52 \<or> n = 53 \<or> n = 54 \<or> n = 55 \<or>
      n = 56 \<or> n = 57 \<or> n = 97 \<or> n = 98 \<or> n = 99 \<or> n = 100 \<or> n = 101 \<or> n = 102"
    by presburger
  then show ?thesis
    by (elim disjE)
      (simp_all add: hex_value_def n Let_def, simp_all add: c kHexDigits_def nth_Cons' char_of_def bit_Suc_0_iff)
qed

text \<open>The sixteen nibbles of a word, most significant first, and the number they spell.\<close>

fun nibbles :: "nat \<Rightarrow> nat \<Rightarrow> nat list" where
  "nibbles 0 n = []"
| "nibbles (Suc k) n = nibbles k (n div 16) @ [n mod 16]"

definition spelled :: "nat list \<Rightarrow> nat" where
  "spelled ds = foldl (\<lambda>a d. a * 16 + d) 0 ds"

lemma spelled_snoc [simp]: "spelled (ds @ [d]) = spelled ds * 16 + d"
  by (simp add: spelled_def)

lemma nibbles_length [simp]: "length (nibbles k n) = k"
  by (induction k n rule: nibbles.induct) auto

lemma nibbles_small: "d \<in> set (nibbles k n) \<Longrightarrow> d < 16"
  by (induction k n rule: nibbles.induct) auto

lemma spelled_nibbles: "spelled (nibbles k n) = n mod 16 ^ k"
proof (induction k n rule: nibbles.induct)
  case (1 n)
  then show ?case by (simp add: spelled_def)
next
  case (2 k n)
  then show ?case by (simp add: mod_mult2_eq [of n 16 "16 ^ k"] mult.commute)
qed

lemma nibbles_spelled:
  "length ds = k \<Longrightarrow> (\<And>d. d \<in> set ds \<Longrightarrow> d < 16) \<Longrightarrow> nibbles k (spelled ds) = ds"
proof (induction k arbitrary: ds)
  case 0
  then show ?case by simp
next
  case (Suc k)
  then obtain es e where ds: "ds = es @ [e]" by (cases ds rule: rev_cases) auto
  with Suc show ?case by simp
qed

lemma append_hex64_loop_nibbles:
  "append_hex64_loop k v buffer = map (\<lambda>d. kHexDigits ! d) (nibbles k (unat v)) @ buffer"
proof (induction k v buffer rule: append_hex64_loop.induct)
  case (1 v buffer)
  then show ?case by simp
next
  case (2 k v buffer)
  have "v mod 16 = v AND 15"
    using take_bit_eq_mask [of 4 v] by (simp add: mask_eq_exp_minus_1 take_bit_eq_mod)
  then have "unat (v AND 15) = unat v mod 16"
    using unat_mod_u64 [of v 16] by simp
  with 2 show ?case by (simp add: drop_bit_eq_div unat_div_u64)
qed

lemma push_nibble: "d < 16 \<Longrightarrow> push_bit 4 w OR of_nat d = w * 16 + (of_nat d :: u64)"
proof -
  assume d: "d < 16"
  have "\<not> bit (of_nat d :: u64) n" if "4 \<le> n" for n
  proof -
    have "d < 2 ^ n" using d power_increasing [OF that, of "2 :: nat"] by simp
    then have "\<not> bit d n" by (simp add: bit_iff_odd)
    then show ?thesis by (simp add: bit_of_nat_iff)
  qed
  then have "push_bit 4 w AND (of_nat d :: u64) = 0"
    by (intro bit_eqI) (auto simp: bit_simps)
  then have "push_bit 4 w OR of_nat d = push_bit 4 w + (of_nat d :: u64)"
    by (simp add: disjunctive_add_eq_or)
  then show ?thesis by (simp add: push_bit_eq_mult)
qed

lemma foldl_push_nibbles:
  "(\<And>d. d \<in> set ds \<Longrightarrow> d < 16) \<Longrightarrow>
   foldl (\<lambda>a d. push_bit 4 a OR of_nat d) 0 ds = (of_nat (spelled ds) :: u64)"
  by (induction ds rule: rev_induct) (simp_all add: push_nibble spelled_def [of "[]"])

lemma identity_parse_loop_high:
  assumes "index + length ds \<le> 16" "\<And>d. d \<in> set ds \<Longrightarrow> d < 16"
  shows "identity_parse_loop (map (\<lambda>d. kHexDigits ! d) ds @ rest) index hi lo =
    identity_parse_loop rest (index + length ds) (foldl (\<lambda>a d. push_bit 4 a OR of_nat d) hi ds) lo"
  using assms
  by (induction ds arbitrary: index hi) (simp_all add: hex_value_of_digit Let_def)

lemma identity_parse_loop_low:
  assumes "16 \<le> index" "\<And>d. d \<in> set ds \<Longrightarrow> d < 16"
  shows "identity_parse_loop (map (\<lambda>d. kHexDigits ! d) ds) index hi lo =
    Some (Identity hi (foldl (\<lambda>a d. push_bit 4 a OR of_nat d) lo ds))"
  using assms
  by (induction ds arbitrary: index lo) (simp_all add: hex_value_of_digit Let_def)

lemma identity_parse_spelled:
  assumes "length ds = 16" "length es = 16" "\<And>d. d \<in> set ds \<union> set es \<Longrightarrow> d < 16"
  shows "identity_parse (map (\<lambda>d. kHexDigits ! d) ds @ map (\<lambda>d. kHexDigits ! d) es) =
    Some (Identity (of_nat (spelled ds)) (of_nat (spelled es)))"
  using assms identity_parse_loop_high [of 0 ds "map (\<lambda>d. kHexDigits ! d) es" 0 0]
  by (simp add: identity_parse_def identity_parse_loop_low foldl_push_nibbles)

lemma identity_to_string_nibbles:
  "identity_to_string i = map (\<lambda>d. kHexDigits ! d) (nibbles 16 (unat (high i)))
     @ map (\<lambda>d. kHexDigits ! d) (nibbles 16 (unat (low i)))"
  by (simp add: identity_to_string_def append_hex64_def append_hex64_loop_nibbles)

lemma identity_parse_loop_chars:
  "identity_parse_loop cs index hi lo = Some i \<Longrightarrow> c \<in> set cs \<Longrightarrow> 0 \<le> hex_value c"
  by (induction cs index hi lo rule: identity_parse_loop.induct) (auto simp: Let_def split: if_splits)

text \<open>parsing is the exact inverse of printing: every identity is read back from its own
  spelling, and a text is accepted for an identity only when it is that spelling.\<close>

theorem identity_roundtrip: "identity_parse text = Some i \<longleftrightarrow> text = identity_to_string i"
proof
  assume parse: "identity_parse text = Some i"
  then have len: "length text = 32" by (simp add: identity_parse_def split: if_splits)
  define ds where "ds = map (nat \<circ> hex_value) text"
  have digits: "nat (hex_value c) < 16 \<and> kHexDigits ! nat (hex_value c) = c" if "c \<in> set text" for c
    using parse that len
    by (auto simp: identity_parse_def intro!: digit_of_hex_value identity_parse_loop_chars)
  then have spell: "text = map (\<lambda>d. kHexDigits ! d) (take 16 ds) @ map (\<lambda>d. kHexDigits ! d) (drop 16 ds)"
    unfolding map_append [symmetric] append_take_drop_id by (simp add: ds_def map_idI)
  have small: "d < 16" if "d \<in> set ds" for d using that digits by (auto simp: ds_def)
  have halves: "length (take 16 ds) = 16" "length (drop 16 ds) = 16" by (simp_all add: ds_def len)
  have sub: "d < 16" if "d \<in> set (take 16 ds) \<union> set (drop 16 ds)" for d
    using that small by (auto dest: in_set_takeD in_set_dropD)
  have nib: "nibbles 16 (spelled xs) = xs" "unat (of_nat (spelled xs) :: u64) = spelled xs"
    if "length xs = 16" "\<And>d. d \<in> set xs \<Longrightarrow> d < 16" for xs
    using that nibbles_spelled [of xs 16] spelled_nibbles [of 16 "spelled xs"]
    by (simp_all add: unat_of_nat)
  have "i = Identity (of_nat (spelled (take 16 ds))) (of_nat (spelled (drop 16 ds)))"
    using parse identity_parse_spelled [OF halves sub] spell by simp
  then have "identity_to_string i = map (\<lambda>d. kHexDigits ! d) (take 16 ds) @ map (\<lambda>d. kHexDigits ! d) (drop 16 ds)"
    using nib halves sub by (simp add: identity_to_string_nibbles)
  with spell show "text = identity_to_string i" by simp
next
  assume "text = identity_to_string i"
  moreover have "unat w mod 16 ^ 16 = unat w" for w :: u64
    using unat_lt_u64 [of w] by simp
  ultimately show "identity_parse text = Some i"
    using identity_parse_spelled [of "nibbles 16 (unat (high i))" "nibbles 16 (unat (low i))"]
    by (auto simp: identity_to_string_nibbles spelled_nibbles dest: nibbles_small)
qed

end
