(* ===== verification/CTF_Error.thy ===== *)
theory CTF_Error
  imports CTF_Identity
begin

text \<open>
  include/ctf/error.hpp and src/error.cpp: the error codes, \<^verbatim>\<open>Status\<close> and the bounded
  \<^verbatim>\<open>ReasonChain\<close> every refusal carries.

  The enumeration has an underlying type of 16 bits and 99 enumerators; it is kept at that
  type, with one constant per enumerator. Values that are no enumerator (a C++
  \<^verbatim>\<open>static_cast\<close> can make them) print as \<^verbatim>\<open>unknown_error\<close>, as in the code.
\<close>


section \<open>Limits\<close>

text \<open>The bounds of include/ctf/limits.hpp that the modelled components use.\<close>

definition kFramePayloadMaxBytes :: nat where "kFramePayloadMaxBytes = 1048576"
definition kSessionsMax :: nat where "kSessionsMax = 32"
definition kParticipantsMaxPerCollective :: nat where "kParticipantsMaxPerCollective = 4096"
definition kEdgesMaxPerFlowGroup :: nat where "kEdgesMaxPerFlowGroup = 65536"
definition kPhasesMaxPerCollective :: nat where "kPhasesMaxPerCollective = 64"
definition kStepsMaxPerPhase :: nat where "kStepsMaxPerPhase = 1024"
definition kCollectivesMaxLive :: nat where "kCollectivesMaxLive = 1000000"
definition kPeersMax :: nat where "kPeersMax = 65536"
definition kTopologyNodesMax :: nat where "kTopologyNodesMax = 65536"
definition kTopologyLinksMax :: nat where "kTopologyLinksMax = 262144"
definition kMetadataEntriesMax :: nat where "kMetadataEntriesMax = 16"
definition kMetadataKeyBytesMax :: nat where "kMetadataKeyBytesMax = 64"
definition kMetadataValueBytesMax :: nat where "kMetadataValueBytesMax = 256"
definition kReasonChainMax :: nat where "kReasonChainMax = 32"
definition kReasonDetailBytesMax :: nat where "kReasonDetailBytesMax = 256"
definition kLabelBytesMax :: nat where "kLabelBytesMax = 128"
definition kDecisionHistoryDefaultCapacity :: nat where "kDecisionHistoryDefaultCapacity = 4096"
definition kDecisionHistoryCapacityMax :: nat where "kDecisionHistoryCapacityMax = 1048576"
definition kTokenBucketsMax :: nat where "kTokenBucketsMax = 4096"

lemmas limit_defs = kFramePayloadMaxBytes_def kSessionsMax_def kParticipantsMaxPerCollective_def
  kEdgesMaxPerFlowGroup_def kPhasesMaxPerCollective_def kStepsMaxPerPhase_def
  kCollectivesMaxLive_def kPeersMax_def kTopologyNodesMax_def kTopologyLinksMax_def
  kMetadataEntriesMax_def kMetadataKeyBytesMax_def kMetadataValueBytesMax_def kReasonChainMax_def
  kReasonDetailBytesMax_def kLabelBytesMax_def kDecisionHistoryDefaultCapacity_def
  kDecisionHistoryCapacityMax_def kTokenBucketsMax_def


section \<open>Error codes\<close>

type_synonym ErrorCode = u16

abbreviation ErrorCode_kOk :: ErrorCode where "ErrorCode_kOk \<equiv> 0"
abbreviation ErrorCode_kFrameTruncatedHeader :: ErrorCode where "ErrorCode_kFrameTruncatedHeader \<equiv> 100"
abbreviation ErrorCode_kFrameTruncatedPayload :: ErrorCode where "ErrorCode_kFrameTruncatedPayload \<equiv> 101"
abbreviation ErrorCode_kFrameMagicMismatch :: ErrorCode where "ErrorCode_kFrameMagicMismatch \<equiv> 102"
abbreviation ErrorCode_kFrameVersionUnsupported :: ErrorCode where "ErrorCode_kFrameVersionUnsupported \<equiv> 103"
abbreviation ErrorCode_kFrameLengthOutOfRange :: ErrorCode where "ErrorCode_kFrameLengthOutOfRange \<equiv> 104"
abbreviation ErrorCode_kFrameIntegrityMismatch :: ErrorCode where "ErrorCode_kFrameIntegrityMismatch \<equiv> 105"
abbreviation ErrorCode_kFrameTrailingGarbage :: ErrorCode where "ErrorCode_kFrameTrailingGarbage \<equiv> 106"
abbreviation ErrorCode_kFrameKindUnknown :: ErrorCode where "ErrorCode_kFrameKindUnknown \<equiv> 107"
abbreviation ErrorCode_kFrameFlagsInvalid :: ErrorCode where "ErrorCode_kFrameFlagsInvalid \<equiv> 108"
abbreviation ErrorCode_kFrameLengthArithmeticOverflow :: ErrorCode where "ErrorCode_kFrameLengthArithmeticOverflow \<equiv> 109"
abbreviation ErrorCode_kEnvelopeSessionUnknown :: ErrorCode where "ErrorCode_kEnvelopeSessionUnknown \<equiv> 200"
abbreviation ErrorCode_kEnvelopeSessionMismatch :: ErrorCode where "ErrorCode_kEnvelopeSessionMismatch \<equiv> 201"
abbreviation ErrorCode_kEnvelopeIncarnationStale :: ErrorCode where "ErrorCode_kEnvelopeIncarnationStale \<equiv> 202"
abbreviation ErrorCode_kEnvelopeEpochStale :: ErrorCode where "ErrorCode_kEnvelopeEpochStale \<equiv> 203"
abbreviation ErrorCode_kEnvelopeEpochUnknown :: ErrorCode where "ErrorCode_kEnvelopeEpochUnknown \<equiv> 204"
abbreviation ErrorCode_kEnvelopeIdentityMismatch :: ErrorCode where "ErrorCode_kEnvelopeIdentityMismatch \<equiv> 205"
abbreviation ErrorCode_kEnvelopeProvenanceRejected :: ErrorCode where "ErrorCode_kEnvelopeProvenanceRejected \<equiv> 206"
abbreviation ErrorCode_kEnvelopeReplayed :: ErrorCode where "ErrorCode_kEnvelopeReplayed \<equiv> 207"
abbreviation ErrorCode_kEnvelopeSequenceRegression :: ErrorCode where "ErrorCode_kEnvelopeSequenceRegression \<equiv> 208"
abbreviation ErrorCode_kDecodeTruncated :: ErrorCode where "ErrorCode_kDecodeTruncated \<equiv> 300"
abbreviation ErrorCode_kDecodeTrailingBytes :: ErrorCode where "ErrorCode_kDecodeTrailingBytes \<equiv> 301"
abbreviation ErrorCode_kDecodeInvalidTag :: ErrorCode where "ErrorCode_kDecodeInvalidTag \<equiv> 302"
abbreviation ErrorCode_kDecodeInvalidEnum :: ErrorCode where "ErrorCode_kDecodeInvalidEnum \<equiv> 303"
abbreviation ErrorCode_kDecodeInvalidBoolean :: ErrorCode where "ErrorCode_kDecodeInvalidBoolean \<equiv> 304"
abbreviation ErrorCode_kDecodeInvalidString :: ErrorCode where "ErrorCode_kDecodeInvalidString \<equiv> 305"
abbreviation ErrorCode_kDecodeLengthOutOfRange :: ErrorCode where "ErrorCode_kDecodeLengthOutOfRange \<equiv> 306"
abbreviation ErrorCode_kDecodeCountOutOfRange :: ErrorCode where "ErrorCode_kDecodeCountOutOfRange \<equiv> 307"
abbreviation ErrorCode_kDecodeMessageTooLarge :: ErrorCode where "ErrorCode_kDecodeMessageTooLarge \<equiv> 308"
abbreviation ErrorCode_kDecodeDuplicateEntry :: ErrorCode where "ErrorCode_kDecodeDuplicateEntry \<equiv> 309"
abbreviation ErrorCode_kDecodeNonCanonical :: ErrorCode where "ErrorCode_kDecodeNonCanonical \<equiv> 310"
abbreviation ErrorCode_kDecodeArithmeticOverflow :: ErrorCode where "ErrorCode_kDecodeArithmeticOverflow \<equiv> 311"
abbreviation ErrorCode_kDecodeEmptyRequiredField :: ErrorCode where "ErrorCode_kDecodeEmptyRequiredField \<equiv> 312"
abbreviation ErrorCode_kValidationParticipantUnset :: ErrorCode where "ErrorCode_kValidationParticipantUnset \<equiv> 400"
abbreviation ErrorCode_kValidationParticipantDuplicate :: ErrorCode where "ErrorCode_kValidationParticipantDuplicate \<equiv> 401"
abbreviation ErrorCode_kValidationParticipantCountOutOfRange :: ErrorCode where "ErrorCode_kValidationParticipantCountOutOfRange \<equiv> 402"
abbreviation ErrorCode_kValidationEdgeUnset :: ErrorCode where "ErrorCode_kValidationEdgeUnset \<equiv> 403"
abbreviation ErrorCode_kValidationEdgeSelfLoop :: ErrorCode where "ErrorCode_kValidationEdgeSelfLoop \<equiv> 404"
abbreviation ErrorCode_kValidationEdgeDuplicate :: ErrorCode where "ErrorCode_kValidationEdgeDuplicate \<equiv> 405"
abbreviation ErrorCode_kValidationEdgeEndpointNotParticipant :: ErrorCode where "ErrorCode_kValidationEdgeEndpointNotParticipant \<equiv> 406"
abbreviation ErrorCode_kValidationEdgeCountOutOfRange :: ErrorCode where "ErrorCode_kValidationEdgeCountOutOfRange \<equiv> 407"
abbreviation ErrorCode_kValidationPhaseOutOfRange :: ErrorCode where "ErrorCode_kValidationPhaseOutOfRange \<equiv> 408"
abbreviation ErrorCode_kValidationStepOutOfRange :: ErrorCode where "ErrorCode_kValidationStepOutOfRange \<equiv> 409"
abbreviation ErrorCode_kValidationClassUnknownRejected :: ErrorCode where "ErrorCode_kValidationClassUnknownRejected \<equiv> 410"
abbreviation ErrorCode_kValidationMetadataLimit :: ErrorCode where "ErrorCode_kValidationMetadataLimit \<equiv> 411"
abbreviation ErrorCode_kValidationLabelTooLong :: ErrorCode where "ErrorCode_kValidationLabelTooLong \<equiv> 412"
abbreviation ErrorCode_kValidationGenerationUnset :: ErrorCode where "ErrorCode_kValidationGenerationUnset \<equiv> 413"
abbreviation ErrorCode_kValidationAttemptUnset :: ErrorCode where "ErrorCode_kValidationAttemptUnset \<equiv> 414"
abbreviation ErrorCode_kValidationRateInvalid :: ErrorCode where "ErrorCode_kValidationRateInvalid \<equiv> 415"
abbreviation ErrorCode_kValidationPolicyMissing :: ErrorCode where "ErrorCode_kValidationPolicyMissing \<equiv> 416"
abbreviation ErrorCode_kValidationTopologyMissing :: ErrorCode where "ErrorCode_kValidationTopologyMissing \<equiv> 417"
abbreviation ErrorCode_kValidationNodeUnknown :: ErrorCode where "ErrorCode_kValidationNodeUnknown \<equiv> 418"
abbreviation ErrorCode_kValidationCapacityNegative :: ErrorCode where "ErrorCode_kValidationCapacityNegative \<equiv> 419"
abbreviation ErrorCode_kValidationReasonChainTooLong :: ErrorCode where "ErrorCode_kValidationReasonChainTooLong \<equiv> 420"
abbreviation ErrorCode_kStateCollectiveUnknown :: ErrorCode where "ErrorCode_kStateCollectiveUnknown \<equiv> 500"
abbreviation ErrorCode_kStateCollectiveRetired :: ErrorCode where "ErrorCode_kStateCollectiveRetired \<equiv> 501"
abbreviation ErrorCode_kStateCollectiveCancelled :: ErrorCode where "ErrorCode_kStateCollectiveCancelled \<equiv> 502"
abbreviation ErrorCode_kStateGenerationRegression :: ErrorCode where "ErrorCode_kStateGenerationRegression \<equiv> 503"
abbreviation ErrorCode_kStateAttemptRegression :: ErrorCode where "ErrorCode_kStateAttemptRegression \<equiv> 504"
abbreviation ErrorCode_kStateDuplicateRegistration :: ErrorCode where "ErrorCode_kStateDuplicateRegistration \<equiv> 505"
abbreviation ErrorCode_kStateNotLive :: ErrorCode where "ErrorCode_kStateNotLive \<equiv> 506"
abbreviation ErrorCode_kStateShuttingDown :: ErrorCode where "ErrorCode_kStateShuttingDown \<equiv> 507"
abbreviation ErrorCode_kStateCapacityExceeded :: ErrorCode where "ErrorCode_kStateCapacityExceeded \<equiv> 508"
abbreviation ErrorCode_kStatePhaseRegression :: ErrorCode where "ErrorCode_kStatePhaseRegression \<equiv> 509"
abbreviation ErrorCode_kStatePlanMissing :: ErrorCode where "ErrorCode_kStatePlanMissing \<equiv> 510"
abbreviation ErrorCode_kPersistenceOpenFailed :: ErrorCode where "ErrorCode_kPersistenceOpenFailed \<equiv> 600"
abbreviation ErrorCode_kPersistenceReadFailed :: ErrorCode where "ErrorCode_kPersistenceReadFailed \<equiv> 601"
abbreviation ErrorCode_kPersistenceWriteFailed :: ErrorCode where "ErrorCode_kPersistenceWriteFailed \<equiv> 602"
abbreviation ErrorCode_kPersistenceRenameFailed :: ErrorCode where "ErrorCode_kPersistenceRenameFailed \<equiv> 603"
abbreviation ErrorCode_kPersistenceTooLarge :: ErrorCode where "ErrorCode_kPersistenceTooLarge \<equiv> 604"
abbreviation ErrorCode_kPersistenceCorrupt :: ErrorCode where "ErrorCode_kPersistenceCorrupt \<equiv> 605"
abbreviation ErrorCode_kPersistenceVersionUnsupported :: ErrorCode where "ErrorCode_kPersistenceVersionUnsupported \<equiv> 606"
abbreviation ErrorCode_kPersistenceIntegrityMismatch :: ErrorCode where "ErrorCode_kPersistenceIntegrityMismatch \<equiv> 607"
abbreviation ErrorCode_kPersistenceTruncated :: ErrorCode where "ErrorCode_kPersistenceTruncated \<equiv> 608"
abbreviation ErrorCode_kPersistenceImpossibleState :: ErrorCode where "ErrorCode_kPersistenceImpossibleState \<equiv> 609"
abbreviation ErrorCode_kPersistenceDirectoryUnavailable :: ErrorCode where "ErrorCode_kPersistenceDirectoryUnavailable \<equiv> 610"
abbreviation ErrorCode_kTransportSocketFailed :: ErrorCode where "ErrorCode_kTransportSocketFailed \<equiv> 700"
abbreviation ErrorCode_kTransportBindFailed :: ErrorCode where "ErrorCode_kTransportBindFailed \<equiv> 701"
abbreviation ErrorCode_kTransportListenFailed :: ErrorCode where "ErrorCode_kTransportListenFailed \<equiv> 702"
abbreviation ErrorCode_kTransportConnectFailed :: ErrorCode where "ErrorCode_kTransportConnectFailed \<equiv> 703"
abbreviation ErrorCode_kTransportSendFailed :: ErrorCode where "ErrorCode_kTransportSendFailed \<equiv> 704"
abbreviation ErrorCode_kTransportReceiveFailed :: ErrorCode where "ErrorCode_kTransportReceiveFailed \<equiv> 705"
abbreviation ErrorCode_kTransportClosed :: ErrorCode where "ErrorCode_kTransportClosed \<equiv> 706"
abbreviation ErrorCode_kTransportTimeout :: ErrorCode where "ErrorCode_kTransportTimeout \<equiv> 707"
abbreviation ErrorCode_kTransportAddressInvalid :: ErrorCode where "ErrorCode_kTransportAddressInvalid \<equiv> 708"
abbreviation ErrorCode_kTransportNotStarted :: ErrorCode where "ErrorCode_kTransportNotStarted \<equiv> 709"
abbreviation ErrorCode_kTransportSessionLimit :: ErrorCode where "ErrorCode_kTransportSessionLimit \<equiv> 710"
abbreviation ErrorCode_kAdmissionRateLimited :: ErrorCode where "ErrorCode_kAdmissionRateLimited \<equiv> 800"
abbreviation ErrorCode_kAdmissionBucketCapacity :: ErrorCode where "ErrorCode_kAdmissionBucketCapacity \<equiv> 801"
abbreviation ErrorCode_kAdmissionBucketUnset :: ErrorCode where "ErrorCode_kAdmissionBucketUnset \<equiv> 802"
abbreviation ErrorCode_kAdmissionClockRegression :: ErrorCode where "ErrorCode_kAdmissionClockRegression \<equiv> 803"
abbreviation ErrorCode_kCompletionStaleAttempt :: ErrorCode where "ErrorCode_kCompletionStaleAttempt \<equiv> 900"
abbreviation ErrorCode_kCompletionStaleGeneration :: ErrorCode where "ErrorCode_kCompletionStaleGeneration \<equiv> 901"
abbreviation ErrorCode_kCompletionRetired :: ErrorCode where "ErrorCode_kCompletionRetired \<equiv> 902"
abbreviation ErrorCode_kCompletionCancelled :: ErrorCode where "ErrorCode_kCompletionCancelled \<equiv> 903"
abbreviation ErrorCode_kCompletionUnknownCollective :: ErrorCode where "ErrorCode_kCompletionUnknownCollective \<equiv> 904"
abbreviation ErrorCode_kCompletionDuplicate :: ErrorCode where "ErrorCode_kCompletionDuplicate \<equiv> 905"
abbreviation ErrorCode_kInternalInvariant :: ErrorCode where "ErrorCode_kInternalInvariant \<equiv> 1000"
abbreviation ErrorCode_kInternalUnsupported :: ErrorCode where "ErrorCode_kInternalUnsupported \<equiv> 1001"

definition ErrorCode_names :: "(ErrorCode \<times> string) list" where
  "ErrorCode_names =
     [(ErrorCode_kOk, ''ok''),
      (ErrorCode_kFrameTruncatedHeader, ''frame_truncated_header''),
      (ErrorCode_kFrameTruncatedPayload, ''frame_truncated_payload''),
      (ErrorCode_kFrameMagicMismatch, ''frame_magic_mismatch''),
      (ErrorCode_kFrameVersionUnsupported, ''frame_version_unsupported''),
      (ErrorCode_kFrameLengthOutOfRange, ''frame_length_out_of_range''),
      (ErrorCode_kFrameIntegrityMismatch, ''frame_integrity_mismatch''),
      (ErrorCode_kFrameTrailingGarbage, ''frame_trailing_garbage''),
      (ErrorCode_kFrameKindUnknown, ''frame_kind_unknown''),
      (ErrorCode_kFrameFlagsInvalid, ''frame_flags_invalid''),
      (ErrorCode_kFrameLengthArithmeticOverflow, ''frame_length_arithmetic_overflow''),
      (ErrorCode_kEnvelopeSessionUnknown, ''envelope_session_unknown''),
      (ErrorCode_kEnvelopeSessionMismatch, ''envelope_session_mismatch''),
      (ErrorCode_kEnvelopeIncarnationStale, ''envelope_incarnation_stale''),
      (ErrorCode_kEnvelopeEpochStale, ''envelope_epoch_stale''),
      (ErrorCode_kEnvelopeEpochUnknown, ''envelope_epoch_unknown''),
      (ErrorCode_kEnvelopeIdentityMismatch, ''envelope_identity_mismatch''),
      (ErrorCode_kEnvelopeProvenanceRejected, ''envelope_provenance_rejected''),
      (ErrorCode_kEnvelopeReplayed, ''envelope_replayed''),
      (ErrorCode_kEnvelopeSequenceRegression, ''envelope_sequence_regression''),
      (ErrorCode_kDecodeTruncated, ''decode_truncated''),
      (ErrorCode_kDecodeTrailingBytes, ''decode_trailing_bytes''),
      (ErrorCode_kDecodeInvalidTag, ''decode_invalid_tag''),
      (ErrorCode_kDecodeInvalidEnum, ''decode_invalid_enum''),
      (ErrorCode_kDecodeInvalidBoolean, ''decode_invalid_boolean''),
      (ErrorCode_kDecodeInvalidString, ''decode_invalid_string''),
      (ErrorCode_kDecodeLengthOutOfRange, ''decode_length_out_of_range''),
      (ErrorCode_kDecodeCountOutOfRange, ''decode_count_out_of_range''),
      (ErrorCode_kDecodeMessageTooLarge, ''decode_message_too_large''),
      (ErrorCode_kDecodeDuplicateEntry, ''decode_duplicate_entry''),
      (ErrorCode_kDecodeNonCanonical, ''decode_non_canonical''),
      (ErrorCode_kDecodeArithmeticOverflow, ''decode_arithmetic_overflow''),
      (ErrorCode_kDecodeEmptyRequiredField, ''decode_empty_required_field''),
      (ErrorCode_kValidationParticipantUnset, ''validation_participant_unset''),
      (ErrorCode_kValidationParticipantDuplicate, ''validation_participant_duplicate''),
      (ErrorCode_kValidationParticipantCountOutOfRange, ''validation_participant_count_out_of_range''),
      (ErrorCode_kValidationEdgeUnset, ''validation_edge_unset''),
      (ErrorCode_kValidationEdgeSelfLoop, ''validation_edge_self_loop''),
      (ErrorCode_kValidationEdgeDuplicate, ''validation_edge_duplicate''),
      (ErrorCode_kValidationEdgeEndpointNotParticipant, ''validation_edge_endpoint_not_participant''),
      (ErrorCode_kValidationEdgeCountOutOfRange, ''validation_edge_count_out_of_range''),
      (ErrorCode_kValidationPhaseOutOfRange, ''validation_phase_out_of_range''),
      (ErrorCode_kValidationStepOutOfRange, ''validation_step_out_of_range''),
      (ErrorCode_kValidationClassUnknownRejected, ''validation_class_unknown_rejected''),
      (ErrorCode_kValidationMetadataLimit, ''validation_metadata_limit''),
      (ErrorCode_kValidationLabelTooLong, ''validation_label_too_long''),
      (ErrorCode_kValidationGenerationUnset, ''validation_generation_unset''),
      (ErrorCode_kValidationAttemptUnset, ''validation_attempt_unset''),
      (ErrorCode_kValidationRateInvalid, ''validation_rate_invalid''),
      (ErrorCode_kValidationPolicyMissing, ''validation_policy_missing''),
      (ErrorCode_kValidationTopologyMissing, ''validation_topology_missing''),
      (ErrorCode_kValidationNodeUnknown, ''validation_node_unknown''),
      (ErrorCode_kValidationCapacityNegative, ''validation_capacity_negative''),
      (ErrorCode_kValidationReasonChainTooLong, ''validation_reason_chain_too_long''),
      (ErrorCode_kStateCollectiveUnknown, ''state_collective_unknown''),
      (ErrorCode_kStateCollectiveRetired, ''state_collective_retired''),
      (ErrorCode_kStateCollectiveCancelled, ''state_collective_cancelled''),
      (ErrorCode_kStateGenerationRegression, ''state_generation_regression''),
      (ErrorCode_kStateAttemptRegression, ''state_attempt_regression''),
      (ErrorCode_kStateDuplicateRegistration, ''state_duplicate_registration''),
      (ErrorCode_kStateNotLive, ''state_not_live''),
      (ErrorCode_kStateShuttingDown, ''state_shutting_down''),
      (ErrorCode_kStateCapacityExceeded, ''state_capacity_exceeded''),
      (ErrorCode_kStatePhaseRegression, ''state_phase_regression''),
      (ErrorCode_kStatePlanMissing, ''state_plan_missing''),
      (ErrorCode_kPersistenceOpenFailed, ''persistence_open_failed''),
      (ErrorCode_kPersistenceReadFailed, ''persistence_read_failed''),
      (ErrorCode_kPersistenceWriteFailed, ''persistence_write_failed''),
      (ErrorCode_kPersistenceRenameFailed, ''persistence_rename_failed''),
      (ErrorCode_kPersistenceTooLarge, ''persistence_too_large''),
      (ErrorCode_kPersistenceCorrupt, ''persistence_corrupt''),
      (ErrorCode_kPersistenceVersionUnsupported, ''persistence_version_unsupported''),
      (ErrorCode_kPersistenceIntegrityMismatch, ''persistence_integrity_mismatch''),
      (ErrorCode_kPersistenceTruncated, ''persistence_truncated''),
      (ErrorCode_kPersistenceImpossibleState, ''persistence_impossible_state''),
      (ErrorCode_kPersistenceDirectoryUnavailable, ''persistence_directory_unavailable''),
      (ErrorCode_kTransportSocketFailed, ''transport_socket_failed''),
      (ErrorCode_kTransportBindFailed, ''transport_bind_failed''),
      (ErrorCode_kTransportListenFailed, ''transport_listen_failed''),
      (ErrorCode_kTransportConnectFailed, ''transport_connect_failed''),
      (ErrorCode_kTransportSendFailed, ''transport_send_failed''),
      (ErrorCode_kTransportReceiveFailed, ''transport_receive_failed''),
      (ErrorCode_kTransportClosed, ''transport_closed''),
      (ErrorCode_kTransportTimeout, ''transport_timeout''),
      (ErrorCode_kTransportAddressInvalid, ''transport_address_invalid''),
      (ErrorCode_kTransportNotStarted, ''transport_not_started''),
      (ErrorCode_kTransportSessionLimit, ''transport_session_limit''),
      (ErrorCode_kAdmissionRateLimited, ''admission_rate_limited''),
      (ErrorCode_kAdmissionBucketCapacity, ''admission_bucket_capacity''),
      (ErrorCode_kAdmissionBucketUnset, ''admission_bucket_unset''),
      (ErrorCode_kAdmissionClockRegression, ''admission_clock_regression''),
      (ErrorCode_kCompletionStaleAttempt, ''completion_stale_attempt''),
      (ErrorCode_kCompletionStaleGeneration, ''completion_stale_generation''),
      (ErrorCode_kCompletionRetired, ''completion_retired''),
      (ErrorCode_kCompletionCancelled, ''completion_cancelled''),
      (ErrorCode_kCompletionUnknownCollective, ''completion_unknown_collective''),
      (ErrorCode_kCompletionDuplicate, ''completion_duplicate''),
      (ErrorCode_kInternalInvariant, ''internal_invariant''),
      (ErrorCode_kInternalUnsupported, ''internal_unsupported'')]"

definition ErrorCode_to_string :: "ErrorCode \<Rightarrow> string" where
  "ErrorCode_to_string c = (case map_of ErrorCode_names c of Some n \<Rightarrow> n | None \<Rightarrow> ''unknown_error'')"

definition is_transport_error :: "ErrorCode \<Rightarrow> bool" where
  "is_transport_error c \<longleftrightarrow> 100 \<le> c \<and> c < 200"

definition is_decode_error :: "ErrorCode \<Rightarrow> bool" where
  "is_decode_error c \<longleftrightarrow> 300 \<le> c \<and> c < 400"

definition is_persistence_error :: "ErrorCode \<Rightarrow> bool" where
  "is_persistence_error c \<longleftrightarrow> 600 \<le> c \<and> c < 700"


section \<open>Status\<close>

datatype Status = Status (status_code: ErrorCode) (status_message: string)

definition status_ok :: Status where
  "status_ok = Status ErrorCode_kOk []"

definition is_ok :: "Status \<Rightarrow> bool" where
  "is_ok s \<longleftrightarrow> status_code s = ErrorCode_kOk"

definition status_to_string :: "Status \<Rightarrow> string" where
  "status_to_string s =
     ErrorCode_to_string (status_code s)
       @ (if status_message s \<noteq> [] then '': '' @ status_message s else [])"


section \<open>Reason chains\<close>

datatype Reason = Reason (reason_code: string) (reason_detail: string) (reason_subject: Identity)

type_synonym ReasonChain = "Reason list"

text \<open>\<^verbatim>\<open>ReasonChain::add\<close>: the first component is the returned flag, the second the chain.\<close>

definition chain_add_flag :: "string \<Rightarrow> string \<Rightarrow> Identity \<Rightarrow> ReasonChain \<Rightarrow> bool \<times> ReasonChain" where
  "chain_add_flag code detail subject reasons =
     (if length reasons \<ge> kReasonChainMax then (False, reasons)
      else
        let detail' = (if length detail > kReasonDetailBytesMax
                       then take kReasonDetailBytesMax detail else detail);
            code' = (if code = [] then ''unspecified'' else code)
        in (True, reasons @ [Reason code' detail' subject]))"

definition chain_add :: "string \<Rightarrow> string \<Rightarrow> Identity \<Rightarrow> ReasonChain \<Rightarrow> ReasonChain" where
  "chain_add code detail subject reasons = snd (chain_add_flag code detail subject reasons)"

definition chain_add_reason :: "Reason \<Rightarrow> ReasonChain \<Rightarrow> ReasonChain" where
  "chain_add_reason r = chain_add (reason_code r) (reason_detail r) (reason_subject r)"

definition chain_contains :: "string \<Rightarrow> ReasonChain \<Rightarrow> bool" where
  "chain_contains code reasons \<longleftrightarrow> (\<exists>r\<in>set reasons. reason_code r = code)"

definition chain_first_code :: "ReasonChain \<Rightarrow> string" where
  "chain_first_code reasons = (case reasons of [] \<Rightarrow> [] | r # _ \<Rightarrow> reason_code r)"

definition reason_to_string :: "Reason \<Rightarrow> string" where
  "reason_to_string r =
     reason_code r @ ''('' @ reason_detail r
       @ (if is_some (reason_subject r)
          then '' subject='' @ identity_to_string (reason_subject r) else []) @ '')''"

fun chain_to_string :: "ReasonChain \<Rightarrow> string" where
  "chain_to_string [] = []"
| "chain_to_string [r] = reason_to_string r"
| "chain_to_string (r # rs) = reason_to_string r @ '' -> '' @ chain_to_string rs"


section \<open>Facts on codes, statuses and chains\<close>

lemma is_ok_status_ok [simp]: "is_ok status_ok"
  by (simp add: is_ok_def status_ok_def)

lemma is_ok_Status [simp]: "is_ok (Status c m) \<longleftrightarrow> c = ErrorCode_kOk"
  by (simp add: is_ok_def)

text \<open>Reason texts are constants of the code: the simplifier does not look inside them.\<close>

lemma chain_add_cong [cong]: "s = s' \<Longrightarrow> rs = rs' \<Longrightarrow> chain_add c d s rs = chain_add c d s' rs'"
  by simp

lemma Status_cong [cong]: "c = c' \<Longrightarrow> Status c m = Status c' m"
  by simp

lemma chain_add_bounded: "length rs \<le> kReasonChainMax \<Longrightarrow> length (chain_add c d s rs) \<le> kReasonChainMax"
  by (auto simp: chain_add_def chain_add_flag_def Let_def)

lemma chain_add_prefix: "\<exists>ext. chain_add c d s rs = rs @ ext \<and> length ext \<le> 1"
  by (auto simp: chain_add_def chain_add_flag_def Let_def)

lemma chain_add_not_Nil [simp]: "chain_add c d s rs \<noteq> []"
  by (auto simp: chain_add_def chain_add_flag_def Let_def kReasonChainMax_def)

end
