(* ===== verification/CTF_Participant.thy ===== *)
theory CTF_Participant
  imports CTF_Error
begin

text \<open>
  include/ctf/participant.hpp and src/participant.cpp: roles, liveness states and endpoint
  classes of participants, with their names, and the rule that a record holds authority
  only while it is live and not expired.
\<close>


section \<open>Enumerations\<close>

datatype ParticipantRole =
    kUnspecified
  | kRank
  | kRoot
  | kCoordinator
  | kProxy
  | kObserver
  | kAccelerator

primrec ParticipantRole_value :: "ParticipantRole \<Rightarrow> u64" where
  "ParticipantRole_value ParticipantRole.kUnspecified = 0"
| "ParticipantRole_value ParticipantRole.kRank = 1"
| "ParticipantRole_value ParticipantRole.kRoot = 2"
| "ParticipantRole_value ParticipantRole.kCoordinator = 3"
| "ParticipantRole_value ParticipantRole.kProxy = 4"
| "ParticipantRole_value ParticipantRole.kObserver = 5"
| "ParticipantRole_value ParticipantRole.kAccelerator = 6"

primrec ParticipantRole_to_string :: "ParticipantRole \<Rightarrow> string" where
  "ParticipantRole_to_string ParticipantRole.kUnspecified = ''unspecified''"
| "ParticipantRole_to_string ParticipantRole.kRank = ''rank''"
| "ParticipantRole_to_string ParticipantRole.kRoot = ''root''"
| "ParticipantRole_to_string ParticipantRole.kCoordinator = ''coordinator''"
| "ParticipantRole_to_string ParticipantRole.kProxy = ''proxy''"
| "ParticipantRole_to_string ParticipantRole.kObserver = ''observer''"
| "ParticipantRole_to_string ParticipantRole.kAccelerator = ''accelerator''"

definition ParticipantRole_table :: "(string \<times> ParticipantRole) list" where
  "ParticipantRole_table =
     [(''unspecified'', ParticipantRole.kUnspecified),
      (''rank'', ParticipantRole.kRank),
      (''root'', ParticipantRole.kRoot),
      (''coordinator'', ParticipantRole.kCoordinator),
      (''proxy'', ParticipantRole.kProxy),
      (''observer'', ParticipantRole.kObserver),
      (''accelerator'', ParticipantRole.kAccelerator)]"

definition participant_role_from_string :: "string \<Rightarrow> ParticipantRole option" where
  "participant_role_from_string text = table_find ParticipantRole_table text"

datatype ParticipantState =
    kUnspecified
  | kAdvertised
  | kLive
  | kSuspect
  | kExpired
  | kFenced
  | kRetired

primrec ParticipantState_value :: "ParticipantState \<Rightarrow> u64" where
  "ParticipantState_value ParticipantState.kUnspecified = 0"
| "ParticipantState_value ParticipantState.kAdvertised = 1"
| "ParticipantState_value ParticipantState.kLive = 2"
| "ParticipantState_value ParticipantState.kSuspect = 3"
| "ParticipantState_value ParticipantState.kExpired = 4"
| "ParticipantState_value ParticipantState.kFenced = 5"
| "ParticipantState_value ParticipantState.kRetired = 6"

primrec ParticipantState_to_string :: "ParticipantState \<Rightarrow> string" where
  "ParticipantState_to_string ParticipantState.kUnspecified = ''unspecified''"
| "ParticipantState_to_string ParticipantState.kAdvertised = ''advertised''"
| "ParticipantState_to_string ParticipantState.kLive = ''live''"
| "ParticipantState_to_string ParticipantState.kSuspect = ''suspect''"
| "ParticipantState_to_string ParticipantState.kExpired = ''expired''"
| "ParticipantState_to_string ParticipantState.kFenced = ''fenced''"
| "ParticipantState_to_string ParticipantState.kRetired = ''retired''"

datatype EndpointClass =
    kUnspecified
  | kCpu
  | kGpu
  | kAcceleratorOther
  | kSmartNic
  | kProxy

primrec EndpointClass_value :: "EndpointClass \<Rightarrow> u64" where
  "EndpointClass_value EndpointClass.kUnspecified = 0"
| "EndpointClass_value EndpointClass.kCpu = 1"
| "EndpointClass_value EndpointClass.kGpu = 2"
| "EndpointClass_value EndpointClass.kAcceleratorOther = 3"
| "EndpointClass_value EndpointClass.kSmartNic = 4"
| "EndpointClass_value EndpointClass.kProxy = 5"

primrec EndpointClass_to_string :: "EndpointClass \<Rightarrow> string" where
  "EndpointClass_to_string EndpointClass.kUnspecified = ''unspecified''"
| "EndpointClass_to_string EndpointClass.kCpu = ''cpu''"
| "EndpointClass_to_string EndpointClass.kGpu = ''gpu''"
| "EndpointClass_to_string EndpointClass.kAcceleratorOther = ''accelerator_other''"
| "EndpointClass_to_string EndpointClass.kSmartNic = ''smart_nic''"
| "EndpointClass_to_string EndpointClass.kProxy = ''proxy''"

definition participant_state_holds_authority :: "ParticipantState \<Rightarrow> bool" where
  "participant_state_holds_authority state \<longleftrightarrow> state = ParticipantState.kLive"


section \<open>Descriptors and liveness\<close>

record ParticipantDescriptor =
  pd_id :: ParticipantId
  pd_role :: ParticipantRole
  pd_node :: NodeId
  pd_rack :: RackId
  pd_endpoint :: EndpointClass
  pd_device_index :: u32
  pd_label :: string

text \<open>\<^verbatim>\<open>PeerLiveness\<close> (include/ctf/evidence.hpp) is the record the authority keeps per participant.\<close>

record PeerLiveness =
  pl_participant :: ParticipantId
  pl_incarnation :: BootIncarnation
  pl_state :: ParticipantState
  pl_last_seen_monotonic_ms :: u64
  pl_expires_at_monotonic_ms :: u64
  pl_node :: NodeId
  pl_bound_session :: SessionId

definition PeerLiveness_default :: PeerLiveness where
  "PeerLiveness_default =
     \<lparr>pl_participant = no_identity, pl_incarnation = no_identity,
      pl_state = ParticipantState.kUnspecified, pl_last_seen_monotonic_ms = 0,
      pl_expires_at_monotonic_ms = 0, pl_node = no_identity, pl_bound_session = no_identity\<rparr>"

definition is_current :: "PeerLiveness \<Rightarrow> u64 \<Rightarrow> bool" where
  "is_current l now \<longleftrightarrow> pl_state l = ParticipantState.kLive \<and> now < pl_expires_at_monotonic_ms l"

definition is_present :: "PeerLiveness \<Rightarrow> bool" where
  "is_present l \<longleftrightarrow> pl_state l \<noteq> ParticipantState.kUnspecified"


section \<open>The role names\<close>

interpretation role_names: name_table ParticipantRole_to_string ParticipantRole_table
proof
  show "e \<in> snd ` set ParticipantRole_table" for e by (cases e) (simp_all add: ParticipantRole_table_def)
qed (simp_all add: ParticipantRole_table_def)

end
