(* ===== verification/CTF_Collective.thy ===== *)
theory CTF_Collective
  imports CTF_Participant
begin

text \<open>
  include/ctf/collective.hpp and src/collective.cpp: collective classes, algorithm hints,
  scopes and lifecycle states with their name tables, the bounded metadata, the durable
  definition, and the canonical participant order.
\<close>


section \<open>Enumerations and their names\<close>

datatype CollectiveClass =
    kUnknown
  | kAllReduce
  | kAllGather
  | kReduceScatter
  | kBroadcast
  | kGather
  | kScatter
  | kAllToAll
  | kPointToPoint
  | kBarrierOnly
  | kSendRecvGrouped
  | kReduce
  | kScan
  | kSendRecvSplit
  | kUnknownVendor

primrec CollectiveClass_value :: "CollectiveClass \<Rightarrow> u64" where
  "CollectiveClass_value CollectiveClass.kUnknown = 0"
| "CollectiveClass_value CollectiveClass.kAllReduce = 1"
| "CollectiveClass_value CollectiveClass.kAllGather = 2"
| "CollectiveClass_value CollectiveClass.kReduceScatter = 3"
| "CollectiveClass_value CollectiveClass.kBroadcast = 4"
| "CollectiveClass_value CollectiveClass.kGather = 5"
| "CollectiveClass_value CollectiveClass.kScatter = 6"
| "CollectiveClass_value CollectiveClass.kAllToAll = 7"
| "CollectiveClass_value CollectiveClass.kPointToPoint = 8"
| "CollectiveClass_value CollectiveClass.kBarrierOnly = 9"
| "CollectiveClass_value CollectiveClass.kSendRecvGrouped = 10"
| "CollectiveClass_value CollectiveClass.kReduce = 11"
| "CollectiveClass_value CollectiveClass.kScan = 12"
| "CollectiveClass_value CollectiveClass.kSendRecvSplit = 13"
| "CollectiveClass_value CollectiveClass.kUnknownVendor = 14"

primrec CollectiveClass_to_string :: "CollectiveClass \<Rightarrow> string" where
  "CollectiveClass_to_string CollectiveClass.kUnknown = ''unknown''"
| "CollectiveClass_to_string CollectiveClass.kAllReduce = ''all_reduce''"
| "CollectiveClass_to_string CollectiveClass.kAllGather = ''all_gather''"
| "CollectiveClass_to_string CollectiveClass.kReduceScatter = ''reduce_scatter''"
| "CollectiveClass_to_string CollectiveClass.kBroadcast = ''broadcast''"
| "CollectiveClass_to_string CollectiveClass.kGather = ''gather''"
| "CollectiveClass_to_string CollectiveClass.kScatter = ''scatter''"
| "CollectiveClass_to_string CollectiveClass.kAllToAll = ''all_to_all''"
| "CollectiveClass_to_string CollectiveClass.kPointToPoint = ''point_to_point''"
| "CollectiveClass_to_string CollectiveClass.kBarrierOnly = ''barrier_only''"
| "CollectiveClass_to_string CollectiveClass.kSendRecvGrouped = ''send_recv_grouped''"
| "CollectiveClass_to_string CollectiveClass.kReduce = ''reduce''"
| "CollectiveClass_to_string CollectiveClass.kScan = ''scan''"
| "CollectiveClass_to_string CollectiveClass.kSendRecvSplit = ''send_recv_split''"
| "CollectiveClass_to_string CollectiveClass.kUnknownVendor = ''unknown_vendor''"

definition CollectiveClass_table :: "(string \<times> CollectiveClass) list" where
  "CollectiveClass_table =
     [(''unknown'', CollectiveClass.kUnknown),
      (''all_reduce'', CollectiveClass.kAllReduce),
      (''all_gather'', CollectiveClass.kAllGather),
      (''reduce_scatter'', CollectiveClass.kReduceScatter),
      (''broadcast'', CollectiveClass.kBroadcast),
      (''gather'', CollectiveClass.kGather),
      (''scatter'', CollectiveClass.kScatter),
      (''all_to_all'', CollectiveClass.kAllToAll),
      (''point_to_point'', CollectiveClass.kPointToPoint),
      (''barrier_only'', CollectiveClass.kBarrierOnly),
      (''send_recv_grouped'', CollectiveClass.kSendRecvGrouped),
      (''reduce'', CollectiveClass.kReduce),
      (''scan'', CollectiveClass.kScan),
      (''send_recv_split'', CollectiveClass.kSendRecvSplit),
      (''unknown_vendor'', CollectiveClass.kUnknownVendor)]"

definition collective_class_from_string :: "string \<Rightarrow> CollectiveClass option" where
  "collective_class_from_string text = table_find CollectiveClass_table text"

datatype AlgorithmHint =
    kUnspecified
  | kRing
  | kTree
  | kDoubleBinaryTree
  | kHierarchical
  | kRecursiveDoubling
  | kRabenseifner
  | kButterfly
  | kDirect
  | kPipeline
  | kRingChunked
  | kVendorSpecific

primrec AlgorithmHint_value :: "AlgorithmHint \<Rightarrow> u64" where
  "AlgorithmHint_value AlgorithmHint.kUnspecified = 0"
| "AlgorithmHint_value AlgorithmHint.kRing = 1"
| "AlgorithmHint_value AlgorithmHint.kTree = 2"
| "AlgorithmHint_value AlgorithmHint.kDoubleBinaryTree = 3"
| "AlgorithmHint_value AlgorithmHint.kHierarchical = 4"
| "AlgorithmHint_value AlgorithmHint.kRecursiveDoubling = 5"
| "AlgorithmHint_value AlgorithmHint.kRabenseifner = 6"
| "AlgorithmHint_value AlgorithmHint.kButterfly = 7"
| "AlgorithmHint_value AlgorithmHint.kDirect = 8"
| "AlgorithmHint_value AlgorithmHint.kPipeline = 9"
| "AlgorithmHint_value AlgorithmHint.kRingChunked = 10"
| "AlgorithmHint_value AlgorithmHint.kVendorSpecific = 11"

primrec AlgorithmHint_to_string :: "AlgorithmHint \<Rightarrow> string" where
  "AlgorithmHint_to_string AlgorithmHint.kUnspecified = ''unspecified''"
| "AlgorithmHint_to_string AlgorithmHint.kRing = ''ring''"
| "AlgorithmHint_to_string AlgorithmHint.kTree = ''tree''"
| "AlgorithmHint_to_string AlgorithmHint.kDoubleBinaryTree = ''double_binary_tree''"
| "AlgorithmHint_to_string AlgorithmHint.kHierarchical = ''hierarchical''"
| "AlgorithmHint_to_string AlgorithmHint.kRecursiveDoubling = ''recursive_doubling''"
| "AlgorithmHint_to_string AlgorithmHint.kRabenseifner = ''rabenseifner''"
| "AlgorithmHint_to_string AlgorithmHint.kButterfly = ''butterfly''"
| "AlgorithmHint_to_string AlgorithmHint.kDirect = ''direct''"
| "AlgorithmHint_to_string AlgorithmHint.kPipeline = ''pipeline''"
| "AlgorithmHint_to_string AlgorithmHint.kRingChunked = ''ring_chunked''"
| "AlgorithmHint_to_string AlgorithmHint.kVendorSpecific = ''vendor_specific''"

definition AlgorithmHint_table :: "(string \<times> AlgorithmHint) list" where
  "AlgorithmHint_table =
     [(''unspecified'', AlgorithmHint.kUnspecified),
      (''ring'', AlgorithmHint.kRing),
      (''tree'', AlgorithmHint.kTree),
      (''double_binary_tree'', AlgorithmHint.kDoubleBinaryTree),
      (''hierarchical'', AlgorithmHint.kHierarchical),
      (''recursive_doubling'', AlgorithmHint.kRecursiveDoubling),
      (''rabenseifner'', AlgorithmHint.kRabenseifner),
      (''butterfly'', AlgorithmHint.kButterfly),
      (''direct'', AlgorithmHint.kDirect),
      (''pipeline'', AlgorithmHint.kPipeline),
      (''ring_chunked'', AlgorithmHint.kRingChunked),
      (''vendor_specific'', AlgorithmHint.kVendorSpecific)]"

definition algorithm_hint_from_string :: "string \<Rightarrow> AlgorithmHint option" where
  "algorithm_hint_from_string text = table_find AlgorithmHint_table text"

datatype CollectiveScope =
    kUnspecified
  | kIntraNode
  | kInterNode
  | kCrossRack
  | kCrossPod
  | kHybrid

primrec CollectiveScope_value :: "CollectiveScope \<Rightarrow> u64" where
  "CollectiveScope_value CollectiveScope.kUnspecified = 0"
| "CollectiveScope_value CollectiveScope.kIntraNode = 1"
| "CollectiveScope_value CollectiveScope.kInterNode = 2"
| "CollectiveScope_value CollectiveScope.kCrossRack = 3"
| "CollectiveScope_value CollectiveScope.kCrossPod = 4"
| "CollectiveScope_value CollectiveScope.kHybrid = 5"

primrec CollectiveScope_to_string :: "CollectiveScope \<Rightarrow> string" where
  "CollectiveScope_to_string CollectiveScope.kUnspecified = ''unspecified''"
| "CollectiveScope_to_string CollectiveScope.kIntraNode = ''intra_node''"
| "CollectiveScope_to_string CollectiveScope.kInterNode = ''inter_node''"
| "CollectiveScope_to_string CollectiveScope.kCrossRack = ''cross_rack''"
| "CollectiveScope_to_string CollectiveScope.kCrossPod = ''cross_pod''"
| "CollectiveScope_to_string CollectiveScope.kHybrid = ''hybrid''"

definition CollectiveScope_table :: "(string \<times> CollectiveScope) list" where
  "CollectiveScope_table =
     [(''unspecified'', CollectiveScope.kUnspecified),
      (''intra_node'', CollectiveScope.kIntraNode),
      (''inter_node'', CollectiveScope.kInterNode),
      (''cross_rack'', CollectiveScope.kCrossRack),
      (''cross_pod'', CollectiveScope.kCrossPod),
      (''hybrid'', CollectiveScope.kHybrid)]"

definition collective_scope_from_string :: "string \<Rightarrow> CollectiveScope option" where
  "collective_scope_from_string text = table_find CollectiveScope_table text"

datatype CollectiveState =
    kUnregistered
  | kRegistered
  | kPlanning
  | kActive
  | kDraining
  | kCompleted
  | kCancelled
  | kRetired
  | kTimedOut

primrec CollectiveState_value :: "CollectiveState \<Rightarrow> u64" where
  "CollectiveState_value CollectiveState.kUnregistered = 0"
| "CollectiveState_value CollectiveState.kRegistered = 1"
| "CollectiveState_value CollectiveState.kPlanning = 2"
| "CollectiveState_value CollectiveState.kActive = 3"
| "CollectiveState_value CollectiveState.kDraining = 4"
| "CollectiveState_value CollectiveState.kCompleted = 5"
| "CollectiveState_value CollectiveState.kCancelled = 6"
| "CollectiveState_value CollectiveState.kRetired = 7"
| "CollectiveState_value CollectiveState.kTimedOut = 8"

primrec CollectiveState_to_string :: "CollectiveState \<Rightarrow> string" where
  "CollectiveState_to_string CollectiveState.kUnregistered = ''unregistered''"
| "CollectiveState_to_string CollectiveState.kRegistered = ''registered''"
| "CollectiveState_to_string CollectiveState.kPlanning = ''planning''"
| "CollectiveState_to_string CollectiveState.kActive = ''active''"
| "CollectiveState_to_string CollectiveState.kDraining = ''draining''"
| "CollectiveState_to_string CollectiveState.kCompleted = ''completed''"
| "CollectiveState_to_string CollectiveState.kCancelled = ''cancelled''"
| "CollectiveState_to_string CollectiveState.kRetired = ''retired''"
| "CollectiveState_to_string CollectiveState.kTimedOut = ''timed_out''"

definition is_known_collective_class :: "CollectiveClass \<Rightarrow> bool" where
  "is_known_collective_class c \<longleftrightarrow>
     c \<noteq> CollectiveClass.kUnknown \<and> c \<noteq> CollectiveClass.kUnknownVendor"

definition algorithm_hint_is_specified :: "AlgorithmHint \<Rightarrow> bool" where
  "algorithm_hint_is_specified h \<longleftrightarrow> h \<noteq> AlgorithmHint.kUnspecified"

definition collective_state_is_terminal :: "CollectiveState \<Rightarrow> bool" where
  "collective_state_is_terminal s =
     (case s of
        CollectiveState.kCompleted \<Rightarrow> True
      | CollectiveState.kCancelled \<Rightarrow> True
      | CollectiveState.kRetired \<Rightarrow> True
      | CollectiveState.kTimedOut \<Rightarrow> True
      | _ \<Rightarrow> False)"

definition collective_state_accepts_new_authority :: "CollectiveState \<Rightarrow> bool" where
  "collective_state_accepts_new_authority s =
     (case s of
        CollectiveState.kRegistered \<Rightarrow> True
      | CollectiveState.kPlanning \<Rightarrow> True
      | CollectiveState.kActive \<Rightarrow> True
      | CollectiveState.kDraining \<Rightarrow> True
      | _ \<Rightarrow> False)"


section \<open>Phases, steps, metadata, definitions\<close>

record CollectivePhase =
  phase_index :: Sequence
  phase_label :: string
  phase_synchronization_point :: bool
  phase_step_count :: u32

record CollectiveStep =
  step_phase_index :: Sequence
  step_index :: Sequence
  step_hint :: AlgorithmHint
  step_synchronization_point :: bool

text \<open>\<^verbatim>\<open>Metadata\<close>: entries in insertion order; \<^verbatim>\<open>set\<close> returns whether it stored the value.\<close>

type_synonym Metadata = "(string \<times> string) list"

fun metadata_replace :: "string \<Rightarrow> string \<Rightarrow> Metadata \<Rightarrow> Metadata option" where
  "metadata_replace key v [] = None"
| "metadata_replace key v (entry # rest) =
     (if fst entry = key then Some ((fst entry, v) # rest)
      else map_option ((#) entry) (metadata_replace key v rest))"

definition metadata_set :: "string \<Rightarrow> string \<Rightarrow> Metadata \<Rightarrow> bool \<times> Metadata" where
  "metadata_set key v entries =
     (if key = [] \<or> length key > kMetadataKeyBytesMax then (False, entries)
      else if length v > kMetadataValueBytesMax then (False, entries)
      else case metadata_replace key v entries of
        Some entries' \<Rightarrow> (True, entries')
      | None \<Rightarrow>
          if length entries \<ge> kMetadataEntriesMax then (False, entries)
          else (True, entries @ [(key, v)]))"

fun metadata_find :: "string \<Rightarrow> Metadata \<Rightarrow> string option" where
  "metadata_find key [] = None"
| "metadata_find key (entry # rest) = (if fst entry = key then Some (snd entry) else metadata_find key rest)"

definition metadata_has :: "string \<Rightarrow> Metadata \<Rightarrow> bool" where
  "metadata_has key entries \<longleftrightarrow> metadata_find key entries \<noteq> None"

record CollectiveDefinition =
  def_id :: CollectiveId
  def_generation :: CollectiveGeneration
  def_collective_class :: CollectiveClass
  def_algorithm_hint :: AlgorithmHint
  def_scope :: CollectiveScope
  def_label :: string
  def_origin_node :: NodeId
  def_fabric :: FabricInstanceId
  def_participants :: "ParticipantId list"
  def_phases :: "CollectivePhase list"
  def_steps :: "CollectiveStep list"
  def_metadata :: Metadata
  def_declares_barrier_semantics :: bool
  def_logical_bytes :: u64
  def_registration_sequence :: Sequence

definition CollectiveDefinition_default :: CollectiveDefinition where
  "CollectiveDefinition_default =
     \<lparr>def_id = no_identity, def_generation = no_identity,
      def_collective_class = CollectiveClass.kUnknown,
      def_algorithm_hint = AlgorithmHint.kUnspecified, def_scope = CollectiveScope.kUnspecified,
      def_label = [], def_origin_node = no_identity, def_fabric = no_identity,
      def_participants = [], def_phases = [], def_steps = [], def_metadata = [],
      def_declares_barrier_semantics = False, def_logical_bytes = 0,
      def_registration_sequence = 0\<rparr>"

record CollectiveInstance =
  inst_id :: CollectiveId
  inst_generation :: CollectiveGeneration
  inst_attempt :: CollectiveAttemptId
  inst_attempt_sequence :: Sequence

definition CollectiveInstance_default :: CollectiveInstance where
  "CollectiveInstance_default =
     \<lparr>inst_id = no_identity, inst_generation = no_identity, inst_attempt = no_identity,
      inst_attempt_sequence = 0\<rparr>"

text \<open>\<^verbatim>\<open>operator==\<close> on instances does not compare the attempt sequence.\<close>

definition instance_eq :: "CollectiveInstance \<Rightarrow> CollectiveInstance \<Rightarrow> bool" where
  "instance_eq a b \<longleftrightarrow>
     inst_id a = inst_id b \<and> inst_generation a = inst_generation b \<and> inst_attempt a = inst_attempt b"


section \<open>Canonical participant sets\<close>

text \<open>\<^verbatim>\<open>std::unique\<close> drops every element equal to its predecessor: HOL's \<open>remdups_adj\<close>.\<close>

definition canonicalize_participants :: "ParticipantId list \<Rightarrow> ParticipantId list" where
  "canonicalize_participants participants = remdups_adj (std_sort (\<lambda>a b. a < b) participants)"

fun participants_are_canonical :: "ParticipantId list \<Rightarrow> bool" where
  "participants_are_canonical (x # y # rest) = (if \<not> x < y then False else participants_are_canonical (y # rest))"
| "participants_are_canonical _ = True"

fun participants_agree :: "ParticipantId list \<Rightarrow> ParticipantId list \<Rightarrow> bool" where
  "participants_agree (a # as) (b # bs) = (if a \<noteq> b then False else participants_agree as bs)"
| "participants_agree _ _ = True"

definition participant_set_equals :: "ParticipantId list \<Rightarrow> ParticipantId list \<Rightarrow> bool" where
  "participant_set_equals a b = (if length a \<noteq> length b then False else participants_agree a b)"


section \<open>The name tables\<close>

interpretation class_names: name_table CollectiveClass_to_string CollectiveClass_table
proof
  show "e \<in> snd ` set CollectiveClass_table" for e by (cases e) (simp_all add: CollectiveClass_table_def)
qed (simp_all add: CollectiveClass_table_def)

interpretation hint_names: name_table AlgorithmHint_to_string AlgorithmHint_table
proof
  show "e \<in> snd ` set AlgorithmHint_table" for e by (cases e) (simp_all add: AlgorithmHint_table_def)
qed (simp_all add: AlgorithmHint_table_def)

interpretation scope_names: name_table CollectiveScope_to_string CollectiveScope_table
proof
  show "e \<in> snd ` set CollectiveScope_table" for e by (cases e) (simp_all add: CollectiveScope_table_def)
qed (simp_all add: CollectiveScope_table_def)


section \<open>Lifecycle states\<close>

lemma terminal_accepts_no_authority:
  "collective_state_is_terminal s \<Longrightarrow> \<not> collective_state_accepts_new_authority s"
  by (cases s) (simp_all add: collective_state_is_terminal_def collective_state_accepts_new_authority_def)

lemma accepts_new_authority_iff:
  "collective_state_accepts_new_authority s \<longleftrightarrow>
     s \<noteq> CollectiveState.kUnregistered \<and> \<not> collective_state_is_terminal s"
  by (cases s) (simp_all add: collective_state_is_terminal_def collective_state_accepts_new_authority_def)


section \<open>Metadata\<close>

lemma metadata_replace_None: "metadata_replace key v m = None \<longleftrightarrow> key \<notin> fst ` set m"
  by (induction m) auto

lemma metadata_replace_keys: "metadata_replace key v m = Some m' \<Longrightarrow> map fst m' = map fst m"
  by (induction m arbitrary: m') (auto split: if_splits)

lemma metadata_replace_find:
  "metadata_replace key v m = Some m' \<Longrightarrow>
   metadata_find key' m' = (if key' = key then Some v else metadata_find key' m)"
  by (induction m arbitrary: m') (auto split: if_splits)

lemma metadata_find_append:
  "metadata_find key (m @ [(k, v)]) =
     (case metadata_find key m of None \<Rightarrow> if k = key then Some v else None | Some w \<Rightarrow> Some w)"
  by (induction m) auto

lemma metadata_find_None: "metadata_find key m = None \<longleftrightarrow> key \<notin> fst ` set m"
  by (induction m) auto

definition metadata_wf :: "Metadata \<Rightarrow> bool" where
  "metadata_wf m \<longleftrightarrow> distinct (map fst m) \<and> length m \<le> kMetadataEntriesMax \<and>
     (\<forall>(k, v)\<in>set m. k \<noteq> [] \<and> length k \<le> kMetadataKeyBytesMax \<and> length v \<le> kMetadataValueBytesMax)"

lemma metadata_replace_entries:
  "metadata_replace key v m = Some m' \<Longrightarrow> (k, w) \<in> set m' \<Longrightarrow> (k, w) \<in> set m \<or> k = key \<and> w = v"
  by (induction m arbitrary: m') (auto split: if_splits)

lemma metadata_set_wf: "metadata_wf m \<Longrightarrow> metadata_wf (snd (metadata_set key v m))"
proof -
  assume wf: "metadata_wf m"
  show ?thesis
  proof (cases "metadata_replace key v m")
    case None
    then have "key \<notin> fst ` set m" by (simp add: metadata_replace_None)
    then show ?thesis
      using wf by (auto simp: metadata_set_def metadata_wf_def None)
  next
    case (Some m')
    have "length m' = length m" using metadata_replace_keys [OF Some] by (metis length_map)
    then show ?thesis
      using wf metadata_replace_keys [OF Some] metadata_replace_entries [OF Some]
      by (fastforce simp: metadata_set_def metadata_wf_def Some)
  qed
qed

lemma metadata_set_find:
  assumes "metadata_set key v m = (True, m')"
  shows "metadata_find key' m' = (if key' = key then Some v else metadata_find key' m)"
proof (cases "metadata_replace key v m")
  case None
  then have "metadata_find key m = None" by (simp add: metadata_replace_None metadata_find_None)
  with None assms show ?thesis
    by (auto simp: metadata_set_def metadata_find_append split: if_splits option.splits)
next
  case (Some m'')
  with assms show ?thesis
    by (auto simp: metadata_set_def metadata_replace_find split: if_splits)
qed


section \<open>Canonical participants\<close>

lemma participants_are_canonical_ascending:
  "participants_are_canonical ps \<longleftrightarrow> ascending (\<lambda>p. p) ps"
proof (induction ps rule: participants_are_canonical.induct)
  case (1 x y rest)
  then show ?case by (auto dest: less_trans)
qed simp_all

lemma participants_agree_eq: "length a = length b \<Longrightarrow> participants_agree a b \<longleftrightarrow> a = b"
  by (induction a b rule: list_induct2) auto

lemma participant_set_equals_eq: "participant_set_equals a b \<longleftrightarrow> a = b"
  by (auto simp: participant_set_equals_def participants_agree_eq)

lemma remdups_adj_sorted_ascending: "sorted xs \<Longrightarrow> ascending (\<lambda>p. p) (remdups_adj xs)"
  by (induction xs rule: remdups_adj.induct) (auto simp: less_le)

lemma canonicalize_ascending: "ascending (\<lambda>p. p) (canonicalize_participants ps)"
  by (simp add: canonicalize_participants_def std_sort_less_eq_sort remdups_adj_sorted_ascending)

lemma set_canonicalize [simp]: "set (canonicalize_participants ps) = set ps"
  by (simp add: canonicalize_participants_def sort_simps)

lemma ascending_set_unique:
  "ascending (\<lambda>p. p) xs \<Longrightarrow> ascending (\<lambda>p. p) ys \<Longrightarrow> set xs = set ys \<Longrightarrow> xs = ys"
  for xs ys :: "'a :: linorder list"
  by (rule sorted_distinct_set_unique)
    (auto simp: ascending_def strict_sorted_iff dest: strict_sorted_imp_sorted)

end
