(* ===== verification/CTF_FlowGroup.thy ===== *)
theory CTF_FlowGroup
  imports CTF_Collective "HOL-Library.Product_Lexorder"
begin

text \<open>
  include/ctf/flow_group.hpp and src/flow_group.cpp: planned edges, the validation of a plan
  against the participant set, the canonical edge order, the content digest and the
  construction of a flow group. 64-bit digests and volumes wrap as in the code.
\<close>


section \<open>Enumerations and records\<close>

datatype FlowPattern =
    kUnspecified
  | kRing
  | kChain
  | kTreeUp
  | kTreeDown
  | kStar
  | kFullMesh
  | kNeighborExchange
  | kPairwiseDisjoint
  | kPipeline
  | kCustom

primrec FlowPattern_value :: "FlowPattern \<Rightarrow> u64" where
  "FlowPattern_value FlowPattern.kUnspecified = 0"
| "FlowPattern_value FlowPattern.kRing = 1"
| "FlowPattern_value FlowPattern.kChain = 2"
| "FlowPattern_value FlowPattern.kTreeUp = 3"
| "FlowPattern_value FlowPattern.kTreeDown = 4"
| "FlowPattern_value FlowPattern.kStar = 5"
| "FlowPattern_value FlowPattern.kFullMesh = 6"
| "FlowPattern_value FlowPattern.kNeighborExchange = 7"
| "FlowPattern_value FlowPattern.kPairwiseDisjoint = 8"
| "FlowPattern_value FlowPattern.kPipeline = 9"
| "FlowPattern_value FlowPattern.kCustom = 10"

primrec FlowPattern_to_string :: "FlowPattern \<Rightarrow> string" where
  "FlowPattern_to_string FlowPattern.kUnspecified = ''unspecified''"
| "FlowPattern_to_string FlowPattern.kRing = ''ring''"
| "FlowPattern_to_string FlowPattern.kChain = ''chain''"
| "FlowPattern_to_string FlowPattern.kTreeUp = ''tree_up''"
| "FlowPattern_to_string FlowPattern.kTreeDown = ''tree_down''"
| "FlowPattern_to_string FlowPattern.kStar = ''star''"
| "FlowPattern_to_string FlowPattern.kFullMesh = ''full_mesh''"
| "FlowPattern_to_string FlowPattern.kNeighborExchange = ''neighbor_exchange''"
| "FlowPattern_to_string FlowPattern.kPairwiseDisjoint = ''pairwise_disjoint''"
| "FlowPattern_to_string FlowPattern.kPipeline = ''pipeline''"
| "FlowPattern_to_string FlowPattern.kCustom = ''custom''"

definition FlowPattern_table :: "(string \<times> FlowPattern) list" where
  "FlowPattern_table =
     [(''unspecified'', FlowPattern.kUnspecified),
      (''ring'', FlowPattern.kRing),
      (''chain'', FlowPattern.kChain),
      (''tree_up'', FlowPattern.kTreeUp),
      (''tree_down'', FlowPattern.kTreeDown),
      (''star'', FlowPattern.kStar),
      (''full_mesh'', FlowPattern.kFullMesh),
      (''neighbor_exchange'', FlowPattern.kNeighborExchange),
      (''pairwise_disjoint'', FlowPattern.kPairwiseDisjoint),
      (''pipeline'', FlowPattern.kPipeline),
      (''custom'', FlowPattern.kCustom)]"

definition flow_pattern_from_string :: "string \<Rightarrow> FlowPattern option" where
  "flow_pattern_from_string text = table_find FlowPattern_table text"

datatype FlowDirection =
    kUnknown
  | kUnidirectional
  | kBidirectional

primrec FlowDirection_value :: "FlowDirection \<Rightarrow> u64" where
  "FlowDirection_value FlowDirection.kUnknown = 0"
| "FlowDirection_value FlowDirection.kUnidirectional = 1"
| "FlowDirection_value FlowDirection.kBidirectional = 2"

primrec FlowDirection_to_string :: "FlowDirection \<Rightarrow> string" where
  "FlowDirection_to_string FlowDirection.kUnknown = ''unknown''"
| "FlowDirection_to_string FlowDirection.kUnidirectional = ''unidirectional''"
| "FlowDirection_to_string FlowDirection.kBidirectional = ''bidirectional''"

datatype FlowGroupState =
    kUnspecified
  | kConstructed
  | kAuthorized
  | kDraining
  | kClosed
  | kCancelled

primrec FlowGroupState_value :: "FlowGroupState \<Rightarrow> u64" where
  "FlowGroupState_value FlowGroupState.kUnspecified = 0"
| "FlowGroupState_value FlowGroupState.kConstructed = 1"
| "FlowGroupState_value FlowGroupState.kAuthorized = 2"
| "FlowGroupState_value FlowGroupState.kDraining = 3"
| "FlowGroupState_value FlowGroupState.kClosed = 4"
| "FlowGroupState_value FlowGroupState.kCancelled = 5"

primrec FlowGroupState_to_string :: "FlowGroupState \<Rightarrow> string" where
  "FlowGroupState_to_string FlowGroupState.kUnspecified = ''unspecified''"
| "FlowGroupState_to_string FlowGroupState.kConstructed = ''constructed''"
| "FlowGroupState_to_string FlowGroupState.kAuthorized = ''authorized''"
| "FlowGroupState_to_string FlowGroupState.kDraining = ''draining''"
| "FlowGroupState_to_string FlowGroupState.kClosed = ''closed''"
| "FlowGroupState_to_string FlowGroupState.kCancelled = ''cancelled''"

record FlowEdge =
  edge_source :: ParticipantId
  edge_destination :: ParticipantId
  edge_logical_bytes :: u64
  edge_step_index :: Sequence
  edge_hint :: AlgorithmHint
  edge_crosses_rack :: bool

record FlowGroupPlan =
  plan_instance :: CollectiveInstance
  plan_collective_class :: CollectiveClass
  plan_pattern :: FlowPattern
  plan_direction :: FlowDirection
  plan_edges :: "FlowEdge list"
  plan_sequence :: Sequence
  plan_requires_simultaneous_start :: bool

definition FlowGroupPlan_default :: FlowGroupPlan where
  "FlowGroupPlan_default =
     \<lparr>plan_instance = CollectiveInstance_default, plan_collective_class = CollectiveClass.kUnknown,
      plan_pattern = FlowPattern.kUnspecified, plan_direction = FlowDirection.kUnidirectional,
      plan_edges = [], plan_sequence = 0, plan_requires_simultaneous_start = False\<rparr>"

record FlowGroup =
  group_id :: FlowGroupId
  group_instance :: CollectiveInstance
  group_collective_class :: CollectiveClass
  group_pattern :: FlowPattern
  group_direction :: FlowDirection
  group_edges :: "FlowEdge list"
  group_participants :: "ParticipantId list"
  group_total_logical_bytes :: u64
  group_max_fan_out :: u32
  group_max_fan_in :: u32
  group_cross_rack_edge_count :: u32
  group_requires_simultaneous_start :: bool
  group_plan_sequence :: Sequence

definition FlowGroup_default :: FlowGroup where
  "FlowGroup_default =
     \<lparr>group_id = no_identity, group_instance = CollectiveInstance_default,
      group_collective_class = CollectiveClass.kUnknown, group_pattern = FlowPattern.kUnspecified,
      group_direction = FlowDirection.kUnidirectional, group_edges = [], group_participants = [],
      group_total_logical_bytes = 0, group_max_fan_out = 0, group_max_fan_in = 0,
      group_cross_rack_edge_count = 0, group_requires_simultaneous_start = False,
      group_plan_sequence = 0\<rparr>"


section \<open>Mixing and the canonical edge order\<close>

definition mix :: "u64 \<Rightarrow> u64 \<Rightarrow> u64" where
  "mix state v =
     (let s1 = state XOR (v + 0x9E3779B97F4A7C15 + push_bit 6 state + drop_bit 2 state);
          s2 = s1 * 0xFF51AFD7ED558CCD
      in s2 XOR drop_bit 33 s2)"

definition mix_identity :: "u64 \<Rightarrow> Identity \<Rightarrow> u64" where
  "mix_identity state i = mix (mix state (high i)) (low i)"

definition edge_less :: "FlowEdge \<Rightarrow> FlowEdge \<Rightarrow> bool" where
  "edge_less a b =
     (if edge_step_index a \<noteq> edge_step_index b then edge_step_index a < edge_step_index b
      else if edge_source a \<noteq> edge_source b then edge_source a < edge_source b
      else if edge_destination a \<noteq> edge_destination b then edge_destination a < edge_destination b
      else if edge_logical_bytes a \<noteq> edge_logical_bytes b
      then edge_logical_bytes a < edge_logical_bytes b
      else if edge_hint a \<noteq> edge_hint b
      then AlgorithmHint_value (edge_hint a) < AlgorithmHint_value (edge_hint b)
      else (if edge_crosses_rack a then 1 else 0 :: int) < (if edge_crosses_rack b then 1 else 0))"


section \<open>Validation\<close>

text \<open>The key of the duplicate check: step, source and destination folded into 64 bits.\<close>

definition edge_key :: "FlowEdge \<Rightarrow> u64" where
  "edge_key e =
     mix (mix (mix (mix (edge_step_index e) (high (edge_source e))) (low (edge_source e)))
       (high (edge_destination e))) (low (edge_destination e))"

fun validate_edges :: "ParticipantId list \<Rightarrow> u64 list \<Rightarrow> FlowEdge list \<Rightarrow> Status" where
  "validate_edges allowed seen [] = status_ok"
| "validate_edges allowed seen (e # rest) =
     (if is_none (edge_source e) \<or> is_none (edge_destination e)
      then Status ErrorCode_kValidationEdgeUnset ''flow group plan contains an unset edge endpoint''
      else if edge_source e = edge_destination e
      then Status ErrorCode_kValidationEdgeSelfLoop ''flow group plan contains a self loop''
      else if edge_source e \<notin> set allowed \<or> edge_destination e \<notin> set allowed
      then Status ErrorCode_kValidationEdgeEndpointNotParticipant
             ''flow group plan references a non participant endpoint''
      else if is_unset (edge_step_index e)
      then Status ErrorCode_kValidationStepOutOfRange
             ''flow group plan contains an edge without a step''
      else if edge_key e \<in> set seen
      then Status ErrorCode_kValidationEdgeDuplicate
             ''flow group plan states the same directed edge twice in one step''
      else validate_edges allowed (edge_key e # seen) rest)"

definition validate_flow_group_plan :: "FlowGroupPlan \<Rightarrow> ParticipantId list \<Rightarrow> Status" where
  "validate_flow_group_plan plan allowed_participants =
     (if is_none (inst_id (plan_instance plan))
      then Status ErrorCode_kValidationGenerationUnset ''flow group plan has no collective id''
      else if is_none (inst_generation (plan_instance plan))
      then Status ErrorCode_kValidationGenerationUnset
             ''flow group plan has no collective generation''
      else if is_none (inst_attempt (plan_instance plan))
      then Status ErrorCode_kValidationAttemptUnset ''flow group plan has no attempt identity''
      else if plan_edges plan = []
      then Status ErrorCode_kValidationEdgeCountOutOfRange ''flow group plan has no edges''
      else if length (plan_edges plan) > kEdgesMaxPerFlowGroup
      then Status ErrorCode_kValidationEdgeCountOutOfRange ''flow group plan exceeds the edge bound''
      else if plan_direction plan = FlowDirection.kUnknown
      then Status ErrorCode_kValidationEdgeCountOutOfRange
             ''flow group plan must state a direction; unknown is not a direction''
      else if allowed_participants = []
      then Status ErrorCode_kValidationParticipantCountOutOfRange ''collective has no participants''
      else validate_edges allowed_participants [] (plan_edges plan))"


section \<open>Digest, identity and construction\<close>

definition mix_edge :: "u64 \<Rightarrow> FlowEdge \<Rightarrow> u64" where
  "mix_edge state e =
     (let s1 = mix state (edge_step_index e);
          s2 = mix_identity s1 (edge_source e);
          s3 = mix_identity s2 (edge_destination e);
          s4 = mix s3 (edge_logical_bytes e);
          s5 = mix s4 (AlgorithmHint_value (edge_hint e))
      in mix s5 (if edge_crosses_rack e then 1 else 0))"

definition flow_group_content_digest :: "FlowGroupPlan \<Rightarrow> u64" where
  "flow_group_content_digest plan =
     (let s0 = 0x243F6A8885A308D3;
          s1 = mix_identity s0 (inst_id (plan_instance plan));
          s2 = mix_identity s1 (inst_generation (plan_instance plan));
          s3 = mix_identity s2 (inst_attempt (plan_instance plan));
          s4 = mix s3 (inst_attempt_sequence (plan_instance plan));
          s5 = mix s4 (CollectiveClass_value (plan_collective_class plan));
          s6 = mix s5 (FlowPattern_value (plan_pattern plan));
          s7 = mix s6 (FlowDirection_value (plan_direction plan));
          s8 = mix s7 (if plan_requires_simultaneous_start plan then 1 else 0);
          s9 = mix s8 (of_nat (length (plan_edges plan)))
      in foldl mix_edge s9 (std_sort edge_less (plan_edges plan)))"

definition canonical_flow_group_id :: "FlowGroupPlan \<Rightarrow> FlowGroupId" where
  "canonical_flow_group_id plan =
     (let hi = flow_group_content_digest plan;
          lo = mix hi 0xA5A5A5A5A5A5A5A5
      in if hi = 0 \<and> lo = 0 then Identity 1 lo else Identity hi lo)"

text \<open>The longest run of equal elements: the pass over the sorted endpoints.\<close>

fun longest_run :: "u32 \<Rightarrow> u32 \<Rightarrow> ParticipantId list \<Rightarrow> u32" where
  "longest_run best run [] = best"
| "longest_run best run [x] = max best (run + 1)"
| "longest_run best run (x # y # rest) =
     (if y \<noteq> x then longest_run (max best (run + 1)) 0 (y # rest)
      else longest_run best (run + 1) (y # rest))"

definition construct_flow_group ::
  "FlowGroupPlan \<Rightarrow> ParticipantId list \<Rightarrow> Status + FlowGroup" where
  "construct_flow_group plan allowed_participants =
     (let status = validate_flow_group_plan plan allowed_participants in
      if \<not> is_ok status then Inl status
      else
        let edges = std_sort edge_less (plan_edges plan);
            endpoints = concat (map (\<lambda>e. [edge_source e, edge_destination e]) edges);
            sources = std_sort (\<lambda>a b. a < b) (map edge_source edges);
            destinations = std_sort (\<lambda>a b. a < b) (map edge_destination edges)
        in Inr
          \<lparr>group_id = canonical_flow_group_id plan,
           group_instance = plan_instance plan,
           group_collective_class = plan_collective_class plan,
           group_pattern = plan_pattern plan,
           group_direction = plan_direction plan,
           group_edges = edges,
           group_participants = canonicalize_participants endpoints,
           group_total_logical_bytes = foldl (\<lambda>total e. total + edge_logical_bytes e) 0 edges,
           group_max_fan_out = longest_run 0 0 sources,
           group_max_fan_in = longest_run 0 0 destinations,
           group_cross_rack_edge_count =
             foldl (\<lambda>n e. n + (if edge_crosses_rack e then 1 else 0)) 0 edges,
           group_requires_simultaneous_start = plan_requires_simultaneous_start plan,
           group_plan_sequence = plan_sequence plan\<rparr>)"


section \<open>The pattern names\<close>

interpretation pattern_names: name_table FlowPattern_to_string FlowPattern_table
proof
  show "e \<in> snd ` set FlowPattern_table" for e by (cases e) (simp_all add: FlowPattern_table_def)
qed (simp_all add: FlowPattern_table_def)


section \<open>The edge order is total\<close>

lemma AlgorithmHint_value_inj: "AlgorithmHint_value h = AlgorithmHint_value h' \<longleftrightarrow> h = h'"
  by (cases h; cases h'; simp)

text \<open>The fields in the order the comparison visits them.\<close>

definition edge_tuple :: "FlowEdge \<Rightarrow> u64 \<times> Identity \<times> Identity \<times> u64 \<times> u64 \<times> bool" where
  "edge_tuple e =
     (edge_step_index e, edge_source e, edge_destination e, edge_logical_bytes e,
      AlgorithmHint_value (edge_hint e), edge_crosses_rack e)"

lemma edge_tuple_inj: "edge_tuple a = edge_tuple b \<longleftrightarrow> a = b"
  by (auto simp: edge_tuple_def AlgorithmHint_value_inj)

lemma edge_less_tuple: "edge_less a b \<longleftrightarrow> edge_tuple a < edge_tuple b"
  using AlgorithmHint_value_inj [of "edge_hint a" "edge_hint b"]
  by (auto simp: edge_less_def edge_tuple_def le_less)

interpretation edge_order: total_comparator edge_less
  by unfold_locales (auto simp: edge_less_tuple simp flip: edge_tuple_inj)


section \<open>What an accepted plan is\<close>

definition edge_ok :: "ParticipantId list \<Rightarrow> FlowEdge \<Rightarrow> bool" where
  "edge_ok allowed e \<longleftrightarrow>
     is_some (edge_source e) \<and> is_some (edge_destination e) \<and> edge_source e \<noteq> edge_destination e \<and>
     edge_source e \<in> set allowed \<and> edge_destination e \<in> set allowed \<and> edge_step_index e \<noteq> 0"

lemma validate_edges_ok:
  "is_ok (validate_edges allowed seen es) \<longleftrightarrow>
     (\<forall>e\<in>set es. edge_ok allowed e) \<and> distinct (map edge_key es) \<and> edge_key ` set es \<inter> set seen = {}"
  by (induction es arbitrary: seen) (auto simp: edge_ok_def is_some_def is_unset_def)

definition plan_ok :: "FlowGroupPlan \<Rightarrow> ParticipantId list \<Rightarrow> bool" where
  "plan_ok plan allowed \<longleftrightarrow>
     is_some (inst_id (plan_instance plan)) \<and> is_some (inst_generation (plan_instance plan)) \<and>
     is_some (inst_attempt (plan_instance plan)) \<and> plan_edges plan \<noteq> [] \<and>
     length (plan_edges plan) \<le> kEdgesMaxPerFlowGroup \<and> plan_direction plan \<noteq> FlowDirection.kUnknown \<and>
     allowed \<noteq> [] \<and> (\<forall>e\<in>set (plan_edges plan). edge_ok allowed e) \<and>
     distinct (map edge_key (plan_edges plan))"

lemma validate_plan_ok: "is_ok (validate_flow_group_plan plan allowed) \<longleftrightarrow> plan_ok plan allowed"
  by (auto simp: validate_flow_group_plan_def plan_ok_def validate_edges_ok is_some_def)

lemma plan_ok_perm:
  assumes "mset es = mset (plan_edges plan)"
  shows "plan_ok (plan\<lparr>plan_edges := es\<rparr>) allowed \<longleftrightarrow> plan_ok plan allowed"
proof -
  have "set es = set (plan_edges plan)" "length es = length (plan_edges plan)"
    using assms by (metis mset_eq_setD, metis mset_eq_length)
  moreover have "mset (map edge_key es) = mset (map edge_key (plan_edges plan))"
    using assms by simp
  then have "distinct (map edge_key es) \<longleftrightarrow> distinct (map edge_key (plan_edges plan))"
    by (rule mset_eq_imp_distinct_iff)
  moreover from calculation have "es = [] \<longleftrightarrow> plan_edges plan = []" by auto
  ultimately show ?thesis by (simp add: plan_ok_def)
qed

lemma digest_perm:
  assumes "mset es = mset (plan_edges plan)"
  shows "canonical_flow_group_id (plan\<lparr>plan_edges := es\<rparr>) = canonical_flow_group_id plan"
  using edge_order.std_sort_perm [OF assms] mset_eq_length [OF assms]
  by (simp add: canonical_flow_group_id_def flow_group_content_digest_def Let_def)

lemma canonical_flow_group_id_some: "is_some (canonical_flow_group_id plan)"
  by (auto simp: canonical_flow_group_id_def Let_def is_some_def is_none_def)

lemma construct_ok:
  "construct_flow_group plan allowed = Inr g \<Longrightarrow> plan_ok plan allowed"
  by (simp add: construct_flow_group_def Let_def validate_plan_ok split: if_splits)

lemma construct_Inr_iff: "(\<exists>g. construct_flow_group plan allowed = Inr g) \<longleftrightarrow> plan_ok plan allowed"
  by (simp add: construct_flow_group_def Let_def validate_plan_ok)


section \<open>Fan-in and fan-out\<close>

lemma unat_Suc_u32: "Suc (unat run) < 2 ^ 32 \<Longrightarrow> unat (run + 1 :: u32) = Suc (unat run)"
  by (simp add: unat_word_ariths)

lemma unat_max_u32: "unat (max x y :: u32) = max (unat x) (unat y)"
  by (simp add: max_def word_le_nat_alt)

fun run_max :: "nat \<Rightarrow> nat \<Rightarrow> 'a list \<Rightarrow> nat" where
  "run_max best run [] = best"
| "run_max best run [x] = max best (Suc run)"
| "run_max best run (x # y # rest) =
     (if y \<noteq> x then run_max (max best (Suc run)) 0 (y # rest) else run_max best (Suc run) (y # rest))"

lemma unat_longest_run:
  "unat run + length xs < 2 ^ 32 \<Longrightarrow>
   unat (longest_run best run xs) = run_max (unat best) (unat run) xs"
proof (induction best run xs rule: longest_run.induct)
  case (3 best run x y rest)
  then have "unat (run + 1) = Suc (unat run)" by (intro unat_Suc_u32) simp
  with 3 show ?case by (simp add: unat_max_u32)
qed (simp_all add: unat_max_u32 unat_Suc_u32)

lemma run_max_ge: "best \<le> run_max best run xs"
  by (induction best run xs rule: run_max.induct) auto

lemma run_max_count:
  "sorted xs \<Longrightarrow> xs \<noteq> [] \<Longrightarrow>
     run + count_list xs (hd xs) \<le> run_max best run xs \<and> (\<forall>z. count_list xs z \<le> run_max best run xs)"
proof (induction best run xs rule: run_max.induct)
  case (3 best run x y rest)
  show ?case
  proof (cases "y = x")
    case True
    with 3 have "Suc run + count_list (y # rest) y \<le> run_max best (Suc run) (y # rest)"
        "\<forall>z. count_list (y # rest) z \<le> run_max best (Suc run) (y # rest)" by auto
    with True show ?thesis by (auto split: if_splits)
  next
    case False
    with "3.prems" have "count_list (y # rest) x = 0" by (subst count_list_0_iff) auto
    moreover have "\<forall>z. count_list (y # rest) z \<le> run_max (max best (Suc run)) 0 (y # rest)"
      using False 3 by auto
    moreover have "Suc run \<le> run_max (max best (Suc run)) 0 (y # rest)"
      using run_max_ge [of "max best (Suc run)" 0 "y # rest"] by simp
    ultimately show ?thesis using False by (auto split: if_splits)
  qed
qed auto

lemma run_max_attained:
  "sorted xs \<Longrightarrow> xs \<noteq> [] \<Longrightarrow>
     run_max best run xs = best \<or> run_max best run xs = run + count_list xs (hd xs) \<or>
     (\<exists>z. run_max best run xs = count_list xs z)"
proof (induction best run xs rule: run_max.induct)
  case (3 best run x y rest)
  show ?case
  proof (cases "y = x")
    case True
    with 3 have IH: "run_max best (Suc run) (y # rest) = best \<or>
        run_max best (Suc run) (y # rest) = Suc run + count_list (y # rest) y \<or>
        (\<exists>z. run_max best (Suc run) (y # rest) = count_list (y # rest) z)" by auto
    have "z \<noteq> y" if "run_max best (Suc run) (y # rest) = count_list (y # rest) z" for z
      using that True 3 run_max_count [of "y # rest" "Suc run" best] by auto
    with IH True show ?thesis by fastforce
  next
    case False
    with "3.prems" have zero: "count_list (y # rest) x = 0" by (subst count_list_0_iff) auto
    let ?r = "run_max (max best (Suc run)) 0 (y # rest)"
    have pos: "0 < ?r" using run_max_ge [of "max best (Suc run)" 0 "y # rest"] by simp
    from False 3 consider "?r = best" | "?r = Suc run" | z where "?r = count_list (y # rest) z"
      by (fastforce simp: max_def split: if_splits)
    then show ?thesis
    proof cases
      case (3 z)
      with pos zero have "z \<noteq> x" by auto
      with 3 have "?r = count_list (x # y # rest) z" by simp
      with False show ?thesis by auto
    qed (use False zero in auto)
  qed
qed auto

lemma longest_run_Max:
  assumes "xs \<noteq> []" "length xs < 2 ^ 32"
  shows "unat (longest_run 0 0 (sort xs)) = Max (count_list xs ` set xs)"
proof -
  have count: "count_list (sort xs) z = count_list xs z" for z
    by (metis count_mset mset_sort)
  have ne: "sort xs \<noteq> []" using assms by (metis set_empty set_sort)
  have eq: "unat (longest_run 0 0 (sort xs)) = run_max 0 0 (sort xs)"
    using assms unat_longest_run [of 0 "sort xs" 0] by simp
  have ub: "count_list xs z \<le> run_max 0 0 (sort xs)" for z
    using run_max_count [of "sort xs" 0 0] ne by (simp add: count)
  have "0 < count_list xs (hd xs)"
    using assms by (metis count_list_0_iff hd_in_set neq0_conv)
  with ub [of "hd xs"] have pos: "0 < run_max 0 0 (sort xs)" by simp
  then obtain z where z: "run_max 0 0 (sort xs) = count_list xs z"
    using run_max_attained [of "sort xs" 0 0] ne by (auto simp: count)
  with pos have "z \<in> set xs" by (metis count_list_0_iff neq0_conv)
  with z ub eq show ?thesis by (intro Max_eqI [symmetric]) auto
qed

lemma count_list_map: "count_list (map f es) p = length (filter (\<lambda>e. f e = p) es)"
  by (induction es) auto

text \<open>The degree of a participant in a set of directed edges.\<close>

definition degree :: "(FlowEdge \<Rightarrow> ParticipantId) \<Rightarrow> FlowEdge list \<Rightarrow> ParticipantId \<Rightarrow> nat" where
  "degree endpoint es p = length (filter (\<lambda>e. endpoint e = p) es)"

lemma Max_degree:
  assumes "endpoint ` set es \<subseteq> P" "finite P" "es \<noteq> []"
  shows "Max (degree endpoint es ` P) = Max (degree endpoint es ` (endpoint ` set es))"
proof (rule Max_eqI)
  let ?M = "Max (degree endpoint es ` (endpoint ` set es))"
  have "?M \<in> degree endpoint es ` (endpoint ` set es)" using assms by (intro Max_in) auto
  with assms(1) show "?M \<in> degree endpoint es ` P" by blast
  show "y \<le> ?M" if "y \<in> degree endpoint es ` P" for y
  proof -
    from that obtain p where y: "y = degree endpoint es p" by auto
    show ?thesis
    proof (cases "p \<in> endpoint ` set es")
      case True
      with y show ?thesis by simp
    next
      case False
      then have "filter (\<lambda>e. endpoint e = p) es = []" by (auto simp: filter_empty_conv)
      with y show ?thesis by (simp add: degree_def)
    qed
  qed
qed (use assms in simp)

lemma longest_run_degree:
  assumes "es \<noteq> []" "length es < 2 ^ 32" "endpoint ` set es \<subseteq> P" "finite P"
  shows "unat (longest_run 0 0 (std_sort (\<lambda>a b. a < b) (map endpoint es))) = Max (degree endpoint es ` P)"
proof -
  have "count_list (map endpoint es) = degree endpoint es"
    by (simp add: fun_eq_iff count_list_map degree_def)
  then show ?thesis
    using assms longest_run_Max [of "map endpoint es"] Max_degree [of endpoint es P]
    by (simp add: std_sort_less_eq_sort)
qed

lemma unat_sum_bytes:
  "unat (foldl (\<lambda>total e. total + edge_logical_bytes e) t es) =
     (unat t + (\<Sum>e\<leftarrow>es. unat (edge_logical_bytes e))) mod 2 ^ 64"
proof (induction es arbitrary: t)
  case Nil
  then show ?case by simp
next
  case (Cons e es)
  then show ?case by (simp add: unat_add_u64 mod_simps add_ac)
qed


section \<open>The constructed group\<close>

lemma construct_group:
  assumes "construct_flow_group plan allowed = Inr g"
  shows "group_edges g = std_sort edge_less (plan_edges plan)"
    "group_participants g =
       canonicalize_participants (concat (map (\<lambda>e. [edge_source e, edge_destination e]) (group_edges g)))"
    "group_max_fan_out g = longest_run 0 0 (std_sort (\<lambda>a b. a < b) (map edge_source (group_edges g)))"
    "group_max_fan_in g = longest_run 0 0 (std_sort (\<lambda>a b. a < b) (map edge_destination (group_edges g)))"
    "group_total_logical_bytes g = foldl (\<lambda>total e. total + edge_logical_bytes e) 0 (group_edges g)"
    "group_id g = canonical_flow_group_id plan"
  using assms by (auto simp: construct_flow_group_def Let_def split: if_splits)

lemma construct_edges_ne:
  "construct_flow_group plan allowed = Inr g \<Longrightarrow> group_edges g \<noteq> [] \<and> length (group_edges g) < 2 ^ 32"
  using construct_ok [of plan allowed g] length_std_sort [of edge_less "plan_edges plan"]
  by (auto simp: construct_group plan_ok_def kEdgesMaxPerFlowGroup_def)

lemma construct_perm:
  assumes "mset es = mset (plan_edges plan)"
  shows "construct_flow_group (plan\<lparr>plan_edges := es\<rparr>) allowed = Inr g \<longleftrightarrow>
         construct_flow_group plan allowed = Inr g"
  using edge_order.std_sort_perm [OF assms] plan_ok_perm [OF assms] digest_perm [OF assms]
  by (simp add: construct_flow_group_def Let_def validate_plan_ok)

definition edge_obligation :: "FlowEdge \<Rightarrow> Sequence \<times> ParticipantId \<times> ParticipantId" where
  "edge_obligation e = (edge_step_index e, edge_source e, edge_destination e)"

lemma edge_obligation_key: "edge_obligation a = edge_obligation b \<Longrightarrow> edge_key a = edge_key b"
  by (simp add: edge_obligation_def edge_key_def)

lemma distinct_obligations: "distinct (map edge_key es) \<Longrightarrow> distinct (map edge_obligation es)"
  by (induction es) (auto dest!: edge_obligation_key)


section \<open>Properties of flow group construction\<close>

text \<open>A root that scatters to two leaves, the input the properties are applied to.\<close>

definition sample_instance :: CollectiveInstance where
  "sample_instance =
     \<lparr>inst_id = Identity 1 1, inst_generation = Identity 1 2, inst_attempt = Identity 1 3,
      inst_attempt_sequence = 1\<rparr>"

definition sample_edge :: "ParticipantId \<Rightarrow> ParticipantId \<Rightarrow> u64 \<Rightarrow> FlowEdge" where
  "sample_edge a b bytes =
     \<lparr>edge_source = a, edge_destination = b, edge_logical_bytes = bytes, edge_step_index = 1,
      edge_hint = AlgorithmHint.kUnspecified, edge_crosses_rack = False\<rparr>"

definition scatter_members :: "ParticipantId list" where
  "scatter_members = [Identity 1 10, Identity 1 11, Identity 1 12]"

definition scatter_plan :: "u64 \<Rightarrow> FlowGroupPlan" where
  "scatter_plan bytes = FlowGroupPlan_default
     \<lparr>plan_instance := sample_instance,
      plan_edges := [sample_edge (Identity 1 10) (Identity 1 12) bytes,
                     sample_edge (Identity 1 10) (Identity 1 11) bytes]\<rparr>"

lemma mix_inj: "mix state v = mix state w \<Longrightarrow> v = w"
proof -
  assume "mix state v = mix state w"
  then have "(state XOR (v + 0x9E3779B97F4A7C15 + push_bit 6 state + drop_bit 2 state)) * 0xFF51AFD7ED558CCD =
        (state XOR (w + 0x9E3779B97F4A7C15 + push_bit 6 state + drop_bit 2 state)) * 0xFF51AFD7ED558CCD"
    unfolding mix_def Let_def by (rule xorshift_inj [rotated]) simp
  then have "state XOR (v + 0x9E3779B97F4A7C15 + push_bit 6 state + drop_bit 2 state) =
        state XOR (w + 0x9E3779B97F4A7C15 + push_bit 6 state + drop_bit 2 state)"
    by (rule mult_unit_inj [where d = "0x4F74430C22A54005", rotated]) simp
  then have "v + 0x9E3779B97F4A7C15 + push_bit 6 state + drop_bit 2 state =
        w + 0x9E3779B97F4A7C15 + push_bit 6 state + drop_bit 2 state"
    by (rule xor_left_inj)
  then show "v = w" by simp
qed

lemma scatter_plan_ok: "plan_ok (scatter_plan bytes) scatter_members"
proof -
  have "edge_key (sample_edge (Identity 1 10) (Identity 1 12) bytes) \<noteq>
        edge_key (sample_edge (Identity 1 10) (Identity 1 11) bytes)"
    by (auto simp: edge_key_def sample_edge_def dest: mix_inj)
  then show ?thesis
    by (simp add: plan_ok_def scatter_plan_def scatter_members_def sample_instance_def
        FlowGroupPlan_default_def kEdgesMaxPerFlowGroup_def edge_ok_def is_some_def is_none_def)
      (simp add: sample_edge_def)
qed

lemma scatter_plan_constructed:
  obtains g where "construct_flow_group (scatter_plan bytes) scatter_members = Inr g"
  using scatter_plan_ok construct_Inr_iff by blast

text \<open>
  C28: The group built from a plan does not depend on the order in which the plan states its
  edges: every permutation of the edges is accepted exactly when the plan is, and gives the
  very same flow group, identity included.
\<close>

theorem flow_group_order_irrelevant:
  assumes "mset es = mset (plan_edges plan)"
  shows "construct_flow_group (plan\<lparr>plan_edges := es\<rparr>) allowed = Inr g \<longleftrightarrow>
         construct_flow_group plan allowed = Inr g"
  using assms by (rule construct_perm)

theorem flow_group_order_irrelevant_witness:
  "\<exists>g. construct_flow_group (scatter_plan 5) scatter_members = Inr g \<and>
       construct_flow_group ((scatter_plan 5)\<lparr>plan_edges := rev (plan_edges (scatter_plan 5))\<rparr>)
         scatter_members = Inr g"
  using scatter_plan_constructed [of 5] flow_group_order_irrelevant [of "rev (plan_edges (scatter_plan 5))" "scatter_plan 5"]
  by (metis mset_rev)

text \<open>
  C27: Construction never drops, adds or merges an edge. The group of an accepted plan holds
  exactly the plan's edges, in canonical order; no edge is a self loop or states the same
  step, source and destination twice; its participant vector is canonical, consists of
  exactly the endpoints, and stays inside the set the collective allows; its identity is set.
\<close>

theorem flow_group_faithful:
  assumes "construct_flow_group plan allowed = Inr g"
  shows "mset (group_edges g) = mset (plan_edges plan) \<and>
    sorted_wrt (\<lambda>a b. \<not> edge_less b a) (group_edges g) \<and>
    distinct (map edge_obligation (group_edges g)) \<and>
    (\<forall>e\<in>set (group_edges g). edge_source e \<noteq> edge_destination e) \<and>
    participants_are_canonical (group_participants g) \<and>
    set (group_participants g) =
      edge_source ` set (plan_edges plan) \<union> edge_destination ` set (plan_edges plan) \<and>
    set (group_participants g) \<subseteq> set allowed \<and>
    is_some (group_id g)"
proof -
  have ok: "\<forall>e\<in>set (plan_edges plan). edge_ok allowed e" "distinct (map edge_key (plan_edges plan))"
    using construct_ok [OF assms] by (simp_all add: plan_ok_def)
  have ms: "mset (group_edges g) = mset (plan_edges plan)"
    by (simp add: construct_group [OF assms] sort_simps)
  then have "distinct (map edge_key (group_edges g))"
    using ok(2) by (metis mset_eq_imp_distinct_iff mset_map)
  moreover have parts: "set (group_participants g) =
      edge_source ` set (plan_edges plan) \<union> edge_destination ` set (plan_edges plan)"
    by (auto simp: construct_group [OF assms] sort_simps)
  moreover have "participants_are_canonical (group_participants g)"
    by (simp add: construct_group(2) [OF assms] participants_are_canonical_ascending canonicalize_ascending)
  moreover have "set (group_participants g) \<subseteq> set allowed"
    using ok(1) parts by (auto simp: edge_ok_def)
  ultimately show ?thesis
    using ok(1) ms distinct_obligations edge_order.std_sort_sorted [of "plan_edges plan"]
      canonical_flow_group_id_some [of plan]
    by (auto simp: construct_group [OF assms] sort_simps edge_ok_def)
qed

theorem flow_group_faithful_witness:
  "\<exists>g. construct_flow_group (scatter_plan 5) scatter_members = Inr g \<and>
       mset (group_edges g) = mset (plan_edges (scatter_plan 5)) \<and> is_some (group_id g)"
  using scatter_plan_constructed [of 5] flow_group_faithful [of "scatter_plan 5" scatter_members] by metis

text \<open>
  The run-length pass over the sorted endpoints computes the true fan-out and fan-in: the
  greatest number of edges that leave, respectively enter, one participant of the group.
\<close>

theorem flow_group_fan:
  assumes "construct_flow_group plan allowed = Inr g"
  shows "unat (group_max_fan_out g) = Max (degree edge_source (plan_edges plan) ` set (group_participants g)) \<and>
         unat (group_max_fan_in g) = Max (degree edge_destination (plan_edges plan) ` set (group_participants g))"
proof -
  have parts: "set (group_participants g) = edge_source ` set (group_edges g) \<union> edge_destination ` set (group_edges g)"
    by (auto simp: construct_group(2) [OF assms])
  have "degree f (group_edges g) = degree f (plan_edges plan)" for f
    unfolding degree_def construct_group(1) [OF assms]
    by (metis mset_filter mset_std_sort size_mset)
  then show ?thesis
    using construct_edges_ne [OF assms] parts
    by (simp add: construct_group(3,4) [OF assms] longest_run_degree [where P = "set (group_participants g)"])
qed

theorem flow_group_fan_witness:
  "\<exists>g. construct_flow_group (scatter_plan 5) scatter_members = Inr g \<and>
       unat (group_max_fan_out g) = 2 \<and> unat (group_max_fan_in g) = 1"
proof -
  obtain g where g: "construct_flow_group (scatter_plan 5) scatter_members = Inr g"
    by (rule scatter_plan_constructed)
  have "set (group_participants g) = {Identity 1 10, Identity 1 11, Identity 1 12}"
    by (auto simp: construct_group [OF g] sort_simps scatter_plan_def sample_edge_def)
  with g flow_group_fan [OF g] show ?thesis
    by (simp add: degree_def scatter_plan_def sample_edge_def)
qed

text \<open>
  The byte total of a group is kept in 64 bits and is the sum of the edge volumes only
  modulo \<open>2 ^ 64\<close>: an accepted plan whose two edges each carry \<open>2 ^ 63\<close> bytes has total 0.
\<close>

theorem flow_group_total_wraps:
  "(\<forall>plan allowed g. construct_flow_group plan allowed = Inr g \<longrightarrow>
      unat (group_total_logical_bytes g) = (\<Sum>e\<leftarrow>plan_edges plan. unat (edge_logical_bytes e)) mod 2 ^ 64) \<and>
   (\<exists>g. construct_flow_group (scatter_plan (2 ^ 63)) scatter_members = Inr g \<and> group_total_logical_bytes g = 0)"
proof (intro conjI allI impI)
  fix plan allowed g
  assume "construct_flow_group plan allowed = Inr g"
  note g = construct_group [OF this]
  have "mset (map (\<lambda>e. unat (edge_logical_bytes e)) (group_edges g)) =
        mset (map (\<lambda>e. unat (edge_logical_bytes e)) (plan_edges plan))"
    by (simp add: g(1) sort_simps)
  from arg_cong [OF this, of sum_mset]
  have "(\<Sum>e\<leftarrow>group_edges g. unat (edge_logical_bytes e)) = (\<Sum>e\<leftarrow>plan_edges plan. unat (edge_logical_bytes e))"
    by (simp only: sum_mset_sum_list)
  then show "unat (group_total_logical_bytes g) = (\<Sum>e\<leftarrow>plan_edges plan. unat (edge_logical_bytes e)) mod 2 ^ 64"
    by (simp add: g(5) unat_sum_bytes)
next
  obtain g where g: "construct_flow_group (scatter_plan (2 ^ 63)) scatter_members = Inr g"
    by (rule scatter_plan_constructed)
  have "group_total_logical_bytes g = 0"
    by (simp add: construct_group [OF g] scatter_plan_def sample_edge_def edge_less_def)
  with g show "\<exists>g. construct_flow_group (scatter_plan (2 ^ 63)) scatter_members = Inr g \<and> group_total_logical_bytes g = 0"
    by blast
qed

theorem flow_group_total_wraps_witness:
  "\<exists>g. construct_flow_group (scatter_plan 5) scatter_members = Inr g \<and> unat (group_total_logical_bytes g) = 10"
proof -
  obtain g where g: "construct_flow_group (scatter_plan 5) scatter_members = Inr g"
    by (rule scatter_plan_constructed)
  with flow_group_total_wraps have "unat (group_total_logical_bytes g) =
      (\<Sum>e\<leftarrow>plan_edges (scatter_plan 5). unat (edge_logical_bytes e)) mod 2 ^ 64" by blast
  with g show ?thesis by (auto simp: scatter_plan_def sample_edge_def)
qed

end
