(* ===== verification/CTF_Traffic.thy ===== *)
theory CTF_Traffic
  imports CTF_FlowGroup
begin

text \<open>
  Traffic classes, the generation-stamped traffic policy and the token bucket
  (include/ctf/traffic.hpp, src/traffic.cpp).

  Rates and volumes are 64-bit words and every operation wraps where the C++ one does. The
  lemmas read the bucket as natural numbers: the refill computes
  \<open>min burst (tokens + rate * elapsed / 1000)\<close>, no sequence of calls is granted more than the
  burst plus the rate times the elapsed time, and waiting for the advertised delay suffices.
\<close>

section \<open>Enumerations\<close>

datatype TrafficClass =
    kUnclassified
  | kLatencyCritical
  | kControlPlane
  | kBulkData
  | kBestEffortBulk
  | kBackground
  | kIsolated
  | kProbe

primrec TrafficClass_value :: "TrafficClass \<Rightarrow> u64" where
  "TrafficClass_value TrafficClass.kUnclassified = 0"
| "TrafficClass_value TrafficClass.kLatencyCritical = 1"
| "TrafficClass_value TrafficClass.kControlPlane = 2"
| "TrafficClass_value TrafficClass.kBulkData = 3"
| "TrafficClass_value TrafficClass.kBestEffortBulk = 4"
| "TrafficClass_value TrafficClass.kBackground = 5"
| "TrafficClass_value TrafficClass.kIsolated = 6"
| "TrafficClass_value TrafficClass.kProbe = 7"

primrec TrafficClass_to_string :: "TrafficClass \<Rightarrow> string" where
  "TrafficClass_to_string TrafficClass.kUnclassified = ''unclassified''"
| "TrafficClass_to_string TrafficClass.kLatencyCritical = ''latency_critical''"
| "TrafficClass_to_string TrafficClass.kControlPlane = ''control_plane''"
| "TrafficClass_to_string TrafficClass.kBulkData = ''bulk_data''"
| "TrafficClass_to_string TrafficClass.kBestEffortBulk = ''best_effort_bulk''"
| "TrafficClass_to_string TrafficClass.kBackground = ''background''"
| "TrafficClass_to_string TrafficClass.kIsolated = ''isolated''"
| "TrafficClass_to_string TrafficClass.kProbe = ''probe''"

definition TrafficClass_table :: "(string \<times> TrafficClass) list" where
  "TrafficClass_table =
     [(''unclassified'', TrafficClass.kUnclassified),
      (''latency_critical'', TrafficClass.kLatencyCritical),
      (''control_plane'', TrafficClass.kControlPlane),
      (''bulk_data'', TrafficClass.kBulkData),
      (''best_effort_bulk'', TrafficClass.kBestEffortBulk),
      (''background'', TrafficClass.kBackground),
      (''isolated'', TrafficClass.kIsolated),
      (''probe'', TrafficClass.kProbe)]"

definition traffic_class_from_string :: "string \<Rightarrow> TrafficClass option" where
  "traffic_class_from_string text = table_find TrafficClass_table text"

datatype IsolationMode =
    kShared
  | kClassIsolated
  | kDedicatedPath

primrec IsolationMode_value :: "IsolationMode \<Rightarrow> u64" where
  "IsolationMode_value IsolationMode.kShared = 0"
| "IsolationMode_value IsolationMode.kClassIsolated = 1"
| "IsolationMode_value IsolationMode.kDedicatedPath = 2"

primrec IsolationMode_to_string :: "IsolationMode \<Rightarrow> string" where
  "IsolationMode_to_string IsolationMode.kShared = ''shared''"
| "IsolationMode_to_string IsolationMode.kClassIsolated = ''class_isolated''"
| "IsolationMode_to_string IsolationMode.kDedicatedPath = ''dedicated_path''"

datatype PacingMode =
    kNone
  | kImmediate
  | kTokenBucket
  | kRateLimited
  | kShaped

primrec PacingMode_value :: "PacingMode \<Rightarrow> u64" where
  "PacingMode_value PacingMode.kNone = 0"
| "PacingMode_value PacingMode.kImmediate = 1"
| "PacingMode_value PacingMode.kTokenBucket = 2"
| "PacingMode_value PacingMode.kRateLimited = 3"
| "PacingMode_value PacingMode.kShaped = 4"

primrec PacingMode_to_string :: "PacingMode \<Rightarrow> string" where
  "PacingMode_to_string PacingMode.kNone = ''none''"
| "PacingMode_to_string PacingMode.kImmediate = ''immediate''"
| "PacingMode_to_string PacingMode.kTokenBucket = ''token_bucket''"
| "PacingMode_to_string PacingMode.kRateLimited = ''rate_limited''"
| "PacingMode_to_string PacingMode.kShaped = ''shaped''"

primrec traffic_class_strength :: "TrafficClass \<Rightarrow> u8" where
  "traffic_class_strength TrafficClass.kUnclassified = 0"
| "traffic_class_strength TrafficClass.kBackground = 1"
| "traffic_class_strength TrafficClass.kProbe = 2"
| "traffic_class_strength TrafficClass.kBestEffortBulk = 3"
| "traffic_class_strength TrafficClass.kBulkData = 4"
| "traffic_class_strength TrafficClass.kControlPlane = 5"
| "traffic_class_strength TrafficClass.kLatencyCritical = 6"
| "traffic_class_strength TrafficClass.kIsolated = 7"

definition traffic_class_is_classified :: "TrafficClass \<Rightarrow> bool" where
  "traffic_class_is_classified c \<longleftrightarrow> c \<noteq> TrafficClass.kUnclassified"


section \<open>Policy\<close>

definition kUnlimitedRate :: u64 where "kUnlimitedRate = 0xFFFFFFFFFFFFFFFF"
definition kMinimumPriority :: u64 where "kMinimumPriority = 0"
definition kMaximumPriority :: u64 where "kMaximumPriority = 15"

record TrafficClassPolicy =
  tcp_traffic_class :: TrafficClass
  tcp_priority :: u64
  tcp_minimum_bandwidth_bps :: u64
  tcp_maximum_bandwidth_bps :: u64
  tcp_burst_bytes :: u64
  tcp_requires_simultaneous_start :: bool
  tcp_requires_evidence_freshness :: bool
  tcp_isolation :: IsolationMode

definition TrafficClassPolicy_default :: TrafficClassPolicy where
  "TrafficClassPolicy_default =
     \<lparr>tcp_traffic_class = TrafficClass.kUnclassified, tcp_priority = 0, tcp_minimum_bandwidth_bps = 0,
      tcp_maximum_bandwidth_bps = kUnlimitedRate, tcp_burst_bytes = 0,
      tcp_requires_simultaneous_start = False, tcp_requires_evidence_freshness = True,
      tcp_isolation = IsolationMode.kShared\<rparr>"

definition class_policy_hash :: "TrafficClassPolicy \<Rightarrow> u64" where
  "class_policy_hash p =
     (let s0 = 0x243F6A8885A308D3;
          s1 = mix s0 (TrafficClass_value (tcp_traffic_class p));
          s2 = mix s1 (tcp_priority p);
          s3 = mix s2 (tcp_minimum_bandwidth_bps p);
          s4 = mix s3 (tcp_maximum_bandwidth_bps p);
          s5 = mix s4 (tcp_burst_bytes p);
          s6 = mix s5 (if tcp_requires_simultaneous_start p then 1 else 0);
          s7 = mix s6 (if tcp_requires_evidence_freshness p then 1 else 0)
      in mix s7 (IsolationMode_value (tcp_isolation p)))"

text \<open>The two arrays of the congestion response have \<open>kBucketCount\<close> entries each (\<open>response_wf\<close>).\<close>

definition kBucketCount :: nat where "kBucketCount = 5"

record CongestionResponseTable =
  crt_utilization_bps :: "u32 list"
  crt_rate_numerator_per_mille :: "u32 list"

definition CongestionResponseTable_default :: CongestionResponseTable where
  "CongestionResponseTable_default =
     \<lparr>crt_utilization_bps = [6000, 7500, 8500, 9500, 9900],
      crt_rate_numerator_per_mille = [1000, 800, 600, 400, 150]\<rparr>"

definition response_wf :: "CongestionResponseTable \<Rightarrow> bool" where
  "response_wf t \<longleftrightarrow>
     length (crt_utilization_bps t) = kBucketCount \<and> length (crt_rate_numerator_per_mille t) = kBucketCount"

definition response_is_valid :: "CongestionResponseTable \<Rightarrow> bool" where
  "response_is_valid t \<longleftrightarrow>
     list_all (\<lambda>i.
       \<not> (crt_utilization_bps t ! i = 0 \<or> crt_utilization_bps t ! i > 10000) \<and>
       \<not> (crt_rate_numerator_per_mille t ! i = 0 \<or> crt_rate_numerator_per_mille t ! i > 1000) \<and>
       \<not> (i > 0 \<and> crt_utilization_bps t ! i \<le> crt_utilization_bps t ! (i - 1)))
       [0..<kBucketCount]"

record CollectiveClassPolicy =
  ccp_collective_class :: CollectiveClass
  ccp_traffic_class :: TrafficClass
  ccp_admit_when_unknown_semantics :: bool
  ccp_allow_member_override :: bool
  ccp_freshness_requirement_ms :: u64

definition CollectiveClassPolicy_default :: CollectiveClassPolicy where
  "CollectiveClassPolicy_default =
     \<lparr>ccp_collective_class = CollectiveClass.kUnknown, ccp_traffic_class = TrafficClass.kUnclassified,
      ccp_admit_when_unknown_semantics = False, ccp_allow_member_override = False,
      ccp_freshness_requirement_ms = 2000\<rparr>"

record TrafficPolicy =
  pol_generation :: PolicyGeneration
  pol_class_policies :: "TrafficClassPolicy list"
  pol_collective_policies :: "CollectiveClassPolicy list"
  pol_congestion_response :: CongestionResponseTable
  pol_default_maximum_bandwidth_bps :: u64
  pol_burst_multiplier_per_mille :: u64

definition TrafficPolicy_default :: TrafficPolicy where
  "TrafficPolicy_default =
     \<lparr>pol_generation = no_identity, pol_class_policies = [], pol_collective_policies = [],
      pol_congestion_response = CongestionResponseTable_default,
      pol_default_maximum_bandwidth_bps = kUnlimitedRate, pol_burst_multiplier_per_mille = 250\<rparr>"

definition find_class :: "TrafficPolicy \<Rightarrow> TrafficClass \<Rightarrow> TrafficClassPolicy option" where
  "find_class p c = find (\<lambda>e. TrafficClass_value (tcp_traffic_class e) = TrafficClass_value c) (pol_class_policies p)"

definition find_collective :: "TrafficPolicy \<Rightarrow> CollectiveClass \<Rightarrow> CollectiveClassPolicy option" where
  "find_collective p c =
     find (\<lambda>e. CollectiveClass_value (ccp_collective_class e) = CollectiveClass_value c) (pol_collective_policies p)"

text \<open>The loop of \<^verbatim>\<open>TrafficPolicy::validate\<close>; \<open>seen\<close> is \<^verbatim>\<open>seen_class\<close>.\<close>

fun validate_class_policies :: "u64 list \<Rightarrow> TrafficClassPolicy list \<Rightarrow> Status" where
  "validate_class_policies seen [] = status_ok"
| "validate_class_policies seen (p # rest) =
     (let raw = TrafficClass_value (tcp_traffic_class p) in
      if raw \<ge> 16
      then Status ErrorCode_kValidationClassUnknownRejected ''unknown traffic class in policy''
      else if raw \<in> set seen
      then Status ErrorCode_kDecodeDuplicateEntry ''duplicate traffic class policy''
      else if tcp_priority p > kMaximumPriority
      then Status ErrorCode_kValidationRateInvalid ''traffic class priority out of range''
      else if tcp_maximum_bandwidth_bps p \<noteq> kUnlimitedRate \<and>
        tcp_minimum_bandwidth_bps p > tcp_maximum_bandwidth_bps p
      then Status ErrorCode_kValidationRateInvalid ''traffic class floor exceeds its ceiling''
      else if tcp_burst_bytes p > 2 ^ 62
      then Status ErrorCode_kValidationRateInvalid ''traffic class burst is absurd''
      else validate_class_policies (raw # seen) rest)"

definition policy_validate :: "TrafficPolicy \<Rightarrow> Status" where
  "policy_validate p =
     (if is_none (pol_generation p)
      then Status ErrorCode_kValidationGenerationUnset ''traffic policy has no generation''
      else if pol_class_policies p = []
      then Status ErrorCode_kValidationPolicyMissing ''traffic policy has no class policies''
      else if length (pol_class_policies p) > unat (TrafficClass_value TrafficClass.kProbe) + 1
      then Status ErrorCode_kValidationPolicyMissing ''traffic policy has too many class policies''
      else
        let status = validate_class_policies [] (pol_class_policies p) in
        if \<not> is_ok status then status
        else if find_class p TrafficClass.kUnclassified = None
        then Status ErrorCode_kValidationPolicyMissing
               ''policy must state the unclassified class explicitly''
        else if find_collective p CollectiveClass.kUnknown = None
        then Status ErrorCode_kValidationPolicyMissing
               ''policy must state the unknown collective class explicitly''
        else if \<not> response_is_valid (pol_congestion_response p)
        then Status ErrorCode_kValidationRateInvalid ''congestion response table is not monotonic''
        else if pol_burst_multiplier_per_mille p > 1000
        then Status ErrorCode_kValidationRateInvalid ''burst multiplier exceeds the whole rate''
        else if length (pol_collective_policies p) > 16
        then Status ErrorCode_kValidationPolicyMissing
               ''traffic policy has too many collective policies''
        else status_ok)"

definition mix_collective_policy :: "u64 \<Rightarrow> CollectiveClassPolicy \<Rightarrow> u64" where
  "mix_collective_policy state p =
     (let s1 = mix state (CollectiveClass_value (ccp_collective_class p));
          s2 = mix s1 (TrafficClass_value (ccp_traffic_class p));
          s3 = mix s2 (if ccp_admit_when_unknown_semantics p then 1 else 0);
          s4 = mix s3 (if ccp_allow_member_override p then 1 else 0)
      in mix s4 (ccp_freshness_requirement_ms p))"

definition policy_hash :: "TrafficPolicy \<Rightarrow> u64" where
  "policy_hash p =
     (let s1 = foldl (\<lambda>s c. mix s (class_policy_hash c)) 0x13198A2E03707344 (pol_class_policies p);
          s2 = foldl mix_collective_policy s1 (pol_collective_policies p);
          s3 = mix s2 (pol_default_maximum_bandwidth_bps p)
      in mix s3 (pol_burst_multiplier_per_mille p))"

definition add_class ::
  "TrafficClass \<Rightarrow> u64 \<Rightarrow> u64 \<Rightarrow> u64 \<Rightarrow> bool \<Rightarrow> bool \<Rightarrow> IsolationMode \<Rightarrow> TrafficClassPolicy" where
  "add_class traffic_class priority minimum maximum simultaneous requires_freshness isolation =
     \<lparr>tcp_traffic_class = traffic_class, tcp_priority = priority, tcp_minimum_bandwidth_bps = minimum,
      tcp_maximum_bandwidth_bps = maximum, tcp_burst_bytes = 0,
      tcp_requires_simultaneous_start = simultaneous,
      tcp_requires_evidence_freshness = requires_freshness, tcp_isolation = isolation\<rparr>"

definition add_collective ::
  "CollectiveClass \<Rightarrow> TrafficClass \<Rightarrow> bool \<Rightarrow> bool \<Rightarrow> u64 \<Rightarrow> CollectiveClassPolicy" where
  "add_collective collective_class traffic_class admit_unknown allow_override freshness_ms =
     \<lparr>ccp_collective_class = collective_class, ccp_traffic_class = traffic_class,
      ccp_admit_when_unknown_semantics = admit_unknown, ccp_allow_member_override = allow_override,
      ccp_freshness_requirement_ms = freshness_ms\<rparr>"

definition standard_policy :: "PolicyGeneration \<Rightarrow> TrafficPolicy" where
  "standard_policy generation = TrafficPolicy_default
     \<lparr>pol_generation := generation,
      pol_class_policies :=
        [add_class TrafficClass.kUnclassified 0 (0) (0) False True IsolationMode.kShared,
         add_class TrafficClass.kLatencyCritical 15 (100 * 1000 * 1000) (40 * 1000 * 1000 * 1000) True True IsolationMode.kClassIsolated,
         add_class TrafficClass.kControlPlane 14 (10 * 1000 * 1000) (10 * 1000 * 1000 * 1000) False False IsolationMode.kClassIsolated,
         add_class TrafficClass.kBulkData 8 (1 * 1000 * 1000 * 1000) (kUnlimitedRate) False True IsolationMode.kShared,
         add_class TrafficClass.kBestEffortBulk 5 (0) (50 * 1000 * 1000 * 1000) False True IsolationMode.kShared,
         add_class TrafficClass.kBackground 1 (0) (10 * 1000 * 1000 * 1000) False False IsolationMode.kShared,
         add_class TrafficClass.kIsolated 15 (1 * 1000 * 1000 * 1000) (kUnlimitedRate) False True IsolationMode.kDedicatedPath,
         add_class TrafficClass.kProbe 3 (0) (100 * 1000 * 1000) False False IsolationMode.kShared],
      pol_collective_policies :=
        [add_collective CollectiveClass.kUnknown TrafficClass.kUnclassified False False 0,
         add_collective CollectiveClass.kUnknownVendor TrafficClass.kUnclassified False False 0,
         add_collective CollectiveClass.kAllReduce TrafficClass.kBulkData True True 2000,
         add_collective CollectiveClass.kAllGather TrafficClass.kBulkData True True 2000,
         add_collective CollectiveClass.kReduceScatter TrafficClass.kBulkData True True 2000,
         add_collective CollectiveClass.kBroadcast TrafficClass.kBulkData True True 2000,
         add_collective CollectiveClass.kGather TrafficClass.kBulkData True True 2000,
         add_collective CollectiveClass.kScatter TrafficClass.kBulkData True True 2000,
         add_collective CollectiveClass.kAllToAll TrafficClass.kBulkData True True 2000,
         add_collective CollectiveClass.kPointToPoint TrafficClass.kBestEffortBulk True True 2000,
         add_collective CollectiveClass.kBarrierOnly TrafficClass.kLatencyCritical True False 500,
         add_collective CollectiveClass.kSendRecvGrouped TrafficClass.kBestEffortBulk True True 2000,
         add_collective CollectiveClass.kReduce TrafficClass.kBulkData True True 2000,
         add_collective CollectiveClass.kScan TrafficClass.kBulkData True True 2000,
         add_collective CollectiveClass.kSendRecvSplit TrafficClass.kBestEffortBulk True True 2000]\<rparr>"


section \<open>Pacing intents and the token bucket\<close>

record PacingIntent =
  pi_mode :: PacingMode
  pi_flow_group :: FlowGroupId
  pi_instance :: CollectiveInstance
  pi_admitted_bandwidth_bps :: u64
  pi_ceiling_bandwidth_bps :: u64
  pi_burst_bytes :: u64
  pi_utilization_bps :: u64
  pi_release_after_monotonic_ms :: u64
  pi_reason_code :: Identity

definition PacingIntent_default :: PacingIntent where
  "PacingIntent_default =
     \<lparr>pi_mode = PacingMode.kNone, pi_flow_group = no_identity, pi_instance = CollectiveInstance_default,
      pi_admitted_bandwidth_bps = 0, pi_ceiling_bandwidth_bps = 0, pi_burst_bytes = 0,
      pi_utilization_bps = 0, pi_release_after_monotonic_ms = 0,
      pi_reason_code = no_identity\<rparr>"

record TokenBucketState =
  tb_tokens :: u64
  tb_last_refill_monotonic_ms :: u64
  tb_rate_bps :: u64
  tb_burst_bytes :: u64
  tb_initialized :: bool

definition TokenBucketState_default :: TokenBucketState where
  "TokenBucketState_default =
     \<lparr>tb_tokens = 0, tb_last_refill_monotonic_ms = 0, tb_rate_bps = 0, tb_burst_bytes = 0,
      tb_initialized = False\<rparr>"

text \<open>The tokens \<^verbatim>\<open>refill\<close> adds for a non-zero interval, before they are capped.\<close>

definition refill_gain :: "u64 \<Rightarrow> u64 \<Rightarrow> u64 \<Rightarrow> u64" where
  "refill_gain rate_bps elapsed_ms burst_bytes =
     (let quotient = rate_bps div 1000;
          remainder = rate_bps mod 1000;
          gained = quotient * elapsed_ms
      in if gained div elapsed_ms \<noteq> quotient then burst_bytes
         else
           let gained' = gained + (remainder * elapsed_ms) div 1000
           in if gained' < quotient * elapsed_ms then burst_bytes else gained')"

text \<open>The fill level after \<^verbatim>\<open>elapsed_ms\<close>: the gain is capped by the burst and by the headroom.\<close>

definition refill_level :: "u64 \<Rightarrow> u64 \<Rightarrow> u64 \<Rightarrow> u64 \<Rightarrow> u64" where
  "refill_level tokens elapsed_ms rate_bps burst_bytes =
     (let filled =
        (if elapsed_ms \<noteq> 0
         then
           let gained = refill_gain rate_bps elapsed_ms burst_bytes;
               capped = (if gained > burst_bytes then burst_bytes else gained);
               headroom = (if tokens \<ge> burst_bytes then 0 else burst_bytes - tokens)
           in tokens + (if capped > headroom then headroom else capped)
         else tokens)
      in if filled > burst_bytes then burst_bytes else filled)"

definition refill :: "TokenBucketState \<Rightarrow> u64 \<Rightarrow> u64 \<Rightarrow> u64 \<Rightarrow> Status \<times> TokenBucketState" where
  "refill state clock_now_ms rate_bps burst_bytes =
     (if rate_bps = kUnlimitedRate
      then (status_ok,
            \<lparr>tb_tokens = burst_bytes, tb_last_refill_monotonic_ms = clock_now_ms,
             tb_rate_bps = kUnlimitedRate, tb_burst_bytes = burst_bytes, tb_initialized = True\<rparr>)
      else if rate_bps = 0
      then (Status ErrorCode_kAdmissionBucketUnset ''token bucket has no rate'', state)
      else if \<not> tb_initialized state
      then (status_ok,
            \<lparr>tb_tokens = burst_bytes, tb_last_refill_monotonic_ms = clock_now_ms,
             tb_rate_bps = rate_bps, tb_burst_bytes = burst_bytes, tb_initialized = True\<rparr>)
      else if clock_now_ms < tb_last_refill_monotonic_ms state
      then (Status ErrorCode_kAdmissionClockRegression
              ''monotonic clock moved backwards; refusing to grant tokens'', state)
      else
        let elapsed_ms = clock_now_ms - tb_last_refill_monotonic_ms state
        in (status_ok,
            state\<lparr>tb_rate_bps := rate_bps, tb_burst_bytes := burst_bytes,
                  tb_tokens := refill_level (tb_tokens state) elapsed_ms rate_bps burst_bytes,
                  tb_last_refill_monotonic_ms :=
                    (if elapsed_ms \<noteq> 0 then clock_now_ms else tb_last_refill_monotonic_ms state)\<rparr>))"

definition try_consume ::
  "TokenBucketState \<Rightarrow> u64 \<Rightarrow> u64 \<Rightarrow> u64 \<Rightarrow> u64 \<Rightarrow> Status \<times> TokenBucketState" where
  "try_consume state clock_now_ms bytes rate_bps burst_bytes =
     (case refill state clock_now_ms rate_bps burst_bytes of (status, s1) \<Rightarrow>
        if \<not> is_ok status then (status, s1)
        else if tb_rate_bps s1 = kUnlimitedRate then (status_ok, s1)
        else if bytes \<le> tb_tokens s1 then (status_ok, s1\<lparr>tb_tokens := tb_tokens s1 - bytes\<rparr>)
        else (Status ErrorCode_kAdmissionRateLimited ''token bucket is empty for this request'', s1))"

definition delay_until_available_ms :: "TokenBucketState \<Rightarrow> u64 \<Rightarrow> u64" where
  "delay_until_available_ms state bytes =
     (if tb_rate_bps state = kUnlimitedRate then 0
      else if tb_rate_bps state = 0 then 0
      else if bytes \<le> tb_tokens state then 0
      else
        let deficit = bytes - tb_tokens state;
            milliseconds = (deficit * 1000 + tb_rate_bps state - 1) div tb_rate_bps state
        in if milliseconds = 0 then 1 else milliseconds)"


section \<open>Names and strengths\<close>

interpretation traffic_names: name_table TrafficClass_to_string TrafficClass_table
proof
  show "e \<in> snd ` set TrafficClass_table" for e by (cases e) (simp_all add: TrafficClass_table_def)
qed (simp_all add: TrafficClass_table_def)

lemma traffic_class_strength_inj: "traffic_class_strength a = traffic_class_strength b \<longleftrightarrow> a = b"
  by (cases a; cases b; simp)

lemma TrafficClass_value_inj [simp]: "TrafficClass_value a = TrafficClass_value b \<longleftrightarrow> a = b"
  by (cases a; cases b; simp)

lemma CollectiveClass_value_inj [simp]: "CollectiveClass_value a = CollectiveClass_value b \<longleftrightarrow> a = b"
proof (induction a)
qed (cases b; simp)+


section \<open>What an accepted policy is\<close>

definition class_policy_ok :: "TrafficClassPolicy \<Rightarrow> bool" where
  "class_policy_ok p \<longleftrightarrow>
     tcp_priority p \<le> kMaximumPriority \<and>
     (tcp_maximum_bandwidth_bps p = kUnlimitedRate \<or>
      tcp_minimum_bandwidth_bps p \<le> tcp_maximum_bandwidth_bps p) \<and>
     tcp_burst_bytes p \<le> 2 ^ 62"

lemma TrafficClass_value_small: "\<not> 16 \<le> TrafficClass_value c"
  by (cases c) (simp_all add: word_le_nat_alt)

lemma validate_class_policies_ok:
  "is_ok (validate_class_policies seen ps) \<longleftrightarrow>
     (\<forall>p\<in>set ps. class_policy_ok p) \<and> distinct (map tcp_traffic_class ps) \<and>
     TrafficClass_value ` tcp_traffic_class ` set ps \<inter> set seen = {}"
proof (induction ps arbitrary: seen)
  case Nil
  then show ?case by simp
next
  case (Cons p ps)
  then show ?case
    by (auto simp: Let_def class_policy_ok_def TrafficClass_value_small not_less)
qed

lemma policy_validate_ok:
  "is_ok (policy_validate p) \<longleftrightarrow>
     is_some (pol_generation p) \<and> pol_class_policies p \<noteq> [] \<and> length (pol_class_policies p) \<le> 8 \<and>
     (\<forall>c\<in>set (pol_class_policies p). class_policy_ok c) \<and>
     distinct (map tcp_traffic_class (pol_class_policies p)) \<and>
     find_class p TrafficClass.kUnclassified \<noteq> None \<and>
     find_collective p CollectiveClass.kUnknown \<noteq> None \<and>
     response_is_valid (pol_congestion_response p) \<and> pol_burst_multiplier_per_mille p \<le> 1000 \<and>
     length (pol_collective_policies p) \<le> 16"
  unfolding policy_validate_def Let_def
  using validate_class_policies_ok [of "[]" "pol_class_policies p"]
  by (auto simp: is_some_def not_less)

lemma find_class_mem: "find_class p c = Some e \<Longrightarrow> e \<in> set (pol_class_policies p) \<and> tcp_traffic_class e = c"
  by (auto simp: find_class_def find_Some_iff)

lemma find_collective_mem:
  "find_collective p c = Some e \<Longrightarrow> e \<in> set (pol_collective_policies p) \<and> ccp_collective_class e = c"
  by (auto simp: find_collective_def find_Some_iff)


section \<open>The token bucket in natural numbers\<close>

text \<open>The overflow test of \<^verbatim>\<open>refill\<close>: dividing the wrapped product gives the factor back exactly when it did not wrap.\<close>

lemma mult_div_check:
  assumes "e \<noteq> 0"
  shows "(q * e) div e = (q :: u64) \<longleftrightarrow> unat q * unat e < 2 ^ 64"
proof
  assume "unat q * unat e < 2 ^ 64"
  then have "unat ((q * e) div e) = unat q"
    using assms by (simp add: unat_div_u64 unat_mult_small_u64 unat_gt_0)
  then show "(q * e) div e = q" by (simp add: word_unat_eq_iff)
next
  have e: "0 < unat e" using assms by (simp add: unat_gt_0)
  assume "(q * e) div e = q"
  then have "unat (q * e) div unat e = unat q" by (metis unat_div_u64)
  then have "unat q * unat e \<le> unat (q * e)" by (metis div_times_less_eq_dividend)
  moreover have "unat (q * e) < 2 ^ 64" by simp
  ultimately show "unat q * unat e < 2 ^ 64" by linarith
qed

lemma rate_split: "r * e div 1000 = (r div 1000) * e + (r mod 1000) * e div 1000" for r e :: nat
proof -
  have "r * e = 1000 * ((r div 1000) * e) + (r mod 1000) * e"
    by (metis add_mult_distrib mult.assoc mult_div_mod_eq)
  then show ?thesis by simp
qed

lemma refill_gain_le:
  assumes "e \<noteq> 0"
  shows "min (unat burst) (unat (refill_gain rate e burst)) \<le> unat rate * unat e div 1000"
proof -
  let ?q = "unat rate div 1000" let ?r = "unat rate mod 1000"
  have spl: "unat rate * unat e div 1000 = ?q * unat e + ?r * unat e div 1000" by (rule rate_split)
  show ?thesis
  proof (cases "?q * unat e < 2 ^ 64")
    case False
    have "unat burst < 2 ^ 64" using unat_lt_u64 [of burst] by simp
    with False spl show ?thesis by linarith
  next
    case True
    then have chk: "(rate div 1000 * e) div e = rate div 1000"
      using mult_div_check [OF assms, of "rate div 1000"] by (simp add: unat_div_u64)
    have q: "unat (rate div 1000 * e) = ?q * unat e"
      using True by (simp add: unat_mult_small_u64 unat_div_u64)
    let ?x = "rate mod 1000 * e div 1000"
    have x: "unat ?x \<le> ?r * unat e div 1000"
      by (simp add: unat_div_u64 unat_mult_u64 unat_mod_u64 div_le_mono)
    show ?thesis
    proof (cases "unat (rate div 1000 * e) + unat ?x < 2 ^ 64")
      case True
      then have "unat (rate div 1000 * e + ?x) = ?q * unat e + unat ?x"
        using q by (simp add: unat_add_small_u64)
      then have "unat (refill_gain rate e burst) \<le> ?q * unat e + ?r * unat e div 1000"
        using x chk q by (simp add: refill_gain_def Let_def word_less_nat_alt)
      then show ?thesis unfolding spl by (rule min.coboundedI2)
    next
      case False
      have "unat burst < 2 ^ 64" using unat_lt_u64 [of burst] by simp
      with False q x spl show ?thesis by linarith
    qed
  qed
qed

lemma refill_gain_exact:
  assumes "e \<noteq> 0" and small: "(unat rate mod 1000) * unat e < 2 ^ 64"
  shows "min (unat burst) (unat (refill_gain rate e burst)) = min (unat burst) (unat rate * unat e div 1000)"
proof -
  let ?q = "unat rate div 1000" let ?r = "unat rate mod 1000"
  have spl: "unat rate * unat e div 1000 = ?q * unat e + ?r * unat e div 1000" by (rule rate_split)
  have b: "unat burst < 2 ^ 64" using unat_lt_u64 [of burst] by simp
  show ?thesis
  proof (cases "?q * unat e < 2 ^ 64")
    case False
    then have "refill_gain rate e burst = burst"
      using mult_div_check [OF assms(1), of "rate div 1000"] by (simp add: refill_gain_def unat_div_u64)
    moreover have "unat burst \<le> unat rate * unat e div 1000" using False b spl by linarith
    ultimately show ?thesis by simp
  next
    case True
    then have chk: "(rate div 1000 * e) div e = rate div 1000"
      using mult_div_check [OF assms(1), of "rate div 1000"] by (simp add: unat_div_u64)
    have q: "unat (rate div 1000 * e) = ?q * unat e"
      using True by (simp add: unat_mult_small_u64 unat_div_u64)
    let ?x = "rate mod 1000 * e div 1000"
    have x: "unat ?x = ?r * unat e div 1000"
      using small by (simp add: unat_div_u64 unat_mult_small_u64 unat_mod_u64)
    show ?thesis
    proof (cases "unat (rate div 1000 * e) + unat ?x < 2 ^ 64")
      case True
      then have "unat (rate div 1000 * e + ?x) = ?q * unat e + unat ?x"
        using q by (simp add: unat_add_small_u64)
      then show ?thesis
        using x chk q spl by (auto simp: refill_gain_def Let_def word_less_nat_alt)
    next
      case False
      have "unat (rate div 1000 * e + ?x) = unat (rate div 1000 * e) + unat ?x - 2 ^ 64"
        using False unat_add_wrap_u64 [of "rate div 1000 * e" ?x] by simp
      moreover have "unat ?x < 2 ^ 64" by simp
      ultimately have "unat (rate div 1000 * e + ?x) < unat (rate div 1000 * e)"
        using False by linarith
      then have "refill_gain rate e burst = burst"
        using chk by (simp add: refill_gain_def Let_def word_less_nat_alt)
      moreover have "unat burst \<le> unat rate * unat e div 1000" using False b x q spl by linarith
      ultimately show ?thesis by simp
    qed
  qed
qed

text \<open>A refill of a bucket that is in use, with a finite rate and a clock that did not move back.\<close>

definition refillable :: "TokenBucketState \<Rightarrow> u64 \<Rightarrow> u64 \<Rightarrow> bool" where
  "refillable s clock rate \<longleftrightarrow>
     tb_initialized s \<and> rate \<noteq> 0 \<and> rate \<noteq> kUnlimitedRate \<and> tb_last_refill_monotonic_ms s \<le> clock"

lemma headroom_add:
  "unat (t + (if c > (if t \<ge> b then 0 else b - t) then (if t \<ge> b then 0 else b - t) else c)) =
     (if b \<le> t then unat t else min (unat b) (unat t + unat c))" for b c t :: u64
proof (cases "b \<le> t")
  case True
  moreover have "0 < c \<or> c = 0" by (auto simp: word_neq_0_conv [symmetric])
  ultimately show ?thesis by auto
next
  case False
  then have lt: "unat t < unat b" by (simp add: word_le_nat_alt)
  have sub: "unat (b - t) = unat b - unat t" using False by (simp add: unat_sub_u64)
  have "unat t + unat (if c > b - t then b - t else c) \<le> unat b"
    using lt sub by (auto simp: word_less_nat_alt)
  from le_less_trans [OF this unat_lt_u64]
  have "unat (t + (if c > b - t then b - t else c)) = unat t + unat (if c > b - t then b - t else c)"
    by (rule unat_add_small_u64)
  with False lt sub show ?thesis by (auto simp: word_less_nat_alt)
qed

lemma refill_refillable:
  assumes "refillable s clock rate"
  shows "fst (refill s clock rate burst) = status_ok"
    and "tb_last_refill_monotonic_ms (snd (refill s clock rate burst)) = clock"
    and "tb_rate_bps (snd (refill s clock rate burst)) = rate"
    and "tb_initialized (snd (refill s clock rate burst))"
  using assms by (auto simp: refillable_def refill_def Let_def)

lemma unat_cap: "unat (if x > b then b else x) = min (unat b) (unat x)" for x b :: u64
  by (auto simp: word_less_nat_alt)

lemma refill_level_nat:
  "unat (refill_level t e rate burst) =
    (if e = 0 then min (unat burst) (unat t)
     else min (unat burst) (unat t + min (unat burst) (unat (refill_gain rate e burst))))"
proof (cases "e = 0")
  case True
  then show ?thesis unfolding refill_level_def Let_def unat_cap by simp
next
  case False
  define c where "c = (if refill_gain rate e burst > burst then burst else refill_gain rate e burst)"
  let ?f = "t + (if c > (if t \<ge> burst then 0 else burst - t) then (if t \<ge> burst then 0 else burst - t) else c)"
  have "refill_level t e rate burst = (if ?f > burst then burst else ?f)"
    by (simp only: refill_level_def Let_def c_def False not_False_eq_True if_True)
  then have "unat (refill_level t e rate burst) = min (unat burst) (unat ?f)"
    by (simp only: unat_cap)
  also have "\<dots> = min (unat burst) (unat t + unat c)"
    unfolding headroom_add by (simp add: word_le_nat_alt)
  also have "unat c = min (unat burst) (unat (refill_gain rate e burst))"
    unfolding c_def by (rule unat_cap)
  finally show ?thesis using False by simp
qed

lemma refill_tokens:
  assumes "refillable s clock rate"
  shows "unat (tb_tokens (snd (refill s clock rate burst))) =
    (if clock = tb_last_refill_monotonic_ms s then min (unat burst) (unat (tb_tokens s))
     else min (unat burst) (unat (tb_tokens s) +
       min (unat burst) (unat (refill_gain rate (clock - tb_last_refill_monotonic_ms s) burst))))"
  using assms by (simp add: refillable_def refill_def Let_def not_less [symmetric] refill_level_nat)

lemma refill_tokens_le:
  assumes "refillable s clock rate"
  shows "unat (tb_tokens (snd (refill s clock rate burst))) \<le> unat burst"
    "unat (tb_tokens (snd (refill s clock rate burst))) \<le>
       unat (tb_tokens s) + unat rate * (unat clock - unat (tb_last_refill_monotonic_ms s)) div 1000"
proof -
  let ?e = "clock - tb_last_refill_monotonic_ms s"
  have e: "unat ?e = unat clock - unat (tb_last_refill_monotonic_ms s)"
    using assms by (simp add: refillable_def unat_sub_u64)
  show "unat (tb_tokens (snd (refill s clock rate burst))) \<le> unat burst"
    by (simp add: refill_tokens [OF assms])
  show "unat (tb_tokens (snd (refill s clock rate burst))) \<le>
       unat (tb_tokens s) + unat rate * (unat clock - unat (tb_last_refill_monotonic_ms s)) div 1000"
    using refill_gain_le [of ?e burst rate] e by (auto simp: refill_tokens [OF assms])
qed

lemma min_add_min: "min b (t + min b x) = min b (t + x)" for b t x :: nat
  by linarith

lemma refill_tokens_exact:
  assumes "refillable s clock rate"
    and "(unat rate mod 1000) * (unat clock - unat (tb_last_refill_monotonic_ms s)) < 2 ^ 64"
  shows "unat (tb_tokens (snd (refill s clock rate burst))) =
    min (unat burst)
      (unat (tb_tokens s) + unat rate * (unat clock - unat (tb_last_refill_monotonic_ms s)) div 1000)"
proof (cases "clock = tb_last_refill_monotonic_ms s")
  case True
  then show ?thesis using refill_tokens [OF assms(1), of burst] by simp
next
  case False
  let ?e = "clock - tb_last_refill_monotonic_ms s"
  have e: "unat ?e = unat clock - unat (tb_last_refill_monotonic_ms s)"
    using assms(1) by (simp add: refillable_def unat_sub_u64)
  have "min (unat burst) (unat (refill_gain rate ?e burst)) = min (unat burst) (unat rate * unat ?e div 1000)"
    using False assms(2) e by (intro refill_gain_exact) simp_all
  with False e show ?thesis by (simp add: refill_tokens [OF assms(1)] min_add_min)
qed


section \<open>Sequences of requests against one bucket\<close>

text \<open>
  One bucket, one rate and one burst, and requests \<open>(clock, bytes)\<close> in any order. The
  second component of the state counts the bytes granted so far.
\<close>

definition bucket_step ::
  "u64 \<Rightarrow> u64 \<Rightarrow> TokenBucketState \<times> nat \<Rightarrow> u64 \<times> u64 \<Rightarrow> TokenBucketState \<times> nat" where
  "bucket_step rate burst sg op =
     (case try_consume (fst sg) (fst op) (snd op) rate burst of (status, s') \<Rightarrow>
        (s', if is_ok status then snd sg + unat (snd op) else snd sg))"

text \<open>
  The account of a bucket first used at time \<open>t0\<close>: what was granted and what is left never
  exceed the burst plus the rate times the elapsed time, in thousandths of a byte.
\<close>

definition bucket_account :: "u64 \<Rightarrow> u64 \<Rightarrow> nat \<Rightarrow> TokenBucketState \<times> nat \<Rightarrow> bool" where
  "bucket_account rate burst t0 sg \<longleftrightarrow>
     rate \<noteq> kUnlimitedRate \<and> tb_initialized (fst sg) \<and> tb_tokens (fst sg) \<le> burst \<and>
     t0 \<le> unat (tb_last_refill_monotonic_ms (fst sg)) \<and>
     1000 * (snd sg + unat (tb_tokens (fst sg))) \<le>
       1000 * unat burst + unat rate * (unat (tb_last_refill_monotonic_ms (fst sg)) - t0)"

lemma refill_refused:
  assumes "tb_initialized s" "rate \<noteq> kUnlimitedRate" "\<not> refillable s clock rate"
  shows "\<not> is_ok (fst (refill s clock rate burst)) \<and> snd (refill s clock rate burst) = s"
  using assms by (auto simp: refillable_def refill_def not_le)

lemma try_consume_refused:
  assumes "\<not> is_ok (fst (refill s clock rate burst))"
  shows "try_consume s clock bytes rate burst = refill s clock rate burst"
  using assms by (simp add: try_consume_def case_prod_unfold)

lemma try_consume_refillable:
  assumes "refillable s clock rate"
  shows "try_consume s clock bytes rate burst =
    (let s1 = snd (refill s clock rate burst) in
     if bytes \<le> tb_tokens s1 then (status_ok, s1\<lparr>tb_tokens := tb_tokens s1 - bytes\<rparr>)
     else (Status ErrorCode_kAdmissionRateLimited ''token bucket is empty for this request'', s1))"
  using assms refill_refillable [OF assms, of burst]
  by (simp add: try_consume_def case_prod_unfold Let_def refillable_def)

lemma refill_account:
  assumes "bucket_account rate burst t0 (s, g)" "refillable s clock rate"
  shows "bucket_account rate burst t0 (snd (refill s clock rate burst), g)"
proof -
  let ?l = "unat (tb_last_refill_monotonic_ms s)" let ?s = "snd (refill s clock rate burst)"
  have l: "t0 \<le> ?l" "?l \<le> unat clock"
    using assms by (simp_all add: bucket_account_def refillable_def word_le_nat_alt)
  note s = refill_refillable [OF assms(2), of burst]
  have "unat rate * (unat clock - t0) = unat rate * (unat clock - ?l) + unat rate * (?l - t0)"
    using l by (simp add: add_mult_distrib2 [symmetric])
  moreover have "1000 * (unat rate * (unat clock - ?l) div 1000) \<le> unat rate * (unat clock - ?l)" by simp
  ultimately have "1000 * (g + unat (tb_tokens ?s)) \<le> 1000 * unat burst + unat rate * (unat clock - t0)"
    using assms(1) refill_tokens_le(2) [OF assms(2), of burst]
    unfolding bucket_account_def by simp linarith
  then show ?thesis
    using assms(1) l s refill_tokens_le(1) [OF assms(2), of burst]
    by (simp add: bucket_account_def word_le_nat_alt)
qed

interpretation bucket_run: invariant_system "bucket_step rate burst" "bucket_account rate burst t0"
  for rate burst t0
proof
  fix sg and op :: "u64 \<times> u64"
  assume inv: "bucket_account rate burst t0 sg"
  obtain s g where sg: "sg = (s, g)" by (cases sg)
  obtain clock bytes where op: "op = (clock, bytes)" by (cases op)
  show "bucket_account rate burst t0 (bucket_step rate burst sg op)"
  proof (cases "refillable s clock rate")
    case False
    with inv sg have "\<not> is_ok (fst (refill s clock rate burst))" "snd (refill s clock rate burst) = s"
      using refill_refused [of s rate clock burst] by (auto simp: bucket_account_def)
    with inv sg op show ?thesis
      by (simp add: bucket_step_def try_consume_refused case_prod_unfold)
  next
    case True
    have "bucket_account rate burst t0 (snd (refill s clock rate burst), g)"
      using inv sg True by (simp add: refill_account)
    then show ?thesis
      using sg op by (auto simp: bucket_step_def try_consume_refillable [OF True] Let_def
        bucket_account_def unat_sub_u64 word_le_nat_alt)
  qed
qed

lemma bucket_first:
  assumes "rate \<noteq> 0" "rate \<noteq> kUnlimitedRate"
  shows "bucket_account rate burst (unat clock) (bucket_step rate burst (TokenBucketState_default, 0) (clock, bytes))"
  using assms
  by (auto simp: bucket_step_def try_consume_def refill_def TokenBucketState_default_def
      bucket_account_def unat_sub_u64 word_le_nat_alt)


lemma delay_deficit:
  assumes "refillable s clock rate" "tb_rate_bps s = rate" "tb_tokens s < bytes"
    and "(unat bytes - unat (tb_tokens s)) * 1000 + unat rate < 2 ^ 64"
  shows "unat (delay_until_available_ms s bytes) =
    ((unat bytes - unat (tb_tokens s)) * 1000 + unat rate - 1) div unat rate"
proof -
  let ?d = "unat bytes - unat (tb_tokens s)"
  have rate: "rate \<noteq> 0" "rate \<noteq> kUnlimitedRate" using assms(1) by (simp_all add: refillable_def)
  then have r: "0 < unat rate" by (simp add: unat_gt_0)
  have lt: "unat (tb_tokens s) < unat bytes" using assms(3) by (simp add: word_less_nat_alt)
  define D where "D = bytes - tb_tokens s"
  from lt have d: "unat D = ?d" using assms(3) by (simp add: D_def unat_sub_u64)
  have d1: "unat (D * 1000) = ?d * 1000"
    using assms(4) d by (subst unat_mult_small_u64) simp_all
  have d2: "unat (D * 1000 + rate) = ?d * 1000 + unat rate"
    using assms(4) d1 by (subst unat_add_small_u64) simp_all
  have one: "1 \<le> D * 1000 + rate"
    using d2 r by (simp add: word_le_nat_alt)
  have d3: "unat (D * 1000 + rate - 1) = ?d * 1000 + unat rate - 1"
    using unat_sub_u64 [OF one] d2 by simp
  have m: "unat ((D * 1000 + rate - 1) div rate) = (?d * 1000 + unat rate - 1) div unat rate"
    by (simp add: unat_div_u64 d3)
  have "unat rate \<le> ?d * 1000 + unat rate - 1" using lt by simp
  then have "0 < (?d * 1000 + unat rate - 1) div unat rate" using r by (simp add: div_greater_zero_iff)
  then have nz: "(D * 1000 + rate - 1) div rate \<noteq> 0"
    using m by (metis less_irrefl unat_0)
  have "\<not> bytes \<le> tb_tokens s" using assms(3) by simp
  with nz m rate assms(2) show ?thesis by (simp add: delay_until_available_ms_def Let_def D_def [symmetric])
qed

lemma ceiling_covers:
  fixes d r :: nat
  assumes "0 < r"
  shows "d \<le> r * ((d * 1000 + r - 1) div r) div 1000"
proof -
  have "(d * 1000 + r - 1) mod r < r" using assms by simp
  moreover have "r * ((d * 1000 + r - 1) div r) + (d * 1000 + r - 1) mod r = d * 1000 + r - 1" by simp
  ultimately have "d * 1000 \<le> r * ((d * 1000 + r - 1) div r)" using assms by linarith
  then show ?thesis by (simp add: less_eq_div_iff_mult_less_eq)
qed


section \<open>Properties of the policy and the bucket\<close>

text \<open>
  The production policy is accepted by its own validation for every set generation, and
  it states a treatment for every traffic class and for every collective class; only the two
  unknown classes are left unclassified.
\<close>

theorem standard_policy_complete:
  assumes "is_some g"
  shows "is_ok (policy_validate (standard_policy g)) \<and>
    find_class (standard_policy g) c \<noteq> None \<and>
    (\<exists>e. find_collective (standard_policy g) k = Some e \<and>
         (ccp_traffic_class e = TrafficClass.kUnclassified \<longleftrightarrow>
          k = CollectiveClass.kUnknown \<or> k = CollectiveClass.kUnknownVendor))"
proof (intro conjI)
  show "is_ok (policy_validate (standard_policy g))"
    using assms
    by (simp add: policy_validate_ok standard_policy_def TrafficPolicy_default_def add_class_def
        add_collective_def class_policy_ok_def kMaximumPriority_def kUnlimitedRate_def find_class_def
        find_collective_def response_is_valid_def CongestionResponseTable_default_def kBucketCount_def
        upt_rec word_le_nat_alt word_less_nat_alt)
  show "find_class (standard_policy g) c \<noteq> None"
    by (cases c) (simp_all add: find_class_def standard_policy_def add_class_def)
  show "\<exists>e. find_collective (standard_policy g) k = Some e \<and>
         (ccp_traffic_class e = TrafficClass.kUnclassified \<longleftrightarrow>
          k = CollectiveClass.kUnknown \<or> k = CollectiveClass.kUnknownVendor)"
    by (cases k) (simp_all add: find_collective_def standard_policy_def add_collective_def)
qed

theorem standard_policy_complete_witness:
  "is_ok (policy_validate (standard_policy (Identity 1 1))) \<and>
   find_class (standard_policy (Identity 1 1)) TrafficClass.kProbe \<noteq> None"
  using standard_policy_complete [of "Identity 1 1" TrafficClass.kProbe]
  by (simp add: is_some_def is_none_def)

text \<open>
  A refill of a bucket in use sets its level to the smaller of the burst and the old level
  plus rate times elapsed milliseconds over 1000, exactly, as long as the remainder product
  (the rate modulo 1000 times the elapsed milliseconds) fits 64 bits; the test of the wrapped
  quotient product makes the result saturate instead of wrapping.
\<close>

theorem refill_exact:
  assumes "tb_initialized s" "rate \<noteq> 0" "rate \<noteq> kUnlimitedRate" "tb_last_refill_monotonic_ms s \<le> clock"
    and "(unat rate mod 1000) * (unat clock - unat (tb_last_refill_monotonic_ms s)) < 2 ^ 64"
  shows "is_ok (fst (refill s clock rate burst)) \<and>
    unat (tb_tokens (snd (refill s clock rate burst))) =
      min (unat burst)
        (unat (tb_tokens s) + unat rate * (unat clock - unat (tb_last_refill_monotonic_ms s)) div 1000)"
proof -
  have r: "refillable s clock rate" using assms by (simp add: refillable_def)
  show ?thesis using refill_tokens_exact [OF r assms(5)] refill_refillable(1) [OF r] by simp
qed

theorem refill_exact_witness:
  "unat (tb_tokens (snd (refill
     \<lparr>tb_tokens = 10, tb_last_refill_monotonic_ms = 100, tb_rate_bps = 5500, tb_burst_bytes = 400,
      tb_initialized = True\<rparr> 120 5500 400))) = 120"
  using refill_exact [of "\<lparr>tb_tokens = 10, tb_last_refill_monotonic_ms = 100, tb_rate_bps = 5500,
      tb_burst_bytes = 400, tb_initialized = True\<rparr>" 5500 120 400]
  by (simp add: kUnlimitedRate_def word_le_nat_alt)

text \<open>
  Conformance. However requests are interleaved against one bucket, and whatever clocks
  they carry, the bytes granted since its first use never exceed the burst plus the rate
  times the time the bucket's clock has advanced.
\<close>

theorem bucket_conformance:
  assumes "rate \<noteq> 0" "rate \<noteq> kUnlimitedRate"
    and "foldl (bucket_step rate burst) (TokenBucketState_default, 0) ((clock, bytes) # ops) = (s, granted)"
  shows "1000 * granted \<le>
    1000 * unat burst + unat rate * (unat (tb_last_refill_monotonic_ms s) - unat clock)"
proof -
  have "bucket_account rate burst (unat clock) (s, granted)"
    using bucket_run.run_inv [OF bucket_first [OF assms(1,2)], of burst clock bytes ops] assms(3) by simp
  then show ?thesis by (simp add: bucket_account_def)
qed

theorem bucket_conformance_witness:
  "1000 * snd (foldl (bucket_step 1000 50) (TokenBucketState_default, 0) [(7, 40), (8, 20), (27, 20)])
     \<le> 1000 * 50 + 1000 * (27 - 7)"
proof -
  have "foldl (bucket_step 1000 50) (TokenBucketState_default, 0) [(7, 40), (8, 20), (27, 20)] =
     (\<lparr>tb_tokens = 10, tb_last_refill_monotonic_ms = 27, tb_rate_bps = 1000, tb_burst_bytes = 50,
       tb_initialized = True\<rparr>, 60)"
    by (simp add: bucket_step_def try_consume_def refill_def TokenBucketState_default_def Let_def
        refill_level_def refill_gain_def kUnlimitedRate_def word_le_nat_alt word_less_nat_alt)
  from bucket_conformance [OF _ _ this] this show ?thesis by (simp add: kUnlimitedRate_def)
qed

text \<open>
  Waiting for the advertised delay is enough. If a request exceeds the level but not the
  burst, and the delay computation does not overflow, the same request at the time the delay
  names is granted.
\<close>

theorem delay_suffices:
  assumes "tb_initialized s" "tb_rate_bps s \<noteq> 0" "tb_rate_bps s \<noteq> kUnlimitedRate"
    and "tb_tokens s < bytes" "bytes \<le> burst"
    and "(unat bytes - unat (tb_tokens s)) * 1000 + unat (tb_rate_bps s) < 2 ^ 64"
    and "unat (tb_last_refill_monotonic_ms s) + unat (delay_until_available_ms s bytes) < 2 ^ 64"
  shows "is_ok (fst (try_consume s (tb_last_refill_monotonic_ms s + delay_until_available_ms s bytes)
           bytes (tb_rate_bps s) burst))"
proof -
  let ?r = "tb_rate_bps s" let ?l = "tb_last_refill_monotonic_ms s" let ?d = "unat bytes - unat (tb_tokens s)"
  let ?w = "delay_until_available_ms s bytes"
  have clock: "unat (?l + ?w) = unat ?l + unat ?w" using assms(7) by (subst unat_add_small_u64) simp_all
  have r0: "0 < unat ?r" using assms(2) by (simp add: unat_gt_0)
  have rf: "refillable s (?l + ?w) ?r"
    using assms(1-3) clock by (simp add: refillable_def word_le_nat_alt)
  have w: "unat ?w = (?d * 1000 + unat ?r - 1) div unat ?r"
    using delay_deficit [OF rf refl assms(4,6)] .
  have "unat ?r * unat ?w \<le> ?d * 1000 + unat ?r - 1" unfolding w by (rule times_div_less_eq_dividend)
  then have "unat ?r * unat ?w < 2 ^ 64" using assms(6) by linarith
  moreover have "(unat ?r mod 1000) * unat ?w \<le> unat ?r * unat ?w" by (intro mult_le_mono1) simp
  ultimately have "(unat ?r mod 1000) * unat ?w < 2 ^ 64" by linarith
  then have "unat (tb_tokens (snd (refill s (?l + ?w) ?r burst))) =
      min (unat burst) (unat (tb_tokens s) + unat ?r * unat ?w div 1000)"
    using refill_tokens_exact [OF rf, of burst] clock by simp
  moreover have "?d \<le> unat ?r * unat ?w div 1000" unfolding w by (rule ceiling_covers [OF r0])
  ultimately have "unat bytes \<le> unat (tb_tokens (snd (refill s (?l + ?w) ?r burst)))"
    using assms(4,5) by (simp add: word_less_nat_alt word_le_nat_alt)
  then show ?thesis by (simp add: try_consume_refillable [OF rf] Let_def word_le_nat_alt)
qed

theorem delay_suffices_witness:
  "is_ok (fst (try_consume
     \<lparr>tb_tokens = 10, tb_last_refill_monotonic_ms = 100, tb_rate_bps = 3000, tb_burst_bytes = 400,
      tb_initialized = True\<rparr> 137 120 3000 400))"
  using delay_suffices [of "\<lparr>tb_tokens = 10, tb_last_refill_monotonic_ms = 100, tb_rate_bps = 3000,
      tb_burst_bytes = 400, tb_initialized = True\<rparr>" 120 400]
  by (simp add: kUnlimitedRate_def word_le_nat_alt word_less_nat_alt delay_until_available_ms_def)

text \<open>
  A clock that moves backwards never grants: a bucket in use refuses the request with the
  clock-regression code and keeps its state.
\<close>

theorem clock_regression_refused:
  assumes "tb_initialized s" "rate \<noteq> 0" "rate \<noteq> kUnlimitedRate" "clock < tb_last_refill_monotonic_ms s"
  shows "status_code (fst (try_consume s clock bytes rate burst)) = ErrorCode_kAdmissionClockRegression \<and>
    snd (try_consume s clock bytes rate burst) = s"
  using assms by (simp add: try_consume_def refill_def)

theorem clock_regression_refused_witness:
  "status_code (fst (try_consume
     \<lparr>tb_tokens = 10, tb_last_refill_monotonic_ms = 100, tb_rate_bps = 3000, tb_burst_bytes = 400,
      tb_initialized = True\<rparr> 99 1 3000 400)) = ErrorCode_kAdmissionClockRegression"
  using clock_regression_refused [of "\<lparr>tb_tokens = 10, tb_last_refill_monotonic_ms = 100, tb_rate_bps = 3000,
      tb_burst_bytes = 400, tb_initialized = True\<rparr>" 3000 99 1 400]
  by (simp add: kUnlimitedRate_def word_less_nat_alt)

text \<open>A caller that retries a request every millisecond, \<open>n\<close> times.\<close>

fun poll_each_ms :: "TokenBucketState \<Rightarrow> u64 \<Rightarrow> u64 \<Rightarrow> u64 \<Rightarrow> nat \<Rightarrow> TokenBucketState" where
  "poll_each_ms s bytes rate burst 0 = s"
| "poll_each_ms s bytes rate burst (Suc n) =
     (let s' = poll_each_ms s bytes rate burst n
      in snd (try_consume s' (tb_last_refill_monotonic_ms s' + 1) bytes rate burst))"

lemma slow_refill_gain: "rate < 1000 \<Longrightarrow> refill_gain rate 1 burst = 0"
proof -
  assume "rate < 1000"
  then have r: "unat rate < 1000" by (simp add: word_less_nat_alt)
  then have "rate div 1000 = 0" by (simp add: word_unat_eq_iff unat_div_u64)
  moreover have "rate mod 1000 * 1 div 1000 = 0"
    using r by (simp add: word_unat_eq_iff unat_div_u64 unat_mod_u64)
  ultimately show ?thesis by (simp add: refill_gain_def)
qed

lemma slow_poll:
  assumes "rate < 1000" "refillable s (tb_last_refill_monotonic_ms s + 1) rate" "tb_tokens s < bytes"
  shows "\<not> is_ok (fst (try_consume s (tb_last_refill_monotonic_ms s + 1) bytes rate burst)) \<and>
    tb_tokens (snd (try_consume s (tb_last_refill_monotonic_ms s + 1) bytes rate burst)) \<le> tb_tokens s \<and>
    tb_last_refill_monotonic_ms (snd (try_consume s (tb_last_refill_monotonic_ms s + 1) bytes rate burst)) =
      tb_last_refill_monotonic_ms s + 1"
proof -
  let ?s = "snd (refill s (tb_last_refill_monotonic_ms s + 1) rate burst)"
  have "unat (tb_tokens ?s) \<le> unat (tb_tokens s)"
    by (simp add: refill_tokens [OF assms(2)] slow_refill_gain [OF assms(1)])
  then show ?thesis
    using assms(3) refill_refillable [OF assms(2), of burst]
    by (simp add: try_consume_refillable [OF assms(2)] Let_def word_le_nat_alt word_less_nat_alt)
qed

lemma slow_poll_run:
  assumes "rate < 1000" "rate \<noteq> 0" "tb_initialized s" "tb_tokens s < bytes"
    and "unat (tb_last_refill_monotonic_ms s) + n < 2 ^ 64"
  shows "tb_initialized (poll_each_ms s bytes rate burst n) \<and>
    tb_tokens (poll_each_ms s bytes rate burst n) < bytes \<and>
    unat (tb_last_refill_monotonic_ms (poll_each_ms s bytes rate burst n)) =
      unat (tb_last_refill_monotonic_ms s) + n"
  using assms(5)
proof (induction n)
  case 0
  then show ?case using assms by simp
next
  case (Suc n)
  let ?s = "poll_each_ms s bytes rate burst n" let ?l = "tb_last_refill_monotonic_ms (poll_each_ms s bytes rate burst n)"
  have IH: "tb_initialized ?s" "tb_tokens ?s < bytes" "unat ?l = unat (tb_last_refill_monotonic_ms s) + n"
    using Suc by simp_all
  have next_ms: "unat (?l + 1) = unat ?l + 1"
    using IH(3) Suc.prems by (subst unat_add_small_u64) simp_all
  have "rate \<noteq> kUnlimitedRate" using assms(1) by (auto simp: kUnlimitedRate_def word_less_nat_alt)
  then have rf: "refillable ?s (?l + 1) rate"
    using IH assms(2) next_ms by (simp add: refillable_def word_le_nat_alt)
  have init: "tb_initialized (snd (try_consume ?s (?l + 1) bytes rate burst))"
    using refill_refillable(4) [OF rf] by (simp add: try_consume_refillable [OF rf] Let_def)
  show ?case
    using slow_poll [OF assms(1) rf IH(2), of burst] init IH next_ms by (auto simp: Let_def)
qed

text \<open>
  A rate below 1000 bytes per second starves a caller that polls every millisecond: each
  refill rounds the gain down to zero bytes and still advances the refill time, so a request
  that was refused once is refused after every number of retries.
\<close>

theorem slow_rate_starves_polling:
  assumes "rate < 1000" "rate \<noteq> 0" "tb_initialized s" "tb_tokens s < bytes"
    and "unat (tb_last_refill_monotonic_ms s) + Suc n < 2 ^ 64"
  shows "\<not> is_ok (fst (try_consume (poll_each_ms s bytes rate burst n)
           (tb_last_refill_monotonic_ms (poll_each_ms s bytes rate burst n) + 1) bytes rate burst))"
proof -
  let ?s = "poll_each_ms s bytes rate burst n"
  have run: "tb_initialized ?s" "tb_tokens ?s < bytes"
    "unat (tb_last_refill_monotonic_ms ?s) = unat (tb_last_refill_monotonic_ms s) + n"
    using slow_poll_run [of rate s bytes n burst] assms by simp_all
  have "unat (tb_last_refill_monotonic_ms ?s + 1) = unat (tb_last_refill_monotonic_ms ?s) + 1"
    using run(3) assms(5) by (subst unat_add_small_u64) simp_all
  moreover have "rate \<noteq> kUnlimitedRate" using assms(1) by (auto simp: kUnlimitedRate_def word_less_nat_alt)
  ultimately have "refillable ?s (tb_last_refill_monotonic_ms ?s + 1) rate"
    using run assms(2) by (simp add: refillable_def word_le_nat_alt)
  then show ?thesis using slow_poll [OF assms(1) _ run(2)] by blast
qed

theorem slow_rate_starves_polling_witness:
  "\<not> is_ok (fst (try_consume
     (poll_each_ms \<lparr>tb_tokens = 0, tb_last_refill_monotonic_ms = 0, tb_rate_bps = 999, tb_burst_bytes = 50,
        tb_initialized = True\<rparr> 1 999 50 3600000)
     (tb_last_refill_monotonic_ms (poll_each_ms \<lparr>tb_tokens = 0, tb_last_refill_monotonic_ms = 0,
        tb_rate_bps = 999, tb_burst_bytes = 50, tb_initialized = True\<rparr> 1 999 50 3600000) + 1) 1 999 50))"
  by (rule slow_rate_starves_polling) (simp_all add: word_less_nat_alt)

text \<open>
  The delay computation multiplies the deficit by 1000 in 64 bits. For an empty bucket at
  1000 bytes per second and a legal request of \<open>2 ^ 62\<close> bytes the product wraps to zero: the
  advertised delay is one millisecond, and the request at that time is refused.
\<close>

theorem delay_overflow_too_short:
  "let s = \<lparr>tb_tokens = 0, tb_last_refill_monotonic_ms = 0, tb_rate_bps = 1000, tb_burst_bytes = 2 ^ 62,
            tb_initialized = True\<rparr>
   in delay_until_available_ms s (2 ^ 62) = 1 \<and>
      \<not> is_ok (fst (try_consume s (delay_until_available_ms s (2 ^ 62)) (2 ^ 62) 1000 (2 ^ 62)))"
  by (simp add: Let_def delay_until_available_ms_def kUnlimitedRate_def try_consume_def refill_def
      refill_level_def refill_gain_def word_le_nat_alt word_less_nat_alt)

end
