(* ===== verification/CTF_Sync.thy ===== *)
theory CTF_Sync
  imports CTF_Traffic
begin

text \<open>
  Synchronization sensitivity (include/ctf/sync.hpp, src/sync.cpp): what a collective declares
  or its structure implies about arrival order, and the basis the claim was derived from.
\<close>

datatype SyncKind =
    kNone
  | kBarrier
  | kFence
  | kDependency
  | kCollectiveStep
  | kStreamOrder

primrec SyncKind_value :: "SyncKind \<Rightarrow> u64" where
  "SyncKind_value SyncKind.kNone = 0"
| "SyncKind_value SyncKind.kBarrier = 1"
| "SyncKind_value SyncKind.kFence = 2"
| "SyncKind_value SyncKind.kDependency = 3"
| "SyncKind_value SyncKind.kCollectiveStep = 4"
| "SyncKind_value SyncKind.kStreamOrder = 5"

primrec SyncKind_to_string :: "SyncKind \<Rightarrow> string" where
  "SyncKind_to_string SyncKind.kNone = ''none''"
| "SyncKind_to_string SyncKind.kBarrier = ''barrier''"
| "SyncKind_to_string SyncKind.kFence = ''fence''"
| "SyncKind_to_string SyncKind.kDependency = ''dependency''"
| "SyncKind_to_string SyncKind.kCollectiveStep = ''collective_step''"
| "SyncKind_to_string SyncKind.kStreamOrder = ''stream_order''"

datatype SyncBasis =
    kUnspecified
  | kDeclaredBarrierSemantics
  | kDeclaredPhaseSynchronizationPoint
  | kDerivedFromClass
  | kDerivedFromPattern
  | kDerivedFromPolicy

primrec SyncBasis_value :: "SyncBasis \<Rightarrow> u64" where
  "SyncBasis_value SyncBasis.kUnspecified = 0"
| "SyncBasis_value SyncBasis.kDeclaredBarrierSemantics = 1"
| "SyncBasis_value SyncBasis.kDeclaredPhaseSynchronizationPoint = 2"
| "SyncBasis_value SyncBasis.kDerivedFromClass = 3"
| "SyncBasis_value SyncBasis.kDerivedFromPattern = 4"
| "SyncBasis_value SyncBasis.kDerivedFromPolicy = 5"

primrec SyncBasis_to_string :: "SyncBasis \<Rightarrow> string" where
  "SyncBasis_to_string SyncBasis.kUnspecified = ''unspecified''"
| "SyncBasis_to_string SyncBasis.kDeclaredBarrierSemantics = ''declared_barrier_semantics''"
| "SyncBasis_to_string SyncBasis.kDeclaredPhaseSynchronizationPoint = ''declared_phase_synchronization_point''"
| "SyncBasis_to_string SyncBasis.kDerivedFromClass = ''derived_from_class''"
| "SyncBasis_to_string SyncBasis.kDerivedFromPattern = ''derived_from_pattern''"
| "SyncBasis_to_string SyncBasis.kDerivedFromPolicy = ''derived_from_policy''"

record SyncSensitivity =
  sync_kind :: SyncKind
  sync_basis :: SyncBasis
  sync_latency_critical :: bool
  sync_all_members_must_arrive :: bool
  sync_completion_ordering_matters :: bool
  sync_barrier_member_count :: u32
  sync_maximum_skew_micros :: u64

definition SyncSensitivity_default :: SyncSensitivity where
  "SyncSensitivity_default =
     \<lparr>sync_kind = SyncKind.kNone, sync_basis = SyncBasis.kUnspecified, sync_latency_critical = False,
      sync_all_members_must_arrive = False, sync_completion_ordering_matters = False,
      sync_barrier_member_count = 0, sync_maximum_skew_micros = 0\<rparr>"

definition class_is_barrier_like :: "CollectiveClass \<Rightarrow> bool" where
  "class_is_barrier_like c \<longleftrightarrow>
     c = CollectiveClass.kAllReduce \<or> c = CollectiveClass.kReduceScatter \<or>
     c = CollectiveClass.kBarrierOnly \<or> c = CollectiveClass.kScan"

definition pattern_is_barrier_like :: "FlowPattern \<Rightarrow> bool" where
  "pattern_is_barrier_like p \<longleftrightarrow> p = FlowPattern.kRing \<or> p = FlowPattern.kPipeline"

definition derive_sync_sensitivity ::
  "CollectiveDefinition \<Rightarrow> FlowGroup \<Rightarrow> TrafficPolicy \<Rightarrow> SyncSensitivity" where
  "derive_sync_sensitivity d g policy =
     (let members = (if length (def_participants d) > 0xFFFFFFFF then 0xFFFFFFFF
                     else length (def_participants d));
          traffic_class =
            (case find_collective policy (def_collective_class d) of
               Some collective_policy \<Rightarrow> ccp_traffic_class collective_policy
             | None \<Rightarrow> TrafficClass.kUnclassified);
          latency =
            (case find_class policy traffic_class of
               Some class_policy \<Rightarrow>
                 tcp_priority class_policy \<ge> 12 \<or>
                 tcp_traffic_class class_policy = TrafficClass.kLatencyCritical
             | None \<Rightarrow> False);
          s0 = SyncSensitivity_default
            \<lparr>sync_barrier_member_count := of_nat members, sync_latency_critical := latency\<rparr>
      in
      if def_declares_barrier_semantics d
      then s0\<lparr>sync_kind := SyncKind.kBarrier, sync_basis := SyncBasis.kDeclaredBarrierSemantics,
              sync_all_members_must_arrive := True, sync_completion_ordering_matters := True,
              sync_maximum_skew_micros := 1000\<rparr>
      else if list_ex phase_synchronization_point (def_phases d)
      then s0\<lparr>sync_kind := SyncKind.kBarrier,
              sync_basis := SyncBasis.kDeclaredPhaseSynchronizationPoint,
              sync_all_members_must_arrive := True, sync_completion_ordering_matters := True,
              sync_maximum_skew_micros := 5000\<rparr>
      else if def_collective_class d = CollectiveClass.kBarrierOnly
      then s0\<lparr>sync_kind := SyncKind.kBarrier, sync_basis := SyncBasis.kDerivedFromClass,
              sync_all_members_must_arrive := True, sync_completion_ordering_matters := True,
              sync_maximum_skew_micros := 1000\<rparr>
      else
        let s1 =
              (if class_is_barrier_like (def_collective_class d)
               then s0\<lparr>sync_kind := SyncKind.kDependency, sync_basis := SyncBasis.kDerivedFromClass,
                       sync_completion_ordering_matters := True, sync_maximum_skew_micros := 20000\<rparr>
               else if pattern_is_barrier_like (group_pattern g)
               then s0\<lparr>sync_kind := SyncKind.kCollectiveStep,
                       sync_basis := SyncBasis.kDerivedFromPattern, sync_maximum_skew_micros := 50000\<rparr>
               else s0);
            s2 =
              (if group_requires_simultaneous_start g \<and> sync_kind s1 = SyncKind.kNone
               then s1\<lparr>sync_kind := SyncKind.kDependency, sync_basis := SyncBasis.kDerivedFromPolicy,
                       sync_completion_ordering_matters := True\<rparr>
               else s1)
        in if sync_latency_critical s2 \<and> sync_kind s2 = SyncKind.kNone
           then s2\<lparr>sync_kind := SyncKind.kFence, sync_basis := SyncBasis.kDerivedFromPolicy\<rparr>
           else s2)"


section \<open>An inference is never reported as a declaration\<close>

lemma derive_sync_cases:
  "sync_basis (derive_sync_sensitivity d g p) = SyncBasis.kDeclaredBarrierSemantics \<longleftrightarrow>
     def_declares_barrier_semantics d"
  "sync_basis (derive_sync_sensitivity d g p) = SyncBasis.kDeclaredPhaseSynchronizationPoint \<longleftrightarrow>
     \<not> def_declares_barrier_semantics d \<and> list_ex phase_synchronization_point (def_phases d)"
  "sync_basis (derive_sync_sensitivity d g p) = SyncBasis.kUnspecified \<longleftrightarrow>
     sync_kind (derive_sync_sensitivity d g p) = SyncKind.kNone"
  "sync_all_members_must_arrive (derive_sync_sensitivity d g p) \<longleftrightarrow>
     sync_kind (derive_sync_sensitivity d g p) = SyncKind.kBarrier"
  by (simp_all add: derive_sync_sensitivity_def SyncSensitivity_default_def Let_def)

text \<open>
  A derived sensitivity never poses as a declared one. The declared bases are reported
  exactly when the definition declares barrier semantics, respectively a synchronizing phase;
  a basis is reported exactly when some sensitivity is; and all members must arrive exactly
  for the barrier kind.
\<close>

theorem sync_basis_honest:
  "(sync_basis (derive_sync_sensitivity d g p) = SyncBasis.kDeclaredBarrierSemantics \<longleftrightarrow>
      def_declares_barrier_semantics d) \<and>
   (sync_basis (derive_sync_sensitivity d g p) = SyncBasis.kDeclaredPhaseSynchronizationPoint \<longleftrightarrow>
      \<not> def_declares_barrier_semantics d \<and> list_ex phase_synchronization_point (def_phases d)) \<and>
   (sync_basis (derive_sync_sensitivity d g p) = SyncBasis.kUnspecified \<longleftrightarrow>
      sync_kind (derive_sync_sensitivity d g p) = SyncKind.kNone) \<and>
   (sync_all_members_must_arrive (derive_sync_sensitivity d g p) \<longleftrightarrow>
      sync_kind (derive_sync_sensitivity d g p) = SyncKind.kBarrier)"
  using derive_sync_cases by blast

end
