(* ===== verification/CTF_Evidence.thy ===== *)
theory CTF_Evidence
  imports CTF_Traffic
begin

text \<open>
  Topology, capacity and congestion evidence, the freshness policy and the frozen evaluation
  snapshot (include/ctf/evidence.hpp, include/ctf/snapshot.hpp, src/evidence.cpp).

  The lookups are the binary searches of the sources. The locale \<open>entry_check\<close> is the
  contract of the four validation loops: an accepted vector is strictly ascending in its key,
  which is what makes the searches complete.
\<close>

section \<open>Enumerations\<close>

datatype LinkClass =
    kUnspecified
  | kIntraNode
  | kInterNode
  | kInterRack
  | kInterPod
  | kOversubscribed

primrec LinkClass_value :: "LinkClass \<Rightarrow> u64" where
  "LinkClass_value LinkClass.kUnspecified = 0"
| "LinkClass_value LinkClass.kIntraNode = 1"
| "LinkClass_value LinkClass.kInterNode = 2"
| "LinkClass_value LinkClass.kInterRack = 3"
| "LinkClass_value LinkClass.kInterPod = 4"
| "LinkClass_value LinkClass.kOversubscribed = 5"

primrec LinkClass_to_string :: "LinkClass \<Rightarrow> string" where
  "LinkClass_to_string LinkClass.kUnspecified = ''unspecified''"
| "LinkClass_to_string LinkClass.kIntraNode = ''intra_node''"
| "LinkClass_to_string LinkClass.kInterNode = ''inter_node''"
| "LinkClass_to_string LinkClass.kInterRack = ''inter_rack''"
| "LinkClass_to_string LinkClass.kInterPod = ''inter_pod''"
| "LinkClass_to_string LinkClass.kOversubscribed = ''oversubscribed''"

datatype CongestionLevel =
    kUnknown
  | kNone
  | kLow
  | kModerate
  | kHigh
  | kSevere

primrec CongestionLevel_value :: "CongestionLevel \<Rightarrow> u64" where
  "CongestionLevel_value CongestionLevel.kUnknown = 0"
| "CongestionLevel_value CongestionLevel.kNone = 1"
| "CongestionLevel_value CongestionLevel.kLow = 2"
| "CongestionLevel_value CongestionLevel.kModerate = 3"
| "CongestionLevel_value CongestionLevel.kHigh = 4"
| "CongestionLevel_value CongestionLevel.kSevere = 5"

primrec CongestionLevel_to_string :: "CongestionLevel \<Rightarrow> string" where
  "CongestionLevel_to_string CongestionLevel.kUnknown = ''unknown''"
| "CongestionLevel_to_string CongestionLevel.kNone = ''none''"
| "CongestionLevel_to_string CongestionLevel.kLow = ''low''"
| "CongestionLevel_to_string CongestionLevel.kModerate = ''moderate''"
| "CongestionLevel_to_string CongestionLevel.kHigh = ''high''"
| "CongestionLevel_to_string CongestionLevel.kSevere = ''severe''"

datatype EvidenceKind =
    kTopology
  | kCapacity
  | kCongestion
  | kPeerLiveness

primrec EvidenceKind_value :: "EvidenceKind \<Rightarrow> u64" where
  "EvidenceKind_value EvidenceKind.kTopology = 0"
| "EvidenceKind_value EvidenceKind.kCapacity = 1"
| "EvidenceKind_value EvidenceKind.kCongestion = 2"
| "EvidenceKind_value EvidenceKind.kPeerLiveness = 3"

primrec EvidenceKind_to_string :: "EvidenceKind \<Rightarrow> string" where
  "EvidenceKind_to_string EvidenceKind.kTopology = ''topology''"
| "EvidenceKind_to_string EvidenceKind.kCapacity = ''capacity''"
| "EvidenceKind_to_string EvidenceKind.kCongestion = ''congestion''"
| "EvidenceKind_to_string EvidenceKind.kPeerLiveness = ''peer_liveness''"

definition congestion_level_from_utilization_bps :: "u32 \<Rightarrow> CongestionLevel" where
  "congestion_level_from_utilization_bps utilization =
     (if utilization \<ge> 9500 then CongestionLevel.kSevere
      else if utilization \<ge> 8500 then CongestionLevel.kHigh
      else if utilization \<ge> 7500 then CongestionLevel.kModerate
      else if utilization \<ge> 6000 then CongestionLevel.kLow
      else CongestionLevel.kNone)"


section \<open>Evidence records\<close>

record TopologyNode =
  node_id :: NodeId
  node_rack :: RackId
  node_accelerator_attached :: bool
  node_accelerator_count :: u32

record TopologyLink =
  link_id :: LinkId
  link_a :: SwitchId
  link_b :: SwitchId
  link_class :: LinkClass
  link_capacity_bps :: u64
  link_lanes :: u32
  link_shared_oversubscribed :: bool

record TopologyEvidence =
  topo_generation :: TopologyGeneration
  topo_nodes :: "TopologyNode list"
  topo_links :: "TopologyLink list"
  topo_captured_monotonic_ms :: u64
  topo_synthetic :: bool

record LinkCapacity =
  lcap_link :: LinkId
  lcap_provisioned_bps :: u64
  lcap_available_bps :: u64
  lcap_utilization_bps :: u32
  lcap_oversubscribed :: bool
  lcap_oversubscription_ratio_per_mille :: u32

record CapacityEvidence =
  cap_generation :: EvidenceGeneration
  cap_topology_generation :: TopologyGeneration
  cap_links :: "LinkCapacity list"
  cap_captured_monotonic_ms :: u64
  cap_synthetic :: bool

record LinkCongestion =
  lcon_link :: LinkId
  lcon_utilization_bps :: u32
  lcon_queue_depth_bytes :: u32
  lcon_ecn_marks_per_mille :: u32
  lcon_pfc_pause_per_mille :: u32
  lcon_level :: CongestionLevel

record CongestionEvidence =
  con_generation :: EvidenceGeneration
  con_topology_generation :: TopologyGeneration
  con_links :: "LinkCongestion list"
  con_captured_monotonic_ms :: u64
  con_valid_for_ms :: u64
  con_synthetic :: bool

record FreshnessPolicy =
  fresh_topology_max_age_ms :: u64
  fresh_capacity_max_age_ms :: u64
  fresh_congestion_max_age_ms :: u64
  fresh_peer_liveness_max_age_ms :: u64
  fresh_stale_requires_revalidation :: bool

definition FreshnessPolicy_default :: FreshnessPolicy where
  "FreshnessPolicy_default =
     \<lparr>fresh_topology_max_age_ms = 60000, fresh_capacity_max_age_ms = 5000,
      fresh_congestion_max_age_ms = 2000, fresh_peer_liveness_max_age_ms = 10000,
      fresh_stale_requires_revalidation = True\<rparr>"

primrec max_age_ms :: "EvidenceKind \<Rightarrow> FreshnessPolicy \<Rightarrow> u64" where
  "max_age_ms EvidenceKind.kTopology f = fresh_topology_max_age_ms f"
| "max_age_ms EvidenceKind.kCapacity f = fresh_capacity_max_age_ms f"
| "max_age_ms EvidenceKind.kCongestion f = fresh_congestion_max_age_ms f"
| "max_age_ms EvidenceKind.kPeerLiveness f = fresh_peer_liveness_max_age_ms f"

text \<open>The shared pointers of the snapshot are options: a null pointer is \<open>None\<close>.\<close>

record EvaluationSnapshot =
  snap_epoch :: CoordinatorEpoch
  snap_policy_generation :: PolicyGeneration
  snap_topology_generation :: TopologyGeneration
  snap_capacity_generation :: EvidenceGeneration
  snap_congestion_generation :: EvidenceGeneration
  snap_topology :: "TopologyEvidence option"
  snap_capacity :: "CapacityEvidence option"
  snap_congestion :: "CongestionEvidence option"
  snap_policy :: "TrafficPolicy option"
  snap_peers :: "PeerLiveness list"
  snap_freshness :: FreshnessPolicy
  snap_now_monotonic_ms :: u64
  snap_capacity_observation_available :: bool
  snap_congestion_observation_available :: bool
  snap_topology_available :: bool
  snap_policy_available :: bool


section \<open>Topology\<close>

definition topology_canonicalize :: "TopologyEvidence \<Rightarrow> TopologyEvidence" where
  "topology_canonicalize t =
     t\<lparr>topo_nodes := std_sort (\<lambda>a b. node_id a < node_id b) (topo_nodes t),
       topo_links := std_sort (\<lambda>a b. link_id a < link_id b) (topo_links t)\<rparr>"

definition find_node :: "TopologyEvidence \<Rightarrow> NodeId \<Rightarrow> TopologyNode option" where
  "find_node t i = binary_find node_id (topo_nodes t) i"

definition find_link :: "TopologyEvidence \<Rightarrow> LinkId \<Rightarrow> TopologyLink option" where
  "find_link t i = binary_find link_id (topo_links t) i"

text \<open>
  The validation loops visit the entries with the previous one at hand and return the first
  failure; \<open>check\<close> is the loop body.
\<close>

fun check_entries :: "('a option \<Rightarrow> 'a \<Rightarrow> Status) \<Rightarrow> 'a option \<Rightarrow> 'a list \<Rightarrow> Status" where
  "check_entries check previous [] = status_ok"
| "check_entries check previous (entry # rest) =
     (let status = check previous entry in
      if \<not> is_ok status then status else check_entries check (Some entry) rest)"

definition not_after :: "('a \<Rightarrow> Identity) \<Rightarrow> 'a option \<Rightarrow> 'a \<Rightarrow> bool" where
  "not_after key previous entry \<longleftrightarrow>
     (case previous of None \<Rightarrow> False | Some p \<Rightarrow> \<not> key p < key entry)"

definition check_node :: "TopologyNode option \<Rightarrow> TopologyNode \<Rightarrow> Status" where
  "check_node previous node =
     (if is_none (node_id node)
      then Status ErrorCode_kValidationNodeUnknown ''topology contains an unset node identity''
      else if not_after node_id previous node
      then Status ErrorCode_kDecodeNonCanonical ''topology nodes are not strictly ascending''
      else status_ok)"

definition check_link :: "TopologyLink option \<Rightarrow> TopologyLink \<Rightarrow> Status" where
  "check_link previous link =
     (if is_none (link_id link)
      then Status ErrorCode_kValidationNodeUnknown ''topology contains an unset link identity''
      else if not_after link_id previous link
      then Status ErrorCode_kDecodeNonCanonical ''topology links are not strictly ascending''
      else if link_capacity_bps link = 0
      then Status ErrorCode_kValidationCapacityNegative ''topology link has no capacity''
      else if link_lanes link = 0
      then Status ErrorCode_kValidationCapacityNegative ''topology link has zero lanes''
      else status_ok)"

definition topology_validate :: "TopologyEvidence \<Rightarrow> Status" where
  "topology_validate t =
     (if is_none (topo_generation t)
      then Status ErrorCode_kValidationGenerationUnset ''topology evidence has no generation''
      else if length (topo_nodes t) > kTopologyNodesMax
      then Status ErrorCode_kValidationNodeUnknown ''topology exceeds the node bound''
      else if length (topo_links t) > kTopologyLinksMax
      then Status ErrorCode_kValidationNodeUnknown ''topology exceeds the link bound''
      else
        let status = check_entries check_node None (topo_nodes t) in
        if \<not> is_ok status then status else check_entries check_link None (topo_links t))"


section \<open>Capacity\<close>

definition capacity_canonicalize :: "CapacityEvidence \<Rightarrow> CapacityEvidence" where
  "capacity_canonicalize c =
     c\<lparr>cap_links := std_sort (\<lambda>a b. lcap_link a < lcap_link b) (cap_links c)\<rparr>"

definition capacity_find :: "CapacityEvidence \<Rightarrow> LinkId \<Rightarrow> LinkCapacity option" where
  "capacity_find c i = binary_find lcap_link (cap_links c) i"

definition check_capacity :: "LinkCapacity option \<Rightarrow> LinkCapacity \<Rightarrow> Status" where
  "check_capacity previous entry =
     (if is_none (lcap_link entry)
      then Status ErrorCode_kValidationNodeUnknown
             ''capacity evidence contains an unset link identity''
      else if not_after lcap_link previous entry
      then Status ErrorCode_kDecodeNonCanonical ''capacity entries are not strictly ascending''
      else if lcap_utilization_bps entry > 10000
      then Status ErrorCode_kValidationCapacityNegative ''capacity utilization exceeds 100 percent''
      else if lcap_provisioned_bps entry = 0
      then Status ErrorCode_kValidationCapacityNegative
             ''capacity entry claims zero provisioned bandwidth''
      else if lcap_available_bps entry > lcap_provisioned_bps entry
      then Status ErrorCode_kValidationCapacityNegative
             ''capacity entry claims more available bandwidth than provisioned''
      else if lcap_oversubscription_ratio_per_mille entry = 0
      then Status ErrorCode_kValidationCapacityNegative
             ''capacity entry claims an impossible oversubscription ratio''
      else status_ok)"

definition capacity_validate :: "CapacityEvidence \<Rightarrow> Status" where
  "capacity_validate c =
     (if is_none (cap_generation c)
      then Status ErrorCode_kValidationGenerationUnset ''capacity evidence has no generation''
      else if is_none (cap_topology_generation c)
      then Status ErrorCode_kValidationGenerationUnset
             ''capacity evidence has no topology generation''
      else if length (cap_links c) > kTopologyLinksMax
      then Status ErrorCode_kValidationCapacityNegative ''capacity evidence exceeds the link bound''
      else check_entries check_capacity None (cap_links c))"


section \<open>Congestion\<close>

definition congestion_canonicalize :: "CongestionEvidence \<Rightarrow> CongestionEvidence" where
  "congestion_canonicalize c =
     c\<lparr>con_links := std_sort (\<lambda>a b. lcon_link a < lcon_link b) (con_links c)\<rparr>"

definition congestion_find :: "CongestionEvidence \<Rightarrow> LinkId \<Rightarrow> LinkCongestion option" where
  "congestion_find c i = binary_find lcon_link (con_links c) i"

definition check_congestion :: "LinkCongestion option \<Rightarrow> LinkCongestion \<Rightarrow> Status" where
  "check_congestion previous entry =
     (if is_none (lcon_link entry)
      then Status ErrorCode_kValidationNodeUnknown
             ''congestion evidence contains an unset link identity''
      else if not_after lcon_link previous entry
      then Status ErrorCode_kDecodeNonCanonical ''congestion entries are not strictly ascending''
      else if lcon_utilization_bps entry > 10000
      then Status ErrorCode_kValidationCapacityNegative ''congestion utilization exceeds 100 percent''
      else if lcon_ecn_marks_per_mille entry > 1000 \<or> lcon_pfc_pause_per_mille entry > 1000
      then Status ErrorCode_kValidationRateInvalid ''congestion counters exceed their scale''
      else if lcon_level entry = CongestionLevel.kUnknown
      then Status ErrorCode_kValidationClassUnknownRejected
             ''congestion entry does not state a level; unknown is not evidence''
      else if lcon_level entry \<noteq> congestion_level_from_utilization_bps (lcon_utilization_bps entry)
      then Status ErrorCode_kDecodeNonCanonical
             ''congestion entry level contradicts its own utilization''
      else status_ok)"

definition congestion_validate :: "CongestionEvidence \<Rightarrow> Status" where
  "congestion_validate c =
     (if is_none (con_generation c)
      then Status ErrorCode_kValidationGenerationUnset ''congestion evidence has no generation''
      else if is_none (con_topology_generation c)
      then Status ErrorCode_kValidationGenerationUnset
             ''congestion evidence has no topology generation''
      else if con_valid_for_ms c = 0
      then Status ErrorCode_kValidationRateInvalid
             ''congestion evidence states no validity window''
      else if con_valid_for_ms c > 3600000
      then Status ErrorCode_kValidationRateInvalid
             ''congestion evidence claims an implausible validity window''
      else if length (con_links c) > kTopologyLinksMax
      then Status ErrorCode_kValidationCapacityNegative ''congestion evidence exceeds the link bound''
      else check_entries check_congestion None (con_links c))"


section \<open>Peers of a snapshot\<close>

definition find_peer :: "EvaluationSnapshot \<Rightarrow> ParticipantId \<Rightarrow> PeerLiveness option" where
  "find_peer snapshot i = binary_find pl_participant (snap_peers snapshot) i"


section \<open>The contract of the validation loops\<close>

locale entry_check =
  fixes key :: "'a \<Rightarrow> Identity"
    and check :: "'a option \<Rightarrow> 'a \<Rightarrow> Status"
    and good :: "'a \<Rightarrow> bool"
  assumes check_ok: "is_ok (check previous entry) \<longleftrightarrow> good entry \<and> \<not> not_after key previous entry"
begin

lemma check_entries_after:
  "is_ok (check_entries check (Some p) xs) \<longleftrightarrow> ascending key (p # xs) \<and> (\<forall>x\<in>set xs. good x)"
proof (induction xs arbitrary: p)
  case Nil
  then show ?case by simp
next
  case (Cons x xs)
  have "is_ok (check_entries check (Some p) (x # xs)) \<longleftrightarrow>
      good x \<and> key p < key x \<and> ascending key (x # xs) \<and> (\<forall>x\<in>set xs. good x)"
    by (auto simp: Let_def check_ok not_after_def Cons.IH simp del: ascending_Cons)
  then show ?case by (auto dest: less_trans)
qed

lemma check_entries_ok:
  "is_ok (check_entries check None xs) \<longleftrightarrow> ascending key xs \<and> (\<forall>x\<in>set xs. good x)"
  by (cases xs) (auto simp: Let_def check_ok not_after_def check_entries_after)

lemma sorted_entries_ok:
  "is_ok (check_entries check None (std_sort (\<lambda>a b. key a < key b) xs)) \<longleftrightarrow>
     distinct (map key xs) \<and> (\<forall>x\<in>set xs. good x)"
proof -
  have "mset (map key (std_sort (\<lambda>a b. key a < key b) xs)) = mset (map key xs)"
    by (simp add: mset_std_sort)
  then have "distinct (map key (std_sort (\<lambda>a b. key a < key b) xs)) \<longleftrightarrow> distinct (map key xs)"
    by (rule mset_eq_imp_distinct_iff)
  then show ?thesis
    using std_sort_ascending [of key xs] ascending_distinct [of key "std_sort (\<lambda>a b. key a < key b) xs"]
    by (auto simp: check_entries_ok sort_simps)
qed

lemma search_complete:
  "is_ok (check_entries check None xs) \<Longrightarrow> binary_find key xs k = Some x \<longleftrightarrow> x \<in> set xs \<and> key x = k"
  by (simp add: check_entries_ok binary_find_mem)

end

definition node_good :: "TopologyNode \<Rightarrow> bool" where
  "node_good n \<longleftrightarrow> is_some (node_id n)"

definition link_good :: "TopologyLink \<Rightarrow> bool" where
  "link_good l \<longleftrightarrow> is_some (link_id l) \<and> link_capacity_bps l \<noteq> 0 \<and> link_lanes l \<noteq> 0"

definition capacity_good :: "LinkCapacity \<Rightarrow> bool" where
  "capacity_good l \<longleftrightarrow>
     is_some (lcap_link l) \<and> lcap_utilization_bps l \<le> 10000 \<and> lcap_provisioned_bps l \<noteq> 0 \<and>
     lcap_available_bps l \<le> lcap_provisioned_bps l \<and> lcap_oversubscription_ratio_per_mille l \<noteq> 0"

definition congestion_good :: "LinkCongestion \<Rightarrow> bool" where
  "congestion_good l \<longleftrightarrow>
     is_some (lcon_link l) \<and> lcon_utilization_bps l \<le> 10000 \<and> lcon_ecn_marks_per_mille l \<le> 1000 \<and>
     lcon_pfc_pause_per_mille l \<le> 1000 \<and>
     lcon_level l = congestion_level_from_utilization_bps (lcon_utilization_bps l)"

lemma congestion_level_known: "congestion_level_from_utilization_bps u \<noteq> CongestionLevel.kUnknown"
  by (simp add: congestion_level_from_utilization_bps_def)

interpretation node_check: entry_check node_id check_node node_good
  by unfold_locales (auto simp: check_node_def node_good_def is_some_def)

interpretation link_check: entry_check link_id check_link link_good
  by unfold_locales (auto simp: check_link_def link_good_def is_some_def)

interpretation capacity_check: entry_check lcap_link check_capacity capacity_good
  by unfold_locales (auto simp: check_capacity_def capacity_good_def is_some_def not_less)

interpretation congestion_check: entry_check lcon_link check_congestion congestion_good
  by unfold_locales
    (auto simp: check_congestion_def congestion_good_def is_some_def not_less congestion_level_known)

lemma topology_validate_ok:
  "is_ok (topology_validate t) \<longleftrightarrow>
     is_some (topo_generation t) \<and> length (topo_nodes t) \<le> kTopologyNodesMax \<and>
     length (topo_links t) \<le> kTopologyLinksMax \<and>
     is_ok (check_entries check_node None (topo_nodes t)) \<and>
     is_ok (check_entries check_link None (topo_links t))"
  by (auto simp: topology_validate_def is_some_def Let_def not_less)

lemma capacity_validate_ok:
  "is_ok (capacity_validate c) \<longleftrightarrow>
     is_some (cap_generation c) \<and> is_some (cap_topology_generation c) \<and>
     length (cap_links c) \<le> kTopologyLinksMax \<and> is_ok (check_entries check_capacity None (cap_links c))"
  by (auto simp: capacity_validate_def is_some_def not_less)

lemma congestion_validate_ok:
  "is_ok (congestion_validate c) \<longleftrightarrow>
     is_some (con_generation c) \<and> is_some (con_topology_generation c) \<and>
     con_valid_for_ms c \<noteq> 0 \<and> con_valid_for_ms c \<le> 3600000 \<and>
     length (con_links c) \<le> kTopologyLinksMax \<and> is_ok (check_entries check_congestion None (con_links c))"
  by (auto simp: congestion_validate_def is_some_def not_less)


section \<open>Properties of evidence\<close>

text \<open>
  On evidence that passed validation every lookup is complete and sound: the binary
  searches return an entry exactly when the vector holds it under that identity.
\<close>

theorem evidence_lookups:
  assumes "is_ok (topology_validate t)" "is_ok (capacity_validate c)" "is_ok (congestion_validate g)"
  shows "(find_node t i = Some n \<longleftrightarrow> n \<in> set (topo_nodes t) \<and> node_id n = i) \<and>
    (find_link t j = Some l \<longleftrightarrow> l \<in> set (topo_links t) \<and> link_id l = j) \<and>
    (capacity_find c j = Some e \<longleftrightarrow> e \<in> set (cap_links c) \<and> lcap_link e = j) \<and>
    (congestion_find g j = Some u \<longleftrightarrow> u \<in> set (con_links g) \<and> lcon_link u = j)"
  using assms node_check.search_complete link_check.search_complete capacity_check.search_complete
    congestion_check.search_complete
  by (simp add: topology_validate_ok capacity_validate_ok congestion_validate_ok find_node_def find_link_def
      capacity_find_def congestion_find_def)

definition sample_topology :: TopologyEvidence where
  "sample_topology =
     \<lparr>topo_generation = Identity 2 1,
      topo_nodes = [\<lparr>node_id = Identity 3 1, node_rack = Identity 4 1, node_accelerator_attached = True,
                     node_accelerator_count = 8\<rparr>,
                    \<lparr>node_id = Identity 3 2, node_rack = Identity 4 1, node_accelerator_attached = True,
                     node_accelerator_count = 8\<rparr>],
      topo_links = [\<lparr>link_id = Identity 5 1, link_a = Identity 6 1, link_b = Identity 6 2,
                     link_class = LinkClass.kInterNode, link_capacity_bps = 1000000, link_lanes = 4,
                     link_shared_oversubscribed = False\<rparr>],
      topo_captured_monotonic_ms = 1000, topo_synthetic = True\<rparr>"

definition sample_capacity :: "u64 \<Rightarrow> CapacityEvidence" where
  "sample_capacity available =
     \<lparr>cap_generation = Identity 2 2, cap_topology_generation = Identity 2 1,
      cap_links = [\<lparr>lcap_link = Identity 5 1, lcap_provisioned_bps = 20000000000,
                    lcap_available_bps = available, lcap_utilization_bps = 1000,
                    lcap_oversubscribed = False, lcap_oversubscription_ratio_per_mille = 1000\<rparr>],
      cap_captured_monotonic_ms = 1000, cap_synthetic = True\<rparr>"

definition sample_congestion :: CongestionEvidence where
  "sample_congestion =
     \<lparr>con_generation = Identity 2 3, con_topology_generation = Identity 2 1,
      con_links = [\<lparr>lcon_link = Identity 5 1, lcon_utilization_bps = 8000, lcon_queue_depth_bytes = 0,
                    lcon_ecn_marks_per_mille = 0, lcon_pfc_pause_per_mille = 0,
                    lcon_level = CongestionLevel.kModerate\<rparr>],
      con_captured_monotonic_ms = 1000, con_valid_for_ms = 2000, con_synthetic = True\<rparr>"

lemma sample_evidence_valid:
  "is_ok (topology_validate sample_topology)"
  "available \<le> 20000000000 \<Longrightarrow> is_ok (capacity_validate (sample_capacity available))"
  "is_ok (congestion_validate sample_congestion)"
  by (simp_all add: topology_validate_def sample_topology_def capacity_validate_def sample_capacity_def
      congestion_validate_def sample_congestion_def limit_defs check_node_def check_link_def
      check_capacity_def check_congestion_def not_after_def is_none_def less_Identity_def identity_less_def
      congestion_level_from_utilization_bps_def word_le_nat_alt word_less_nat_alt)

theorem evidence_lookups_witness:
  "\<exists>n. find_node sample_topology (Identity 3 2) = Some n"
  using evidence_lookups [OF sample_evidence_valid(1) sample_evidence_valid(2) sample_evidence_valid(3),
      of 0 "Identity 3 2" "topo_nodes sample_topology ! 1"]
  by (auto simp: sample_topology_def)

text \<open>
  Sorting an observation before validating it, as ingestion does, accepts it exactly when
  its header is acceptable, its entries are well-formed and no identity occurs twice; the
  order the entries arrive in is irrelevant.
\<close>

theorem canonicalized_evidence_valid:
  "(is_ok (topology_validate (topology_canonicalize t)) \<longleftrightarrow>
      is_some (topo_generation t) \<and> length (topo_nodes t) \<le> kTopologyNodesMax \<and>
      length (topo_links t) \<le> kTopologyLinksMax \<and>
      distinct (map node_id (topo_nodes t)) \<and> (\<forall>n\<in>set (topo_nodes t). node_good n) \<and>
      distinct (map link_id (topo_links t)) \<and> (\<forall>l\<in>set (topo_links t). link_good l)) \<and>
   (is_ok (capacity_validate (capacity_canonicalize c)) \<longleftrightarrow>
      is_some (cap_generation c) \<and> is_some (cap_topology_generation c) \<and>
      length (cap_links c) \<le> kTopologyLinksMax \<and>
      distinct (map lcap_link (cap_links c)) \<and> (\<forall>l\<in>set (cap_links c). capacity_good l)) \<and>
   (is_ok (congestion_validate (congestion_canonicalize g)) \<longleftrightarrow>
      is_some (con_generation g) \<and> is_some (con_topology_generation g) \<and>
      con_valid_for_ms g \<noteq> 0 \<and> con_valid_for_ms g \<le> 3600000 \<and>
      length (con_links g) \<le> kTopologyLinksMax \<and>
      distinct (map lcon_link (con_links g)) \<and> (\<forall>l\<in>set (con_links g). congestion_good l))"
  by (simp add: topology_validate_ok capacity_validate_ok congestion_validate_ok
      topology_canonicalize_def capacity_canonicalize_def congestion_canonicalize_def length_std_sort
      node_check.sorted_entries_ok link_check.sorted_entries_ok capacity_check.sorted_entries_ok
      congestion_check.sorted_entries_ok conj_assoc)

theorem canonicalized_evidence_valid_witness:
  "is_ok (congestion_validate (congestion_canonicalize sample_congestion))"
  using canonicalized_evidence_valid [of sample_topology "sample_capacity 0" sample_congestion]
  by (simp add: sample_congestion_def congestion_good_def limit_defs is_some_def is_none_def
      congestion_level_from_utilization_bps_def word_le_nat_alt)

end
