(* ===== verification/CTF_Decision.thy ===== *)
theory CTF_Decision
  imports CTF_Sync CTF_Evidence
begin

text \<open>
  Outcomes, decision requests and decision records (include/ctf/decision.hpp,
  src/decision.cpp): validation of untrusted requests, the content fingerprint and the two
  deterministic renderings of a record.
\<close>

section \<open>Outcomes and authority axes\<close>

datatype Outcome =
    kAdmitted
  | kDeferred
  | kRateLimited
  | kIsolatedClass
  | kRequiresReplan
  | kRejectedStale
  | kRejectedCapacity
  | kRejectedPolicy
  | kUnknownSemantics

primrec Outcome_value :: "Outcome \<Rightarrow> u64" where
  "Outcome_value Outcome.kAdmitted = 0"
| "Outcome_value Outcome.kDeferred = 1"
| "Outcome_value Outcome.kRateLimited = 2"
| "Outcome_value Outcome.kIsolatedClass = 3"
| "Outcome_value Outcome.kRequiresReplan = 4"
| "Outcome_value Outcome.kRejectedStale = 5"
| "Outcome_value Outcome.kRejectedCapacity = 6"
| "Outcome_value Outcome.kRejectedPolicy = 7"
| "Outcome_value Outcome.kUnknownSemantics = 8"

primrec Outcome_to_string :: "Outcome \<Rightarrow> string" where
  "Outcome_to_string Outcome.kAdmitted = ''ADMITTED''"
| "Outcome_to_string Outcome.kDeferred = ''DEFERRED''"
| "Outcome_to_string Outcome.kRateLimited = ''RATE_LIMITED''"
| "Outcome_to_string Outcome.kIsolatedClass = ''ISOLATED_CLASS''"
| "Outcome_to_string Outcome.kRequiresReplan = ''REQUIRES_REPLAN''"
| "Outcome_to_string Outcome.kRejectedStale = ''REJECTED_STALE''"
| "Outcome_to_string Outcome.kRejectedCapacity = ''REJECTED_CAPACITY''"
| "Outcome_to_string Outcome.kRejectedPolicy = ''REJECTED_POLICY''"
| "Outcome_to_string Outcome.kUnknownSemantics = ''UNKNOWN_SEMANTICS''"

datatype AuthorityAxis =
    kNone
  | kCoordinatorEpoch
  | kTopologyGeneration
  | kPolicyGeneration
  | kCollectiveGeneration
  | kAttemptGeneration
  | kParticipantLiveness
  | kCapacityEvidence
  | kCongestionEvidence
  | kLifecycle
  | kSemantics
  | kPlan

primrec AuthorityAxis_value :: "AuthorityAxis \<Rightarrow> u64" where
  "AuthorityAxis_value AuthorityAxis.kNone = 0"
| "AuthorityAxis_value AuthorityAxis.kCoordinatorEpoch = 1"
| "AuthorityAxis_value AuthorityAxis.kTopologyGeneration = 2"
| "AuthorityAxis_value AuthorityAxis.kPolicyGeneration = 3"
| "AuthorityAxis_value AuthorityAxis.kCollectiveGeneration = 4"
| "AuthorityAxis_value AuthorityAxis.kAttemptGeneration = 5"
| "AuthorityAxis_value AuthorityAxis.kParticipantLiveness = 6"
| "AuthorityAxis_value AuthorityAxis.kCapacityEvidence = 7"
| "AuthorityAxis_value AuthorityAxis.kCongestionEvidence = 8"
| "AuthorityAxis_value AuthorityAxis.kLifecycle = 9"
| "AuthorityAxis_value AuthorityAxis.kSemantics = 10"
| "AuthorityAxis_value AuthorityAxis.kPlan = 11"

primrec AuthorityAxis_to_string :: "AuthorityAxis \<Rightarrow> string" where
  "AuthorityAxis_to_string AuthorityAxis.kNone = ''none''"
| "AuthorityAxis_to_string AuthorityAxis.kCoordinatorEpoch = ''coordinator_epoch''"
| "AuthorityAxis_to_string AuthorityAxis.kTopologyGeneration = ''topology_generation''"
| "AuthorityAxis_to_string AuthorityAxis.kPolicyGeneration = ''policy_generation''"
| "AuthorityAxis_to_string AuthorityAxis.kCollectiveGeneration = ''collective_generation''"
| "AuthorityAxis_to_string AuthorityAxis.kAttemptGeneration = ''attempt_generation''"
| "AuthorityAxis_to_string AuthorityAxis.kParticipantLiveness = ''participant_liveness''"
| "AuthorityAxis_to_string AuthorityAxis.kCapacityEvidence = ''capacity_evidence''"
| "AuthorityAxis_to_string AuthorityAxis.kCongestionEvidence = ''congestion_evidence''"
| "AuthorityAxis_to_string AuthorityAxis.kLifecycle = ''lifecycle''"
| "AuthorityAxis_to_string AuthorityAxis.kSemantics = ''semantics''"
| "AuthorityAxis_to_string AuthorityAxis.kPlan = ''plan''"

definition outcome_is_rejection :: "Outcome \<Rightarrow> bool" where
  "outcome_is_rejection v \<longleftrightarrow>
     v = Outcome.kRejectedStale \<or> v = Outcome.kRejectedCapacity \<or> v = Outcome.kRejectedPolicy \<or>
     v = Outcome.kUnknownSemantics"

definition outcome_grants_authority :: "Outcome \<Rightarrow> bool" where
  "outcome_grants_authority v \<longleftrightarrow> v = Outcome.kAdmitted \<or> v = Outcome.kIsolatedClass"

definition outcome_requires_replan :: "Outcome \<Rightarrow> bool" where
  "outcome_requires_replan v \<longleftrightarrow>
     v = Outcome.kRequiresReplan \<or> v = Outcome.kDeferred \<or> v = Outcome.kRateLimited"


section \<open>Requests and records\<close>

record DecisionRequest =
  req_session :: SessionId
  req_instance :: CollectiveInstance
  req_observed_topology_generation :: TopologyGeneration
  req_observed_policy_generation :: PolicyGeneration
  req_observed_epoch :: CoordinatorEpoch
  req_observed_capacity_generation :: EvidenceGeneration
  req_observed_congestion_generation :: EvidenceGeneration
  req_has_flow_group_plan :: bool
  req_plan :: FlowGroupPlan
  req_has_requested_class :: bool
  req_requested_class :: TrafficClass
  req_requested_transfer_bytes :: u64

record DecisionRecord =
  rec_instance :: CollectiveInstance
  rec_collective_class :: CollectiveClass
  rec_algorithm_hint :: AlgorithmHint
  rec_outcome :: Outcome
  rec_axis :: AuthorityAxis
  rec_code :: ErrorCode
  rec_flow_group :: FlowGroupId
  rec_flow_group_constructed :: bool
  rec_group :: FlowGroup
  rec_participants :: "ParticipantId list"
  rec_traffic_class :: TrafficClass
  rec_priority :: u64
  rec_isolation :: IsolationMode
  rec_pacing :: PacingIntent
  rec_sync :: SyncSensitivity
  rec_collective_generation :: CollectiveGeneration
  rec_topology_generation :: TopologyGeneration
  rec_policy_generation :: PolicyGeneration
  rec_capacity_generation :: EvidenceGeneration
  rec_congestion_generation :: EvidenceGeneration
  rec_epoch :: CoordinatorEpoch
  rec_congestion_evidence_used :: bool
  rec_capacity_evidence_used :: bool
  rec_all_members_live :: bool
  rec_phase_index :: Sequence
  rec_step_index :: Sequence
  rec_reasons :: ReasonChain
  rec_decided_monotonic_ms :: u64
  rec_decision_sequence :: Sequence

definition DecisionRecord_default :: DecisionRecord where
  "DecisionRecord_default =
     \<lparr>rec_instance = CollectiveInstance_default, rec_collective_class = CollectiveClass.kUnknown,
      rec_algorithm_hint = AlgorithmHint.kUnspecified, rec_outcome = Outcome.kRejectedStale,
      rec_axis = AuthorityAxis.kNone, rec_code = ErrorCode_kOk, rec_flow_group = no_identity,
      rec_flow_group_constructed = False, rec_group = FlowGroup_default, rec_participants = [],
      rec_traffic_class = TrafficClass.kUnclassified, rec_priority = 0,
      rec_isolation = IsolationMode.kShared, rec_pacing = PacingIntent_default,
      rec_sync = SyncSensitivity_default, rec_collective_generation = no_identity,
      rec_topology_generation = no_identity, rec_policy_generation = no_identity,
      rec_capacity_generation = no_identity, rec_congestion_generation = no_identity,
      rec_epoch = no_identity, rec_congestion_evidence_used = False,
      rec_capacity_evidence_used = False, rec_all_members_live = False, rec_phase_index = 0,
      rec_step_index = 0, rec_reasons = [], rec_decided_monotonic_ms = 0, rec_decision_sequence = 0\<rparr>"


section \<open>Fingerprint\<close>

definition flag_word :: "bool \<Rightarrow> u64" where
  "flag_word b = (if b then 1 else 0)"

definition mix_identities :: "u64 \<Rightarrow> Identity list \<Rightarrow> u64" where
  "mix_identities state ids = foldl mix_identity state ids"

definition mix_reason :: "u64 \<Rightarrow> Reason \<Rightarrow> u64" where
  "mix_reason state reason =
     mix (foldl (\<lambda>s c. mix s (of_char c)) state (reason_code reason)) 0x5EED"

definition fingerprint :: "DecisionRecord \<Rightarrow> u64" where
  "fingerprint r =
     (let s0 = 0x452821E638D01377;
          s1 = mix_identities s0
            [inst_id (rec_instance r), inst_generation (rec_instance r), inst_attempt (rec_instance r)];
          s2 = foldl mix s1
            [CollectiveClass_value (rec_collective_class r), AlgorithmHint_value (rec_algorithm_hint r),
             Outcome_value (rec_outcome r), AuthorityAxis_value (rec_axis r), ucast (rec_code r)];
          s3 = mix_identity s2 (rec_flow_group r);
          s4 = foldl mix s3
            [TrafficClass_value (rec_traffic_class r), rec_priority r,
             IsolationMode_value (rec_isolation r)];
          s5 = mix_identities s4
            [rec_collective_generation r, rec_topology_generation r, rec_policy_generation r,
             rec_capacity_generation r, rec_congestion_generation r, rec_epoch r];
          s6 = foldl mix s5
            [PacingMode_value (pi_mode (rec_pacing r)), pi_admitted_bandwidth_bps (rec_pacing r),
             pi_ceiling_bandwidth_bps (rec_pacing r), pi_burst_bytes (rec_pacing r),
             pi_utilization_bps (rec_pacing r), pi_release_after_monotonic_ms (rec_pacing r),
             of_nat (length (rec_participants r))];
          s7 = mix_identities s6 (rec_participants r);
          s8 = foldl mix s7
            [SyncKind_value (sync_kind (rec_sync r)), SyncBasis_value (sync_basis (rec_sync r)),
             ucast (sync_barrier_member_count (rec_sync r)), flag_word (rec_congestion_evidence_used r),
             flag_word (rec_capacity_evidence_used r), flag_word (rec_all_members_live r),
             rec_phase_index r, rec_step_index r, high (group_id (rec_group r)),
             low (group_id (rec_group r)), of_nat (length (group_edges (rec_group r))),
             group_total_logical_bytes (rec_group r)]
      in foldl mix_reason s8 (rec_reasons r))"


section \<open>Renderings\<close>

definition summary :: "DecisionRecord \<Rightarrow> string" where
  "summary r =
     Outcome_to_string (rec_outcome r) @ '' collective='' @ identity_to_string (inst_id (rec_instance r)) @
     '' gen='' @ identity_to_string (inst_generation (rec_instance r)) @
     '' attempt='' @ identity_to_string (inst_attempt (rec_instance r)) @
     '' class='' @ CollectiveClass_to_string (rec_collective_class r) @
     '' traffic='' @ TrafficClass_to_string (rec_traffic_class r) @
     '' axis='' @ AuthorityAxis_to_string (rec_axis r) @ '' code='' @ ErrorCode_to_string (rec_code r)"

definition line :: "string \<Rightarrow> string \<Rightarrow> string" where
  "line label v = CHR 0x0A # label @ v"

definition yes_no :: "bool \<Rightarrow> string" where
  "yes_no b = (if b then ''yes'' else ''no'')"

definition identity_or_none :: "Identity \<Rightarrow> string" where
  "identity_or_none i = (if is_some i then identity_to_string i else ''none'')"

definition explain_reason :: "Reason \<Rightarrow> string" where
  "explain_reason reason =
     line ''  - '' (reason_code reason) @ '': '' @ reason_detail reason @
     (if is_some (reason_subject reason) then '' ['' @ identity_to_string (reason_subject reason) @ '']'' else [])"

definition explain :: "DecisionRecord \<Rightarrow> string" where
  "explain r =
     ''outcome: '' @ Outcome_to_string (rec_outcome r) @
     line ''authority_axis: '' (AuthorityAxis_to_string (rec_axis r)) @
     line ''error_code: '' (ErrorCode_to_string (rec_code r)) @
     line ''collective: '' (identity_to_string (inst_id (rec_instance r))) @
     line ''collective_generation: '' (identity_to_string (inst_generation (rec_instance r))) @
     line ''attempt: '' (identity_to_string (inst_attempt (rec_instance r))) @
     line ''collective_class: '' (CollectiveClass_to_string (rec_collective_class r)) @
     line ''algorithm_hint: '' (AlgorithmHint_to_string (rec_algorithm_hint r)) @
     line ''participants: '' (decimal (of_nat (length (rec_participants r)))) @
     line ''traffic_class: '' (TrafficClass_to_string (rec_traffic_class r)) @
     line ''priority: '' (decimal (rec_priority r)) @
     line ''isolation: '' (IsolationMode_to_string (rec_isolation r)) @
     line ''flow_group: '' (identity_or_none (rec_flow_group r)) @
     line ''edges: '' (decimal (of_nat (length (group_edges (rec_group r))))) @
     line ''total_logical_bytes: '' (decimal (group_total_logical_bytes (rec_group r))) @
     line ''pacing_mode: '' (PacingMode_to_string (pi_mode (rec_pacing r))) @
     line ''admitted_bandwidth_bps: '' (decimal (pi_admitted_bandwidth_bps (rec_pacing r))) @
     line ''ceiling_bandwidth_bps: '' (decimal (pi_ceiling_bandwidth_bps (rec_pacing r))) @
     line ''burst_bytes: '' (decimal (pi_burst_bytes (rec_pacing r))) @
     line ''utilization_bps: '' (decimal (pi_utilization_bps (rec_pacing r))) @
     line ''release_after_monotonic_ms: '' (decimal (pi_release_after_monotonic_ms (rec_pacing r))) @
     line ''sync_kind: '' (SyncKind_to_string (sync_kind (rec_sync r))) @
     line ''sync_basis: '' (SyncBasis_to_string (sync_basis (rec_sync r))) @
     line ''bindings:'' [] @
     line ''  collective_generation='' (identity_to_string (rec_collective_generation r)) @
     line ''  topology_generation='' (identity_to_string (rec_topology_generation r)) @
     line ''  policy_generation='' (identity_to_string (rec_policy_generation r)) @
     line ''  capacity_generation='' (identity_or_none (rec_capacity_generation r)) @
     line ''  congestion_generation='' (identity_or_none (rec_congestion_generation r)) @
     line ''  coordinator_epoch='' (identity_to_string (rec_epoch r)) @
     line ''evidence_used: capacity='' (yes_no (rec_capacity_evidence_used r)) @
     '' congestion='' @ yes_no (rec_congestion_evidence_used r) @
     '' all_members_live='' @ yes_no (rec_all_members_live r) @
     line ''decided_monotonic_ms: '' (decimal (rec_decided_monotonic_ms r)) @
     line ''decision_sequence: '' (decimal (rec_decision_sequence r)) @
     line ''fingerprint: '' (decimal (fingerprint r)) @
     line ''reasons:'' (if rec_reasons r = [] then '' none'' else []) @
     concat (map explain_reason (rec_reasons r)) @ [CHR 0x0A]"


section \<open>Validation of a request\<close>

definition validate_decision_request :: "DecisionRequest \<Rightarrow> Status" where
  "validate_decision_request request =
     (if is_none (inst_id (req_instance request))
      then Status ErrorCode_kValidationGenerationUnset ''request has no collective identity''
      else if is_none (inst_generation (req_instance request))
      then Status ErrorCode_kValidationGenerationUnset ''request has no collective generation''
      else if is_none (inst_attempt (req_instance request))
      then Status ErrorCode_kValidationAttemptUnset ''request has no attempt identity''
      else
        let plan_status =
          (if req_has_flow_group_plan request
           then
             (if inst_id (plan_instance (req_plan request)) \<noteq> inst_id (req_instance request) \<or>
                 inst_generation (plan_instance (req_plan request)) \<noteq> inst_generation (req_instance request) \<or>
                 inst_attempt (plan_instance (req_plan request)) \<noteq> inst_attempt (req_instance request)
              then Status ErrorCode_kEnvelopeIdentityMismatch
                     ''plan instance does not match the request instance''
              else if length (plan_edges (req_plan request)) > kEdgesMaxPerFlowGroup
              then Status ErrorCode_kValidationEdgeCountOutOfRange ''plan exceeds the edge bound''
              else status_ok)
           else status_ok)
        in
        if \<not> is_ok plan_status then plan_status
        else if req_has_requested_class request \<and>
          TrafficClass_value (req_requested_class request) > TrafficClass_value TrafficClass.kProbe
        then Status ErrorCode_kDecodeInvalidEnum ''requested traffic class is not a defined class''
        else status_ok)"


section \<open>Lemmas\<close>

lemma outcome_trichotomy:
  "outcome_grants_authority v \<or> outcome_is_rejection v \<or> outcome_requires_replan v"
  by (cases v) (simp_all add: outcome_grants_authority_def outcome_is_rejection_def outcome_requires_replan_def)

lemma outcome_grants_not_rejection: "outcome_grants_authority v \<Longrightarrow> \<not> outcome_is_rejection v"
  by (auto simp: outcome_grants_authority_def outcome_is_rejection_def)

lemma validate_request_instance:
  assumes "is_ok (validate_decision_request r)"
  shows "is_some (inst_id (req_instance r)) \<and> is_some (inst_generation (req_instance r)) \<and>
    is_some (inst_attempt (req_instance r)) \<and>
    (req_has_flow_group_plan r \<longrightarrow>
       instance_eq (plan_instance (req_plan r)) (req_instance r) \<and>
       length (plan_edges (req_plan r)) \<le> kEdgesMaxPerFlowGroup)"
  using assms
  by (auto simp: validate_decision_request_def Let_def is_some_def instance_eq_def not_less split: if_splits)

end
