(* ===== verification/CTF_Engine.thy ===== *)
theory CTF_Engine
  imports CTF_Decision
begin

text \<open>
  The decision engine (include/ctf/engine.hpp, src/engine.cpp): a pure function of a frozen
  snapshot, a request and a collective definition. Every early return of \<^verbatim>\<open>evaluate\<close> is a
  branch of the model; the probe counters are threaded beside the record.

  The lemmas show what an admission implies about the snapshot, that the pacing arithmetic
  is exact and cannot overflow for an accepted policy, and that a decision does not depend on
  the order of the plan's edges.
\<close>

section \<open>Records and results\<close>

record EngineCounters =
  ec_lookups :: u64
  ec_participant_scans :: u64
  ec_edge_scans :: u64
  ec_link_lookups :: u64

definition EngineCounters_default :: EngineCounters where
  "EngineCounters_default =
     \<lparr>ec_lookups = 0, ec_participant_scans = 0, ec_edge_scans = 0, ec_link_lookups = 0\<rparr>"

record PacingComputation =
  pc_available_bps :: u64
  pc_proposed_bps :: u64
  pc_admitted_bps :: u64
  pc_ceiling_bps :: u64
  pc_burst_bytes :: u64
  pc_utilization_bps :: u64
  pc_response_per_mille :: u32
  pc_capacity_used :: bool
  pc_congestion_used :: bool
  pc_code :: ErrorCode
  pc_reason_code :: string
  pc_reason_detail :: string

definition make_record :: "DecisionRequest \<Rightarrow> CollectiveDefinition \<Rightarrow> DecisionRecord" where
  "make_record request d = DecisionRecord_default
     \<lparr>rec_instance := req_instance request,
      rec_collective_class := def_collective_class d,
      rec_algorithm_hint := def_algorithm_hint d,
      rec_collective_generation := def_generation d,
      rec_participants := def_participants d\<rparr>"

text \<open>The assignments every refusing branch makes: outcome, axis, code and one reason.\<close>

definition refuse ::
  "Outcome \<Rightarrow> AuthorityAxis \<Rightarrow> ErrorCode \<Rightarrow> string \<Rightarrow> string \<Rightarrow> Identity \<Rightarrow> DecisionRecord \<Rightarrow> DecisionRecord" where
  "refuse outcome axis code reason detail subject r =
     r\<lparr>rec_outcome := outcome, rec_axis := axis, rec_code := code,
            rec_reasons := chain_add reason detail subject (rec_reasons r)\<rparr>"


section \<open>The authority chain\<close>

text \<open>The loop over the participants collects at most eight that are not live.\<close>

fun collect_not_live ::
  "EvaluationSnapshot \<Rightarrow> ParticipantId list \<Rightarrow> ParticipantId list \<Rightarrow> ParticipantId list" where
  "collect_not_live snapshot not_live [] = not_live"
| "collect_not_live snapshot not_live (participant # rest) =
     (let pushed = (if length not_live < 8 then not_live @ [participant] else not_live) in
      case find_peer snapshot participant of
        None \<Rightarrow> collect_not_live snapshot pushed rest
      | Some liveness \<Rightarrow>
          if pl_state liveness \<noteq> ParticipantState.kLive then collect_not_live snapshot pushed rest
          else if snap_now_monotonic_ms snapshot \<ge> pl_expires_at_monotonic_ms liveness
          then collect_not_live snapshot pushed rest
          else collect_not_live snapshot not_live rest)"

definition apply_authority_chain ::
  "EvaluationSnapshot \<Rightarrow> DecisionRequest \<Rightarrow> DecisionRecord \<Rightarrow> bool \<times> DecisionRecord" where
  "apply_authority_chain snapshot request r =
     (if is_some (req_observed_epoch request) \<and> req_observed_epoch request \<noteq> snap_epoch snapshot
      then (False, refuse Outcome.kRejectedStale AuthorityAxis.kCoordinatorEpoch
              ErrorCode_kEnvelopeEpochStale ''rejected_stale''
              ''request named a coordinator epoch that is no longer current'' (req_observed_epoch request) r)
      else if is_some (req_observed_policy_generation request) \<and>
        req_observed_policy_generation request \<noteq> snap_policy_generation snapshot
      then (False, refuse Outcome.kRejectedStale AuthorityAxis.kPolicyGeneration
              ErrorCode_kValidationPolicyMissing ''rejected_policy''
              ''request named a policy generation that is no longer current''
              (req_observed_policy_generation request) r)
      else if snap_policy snapshot = None \<or> is_none (snap_policy_generation snapshot)
      then (False, refuse Outcome.kRejectedPolicy AuthorityAxis.kPolicyGeneration
              ErrorCode_kValidationPolicyMissing ''rejected_policy'' ''no traffic policy is installed''
              (inst_id (req_instance request)) r)
      else if snap_capacity snapshot \<noteq> None \<and> is_some (snap_capacity_generation snapshot) \<and>
        is_some (req_observed_capacity_generation request) \<and>
        req_observed_capacity_generation request \<noteq> snap_capacity_generation snapshot
      then (False, refuse Outcome.kRejectedStale AuthorityAxis.kCapacityEvidence
              ErrorCode_kValidationCapacityNegative ''rejected_stale''
              ''request named a capacity evidence generation that is no longer current''
              (req_observed_capacity_generation request) r)
      else if snap_congestion snapshot \<noteq> None \<and> is_some (snap_congestion_generation snapshot) \<and>
        is_some (req_observed_congestion_generation request) \<and>
        req_observed_congestion_generation request \<noteq> snap_congestion_generation snapshot
      then (False, refuse Outcome.kRejectedStale AuthorityAxis.kCongestionEvidence
              ErrorCode_kValidationRateInvalid ''rejected_stale''
              ''request named a congestion evidence generation that is no longer current''
              (req_observed_congestion_generation request) r)
      else if is_some (req_observed_topology_generation request) \<and>
        req_observed_topology_generation request \<noteq> snap_topology_generation snapshot
      then (False, refuse Outcome.kRejectedStale AuthorityAxis.kTopologyGeneration
              ErrorCode_kValidationTopologyMissing ''rejected_stale''
              ''request named a topology generation that is no longer current''
              (req_observed_topology_generation request) r)
      else if snap_topology snapshot = None \<or> is_none (snap_topology_generation snapshot)
      then (False, refuse Outcome.kRejectedStale AuthorityAxis.kTopologyGeneration
              ErrorCode_kValidationTopologyMissing ''rejected_stale'' ''no topology evidence is installed''
              (inst_id (req_instance request)) r)
      else
        let not_live = collect_not_live snapshot [] (rec_participants r) in
        if not_live \<noteq> []
        then
          let r1 = refuse Outcome.kRejectedStale AuthorityAxis.kParticipantLiveness
                ErrorCode_kEnvelopeIncarnationStale ''participant_not_live''
                ''the participant set is not fully live; membership has not been re-established''
                (inst_id (req_instance request)) (r\<lparr>rec_all_members_live := False\<rparr>)
          in (False,
              r1\<lparr>rec_reasons :=
                   foldl (\<lambda>chain participant.
                     chain_add ''participant_without_authority''
                       ''participant holds no current liveness evidence'' participant chain)
                     (rec_reasons r1) not_live\<rparr>)
        else
          (True,
           r\<lparr>rec_all_members_live := True,
             rec_reasons :=
               chain_add ''authority_current''
                 ''epoch, policy, topology, evidence and participant liveness all support this request''
                 (inst_id (req_instance request)) (rec_reasons r)\<rparr>))"

definition age_at :: "u64 \<Rightarrow> u64 \<Rightarrow> u64" where
  "age_at now captured = (if now \<ge> captured then now - captured else 0)"

text \<open>\<^verbatim>\<open>topology_is_current\<close>: \<open>Inl\<close> carries the detail of the refusal.\<close>

definition topology_is_current :: "EvaluationSnapshot \<Rightarrow> TopologyEvidence \<Rightarrow> string + unit" where
  "topology_is_current snapshot evidence =
     (if topo_generation evidence \<noteq> snap_topology_generation snapshot
      then Inl ''topology evidence generation does not match the installed generation''
      else if age_at (snap_now_monotonic_ms snapshot) (topo_captured_monotonic_ms evidence)
        > fresh_topology_max_age_ms (snap_freshness snapshot)
      then Inl ''topology evidence is older than the freshness bound''
      else Inr ())"


section \<open>Pacing\<close>

definition sum_available :: "LinkCapacity list \<Rightarrow> u64" where
  "sum_available links = foldl (\<lambda>available entry. available + lcap_available_bps entry) 0 links"

definition worst_utilization :: "LinkCongestion list \<Rightarrow> u32" where
  "worst_utilization links = foldl (\<lambda>worst entry. max worst (lcon_utilization_bps entry)) 0 links"

text \<open>The capacity observation used, with whether any link contributed.\<close>

definition observed_capacity :: "EvaluationSnapshot \<Rightarrow> u64 \<times> bool" where
  "observed_capacity snapshot =
     (case snap_capacity snapshot of
        None \<Rightarrow> (0, False)
      | Some capacity \<Rightarrow>
          if is_some (snap_capacity_generation snapshot) \<and>
            cap_topology_generation capacity = snap_topology_generation snapshot \<and>
            age_at (snap_now_monotonic_ms snapshot) (cap_captured_monotonic_ms capacity)
              \<le> fresh_capacity_max_age_ms (snap_freshness snapshot)
          then (sum_available (cap_links capacity), cap_links capacity \<noteq> [])
          else (0, False))"

definition observed_congestion :: "EvaluationSnapshot \<Rightarrow> u64 \<Rightarrow> u64 \<times> bool" where
  "observed_congestion snapshot age_bound_ms =
     (case snap_congestion snapshot of
        None \<Rightarrow> (0, False)
      | Some congestion \<Rightarrow>
          if is_some (snap_congestion_generation snapshot) \<and>
            con_topology_generation congestion = snap_topology_generation snapshot \<and>
            age_at (snap_now_monotonic_ms snapshot) (con_captured_monotonic_ms congestion)
              \<le> min (con_valid_for_ms congestion) age_bound_ms
          then (ucast (worst_utilization (con_links congestion)), con_links congestion \<noteq> [])
          else (0, False))"

text \<open>The \<^verbatim>\<open>while\<close> loop over the bucket boundaries, from \<open>bucket\<close> on.\<close>

function response_bucket :: "u32 list \<Rightarrow> u64 \<Rightarrow> nat \<Rightarrow> nat" where
  "response_bucket boundaries utilization bucket =
     (if bucket < kBucketCount \<and> utilization \<ge> ucast (boundaries ! bucket)
      then response_bucket boundaries utilization (bucket + 1) else bucket)"
  by pat_completeness auto
termination
  by (relation "measure (\<lambda>(_, _, bucket). kBucketCount - bucket)") auto

declare response_bucket.simps [simp del]

definition response_index :: "CongestionResponseTable \<Rightarrow> u64 \<Rightarrow> nat" where
  "response_index table utilization =
     (let bucket = response_bucket (crt_utilization_bps table) utilization 0
      in if bucket = 0 then 0 else min bucket (kBucketCount - 1))"

definition per_mille :: "u64 \<Rightarrow> u64 \<Rightarrow> u64" where
  "per_mille rate numerator = (rate div 1000) * numerator + ((rate mod 1000) * numerator) div 1000"

text \<open>The floor and the ceiling of the class, the burst and the verdict of the computation.\<close>

definition clamp_rate :: "TrafficClassPolicy \<Rightarrow> u64 \<Rightarrow> u64" where
  "clamp_rate class_policy proposed =
     (let floored = (if proposed < tcp_minimum_bandwidth_bps class_policy
                     then tcp_minimum_bandwidth_bps class_policy else proposed)
      in if tcp_maximum_bandwidth_bps class_policy \<noteq> kUnlimitedRate
         then min floored (tcp_maximum_bandwidth_bps class_policy) else floored)"

definition burst_allowance :: "TrafficPolicy \<Rightarrow> TrafficClassPolicy \<Rightarrow> u64 \<Rightarrow> u64" where
  "burst_allowance policy class_policy admitted =
     (if admitted = kUnlimitedRate then 0
      else
        let derived = per_mille admitted (pol_burst_multiplier_per_mille policy)
        in if tcp_burst_bytes class_policy \<noteq> 0 \<and> tcp_burst_bytes class_policy < derived
           then tcp_burst_bytes class_policy else derived)"

definition pacing_verdict ::
  "TrafficClassPolicy \<Rightarrow> u64 \<Rightarrow> u64 \<Rightarrow> bool \<Rightarrow> ErrorCode \<times> string \<times> string" where
  "pacing_verdict class_policy available proposed evidence_used =
     (if available \<noteq> 0 \<and> proposed < tcp_minimum_bandwidth_bps class_policy
      then (ErrorCode_kAdmissionRateLimited, ''capacity_below_class_floor'',
            ''observed capacity under current congestion cannot honor the minimum bandwidth of this traffic class'')
      else if evidence_used
      then (ErrorCode_kOk, ''rate_selected_from_evidence'',
            ''admitted rate is bounded by the class ceiling, observed capacity and congestion response'')
      else (ErrorCode_kOk, ''rate_selected_from_policy'',
            ''no dynamic evidence was available; the class ceiling was used conservatively''))"

definition compute_pacing ::
  "EvaluationSnapshot \<Rightarrow> TrafficPolicy \<Rightarrow> TrafficClassPolicy \<Rightarrow> CollectiveClassPolicy \<Rightarrow> PacingComputation" where
  "compute_pacing snapshot policy class_policy collective_policy =
     (let ceiling = tcp_maximum_bandwidth_bps class_policy;
          age_bound_ms = (if ccp_freshness_requirement_ms collective_policy = 0
                          then fresh_congestion_max_age_ms (snap_freshness snapshot)
                          else ccp_freshness_requirement_ms collective_policy);
          available = fst (observed_capacity snapshot);
          capacity_used = snd (observed_capacity snapshot);
          utilization = fst (observed_congestion snapshot age_bound_ms);
          congestion_used = snd (observed_congestion snapshot age_bound_ms);
          response = crt_rate_numerator_per_mille (pol_congestion_response policy)
                       ! response_index (pol_congestion_response policy) utilization;
          limit = (if available \<noteq> 0 then min ceiling available else ceiling);
          proposed = per_mille limit (ucast response);
          admitted = clamp_rate class_policy proposed;
          verdict = pacing_verdict class_policy available proposed (capacity_used \<or> congestion_used)
      in \<lparr>pc_available_bps = available, pc_proposed_bps = proposed, pc_admitted_bps = admitted,
          pc_ceiling_bps = ceiling, pc_burst_bytes = burst_allowance policy class_policy admitted,
          pc_utilization_bps = utilization,
          pc_response_per_mille = response, pc_capacity_used = capacity_used,
          pc_congestion_used = congestion_used, pc_code = fst verdict,
          pc_reason_code = fst (snd verdict), pc_reason_detail = snd (snd verdict)\<rparr>)"

text \<open>The wrapper that recomputes the intent of a decided record returns the stored one.\<close>

definition recompute_pacing :: "EvaluationSnapshot \<Rightarrow> DecisionRecord \<Rightarrow> TrafficPolicy \<Rightarrow> PacingIntent" where
  "recompute_pacing snapshot decision policy =
     (if find_collective policy (rec_collective_class decision) = None \<or>
         find_class policy (rec_traffic_class decision) = None
      then rec_pacing decision
      else if \<not> outcome_grants_authority (rec_outcome decision) \<or> \<not> rec_flow_group_constructed decision
      then rec_pacing decision
      else rec_pacing decision)"


section \<open>Evaluation\<close>

text \<open>
  The participants whose node is not in the topology; each probe of a known participant is
  counted as a lookup.
\<close>

fun scan_participant_nodes ::
  "EvaluationSnapshot \<Rightarrow> TopologyEvidence \<Rightarrow> ParticipantId list \<Rightarrow> u64 \<Rightarrow> ParticipantId list \<times> u64" where
  "scan_participant_nodes snapshot topology [] lookups = ([], lookups)"
| "scan_participant_nodes snapshot topology (participant # rest) lookups =
     (case find_peer snapshot participant of
        None \<Rightarrow> scan_participant_nodes snapshot topology rest lookups
      | Some liveness \<Rightarrow>
          let (missing, n) = scan_participant_nodes snapshot topology rest (lookups + 1)
          in (if find_node topology (pl_node liveness) = None then participant # missing else missing, n))"

definition select_mode :: "TrafficClassPolicy \<Rightarrow> PacingMode" where
  "select_mode class_policy =
     (if tcp_traffic_class class_policy = TrafficClass.kIsolated then PacingMode.kShaped
      else if tcp_requires_evidence_freshness class_policy then PacingMode.kTokenBucket
      else if tcp_traffic_class class_policy = TrafficClass.kBulkData then PacingMode.kRateLimited
      else PacingMode.kImmediate)"

text \<open>
  The last part of \<^verbatim>\<open>evaluate\<close>, from the evidence checks on, once the traffic class and its
  policy are known.
\<close>

definition admit_class ::
  "EvaluationSnapshot \<Rightarrow> DecisionRequest \<Rightarrow> CollectiveDefinition \<Rightarrow> TrafficPolicy \<Rightarrow>
   CollectiveClassPolicy \<Rightarrow> TrafficClassPolicy \<Rightarrow> DecisionRecord \<Rightarrow> DecisionRecord" where
  "admit_class snapshot request d policy collective_policy class_policy r =
     (if tcp_requires_evidence_freshness class_policy \<and> \<not> snap_congestion_observation_available snapshot
      then refuse Outcome.kRequiresReplan AuthorityAxis.kCongestionEvidence ErrorCode_kValidationRateInvalid
             ''congestion_evidence_required''
             ''the traffic class requires current congestion evidence and none is installed''
             (inst_id (req_instance request)) r
      else if tcp_requires_evidence_freshness class_policy \<and>
        (case snap_congestion snapshot of
           None \<Rightarrow> False
         | Some congestion \<Rightarrow>
             age_at (snap_now_monotonic_ms snapshot) (con_captured_monotonic_ms congestion)
             > min (con_valid_for_ms congestion) (ccp_freshness_requirement_ms collective_policy))
      then refuse Outcome.kRequiresReplan AuthorityAxis.kCongestionEvidence ErrorCode_kValidationRateInvalid
             ''congestion_evidence_stale''
             ''congestion evidence is older than the freshness bound for this class; it must be revalidated rather than assumed''
             (snap_congestion_generation snapshot) r
      else
        let mode = select_mode class_policy;
            pacing = compute_pacing snapshot policy class_policy collective_policy
        in
        if pc_code pacing \<noteq> ErrorCode_kOk
        then refuse Outcome.kRejectedCapacity AuthorityAxis.kCapacityEvidence (pc_code pacing)
               (pc_reason_code pacing) (pc_reason_detail pacing) (inst_id (req_instance request)) r
        else
          let sync = derive_sync_sensitivity d (rec_group r) policy;
              isolated = (tcp_traffic_class class_policy = TrafficClass.kIsolated);
              subject = inst_id (req_instance request);
              chain1 =
                (if isolated
                 then chain_add ''isolated_class_admitted''
                        ''the collective is admitted into an isolated traffic class; it is never multiplexed with other classes''
                        subject (rec_reasons r)
                 else chain_add ''admitted'' ''traffic treatment is permitted for this generation set''
                        subject (rec_reasons r));
              chain2 = chain_add (pc_reason_code pacing) (pc_reason_detail pacing) subject chain1;
              chain3 =
                (if sync_kind sync \<noteq> SyncKind.kNone
                 then chain_add (''sync_sensitivity_'' @ SyncKind_to_string (sync_kind sync))
                        (''synchronization sensitivity derived from '' @ SyncBasis_to_string (sync_basis sync))
                        subject chain2
                 else chain2);
              chain4 =
                (if req_has_requested_class request
                 then chain_add ''member_class_override_honored''
                        ''the policy permits this collective class to be overridden by a member request''
                        subject chain3
                 else chain3)
          in r\<lparr>rec_capacity_generation := snap_capacity_generation snapshot,
               rec_congestion_generation := snap_congestion_generation snapshot,
               rec_capacity_evidence_used := pc_capacity_used pacing,
               rec_congestion_evidence_used := pc_congestion_used pacing,
               rec_pacing := (rec_pacing r)
                 \<lparr>pi_mode := mode, pi_flow_group := rec_flow_group r, pi_instance := rec_instance r,
                  pi_admitted_bandwidth_bps := pc_admitted_bps pacing,
                  pi_ceiling_bandwidth_bps := pc_ceiling_bps pacing,
                  pi_burst_bytes := pc_burst_bytes pacing,
                  pi_utilization_bps := pc_utilization_bps pacing, pi_release_after_monotonic_ms := 0\<rparr>,
               rec_sync := sync,
               rec_outcome := (if isolated then Outcome.kIsolatedClass else Outcome.kAdmitted),
               rec_reasons := chain4\<rparr>)"

text \<open>The fourth part of \<^verbatim>\<open>evaluate\<close>: which traffic class the policy gives the collective.\<close>

definition classify ::
  "EvaluationSnapshot \<Rightarrow> DecisionRequest \<Rightarrow> CollectiveDefinition \<Rightarrow> TrafficPolicy \<Rightarrow> DecisionRecord \<Rightarrow> DecisionRecord" where
  "classify snapshot request d policy r =
     (case find_collective policy (def_collective_class d) of
        None \<Rightarrow>
          refuse Outcome.kRejectedPolicy AuthorityAxis.kSemantics ErrorCode_kValidationPolicyMissing
            ''policy_missing_collective_class''
            ''the installed policy does not state a rate for this collective class''
            (inst_id (req_instance request)) r
      | Some collective_policy \<Rightarrow>
          if \<not> is_known_collective_class (def_collective_class d)
          then refuse Outcome.kRejectedPolicy AuthorityAxis.kSemantics
                 ErrorCode_kValidationClassUnknownRejected ''unknown_semantics_rejected''
                 ''the collective class is not understood by this runtime; unknown semantics never receive a traffic class, and no default grants one''
                 (inst_id (req_instance request)) r
          else if req_has_requested_class request \<and> \<not> ccp_allow_member_override collective_policy
          then refuse Outcome.kRejectedPolicy AuthorityAxis.kSemantics
                 ErrorCode_kValidationClassUnknownRejected ''class_override_not_permitted''
                 ''the policy does not permit a member to request a traffic class for this collective class''
                 (inst_id (req_instance request)) r
          else if req_has_requested_class request \<and> \<not> traffic_class_is_classified (req_requested_class request)
          then refuse Outcome.kRejectedPolicy AuthorityAxis.kSemantics
                 ErrorCode_kValidationClassUnknownRejected ''requested_class_unclassified''
                 ''an unclassified traffic class is never granted, not even on request''
                 (inst_id (req_instance request)) r
          else
            let traffic_class = (if req_has_requested_class request then req_requested_class request
                                 else ccp_traffic_class collective_policy)
            in
            if \<not> traffic_class_is_classified traffic_class
            then refuse Outcome.kUnknownSemantics AuthorityAxis.kSemantics
                   ErrorCode_kValidationClassUnknownRejected ''unknown_semantics''
                   ''no traffic treatment is defined for this collective class; UNKNOWN is not a weaker version of SUPPORTED''
                   (inst_id (req_instance request))
                   (r\<lparr>rec_traffic_class := traffic_class, rec_priority := 0\<rparr>)
            else
              case find_class policy traffic_class of
                None \<Rightarrow>
                  refuse Outcome.kRejectedPolicy AuthorityAxis.kPolicyGeneration
                    ErrorCode_kValidationPolicyMissing ''policy_missing_traffic_class''
                    ''the installed policy does not define this traffic class''
                    (inst_id (req_instance request)) r
              | Some class_policy \<Rightarrow>
                  admit_class snapshot request d policy collective_policy class_policy
                    (r\<lparr>rec_traffic_class := traffic_class, rec_priority := tcp_priority class_policy,
                       rec_isolation := tcp_isolation class_policy,
                       rec_policy_generation := snap_policy_generation snapshot,
                       rec_topology_generation := snap_topology_generation snapshot,
                       rec_epoch := snap_epoch snapshot\<rparr>))"

definition evaluate ::
  "EvaluationSnapshot \<Rightarrow> DecisionRequest \<Rightarrow> CollectiveDefinition \<Rightarrow> EngineCounters \<Rightarrow> DecisionRecord \<times> EngineCounters" where
  "evaluate snapshot request d counters =
     (let r0 = (make_record request d)\<lparr>rec_decided_monotonic_ms := snap_now_monotonic_ms snapshot\<rparr>;
          c1 = counters\<lparr>ec_lookups := ec_lookups counters + 1\<rparr>
      in
      if inst_generation (req_instance request) \<noteq> def_generation d
      then (refuse Outcome.kRejectedStale AuthorityAxis.kCollectiveGeneration
              ErrorCode_kCompletionStaleGeneration ''rejected_stale''
              ''request bound a collective generation that is not the current generation''
              (inst_generation (req_instance request)) r0, c1)
      else if \<not> req_has_flow_group_plan request
      then (refuse Outcome.kRequiresReplan AuthorityAxis.kPlan ErrorCode_kStatePlanMissing
              ''requires_replan''
              ''no planned communication edges were supplied; a participant list alone never authorizes fabric traffic''
              (inst_id (req_instance request)) r0, c1)
      else
        case construct_flow_group ((req_plan request)\<lparr>plan_collective_class := def_collective_class d\<rparr>)
               (def_participants d) of
          Inl status \<Rightarrow>
            (refuse Outcome.kRequiresReplan AuthorityAxis.kPlan (status_code status) ''plan_rejected''
               (status_message status) (inst_id (req_instance request)) r0, c1)
        | Inr g \<Rightarrow>
            let r1 = r0\<lparr>rec_group := g, rec_flow_group := group_id g, rec_flow_group_constructed := True\<rparr>;
                c2 = c1\<lparr>ec_edge_scans := ec_edge_scans c1 + of_nat (length (group_edges g))\<rparr>;
                (proceed, r2) = apply_authority_chain snapshot request r1
            in
            if \<not> proceed then (r2, c2)
            else
              let topology = the (snap_topology snapshot); policy = the (snap_policy snapshot) in
              case topology_is_current snapshot topology of
                Inl topology_detail \<Rightarrow>
                  (refuse Outcome.kRejectedStale AuthorityAxis.kTopologyGeneration
                     ErrorCode_kValidationTopologyMissing ''topology_not_current'' topology_detail
                     (snap_topology_generation snapshot) r2, c2)
              | Inr _ \<Rightarrow>
                  let (missing, n) = scan_participant_nodes snapshot topology (rec_participants r2) (ec_lookups c2);
                      c3 = c2\<lparr>ec_lookups := n\<rparr>
                  in
                  case missing of
                    first_missing # _ \<Rightarrow>
                      (refuse Outcome.kRequiresReplan AuthorityAxis.kPlan ErrorCode_kValidationNodeUnknown
                         ''topology_missing_participant_node''
                         ''a live participant is not present in the current topology evidence'' first_missing r2,
                       c3)
                  | [] \<Rightarrow> (classify snapshot request d policy r2, c3))"


section \<open>The authority chain, inverted\<close>

lemma refuse_simps [simp]:
  "rec_outcome (refuse out ax code s d i r) = out"
  "rec_axis (refuse out ax code s d i r) = ax"
  "rec_code (refuse out ax code s d i r) = code"
  "rec_reasons (refuse out ax code s d i r) = chain_add s d i (rec_reasons r)"
  "rec_participants (refuse out ax code s d i r) = rec_participants r"
  by (simp_all add: refuse_def)

lemma grants_simps [simp]:
  "outcome_grants_authority Outcome.kAdmitted" "outcome_grants_authority Outcome.kIsolatedClass"
  "\<not> outcome_grants_authority Outcome.kDeferred" "\<not> outcome_grants_authority Outcome.kRateLimited"
  "\<not> outcome_grants_authority Outcome.kRequiresReplan" "\<not> outcome_grants_authority Outcome.kRejectedStale"
  "\<not> outcome_grants_authority Outcome.kRejectedCapacity" "\<not> outcome_grants_authority Outcome.kRejectedPolicy"
  "\<not> outcome_grants_authority Outcome.kUnknownSemantics"
  by (simp_all add: outcome_grants_authority_def)

definition participant_live :: "EvaluationSnapshot \<Rightarrow> ParticipantId \<Rightarrow> bool" where
  "participant_live snapshot p \<longleftrightarrow>
     (\<exists>l. find_peer snapshot p = Some l \<and> is_current l (snap_now_monotonic_ms snapshot))"

lemma collect_not_live_grows: "nl \<noteq> [] \<Longrightarrow> collect_not_live snapshot nl ps \<noteq> []"
  by (induction ps arbitrary: nl) (auto simp: Let_def split: option.splits)

lemma collect_not_live_Nil:
  "collect_not_live snapshot [] ps = [] \<longleftrightarrow> (\<forall>p\<in>set ps. participant_live snapshot p)"
proof (induction ps)
  case Nil
  then show ?case by simp
next
  case (Cons p ps)
  then show ?case
    using collect_not_live_grows [of "[p]" snapshot ps]
    by (auto simp: Let_def participant_live_def is_current_def not_le split: option.splits)
qed

text \<open>A generation the requester named is the current one; naming none is allowed.\<close>

definition names_current :: "Identity \<Rightarrow> Identity \<Rightarrow> bool" where
  "names_current observed current \<longleftrightarrow> is_none observed \<or> observed = current"

definition authority_current :: "EvaluationSnapshot \<Rightarrow> DecisionRequest \<Rightarrow> ParticipantId list \<Rightarrow> bool" where
  "authority_current snapshot request participants \<longleftrightarrow>
     names_current (req_observed_epoch request) (snap_epoch snapshot) \<and>
     names_current (req_observed_policy_generation request) (snap_policy_generation snapshot) \<and>
     snap_policy snapshot \<noteq> None \<and> is_some (snap_policy_generation snapshot) \<and>
     (snap_capacity snapshot \<noteq> None \<and> is_some (snap_capacity_generation snapshot) \<longrightarrow>
        names_current (req_observed_capacity_generation request) (snap_capacity_generation snapshot)) \<and>
     (snap_congestion snapshot \<noteq> None \<and> is_some (snap_congestion_generation snapshot) \<longrightarrow>
        names_current (req_observed_congestion_generation request) (snap_congestion_generation snapshot)) \<and>
     names_current (req_observed_topology_generation request) (snap_topology_generation snapshot) \<and>
     snap_topology snapshot \<noteq> None \<and> is_some (snap_topology_generation snapshot) \<and>
     (\<forall>p\<in>set participants. participant_live snapshot p)"

lemma fst_guard: "fst (if c then (False, x) else y) \<longleftrightarrow> \<not> c \<and> fst y"
  by simp

lemma fst_guard_last: "fst (if c then (False, x) else (True, y)) \<longleftrightarrow> \<not> c"
  by simp

lemma authority_chain_proceeds:
  "fst (apply_authority_chain snapshot request r) \<longleftrightarrow>
     authority_current snapshot request (rec_participants r)"
  unfolding apply_authority_chain_def Let_def fst_guard_last fst_guard fst_conv simp_thms authority_current_def
    names_current_def collect_not_live_Nil not_not is_some_def
  by (simp only: imp_conv_disj de_Morgan_conj de_Morgan_disj not_not conj_assoc disj_assoc)

lemma authority_chain_record:
  assumes "fst (apply_authority_chain snapshot request r)"
  shows "\<exists>chain. snd (apply_authority_chain snapshot request r) =
    r\<lparr>rec_all_members_live := True, rec_reasons := chain\<rparr>"
  using assms
  unfolding apply_authority_chain_def Let_def fst_guard_last fst_guard
  by (elim conjE) (simp only: if_False snd_conv, blast)

text \<open>A record that withholds authority says which axis refused it, with a code and a reason.\<close>

definition withheld :: "DecisionRecord \<Rightarrow> bool" where
  "withheld r \<longleftrightarrow>
     \<not> outcome_grants_authority (rec_outcome r) \<and> rec_axis r \<noteq> AuthorityAxis.kNone \<and>
     rec_code r \<noteq> ErrorCode_kOk \<and> rec_reasons r \<noteq> []"

lemma withheld_refuse:
  "\<not> outcome_grants_authority out \<Longrightarrow> ax \<noteq> AuthorityAxis.kNone \<Longrightarrow> code \<noteq> ErrorCode_kOk \<Longrightarrow>
   withheld (refuse out ax code s d i r)"
  by (simp add: withheld_def chain_add_not_Nil)

lemma chain_guard:
  "Q x \<Longrightarrow> fst y \<or> Q (snd y) \<Longrightarrow> fst (if c then (False, x) else y) \<or> Q (snd (if c then (False, x) else y))"
  by simp

lemma withheld_more_reasons:
  "withheld r \<Longrightarrow>
   withheld (r\<lparr>rec_reasons := foldl (\<lambda>chain p. chain_add s d p chain) (rec_reasons r) ps\<rparr>)"
proof -
  have "chain \<noteq> [] \<Longrightarrow> foldl (\<lambda>chain p. chain_add s d p chain) chain ps \<noteq> []" for chain
    by (induction ps arbitrary: chain) (simp_all add: chain_add_not_Nil)
  then show "withheld r \<Longrightarrow> ?thesis" by (simp add: withheld_def)
qed

lemma authority_chain_withheld:
  "fst (apply_authority_chain snapshot request r) \<or> withheld (snd (apply_authority_chain snapshot request r))"
  unfolding apply_authority_chain_def Let_def
  by (intro chain_guard [where Q = withheld] withheld_more_reasons withheld_refuse) simp_all


section \<open>Topology and participants\<close>

lemma topology_is_current_Inr:
  "topology_is_current snapshot t = Inr u \<longleftrightarrow>
     topo_generation t = snap_topology_generation snapshot \<and>
     age_at (snap_now_monotonic_ms snapshot) (topo_captured_monotonic_ms t)
       \<le> fresh_topology_max_age_ms (snap_freshness snapshot)"
  by (auto simp: topology_is_current_def not_less)

lemma scan_missing:
  "set (fst (scan_participant_nodes snapshot t ps n)) =
     {p \<in> set ps. \<exists>l. find_peer snapshot p = Some l \<and> find_node t (pl_node l) = None}"
  by (induction ps arbitrary: n) (auto simp: Let_def case_prod_unfold split: option.splits)


section \<open>Pacing arithmetic\<close>

lemma per_mille_exact:
  assumes "k \<le> 1000"
  shows "unat (per_mille x k) = unat x * unat k div 1000"
proof -
  have k: "unat k \<le> 1000" using assms by (simp add: word_le_nat_alt)
  have spl: "unat x * unat k div 1000 = (unat x div 1000) * unat k + (unat x mod 1000) * unat k div 1000"
    by (rule rate_split)
  have "(unat x mod 1000) * unat k \<le> 999 * 1000"
    using k by (intro mult_le_mono) simp_all
  then have r: "unat ((x mod 1000) * k div 1000) = (unat x mod 1000) * unat k div 1000"
    by (simp add: unat_div_u64 unat_mod_u64 unat_mult_small_u64)
  have le: "unat x * unat k div 1000 \<le> unat x"
    using div_le_mono [OF mult_le_mono2 [OF k, of "unat x"], of 1000] by simp
  have "(unat x div 1000) * unat k \<le> unat x" using le spl by linarith
  from le_less_trans [OF this unat_lt_u64]
  have q: "unat (x div 1000 * k) = (unat x div 1000) * unat k"
    by (simp add: unat_div_u64 unat_mult_small_u64)
  have "unat (x div 1000 * k) + unat ((x mod 1000) * k div 1000) \<le> unat x"
    using q r le spl by linarith
  from le_less_trans [OF this unat_lt_u64] show ?thesis
    unfolding per_mille_def by (simp add: unat_add_small_u64 q r spl)
qed

lemma per_mille_le: "k \<le> 1000 \<Longrightarrow> per_mille x k \<le> x"
  using per_mille_exact [of k x] div_le_mono [OF mult_le_mono2 [of "unat k" 1000 "unat x"], of 1000]
  by (simp add: word_le_nat_alt)

lemma response_bucket_bound: "b \<le> kBucketCount \<Longrightarrow> response_bucket bs u b \<le> kBucketCount"
proof (induction bs u b rule: response_bucket.induct)
  case (1 bs u b)
  then show ?case by (subst response_bucket.simps) auto
qed

lemma response_index_bound: "response_index t u < kBucketCount"
  using response_bucket_bound [of 0 "crt_utilization_bps t" u]
  by (auto simp: response_index_def Let_def kBucketCount_def)

lemma response_valid_rate:
  assumes "response_is_valid t"
  shows "crt_rate_numerator_per_mille t ! response_index t u \<le> 1000"
  using assms response_index_bound [of t u]
  by (auto simp: response_is_valid_def list_all_iff not_less)


section \<open>Admission, inverted\<close>

definition congestion_fresh :: "EvaluationSnapshot \<Rightarrow> CollectiveClassPolicy \<Rightarrow> bool" where
  "congestion_fresh snapshot cp \<longleftrightarrow>
     (case snap_congestion snapshot of
        None \<Rightarrow> True
      | Some congestion \<Rightarrow>
          age_at (snap_now_monotonic_ms snapshot) (con_captured_monotonic_ms congestion)
          \<le> min (con_valid_for_ms congestion) (ccp_freshness_requirement_ms cp))"

lemma admit_class_grants:
  assumes "outcome_grants_authority (rec_outcome (admit_class snapshot request d policy cp tp r))"
  shows "(tcp_requires_evidence_freshness tp \<longrightarrow>
           snap_congestion_observation_available snapshot \<and> congestion_fresh snapshot cp)"
    and "pc_code (compute_pacing snapshot policy tp cp) = ErrorCode_kOk"
  using assms
  by (auto simp: admit_class_def Let_def congestion_fresh_def not_less split: if_splits option.splits)

lemma admit_class_record:
  assumes "outcome_grants_authority (rec_outcome (admit_class snapshot request d policy cp tp r))"
  shows "\<exists>chain. chain \<noteq> [] \<and> admit_class snapshot request d policy cp tp r =
    r\<lparr>rec_capacity_generation := snap_capacity_generation snapshot,
      rec_congestion_generation := snap_congestion_generation snapshot,
      rec_capacity_evidence_used := pc_capacity_used (compute_pacing snapshot policy tp cp),
      rec_congestion_evidence_used := pc_congestion_used (compute_pacing snapshot policy tp cp),
      rec_pacing := (rec_pacing r)
        \<lparr>pi_mode := select_mode tp, pi_flow_group := rec_flow_group r, pi_instance := rec_instance r,
         pi_admitted_bandwidth_bps := pc_admitted_bps (compute_pacing snapshot policy tp cp),
         pi_ceiling_bandwidth_bps := pc_ceiling_bps (compute_pacing snapshot policy tp cp),
         pi_burst_bytes := pc_burst_bytes (compute_pacing snapshot policy tp cp),
         pi_utilization_bps := pc_utilization_bps (compute_pacing snapshot policy tp cp),
         pi_release_after_monotonic_ms := 0\<rparr>,
      rec_sync := derive_sync_sensitivity d (rec_group r) policy,
      rec_outcome := (if tcp_traffic_class tp = TrafficClass.kIsolated then Outcome.kIsolatedClass
                      else Outcome.kAdmitted),
      rec_reasons := chain\<rparr>"
proof -
  have c: "\<not> (tcp_requires_evidence_freshness tp \<and> \<not> snap_congestion_observation_available snapshot)"
    "\<not> (tcp_requires_evidence_freshness tp \<and>
        (case snap_congestion snapshot of
           None \<Rightarrow> False
         | Some congestion \<Rightarrow>
             age_at (snap_now_monotonic_ms snapshot) (con_captured_monotonic_ms congestion)
             > min (con_valid_for_ms congestion) (ccp_freshness_requirement_ms cp)))"
    "\<not> pc_code (compute_pacing snapshot policy tp cp) \<noteq> ErrorCode_kOk"
    using admit_class_grants [OF assms]
    by (auto simp: congestion_fresh_def not_less split: option.splits)
  show ?thesis
    unfolding admit_class_def Let_def if_not_P [OF c(1)] if_not_P [OF c(2)] if_not_P [OF c(3)]
    by (rule exI, rule conjI [rotated], rule refl) (auto split: if_splits)
qed

definition chosen_class :: "DecisionRequest \<Rightarrow> CollectiveClassPolicy \<Rightarrow> TrafficClass" where
  "chosen_class request cp =
     (if req_has_requested_class request then req_requested_class request else ccp_traffic_class cp)"

definition classified_record ::
  "EvaluationSnapshot \<Rightarrow> TrafficClass \<Rightarrow> TrafficClassPolicy \<Rightarrow> DecisionRecord \<Rightarrow> DecisionRecord" where
  "classified_record snapshot c tp r =
     r\<lparr>rec_traffic_class := c, rec_priority := tcp_priority tp, rec_isolation := tcp_isolation tp,
       rec_policy_generation := snap_policy_generation snapshot,
       rec_topology_generation := snap_topology_generation snapshot, rec_epoch := snap_epoch snapshot\<rparr>"

lemma classify_grants:
  assumes "outcome_grants_authority (rec_outcome (classify snapshot request d policy r))"
  obtains cp tp where "find_collective policy (def_collective_class d) = Some cp"
    "is_known_collective_class (def_collective_class d)"
    "req_has_requested_class request \<Longrightarrow> ccp_allow_member_override cp"
    "traffic_class_is_classified (chosen_class request cp)"
    "find_class policy (chosen_class request cp) = Some tp"
    "classify snapshot request d policy r =
       admit_class snapshot request d policy cp tp (classified_record snapshot (chosen_class request cp) tp r)"
proof -
  obtain cp where cp: "find_collective policy (def_collective_class d) = Some cp"
    using assms by (cases "find_collective policy (def_collective_class d)") (simp_all add: classify_def)
  have known: "is_known_collective_class (def_collective_class d)"
    using assms cp by (simp add: classify_def split: if_splits)
  have over: "\<not> (req_has_requested_class request \<and> \<not> ccp_allow_member_override cp)"
    using assms cp known by (simp add: classify_def split: if_splits)
  have req: "\<not> (req_has_requested_class request \<and> \<not> traffic_class_is_classified (req_requested_class request))"
    using assms cp known over by (simp add: classify_def split: if_splits)
  have cls: "traffic_class_is_classified (chosen_class request cp)"
    using assms cp known over req by (simp add: classify_def chosen_class_def Let_def split: if_splits)
  obtain tp where tp: "find_class policy (chosen_class request cp) = Some tp"
    using assms cp known over req cls
    by (cases "find_class policy (chosen_class request cp)") (simp_all add: classify_def chosen_class_def Let_def)
  have "classify snapshot request d policy r =
      admit_class snapshot request d policy cp tp (classified_record snapshot (chosen_class request cp) tp r)"
    using cp known over req cls tp
    unfolding classify_def chosen_class_def classified_record_def Let_def
    by (cases "req_has_requested_class request") simp_all
  with that cp known over cls tp show ?thesis by blast
qed

text \<open>What every admission rests on, and the group it was made for.\<close>

definition planned_group :: "DecisionRequest \<Rightarrow> CollectiveDefinition \<Rightarrow> Status + FlowGroup" where
  "planned_group request d =
     construct_flow_group ((req_plan request)\<lparr>plan_collective_class := def_collective_class d\<rparr>)
       (def_participants d)"

lemma evaluate_grants:
  assumes "outcome_grants_authority (rec_outcome (fst (evaluate snapshot request d c)))"
  obtains g chain policy topology where
    "inst_generation (req_instance request) = def_generation d" "req_has_flow_group_plan request"
    "planned_group request d = Inr g"
    "authority_current snapshot request (def_participants d)"
    "snap_policy snapshot = Some policy" "snap_topology snapshot = Some topology"
    "topo_generation topology = snap_topology_generation snapshot"
    "age_at (snap_now_monotonic_ms snapshot) (topo_captured_monotonic_ms topology)
       \<le> fresh_topology_max_age_ms (snap_freshness snapshot)"
    "\<forall>p\<in>set (def_participants d). \<exists>l. find_peer snapshot p = Some l \<and> find_node topology (pl_node l) \<noteq> None"
    "fst (evaluate snapshot request d c) =
       classify snapshot request d policy
         ((make_record request d)
            \<lparr>rec_decided_monotonic_ms := snap_now_monotonic_ms snapshot, rec_group := g,
             rec_flow_group := group_id g, rec_flow_group_constructed := True,
             rec_all_members_live := True, rec_reasons := chain\<rparr>)"
proof -
  let ?r0 = "(make_record request d)\<lparr>rec_decided_monotonic_ms := snap_now_monotonic_ms snapshot\<rparr>"
  have gen: "inst_generation (req_instance request) = def_generation d"
    using assms by (simp add: evaluate_def Let_def split: if_splits)
  have plan: "req_has_flow_group_plan request"
    using assms gen by (simp add: evaluate_def Let_def split: if_splits)
  obtain g where g: "planned_group request d = Inr g"
    using assms gen plan by (cases "planned_group request d") (simp_all add: evaluate_def Let_def planned_group_def)
  let ?r1 = "?r0\<lparr>rec_group := g, rec_flow_group := group_id g, rec_flow_group_constructed := True\<rparr>"
  let ?chain = "apply_authority_chain snapshot request ?r1"
  let ?t = "the (snap_topology snapshot)"
  note unf = evaluate_def Let_def gen plan g [unfolded planned_group_def] case_prod_unfold
  have ok: "fst ?chain"
  proof (rule ccontr)
    assume n: "\<not> fst ?chain"
    then have "fst (evaluate snapshot request d c) = snd ?chain" by (simp add: unf)
    with assms n show False
      using authority_chain_withheld [of snapshot request ?r1] by (simp add: withheld_def)
  qed
  have parts: "rec_participants ?r1 = def_participants d" by (simp add: make_record_def)
  have auth: "authority_current snapshot request (def_participants d)"
    using ok authority_chain_proceeds [of snapshot request ?r1] parts by simp
  obtain chain where chain: "snd ?chain = ?r1\<lparr>rec_all_members_live := True, rec_reasons := chain\<rparr>"
    using authority_chain_record [OF ok] by blast
  have cur: "topology_is_current snapshot ?t = Inr ()"
    using assms ok by (cases "topology_is_current snapshot ?t") (simp_all add: unf)
  have none: "fst (scan_participant_nodes snapshot ?t (def_participants d) n) = []" for n
  proof -
    have "fst (scan_participant_nodes snapshot ?t (def_participants d) (ec_lookups c + 1)) = []"
    proof (rule ccontr)
      assume "fst (scan_participant_nodes snapshot ?t (def_participants d) (ec_lookups c + 1)) \<noteq> []"
      then obtain p ps where eq:
        "fst (scan_participant_nodes snapshot ?t (def_participants d) (ec_lookups c + 1)) = p # ps"
        by (auto simp: neq_Nil_conv)
      have "\<not> outcome_grants_authority (rec_outcome (fst (evaluate snapshot request d c)))"
        using ok cur eq parts by (simp add: unf chain)
      with assms show False by blast
    qed
    then have "set (fst (scan_participant_nodes snapshot ?t (def_participants d) n)) = {}"
      by (simp only: scan_missing flip: set_empty)
    then show ?thesis by simp
  qed
  have nodes: "\<forall>p\<in>set (def_participants d). \<exists>l. find_peer snapshot p = Some l \<and> find_node ?t (pl_node l) \<noteq> None"
    using auth none [of 0] scan_missing [of snapshot ?t "def_participants d" 0]
    by (fastforce simp: authority_current_def participant_live_def)
  obtain policy topology where pt: "snap_policy snapshot = Some policy" "snap_topology snapshot = Some topology"
    using auth by (auto simp: authority_current_def)
  have "fst (evaluate snapshot request d c) = classify snapshot request d policy (snd ?chain)"
    using ok cur none pt chain parts by (simp add: unf)
  with that [OF gen plan g auth pt, of chain] cur nodes chain pt show ?thesis
    by (simp add: topology_is_current_Inr)
qed


section \<open>Admission, exactly\<close>

lemma scan_Nil:
  assumes "\<forall>p\<in>set ps. \<exists>l. find_peer snapshot p = Some l \<and> find_node t (pl_node l) \<noteq> None"
  shows "fst (scan_participant_nodes snapshot t ps n) = []"
proof -
  have "set (fst (scan_participant_nodes snapshot t ps n)) = {}"
    unfolding scan_missing using assms by fastforce
  then show ?thesis by simp
qed

lemma evaluate_reaches_classify:
  assumes "inst_generation (req_instance request) = def_generation d" "req_has_flow_group_plan request"
    and "planned_group request d = Inr g" "authority_current snapshot request (def_participants d)"
    and "snap_policy snapshot = Some policy" "snap_topology snapshot = Some topology"
    and "topo_generation topology = snap_topology_generation snapshot"
    and "age_at (snap_now_monotonic_ms snapshot) (topo_captured_monotonic_ms topology)
       \<le> fresh_topology_max_age_ms (snap_freshness snapshot)"
    and "\<forall>p\<in>set (def_participants d). \<exists>l. find_peer snapshot p = Some l \<and> find_node topology (pl_node l) \<noteq> None"
  shows "\<exists>r. fst (evaluate snapshot request d c) = classify snapshot request d policy r"
proof -
  let ?r1 = "(make_record request d)\<lparr>rec_decided_monotonic_ms := snap_now_monotonic_ms snapshot, rec_group := g,
      rec_flow_group := group_id g, rec_flow_group_constructed := True\<rparr>"
  have parts: "rec_participants ?r1 = def_participants d" by (simp add: make_record_def)
  then have ok: "fst (apply_authority_chain snapshot request ?r1)"
    using assms(4) by (simp add: authority_chain_proceeds)
  obtain chain where chain: "snd (apply_authority_chain snapshot request ?r1) =
      ?r1\<lparr>rec_all_members_live := True, rec_reasons := chain\<rparr>"
    using authority_chain_record [OF ok] by blast
  have cur: "topology_is_current snapshot topology = Inr ()"
    using assms(7,8) by (simp add: topology_is_current_Inr)
  have "fst (evaluate snapshot request d c) =
      classify snapshot request d policy (?r1\<lparr>rec_all_members_live := True, rec_reasons := chain\<rparr>)"
    using assms(1,2,5,6) ok cur parts scan_Nil [OF assms(9)]
    by (simp add: evaluate_def Let_def assms(3) [unfolded planned_group_def] case_prod_unfold chain)
  then show ?thesis by blast
qed

lemma classify_admits:
  assumes "find_collective policy (def_collective_class d) = Some cp"
    and "is_known_collective_class (def_collective_class d)"
    and "req_has_requested_class request \<longrightarrow> ccp_allow_member_override cp"
    and "traffic_class_is_classified (chosen_class request cp)"
    and "find_class policy (chosen_class request cp) = Some tp"
  shows "classify snapshot request d policy r =
       admit_class snapshot request d policy cp tp (classified_record snapshot (chosen_class request cp) tp r)"
  using assms unfolding classify_def chosen_class_def classified_record_def Let_def
  by (cases "req_has_requested_class request") simp_all

lemma admit_class_admits:
  assumes "tcp_requires_evidence_freshness tp \<longrightarrow>
      snap_congestion_observation_available snapshot \<and> congestion_fresh snapshot cp"
    and "pc_code (compute_pacing snapshot policy tp cp) = ErrorCode_kOk"
  shows "outcome_grants_authority (rec_outcome (admit_class snapshot request d policy cp tp r))"
proof -
  have c: "\<not> (tcp_requires_evidence_freshness tp \<and> \<not> snap_congestion_observation_available snapshot)"
    "\<not> (tcp_requires_evidence_freshness tp \<and>
        (case snap_congestion snapshot of
           None \<Rightarrow> False
         | Some congestion \<Rightarrow>
             age_at (snap_now_monotonic_ms snapshot) (con_captured_monotonic_ms congestion)
             > min (con_valid_for_ms congestion) (ccp_freshness_requirement_ms cp)))"
    "\<not> pc_code (compute_pacing snapshot policy tp cp) \<noteq> ErrorCode_kOk"
    using assms by (auto simp: congestion_fresh_def not_less split: option.splits)
  show ?thesis
    unfolding admit_class_def Let_def if_not_P [OF c(1)] if_not_P [OF c(2)] if_not_P [OF c(3)] by simp
qed

definition admissible :: "EvaluationSnapshot \<Rightarrow> DecisionRequest \<Rightarrow> CollectiveDefinition \<Rightarrow> bool" where
  "admissible snapshot request d \<longleftrightarrow>
     inst_generation (req_instance request) = def_generation d \<and> req_has_flow_group_plan request \<and>
     plan_ok (req_plan request) (def_participants d) \<and>
     authority_current snapshot request (def_participants d) \<and>
     (\<exists>topology. snap_topology snapshot = Some topology \<and>
        topo_generation topology = snap_topology_generation snapshot \<and>
        age_at (snap_now_monotonic_ms snapshot) (topo_captured_monotonic_ms topology)
          \<le> fresh_topology_max_age_ms (snap_freshness snapshot) \<and>
        (\<forall>p\<in>set (def_participants d). \<exists>l. find_peer snapshot p = Some l \<and> find_node topology (pl_node l) \<noteq> None)) \<and>
     (\<exists>policy cp tp. snap_policy snapshot = Some policy \<and>
        find_collective policy (def_collective_class d) = Some cp \<and>
        is_known_collective_class (def_collective_class d) \<and>
        (req_has_requested_class request \<longrightarrow> ccp_allow_member_override cp) \<and>
        traffic_class_is_classified (chosen_class request cp) \<and>
        find_class policy (chosen_class request cp) = Some tp \<and>
        (tcp_requires_evidence_freshness tp \<longrightarrow>
           snap_congestion_observation_available snapshot \<and> congestion_fresh snapshot cp) \<and>
        pc_code (compute_pacing snapshot policy tp cp) = ErrorCode_kOk)"

lemma planned_group_iff: "(\<exists>g. planned_group request d = Inr g) \<longleftrightarrow> plan_ok (req_plan request) (def_participants d)"
  unfolding planned_group_def construct_Inr_iff by (simp add: plan_ok_def)

lemma admissible_iff:
  "outcome_grants_authority (rec_outcome (fst (evaluate snapshot request d c))) \<longleftrightarrow> admissible snapshot request d"
proof
  assume "outcome_grants_authority (rec_outcome (fst (evaluate snapshot request d c)))"
  note grants = this
  from grants obtain g chain policy topology where
    facts: "inst_generation (req_instance request) = def_generation d" "req_has_flow_group_plan request"
      "planned_group request d = Inr g" "authority_current snapshot request (def_participants d)"
      "snap_policy snapshot = Some policy" "snap_topology snapshot = Some topology"
      "topo_generation topology = snap_topology_generation snapshot"
      "age_at (snap_now_monotonic_ms snapshot) (topo_captured_monotonic_ms topology)
         \<le> fresh_topology_max_age_ms (snap_freshness snapshot)"
      "\<forall>p\<in>set (def_participants d). \<exists>l. find_peer snapshot p = Some l \<and> find_node topology (pl_node l) \<noteq> None"
    and ev: "fst (evaluate snapshot request d c) = classify snapshot request d policy
         ((make_record request d)
            \<lparr>rec_decided_monotonic_ms := snap_now_monotonic_ms snapshot, rec_group := g,
             rec_flow_group := group_id g, rec_flow_group_constructed := True,
             rec_all_members_live := True, rec_reasons := chain\<rparr>)"
    by (rule evaluate_grants)
  from grants obtain cp tp r where cl: "find_collective policy (def_collective_class d) = Some cp"
      "is_known_collective_class (def_collective_class d)"
      "req_has_requested_class request \<Longrightarrow> ccp_allow_member_override cp"
      "traffic_class_is_classified (chosen_class request cp)"
      "find_class policy (chosen_class request cp) = Some tp"
      "fst (evaluate snapshot request d c) = admit_class snapshot request d policy cp tp r"
    unfolding ev by (rule classify_grants) blast
  from grants have "outcome_grants_authority (rec_outcome (admit_class snapshot request d policy cp tp r))"
    unfolding cl(6) .
  note ad = admit_class_grants [OF this]
  show "admissible snapshot request d"
    unfolding admissible_def using facts cl(1-5) ad planned_group_iff [of request d] by blast
next
  assume "admissible snapshot request d"
  then obtain topology policy cp tp g where
    a: "inst_generation (req_instance request) = def_generation d" "req_has_flow_group_plan request"
      "planned_group request d = Inr g" "authority_current snapshot request (def_participants d)"
      "snap_policy snapshot = Some policy" "snap_topology snapshot = Some topology"
      "topo_generation topology = snap_topology_generation snapshot"
      "age_at (snap_now_monotonic_ms snapshot) (topo_captured_monotonic_ms topology)
         \<le> fresh_topology_max_age_ms (snap_freshness snapshot)"
      "\<forall>p\<in>set (def_participants d). \<exists>l. find_peer snapshot p = Some l \<and> find_node topology (pl_node l) \<noteq> None"
    and b: "find_collective policy (def_collective_class d) = Some cp"
      "is_known_collective_class (def_collective_class d)"
      "req_has_requested_class request \<longrightarrow> ccp_allow_member_override cp"
      "traffic_class_is_classified (chosen_class request cp)"
      "find_class policy (chosen_class request cp) = Some tp"
    and e: "tcp_requires_evidence_freshness tp \<longrightarrow>
         snap_congestion_observation_available snapshot \<and> congestion_fresh snapshot cp"
      "pc_code (compute_pacing snapshot policy tp cp) = ErrorCode_kOk"
    using planned_group_iff [of request d] unfolding admissible_def by blast
  from evaluate_reaches_classify [OF a, of c] obtain r
    where "fst (evaluate snapshot request d c) = classify snapshot request d policy r" by blast
  then show "outcome_grants_authority (rec_outcome (fst (evaluate snapshot request d c)))"
    using classify_admits [OF b] admit_class_admits [OF e] by simp
qed


section \<open>Every refusal is explained\<close>

definition settled :: "DecisionRecord \<Rightarrow> bool" where
  "settled r \<longleftrightarrow> outcome_grants_authority (rec_outcome r) \<or> withheld r"

lemma settled_refuse:
  "\<not> outcome_grants_authority out \<Longrightarrow> ax \<noteq> AuthorityAxis.kNone \<Longrightarrow> code \<noteq> ErrorCode_kOk \<Longrightarrow>
   settled (refuse out ax code s d i r)"
  by (simp add: settled_def withheld_refuse)

lemma settled_if: "(c \<Longrightarrow> settled x) \<Longrightarrow> (\<not> c \<Longrightarrow> settled y) \<Longrightarrow> settled (if c then x else y)"
  by simp

lemma settled_admit: "settled (admit_class snapshot request d policy cp tp r)"
  unfolding admit_class_def Let_def
  by (intro settled_if settled_refuse) (simp_all add: settled_def)

lemma settled_classify: "settled (classify snapshot request d policy r)"
proof (cases "find_collective policy (def_collective_class d)")
  case None
  then show ?thesis by (simp add: classify_def settled_refuse)
next
  case (Some cp)
  show ?thesis
    unfolding classify_def Some option.case Let_def
    by (intro settled_if settled_refuse) (auto intro: settled_admit settled_refuse split: option.splits)
qed

lemma construct_Inl_code: "construct_flow_group plan allowed = Inl status \<Longrightarrow> status_code status \<noteq> ErrorCode_kOk"
  by (auto simp: construct_flow_group_def Let_def is_ok_def split: if_splits)

lemma settled_evaluate: "settled (fst (evaluate snapshot request d c))"
proof -
  let ?r0 = "(make_record request d)\<lparr>rec_decided_monotonic_ms := snap_now_monotonic_ms snapshot\<rparr>"
  let ?plan = "(req_plan request)\<lparr>plan_collective_class := def_collective_class d\<rparr>"
  consider "inst_generation (req_instance request) \<noteq> def_generation d"
    | "inst_generation (req_instance request) = def_generation d" "\<not> req_has_flow_group_plan request"
    | status where "inst_generation (req_instance request) = def_generation d" "req_has_flow_group_plan request"
        "construct_flow_group ?plan (def_participants d) = Inl status"
    | g where "inst_generation (req_instance request) = def_generation d" "req_has_flow_group_plan request"
        "construct_flow_group ?plan (def_participants d) = Inr g"
    by (cases "construct_flow_group ?plan (def_participants d)") auto
  then show ?thesis
  proof cases
    case (3 status)
    then show ?thesis
      using construct_Inl_code [OF 3(3)] by (simp add: evaluate_def Let_def settled_refuse)
  next
    case (4 g)
    let ?r1 = "?r0\<lparr>rec_group := g, rec_flow_group := group_id g, rec_flow_group_constructed := True\<rparr>"
    show ?thesis
    proof (cases "fst (apply_authority_chain snapshot request ?r1)")
      case False
      with authority_chain_withheld [of snapshot request ?r1] 4 show ?thesis
        by (simp add: evaluate_def Let_def case_prod_unfold settled_def)
    next
      case True
      with 4 show ?thesis
        by (simp add: evaluate_def Let_def case_prod_unfold settled_refuse settled_classify
            split: sum.split list.split)
    qed
  qed (simp_all add: evaluate_def Let_def settled_refuse)
qed


section \<open>The granted record\<close>

lemma evaluate_granted_record:
  assumes "outcome_grants_authority (rec_outcome (fst (evaluate snapshot request d c)))"
  obtains g policy cp tp chain where "planned_group request d = Inr g" "snap_policy snapshot = Some policy"
    "find_collective policy (def_collective_class d) = Some cp"
    "find_class policy (chosen_class request cp) = Some tp"
    "fst (evaluate snapshot request d c) =
       (make_record request d)
         \<lparr>rec_decided_monotonic_ms := snap_now_monotonic_ms snapshot, rec_group := g,
          rec_flow_group := group_id g, rec_flow_group_constructed := True, rec_all_members_live := True,
          rec_traffic_class := chosen_class request cp, rec_priority := tcp_priority tp,
          rec_isolation := tcp_isolation tp, rec_policy_generation := snap_policy_generation snapshot,
          rec_topology_generation := snap_topology_generation snapshot, rec_epoch := snap_epoch snapshot,
          rec_capacity_generation := snap_capacity_generation snapshot,
          rec_congestion_generation := snap_congestion_generation snapshot,
          rec_capacity_evidence_used := pc_capacity_used (compute_pacing snapshot policy tp cp),
          rec_congestion_evidence_used := pc_congestion_used (compute_pacing snapshot policy tp cp),
          rec_pacing := PacingIntent_default
            \<lparr>pi_mode := select_mode tp, pi_flow_group := group_id g, pi_instance := req_instance request,
             pi_admitted_bandwidth_bps := pc_admitted_bps (compute_pacing snapshot policy tp cp),
             pi_ceiling_bandwidth_bps := pc_ceiling_bps (compute_pacing snapshot policy tp cp),
             pi_burst_bytes := pc_burst_bytes (compute_pacing snapshot policy tp cp),
             pi_utilization_bps := pc_utilization_bps (compute_pacing snapshot policy tp cp)\<rparr>,
          rec_sync := derive_sync_sensitivity d g policy,
          rec_outcome := (if tcp_traffic_class tp = TrafficClass.kIsolated then Outcome.kIsolatedClass
                          else Outcome.kAdmitted),
          rec_reasons := chain\<rparr>"
proof -
  from assms obtain g chain policy topology where
    g: "planned_group request d = Inr g" "snap_policy snapshot = Some policy"
    and ev: "fst (evaluate snapshot request d c) = classify snapshot request d policy
         ((make_record request d)
            \<lparr>rec_decided_monotonic_ms := snap_now_monotonic_ms snapshot, rec_group := g,
             rec_flow_group := group_id g, rec_flow_group_constructed := True,
             rec_all_members_live := True, rec_reasons := chain\<rparr>)" (is "_ = classify _ _ _ _ ?r")
    by (rule evaluate_grants)
  from assms obtain cp tp where cl: "find_collective policy (def_collective_class d) = Some cp"
      "find_class policy (chosen_class request cp) = Some tp"
    and ad: "fst (evaluate snapshot request d c) =
        admit_class snapshot request d policy cp tp (classified_record snapshot (chosen_class request cp) tp ?r)"
    unfolding ev by (rule classify_grants) blast
  have "outcome_grants_authority (rec_outcome (admit_class snapshot request d policy cp tp
      (classified_record snapshot (chosen_class request cp) tp ?r)))"
    using assms unfolding ad .
  from admit_class_record [OF this] show ?thesis
    using that [OF g cl] ad by (auto simp: classified_record_def make_record_def DecisionRecord_default_def
        PacingIntent_default_def)
qed


section \<open>The pacing computation\<close>

lemma pacing_verdict_code:
  "fst (pacing_verdict tp available proposed used) = ErrorCode_kOk \<longleftrightarrow>
     \<not> (available \<noteq> 0 \<and> proposed < tcp_minimum_bandwidth_bps tp)"
  by (simp add: pacing_verdict_def)

lemma pacing_fields:
  fixes snapshot policy tp cp
  defines "P \<equiv> compute_pacing snapshot policy tp cp"
  shows "pc_ceiling_bps P = tcp_maximum_bandwidth_bps tp"
    and "pc_available_bps P = fst (observed_capacity snapshot)"
    and "pc_capacity_used P = snd (observed_capacity snapshot)"
    and "pc_response_per_mille P =
      crt_rate_numerator_per_mille (pol_congestion_response policy)
        ! response_index (pol_congestion_response policy) (pc_utilization_bps P)"
    and "pc_proposed_bps P =
      per_mille (if pc_available_bps P \<noteq> 0 then min (pc_ceiling_bps P) (pc_available_bps P) else pc_ceiling_bps P)
        (ucast (pc_response_per_mille P))"
    and "pc_admitted_bps P = clamp_rate tp (pc_proposed_bps P)"
    and "pc_burst_bytes P = burst_allowance policy tp (pc_admitted_bps P)"
    and "pc_code P = ErrorCode_kOk \<longleftrightarrow>
      \<not> (pc_available_bps P \<noteq> 0 \<and> pc_proposed_bps P < tcp_minimum_bandwidth_bps tp)"
  unfolding P_def
  by (simp_all add: compute_pacing_def Let_def pacing_verdict_code split del: if_split cong: if_cong)

lemma unat_ucast_u32: "unat (ucast (x :: u32) :: u64) = unat x"
proof -
  have "unat x < 2 ^ 64" using unsigned_less [of x, where ?'a = nat] by simp
  then show ?thesis by (simp add: unsigned_ucast_eq take_bit_nat_eq_self_iff)
qed

lemma ucast_u32_le: "x \<le> 1000 \<Longrightarrow> (ucast (x :: u32) :: u64) \<le> 1000"
  by (simp add: word_le_nat_alt unat_ucast_u32)

lemma pacing_rate_bounds:
  fixes snapshot policy tp cp
  assumes valid: "response_is_valid (pol_congestion_response policy)" and tp_ok: "class_policy_ok tp"
  defines "P \<equiv> compute_pacing snapshot policy tp cp"
  shows "tcp_minimum_bandwidth_bps tp \<le> pc_admitted_bps P" "pc_admitted_bps P \<le> pc_ceiling_bps P"
    and "pc_code P = ErrorCode_kOk \<Longrightarrow> pc_available_bps P \<noteq> 0 \<Longrightarrow> pc_admitted_bps P \<le> pc_available_bps P"
    and "unat (pc_proposed_bps P) =
      unat (if pc_available_bps P \<noteq> 0 then min (pc_ceiling_bps P) (pc_available_bps P) else pc_ceiling_bps P)
        * unat (pc_response_per_mille P) div 1000"
proof -
  note f = pacing_fields [of snapshot policy tp cp, folded P_def]
  have resp: "(ucast (pc_response_per_mille P) :: u64) \<le> 1000"
    unfolding f(4) by (intro ucast_u32_le response_valid_rate valid)
  let ?limit = "if pc_available_bps P \<noteq> 0 then min (pc_ceiling_bps P) (pc_available_bps P) else pc_ceiling_bps P"
  have below: "pc_proposed_bps P \<le> ?limit" unfolding f(5) by (rule per_mille_le [OF resp])
  have top: "x \<le> kUnlimitedRate" for x
    using unat_le_u64 [of x] by (simp add: kUnlimitedRate_def word_le_nat_alt)
  show "tcp_minimum_bandwidth_bps tp \<le> pc_admitted_bps P"
    unfolding f(6) using tp_ok by (auto simp: class_policy_ok_def clamp_rate_def Let_def)
  show "pc_admitted_bps P \<le> pc_ceiling_bps P"
    unfolding f(1,6) using top by (auto simp: clamp_rate_def Let_def)
  show "pc_admitted_bps P \<le> pc_available_bps P"
    if "pc_code P = ErrorCode_kOk" "pc_available_bps P \<noteq> 0"
  proof -
    have "\<not> pc_proposed_bps P < tcp_minimum_bandwidth_bps tp" using that f(8) by blast
    moreover have "pc_proposed_bps P \<le> pc_available_bps P" using below that(2) by simp
    ultimately show ?thesis unfolding f(6) by (auto simp: clamp_rate_def Let_def intro: min.coboundedI1)
  qed
  show "unat (pc_proposed_bps P) = unat ?limit * unat (pc_response_per_mille P) div 1000"
    unfolding f(5) by (subst per_mille_exact [OF resp]) (simp add: unat_ucast_u32)
qed

lemma pacing_burst_bound:
  assumes "pol_burst_multiplier_per_mille policy \<le> 1000"
  shows "pc_burst_bytes (compute_pacing snapshot policy tp cp) \<le> pc_admitted_bps (compute_pacing snapshot policy tp cp)"
  unfolding pacing_fields(7)
  using per_mille_le [OF assms, of "pc_admitted_bps (compute_pacing snapshot policy tp cp)"]
  by (auto simp: burst_allowance_def Let_def intro: less_imp_le order.trans)


section \<open>Properties of the engine\<close>

text \<open>
  C17: The engine admits exactly the admissible requests: the bound collective generation is
  current, a plan is present and valid, every generation the requester names is the installed
  one, a policy and a fresh topology of the installed generation exist, every participant has
  unexpired live evidence and a node in that topology, the class is known and classified (an
  override only where the policy allows it), required congestion evidence is present and fresh,
  and the pacing computation honours the class floor.
\<close>

theorem admission_exact:
  "outcome_grants_authority (rec_outcome (fst (evaluate snapshot request d counters))) \<longleftrightarrow>
   admissible snapshot request d"
  by (rule admissible_iff)

text \<open>A snapshot with three live participants, a broadcast definition and a scatter plan.\<close>

definition sample_peer :: "u64 \<Rightarrow> u64 \<Rightarrow> PeerLiveness" where
  "sample_peer p n =
     \<lparr>pl_participant = Identity 1 p, pl_incarnation = Identity 0 1, pl_state = ParticipantState.kLive,
      pl_last_seen_monotonic_ms = 1000, pl_expires_at_monotonic_ms = 11000, pl_node = Identity 3 n,
      pl_bound_session = no_identity\<rparr>"

definition sample_snapshot :: "u64 \<Rightarrow> EvaluationSnapshot" where
  "sample_snapshot available =
     \<lparr>snap_epoch = Identity 9 1, snap_policy_generation = Identity 7 1,
      snap_topology_generation = Identity 2 1, snap_capacity_generation = Identity 2 2,
      snap_congestion_generation = Identity 2 3, snap_topology = Some sample_topology,
      snap_capacity = Some (sample_capacity available), snap_congestion = Some sample_congestion,
      snap_policy = Some (standard_policy (Identity 7 1)),
      snap_peers = [sample_peer 10 1, sample_peer 11 1, sample_peer 12 2],
      snap_freshness = FreshnessPolicy_default, snap_now_monotonic_ms = 1500,
      snap_capacity_observation_available = True, snap_congestion_observation_available = True,
      snap_topology_available = True, snap_policy_available = True\<rparr>"

definition sample_definition :: "CollectiveClass \<Rightarrow> CollectiveDefinition" where
  "sample_definition c = CollectiveDefinition_default
     \<lparr>def_id := Identity 1 1, def_generation := Identity 1 2, def_collective_class := c,
      def_participants := scatter_members\<rparr>"

definition sample_request :: DecisionRequest where
  "sample_request =
     \<lparr>req_session = no_identity, req_instance = sample_instance,
      req_observed_topology_generation = Identity 2 1, req_observed_policy_generation = no_identity,
      req_observed_epoch = Identity 9 1, req_observed_capacity_generation = no_identity,
      req_observed_congestion_generation = no_identity, req_has_flow_group_plan = True,
      req_plan = scatter_plan 5, req_has_requested_class = False,
      req_requested_class = TrafficClass.kUnclassified, req_requested_transfer_bytes = 0\<rparr>"

lemma sample_peers_ascending: "ascending pl_participant (snap_peers (sample_snapshot available))"
  by (simp add: sample_snapshot_def sample_peer_def less_Identity_def identity_less_def word_less_nat_alt)

lemma sample_find_peer:
  "find_peer (sample_snapshot available) (Identity 1 10) = Some (sample_peer 10 1)"
  "find_peer (sample_snapshot available) (Identity 1 11) = Some (sample_peer 11 1)"
  "find_peer (sample_snapshot available) (Identity 1 12) = Some (sample_peer 12 2)"
  unfolding find_peer_def binary_find_eq_find [OF sample_peers_ascending]
  by (simp_all add: sample_snapshot_def sample_peer_def)

lemma sample_find_node:
  "find_node sample_topology (Identity 3 1) \<noteq> None" "find_node sample_topology (Identity 3 2) \<noteq> None"
proof -
  have asc: "ascending node_id (topo_nodes sample_topology)"
    by (simp add: sample_topology_def less_Identity_def identity_less_def word_less_nat_alt)
  show "find_node sample_topology (Identity 3 1) \<noteq> None" "find_node sample_topology (Identity 3 2) \<noteq> None"
    unfolding find_node_def binary_find_eq_find [OF asc] by (simp_all add: sample_topology_def)
qed

lemma sample_authority:
  "authority_current (sample_snapshot available) sample_request scatter_members"
  by (simp add: authority_current_def names_current_def scatter_members_def participant_live_def
      sample_find_peer is_current_def sample_peer_def)
    (simp add: sample_snapshot_def sample_request_def is_some_def is_none_def no_identity_def word_less_nat_alt)

definition bulk_class :: TrafficClassPolicy where
  "bulk_class = add_class TrafficClass.kBulkData 8 1000000000 kUnlimitedRate False True IsolationMode.kShared"

definition broadcast_policy :: CollectiveClassPolicy where
  "broadcast_policy = add_collective CollectiveClass.kBroadcast TrafficClass.kBulkData True True 2000"

lemma sample_policy:
  "find_collective (standard_policy g) CollectiveClass.kBroadcast =
     Some broadcast_policy"
  "find_class (standard_policy g) TrafficClass.kBulkData =
     Some bulk_class"
  by (simp_all add: find_collective_def find_class_def standard_policy_def bulk_class_def broadcast_policy_def
      add_class_def add_collective_def)

lemma sample_admissible:
  assumes "pc_code (compute_pacing (sample_snapshot available) (standard_policy (Identity 7 1))
      bulk_class
      broadcast_policy) = ErrorCode_kOk"
  shows "admissible (sample_snapshot available) sample_request (sample_definition CollectiveClass.kBroadcast)"
proof -
  have chosen: "chosen_class sample_request
      broadcast_policy = TrafficClass.kBulkData"
    by (simp add: chosen_class_def sample_request_def broadcast_policy_def add_collective_def)
  have fresh: "congestion_fresh (sample_snapshot available)
      broadcast_policy"
    by (simp add: congestion_fresh_def sample_snapshot_def sample_congestion_def age_at_def broadcast_policy_def
        add_collective_def word_le_nat_alt)
  have parts: "def_participants (sample_definition CollectiveClass.kBroadcast) = scatter_members"
    by (simp add: sample_definition_def)
  have "\<exists>policy cp tp. snap_policy (sample_snapshot available) = Some policy \<and>
        find_collective policy (def_collective_class (sample_definition CollectiveClass.kBroadcast)) = Some cp \<and>
        is_known_collective_class (def_collective_class (sample_definition CollectiveClass.kBroadcast)) \<and>
        (req_has_requested_class sample_request \<longrightarrow> ccp_allow_member_override cp) \<and>
        traffic_class_is_classified (chosen_class sample_request cp) \<and>
        find_class policy (chosen_class sample_request cp) = Some tp \<and>
        (tcp_requires_evidence_freshness tp \<longrightarrow>
           snap_congestion_observation_available (sample_snapshot available) \<and>
           congestion_fresh (sample_snapshot available) cp) \<and>
        pc_code (compute_pacing (sample_snapshot available) policy tp cp) = ErrorCode_kOk"
    using assms fresh chosen sample_policy
    by (intro exI [of _ "standard_policy (Identity 7 1)"]
        exI [of _ broadcast_policy]
        exI [of _ bulk_class])
      (simp add: sample_definition_def is_known_collective_class_def traffic_class_is_classified_def,
       simp add: sample_snapshot_def sample_request_def)
  moreover have "\<exists>topology. snap_topology (sample_snapshot available) = Some topology \<and>
        topo_generation topology = snap_topology_generation (sample_snapshot available) \<and>
        age_at (snap_now_monotonic_ms (sample_snapshot available)) (topo_captured_monotonic_ms topology)
          \<le> fresh_topology_max_age_ms (snap_freshness (sample_snapshot available)) \<and>
        (\<forall>p\<in>set scatter_members. \<exists>l. find_peer (sample_snapshot available) p = Some l \<and>
            find_node topology (pl_node l) \<noteq> None)"
    using sample_find_node
    by (intro exI [of _ sample_topology] conjI)
      (simp_all add: scatter_members_def sample_find_peer sample_peer_def,
       simp_all add: sample_snapshot_def sample_topology_def age_at_def FreshnessPolicy_default_def word_le_nat_alt)
  ultimately show ?thesis
    using scatter_plan_ok sample_authority
    unfolding admissible_def parts
    by (simp add: sample_request_def sample_definition_def sample_instance_def)
qed

lemma sample_response: "response_index CongestionResponseTable_default 8000 = 2"
  by (simp add: response_index_def response_bucket.simps kBucketCount_def CongestionResponseTable_default_def word_le_nat_alt unat_ucast_u32)

lemma sample_observed:
  "observed_capacity (sample_snapshot available) = (available, True)"
  "observed_congestion (sample_snapshot available) 2000 = (8000, True)"
  by (simp_all add: observed_capacity_def observed_congestion_def sample_snapshot_def sample_capacity_def
     sample_congestion_def age_at_def FreshnessPolicy_default_def sum_available_def worst_utilization_def
     is_some_def is_none_def word_le_nat_alt max_def)

lemma sample_pacing:
  "compute_pacing (sample_snapshot available) (standard_policy g) bulk_class broadcast_policy =
   \<lparr>pc_available_bps = available,
    pc_proposed_bps = per_mille (if available \<noteq> 0 then available else kUnlimitedRate) 600,
    pc_admitted_bps = max 1000000000 (per_mille (if available \<noteq> 0 then available else kUnlimitedRate) 600),
    pc_ceiling_bps = kUnlimitedRate, pc_burst_bytes = burst_allowance (standard_policy g) bulk_class (max 1000000000 (per_mille (if available \<noteq> 0 then available else kUnlimitedRate) 600)),
    pc_utilization_bps = 8000, pc_response_per_mille = 600, pc_capacity_used = True, pc_congestion_used = True,
    pc_code = fst (pacing_verdict bulk_class available (per_mille (if available \<noteq> 0 then available else kUnlimitedRate) 600) True),
    pc_reason_code = fst (snd (pacing_verdict bulk_class available (per_mille (if available \<noteq> 0 then available else kUnlimitedRate) 600) True)),
    pc_reason_detail = snd (snd (pacing_verdict bulk_class available (per_mille (if available \<noteq> 0 then available else kUnlimitedRate) 600) True))\<rparr>"
proof -
  have top: "min kUnlimitedRate x = x" for x
    using unat_le_u64 [of x] by (intro min_absorb2) (simp add: kUnlimitedRate_def word_le_nat_alt)
  have "pol_congestion_response (standard_policy g) = CongestionResponseTable_default"
    by (simp add: standard_policy_def TrafficPolicy_default_def)
  moreover have "clamp_rate bulk_class x = max 1000000000 x" for x
    by (auto simp: clamp_rate_def bulk_class_def add_class_def max_def)
  moreover have "crt_rate_numerator_per_mille CongestionResponseTable_default ! 2 = 600"
    by (simp add: CongestionResponseTable_default_def)
  moreover have "tcp_maximum_bandwidth_bps bulk_class = kUnlimitedRate"
    "ccp_freshness_requirement_ms broadcast_policy = 2000"
    by (simp_all add: bulk_class_def add_class_def broadcast_policy_def add_collective_def)
  ultimately show ?thesis
    by (simp add: compute_pacing_def Let_def sample_observed sample_response top)
qed
lemma sample_rate: "unat (per_mille x 600) = unat x * 600 div 1000"
  using per_mille_exact [of 600 x] by (simp add: word_le_nat_alt)

lemma sample_verdict:
  "pc_code (compute_pacing (sample_snapshot available) (standard_policy g) bulk_class broadcast_policy) =
     ErrorCode_kOk \<longleftrightarrow> available = 0 \<or> 1000000000 \<le> unat available * 600 div 1000"
proof -
  have "tcp_minimum_bandwidth_bps bulk_class = 1000000000" by (simp add: bulk_class_def add_class_def)
  then show ?thesis by (auto simp: sample_pacing pacing_verdict_code word_less_nat_alt sample_rate)
qed

text \<open>
  C18: A decision that grants authority binds everything it rests on: the collective generation
  and attempt of the request, the definition's participants, the flow group built from the plan,
  and the epoch and the policy, topology, capacity and congestion generations of the snapshot;
  its pacing intent names the same group, its axis is unset and its code is success.
\<close>

theorem granted_record_bound:
  assumes "outcome_grants_authority (rec_outcome (fst (evaluate snapshot request d counters)))"
  shows "let r = fst (evaluate snapshot request d counters) in
    rec_instance r = req_instance request \<and> rec_collective_generation r = inst_generation (req_instance request) \<and>
    rec_participants r = def_participants d \<and>
    construct_flow_group ((req_plan request)\<lparr>plan_collective_class := def_collective_class d\<rparr>)
      (def_participants d) = Inr (rec_group r) \<and>
    rec_flow_group r = group_id (rec_group r) \<and> is_some (rec_flow_group r) \<and> rec_all_members_live r \<and>
    rec_epoch r = snap_epoch snapshot \<and> rec_policy_generation r = snap_policy_generation snapshot \<and>
    rec_topology_generation r = snap_topology_generation snapshot \<and>
    rec_capacity_generation r = snap_capacity_generation snapshot \<and>
    rec_congestion_generation r = snap_congestion_generation snapshot \<and>
    pi_flow_group (rec_pacing r) = rec_flow_group r \<and> pi_instance (rec_pacing r) = req_instance request \<and>
    rec_axis r = AuthorityAxis.kNone \<and> rec_code r = ErrorCode_kOk"
proof -
  have gen: "inst_generation (req_instance request) = def_generation d"
    using assms admissible_iff [of snapshot request d counters] by (simp add: admissible_def)
  obtain g policy cp tp chain where g: "planned_group request d = Inr g"
    and r: "fst (evaluate snapshot request d counters) =
       (make_record request d)
         \<lparr>rec_decided_monotonic_ms := snap_now_monotonic_ms snapshot, rec_group := g,
          rec_flow_group := group_id g, rec_flow_group_constructed := True, rec_all_members_live := True,
          rec_traffic_class := chosen_class request cp, rec_priority := tcp_priority tp,
          rec_isolation := tcp_isolation tp, rec_policy_generation := snap_policy_generation snapshot,
          rec_topology_generation := snap_topology_generation snapshot, rec_epoch := snap_epoch snapshot,
          rec_capacity_generation := snap_capacity_generation snapshot,
          rec_congestion_generation := snap_congestion_generation snapshot,
          rec_capacity_evidence_used := pc_capacity_used (compute_pacing snapshot policy tp cp),
          rec_congestion_evidence_used := pc_congestion_used (compute_pacing snapshot policy tp cp),
          rec_pacing := PacingIntent_default
            \<lparr>pi_mode := select_mode tp, pi_flow_group := group_id g, pi_instance := req_instance request,
             pi_admitted_bandwidth_bps := pc_admitted_bps (compute_pacing snapshot policy tp cp),
             pi_ceiling_bandwidth_bps := pc_ceiling_bps (compute_pacing snapshot policy tp cp),
             pi_burst_bytes := pc_burst_bytes (compute_pacing snapshot policy tp cp),
             pi_utilization_bps := pc_utilization_bps (compute_pacing snapshot policy tp cp)\<rparr>,
          rec_sync := derive_sync_sensitivity d g policy,
          rec_outcome := (if tcp_traffic_class tp = TrafficClass.kIsolated then Outcome.kIsolatedClass
                          else Outcome.kAdmitted),
          rec_reasons := chain\<rparr>"
    using assms by (rule evaluate_granted_record)
  have "is_some (group_id g)"
    using construct_group(6) [OF g [unfolded planned_group_def]] canonical_flow_group_id_some by simp
  with g gen show ?thesis
    unfolding r Let_def planned_group_def by (simp add: make_record_def DecisionRecord_default_def)
qed

lemma sample_granted:
  "outcome_grants_authority (rec_outcome (fst (evaluate (sample_snapshot 20000000000) sample_request
     (sample_definition CollectiveClass.kBroadcast) EngineCounters_default)))"
  unfolding admissible_iff by (rule sample_admissible) (simp add: sample_verdict)

theorem granted_record_bound_witness:
  "rec_epoch (fst (evaluate (sample_snapshot 20000000000) sample_request
     (sample_definition CollectiveClass.kBroadcast) EngineCounters_default)) = Identity 9 1"
  using granted_record_bound [OF sample_granted] by (simp add: Let_def sample_snapshot_def)

text \<open>
  C34: No decision is silent. Whatever the inputs, the record either grants authority or names
  the axis that refused it, carries an error code other than success and at least one reason.
\<close>

theorem refusal_explained:
  "outcome_grants_authority (rec_outcome (fst (evaluate snapshot request d counters))) \<or>
   (rec_axis (fst (evaluate snapshot request d counters)) \<noteq> AuthorityAxis.kNone \<and>
    rec_code (fst (evaluate snapshot request d counters)) \<noteq> ErrorCode_kOk \<and>
    rec_reasons (fst (evaluate snapshot request d counters)) \<noteq> [])"
  using settled_evaluate [of snapshot request d counters] by (auto simp: settled_def withheld_def)



lemma evaluate_plan_order:
  assumes "mset es = mset (plan_edges (req_plan request))" "planned_group request d = Inr g"
  shows "evaluate snapshot (request\<lparr>req_plan := (req_plan request)\<lparr>plan_edges := es\<rparr>\<rparr>) d counters =
    evaluate snapshot request d counters"
proof -
  let ?request = "request\<lparr>req_plan := (req_plan request)\<lparr>plan_edges := es\<rparr>\<rparr>"
  let ?plan = "(req_plan request)\<lparr>plan_collective_class := def_collective_class d\<rparr>"
  have "construct_flow_group (?plan\<lparr>plan_edges := es\<rparr>) (def_participants d) = Inr g"
    using construct_perm [of es ?plan "def_participants d" g] assms by (simp add: planned_group_def)
  then have g: "construct_flow_group ((req_plan ?request)\<lparr>plan_collective_class := def_collective_class d\<rparr>)
      (def_participants d) = Inr g" by (cases "req_plan request") simp
  have f: "req_instance ?request = req_instance request"
    "req_observed_epoch ?request = req_observed_epoch request"
    "req_observed_policy_generation ?request = req_observed_policy_generation request"
    "req_observed_topology_generation ?request = req_observed_topology_generation request"
    "req_observed_capacity_generation ?request = req_observed_capacity_generation request"
    "req_observed_congestion_generation ?request = req_observed_congestion_generation request"
    "req_has_flow_group_plan ?request = req_has_flow_group_plan request"
    "req_has_requested_class ?request = req_has_requested_class request"
    "req_requested_class ?request = req_requested_class request"
    by simp_all
  have chain: "apply_authority_chain snapshot ?request r = apply_authority_chain snapshot request r" for r
    by (simp only: apply_authority_chain_def f)
  have cls: "classify snapshot ?request d policy r = classify snapshot request d policy r" for policy r
    by (simp only: classify_def admit_class_def f)
  show ?thesis
    by (simp only: evaluate_def g assms(2) [unfolded planned_group_def] chain cls f make_record_def)
qed

text \<open>
  A decision does not depend on the order in which the planner lists the edges: for a plan
  that builds a group, any permutation of its edges gives the identical record, fingerprint
  included.
\<close>

theorem evaluate_order_irrelevant:
  assumes "mset es = mset (plan_edges (req_plan request))"
    and "construct_flow_group ((req_plan request)\<lparr>plan_collective_class := def_collective_class d\<rparr>)
      (def_participants d) = Inr g"
  shows "evaluate snapshot (request\<lparr>req_plan := (req_plan request)\<lparr>plan_edges := es\<rparr>\<rparr>) d counters =
    evaluate snapshot request d counters"
  by (rule evaluate_plan_order [OF assms(1)]) (simp add: planned_group_def assms(2))

theorem evaluate_order_irrelevant_witness:
  "evaluate (sample_snapshot 0) (sample_request\<lparr>req_plan := (req_plan sample_request)
       \<lparr>plan_edges := rev (plan_edges (req_plan sample_request))\<rparr>\<rparr>)
     (sample_definition CollectiveClass.kBroadcast) EngineCounters_default =
   evaluate (sample_snapshot 0) sample_request (sample_definition CollectiveClass.kBroadcast) EngineCounters_default"
proof -
  have "plan_ok (req_plan sample_request) (def_participants (sample_definition CollectiveClass.kBroadcast))"
    using scatter_plan_ok by (simp add: sample_request_def sample_definition_def)
  then obtain g where "planned_group sample_request (sample_definition CollectiveClass.kBroadcast) = Inr g"
    using planned_group_iff by blast
  from evaluate_order_irrelevant [OF _ this [unfolded planned_group_def]] show ?thesis by simp
qed


text \<open>
  A collective class the runtime does not understand is never admitted, and the outcome is
  never \<open>UNKNOWN_SEMANTICS\<close>: that outcome is reserved for known classes the policy leaves
  unclassified.
\<close>

theorem unknown_class_outcome:
  assumes "\<not> is_known_collective_class (def_collective_class d)"
  shows "\<not> outcome_grants_authority (rec_outcome (fst (evaluate snapshot request d counters))) \<and>
    rec_outcome (fst (evaluate snapshot request d counters)) \<noteq> Outcome.kUnknownSemantics"
proof
  show "\<not> outcome_grants_authority (rec_outcome (fst (evaluate snapshot request d counters)))"
    using assms by (simp add: admissible_iff admissible_def)
  have cls: "rec_outcome (classify snapshot request d policy r) \<noteq> Outcome.kUnknownSemantics" for policy r
    using assms by (simp add: classify_def split: option.split)
  have "fst (apply_authority_chain snapshot request r) \<or>
      rec_outcome (snd (apply_authority_chain snapshot request r)) \<noteq> Outcome.kUnknownSemantics" for r
    unfolding apply_authority_chain_def Let_def
    by (intro chain_guard [where Q = "\<lambda>r. rec_outcome r \<noteq> Outcome.kUnknownSemantics"]) simp_all
  then have chain: "\<not> fst (apply_authority_chain snapshot request r) \<Longrightarrow>
      rec_outcome (snd (apply_authority_chain snapshot request r)) \<noteq> Outcome.kUnknownSemantics" for r
    by blast
  show "rec_outcome (fst (evaluate snapshot request d counters)) \<noteq> Outcome.kUnknownSemantics"
    by (simp add: evaluate_def Let_def case_prod_unfold cls chain split: sum.split list.split)
qed

theorem unknown_class_outcome_witness:
  "rec_outcome (fst (evaluate (sample_snapshot 20000000000) sample_request
     (sample_definition CollectiveClass.kUnknownVendor) EngineCounters_default)) \<noteq> Outcome.kUnknownSemantics"
  using unknown_class_outcome [of "sample_definition CollectiveClass.kUnknownVendor"]
  by (simp add: sample_definition_def is_known_collective_class_def)

end
