(* ===== verification/CTF_Authority.thy ===== *)
theory CTF_Authority
  imports CTF_Engine
begin

text \<open>
  The coordinator's authority bookkeeping (include/ctf/authority.hpp, src/authority.cpp):
  epoch, installed policy and evidence with their replay histories, peer liveness with
  incarnation fencing, the durable part and the evaluation snapshot.

  Every public method runs under one mutex, so a method is one step. The locale
  \<open>install_axis\<close> is the contract of the four \<^verbatim>\<open>install_\<close> methods; \<open>authority_inv\<close> is the
  invariant of the state, kept by every method; \<open>fenced_at\<close> is the invariant that makes
  fencing permanent within one boot.
\<close>

section \<open>State\<close>

datatype InstallResult =
    kInstalled
  | kRejectedOlderGeneration
  | kRejectedInvalid
  | kRejectedOversized
  | kRejectedSameGeneration

primrec InstallResult_value :: "InstallResult \<Rightarrow> u64" where
  "InstallResult_value InstallResult.kInstalled = 0"
| "InstallResult_value InstallResult.kRejectedOlderGeneration = 1"
| "InstallResult_value InstallResult.kRejectedInvalid = 2"
| "InstallResult_value InstallResult.kRejectedOversized = 3"
| "InstallResult_value InstallResult.kRejectedSameGeneration = 4"

primrec InstallResult_to_string :: "InstallResult \<Rightarrow> string" where
  "InstallResult_to_string InstallResult.kInstalled = ''installed''"
| "InstallResult_to_string InstallResult.kRejectedOlderGeneration = ''rejected_older_generation''"
| "InstallResult_to_string InstallResult.kRejectedInvalid = ''rejected_invalid''"
| "InstallResult_to_string InstallResult.kRejectedOversized = ''rejected_oversized''"
| "InstallResult_to_string InstallResult.kRejectedSameGeneration = ''rejected_same_generation''"

datatype PublishResult = kAccepted | kFencedStaleIncarnation | kRejectedCapacity | kRejectedInvalid

definition kGenerationHistoryCapacity :: nat where "kGenerationHistoryCapacity = 64"

type_synonym GenerationHistory = "Identity list"

definition history_remember :: "Identity \<Rightarrow> GenerationHistory \<Rightarrow> GenerationHistory" where
  "history_remember generation seen =
     (if is_none generation then seen
      else
        let seen' = seen @ [generation]
        in if length seen' > kGenerationHistoryCapacity then tl seen' else seen')"

definition history_contains :: "Identity \<Rightarrow> GenerationHistory \<Rightarrow> bool" where
  "history_contains generation seen \<longleftrightarrow> list_ex (\<lambda>entry. entry = generation) seen"

record DurableAuthority =
  da_last_epoch :: CoordinatorEpoch
  da_policy_generation :: PolicyGeneration
  da_topology_generation :: TopologyGeneration
  da_topology :: TopologyEvidence
  da_policy :: TrafficPolicy
  da_restart_count :: u64

record AuthorityState =
  au_epoch :: CoordinatorEpoch
  au_last_durable_epoch :: CoordinatorEpoch
  au_policy_generation :: PolicyGeneration
  au_topology_generation :: TopologyGeneration
  au_capacity_generation :: EvidenceGeneration
  au_congestion_generation :: EvidenceGeneration
  au_policy :: "TrafficPolicy option"
  au_topology :: "TopologyEvidence option"
  au_capacity :: "CapacityEvidence option"
  au_congestion :: "CongestionEvidence option"
  au_policy_history :: GenerationHistory
  au_topology_history :: GenerationHistory
  au_capacity_history :: GenerationHistory
  au_congestion_history :: GenerationHistory
  au_peers :: "(ParticipantId, PeerLiveness) idmap"
  au_highest_incarnation :: "(ParticipantId, BootIncarnation) idmap"
  au_freshness :: FreshnessPolicy
  au_boot_monotonic_ms :: u64

definition AuthorityState_new :: AuthorityState where
  "AuthorityState_new =
     \<lparr>au_epoch = no_identity, au_last_durable_epoch = no_identity, au_policy_generation = no_identity,
      au_topology_generation = no_identity, au_capacity_generation = no_identity,
      au_congestion_generation = no_identity, au_policy = None, au_topology = None, au_capacity = None,
      au_congestion = None, au_policy_history = [], au_topology_history = [], au_capacity_history = [],
      au_congestion_history = [], au_peers = [], au_highest_incarnation = [],
      au_freshness = FreshnessPolicy_default, au_boot_monotonic_ms = 0\<rparr>"

definition TopologyEvidence_default :: TopologyEvidence where
  "TopologyEvidence_default =
     \<lparr>topo_generation = no_identity, topo_nodes = [], topo_links = [], topo_captured_monotonic_ms = 0,
      topo_synthetic = True\<rparr>"


section \<open>Epoch\<close>

text \<open>\<^verbatim>\<open>invalidate_dynamic_evidence\<close>, also the reset that installation, boot and restore make.\<close>

definition invalidate_dynamic_evidence :: "AuthorityState \<Rightarrow> AuthorityState" where
  "invalidate_dynamic_evidence s =
     s\<lparr>au_capacity := None, au_congestion := None, au_capacity_generation := no_identity,
       au_congestion_generation := no_identity\<rparr>"

definition begin_boot ::
  "CoordinatorEpoch \<Rightarrow> AuthorityState \<Rightarrow> mint_source \<Rightarrow> (CoordinatorEpoch \<times> AuthorityState \<times> mint_source) option" where
  "begin_boot last_durable_epoch s ms =
     (case mint_fresh last_durable_epoch (au_epoch s) ms of
        None \<Rightarrow> None
      | Some (candidate, ms') \<Rightarrow>
          Some (candidate,
                invalidate_dynamic_evidence
                  (s\<lparr>au_last_durable_epoch := last_durable_epoch, au_epoch := candidate, au_peers := [],
                     au_highest_incarnation := []\<rparr>),
                ms'))"

definition epoch_is_current :: "CoordinatorEpoch \<Rightarrow> AuthorityState \<Rightarrow> bool" where
  "epoch_is_current candidate s \<longleftrightarrow> is_some candidate \<and> candidate = au_epoch s"


section \<open>Installation\<close>

definition install_policy :: "TrafficPolicy \<Rightarrow> AuthorityState \<Rightarrow> InstallResult \<times> AuthorityState" where
  "install_policy policy s =
     (if \<not> is_ok (policy_validate policy) then (InstallResult.kRejectedInvalid, s)
      else if is_none (pol_generation policy) then (InstallResult.kRejectedInvalid, s)
      else if au_policy s \<noteq> None \<and> au_policy_generation s = pol_generation policy
      then (InstallResult.kRejectedSameGeneration, s)
      else if history_contains (pol_generation policy) (au_policy_history s)
      then (InstallResult.kRejectedOlderGeneration, s)
      else (InstallResult.kInstalled,
            s\<lparr>au_policy_history := history_remember (pol_generation policy) (au_policy_history s),
              au_policy_generation := pol_generation policy, au_policy := Some policy\<rparr>))"

definition policy_snapshot :: "AuthorityState \<Rightarrow> TrafficPolicy" where
  "policy_snapshot s = (case au_policy s of None \<Rightarrow> TrafficPolicy_default | Some p \<Rightarrow> p)"

definition install_topology :: "TopologyEvidence \<Rightarrow> AuthorityState \<Rightarrow> InstallResult \<times> AuthorityState" where
  "install_topology observed s =
     (let topology = topology_canonicalize observed in
      if \<not> is_ok (topology_validate topology) then (InstallResult.kRejectedInvalid, s)
      else if au_topology s \<noteq> None \<and> au_topology_generation s = topo_generation topology
      then (InstallResult.kRejectedSameGeneration, s)
      else if history_contains (topo_generation topology) (au_topology_history s)
      then (InstallResult.kRejectedOlderGeneration, s)
      else (InstallResult.kInstalled,
            invalidate_dynamic_evidence
              (s\<lparr>au_topology_history := history_remember (topo_generation topology) (au_topology_history s),
                 au_topology_generation := topo_generation topology, au_topology := Some topology\<rparr>)))"

definition topology_snapshot :: "AuthorityState \<Rightarrow> TopologyEvidence" where
  "topology_snapshot s = (case au_topology s of None \<Rightarrow> TopologyEvidence_default | Some t \<Rightarrow> t)"

definition install_capacity :: "CapacityEvidence \<Rightarrow> AuthorityState \<Rightarrow> InstallResult \<times> AuthorityState" where
  "install_capacity observed s =
     (let capacity = capacity_canonicalize observed in
      if \<not> is_ok (capacity_validate capacity) then (InstallResult.kRejectedInvalid, s)
      else if au_topology s = None \<or> cap_topology_generation capacity \<noteq> au_topology_generation s
      then (InstallResult.kRejectedInvalid, s)
      else if au_capacity s \<noteq> None \<and> au_capacity_generation s = cap_generation capacity
      then (InstallResult.kRejectedSameGeneration, s)
      else if history_contains (cap_generation capacity) (au_capacity_history s)
      then (InstallResult.kRejectedOlderGeneration, s)
      else (InstallResult.kInstalled,
            s\<lparr>au_capacity_history := history_remember (cap_generation capacity) (au_capacity_history s),
              au_capacity_generation := cap_generation capacity, au_capacity := Some capacity\<rparr>))"

definition capacity_available :: "AuthorityState \<Rightarrow> bool" where
  "capacity_available s \<longleftrightarrow> au_capacity s \<noteq> None"

definition install_congestion :: "CongestionEvidence \<Rightarrow> AuthorityState \<Rightarrow> InstallResult \<times> AuthorityState" where
  "install_congestion observed s =
     (let congestion = congestion_canonicalize observed in
      if \<not> is_ok (congestion_validate congestion) then (InstallResult.kRejectedInvalid, s)
      else if au_topology s = None \<or> con_topology_generation congestion \<noteq> au_topology_generation s
      then (InstallResult.kRejectedInvalid, s)
      else if au_congestion s \<noteq> None \<and> au_congestion_generation s = con_generation congestion
      then (InstallResult.kRejectedSameGeneration, s)
      else if history_contains (con_generation congestion) (au_congestion_history s)
      then (InstallResult.kRejectedOlderGeneration, s)
      else (InstallResult.kInstalled,
            s\<lparr>au_congestion_history := history_remember (con_generation congestion) (au_congestion_history s),
              au_congestion_generation := con_generation congestion, au_congestion := Some congestion\<rparr>))"

definition congestion_available :: "AuthorityState \<Rightarrow> bool" where
  "congestion_available s \<longleftrightarrow> au_congestion s \<noteq> None"


section \<open>Participants\<close>

definition store_peer :: "ParticipantId \<Rightarrow> PeerLiveness \<Rightarrow> AuthorityState \<Rightarrow> AuthorityState" where
  "store_peer p l s = s\<lparr>au_peers := idm_store p l (au_peers s)\<rparr>"

definition raise_incarnation :: "ParticipantId \<Rightarrow> BootIncarnation \<Rightarrow> AuthorityState \<Rightarrow> AuthorityState" where
  "raise_incarnation p i s = s\<lparr>au_highest_incarnation := idm_store p i (au_highest_incarnation s)\<rparr>"

definition publish_liveness :: "PeerLiveness \<Rightarrow> AuthorityState \<Rightarrow> PublishResult \<times> AuthorityState" where
  "publish_liveness liveness s =
     (let p = pl_participant liveness;
          fresh =
            (if idm_size (au_peers s) \<ge> kPeersMax \<and> idm_find (au_peers s) p = None
             then (PublishResult.kRejectedCapacity, s)
             else (PublishResult.kAccepted,
                   store_peer p liveness (raise_incarnation p (pl_incarnation liveness) s)))
      in
      if is_none p \<or> is_none (pl_incarnation liveness) then (PublishResult.kRejectedInvalid, s)
      else if pl_state liveness = ParticipantState.kUnspecified then (PublishResult.kRejectedInvalid, s)
      else
        case idm_find (au_highest_incarnation s) p of
          None \<Rightarrow> fresh
        | Some highest \<Rightarrow>
            if pl_incarnation liveness < highest then (PublishResult.kFencedStaleIncarnation, s)
            else if pl_incarnation liveness = highest
            then
              (case idm_find (au_peers s) p of
                 None \<Rightarrow> (PublishResult.kAccepted, store_peer p liveness s)
               | Some stored \<Rightarrow>
                   if pl_state stored = ParticipantState.kLive \<or> pl_state stored = ParticipantState.kSuspect \<or>
                      pl_state stored = ParticipantState.kAdvertised
                   then (PublishResult.kAccepted, store_peer p liveness s)
                   else (PublishResult.kFencedStaleIncarnation, s))
            else fresh)"

definition heartbeat ::
  "ParticipantId \<Rightarrow> BootIncarnation \<Rightarrow> u64 \<Rightarrow> u64 \<Rightarrow> AuthorityState \<Rightarrow> bool \<times> AuthorityState" where
  "heartbeat participant incarnation now_monotonic_ms ttl_ms s =
     (let highest = idm_find (au_highest_incarnation s) participant;
          spent =
            (case idm_find (au_peers s) participant of
               None \<Rightarrow> True
             | Some stored \<Rightarrow>
                 pl_state stored = ParticipantState.kFenced \<or> pl_state stored = ParticipantState.kExpired \<or>
                 pl_state stored = ParticipantState.kRetired)
      in
      if is_none participant \<or> is_none incarnation then (False, s)
      else if (case highest of None \<Rightarrow> False | Some h \<Rightarrow> incarnation < h) then (False, s)
      else if highest = Some incarnation \<and> spent then (False, s)
      else
        let stored = (case idm_find (au_peers s) participant of None \<Rightarrow> PeerLiveness_default | Some l \<Rightarrow> l);
            same_boot = (pl_incarnation stored = incarnation);
            l1 = stored\<lparr>pl_participant := participant, pl_incarnation := incarnation,
                       pl_state := ParticipantState.kLive,
                       pl_last_seen_monotonic_ms := now_monotonic_ms,
                       pl_expires_at_monotonic_ms := now_monotonic_ms + ttl_ms\<rparr>;
            l2 = (if \<not> same_boot then l1\<lparr>pl_node := no_identity, pl_bound_session := no_identity\<rparr> else l1)
        in (True, store_peer participant l2 (raise_incarnation participant incarnation s)))"

definition fence :: "u64 \<Rightarrow> PeerLiveness \<Rightarrow> PeerLiveness" where
  "fence now l = l\<lparr>pl_state := ParticipantState.kFenced, pl_expires_at_monotonic_ms := now\<rparr>"

definition expire_session :: "SessionId \<Rightarrow> u64 \<Rightarrow> AuthorityState \<Rightarrow> nat \<times> AuthorityState" where
  "expire_session session now s =
     (let due = (\<lambda>l. pl_bound_session l = session \<and> is_some session) in
      (length (filter due (idm_values (au_peers s))),
       s\<lparr>au_peers := idm_each (\<lambda>l. if due l then fence now l else l) (au_peers s)\<rparr>))"

definition expire_due :: "u64 \<Rightarrow> AuthorityState \<Rightarrow> ParticipantId list \<times> AuthorityState" where
  "expire_due now s =
     (let due = (\<lambda>l. pl_state l = ParticipantState.kLive \<and> now \<ge> pl_expires_at_monotonic_ms l) in
      (std_sort (\<lambda>a b. a < b) (map pl_participant (filter due (idm_values (au_peers s)))),
       s\<lparr>au_peers := idm_each (\<lambda>l. if due l then fence now l else l) (au_peers s)\<rparr>))"

definition peer_snapshot :: "ParticipantId \<Rightarrow> AuthorityState \<Rightarrow> PeerLiveness" where
  "peer_snapshot p s = (case idm_find (au_peers s) p of None \<Rightarrow> PeerLiveness_default | Some l \<Rightarrow> l)"

definition peers_snapshot :: "AuthorityState \<Rightarrow> PeerLiveness list" where
  "peers_snapshot s = std_sort (\<lambda>a b. pl_participant a < pl_participant b) (idm_values (au_peers s))"

definition peer_count :: "AuthorityState \<Rightarrow> nat" where
  "peer_count s = idm_size (au_peers s)"

definition live_peer_count :: "u64 \<Rightarrow> AuthorityState \<Rightarrow> nat" where
  "live_peer_count now s = length (filter (\<lambda>l. is_current l now) (idm_values (au_peers s)))"

definition set_freshness_policy :: "FreshnessPolicy \<Rightarrow> AuthorityState \<Rightarrow> AuthorityState" where
  "set_freshness_policy policy s = s\<lparr>au_freshness := policy\<rparr>"


section \<open>Durable state and snapshots\<close>

definition durable_snapshot :: "AuthorityState \<Rightarrow> DurableAuthority" where
  "durable_snapshot s =
     \<lparr>da_last_epoch = au_epoch s, da_policy_generation = au_policy_generation s,
      da_topology_generation = au_topology_generation s, da_topology = topology_snapshot s,
      da_policy = policy_snapshot s, da_restart_count = 0\<rparr>"

definition restore_durable :: "DurableAuthority \<Rightarrow> u64 \<Rightarrow> AuthorityState \<Rightarrow> Status \<times> AuthorityState" where
  "restore_durable durable now_monotonic_ms s =
     (let topology_status = topology_validate (da_topology durable);
          policy_status = policy_validate (da_policy durable)
      in
      if is_some (da_topology_generation durable) \<and> \<not> is_ok topology_status
      then (Status ErrorCode_kPersistenceImpossibleState
              (''durable topology is not usable: '' @ status_message topology_status), s)
      else if is_some (da_topology_generation durable) \<and>
        topo_generation (da_topology durable) \<noteq> da_topology_generation durable
      then (Status ErrorCode_kPersistenceImpossibleState
              ''durable topology generation disagrees with the durable record'', s)
      else if is_some (da_policy_generation durable) \<and> \<not> is_ok policy_status
      then (Status ErrorCode_kPersistenceImpossibleState
              (''durable policy is not usable: '' @ status_message policy_status), s)
      else if is_some (da_policy_generation durable) \<and>
        pol_generation (da_policy durable) \<noteq> da_policy_generation durable
      then (Status ErrorCode_kPersistenceImpossibleState
              ''durable policy generation disagrees with the durable record'', s)
      else
        let s1 = s\<lparr>au_last_durable_epoch := da_last_epoch durable\<rparr>;
            s2 = (if is_some (da_topology_generation durable)
                  then s1\<lparr>au_topology_generation := da_topology_generation durable,
                          au_topology := Some (da_topology durable)\<rparr> else s1);
            s3 = (if is_some (da_policy_generation durable)
                  then s2\<lparr>au_policy_generation := da_policy_generation durable,
                          au_policy := Some (da_policy durable)\<rparr> else s2)
        in (status_ok,
            (invalidate_dynamic_evidence s3)
              \<lparr>au_peers := [], au_highest_incarnation := [], au_boot_monotonic_ms := now_monotonic_ms\<rparr>))"

definition authority_snapshot :: "u64 \<Rightarrow> AuthorityState \<Rightarrow> EvaluationSnapshot" where
  "authority_snapshot now_monotonic_ms s =
     \<lparr>snap_epoch = au_epoch s, snap_policy_generation = au_policy_generation s,
      snap_topology_generation = au_topology_generation s,
      snap_capacity_generation = au_capacity_generation s,
      snap_congestion_generation = au_congestion_generation s, snap_topology = au_topology s,
      snap_capacity = au_capacity s, snap_congestion = au_congestion s, snap_policy = au_policy s,
      snap_peers = std_sort (\<lambda>a b. pl_participant a < pl_participant b) (idm_values (au_peers s)),
      snap_freshness = au_freshness s, snap_now_monotonic_ms = now_monotonic_ms,
      snap_capacity_observation_available = (au_capacity s \<noteq> None),
      snap_congestion_observation_available = (au_congestion s \<noteq> None),
      snap_topology_available = (au_topology s \<noteq> None), snap_policy_available = (au_policy s \<noteq> None)\<rparr>"


section \<open>The authority as a machine\<close>

text \<open>The methods that may run within one boot, and the two that start a new one.\<close>

datatype LiveOp =
    InstallPolicy TrafficPolicy
  | InstallTopology TopologyEvidence
  | InstallCapacity CapacityEvidence
  | InstallCongestion CongestionEvidence
  | InvalidateDynamic
  | Publish PeerLiveness
  | Heartbeat ParticipantId BootIncarnation u64 u64
  | ExpireSession SessionId u64
  | ExpireDue u64
  | SetFreshness FreshnessPolicy

fun live_step :: "AuthorityState \<Rightarrow> LiveOp \<Rightarrow> AuthorityState" where
  "live_step s (InstallPolicy p) = snd (install_policy p s)"
| "live_step s (InstallTopology t) = snd (install_topology t s)"
| "live_step s (InstallCapacity c) = snd (install_capacity c s)"
| "live_step s (InstallCongestion c) = snd (install_congestion c s)"
| "live_step s InvalidateDynamic = invalidate_dynamic_evidence s"
| "live_step s (Publish l) = snd (publish_liveness l s)"
| "live_step s (Heartbeat p i now ttl) = snd (heartbeat p i now ttl s)"
| "live_step s (ExpireSession session now) = snd (expire_session session now s)"
| "live_step s (ExpireDue now) = snd (expire_due now s)"
| "live_step s (SetFreshness f) = set_freshness_policy f s"

datatype AuthorityOp = Live LiveOp | Restore DurableAuthority u64 | Boot CoordinatorEpoch

fun authority_step :: "AuthorityState \<times> mint_source \<Rightarrow> AuthorityOp \<Rightarrow> AuthorityState \<times> mint_source" where
  "authority_step (s, ms) (Live op) = (live_step s op, ms)"
| "authority_step (s, ms) (Restore durable now) = (snd (restore_durable durable now s), ms)"
| "authority_step (s, ms) (Boot durable_epoch) =
     (case begin_boot durable_epoch s ms of None \<Rightarrow> (s, ms) | Some (_, s', ms') \<Rightarrow> (s', ms'))"


section \<open>Replay histories\<close>

lemma history_contains_iff [simp]: "history_contains g seen \<longleftrightarrow> g \<in> set seen"
  by (auto simp: history_contains_def list_ex_iff)

lemma history_remember_bounded:
  "length seen \<le> kGenerationHistoryCapacity \<Longrightarrow>
   length (history_remember g seen) \<le> kGenerationHistoryCapacity"
  by (auto simp: history_remember_def Let_def)

text \<open>A generation with at most \<open>k\<close> younger ones behind it.\<close>

definition remembered :: "nat \<Rightarrow> Identity \<Rightarrow> GenerationHistory \<Rightarrow> bool" where
  "remembered k g seen \<longleftrightarrow> (\<exists>older younger. seen = older @ g # younger \<and> length younger \<le> k)"

lemma rememberedI: "seen = older @ g # younger \<Longrightarrow> length younger \<le> k \<Longrightarrow> remembered k g seen"
  by (auto simp: remembered_def)

lemma remembered_weaken: "remembered k g xs \<Longrightarrow> k \<le> k' \<Longrightarrow> remembered k' g xs"
  unfolding remembered_def using le_trans by blast

lemma remembered_mem: "remembered k g seen \<Longrightarrow> g \<in> set seen"
  by (auto simp: remembered_def)

lemma remembered_new:
  assumes "is_some g" "length seen \<le> kGenerationHistoryCapacity"
  shows "remembered 0 g (history_remember g seen)"
proof -
  have "history_remember g seen = seen @ [g] \<or> history_remember g seen = tl (seen @ [g]) \<and> seen \<noteq> []"
    using assms by (auto simp: history_remember_def is_some_def Let_def kGenerationHistoryCapacity_def)
  then show ?thesis
    unfolding remembered_def by (elim disjE conjE) (auto simp: tl_append split: list.splits)
qed

lemma remembered_next:
  assumes "remembered k g seen" "Suc k < kGenerationHistoryCapacity"
  shows "remembered (Suc k) g (history_remember h seen)"
proof -
  obtain older younger where seen: "seen = older @ g # younger" "length younger \<le> k"
    using assms(1) by (auto simp: remembered_def)
  consider "is_none h" | "\<not> is_none h" "length (seen @ [h]) \<le> kGenerationHistoryCapacity"
    | "\<not> is_none h" "length (seen @ [h]) > kGenerationHistoryCapacity" by linarith
  then show ?thesis
  proof cases
    case 1
    with seen show ?thesis by (intro rememberedI [of _ older _ younger]) (simp_all add: history_remember_def)
  next
    case 2
    with seen show ?thesis
      by (intro rememberedI [of _ older _ "younger @ [h]"]) (simp_all add: history_remember_def Let_def)
  next
    case 3
    with seen assms(2) have "older \<noteq> []" by auto
    with 3 seen show ?thesis
      by (intro rememberedI [of _ "tl older" _ "younger @ [h]"]) (simp_all add: history_remember_def Let_def)
  qed
qed

text \<open>What the four installation methods share.\<close>

locale install_axis =
  fixes install :: "'e \<Rightarrow> AuthorityState \<Rightarrow> InstallResult \<times> AuthorityState"
    and generation_of :: "'e \<Rightarrow> Identity"
    and seen :: "AuthorityState \<Rightarrow> GenerationHistory"
    and installed :: "AuthorityState \<Rightarrow> Identity"
  assumes install_accepts: "install e s = (InstallResult.kInstalled, s') \<Longrightarrow>
      generation_of e \<notin> set (seen s) \<and> is_some (generation_of e) \<and> installed s' = generation_of e \<and>
      seen s' = history_remember (generation_of e) (seen s)"
    and install_refuses: "install e s = (r, s') \<Longrightarrow> r \<noteq> InstallResult.kInstalled \<Longrightarrow> s' = s"
    and step_seen: "seen (live_step s op) = seen s \<or> (\<exists>g. seen (live_step s op) = history_remember g (seen s))"
begin

lemma step_bounded:
  "length (seen s) \<le> kGenerationHistoryCapacity \<Longrightarrow> length (seen (live_step s op)) \<le> kGenerationHistoryCapacity"
  using step_seen [of s op] history_remember_bounded by metis

lemma run_remembers:
  "remembered k g (seen s) \<Longrightarrow> k + length ops < kGenerationHistoryCapacity \<Longrightarrow>
   remembered (k + length ops) g (seen (foldl live_step s ops))"
proof (induction ops arbitrary: s k)
  case Nil
  then show ?case by simp
next
  case (Cons op ops)
  have "remembered (Suc k) g (seen (live_step s op))"
    using step_seen [of s op] Cons.prems
      remembered_next [of k g "seen s"] remembered_weaken [of k g "seen s" "Suc k"] by auto
  from Cons.IH [OF this] Cons.prems show ?case by simp
qed

text \<open>
  A generation that was installed is refused on its axis through every sequence of fewer than
  \<open>kGenerationHistoryCapacity\<close> further operations, whichever methods they are.
\<close>

lemma replay_refused:
  assumes "install e s = (InstallResult.kInstalled, s')" "length (seen s) \<le> kGenerationHistoryCapacity"
    and "length ops < kGenerationHistoryCapacity" "generation_of e' = generation_of e"
  shows "fst (install e' (foldl live_step s' ops)) \<noteq> InstallResult.kInstalled"
proof
  assume "fst (install e' (foldl live_step s' ops)) = InstallResult.kInstalled"
  then have "generation_of e' \<notin> set (seen (foldl live_step s' ops))"
    using install_accepts by (metis prod.collapse)
  moreover have "remembered 0 (generation_of e) (seen s')"
    using install_accepts [OF assms(1)] remembered_new assms(2) by simp
  then have "remembered (0 + length ops) (generation_of e) (seen (foldl live_step s' ops))"
    using assms(3) by (intro run_remembers) simp_all
  ultimately show False using assms(4) remembered_mem by metis
qed

end

text \<open>Which histories a method appends to.\<close>

definition appends :: "GenerationHistory \<Rightarrow> GenerationHistory \<Rightarrow> bool" where
  "appends seen seen' \<longleftrightarrow> seen' = seen \<or> (\<exists>g. seen' = history_remember g seen)"

lemma install_appends:
  "appends (au_policy_history s) (au_policy_history (snd (install_policy p s)))"
  "appends (au_topology_history s) (au_topology_history (snd (install_topology t s)))"
  "appends (au_capacity_history s) (au_capacity_history (snd (install_capacity c s)))"
  "appends (au_congestion_history s) (au_congestion_history (snd (install_congestion g s)))"
  by (auto simp: appends_def install_policy_def install_topology_def install_capacity_def
      install_congestion_def Let_def invalidate_dynamic_evidence_def)

lemma peer_ops_histories:
  "au_policy_history (snd (publish_liveness l s)) = au_policy_history s"
  "au_topology_history (snd (publish_liveness l s)) = au_topology_history s"
  "au_capacity_history (snd (publish_liveness l s)) = au_capacity_history s"
  "au_congestion_history (snd (publish_liveness l s)) = au_congestion_history s"
  by (simp_all add: publish_liveness_def Let_def store_peer_def raise_incarnation_def split: option.split)

lemma live_step_appends:
  "appends (au_policy_history s) (au_policy_history (live_step s op))"
  "appends (au_topology_history s) (au_topology_history (live_step s op))"
  "appends (au_capacity_history s) (au_capacity_history (live_step s op))"
  "appends (au_congestion_history s) (au_congestion_history (live_step s op))"
  by (cases op; simp add: install_appends; simp add: appends_def install_policy_def install_topology_def
      install_capacity_def install_congestion_def peer_ops_histories Let_def invalidate_dynamic_evidence_def
      heartbeat_def store_peer_def raise_incarnation_def expire_session_def expire_due_def set_freshness_policy_def)+

lemma canonicalize_generations [simp]:
  "topo_generation (topology_canonicalize t) = topo_generation t"
  "cap_generation (capacity_canonicalize c) = cap_generation c"
  "cap_topology_generation (capacity_canonicalize c) = cap_topology_generation c"
  "con_generation (congestion_canonicalize g) = con_generation g"
  "con_topology_generation (congestion_canonicalize g) = con_topology_generation g"
  by (simp_all add: topology_canonicalize_def capacity_canonicalize_def congestion_canonicalize_def)

interpretation policy_axis: install_axis install_policy pol_generation au_policy_history au_policy_generation
proof
  show "au_policy_history (live_step s op) = au_policy_history s \<or>
      (\<exists>g. au_policy_history (live_step s op) = history_remember g (au_policy_history s))" for s op
    using live_step_appends(1) unfolding appends_def .
qed (auto simp: install_policy_def is_some_def split: if_splits)

interpretation topology_axis: install_axis install_topology topo_generation au_topology_history
  au_topology_generation
proof
  show "au_topology_history (live_step s op) = au_topology_history s \<or>
      (\<exists>g. au_topology_history (live_step s op) = history_remember g (au_topology_history s))" for s op
    using live_step_appends(2) unfolding appends_def .
qed (auto simp: install_topology_def Let_def topology_validate_ok invalidate_dynamic_evidence_def
      split: if_splits)

interpretation capacity_axis: install_axis install_capacity cap_generation au_capacity_history
  au_capacity_generation
proof
  show "au_capacity_history (live_step s op) = au_capacity_history s \<or>
      (\<exists>g. au_capacity_history (live_step s op) = history_remember g (au_capacity_history s))" for s op
    using live_step_appends(3) unfolding appends_def .
qed (auto simp: install_capacity_def Let_def capacity_validate_ok split: if_splits)

interpretation congestion_axis: install_axis install_congestion con_generation au_congestion_history
  au_congestion_generation
proof
  show "au_congestion_history (live_step s op) = au_congestion_history s \<or>
      (\<exists>g. au_congestion_history (live_step s op) = history_remember g (au_congestion_history s))" for s op
    using live_step_appends(4) unfolding appends_def .
qed (auto simp: install_congestion_def Let_def congestion_validate_ok split: if_splits)


section \<open>The invariant\<close>

definition peer_entry_ok :: "ParticipantId \<Rightarrow> PeerLiveness option \<Rightarrow> BootIncarnation option \<Rightarrow> bool" where
  "peer_entry_ok p l highest \<longleftrightarrow>
     (case l of None \<Rightarrow> highest = None
      | Some l \<Rightarrow> pl_participant l = p \<and> highest = Some (pl_incarnation l))"

definition peers_inv :: "AuthorityState \<Rightarrow> bool" where
  "peers_inv s \<longleftrightarrow>
     idm_wf (au_peers s) \<and> idm_wf (au_highest_incarnation s) \<and>
     (\<forall>p. peer_entry_ok p (idm_find (au_peers s) p) (idm_find (au_highest_incarnation s) p))"

definition evidence_inv :: "AuthorityState \<Rightarrow> bool" where
  "evidence_inv s \<longleftrightarrow>
     (case au_policy s of None \<Rightarrow> au_policy_generation s = no_identity
      | Some p \<Rightarrow> is_ok (policy_validate p) \<and> pol_generation p = au_policy_generation s) \<and>
     (case au_topology s of None \<Rightarrow> au_topology_generation s = no_identity
      | Some t \<Rightarrow> is_ok (topology_validate t) \<and> topo_generation t = au_topology_generation s) \<and>
     (case au_capacity s of None \<Rightarrow> au_capacity_generation s = no_identity
      | Some c \<Rightarrow> is_ok (capacity_validate c) \<and> cap_generation c = au_capacity_generation s \<and>
                 cap_topology_generation c = au_topology_generation s \<and> au_topology s \<noteq> None) \<and>
     (case au_congestion s of None \<Rightarrow> au_congestion_generation s = no_identity
      | Some c \<Rightarrow> is_ok (congestion_validate c) \<and> con_generation c = au_congestion_generation s \<and>
                 con_topology_generation c = au_topology_generation s \<and> au_topology s \<noteq> None)"

definition histories_inv :: "AuthorityState \<Rightarrow> bool" where
  "histories_inv s \<longleftrightarrow>
     length (au_policy_history s) \<le> kGenerationHistoryCapacity \<and>
     length (au_topology_history s) \<le> kGenerationHistoryCapacity \<and>
     length (au_capacity_history s) \<le> kGenerationHistoryCapacity \<and>
     length (au_congestion_history s) \<le> kGenerationHistoryCapacity"

definition authority_inv :: "AuthorityState \<Rightarrow> bool" where
  "authority_inv s \<longleftrightarrow> peers_inv s \<and> evidence_inv s \<and> histories_inv s"

lemma authority_inv_new: "authority_inv AuthorityState_new"
  by (simp add: authority_inv_def peers_inv_def evidence_inv_def histories_inv_def AuthorityState_new_def
      peer_entry_ok_def)

lemma peers_inv_cong:
  "au_peers s' = au_peers s \<Longrightarrow> au_highest_incarnation s' = au_highest_incarnation s \<Longrightarrow>
   peers_inv s' = peers_inv s"
  by (simp add: peers_inv_def)

lemma install_keeps_peers:
  "au_peers (snd (install_policy p s)) = au_peers s"
  "au_peers (snd (install_topology t s)) = au_peers s"
  "au_peers (snd (install_capacity c s)) = au_peers s"
  "au_peers (snd (install_congestion g s)) = au_peers s"
  "au_highest_incarnation (snd (install_policy p s)) = au_highest_incarnation s"
  "au_highest_incarnation (snd (install_topology t s)) = au_highest_incarnation s"
  "au_highest_incarnation (snd (install_capacity c s)) = au_highest_incarnation s"
  "au_highest_incarnation (snd (install_congestion g s)) = au_highest_incarnation s"
  by (simp_all add: install_policy_def install_topology_def install_capacity_def install_congestion_def
      Let_def invalidate_dynamic_evidence_def)

lemma install_policy_inv: "authority_inv s \<Longrightarrow> authority_inv (snd (install_policy p s))"
  using peers_inv_cong [OF install_keeps_peers(1,5)]
  by (auto simp: authority_inv_def install_policy_def evidence_inv_def histories_inv_def
      history_remember_bounded split: if_splits option.splits)

lemma install_topology_inv: "authority_inv s \<Longrightarrow> authority_inv (snd (install_topology t s))"
  using peers_inv_cong [OF install_keeps_peers(2,6)]
  by (auto simp: authority_inv_def install_topology_def Let_def evidence_inv_def histories_inv_def
      invalidate_dynamic_evidence_def history_remember_bounded split: if_splits option.splits)

lemma install_capacity_inv: "authority_inv s \<Longrightarrow> authority_inv (snd (install_capacity c s))"
  using peers_inv_cong [OF install_keeps_peers(3,7)]
  by (auto simp: authority_inv_def install_capacity_def Let_def evidence_inv_def histories_inv_def
      history_remember_bounded split: if_splits option.splits)

lemma install_congestion_inv: "authority_inv s \<Longrightarrow> authority_inv (snd (install_congestion c s))"
  using peers_inv_cong [OF install_keeps_peers(4,8)]
  by (auto simp: authority_inv_def install_congestion_def Let_def evidence_inv_def histories_inv_def
      history_remember_bounded split: if_splits option.splits)

lemma invalidate_inv: "authority_inv s \<Longrightarrow> authority_inv (invalidate_dynamic_evidence s)"
  by (simp add: authority_inv_def invalidate_dynamic_evidence_def evidence_inv_def histories_inv_def
      peers_inv_def split: option.splits)

text \<open>The participant methods touch the peer table only.\<close>

definition same_evidence :: "AuthorityState \<Rightarrow> AuthorityState \<Rightarrow> bool" where
  "same_evidence s s' \<longleftrightarrow>
     s' = s\<lparr>au_peers := au_peers s', au_highest_incarnation := au_highest_incarnation s'\<rparr>"

lemma same_evidence_inv:
  assumes "same_evidence s s'" "authority_inv s" "peers_inv s'"
  shows "authority_inv s'"
proof -
  have "evidence_inv (s\<lparr>au_peers := x, au_highest_incarnation := y\<rparr>) = evidence_inv s"
    "histories_inv (s\<lparr>au_peers := x, au_highest_incarnation := y\<rparr>) = histories_inv s" for x y
    by (simp_all add: evidence_inv_def histories_inv_def cong: option.case_cong)
  with assms show ?thesis unfolding same_evidence_def authority_inv_def by metis
qed

lemma same_evidence_refl [simp]: "same_evidence s s"
  by (simp add: same_evidence_def)

lemma same_evidence_store [simp]:
  "same_evidence s (store_peer p l s)" "same_evidence s (store_peer p l (raise_incarnation q i s))"
  "same_evidence s (s\<lparr>au_peers := peers\<rparr>)"
  by (cases s; simp add: same_evidence_def store_peer_def raise_incarnation_def)+

lemma store_both_inv:
  assumes "peers_inv s" "pl_participant l = p" "pl_incarnation l = i"
  shows "peers_inv (store_peer p l (raise_incarnation p i s))"
  using assms by (simp add: peers_inv_def store_peer_def raise_incarnation_def peer_entry_ok_def)

lemma store_same_inv:
  assumes "peers_inv s" "pl_participant l = p" "idm_find (au_highest_incarnation s) p = Some (pl_incarnation l)"
  shows "peers_inv (store_peer p l s)"
  using assms by (simp add: peers_inv_def store_peer_def peer_entry_ok_def)

lemma publish_inv: "authority_inv s \<Longrightarrow> authority_inv (snd (publish_liveness l s))"
proof (rule same_evidence_inv [of s])
  show "same_evidence s (snd (publish_liveness l s))"
    by (simp add: publish_liveness_def Let_def split: option.split)
  assume "authority_inv s"
  then have "peers_inv s" by (simp add: authority_inv_def)
  then show "peers_inv (snd (publish_liveness l s))"
    by (auto simp: publish_liveness_def Let_def split: option.split intro: store_both_inv store_same_inv)
qed

lemma heartbeat_inv: "authority_inv s \<Longrightarrow> authority_inv (snd (heartbeat p i now ttl s))"
proof (rule same_evidence_inv [of s])
  show "same_evidence s (snd (heartbeat p i now ttl s))" by (simp add: heartbeat_def Let_def)
  assume "authority_inv s"
  then have "peers_inv s" by (simp add: authority_inv_def)
  then show "peers_inv (snd (heartbeat p i now ttl s))"
    by (simp add: heartbeat_def Let_def store_both_inv)
qed

lemma each_peer_inv:
  assumes "peers_inv s" "\<And>l. pl_participant (f l) = pl_participant l" "\<And>l. pl_incarnation (f l) = pl_incarnation l"
  shows "peers_inv (s\<lparr>au_peers := idm_each f (au_peers s)\<rparr>)"
  unfolding peers_inv_def
proof (intro conjI allI)
  fix p
  have "peer_entry_ok p (idm_find (au_peers s) p) (idm_find (au_highest_incarnation s) p)"
    using assms(1) by (simp add: peers_inv_def)
  then show "peer_entry_ok p (idm_find (au_peers (s\<lparr>au_peers := idm_each f (au_peers s)\<rparr>)) p)
      (idm_find (au_highest_incarnation (s\<lparr>au_peers := idm_each f (au_peers s)\<rparr>)) p)"
    using assms(2,3) by (cases "idm_find (au_peers s) p") (simp_all add: peer_entry_ok_def)
qed (use assms(1) in \<open>simp_all add: peers_inv_def\<close>)

lemma expire_inv:
  assumes "authority_inv s"
  shows "authority_inv (snd (expire_session session now s))" "authority_inv (snd (expire_due now s))"
proof -
  have p: "peers_inv s" using assms by (simp add: authority_inv_def)
  show "authority_inv (snd (expire_session session now s))"
    by (rule same_evidence_inv [OF _ assms])
      (auto simp: expire_session_def Let_def fence_def intro!: each_peer_inv p)
  show "authority_inv (snd (expire_due now s))"
    by (rule same_evidence_inv [OF _ assms])
      (auto simp: expire_due_def Let_def fence_def intro!: each_peer_inv p)
qed

lemma freshness_inv: "authority_inv s \<Longrightarrow> authority_inv (set_freshness_policy f s)"
  by (simp add: authority_inv_def set_freshness_policy_def evidence_inv_def histories_inv_def peers_inv_def
      cong: option.case_cong)

lemma live_step_inv: "authority_inv s \<Longrightarrow> authority_inv (live_step s op)"
  by (cases op) (simp_all add: install_policy_inv install_topology_inv install_capacity_inv
      install_congestion_inv invalidate_inv publish_inv heartbeat_inv expire_inv freshness_inv)

text \<open>What a durable record must satisfy to be restored, and the state it gives.\<close>

definition durable_ok :: "DurableAuthority \<Rightarrow> bool" where
  "durable_ok d \<longleftrightarrow>
     (is_some (da_topology_generation d) \<longrightarrow>
        is_ok (topology_validate (da_topology d)) \<and> topo_generation (da_topology d) = da_topology_generation d) \<and>
     (is_some (da_policy_generation d) \<longrightarrow>
        is_ok (policy_validate (da_policy d)) \<and> pol_generation (da_policy d) = da_policy_generation d)"

lemma restore_refused: "\<not> durable_ok d \<Longrightarrow> \<not> is_ok (fst (restore_durable d now s)) \<and> snd (restore_durable d now s) = s"
  by (auto simp: restore_durable_def Let_def durable_ok_def)

lemma restore_accepted:
  assumes "durable_ok d"
  shows "is_ok (fst (restore_durable d now s))"
    and "snd (restore_durable d now s) = s
      \<lparr>au_last_durable_epoch := da_last_epoch d,
       au_topology_generation :=
         (if is_some (da_topology_generation d) then da_topology_generation d else au_topology_generation s),
       au_topology := (if is_some (da_topology_generation d) then Some (da_topology d) else au_topology s),
       au_policy_generation :=
         (if is_some (da_policy_generation d) then da_policy_generation d else au_policy_generation s),
       au_policy := (if is_some (da_policy_generation d) then Some (da_policy d) else au_policy s),
       au_capacity := None, au_congestion := None, au_capacity_generation := no_identity,
       au_congestion_generation := no_identity, au_peers := [], au_highest_incarnation := [],
       au_boot_monotonic_ms := now\<rparr>"
proof -
  have c: "\<not> (is_some (da_topology_generation d) \<and> \<not> is_ok (topology_validate (da_topology d)))"
    "\<not> (is_some (da_topology_generation d) \<and> topo_generation (da_topology d) \<noteq> da_topology_generation d)"
    "\<not> (is_some (da_policy_generation d) \<and> \<not> is_ok (policy_validate (da_policy d)))"
    "\<not> (is_some (da_policy_generation d) \<and> pol_generation (da_policy d) \<noteq> da_policy_generation d)"
    using assms by (simp_all add: durable_ok_def)
  note eq = restore_durable_def [of d now s, unfolded Let_def if_not_P [OF c(1)] if_not_P [OF c(2)]
      if_not_P [OF c(3)] if_not_P [OF c(4)]]
  show "is_ok (fst (restore_durable d now s))" by (simp add: eq)
  show "snd (restore_durable d now s) = s
      \<lparr>au_last_durable_epoch := da_last_epoch d,
       au_topology_generation :=
         (if is_some (da_topology_generation d) then da_topology_generation d else au_topology_generation s),
       au_topology := (if is_some (da_topology_generation d) then Some (da_topology d) else au_topology s),
       au_policy_generation :=
         (if is_some (da_policy_generation d) then da_policy_generation d else au_policy_generation s),
       au_policy := (if is_some (da_policy_generation d) then Some (da_policy d) else au_policy s),
       au_capacity := None, au_congestion := None, au_capacity_generation := no_identity,
       au_congestion_generation := no_identity, au_peers := [], au_highest_incarnation := [],
       au_boot_monotonic_ms := now\<rparr>"
    unfolding eq by (cases s) (simp add: invalidate_dynamic_evidence_def)
qed

lemma restore_inv:
  assumes "authority_inv s"
  shows "authority_inv (snd (restore_durable d now s))"
proof (cases "durable_ok d")
  case False
  with assms show ?thesis by (simp add: restore_refused)
next
  case True
  have p: "case au_policy s of None \<Rightarrow> au_policy_generation s = no_identity
      | Some p \<Rightarrow> is_ok (policy_validate p) \<and> pol_generation p = au_policy_generation s"
    "case au_topology s of None \<Rightarrow> au_topology_generation s = no_identity
      | Some t \<Rightarrow> is_ok (topology_validate t) \<and> topo_generation t = au_topology_generation s"
    using assms by (simp_all add: authority_inv_def evidence_inv_def)
  show ?thesis
    unfolding authority_inv_def
  proof (intro conjI)
    show "evidence_inv (snd (restore_durable d now s))"
      unfolding restore_accepted(2) [OF True] evidence_inv_def using True p
      by (simp add: durable_ok_def cong: option.case_cong)
  qed (use assms in \<open>simp_all add: restore_accepted(2) [OF True] authority_inv_def peers_inv_def
      histories_inv_def peer_entry_ok_def\<close>)
qed

lemma begin_boot_Some:
  assumes "begin_boot e s ms = Some (c, s', ms')"
  shows "mint_fresh e (au_epoch s) ms = Some (c, ms')"
    "s' = invalidate_dynamic_evidence
       (s\<lparr>au_last_durable_epoch := e, au_epoch := c, au_peers := [], au_highest_incarnation := []\<rparr>)"
  using assms by (auto simp: begin_boot_def split: option.splits)

lemma boot_inv:
  assumes "authority_inv s" "begin_boot e s ms = Some (c, s', ms')"
  shows "authority_inv s'"
  unfolding begin_boot_Some(2) [OF assms(2)]
proof (rule invalidate_inv)
  show "authority_inv (s\<lparr>au_last_durable_epoch := e, au_epoch := c, au_peers := [], au_highest_incarnation := []\<rparr>)"
    using assms(1) by (simp add: authority_inv_def evidence_inv_def histories_inv_def peers_inv_def
        peer_entry_ok_def cong: option.case_cong)
qed

interpretation authority_run: invariant_system authority_step "\<lambda>(s, ms). authority_inv s"
proof
  fix sm :: "AuthorityState \<times> mint_source" and op
  assume inv: "case sm of (s, ms) \<Rightarrow> authority_inv s"
  obtain s ms where sm: "sm = (s, ms)" by (cases sm)
  show "case authority_step sm op of (s, ms) \<Rightarrow> authority_inv s"
    using inv sm boot_inv [of s]
    by (cases op) (auto simp: live_step_inv restore_inv split: option.split)
qed


section \<open>Fencing\<close>

definition fenced_at :: "ParticipantId \<Rightarrow> BootIncarnation \<Rightarrow> AuthorityState \<Rightarrow> bool" where
  "fenced_at p i s \<longleftrightarrow>
     (\<exists>l. idm_find (au_peers s) p = Some l \<and> (i < pl_incarnation l \<or> i = pl_incarnation l \<and> pl_state l = ParticipantState.kFenced))"

lemma fenced_highest:
  assumes "peers_inv s" "idm_find (au_peers s) p = Some l"
  shows "idm_find (au_highest_incarnation s) p = Some (pl_incarnation l)" "pl_participant l = p"
proof -
  have "peer_entry_ok p (idm_find (au_peers s) p) (idm_find (au_highest_incarnation s) p)"
    using assms(1) by (simp add: peers_inv_def)
  with assms(2) show "idm_find (au_highest_incarnation s) p = Some (pl_incarnation l)" "pl_participant l = p"
    by (simp_all add: peer_entry_ok_def)
qed

lemma fenced_at_peers: "au_peers s' = au_peers s \<Longrightarrow> fenced_at p i s' = fenced_at p i s"
  by (simp add: fenced_at_def)

lemma publish_fenced:
  assumes "peers_inv s" "fenced_at p i s"
  shows "fenced_at p i (snd (publish_liveness l s))"
proof (cases "pl_participant l = p")
  case False
  with assms(2) show ?thesis
    by (simp add: publish_liveness_def Let_def fenced_at_def store_peer_def raise_incarnation_def split: option.split)
next
  case True
  obtain k where k: "idm_find (au_peers s) p = Some k"
    "i < pl_incarnation k \<or> i = pl_incarnation k \<and> pl_state k = ParticipantState.kFenced"
    using assms(2) by (auto simp: fenced_at_def)
  note h = fenced_highest(1) [OF assms(1) k(1)]
  consider "pl_incarnation l < pl_incarnation k" | "pl_incarnation l = pl_incarnation k"
    | "pl_incarnation k < pl_incarnation l" by fastforce
  then show ?thesis
  proof cases
    case 2
    with True k h assms(2) show ?thesis
      by (auto simp: publish_liveness_def Let_def fenced_at_def store_peer_def)
  next
    case 3
    then have "i < pl_incarnation l" using k(2) by auto
    with 3 True k h assms(2) show ?thesis
      by (auto simp: publish_liveness_def Let_def fenced_at_def store_peer_def raise_incarnation_def)
  qed (use True k h assms(2) in \<open>simp add: publish_liveness_def Let_def fenced_at_def\<close>)
qed

lemma heartbeat_fenced:
  assumes "peers_inv s" "fenced_at p i s"
  shows "fenced_at p i (snd (heartbeat q j now ttl s))"
proof (cases "q = p")
  case False
  with assms(2) show ?thesis
    by (simp add: heartbeat_def Let_def fenced_at_def store_peer_def raise_incarnation_def)
next
  case True
  obtain k where k: "idm_find (au_peers s) p = Some k"
    "i < pl_incarnation k \<or> i = pl_incarnation k \<and> pl_state k = ParticipantState.kFenced"
    using assms(2) by (auto simp: fenced_at_def)
  note h = fenced_highest(1) [OF assms(1) k(1)]
  consider "j < pl_incarnation k" | "j = pl_incarnation k" | "pl_incarnation k < j" by fastforce
  then show ?thesis
  proof cases
    case 3
    then have "i < j" using k(2) by auto
    with 3 True k h assms(2) show ?thesis
      by (auto simp: heartbeat_def Let_def fenced_at_def store_peer_def raise_incarnation_def)
  qed (use True k h assms(2) in \<open>auto simp: heartbeat_def Let_def fenced_at_def store_peer_def raise_incarnation_def\<close>)
qed

lemma expire_fenced:
  assumes "fenced_at p i s"
  shows "fenced_at p i (snd (expire_session session now s))" "fenced_at p i (snd (expire_due now s))"
proof -
  obtain l where l: "idm_find (au_peers s) p = Some l"
    "i < pl_incarnation l \<or> i = pl_incarnation l \<and> pl_state l = ParticipantState.kFenced"
    using assms by (auto simp: fenced_at_def)
  then show "fenced_at p i (snd (expire_session session now s))" "fenced_at p i (snd (expire_due now s))"
    by (simp_all add: expire_session_def expire_due_def Let_def fenced_at_def fence_def) blast+
qed

lemma live_step_fenced:
  assumes "authority_inv s" "fenced_at p i s"
  shows "fenced_at p i (live_step s op)"
proof -
  have inv: "peers_inv s" using assms(1) by (simp add: authority_inv_def)
  show ?thesis
    using assms(2) publish_fenced [OF inv assms(2)] heartbeat_fenced [OF inv assms(2)] expire_fenced [OF assms(2)]
      install_keeps_peers
    by (cases op) (simp_all add: fenced_at_def invalidate_dynamic_evidence_def set_freshness_policy_def)
qed

interpretation fence_run: invariant_system live_step "\<lambda>s. authority_inv s \<and> fenced_at p i s" for p i
  by unfold_locales (simp add: live_step_inv live_step_fenced)


section \<open>Snapshots\<close>

lemma idm_values_participants:
  assumes "peers_inv s"
  shows "distinct (map pl_participant (idm_values (au_peers s)))"
proof -
  have keys: "map pl_participant (idm_values (au_peers s)) = map fst (au_peers s)"
  proof -
    have wf: "distinct (map fst (au_peers s))" using assms by (simp add: peers_inv_def idm_wf_def)
    have "pl_participant l = p" if "(p, l) \<in> set (au_peers s)" for p l
      using fenced_highest(2) [OF assms, of p l] wf that by (simp add: idm_find_def)
    then show ?thesis by (auto simp: idm_values_def)
  qed
  show ?thesis unfolding keys using assms by (simp add: peers_inv_def idm_wf_def)
qed

lemma snapshot_find_peer:
  assumes "peers_inv s"
  shows "find_peer (authority_snapshot now s) p = idm_find (au_peers s) p"
proof -
  let ?xs = "std_sort (\<lambda>a b. pl_participant a < pl_participant b) (idm_values (au_peers s))"
  have asc: "ascending pl_participant ?xs"
    by (rule std_sort_ascending [OF idm_values_participants [OF assms]])
  have "find_peer (authority_snapshot now s) p = Some l \<longleftrightarrow> idm_find (au_peers s) p = Some l" for l
  proof -
    have "find_peer (authority_snapshot now s) p = Some l \<longleftrightarrow> l \<in> set (idm_values (au_peers s)) \<and> pl_participant l = p"
      by (simp add: find_peer_def authority_snapshot_def binary_find_mem [OF asc] set_std_sort)
    also have "\<dots> \<longleftrightarrow> idm_find (au_peers s) p = Some l"
      using assms idm_values_find [of "au_peers s" l] fenced_highest(2) [OF assms]
      by (auto simp: peers_inv_def)
    finally show ?thesis .
  qed
  then show ?thesis by (metis not_Some_eq)
qed


section \<open>Properties of the authority\<close>

text \<open>
  Whatever sequence of installations, publications, heartbeats, expiries, restores and boots
  a coordinator executes, its state stays consistent: the peer table and the fencing table
  describe the same participants and incarnations, installed policy and evidence passed
  validation and carry the advertised generations, capacity and congestion always describe
  the installed topology, and the replay histories stay within their bound.
\<close>

theorem authority_invariant:
  "authority_inv (fst (foldl authority_step (AuthorityState_new, ms) ops))"
  using authority_run.run_inv [of "(AuthorityState_new, ms)" ops] authority_inv_new
  by (simp add: case_prod_unfold)

text \<open>
  C19: Fencing is permanent within a boot. Once the session that published a participant is torn
  down, then after any sequence of authority operations the participant is still recorded, and
  either under a strictly greater incarnation or as fenced: nothing can make the dead
  incarnation live again.
\<close>

theorem fenced_for_good:
  assumes "authority_inv s" "idm_find (au_peers s) p = Some l" "pl_bound_session l = session" "is_some session"
  shows "\<exists>l'. idm_find (au_peers (foldl live_step (snd (expire_session session now s)) ops)) p = Some l' \<and>
    (pl_incarnation l < pl_incarnation l' \<or>
     pl_incarnation l' = pl_incarnation l \<and> pl_state l' = ParticipantState.kFenced)"
proof -
  have "fenced_at p (pl_incarnation l) (snd (expire_session session now s))"
    using assms(2-4) by (simp add: fenced_at_def expire_session_def Let_def fence_def)
  with fence_run.run_inv [of "snd (expire_session session now s)" p "pl_incarnation l" ops] expire_inv(1) [OF assms(1)]
  show ?thesis by (auto simp: fenced_at_def)
qed

definition sample_authority_state :: AuthorityState where
  "sample_authority_state = snd (publish_liveness ((sample_peer 10 1)\<lparr>pl_bound_session := Identity 8 1\<rparr>)
     AuthorityState_new)"

lemma sample_authority_find:
  "idm_find (au_peers sample_authority_state) (Identity 1 10) =
     Some ((sample_peer 10 1)\<lparr>pl_bound_session := Identity 8 1\<rparr>)"
  by (simp add: sample_authority_state_def publish_liveness_def AuthorityState_new_def sample_peer_def is_none_def
      store_peer_def raise_incarnation_def kPeersMax_def Let_def)

theorem fenced_for_good_witness:
  "\<exists>l'. idm_find (au_peers (foldl live_step (snd (expire_session (Identity 8 1) 2000 sample_authority_state))
       [Publish (sample_peer 10 1), Heartbeat (Identity 1 10) (Identity 0 1) 2500 10000])) (Identity 1 10) = Some l' \<and>
     (Identity 0 1 < pl_incarnation l' \<or>
      pl_incarnation l' = Identity 0 1 \<and> pl_state l' = ParticipantState.kFenced)"
proof -
  have "authority_inv sample_authority_state"
    unfolding sample_authority_state_def by (intro publish_inv authority_inv_new)
  from fenced_for_good [OF this sample_authority_find, of "Identity 8 1" 2000
      "[Publish (sample_peer 10 1), Heartbeat (Identity 1 10) (Identity 0 1) 2500 10000]"]
  show ?thesis by (simp add: is_some_def is_none_def, simp add: sample_peer_def)
qed

text \<open>
  C30: Replays are refused. An evidence or policy generation that was once installed is refused on
  its axis after any sequence of fewer than 64 further authority operations.
\<close>

theorem generation_replay_refused:
  assumes "authority_inv s" "length ops < 64"
  shows "(install_policy p s = (InstallResult.kInstalled, s') \<and> pol_generation p' = pol_generation p \<longrightarrow>
      fst (install_policy p' (foldl live_step s' ops)) \<noteq> InstallResult.kInstalled) \<and>
    (install_topology t s = (InstallResult.kInstalled, s') \<and> topo_generation t' = topo_generation t \<longrightarrow>
      fst (install_topology t' (foldl live_step s' ops)) \<noteq> InstallResult.kInstalled) \<and>
    (install_capacity c s = (InstallResult.kInstalled, s') \<and> cap_generation c' = cap_generation c \<longrightarrow>
      fst (install_capacity c' (foldl live_step s' ops)) \<noteq> InstallResult.kInstalled) \<and>
    (install_congestion g s = (InstallResult.kInstalled, s') \<and> con_generation g' = con_generation g \<longrightarrow>
      fst (install_congestion g' (foldl live_step s' ops)) \<noteq> InstallResult.kInstalled)"
proof -
  have h: "length (au_policy_history s) \<le> kGenerationHistoryCapacity"
    "length (au_topology_history s) \<le> kGenerationHistoryCapacity"
    "length (au_capacity_history s) \<le> kGenerationHistoryCapacity"
    "length (au_congestion_history s) \<le> kGenerationHistoryCapacity"
    "length ops < kGenerationHistoryCapacity"
    using assms by (simp_all add: authority_inv_def histories_inv_def kGenerationHistoryCapacity_def)
  show ?thesis
    using policy_axis.replay_refused [OF _ h(1,5)] topology_axis.replay_refused [OF _ h(2,5)]
      capacity_axis.replay_refused [OF _ h(3,5)] congestion_axis.replay_refused [OF _ h(4,5)] by blast
qed

lemma standard_policy_valid: "is_some g \<Longrightarrow> is_ok (policy_validate (standard_policy g))"
  by (simp add: policy_validate_ok standard_policy_def TrafficPolicy_default_def add_class_def
      add_collective_def class_policy_ok_def kMaximumPriority_def kUnlimitedRate_def find_class_def
      find_collective_def response_is_valid_def CongestionResponseTable_default_def kBucketCount_def
      upt_rec word_le_nat_alt word_less_nat_alt)

lemma standard_policy_generation [simp]: "pol_generation (standard_policy g) = g"
  by (simp add: standard_policy_def)

lemma install_standard:
  assumes "is_some g" "au_policy s = None \<or> au_policy_generation s \<noteq> g" "g \<notin> set (au_policy_history s)"
  shows "install_policy (standard_policy g) s =
    (InstallResult.kInstalled,
     s\<lparr>au_policy_history := history_remember g (au_policy_history s), au_policy_generation := g,
       au_policy := Some (standard_policy g)\<rparr>)"
  using assms standard_policy_valid [OF assms(1)] by (auto simp: install_policy_def is_some_def)

theorem generation_replay_refused_witness:
  "fst (install_policy (standard_policy (Identity 7 1))
     (foldl live_step (snd (install_policy (standard_policy (Identity 7 1)) AuthorityState_new))
        [InstallPolicy (standard_policy (Identity 7 2))])) \<noteq> InstallResult.kInstalled"
proof -
  have i: "install_policy (standard_policy (Identity 7 1)) AuthorityState_new =
     (InstallResult.kInstalled, snd (install_policy (standard_policy (Identity 7 1)) AuthorityState_new))"
    by (simp add: install_standard is_some_def is_none_def AuthorityState_new_def)
  show ?thesis
    using generation_replay_refused [OF authority_inv_new,
        of "[InstallPolicy (standard_policy (Identity 7 2))]" "standard_policy (Identity 7 1)"
           "snd (install_policy (standard_policy (Identity 7 1)) AuthorityState_new)" "standard_policy (Identity 7 1)"] i
    by simp
qed

text \<open>
  A restored generation is not remembered. After a restart the policy that was current when
  the state was saved can be superseded and then reinstalled: the replay history starts empty
  and the restore does not add to it.
\<close>

theorem restored_generation_replayed:
  "let s0 = snd (install_policy (standard_policy (Identity 7 1)) AuthorityState_new);
       s1 = snd (restore_durable (durable_snapshot s0) 0 AuthorityState_new);
       s2 = snd (install_policy (standard_policy (Identity 7 2)) s1)
   in au_policy_generation s1 = Identity 7 1 \<and> au_policy_generation s2 = Identity 7 2 \<and>
      fst (install_policy (standard_policy (Identity 7 1)) s2) = InstallResult.kInstalled"
proof -
  have g: "is_some (Identity 7 1)" "is_some (Identity 7 2)" by (simp_all add: is_some_def is_none_def)
  define s0 where "s0 = snd (install_policy (standard_policy (Identity 7 1)) AuthorityState_new)"
  have s0: "au_policy s0 = Some (standard_policy (Identity 7 1))" "au_policy_generation s0 = Identity 7 1"
    "au_topology_generation s0 = no_identity" "au_epoch s0 = no_identity"
    unfolding s0_def using install_standard [OF g(1), of AuthorityState_new] by (simp_all add: AuthorityState_new_def)
  define s1 where "s1 = snd (restore_durable (durable_snapshot s0) 0 AuthorityState_new)"
  have "durable_ok (durable_snapshot s0)"
    using standard_policy_valid [OF g(1)] s0
    by (simp add: durable_ok_def durable_snapshot_def policy_snapshot_def is_some_def is_none_def no_identity_def)
  from restore_accepted(2) [OF this, of 0 AuthorityState_new]
  have s1: "au_policy_generation s1 = Identity 7 1" "au_policy_history s1 = []"
    unfolding s1_def using s0 g by (simp_all add: durable_snapshot_def AuthorityState_new_def)
  have s2: "snd (install_policy (standard_policy (Identity 7 2)) s1) =
     s1\<lparr>au_policy_history := history_remember (Identity 7 2) (au_policy_history s1), au_policy_generation := Identity 7 2,
       au_policy := Some (standard_policy (Identity 7 2))\<rparr>"
    using install_standard [OF g(2), of s1] s1 by simp
  have "fst (install_policy (standard_policy (Identity 7 1)) (snd (install_policy (standard_policy (Identity 7 2)) s1))) =
      InstallResult.kInstalled"
    unfolding s2 using s1
    by (subst install_standard [OF g(1)]) (simp_all add: history_remember_def kGenerationHistoryCapacity_def is_none_def)
  with s1 s2 show ?thesis by (simp add: Let_def flip: s0_def s1_def)
qed

text \<open>
  C33: Starting a boot always terminates with an epoch that is set and differs from both the last
  durable epoch and the running one, and nothing dynamic survives it: no peers, no capacity
  and no congestion evidence.
\<close>

theorem begin_boot_fresh:
  "\<exists>c s' ms'. begin_boot durable_epoch s ms = Some (c, s', ms') \<and>
     c \<noteq> durable_epoch \<and> c \<noteq> au_epoch s \<and> is_some c \<and> au_epoch s' = c \<and>
     peer_count s' = 0 \<and> au_capacity s' = None \<and> au_congestion s' = None \<and>
     au_policy s' = au_policy s \<and> au_topology s' = au_topology s"
proof -
  obtain k :: nat where "minted (ms_entropy ms) (ms_counter ms + of_nat k) \<notin> {durable_epoch, au_epoch s}"
    using fresh_within_four by blast
  from mint_fresh_ends [OF this] obtain c ms' where
    "mint_fresh durable_epoch (au_epoch s) ms = Some (c, ms')" "c \<noteq> durable_epoch" "c \<noteq> au_epoch s" "is_some c"
    by blast
  then show ?thesis
    by (simp add: begin_boot_def invalidate_dynamic_evidence_def peer_count_def)
qed

text \<open>What the durable snapshot says of a consistent state.\<close>

lemma policy_snapshot_eq:
  assumes "authority_inv s"
  shows "au_policy s = (if is_some (au_policy_generation s) then Some (policy_snapshot s) else None)"
  using assms
  by (auto simp: authority_inv_def evidence_inv_def policy_snapshot_def policy_validate_ok is_some_def is_none_def
      no_identity_def split: option.splits)

lemma topology_snapshot_eq:
  assumes "authority_inv s"
  shows "au_topology s = (if is_some (au_topology_generation s) then Some (topology_snapshot s) else None)"
  using assms
  by (auto simp: authority_inv_def evidence_inv_def topology_snapshot_def topology_validate_ok is_some_def is_none_def
      no_identity_def split: option.splits)

lemma durable_snapshot_ok:
  assumes "authority_inv s"
  shows "durable_ok (durable_snapshot s)"
proof -
  have "\<not> is_some no_identity" by (simp add: is_some_def is_none_def no_identity_def)
  then show ?thesis
    using assms
    by (auto simp: authority_inv_def evidence_inv_def durable_ok_def durable_snapshot_def policy_snapshot_def
        topology_snapshot_def split: option.splits)
qed

text \<open>
  The durable part round-trips. Restoring the durable snapshot of a consistent coordinator
  into a new one succeeds and gives back exactly its policy, its topology and their
  generations, and no peers or dynamic evidence; a durable record that fails validation is
  refused and leaves the state as it was.
\<close>

theorem durable_roundtrip:
  assumes "authority_inv s"
  shows "(let r = restore_durable (durable_snapshot s) now AuthorityState_new in
      is_ok (fst r) \<and> au_policy (snd r) = au_policy s \<and> au_topology (snd r) = au_topology s \<and>
      au_policy_generation (snd r) = au_policy_generation s \<and>
      au_topology_generation (snd r) = au_topology_generation s \<and>
      au_last_durable_epoch (snd r) = au_epoch s \<and> peer_count (snd r) = 0 \<and>
      au_capacity (snd r) = None \<and> au_congestion (snd r) = None) \<and>
    (\<not> is_ok (fst (restore_durable d now s)) \<longrightarrow> snd (restore_durable d now s) = s)"
proof -
  note ok = durable_snapshot_ok [OF assms] and pol = policy_snapshot_eq [OF assms] and top = topology_snapshot_eq [OF assms]
  have gen: "(if is_some g then g else no_identity) = g" for g by (simp add: is_some_def is_none_iff)
  have "\<not> is_ok (fst (restore_durable d now s)) \<longrightarrow> snd (restore_durable d now s) = s"
    using restore_refused [of d now s] restore_accepted(1) [of d now s] by blast
  then show ?thesis
    using restore_accepted(1) [OF ok, of now AuthorityState_new]
    unfolding Let_def restore_accepted(2) [OF ok, of now AuthorityState_new]
    by (simp add: durable_snapshot_def AuthorityState_new_def peer_count_def gen pol [symmetric] top [symmetric]
        split del: if_split cong: if_cong)
qed

theorem durable_roundtrip_witness:
  "au_policy (snd (restore_durable (durable_snapshot (snd (install_policy (standard_policy (Identity 7 1))
     AuthorityState_new))) 5 AuthorityState_new)) = Some (standard_policy (Identity 7 1))"
proof -
  have "authority_inv (snd (install_policy (standard_policy (Identity 7 1)) AuthorityState_new))"
    by (intro install_policy_inv authority_inv_new)
  moreover have "au_policy (snd (install_policy (standard_policy (Identity 7 1)) AuthorityState_new)) =
      Some (standard_policy (Identity 7 1))"
    by (simp add: install_standard is_some_def is_none_def AuthorityState_new_def)
  ultimately show ?thesis using durable_roundtrip by (simp add: Let_def)
qed

text \<open>
  A heartbeat creates peer authority. For a participant that was never published, a heartbeat
  with a set incarnation records a live peer, whatever the number of recorded peers: the
  bound on the peer table is enforced on publication only.
\<close>

theorem heartbeat_creates_peer:
  assumes "is_some p" "is_some i" "idm_find (au_highest_incarnation s) p = None" "idm_find (au_peers s) p = None"
  shows "fst (heartbeat p i now ttl s) \<and>
    peer_count (snd (heartbeat p i now ttl s)) = Suc (peer_count s) \<and>
    pl_state (peer_snapshot p (snd (heartbeat p i now ttl s))) = ParticipantState.kLive"
  using assms
  by (simp add: heartbeat_def Let_def is_some_def peer_count_def peer_snapshot_def store_peer_def
      raise_incarnation_def idm.entries_store)

theorem heartbeat_creates_peer_witness:
  "peer_count (snd (heartbeat (Identity 1 10) (Identity 0 1) 5 100 AuthorityState_new)) = 1"
  using heartbeat_creates_peer [of "Identity 1 10" "Identity 0 1" AuthorityState_new 5 100]
  by (simp add: is_some_def is_none_def AuthorityState_new_def peer_count_def)

end
