(* ===== verification/CTF_Admission.thy ===== *)
theory CTF_Admission
  imports CTF_Engine
begin

text \<open>
  Admission control (include/ctf/admission.hpp, src/admission.cpp): a bounded table of token
  buckets keyed by flow group. The lemmas carry the conformance and the delay guarantee of a
  single bucket over to the table.
\<close>

section \<open>State and operations\<close>

datatype AdmissionOutcome =
    kGranted
  | kRateLimited
  | kClockRegression
  | kNotApplicable
  | kBucketTableFull

primrec AdmissionOutcome_value :: "AdmissionOutcome \<Rightarrow> u64" where
  "AdmissionOutcome_value AdmissionOutcome.kGranted = 0"
| "AdmissionOutcome_value AdmissionOutcome.kRateLimited = 1"
| "AdmissionOutcome_value AdmissionOutcome.kClockRegression = 2"
| "AdmissionOutcome_value AdmissionOutcome.kNotApplicable = 3"
| "AdmissionOutcome_value AdmissionOutcome.kBucketTableFull = 4"

primrec AdmissionOutcome_to_string :: "AdmissionOutcome \<Rightarrow> string" where
  "AdmissionOutcome_to_string AdmissionOutcome.kGranted = ''granted''"
| "AdmissionOutcome_to_string AdmissionOutcome.kRateLimited = ''rate_limited''"
| "AdmissionOutcome_to_string AdmissionOutcome.kClockRegression = ''clock_regression''"
| "AdmissionOutcome_to_string AdmissionOutcome.kNotApplicable = ''not_applicable''"
| "AdmissionOutcome_to_string AdmissionOutcome.kBucketTableFull = ''bucket_table_full''"

record AdmissionResult =
  ar_outcome :: AdmissionOutcome
  ar_wait_ms :: u64
  ar_code :: ErrorCode
  ar_bucket :: TokenBucketState
  ar_reasons :: ReasonChain

definition AdmissionResult_default :: AdmissionResult where
  "AdmissionResult_default =
     \<lparr>ar_outcome = AdmissionOutcome.kNotApplicable, ar_wait_ms = 0, ar_code = ErrorCode_kOk,
      ar_bucket = TokenBucketState_default, ar_reasons = []\<rparr>"

record AdmissionEntry =
  ae_bucket :: TokenBucketState
  ae_last_used_monotonic_ms :: u64

definition AdmissionEntry_default :: AdmissionEntry where
  "AdmissionEntry_default = \<lparr>ae_bucket = TokenBucketState_default, ae_last_used_monotonic_ms = 0\<rparr>"

record AdmissionController =
  ac_buckets :: "(FlowGroupId, AdmissionEntry) idmap"
  ac_capacity :: u32

definition AdmissionController_new :: "u32 \<Rightarrow> AdmissionController" where
  "AdmissionController_new capacity = \<lparr>ac_buckets = [], ac_capacity = (if capacity = 0 then 1 else capacity)\<rparr>"

definition conclude_admission ::
  "AdmissionOutcome \<Rightarrow> ErrorCode \<Rightarrow> string \<Rightarrow> string \<Rightarrow> Identity \<Rightarrow> AdmissionResult \<Rightarrow> AdmissionResult" where
  "conclude_admission outcome code reason detail subject r =
     r\<lparr>ar_outcome := outcome, ar_code := code, ar_reasons := chain_add reason detail subject (ar_reasons r)\<rparr>"

definition request_bytes :: "DecisionRecord \<Rightarrow> u64" where
  "request_bytes decision =
     (if group_total_logical_bytes (rec_group decision) = 0 then 1
      else group_total_logical_bytes (rec_group decision))"

definition effective_burst :: "DecisionRecord \<Rightarrow> u64" where
  "effective_burst decision = max (pi_burst_bytes (rec_pacing decision)) (request_bytes decision)"

text \<open>The part of \<^verbatim>\<open>admit\<close> that runs on the bucket entry of the flow group.\<close>

definition admit_entry :: "DecisionRecord \<Rightarrow> u64 \<Rightarrow> AdmissionEntry \<Rightarrow> AdmissionResult \<times> AdmissionEntry" where
  "admit_entry decision now_monotonic_ms entry =
     (let rate = pi_admitted_bandwidth_bps (rec_pacing decision);
          burst = pi_burst_bytes (rec_pacing decision);
          bytes = request_bytes decision;
          (status, bucket) = try_consume (ae_bucket entry) now_monotonic_ms bytes rate (effective_burst decision);
          entry' = \<lparr>ae_bucket = bucket, ae_last_used_monotonic_ms = now_monotonic_ms\<rparr>;
          result = AdmissionResult_default\<lparr>ar_bucket := bucket\<rparr>
      in
      if is_ok status
      then (conclude_admission AdmissionOutcome.kGranted ErrorCode_kOk ''admission_granted''
              (if bytes > burst
               then ''the requested volume exceeds the class burst ceiling, so the bucket depth was raised to one request and this first release was admitted''
               else ''token bucket released the requested volume at the admitted rate'')
              (rec_flow_group decision) result, entry')
      else if status_code status = ErrorCode_kAdmissionClockRegression
      then (conclude_admission AdmissionOutcome.kClockRegression (status_code status)
              ''admission_clock_regression''
              ''the supplied monotonic clock moved backwards; tokens were not granted''
              (rec_flow_group decision) result, entry')
      else (conclude_admission AdmissionOutcome.kRateLimited ErrorCode_kAdmissionRateLimited
              ''admission_rate_limited''
              ''the token bucket for this flow group is empty; the flow group is deferred, not denied''
              (rec_flow_group decision)
              (result\<lparr>ar_wait_ms := delay_until_available_ms bucket bytes\<rparr>), entry'))"

definition admit :: "DecisionRecord \<Rightarrow> u64 \<Rightarrow> AdmissionController \<Rightarrow> AdmissionResult \<times> AdmissionController" where
  "admit decision now_monotonic_ms controller =
     (if \<not> outcome_grants_authority (rec_outcome decision) \<or> \<not> rec_flow_group_constructed decision
      then (conclude_admission AdmissionOutcome.kNotApplicable ErrorCode_kOk ''admission_not_applicable''
              ''the decision grants no authority, so no traffic may be released for it''
              (inst_id (rec_instance decision)) AdmissionResult_default, controller)
      else if pi_mode (rec_pacing decision) = PacingMode.kNone \<or>
        pi_mode (rec_pacing decision) = PacingMode.kImmediate
      then (conclude_admission AdmissionOutcome.kGranted ErrorCode_kOk ''admission_immediate''
              ''the pacing mode releases this flow group immediately'' (rec_flow_group decision)
              AdmissionResult_default, controller)
      else if pi_admitted_bandwidth_bps (rec_pacing decision) = kUnlimitedRate
      then (conclude_admission AdmissionOutcome.kGranted ErrorCode_kOk ''admission_unlimited''
              ''the class ceiling is explicitly unlimited, so no token bucket applies''
              (rec_flow_group decision) AdmissionResult_default, controller)
      else if pi_admitted_bandwidth_bps (rec_pacing decision) = 0
      then (conclude_admission AdmissionOutcome.kRateLimited ErrorCode_kAdmissionRateLimited
              ''admission_zero_rate''
              ''the admitted rate is zero; no traffic may be released until evidence changes''
              (rec_flow_group decision) AdmissionResult_default, controller)
      else
        let existing = idm_find (ac_buckets controller) (rec_flow_group decision) in
        if existing = None \<and> idm_size (ac_buckets controller) \<ge> unat (ac_capacity controller)
        then (conclude_admission AdmissionOutcome.kBucketTableFull ErrorCode_kAdmissionBucketCapacity
                ''admission_bucket_table_full''
                ''the admission table is full; no bucket can be created for this flow group''
                (rec_flow_group decision) AdmissionResult_default, controller)
        else
          let (result, entry) = admit_entry decision now_monotonic_ms
                (case existing of None \<Rightarrow> AdmissionEntry_default | Some entry \<Rightarrow> entry)
          in (result,
              controller\<lparr>ac_buckets := idm_store (rec_flow_group decision) entry (ac_buckets controller)\<rparr>))"

definition peek :: "DecisionRecord \<Rightarrow> u64 \<Rightarrow> AdmissionController \<Rightarrow> AdmissionResult" where
  "peek decision now_monotonic_ms controller =
     (if \<not> outcome_grants_authority (rec_outcome decision) \<or> \<not> rec_flow_group_constructed decision
      then AdmissionResult_default\<lparr>ar_outcome := AdmissionOutcome.kNotApplicable\<rparr>
      else
        case idm_find (ac_buckets controller) (rec_flow_group decision) of
          None \<Rightarrow>
            conclude_admission AdmissionOutcome.kGranted ErrorCode_kOk ''admission_bucket_absent''
              ''no bucket exists yet; the first request initializes it with a full allowance''
              (rec_flow_group decision) AdmissionResult_default
        | Some entry \<Rightarrow>
            let burst = (if pi_burst_bytes (rec_pacing decision) = 0 then 1
                         else pi_burst_bytes (rec_pacing decision));
                (status, copy) = refill (ae_bucket entry) now_monotonic_ms
                  (pi_admitted_bandwidth_bps (rec_pacing decision)) burst;
                result = AdmissionResult_default\<lparr>ar_bucket := copy\<rparr>
            in
            if \<not> is_ok status
            then result\<lparr>ar_outcome := AdmissionOutcome.kClockRegression, ar_code := status_code status\<rparr>
            else if request_bytes decision \<le> tb_tokens copy
            then result\<lparr>ar_outcome := AdmissionOutcome.kGranted\<rparr>
            else result\<lparr>ar_outcome := AdmissionOutcome.kRateLimited,
                        ar_code := ErrorCode_kAdmissionRateLimited,
                        ar_wait_ms := delay_until_available_ms copy (request_bytes decision)\<rparr>)"

definition forget :: "FlowGroupId \<Rightarrow> AdmissionController \<Rightarrow> AdmissionController" where
  "forget g controller = controller\<lparr>ac_buckets := idm_erase g (ac_buckets controller)\<rparr>"

definition admission_clear :: "AdmissionController \<Rightarrow> AdmissionController" where
  "admission_clear controller = controller\<lparr>ac_buckets := []\<rparr>"

definition admission_size :: "AdmissionController \<Rightarrow> nat" where
  "admission_size controller = idm_size (ac_buckets controller)"


section \<open>The table as a machine\<close>

datatype AdmissionOp = Admit DecisionRecord u64 | Forget FlowGroupId | Clear

fun admission_step :: "AdmissionController \<Rightarrow> AdmissionOp \<Rightarrow> AdmissionController" where
  "admission_step c (Admit decision now) = snd (admit decision now c)"
| "admission_step c (Forget g) = forget g c"
| "admission_step c Clear = admission_clear c"

definition admission_inv :: "u32 \<Rightarrow> AdmissionController \<Rightarrow> bool" where
  "admission_inv capacity c \<longleftrightarrow>
     ac_capacity c = capacity \<and> idm_wf (ac_buckets c) \<and> idm_size (ac_buckets c) \<le> unat capacity"

lemma admit_inv: "admission_inv k c \<Longrightarrow> admission_inv k (snd (admit decision now c))"
  by (auto simp: admission_inv_def admit_def Let_def case_prod_unfold idm.entries_store not_le)

interpretation admission_run: invariant_system admission_step "admission_inv capacity" for capacity
proof
  fix c op
  assume inv: "admission_inv capacity c"
  show "admission_inv capacity (admission_step c op)"
  proof (cases op)
    case (Admit decision now)
    then show ?thesis using admit_inv [OF inv] by simp
  next
    case (Forget g)
    then show ?thesis using inv by (simp add: admission_inv_def forget_def idm.bounded_erase)
  next
    case Clear
    then show ?thesis using inv by (simp add: admission_inv_def admission_clear_def)
  qed
qed


section \<open>One flow group\<close>

definition paced :: "DecisionRecord \<Rightarrow> bool" where
  "paced d \<longleftrightarrow>
     outcome_grants_authority (rec_outcome d) \<and> rec_flow_group_constructed d \<and>
     pi_mode (rec_pacing d) \<noteq> PacingMode.kNone \<and> pi_mode (rec_pacing d) \<noteq> PacingMode.kImmediate \<and>
     pi_admitted_bandwidth_bps (rec_pacing d) \<noteq> kUnlimitedRate \<and> pi_admitted_bandwidth_bps (rec_pacing d) \<noteq> 0"

definition bucket_of :: "DecisionRecord \<Rightarrow> AdmissionController \<Rightarrow> TokenBucketState" where
  "bucket_of d c =
     (case idm_find (ac_buckets c) (rec_flow_group d) of
        None \<Rightarrow> TokenBucketState_default | Some entry \<Rightarrow> ae_bucket entry)"

definition has_room :: "DecisionRecord \<Rightarrow> AdmissionController \<Rightarrow> bool" where
  "has_room d c \<longleftrightarrow>
     idm_find (ac_buckets c) (rec_flow_group d) \<noteq> None \<or> idm_size (ac_buckets c) < unat (ac_capacity c)"

abbreviation consume_for :: "DecisionRecord \<Rightarrow> u64 \<Rightarrow> AdmissionController \<Rightarrow> Status \<times> TokenBucketState" where
  "consume_for d now c \<equiv>
     try_consume (bucket_of d c) now (request_bytes d) (pi_admitted_bandwidth_bps (rec_pacing d)) (effective_burst d)"

lemma admit_entry_bucket:
  "ae_bucket (snd (admit_entry d now entry)) =
     snd (try_consume (ae_bucket entry) now (request_bytes d) (pi_admitted_bandwidth_bps (rec_pacing d)) (effective_burst d))"
  "ar_outcome (fst (admit_entry d now entry)) = AdmissionOutcome.kGranted \<longleftrightarrow>
     is_ok (fst (try_consume (ae_bucket entry) now (request_bytes d) (pi_admitted_bandwidth_bps (rec_pacing d))
       (effective_burst d)))"
  by (simp_all add: admit_entry_def Let_def case_prod_unfold conclude_admission_def)

lemma admit_paced:
  assumes "paced d" "has_room d c"
  shows "bucket_of d (snd (admit d now c)) = snd (consume_for d now c)"
    and "ar_outcome (fst (admit d now c)) = AdmissionOutcome.kGranted \<longleftrightarrow> is_ok (fst (consume_for d now c))"
    and "has_room d (snd (admit d now c))"
proof -
  let ?entry = "case idm_find (ac_buckets c) (rec_flow_group d) of None \<Rightarrow> AdmissionEntry_default | Some e \<Rightarrow> e"
  have e: "ae_bucket ?entry = bucket_of d c"
    by (simp add: bucket_of_def AdmissionEntry_default_def split: option.split)
  have "admit d now c = (fst (admit_entry d now ?entry),
      c\<lparr>ac_buckets := idm_store (rec_flow_group d) (snd (admit_entry d now ?entry)) (ac_buckets c)\<rparr>)"
    using assms by (auto simp: admit_def paced_def has_room_def Let_def case_prod_unfold)
  then show "bucket_of d (snd (admit d now c)) = snd (consume_for d now c)"
    "ar_outcome (fst (admit d now c)) = AdmissionOutcome.kGranted \<longleftrightarrow> is_ok (fst (consume_for d now c))"
    "has_room d (snd (admit d now c))"
    using admit_entry_bucket [of d now ?entry] e by (simp_all add: bucket_of_def has_room_def)
qed

text \<open>Repeated admission of one decision at the times \<open>ts\<close>, with the number of grants.\<close>

fun admit_all :: "DecisionRecord \<Rightarrow> u64 list \<Rightarrow> AdmissionController \<Rightarrow> AdmissionController \<times> nat" where
  "admit_all d [] c = (c, 0)"
| "admit_all d (t # ts) c =
     (let (r, c') = admit d t c; (c'', n) = admit_all d ts c'
      in (c'', (if ar_outcome r = AdmissionOutcome.kGranted then 1 else 0) + n))"

lemma admit_all_bucket_run:
  assumes "paced d" "has_room d c"
  shows "foldl (bucket_step (pi_admitted_bandwidth_bps (rec_pacing d)) (effective_burst d)) (bucket_of d c, g)
      (map (\<lambda>t. (t, request_bytes d)) ts) =
    (bucket_of d (fst (admit_all d ts c)), g + snd (admit_all d ts c) * unat (request_bytes d))"
  using assms(2)
proof (induction ts arbitrary: c g)
  case Nil
  then show ?case by simp
next
  case (Cons t ts)
  note a = admit_paced [OF assms(1) Cons.prems, of t]
  have "bucket_step (pi_admitted_bandwidth_bps (rec_pacing d)) (effective_burst d) (bucket_of d c, g)
      (t, request_bytes d) =
      (bucket_of d (snd (admit d t c)),
       g + (if ar_outcome (fst (admit d t c)) = AdmissionOutcome.kGranted then unat (request_bytes d) else 0))"
    by (simp add: bucket_step_def case_prod_unfold a)
  with Cons.IH [OF a(3)] show ?case by (simp add: Let_def case_prod_unfold algebra_simps)
qed


section \<open>Properties of admission control\<close>

text \<open>
  C20: Admission control never releases more than the decision allows. However often and at
  whatever clock readings a paced decision is presented, the bytes released for its flow group
  since its bucket was created stay within the effective burst plus the admitted rate times
  the time elapsed on the bucket's clock.
\<close>

theorem admission_conformance:
  assumes "outcome_grants_authority (rec_outcome d)" "rec_flow_group_constructed d"
    and "pi_mode (rec_pacing d) \<noteq> PacingMode.kNone" "pi_mode (rec_pacing d) \<noteq> PacingMode.kImmediate"
    and "pi_admitted_bandwidth_bps (rec_pacing d) \<noteq> kUnlimitedRate" "pi_admitted_bandwidth_bps (rec_pacing d) \<noteq> 0"
    and "idm_find (ac_buckets c) (rec_flow_group d) = None" "idm_size (ac_buckets c) < unat (ac_capacity c)"
    and "admit_all d (t # ts) c = (c', grants)"
  shows "1000 * (grants * unat (request_bytes d)) \<le>
    1000 * unat (effective_burst d) + unat (pi_admitted_bandwidth_bps (rec_pacing d)) *
      (unat (tb_last_refill_monotonic_ms (bucket_of d c')) - unat t)"
proof -
  let ?rate = "pi_admitted_bandwidth_bps (rec_pacing d)" and ?ops = "map (\<lambda>t. (t, request_bytes d)) (t # ts)"
  have d: "paced d" "has_room d c" using assms by (simp_all add: paced_def has_room_def)
  have b: "bucket_of d c = TokenBucketState_default" using assms(7) by (simp add: bucket_of_def)
  have run: "foldl (bucket_step ?rate (effective_burst d)) (TokenBucketState_default, 0) ?ops =
      (bucket_of d c', grants * unat (request_bytes d))"
    using admit_all_bucket_run [OF d, of 0 "t # ts"] b assms(9) by simp
  have "bucket_account ?rate (effective_burst d) (unat t) (bucket_of d c', grants * unat (request_bytes d))"
    using bucket_run.run_inv [OF bucket_first [OF assms(6,5)], of "effective_burst d" t "request_bytes d"
        "map (\<lambda>t. (t, request_bytes d)) ts"] run by simp
  then show ?thesis by (simp add: bucket_account_def)
qed

definition paced_record :: "u64 \<Rightarrow> u64 \<Rightarrow> u64 \<Rightarrow> DecisionRecord" where
  "paced_record bytes rate burst = DecisionRecord_default
     \<lparr>rec_outcome := Outcome.kAdmitted, rec_flow_group := Identity 4 4, rec_flow_group_constructed := True,
      rec_group := FlowGroup_default\<lparr>group_total_logical_bytes := bytes\<rparr>,
      rec_pacing := PacingIntent_default
        \<lparr>pi_mode := PacingMode.kTokenBucket, pi_admitted_bandwidth_bps := rate, pi_burst_bytes := burst\<rparr>\<rparr>"

lemma paced_record_fields:
  "outcome_grants_authority (rec_outcome (paced_record bytes rate burst))"
  "rec_flow_group_constructed (paced_record bytes rate burst)"
  "pi_mode (rec_pacing (paced_record bytes rate burst)) = PacingMode.kTokenBucket"
  "pi_admitted_bandwidth_bps (rec_pacing (paced_record bytes rate burst)) = rate"
  "pi_burst_bytes (rec_pacing (paced_record bytes rate burst)) = burst"
  "rec_flow_group (paced_record bytes rate burst) = Identity 4 4"
  "request_bytes (paced_record bytes rate burst) = (if bytes = 0 then 1 else bytes)"
  by (simp_all add: paced_record_def request_bytes_def)

theorem admission_conformance_witness:
  "\<exists>c' grants. admit_all (paced_record 10 1000 50) [5, 6, 7] (AdmissionController_new 4) = (c', grants) \<and>
     1000 * (grants * 10) \<le> 1000 * 50 + 1000 *
       (unat (tb_last_refill_monotonic_ms (bucket_of (paced_record 10 1000 50) c')) - 5)"
proof -
  obtain c' grants where run: "admit_all (paced_record 10 1000 50) [5, 6, 7] (AdmissionController_new 4) = (c', grants)"
    by fastforce
  have b: "effective_burst (paced_record 10 1000 50) = 50"
    by (simp add: effective_burst_def paced_record_fields max_def word_le_nat_alt)
  from admission_conformance [OF paced_record_fields(1,2) _ _ _ _ _ _ run] run b show ?thesis
    by (simp add: paced_record_fields AdmissionController_new_def kUnlimitedRate_def)
qed

text \<open>
  The bucket table never grows past its capacity, whatever decisions are presented and
  whichever groups are forgotten, and a decision that grants no authority neither releases
  anything nor touches the table.
\<close>

theorem admission_table_bounded:
  "admission_size (foldl admission_step (AdmissionController_new capacity) ops) \<le> unat (max 1 capacity) \<and>
   (\<not> outcome_grants_authority (rec_outcome d) \<longrightarrow>
      snd (admit d now c) = c \<and> ar_outcome (fst (admit d now c)) = AdmissionOutcome.kNotApplicable)"
proof
  have k: "ac_capacity (AdmissionController_new capacity) = max 1 capacity"
    by (cases "capacity = 0") (simp_all add: AdmissionController_new_def max_def word_less_1 not_le)
  have "admission_inv (max 1 capacity) (AdmissionController_new capacity)"
    using k by (simp add: admission_inv_def AdmissionController_new_def)
  from admission_run.run_inv [OF this, of ops]
  show "admission_size (foldl admission_step (AdmissionController_new capacity) ops) \<le> unat (max 1 capacity)"
    by (simp add: admission_inv_def admission_size_def)
  show "\<not> outcome_grants_authority (rec_outcome d) \<longrightarrow>
      snd (admit d now c) = c \<and> ar_outcome (fst (admit d now c)) = AdmissionOutcome.kNotApplicable"
    by (simp add: admit_def conclude_admission_def)
qed

theorem admission_table_bounded_witness:
  "snd (admit DecisionRecord_default 5 (AdmissionController_new 4)) = AdmissionController_new 4"
  using admission_table_bounded [of 4 "[]" DecisionRecord_default 5 "AdmissionController_new 4"]
  by (simp add: DecisionRecord_default_def)

text \<open>
  \<open>peek\<close> does not predict \<open>admit\<close>: it caps the refilled bucket at the policy burst, not at the
  effective burst. For a request of 10 bytes under a burst of 5, once the bucket has refilled,
  \<open>peek\<close> reports the request as rate limited at the very moment \<open>admit\<close> grants it.
\<close>

theorem peek_disagrees_with_admit:
  "let d = paced_record 10 1000 5; c = snd (admit d 0 (AdmissionController_new 4)) in
   ar_outcome (peek d 100 c) = AdmissionOutcome.kRateLimited \<and>
   ar_outcome (fst (admit d 100 c)) = AdmissionOutcome.kGranted"
proof -
  let ?d = "paced_record 10 1000 5"
  have eff: "effective_burst ?d = 10"
    by (simp add: effective_burst_def paced_record_fields max_def word_le_nat_alt)
  have p: "paced ?d" by (simp add: paced_def paced_record_fields kUnlimitedRate_def)
  have room: "has_room ?d (AdmissionController_new 4)" by (simp add: has_room_def AdmissionController_new_def)
  let ?c = "snd (admit ?d 0 (AdmissionController_new 4))"
  have "bucket_of ?d (AdmissionController_new 4) = TokenBucketState_default"
    by (simp add: bucket_of_def AdmissionController_new_def)
  with admit_paced(1) [OF p room, of 0] have b: "bucket_of ?d ?c =
     \<lparr>tb_tokens = 0, tb_last_refill_monotonic_ms = 0, tb_rate_bps = 1000, tb_burst_bytes = 10, tb_initialized = True\<rparr>"
    by (simp add: eff paced_record_fields try_consume_def refill_def TokenBucketState_default_def kUnlimitedRate_def)
  have granted: "ar_outcome (fst (admit ?d 100 ?c)) = AdmissionOutcome.kGranted"
    unfolding admit_paced(2) [OF p admit_paced(3) [OF p room]] b
    by (simp add: eff paced_record_fields try_consume_def refill_def kUnlimitedRate_def Let_def refill_level_def
        refill_gain_def word_le_nat_alt word_less_nat_alt)
  obtain entry where entry: "idm_find (ac_buckets ?c) (Identity 4 4) = Some entry"
    using admit_paced(3) [OF p room, of 0] b
    by (auto simp: bucket_of_def paced_record_fields TokenBucketState_default_def split: option.splits)
  with b have "ae_bucket entry =
     \<lparr>tb_tokens = 0, tb_last_refill_monotonic_ms = 0, tb_rate_bps = 1000, tb_burst_bytes = 10, tb_initialized = True\<rparr>"
    by (simp add: bucket_of_def paced_record_fields)
  then have "ar_outcome (peek ?d 100 ?c) = AdmissionOutcome.kRateLimited"
    using entry
    by (simp add: peek_def paced_record_fields refill_def kUnlimitedRate_def Let_def refill_level_def
        refill_gain_def word_le_nat_alt word_less_nat_alt)
  with granted show ?thesis by (simp add: Let_def)
qed

end
