(* ===== verification/CTF_History.thy ===== *)
theory CTF_History
  imports CTF_Decision "HOL-Library.List_Lexorder" "HOL-Library.Char_ord"
begin

text \<open>
  The bounded decision history (include/ctf/history.hpp, src/history.cpp): a ring of decision
  records addressed by a 64-bit insertion ordinal, and an index from caller-supplied correlation
  values to ordinals.

  The specification is an unbounded log of everything that was recorded, together with the number
  of records that were dropped from its front. \<open>history_refines_log\<close> shows that every query of the
  ring is the corresponding query of the log.

  Sizes and limits of type \<^verbatim>\<open>std::size_t\<close> are natural numbers; no arithmetic is done on them that
  could wrap. Ordinals are 64-bit words.
\<close>

section \<open>State and operations\<close>

datatype HistoryStatus =
    kOk
  | kEvicted
  | kFuture
  | kEmpty

primrec HistoryStatus_to_string :: "HistoryStatus \<Rightarrow> string" where
  "HistoryStatus_to_string HistoryStatus.kOk = ''ok''"
| "HistoryStatus_to_string HistoryStatus.kEvicted = ''evicted''"
| "HistoryStatus_to_string HistoryStatus.kFuture = ''future''"
| "HistoryStatus_to_string HistoryStatus.kEmpty = ''empty''"

record DecisionHistory =
  hist_capacity :: nat
  hist_records :: "DecisionRecord list"
  hist_correlations :: "(Identity, u64) idmap"
  hist_first_ordinal :: u64
  hist_next_ordinal :: u64
  hist_evicted :: u64

text \<open>The loop that drops records from the front while the ring is over its capacity.\<close>

function evict_excess :: "DecisionHistory \<Rightarrow> DecisionHistory" where
  "evict_excess h =
     (if length (hist_records h) > hist_capacity h
      then evict_excess (h\<lparr>hist_records := tl (hist_records h),
             hist_first_ordinal := hist_first_ordinal h + 1, hist_evicted := hist_evicted h + 1\<rparr>)
      else h)"
  by pat_completeness auto
termination
  by (relation "measure (\<lambda>h. length (hist_records h))") auto

declare evict_excess.simps [simp del]

definition clamp_capacity :: "nat \<Rightarrow> nat" where
  "clamp_capacity capacity =
     (let c = (if capacity = 0 then 1 else capacity)
      in if c > kDecisionHistoryCapacityMax then kDecisionHistoryCapacityMax else c)"

definition set_capacity :: "nat \<Rightarrow> DecisionHistory \<Rightarrow> DecisionHistory" where
  "set_capacity capacity h = evict_excess (h\<lparr>hist_capacity := clamp_capacity capacity\<rparr>)"

definition DecisionHistory_new :: "nat \<Rightarrow> DecisionHistory" where
  "DecisionHistory_new capacity = set_capacity capacity
     \<lparr>hist_capacity = 0, hist_records = [], hist_correlations = [], hist_first_ordinal = 1,
      hist_next_ordinal = 1, hist_evicted = 0\<rparr>"

definition history_record :: "DecisionRecord \<Rightarrow> DecisionHistory \<Rightarrow> u64 \<times> DecisionHistory" where
  "history_record decision h =
     (let ordinal = hist_next_ordinal h;
          stored = decision\<lparr>rec_decision_sequence := ordinal\<rparr>
      in (ordinal, evict_excess (h\<lparr>hist_next_ordinal := hist_next_ordinal h + 1,
                                  hist_records := hist_records h @ [stored]\<rparr>)))"

definition latest :: "nat \<Rightarrow> DecisionHistory \<Rightarrow> DecisionRecord list" where
  "latest limit h =
     (let n = length (hist_records h); l = (if limit > n then n else limit)
      in map (\<lambda>index. hist_records h ! (n - 1 - index)) [0..<l])"

definition page :: "u64 \<Rightarrow> nat \<Rightarrow> DecisionHistory \<Rightarrow> DecisionRecord list" where
  "page offset_ordinal limit h =
     (if hist_records h = [] \<or> offset_ordinal \<ge> hist_next_ordinal h then []
      else
        let start = (if offset_ordinal < hist_first_ordinal h then hist_first_ordinal h else offset_ordinal);
            index = unat (start - hist_first_ordinal h)
        in take limit (drop index (hist_records h)))"

text \<open>
  The queries that fill an out parameter return \<open>Inr\<close> of the record with status \<^verbatim>\<open>kOk\<close>, and
  \<open>Inl\<close> of any other status, where the parameter is left alone.
\<close>

definition history_get :: "u64 \<Rightarrow> DecisionHistory \<Rightarrow> HistoryStatus + DecisionRecord" where
  "history_get ordinal h =
     (if hist_records h = [] then Inl HistoryStatus.kEmpty
      else if ordinal \<ge> hist_next_ordinal h then Inl HistoryStatus.kFuture
      else if ordinal < hist_first_ordinal h then Inl HistoryStatus.kEvicted
      else Inr (hist_records h ! unat (ordinal - hist_first_ordinal h)))"

definition find_newest :: "(DecisionRecord \<Rightarrow> bool) \<Rightarrow> DecisionHistory \<Rightarrow> HistoryStatus + DecisionRecord" where
  "find_newest matches h =
     (if hist_records h = [] then Inl HistoryStatus.kEmpty
      else case find matches (rev (hist_records h)) of
        None \<Rightarrow> Inl HistoryStatus.kEvicted
      | Some r \<Rightarrow> Inr r)"

definition find_instance :: "CollectiveInstance \<Rightarrow> DecisionHistory \<Rightarrow> HistoryStatus + DecisionRecord" where
  "find_instance i h = find_newest (\<lambda>r. instance_eq (rec_instance r) i) h"

definition find_attempt ::
  "CollectiveId \<Rightarrow> CollectiveAttemptId \<Rightarrow> DecisionHistory \<Rightarrow> HistoryStatus + DecisionRecord" where
  "find_attempt i attempt h =
     find_newest (\<lambda>r. inst_id (rec_instance r) = i \<and>
       (if is_none attempt then True else inst_attempt (rec_instance r) = attempt)) h"

definition bind_correlation :: "u64 \<Rightarrow> u64 \<Rightarrow> DecisionHistory \<Rightarrow> DecisionHistory" where
  "bind_correlation correlation ordinal h =
     (if correlation = 0 then h
      else
        let kept = (if idm_size (hist_correlations h) \<ge> hist_capacity h then [] else hist_correlations h)
        in h\<lparr>hist_correlations := idm_store (Identity correlation 0) ordinal kept\<rparr>)"

definition find_correlation :: "u64 \<Rightarrow> DecisionHistory \<Rightarrow> HistoryStatus + DecisionRecord" where
  "find_correlation correlation h =
     (case idm_find (hist_correlations h) (Identity correlation 0) of
        None \<Rightarrow> Inl HistoryStatus.kEvicted
      | Some ordinal \<Rightarrow>
          if ordinal \<ge> hist_next_ordinal h then Inl HistoryStatus.kFuture
          else if ordinal < hist_first_ordinal h then Inl HistoryStatus.kEvicted
          else Inr (hist_records h ! unat (ordinal - hist_first_ordinal h)))"

text \<open>The scan of the counts so far, and the count for one more record.\<close>

fun count_name :: "string \<Rightarrow> (string \<times> u64) list \<Rightarrow> (string \<times> u64) list" where
  "count_name name [] = [(name, 1)]"
| "count_name name (entry # rest) =
     (if fst entry = name then (fst entry, snd entry + 1) # rest else entry # count_name name rest)"

definition outcome_histogram :: "DecisionHistory \<Rightarrow> (string \<times> u64) list" where
  "outcome_histogram h =
     std_sort (\<lambda>a b. fst a < fst b)
       (foldl (\<lambda>counts r. count_name (Outcome_to_string (rec_outcome r)) counts) [] (hist_records h))"

definition history_clear :: "DecisionHistory \<Rightarrow> DecisionHistory" where
  "history_clear h = h\<lparr>hist_records := [], hist_correlations := [], hist_first_ordinal := 1,
     hist_next_ordinal := 1, hist_evicted := 0\<rparr>"

definition history_size :: "DecisionHistory \<Rightarrow> nat" where
  "history_size h = length (hist_records h)"


section \<open>The specification: an unbounded log\<close>

record HistoryLog =
  log_all :: "DecisionRecord list"
  log_dropped :: nat
  log_capacity :: nat

datatype HistoryOp =
    Record DecisionRecord
  | SetCapacity nat
  | Bind u64 u64
  | ClearAll

fun history_step :: "DecisionHistory \<Rightarrow> HistoryOp \<Rightarrow> DecisionHistory" where
  "history_step h (Record d) = snd (history_record d h)"
| "history_step h (SetCapacity n) = set_capacity n h"
| "history_step h (Bind c ordinal) = bind_correlation c ordinal h"
| "history_step h ClearAll = history_clear h"

text \<open>
  The log grows by one record, stamped with its position, and drops just as much from the front
  as the capacity requires; nothing that was dropped comes back when the capacity grows.
\<close>

definition stamp :: "nat \<Rightarrow> DecisionRecord \<Rightarrow> DecisionRecord" where
  "stamp n d = d\<lparr>rec_decision_sequence := of_nat n\<rparr>"

definition log_trim :: "HistoryLog \<Rightarrow> HistoryLog" where
  "log_trim l = l\<lparr>log_dropped := max (log_dropped l) (length (log_all l) - log_capacity l)\<rparr>"

fun log_step :: "HistoryLog \<Rightarrow> HistoryOp \<Rightarrow> HistoryLog" where
  "log_step l (Record d) = log_trim (l\<lparr>log_all := log_all l @ [stamp (Suc (length (log_all l))) d]\<rparr>)"
| "log_step l (SetCapacity n) = log_trim (l\<lparr>log_capacity := clamp_capacity n\<rparr>)"
| "log_step l (Bind c ordinal) = l"
| "log_step l ClearAll = l\<lparr>log_all := [], log_dropped := 0\<rparr>"

definition HistoryLog_new :: "nat \<Rightarrow> HistoryLog" where
  "HistoryLog_new capacity = \<lparr>log_all = [], log_dropped = 0, log_capacity = clamp_capacity capacity\<rparr>"

text \<open>The part of the log that the ring retains.\<close>

definition retained :: "HistoryLog \<Rightarrow> DecisionRecord list" where
  "retained l = drop (log_dropped l) (log_all l)"

definition log_represents :: "HistoryLog \<Rightarrow> DecisionHistory \<Rightarrow> bool" where
  "log_represents l h \<longleftrightarrow>
     hist_records h = retained l \<and> hist_capacity h = log_capacity l \<and>
     hist_first_ordinal h = of_nat (Suc (log_dropped l)) \<and> hist_evicted h = of_nat (log_dropped l) \<and>
     hist_next_ordinal h = of_nat (Suc (length (log_all l))) \<and>
     log_dropped l \<le> length (log_all l) \<and> (retained l = [] \<longleftrightarrow> log_all l = []) \<and>
     length (retained l) \<le> log_capacity l \<and>
     0 < log_capacity l \<and> log_capacity l \<le> kDecisionHistoryCapacityMax"

lemma clamp_capacity_bounds [simp]:
  "0 < clamp_capacity n" "clamp_capacity n \<le> kDecisionHistoryCapacityMax"
  by (simp_all add: clamp_capacity_def Let_def limit_defs)

lemma evict_excess_closed:
  "evict_excess h =
     (let k = length (hist_records h) - hist_capacity h
      in h\<lparr>hist_records := drop k (hist_records h), hist_first_ordinal := hist_first_ordinal h + of_nat k,
           hist_evicted := hist_evicted h + of_nat k\<rparr>)"
proof (induction h rule: evict_excess.induct)
  case (1 h)
  show ?case
  proof (cases "length (hist_records h) > hist_capacity h")
    case True
    obtain r rs where rs: "hist_records h = r # rs" using True by (cases "hist_records h") auto
    then have k: "Suc (length rs) - hist_capacity h = Suc (length rs - hist_capacity h)" using True by simp
    show ?thesis
      unfolding evict_excess.simps [of h] if_P [OF True] "1" [OF True]
      by (simp add: rs k Let_def add.assoc add.commute [of 1])
  next
    case False
    then show ?thesis by (simp add: evict_excess.simps [of h] Let_def)
  qed
qed

lemma log_represents_new: "log_represents (HistoryLog_new n) (DecisionHistory_new n)"
  by (simp add: log_represents_def HistoryLog_new_def DecisionHistory_new_def set_capacity_def
      evict_excess_closed retained_def)

text \<open>Trimming the log is what the eviction loop does to the ring.\<close>

lemma log_represents_trim:
  assumes "hist_records h = retained l" "hist_capacity h = log_capacity l"
    and "hist_first_ordinal h = of_nat (Suc (log_dropped l))" "hist_evicted h = of_nat (log_dropped l)"
    and "hist_next_ordinal h = of_nat (Suc (length (log_all l)))" "log_dropped l \<le> length (log_all l)"
    and "retained l = [] \<longleftrightarrow> log_all l = []"
    and "0 < log_capacity l" "log_capacity l \<le> kDecisionHistoryCapacityMax"
  shows "log_represents (log_trim l) (evict_excess h)"
proof -
  let ?k = "length (retained l) - log_capacity l"
  have k: "log_trim l = l\<lparr>log_dropped := log_dropped l + ?k\<rparr>"
    using assms(6) by (auto simp: log_trim_def retained_def max_def)
  have "hist_records (evict_excess h) = retained (log_trim l)"
    using assms(1,2) by (simp add: k evict_excess_closed Let_def retained_def add.commute)
  moreover have "length (retained (log_trim l)) \<le> log_capacity l"
    by (auto simp: retained_def log_trim_def)
  moreover have "log_dropped l + ?k \<le> length (log_all l)"
    using assms(6) by (simp add: retained_def)
  moreover have "retained (log_trim l) = [] \<longleftrightarrow> log_all l = []"
    using assms(6-8) by (auto simp: retained_def log_trim_def)
  ultimately show ?thesis
    using assms by (simp add: log_represents_def k evict_excess_closed Let_def)
qed

interpretation history_log: simulation history_step log_step log_represents
proof
  fix l h op
  assume r: "log_represents l h"
  show "log_represents (log_step l op) (history_step h op)"
  proof (cases op)
    case (Record d)
    let ?l = "l\<lparr>log_all := log_all l @ [stamp (Suc (length (log_all l))) d]\<rparr>"
    have "log_represents (log_trim ?l) (evict_excess (h\<lparr>hist_next_ordinal := hist_next_ordinal h + 1,
        hist_records := hist_records h @ [d\<lparr>rec_decision_sequence := hist_next_ordinal h\<rparr>]\<rparr>))"
      by (rule log_represents_trim) (use r in \<open>simp_all add: log_represents_def retained_def stamp_def\<close>)
    then show ?thesis by (simp add: Record history_record_def Let_def)
  next
    case (SetCapacity n)
    have "log_represents (log_trim (l\<lparr>log_capacity := clamp_capacity n\<rparr>))
        (evict_excess (h\<lparr>hist_capacity := clamp_capacity n\<rparr>))"
      by (rule log_represents_trim) (use r in \<open>simp_all add: log_represents_def retained_def\<close>)
    then show ?thesis by (simp add: SetCapacity set_capacity_def)
  next
    case (Bind c ordinal)
    with r show ?thesis by (simp add: log_represents_def bind_correlation_def Let_def)
  next
    case ClearAll
    with r show ?thesis by (simp add: log_represents_def history_clear_def retained_def)
  qed
qed


section \<open>Properties of the history\<close>

lemma unat_of_nat_u64: "n < 18446744073709551616 \<Longrightarrow> unat (of_nat n :: u64) = n"
  by (simp add: unat_of_nat)

text \<open>The ordinals of a ring that represents a log of fewer than \<open>2 ^ 64 - 1\<close> records.\<close>

lemma log_ordinals:
  assumes "log_represents l h" "length (log_all l) < 18446744073709551615"
  shows "ordinal \<ge> hist_next_ordinal h \<longleftrightarrow> unat ordinal > length (log_all l)"
    and "ordinal < hist_first_ordinal h \<longleftrightarrow> unat ordinal \<le> log_dropped l"
    and "unat ordinal > log_dropped l \<Longrightarrow> unat (ordinal - hist_first_ordinal h) = unat ordinal - Suc (log_dropped l)"
    and "hist_records h = [] \<longleftrightarrow> log_all l = []"
proof -
  have d: "log_dropped l \<le> length (log_all l)" using assms(1) by (simp add: log_represents_def)
  have first: "unat (hist_first_ordinal h) = Suc (log_dropped l)"
    using assms d unat_of_nat_u64 [of "Suc (log_dropped l)"] by (simp add: log_represents_def)
  have "unat (hist_next_ordinal h) = Suc (length (log_all l))"
    using assms unat_of_nat_u64 [of "Suc (length (log_all l))"] by (simp add: log_represents_def)
  with first show "ordinal \<ge> hist_next_ordinal h \<longleftrightarrow> unat ordinal > length (log_all l)"
    "ordinal < hist_first_ordinal h \<longleftrightarrow> unat ordinal \<le> log_dropped l"
    by (simp_all add: word_le_nat_alt word_less_nat_alt less_Suc_eq_le Suc_le_eq)
  show "unat (ordinal - hist_first_ordinal h) = unat ordinal - Suc (log_dropped l)"
    if "unat ordinal > log_dropped l"
    using that first by (simp add: unat_sub_u64 word_le_nat_alt)
  show "hist_records h = [] \<longleftrightarrow> log_all l = []" using assms(1) by (simp add: log_represents_def)
qed

lemma log_length_le: "length (log_all (foldl log_step l ops)) \<le> length (log_all l) + length ops"
proof (induction ops arbitrary: l)
  case (Cons op ops)
  have "length (log_all (log_step l op)) \<le> Suc (length (log_all l))"
    by (cases op) (simp_all add: log_trim_def)
  with Cons [of "log_step l op"] show ?case by simp
qed simp

lemma history_get_log:
  assumes "log_represents l h" "length (log_all l) < 18446744073709551615"
  shows "history_get ordinal h =
    (if log_all l = [] then Inl HistoryStatus.kEmpty
     else if unat ordinal > length (log_all l) then Inl HistoryStatus.kFuture
     else if unat ordinal \<le> log_dropped l then Inl HistoryStatus.kEvicted
     else Inr (log_all l ! (unat ordinal - 1)))"
proof -
  note o = log_ordinals(1-3) [OF assms, of ordinal] log_ordinals(4) [OF assms]
  have "hist_records h ! (unat ordinal - Suc (log_dropped l)) = log_all l ! (unat ordinal - 1)"
    if "log_dropped l < unat ordinal" "unat ordinal \<le> length (log_all l)"
    using that assms(1) by (simp add: log_represents_def retained_def)
  with o show ?thesis by (auto simp: history_get_def not_less not_le)
qed

lemma latest_log:
  assumes "log_represents l h"
  shows "latest n h = take n (rev (retained l))"
proof -
  let ?xs = "hist_records h"
  have "latest n h = map (\<lambda>i. ?xs ! (length ?xs - 1 - i)) [0..<min n (length ?xs)]"
    by (simp add: latest_def Let_def min_def)
  also have "\<dots> = take n (rev ?xs)"
    by (rule nth_equalityI) (auto simp: rev_nth)
  finally show ?thesis using assms by (simp add: log_represents_def)
qed

lemma page_log:
  assumes "log_represents l h" "length (log_all l) < 18446744073709551615"
  shows "page ordinal n h = take n (drop (max (unat ordinal - 1) (log_dropped l)) (log_all l))"
proof -
  note o = log_ordinals(1-3) [OF assms, of ordinal] log_ordinals(4) [OF assms]
  have r: "hist_records h = drop (log_dropped l) (log_all l)"
    using assms(1) by (simp add: log_represents_def retained_def)
  consider "hist_records h = [] \<or> ordinal \<ge> hist_next_ordinal h"
    | "hist_records h \<noteq> []" "ordinal < hist_next_ordinal h" "ordinal < hist_first_ordinal h"
    | "hist_records h \<noteq> []" "ordinal < hist_next_ordinal h" "\<not> ordinal < hist_first_ordinal h"
    by fastforce
  then show ?thesis
  proof cases
    case 1
    then show ?thesis using o by (auto simp: page_def)
  next
    case 2
    then have "max (unat ordinal - 1) (log_dropped l) = log_dropped l" using o(2) by simp
    with 2 r show ?thesis by (simp add: page_def Let_def)
  next
    case 3
    then have d: "log_dropped l < unat ordinal" using o(2) by simp
    then have "max (unat ordinal - 1) (log_dropped l) = log_dropped l + (unat ordinal - Suc (log_dropped l))"
      by simp
    with 3 r o(3) [OF d] show ?thesis by (simp add: page_def Let_def add.commute)
  qed
qed

text \<open>A decision that was recorded and bound to a correlation is found under it.\<close>

lemma find_correlation_bound:
  assumes r: "log_represents l h" and n: "length (log_all l) < 18446744073709551614"
    and c: "c \<noteq> 0" and rec: "history_record d h = (ordinal, h')"
  shows "find_correlation c (bind_correlation c ordinal h') = Inr (d\<lparr>rec_decision_sequence := ordinal\<rparr>)"
proof -
  let ?l = "log_step l (Record d)"
  have r': "log_represents ?l h'"
    using history_log.step_represents [OF r, of "Record d"] rec by simp
  have all: "log_all ?l = log_all l @ [stamp (Suc (length (log_all l))) d]" by (simp add: log_trim_def)
  have "ordinal = hist_next_ordinal h" using rec by (simp add: history_record_def Let_def)
  then have o: "ordinal = of_nat (Suc (length (log_all l)))" using r by (simp add: log_represents_def)
  then have o': "unat ordinal = Suc (length (log_all l))" using n by (simp only: unat_of_nat_u64)
  have "log_dropped ?l < Suc (length (log_all l))"
    using r' all by (auto simp: log_represents_def retained_def)
  moreover have "log_all ?l ! length (log_all l) = d\<lparr>rec_decision_sequence := ordinal\<rparr>"
    unfolding all nth_append_length by (simp add: stamp_def o)
  moreover have "length (log_all ?l) = Suc (length (log_all l))" "log_all ?l \<noteq> []" unfolding all by simp_all
  ultimately have "history_get ordinal h' = Inr (d\<lparr>rec_decision_sequence := ordinal\<rparr>)"
    using history_get_log [OF r', of ordinal] n by (simp add: o' del: log_step.simps)
  with c show ?thesis
    by (auto simp: find_correlation_def bind_correlation_def history_get_def Let_def split: if_splits)
qed

text \<open>The histogram counts every outcome of the retained window, in ascending order of the names.\<close>

lemma map_of_count_name:
  "map_of (count_name name counts) =
     (map_of counts)(name \<mapsto> (case map_of counts name of None \<Rightarrow> 1 | Some k \<Rightarrow> k + 1))"
  by (induction counts) (auto simp: fun_upd_def fun_eq_iff)

lemma distinct_count_name: "distinct (map fst counts) \<Longrightarrow> distinct (map fst (count_name name counts))"
proof (induction counts)
  case (Cons entry rest)
  have "fst ` set (count_name name rest) \<subseteq> insert name (fst ` set rest)"
    by (induction rest) auto
  with Cons show ?case by auto
qed simp

lemma map_of_counts:
  "distinct (map fst counts) \<Longrightarrow>
   distinct (map fst (foldl (\<lambda>counts r. count_name (f r) counts) counts rs)) \<and>
   map_of (foldl (\<lambda>counts r. count_name (f r) counts) counts rs) name =
     (if map_of counts name = None \<and> filter (\<lambda>r. f r = name) rs = [] then None
      else Some ((case map_of counts name of None \<Rightarrow> 0 | Some k \<Rightarrow> k) + of_nat (length (filter (\<lambda>r. f r = name) rs))))"
proof (induction rs arbitrary: counts)
  case Nil
  then show ?case by (auto split: option.split)
next
  case (Cons r rs)
  from Cons.IH [OF distinct_count_name [OF Cons.prems], of "f r"] show ?case
    by (auto simp: map_of_count_name split: option.split)
qed

lemma outcome_histogram_counts:
  "ascending fst (outcome_histogram h) \<and>
   map_of (outcome_histogram h) (Outcome_to_string o') =
     (let n = length (filter (\<lambda>r. Outcome_to_string (rec_outcome r) = Outcome_to_string o') (hist_records h))
      in if n = 0 then None else Some (of_nat n))"
proof -
  let ?f = "\<lambda>r. Outcome_to_string (rec_outcome r)"
  let ?counts = "foldl (\<lambda>counts r. count_name (?f r) counts) [] (hist_records h)"
  note counts = map_of_counts [of "[]" ?f "hist_records h" "Outcome_to_string o'", simplified]
  have asc: "ascending fst (outcome_histogram h)"
    unfolding outcome_histogram_def by (rule std_sort_ascending) (use counts in simp)
  have "set (outcome_histogram h) = set ?counts"
    by (simp add: outcome_histogram_def sort_simps)
  then have "map_of (outcome_histogram h) = map_of ?counts"
    by (rule map_of_inject_set [OF ascending_distinct [OF asc] conjunct1 [OF counts], THEN iffD2])
  with asc counts show ?thesis by (auto simp: Let_def)
qed

text \<open>
  C31: The ring is an exact window on everything that was ever recorded. After any sequence of
  recordings, capacity changes, correlation bindings and clears (fewer than \<open>2 ^ 64 - 1\<close> of them)
  an ordinal is answered with the record that was inserted under it, as evicted when that record
  was dropped, and as future when it was never issued; the latest records and every page are
  the corresponding pieces of the full log; and the ring never holds more than its capacity.
\<close>

theorem history_refines_log:
  assumes "length ops < 18446744073709551615"
  shows "let h = foldl history_step (DecisionHistory_new capacity) ops;
             l = foldl log_step (HistoryLog_new capacity) ops
    in history_get ordinal h =
         (if log_all l = [] then Inl HistoryStatus.kEmpty
          else if unat ordinal > length (log_all l) then Inl HistoryStatus.kFuture
          else if unat ordinal \<le> log_dropped l then Inl HistoryStatus.kEvicted
          else Inr (log_all l ! (unat ordinal - 1))) \<and>
       latest n h = take n (rev (drop (log_dropped l) (log_all l))) \<and>
       page ordinal n h = take n (drop (max (unat ordinal - 1) (log_dropped l)) (log_all l)) \<and>
       history_size h \<le> log_capacity l"
proof -
  let ?h = "foldl history_step (DecisionHistory_new capacity) ops"
  let ?l = "foldl log_step (HistoryLog_new capacity) ops"
  have r: "log_represents ?l ?h"
    by (rule history_log.run_represents [OF log_represents_new])
  have n: "length (log_all ?l) < 18446744073709551615"
    using log_length_le [of "HistoryLog_new capacity" ops] assms by (simp add: HistoryLog_new_def)
  have "history_size ?h \<le> log_capacity ?l" using r by (simp add: history_size_def log_represents_def)
  with history_get_log [OF r n] latest_log [OF r] page_log [OF r n] show ?thesis
    by (simp add: Let_def retained_def)
qed

theorem history_refines_log_witness:
  "let d = DecisionRecord_default; h = foldl history_step (DecisionHistory_new 2) [Record d, Record d, Record d]
   in history_get 1 h = Inl HistoryStatus.kEvicted \<and> history_get 4 h = Inl HistoryStatus.kFuture \<and>
      history_get 3 h = Inr (DecisionRecord_default\<lparr>rec_decision_sequence := 3\<rparr>)"
  using history_refines_log [of "[Record DecisionRecord_default, Record DecisionRecord_default, Record DecisionRecord_default]" 2 1]
    history_refines_log [of "[Record DecisionRecord_default, Record DecisionRecord_default, Record DecisionRecord_default]" 2 3]
    history_refines_log [of "[Record DecisionRecord_default, Record DecisionRecord_default, Record DecisionRecord_default]" 2 4]
  by (simp add: Let_def HistoryLog_new_def log_trim_def stamp_def clamp_capacity_def limit_defs)

end
