(* ===== verification/CTF_Catalog.thy ===== *)
theory CTF_Catalog
  imports CTF_Evidence
begin

text \<open>
  The durable collective catalog (include/ctf/catalog.hpp, src/catalog.cpp): validation of
  definitions, registration with deterministic generation minting, attempts, lifecycle states,
  and the bulk load and export used by persistence.

  The catalog takes no locks; its caller serializes it, so an operation is a function from
  catalog to catalog. \<open>catalog_step\<close> collects the operations the service performs, and the
  invariant \<open>catalog_inv\<close> is kept by all of them.
\<close>

section \<open>Records and results\<close>

datatype RegistrationResult =
    kRegistered
  | kGenerationAdvanced
  | kUnchanged
  | kRejectedInvalid
  | kRejectedTerminal
  | kRejectedCapacity

primrec RegistrationResult_to_string :: "RegistrationResult \<Rightarrow> string" where
  "RegistrationResult_to_string RegistrationResult.kRegistered = ''registered''"
| "RegistrationResult_to_string RegistrationResult.kGenerationAdvanced = ''generation_advanced''"
| "RegistrationResult_to_string RegistrationResult.kUnchanged = ''unchanged''"
| "RegistrationResult_to_string RegistrationResult.kRejectedInvalid = ''rejected_invalid''"
| "RegistrationResult_to_string RegistrationResult.kRejectedTerminal = ''rejected_terminal''"
| "RegistrationResult_to_string RegistrationResult.kRejectedCapacity = ''rejected_capacity''"

record CollectiveRecord =
  crec_definition :: CollectiveDefinition
  crec_state :: CollectiveState
  crec_current_attempt :: CollectiveAttemptId
  crec_attempt_transfer_bytes :: u64
  crec_attempt_sequence :: Sequence
  crec_registration_sequence :: Sequence
  crec_last_mutation_sequence :: Sequence
  crec_registered_monotonic_ms :: u64
  crec_last_mutated_monotonic_ms :: u64
  crec_generation_ancestry_depth :: u32

definition CollectiveRecord_default :: CollectiveRecord where
  "CollectiveRecord_default =
     \<lparr>crec_definition = CollectiveDefinition_default, crec_state = CollectiveState.kUnregistered,
      crec_current_attempt = no_identity, crec_attempt_transfer_bytes = 0, crec_attempt_sequence = 0,
      crec_registration_sequence = 0, crec_last_mutation_sequence = 0,
      crec_registered_monotonic_ms = 0, crec_last_mutated_monotonic_ms = 0,
      crec_generation_ancestry_depth = 0\<rparr>"

definition accepts_new_authority :: "CollectiveRecord \<Rightarrow> bool" where
  "accepts_new_authority r \<longleftrightarrow> collective_state_accepts_new_authority (crec_state r)"

definition is_live :: "CollectiveRecord \<Rightarrow> bool" where
  "is_live r \<longleftrightarrow>
     crec_state r \<noteq> CollectiveState.kUnregistered \<and> \<not> collective_state_is_terminal (crec_state r)"

record RegistrationOutcome =
  ro_result :: RegistrationResult
  ro_generation :: CollectiveGeneration
  ro_attempt :: CollectiveAttemptId
  ro_reasons :: ReasonChain
  ro_created :: bool
  ro_advanced :: bool

definition RegistrationOutcome_default :: RegistrationOutcome where
  "RegistrationOutcome_default =
     \<lparr>ro_result = RegistrationResult.kRejectedInvalid, ro_generation = no_identity,
      ro_attempt = no_identity, ro_reasons = [], ro_created = False, ro_advanced = False\<rparr>"

record CollectiveCatalog =
  cat_records :: "(CollectiveId, CollectiveRecord) idmap"
  cat_capacity :: u32
  cat_mutation_sequence :: Sequence

definition CollectiveCatalog_new :: "u32 \<Rightarrow> CollectiveCatalog" where
  "CollectiveCatalog_new capacity =
     \<lparr>cat_records = [], cat_capacity = (if capacity = 0 then 1 else capacity), cat_mutation_sequence = 0\<rparr>"


section \<open>Validation\<close>

definition definitions_equivalent :: "CollectiveDefinition \<Rightarrow> CollectiveDefinition \<Rightarrow> bool" where
  "definitions_equivalent a b \<longleftrightarrow>
     def_id a = def_id b \<and> def_collective_class a = def_collective_class b \<and>
     def_algorithm_hint a = def_algorithm_hint b \<and> def_scope a = def_scope b \<and>
     def_label a = def_label b \<and> def_origin_node a = def_origin_node b \<and>
     def_fabric a = def_fabric b \<and> def_participants a = def_participants b \<and>
     def_phases a = def_phases b \<and> def_steps a = def_steps b \<and> def_metadata a = def_metadata b \<and>
     def_declares_barrier_semantics a = def_declares_barrier_semantics b \<and>
     def_logical_bytes a = def_logical_bytes b"

definition check_phase :: "CollectivePhase option \<Rightarrow> CollectivePhase \<Rightarrow> Status" where
  "check_phase previous phase =
     (if is_unset (phase_index phase) \<or> unat (phase_index phase) > kPhasesMaxPerCollective
      then Status ErrorCode_kValidationPhaseOutOfRange ''collective phase index out of range''
      else if length (phase_label phase) > kLabelBytesMax
      then Status ErrorCode_kValidationLabelTooLong ''collective phase label exceeds the bound''
      else if (case previous of None \<Rightarrow> False | Some p \<Rightarrow> \<not> phase_index p < phase_index phase)
      then Status ErrorCode_kDecodeNonCanonical ''collective phases are not strictly ascending''
      else status_ok)"

definition check_step :: "CollectiveStep option \<Rightarrow> CollectiveStep \<Rightarrow> Status" where
  "check_step previous step =
     (if is_unset (step_phase_index step) \<or> is_unset (step_index step)
      then Status ErrorCode_kValidationStepOutOfRange ''collective step is missing its indices''
      else if unat (step_index step) > kStepsMaxPerPhase
      then Status ErrorCode_kValidationStepOutOfRange ''collective step index out of range''
      else
        case previous of
          None \<Rightarrow> status_ok
        | Some p \<Rightarrow>
            if step_phase_index p > step_phase_index step
            then Status ErrorCode_kDecodeNonCanonical ''collective steps are not ordered by phase''
            else if step_phase_index p = step_phase_index step \<and> \<not> step_index p < step_index step
            then Status ErrorCode_kDecodeNonCanonical ''collective steps are not strictly ascending''
            else status_ok)"

definition validate_definition :: "CollectiveDefinition \<Rightarrow> Status" where
  "validate_definition d =
     (if is_none (def_id d)
      then Status ErrorCode_kValidationGenerationUnset ''collective definition has no identity''
      else if \<not> is_known_collective_class (def_collective_class d) \<and>
        def_collective_class d \<noteq> CollectiveClass.kUnknown \<and>
        def_collective_class d \<noteq> CollectiveClass.kUnknownVendor
      then Status ErrorCode_kValidationClassUnknownRejected ''collective definition has an invalid class''
      else if length (def_label d) > kLabelBytesMax
      then Status ErrorCode_kValidationLabelTooLong ''collective label exceeds the bound''
      else if def_participants d = []
      then Status ErrorCode_kValidationParticipantCountOutOfRange ''collective has no participants''
      else if length (def_participants d) > kParticipantsMaxPerCollective
      then Status ErrorCode_kValidationParticipantCountOutOfRange ''collective exceeds the participant bound''
      else if \<not> participants_are_canonical (def_participants d)
      then Status ErrorCode_kDecodeNonCanonical ''collective participants are not canonical''
      else if list_ex is_none (def_participants d)
      then Status ErrorCode_kValidationParticipantUnset ''collective contains an unset participant''
      else if length (def_phases d) > kPhasesMaxPerCollective
      then Status ErrorCode_kValidationPhaseOutOfRange ''collective exceeds the phase bound''
      else
        let phases = check_entries check_phase None (def_phases d) in
        if \<not> is_ok phases then phases
        else if length (def_steps d) > kPhasesMaxPerCollective * kStepsMaxPerPhase
        then Status ErrorCode_kValidationStepOutOfRange ''collective exceeds the step bound''
        else check_entries check_step None (def_steps d))"


section \<open>Operations\<close>

text \<open>The generation a mutation mints: the first identity of a minter seeded with the salted sequence.\<close>

definition mint_generation :: "u64 \<Rightarrow> Sequence \<Rightarrow> CollectiveGeneration" where
  "mint_generation salt mutation =
     (let generation = fst (minter_next (minter_new (mutation XOR salt)))
      in if is_none generation then Identity 1 1 else generation)"

definition register_outcome ::
  "RegistrationResult \<Rightarrow> string \<Rightarrow> string \<Rightarrow> Identity \<Rightarrow> RegistrationOutcome" where
  "register_outcome result reason detail subject =
     RegistrationOutcome_default\<lparr>ro_result := result, ro_reasons := chain_add reason detail subject []\<rparr>"

definition register_new ::
  "CollectiveDefinition \<Rightarrow> u64 \<Rightarrow> CollectiveCatalog \<Rightarrow> RegistrationOutcome \<times> CollectiveCatalog" where
  "register_new d now_monotonic_ms c =
     (let sequence = cat_mutation_sequence c + 1;
          generation = (if is_none (def_generation d) then mint_generation 0xC0FFEE sequence
                        else def_generation d);
          record = CollectiveRecord_default
            \<lparr>crec_definition := d\<lparr>def_registration_sequence := sequence, def_generation := generation\<rparr>,
             crec_registration_sequence := sequence, crec_last_mutation_sequence := sequence,
             crec_state := CollectiveState.kRegistered, crec_registered_monotonic_ms := now_monotonic_ms,
             crec_last_mutated_monotonic_ms := now_monotonic_ms, crec_generation_ancestry_depth := 1\<rparr>
      in ((register_outcome RegistrationResult.kRegistered ''registered''
             ''new durable collective definition stored'' (def_id d))
             \<lparr>ro_generation := generation, ro_created := True\<rparr>,
          c\<lparr>cat_mutation_sequence := sequence,
            cat_records := idm_store (def_id d) record (cat_records c)\<rparr>))"

definition register_change ::
  "CollectiveDefinition \<Rightarrow> u64 \<Rightarrow> CollectiveRecord \<Rightarrow> CollectiveCatalog \<Rightarrow>
   RegistrationOutcome \<times> CollectiveCatalog" where
  "register_change d now_monotonic_ms record c =
     (let generation = mint_generation 0xBEEF (cat_mutation_sequence c + 1);
          sequence = cat_mutation_sequence c + 1;
          updated = d\<lparr>def_generation := generation, def_registration_sequence := sequence\<rparr>
      in ((register_outcome RegistrationResult.kGenerationAdvanced ''generation_advanced''
             ''definition changed; a new generation was minted and previous decisions are stale'' (def_id d))
             \<lparr>ro_generation := generation, ro_advanced := True\<rparr>,
          c\<lparr>cat_mutation_sequence := sequence,
            cat_records := idm_store (def_id d)
              (record\<lparr>crec_definition := updated, crec_state := CollectiveState.kRegistered,
                crec_registration_sequence := sequence, crec_last_mutation_sequence := sequence,
                crec_last_mutated_monotonic_ms := now_monotonic_ms,
                crec_current_attempt := no_identity, crec_attempt_sequence := 0,
                crec_generation_ancestry_depth := crec_generation_ancestry_depth record + 1\<rparr>)
              (cat_records c)\<rparr>))"

definition register_definition ::
  "CollectiveDefinition \<Rightarrow> u64 \<Rightarrow> CollectiveCatalog \<Rightarrow> RegistrationOutcome \<times> CollectiveCatalog" where
  "register_definition d now_monotonic_ms c =
     (let status = validate_definition d in
      if \<not> is_ok status
      then (register_outcome RegistrationResult.kRejectedInvalid ''definition_invalid''
              (status_message status) (def_id d), c)
      else
        case idm_find (cat_records c) (def_id d) of
          None \<Rightarrow>
            if idm_size (cat_records c) \<ge> unat (cat_capacity c)
            then (register_outcome RegistrationResult.kRejectedCapacity ''catalog_capacity_exhausted''
                    ''the live collective bound has been reached; retire definitions first'' (def_id d), c)
            else register_new d now_monotonic_ms c
        | Some record \<Rightarrow>
            if collective_state_is_terminal (crec_state record)
            then (register_outcome RegistrationResult.kRejectedTerminal ''definition_terminal''
                    (''collective is '' @ CollectiveState_to_string (crec_state record) @
                     ''; a terminal definition is never resurrected'') (def_id d), c)
            else if definitions_equivalent (crec_definition record) d
            then ((register_outcome RegistrationResult.kUnchanged ''unchanged''
                     ''re-registration matched the stored definition exactly'' (def_id d))
                     \<lparr>ro_generation := def_generation (crec_definition record),
                      ro_attempt := crec_current_attempt record\<rparr>, c)
            else register_change d now_monotonic_ms record c)"

text \<open>\<open>Inr\<close> of the previous attempt (the out parameter) is the status \<^verbatim>\<open>ok\<close>.\<close>

definition catalog_begin_attempt ::
  "CollectiveId \<Rightarrow> CollectiveAttemptId \<Rightarrow> u64 \<Rightarrow> CollectiveCatalog \<Rightarrow>
   (Status + CollectiveAttemptId) \<times> CollectiveCatalog" where
  "catalog_begin_attempt i attempt now_monotonic_ms c =
     (if is_none attempt
      then (Inl (Status ErrorCode_kValidationAttemptUnset ''attempt identity is unset''), c)
      else
        case idm_find (cat_records c) i of
          None \<Rightarrow> (Inl (Status ErrorCode_kStateCollectiveUnknown ''collective is not registered''), c)
        | Some record \<Rightarrow>
            if \<not> accepts_new_authority record
            then (Inl (Status ErrorCode_kStateNotLive
                    (''collective is '' @ CollectiveState_to_string (crec_state record) @
                     '' and does not accept a new attempt'')), c)
            else if crec_current_attempt record = attempt
            then (Inl (Status ErrorCode_kCompletionDuplicate ''attempt identity is already current''), c)
            else
              (Inr (crec_current_attempt record),
               c\<lparr>cat_mutation_sequence := cat_mutation_sequence c + 1,
                 cat_records := idm_store i
                   (record\<lparr>crec_current_attempt := attempt,
                     crec_attempt_sequence := crec_attempt_sequence record + 1,
                     crec_state := CollectiveState.kPlanning,
                     crec_last_mutated_monotonic_ms := now_monotonic_ms,
                     crec_last_mutation_sequence := cat_mutation_sequence c + 1\<rparr>)
                   (cat_records c)\<rparr>))"

definition catalog_set_state ::
  "CollectiveId \<Rightarrow> CollectiveState \<Rightarrow> u64 \<Rightarrow> CollectiveCatalog \<Rightarrow> Status \<times> CollectiveCatalog" where
  "catalog_set_state i state now_monotonic_ms c =
     (case idm_find (cat_records c) i of
        None \<Rightarrow> (Status ErrorCode_kStateCollectiveUnknown ''collective is not registered'', c)
      | Some record \<Rightarrow>
          if collective_state_is_terminal (crec_state record) \<and> \<not> collective_state_is_terminal state
          then (Status ErrorCode_kStateCollectiveRetired
                  ''a terminal collective is never moved back to a live state'', c)
          else
            (status_ok,
             c\<lparr>cat_mutation_sequence := cat_mutation_sequence c + 1,
               cat_records := idm_store i
                 (record\<lparr>crec_state := state, crec_last_mutated_monotonic_ms := now_monotonic_ms,
                   crec_last_mutation_sequence := cat_mutation_sequence c + 1\<rparr>)
                 (cat_records c)\<rparr>))"

definition catalog_retire :: "CollectiveId \<Rightarrow> u64 \<Rightarrow> CollectiveCatalog \<Rightarrow> Status \<times> CollectiveCatalog" where
  "catalog_retire i now_monotonic_ms c = catalog_set_state i CollectiveState.kRetired now_monotonic_ms c"

definition catalog_cancel :: "CollectiveId \<Rightarrow> u64 \<Rightarrow> CollectiveCatalog \<Rightarrow> Status \<times> CollectiveCatalog" where
  "catalog_cancel i now_monotonic_ms c = catalog_set_state i CollectiveState.kCancelled now_monotonic_ms c"

definition catalog_find :: "CollectiveCatalog \<Rightarrow> CollectiveId \<Rightarrow> CollectiveRecord option" where
  "catalog_find c i = idm_find (cat_records c) i"

definition catalog_contains :: "CollectiveCatalog \<Rightarrow> CollectiveId \<Rightarrow> bool" where
  "catalog_contains c i \<longleftrightarrow> catalog_find c i \<noteq> None"

definition catalog_size :: "CollectiveCatalog \<Rightarrow> nat" where
  "catalog_size c = idm_size (cat_records c)"

text \<open>
  \<^verbatim>\<open>ids\<close> adds offset and limit in \<^verbatim>\<open>std::size_t\<close>. When the sum wraps below the offset the
  reservation of \<^verbatim>\<open>end - offset\<close> elements exceeds \<^verbatim>\<open>max_size\<close> and throws
  \<^verbatim>\<open>std::length_error\<close>: \<open>None\<close>.
\<close>

definition catalog_ids :: "u64 \<Rightarrow> u64 \<Rightarrow> CollectiveCatalog \<Rightarrow> CollectiveId list option" where
  "catalog_ids offset limit c =
     (let all = std_sort (\<lambda>a b. a < b) (map fst (cat_records c)) in
      if unat offset \<ge> length all \<or> limit = 0 then Some []
      else
        let stop = min (length all) (unat (offset + limit)) in
        if stop < unat offset then None
        else Some (map (\<lambda>index. all ! index) [unat offset..<stop]))"

fun stage_records ::
  "CollectiveRecord list \<Rightarrow> (CollectiveId, CollectiveRecord) idmap \<Rightarrow> Sequence \<Rightarrow>
   Status + (CollectiveId, CollectiveRecord) idmap \<times> Sequence" where
  "stage_records [] staged highest = Inr (staged, highest)"
| "stage_records (record # rest) staged highest =
     (let status = validate_definition (crec_definition record) in
      if \<not> is_ok status
      then Inl (Status ErrorCode_kPersistenceImpossibleState
             (''snapshot holds an invalid definition: '' @ status_message status))
      else if is_none (def_generation (crec_definition record))
      then Inl (Status ErrorCode_kPersistenceImpossibleState ''snapshot holds a definition without a generation'')
      else if crec_state record = CollectiveState.kUnregistered
      then Inl (Status ErrorCode_kPersistenceImpossibleState ''snapshot holds an unregistered collective'')
      else if idm_find staged (def_id (crec_definition record)) \<noteq> None
      then Inl (Status ErrorCode_kPersistenceImpossibleState ''snapshot holds a duplicate collective identity'')
      else stage_records rest (idm_store (def_id (crec_definition record)) record staged)
             (max (max highest (crec_registration_sequence record)) (crec_last_mutation_sequence record)))"

definition catalog_load :: "CollectiveRecord list \<Rightarrow> CollectiveCatalog \<Rightarrow> Status \<times> CollectiveCatalog" where
  "catalog_load records c =
     (if length records > unat (cat_capacity c)
      then (Status ErrorCode_kPersistenceImpossibleState ''snapshot holds more collectives than the live bound'', c)
      else
        case stage_records records [] 0 of
          Inl status \<Rightarrow> (status, c)
        | Inr (staged, highest) \<Rightarrow>
            (status_ok, c\<lparr>cat_records := staged, cat_mutation_sequence := highest\<rparr>))"

definition export_all :: "CollectiveCatalog \<Rightarrow> CollectiveRecord list" where
  "export_all c =
     std_sort (\<lambda>a b. def_id (crec_definition a) < def_id (crec_definition b)) (idm_values (cat_records c))"

definition catalog_clear :: "CollectiveCatalog \<Rightarrow> CollectiveCatalog" where
  "catalog_clear c = c\<lparr>cat_records := [], cat_mutation_sequence := 0\<rparr>"

text \<open>
  The one mutation the service performs through \<^verbatim>\<open>find_mutable\<close>: the declared volume of the
  current attempt.
\<close>

definition set_attempt_transfer_bytes ::
  "CollectiveId \<Rightarrow> u64 \<Rightarrow> CollectiveCatalog \<Rightarrow> CollectiveCatalog" where
  "set_attempt_transfer_bytes i transfer_bytes c =
     (case idm_find (cat_records c) i of
        None \<Rightarrow> c
      | Some record \<Rightarrow>
          c\<lparr>cat_records := idm_store i (record\<lparr>crec_attempt_transfer_bytes := transfer_bytes\<rparr>) (cat_records c)\<rparr>)"


section \<open>The catalog as a machine\<close>

datatype CatalogOp =
    Register CollectiveDefinition u64
  | BeginAttempt CollectiveId CollectiveAttemptId u64
  | Activate CollectiveId u64
  | Retire CollectiveId u64
  | Cancel CollectiveId u64
  | DeclareBytes CollectiveId u64

fun catalog_step :: "CollectiveCatalog \<Rightarrow> CatalogOp \<Rightarrow> CollectiveCatalog" where
  "catalog_step c (Register d now) = snd (register_definition d now c)"
| "catalog_step c (BeginAttempt i attempt now) = snd (catalog_begin_attempt i attempt now c)"
| "catalog_step c (Activate i now) = snd (catalog_set_state i CollectiveState.kActive now c)"
| "catalog_step c (Retire i now) = snd (catalog_retire i now c)"
| "catalog_step c (Cancel i now) = snd (catalog_cancel i now c)"
| "catalog_step c (DeclareBytes i bytes) = set_attempt_transfer_bytes i bytes c"

definition record_ok :: "CollectiveId \<Rightarrow> CollectiveRecord \<Rightarrow> bool" where
  "record_ok i r \<longleftrightarrow>
     def_id (crec_definition r) = i \<and> is_ok (validate_definition (crec_definition r)) \<and>
     is_some (def_generation (crec_definition r)) \<and> crec_state r \<noteq> CollectiveState.kUnregistered"

definition catalog_inv :: "CollectiveCatalog \<Rightarrow> bool" where
  "catalog_inv c \<longleftrightarrow>
     idm_wf (cat_records c) \<and> idm_size (cat_records c) \<le> unat (cat_capacity c) \<and>
     (\<forall>i r. idm_find (cat_records c) i = Some r \<longrightarrow> record_ok i r)"

text \<open>
  What an operation can do to the catalog: nothing; store a valid record under a new mutation
  number, where a terminal record keeps its definition and attempt and stays terminal; or change
  the declared volume of a record.
\<close>

definition keeps_terminal :: "CollectiveRecord \<Rightarrow> CollectiveRecord \<Rightarrow> bool" where
  "keeps_terminal old r \<longleftrightarrow>
     (collective_state_is_terminal (crec_state old) \<longrightarrow>
      collective_state_is_terminal (crec_state r) \<and> crec_definition r = crec_definition old \<and>
      crec_current_attempt r = crec_current_attempt old)"

inductive catalog_update :: "CollectiveCatalog \<Rightarrow> CollectiveCatalog \<Rightarrow> bool" where
  keep: "catalog_update c c"
| create: "record_ok i r \<Longrightarrow> idm_find (cat_records c) i = None \<Longrightarrow>
     idm_size (cat_records c) < unat (cat_capacity c) \<Longrightarrow>
     crec_registration_sequence r = cat_mutation_sequence c + 1 \<Longrightarrow>
     crec_last_mutation_sequence r = cat_mutation_sequence c + 1 \<Longrightarrow>
     catalog_update c (c\<lparr>cat_mutation_sequence := cat_mutation_sequence c + 1,
       cat_records := idm_store i r (cat_records c)\<rparr>)"
| change: "record_ok i r \<Longrightarrow> idm_find (cat_records c) i = Some old \<Longrightarrow> keeps_terminal old r \<Longrightarrow>
     crec_registration_sequence r \<in> {crec_registration_sequence old, cat_mutation_sequence c + 1} \<Longrightarrow>
     crec_last_mutation_sequence r = cat_mutation_sequence c + 1 \<Longrightarrow>
     catalog_update c (c\<lparr>cat_mutation_sequence := cat_mutation_sequence c + 1,
       cat_records := idm_store i r (cat_records c)\<rparr>)"
| annotate: "idm_find (cat_records c) i = Some old \<Longrightarrow>
     catalog_update c (c\<lparr>cat_records :=
       idm_store i (old\<lparr>crec_attempt_transfer_bytes := bytes\<rparr>) (cat_records c)\<rparr>)"

lemma minter_next_some: "is_some (fst (minter_next (minter_new s)))"
proof -
  let ?state = "mix64 (minter_new s)"
  have "\<not> (mix64 ?state = 0 \<and> mix64 ((?state XOR 0xA5A5A5A5A5A5A5A5) XOR mix64 ?state) = 0)"
  proof
    assume z: "mix64 ?state = 0 \<and> mix64 ((?state XOR 0xA5A5A5A5A5A5A5A5) XOR mix64 ?state) = 0"
    then have "mix64 (?state XOR 0xA5A5A5A5A5A5A5A5) = mix64 ?state"
      by (elim conjE) (simp only: xor.right_neutral)
    then have "?state XOR 0xA5A5A5A5A5A5A5A5 = ?state XOR 0" by (simp only: mix64_inj xor.right_neutral)
    then have "(0xA5A5A5A5A5A5A5A5 :: u64) = 0" by (rule xor_left_inj)
    then show False by simp
  qed
  then show ?thesis by (simp add: minter_next_def Let_def is_some_def is_none_def)
qed

lemma mint_generation_simp: "mint_generation salt n = fst (minter_next (minter_new (n XOR salt)))"
  using minter_next_some by (simp add: mint_generation_def Let_def is_some_def)

lemma mint_generation_some [simp]: "is_some (mint_generation salt n)" "\<not> is_none (mint_generation salt n)"
  using minter_next_some by (simp_all add: mint_generation_simp is_some_def)

text \<open>Validation reads neither the generation nor the registration sequence.\<close>

lemma validate_definition_stamped [simp]:
  "validate_definition (d\<lparr>def_generation := g\<rparr>) = validate_definition d"
  "validate_definition (d\<lparr>def_registration_sequence := n\<rparr>) = validate_definition d"
  by (simp_all add: validate_definition_def Let_def)

lemma register_update:
  assumes "catalog_inv c"
  shows "catalog_update c (snd (register_definition d now c))"
proof (cases "is_ok (validate_definition d)")
  case valid: True
  show ?thesis
  proof (cases "idm_find (cat_records c) (def_id d)")
    case None
    then show ?thesis using valid
      by (auto simp: register_definition_def register_new_def Let_def record_ok_def is_some_def
          CollectiveRecord_default_def intro!: keep create split del: if_split split: if_splits)
  next
    case (Some old)
    then show ?thesis using valid
      by (auto simp: register_definition_def register_change_def Let_def record_ok_def keeps_terminal_def
          intro!: keep change)
  qed
qed (simp add: register_definition_def Let_def keep)

lemma catalog_inv_record: "catalog_inv c \<Longrightarrow> idm_find (cat_records c) i = Some r \<Longrightarrow> record_ok i r"
  by (simp add: catalog_inv_def)

lemma begin_attempt_update:
  assumes inv: "catalog_inv c"
  shows "catalog_update c (snd (catalog_begin_attempt i attempt now c))"
proof (cases "idm_find (cat_records c) i")
  case (Some old)
  note ok = catalog_inv_record [OF inv Some]
  have "\<not> collective_state_is_terminal (crec_state old)" if "accepts_new_authority old"
    using that
    by (cases "crec_state old")
      (simp_all add: accepts_new_authority_def collective_state_accepts_new_authority_def
        collective_state_is_terminal_def)
  with Some ok show ?thesis
    by (auto simp: catalog_begin_attempt_def record_ok_def keeps_terminal_def intro!: keep change)
qed (simp add: catalog_begin_attempt_def keep)

lemma set_state_update:
  assumes inv: "catalog_inv c" and state: "state \<noteq> CollectiveState.kUnregistered"
  shows "catalog_update c (snd (catalog_set_state i state now c))"
proof (cases "idm_find (cat_records c) i")
  case (Some old)
  note ok = catalog_inv_record [OF inv Some]
  with Some state show ?thesis
    by (auto simp: catalog_set_state_def record_ok_def keeps_terminal_def intro!: keep change)
qed (simp add: catalog_set_state_def keep)

lemma catalog_step_update: "catalog_inv c \<Longrightarrow> catalog_update c (catalog_step c op)"
  by (cases op)
    (simp_all add: register_update begin_attempt_update set_state_update catalog_retire_def catalog_cancel_def
      set_attempt_transfer_bytes_def keep annotate split: option.split)

lemma update_inv: "catalog_update c c' \<Longrightarrow> catalog_inv c \<Longrightarrow> catalog_inv c'"
proof (induction rule: catalog_update.induct)
  case (annotate c i old bytes)
  note ok = catalog_inv_record [OF annotate(2,1)]
  with annotate show ?case by (auto simp: catalog_inv_def idm.entries_store record_ok_def)
qed (auto simp: catalog_inv_def idm.entries_store)

interpretation catalog_run: invariant_system catalog_step catalog_inv
  by unfold_locales (rule update_inv [OF catalog_step_update])

lemma catalog_inv_new: "catalog_inv (CollectiveCatalog_new capacity)"
  by (simp add: catalog_inv_def CollectiveCatalog_new_def)

text \<open>A collective whose life has ended, with the definition and attempt it ended with.\<close>

definition ended ::
  "CollectiveId \<Rightarrow> CollectiveDefinition \<Rightarrow> CollectiveAttemptId \<Rightarrow> CollectiveCatalog \<Rightarrow> bool" where
  "ended i d attempt c \<longleftrightarrow>
     (\<exists>r. idm_find (cat_records c) i = Some r \<and> collective_state_is_terminal (crec_state r) \<and>
          crec_definition r = d \<and> crec_current_attempt r = attempt)"

lemma update_ended: "catalog_update c c' \<Longrightarrow> ended i d attempt c \<Longrightarrow> ended i d attempt c'"
  by (induction rule: catalog_update.induct) (auto simp: ended_def keeps_terminal_def)

interpretation ended_run: invariant_system catalog_step "\<lambda>c. catalog_inv c \<and> ended i d attempt c" for i d attempt
  by unfold_locales (blast intro: update_inv update_ended catalog_step_update)

lemma update_size:
  "catalog_update c c' \<Longrightarrow> cat_capacity c' = cat_capacity c \<and> idm_size (cat_records c) \<le> idm_size (cat_records c')"
  by (induction rule: catalog_update.induct) (auto simp: idm.entries_store)

interpretation size_run: invariant_system catalog_step
  "\<lambda>c. catalog_inv c \<and> cat_capacity c = capacity \<and> n \<le> idm_size (cat_records c)" for capacity n
proof
  fix c op
  assume c: "catalog_inv c \<and> cat_capacity c = capacity \<and> n \<le> idm_size (cat_records c)"
  then have "catalog_update c (catalog_step c op)" by (simp add: catalog_step_update)
  from update_size [OF this] update_inv [OF this] c
  show "catalog_inv (catalog_step c op) \<and> cat_capacity (catalog_step c op) = capacity \<and>
      n \<le> idm_size (cat_records (catalog_step c op))"
    by (auto dest: le_trans)
qed


section \<open>Mutation numbers\<close>

text \<open>
  Until the counter wraps, the mutation number is the greatest sequence stored in any record:
  what a bulk load recovers it from.
\<close>

definition sequence_inv :: "CollectiveCatalog \<Rightarrow> bool" where
  "sequence_inv c \<longleftrightarrow>
     (\<forall>i r. idm_find (cat_records c) i = Some r \<longrightarrow>
        crec_registration_sequence r \<le> cat_mutation_sequence c \<and>
        crec_last_mutation_sequence r \<le> cat_mutation_sequence c) \<and>
     (if cat_records c = [] then cat_mutation_sequence c = 0
      else \<exists>i r. idm_find (cat_records c) i = Some r \<and>
             crec_last_mutation_sequence r = cat_mutation_sequence c)"

lemma le_successor: "n < 18446744073709551615 \<Longrightarrow> unat m = n \<Longrightarrow> x \<le> m \<Longrightarrow> x \<le> m + 1" for m x :: u64
  by (simp add: word_le_nat_alt unat_add_small_u64)

lemma idm_store_not_Nil [simp]: "idm_store k v m \<noteq> []"
  using idm.lookup_store [of k v m k] by (auto simp: idm_find_def)

lemma update_sequence:
  "catalog_update c c' \<Longrightarrow> sequence_inv c \<Longrightarrow> unat (cat_mutation_sequence c) < 18446744073709551615 \<Longrightarrow>
   sequence_inv c' \<and> unat (cat_mutation_sequence c') \<le> Suc (unat (cat_mutation_sequence c))"
proof (induction rule: catalog_update.induct)
  case (create i r c)
  then show ?case
    by (auto simp: sequence_inv_def unat_add_small_u64 intro: le_successor [OF _ refl])
next
  case (change i r c old)
  then show ?case
    by (auto simp: sequence_inv_def unat_add_small_u64 intro: le_successor [OF _ refl])
next
  case (annotate c i old bytes)
  then show ?case by (auto simp: sequence_inv_def split: if_splits) (metis option.inject)
qed simp

lemma run_sequence:
  "length ops < 18446744073709551615 \<Longrightarrow>
   sequence_inv (foldl catalog_step (CollectiveCatalog_new capacity) ops) \<and>
   unat (cat_mutation_sequence (foldl catalog_step (CollectiveCatalog_new capacity) ops)) \<le> length ops"
proof (induction ops rule: rev_induct)
  case Nil
  show ?case by (simp add: sequence_inv_def CollectiveCatalog_new_def)
next
  case (snoc op ops)
  let ?c = "foldl catalog_step (CollectiveCatalog_new capacity) ops"
  have "catalog_update ?c (catalog_step ?c op)"
    by (rule catalog_step_update [OF catalog_run.run_inv [OF catalog_inv_new]])
  from update_sequence [OF this] snoc show ?case by simp
qed


section \<open>Bulk load\<close>

abbreviation record_id :: "CollectiveRecord \<Rightarrow> CollectiveId" where
  "record_id r \<equiv> def_id (crec_definition r)"

lemma stage_records_ok:
  assumes "\<forall>r\<in>set rs. record_ok (record_id r) r" "distinct (map record_id rs)"
    and "\<forall>r\<in>set rs. idm_find staged (record_id r) = None"
  shows "\<exists>staged' top. stage_records rs staged highest = Inr (staged', top) \<and>
    (\<forall>i r. idm_find staged' i = Some r \<longleftrightarrow> idm_find staged i = Some r \<or> r \<in> set rs \<and> record_id r = i) \<and>
    highest \<le> top \<and>
    (\<forall>r\<in>set rs. crec_registration_sequence r \<le> top \<and> crec_last_mutation_sequence r \<le> top) \<and>
    (top = highest \<or> (\<exists>r\<in>set rs. top = crec_registration_sequence r \<or> top = crec_last_mutation_sequence r))"
  using assms
proof (induction rs arbitrary: staged highest)
  case Nil
  then show ?case by simp
next
  case (Cons r rs)
  let ?staged = "idm_store (record_id r) r staged"
  let ?highest = "max (max highest (crec_registration_sequence r)) (crec_last_mutation_sequence r)"
  have "stage_records (r # rs) staged highest = stage_records rs ?staged ?highest"
    using Cons.prems by (simp add: record_ok_def Let_def is_some_def)
  moreover have "\<forall>r\<in>set rs. record_ok (record_id r) r" "distinct (map record_id rs)"
    "\<forall>r\<in>set rs. idm_find ?staged (record_id r) = None"
    using Cons.prems by (auto simp: image_iff)
  note Cons.IH [OF this, of ?highest]
  then obtain staged' top where st: "stage_records rs ?staged ?highest = Inr (staged', top)"
    "\<forall>i r'. idm_find staged' i = Some r' \<longleftrightarrow> idm_find ?staged i = Some r' \<or> r' \<in> set rs \<and> record_id r' = i"
    "?highest \<le> top"
    "\<forall>r\<in>set rs. crec_registration_sequence r \<le> top \<and> crec_last_mutation_sequence r \<le> top"
    "top = ?highest \<or> (\<exists>r\<in>set rs. top = crec_registration_sequence r \<or> top = crec_last_mutation_sequence r)"
    by blast
  moreover have "idm_find ?staged i = Some r' \<or> r' \<in> set rs \<and> record_id r' = i \<longleftrightarrow>
      idm_find staged i = Some r' \<or> r' \<in> set (r # rs) \<and> record_id r' = i" for i r'
    using Cons.prems(3) by auto
  moreover have "top = highest \<or> (\<exists>r\<in>set (r # rs). top = crec_registration_sequence r \<or> top = crec_last_mutation_sequence r)"
    using st(5) by (auto simp: max_def split: if_splits)
  ultimately show ?case by (intro exI [of _ staged'] exI [of _ top]) auto
qed

lemma export_records:
  assumes "catalog_inv c"
  shows "r \<in> set (export_all c) \<longleftrightarrow> idm_find (cat_records c) (record_id r) = Some r"
    and "distinct (map record_id (export_all c))"
    and "length (export_all c) = idm_size (cat_records c)"
proof -
  have wf: "idm_wf (cat_records c)" using assms by (simp add: catalog_inv_def)
  have key: "record_id r = i" if "(i, r) \<in> set (cat_records c)" for i r
    using that wf catalog_inv_record [OF assms, of i r] by (simp add: idm_wf_def idm_find_def record_ok_def)
  show "r \<in> set (export_all c) \<longleftrightarrow> idm_find (cat_records c) (record_id r) = Some r"
    using idm_values_find [OF wf, of r] catalog_inv_record [OF assms]
    by (auto simp: export_all_def sort_simps record_ok_def)
  have "map record_id (idm_values (cat_records c)) = map fst (cat_records c)"
    using key by (simp add: idm_values_def)
  moreover have "mset (map record_id (export_all c)) = mset (map record_id (idm_values (cat_records c)))"
    by (simp add: export_all_def sort_simps)
  ultimately have "mset (map record_id (export_all c)) = mset (map fst (cat_records c))" by simp
  from mset_eq_imp_distinct_iff [OF this] wf show "distinct (map record_id (export_all c))"
    by (simp only: idm_wf_def)
  show "length (export_all c) = idm_size (cat_records c)"
    by (simp add: export_all_def sort_simps idm_values_def idm_size_def)
qed

lemma load_export:
  assumes inv: "catalog_inv c" and cap: "cat_capacity c0 = cat_capacity c"
  shows "\<exists>c'. catalog_load (export_all c) c0 = (status_ok, c') \<and>
    (\<forall>i. catalog_find c' i = catalog_find c i) \<and> cat_capacity c' = cat_capacity c \<and>
    (sequence_inv c \<longrightarrow> cat_mutation_sequence c' = cat_mutation_sequence c)"
proof -
  note ex = export_records [OF inv]
  have "\<forall>r\<in>set (export_all c). record_ok (record_id r) r"
    using catalog_inv_record [OF inv] by (simp add: ex(1))
  from stage_records_ok [OF this ex(2), of "[]" 0] obtain staged top where
    st: "stage_records (export_all c) [] 0 = Inr (staged, top)"
    "\<forall>i r. idm_find staged i = Some r \<longleftrightarrow> r \<in> set (export_all c) \<and> record_id r = i"
    "\<forall>r\<in>set (export_all c). crec_registration_sequence r \<le> top \<and> crec_last_mutation_sequence r \<le> top"
    "top = 0 \<or> (\<exists>r\<in>set (export_all c). top = crec_registration_sequence r \<or> top = crec_last_mutation_sequence r)"
    by auto
  have "idm_find staged i = Some r \<longleftrightarrow> idm_find (cat_records c) i = Some r" for i r
    using st(2) ex(1) catalog_inv_record [OF inv, of i r] by (auto simp: record_ok_def)
  then have same: "idm_find staged i = idm_find (cat_records c) i" for i
    by (metis option.exhaust)
  have "top = cat_mutation_sequence c" if s: "sequence_inv c"
  proof (cases "cat_records c = []")
    case True
    with st(4) ex(1) s show ?thesis by (auto simp: sequence_inv_def)
  next
    case False
    with s obtain i r where r: "idm_find (cat_records c) i = Some r"
      "crec_last_mutation_sequence r = cat_mutation_sequence c" by (auto simp: sequence_inv_def)
    from catalog_inv_record [OF inv r(1)] r(1) have "r \<in> set (export_all c)" by (simp add: ex(1) record_ok_def)
    with st(3) have "crec_last_mutation_sequence r \<le> top" by blast
    then have "cat_mutation_sequence c \<le> top" by (simp add: r(2))
    moreover have "top \<le> cat_mutation_sequence c"
      using st(4) s ex(1) by (auto simp: sequence_inv_def)
    ultimately show ?thesis by simp
  qed
  moreover have "\<not> length (export_all c) > unat (cat_capacity c0)"
    using inv by (simp add: ex(3) cap catalog_inv_def)
  ultimately show ?thesis
    using same cap by (simp add: catalog_load_def st(1) catalog_find_def)
qed


section \<open>Properties of the catalog\<close>

text \<open>A collective of two members, for the witnesses.\<close>

definition sample_collective :: "u64 \<Rightarrow> CollectiveDefinition" where
  "sample_collective n = CollectiveDefinition_default
     \<lparr>def_id := Identity 9 n, def_collective_class := CollectiveClass.kAllReduce,
      def_participants := [Identity 1 1, Identity 1 2]\<rparr>"

lemma sample_collective_valid: "is_ok (validate_definition (sample_collective n))"
  by (simp add: sample_collective_def CollectiveDefinition_default_def validate_definition_def
      is_known_collective_class_def is_none_def less_Identity_def identity_less_def limit_defs)

lemma sample_registered:
  "catalog_find (snd (register_definition (sample_collective n) now (CollectiveCatalog_new 1))) (Identity 9 n) \<noteq> None"
  "catalog_size (snd (register_definition (sample_collective n) now (CollectiveCatalog_new 1))) = 1"
  using sample_collective_valid [of n]
  by (simp_all add: register_definition_def register_new_def CollectiveCatalog_new_def catalog_find_def
      catalog_size_def Let_def sample_collective_def CollectiveDefinition_default_def idm.entries_store)

lemma sample_registered_inv:
  "catalog_inv (snd (register_definition (sample_collective n) now (CollectiveCatalog_new 1)))"
  using catalog_run.step_inv [OF catalog_inv_new, of _ "Register (sample_collective n) now"] by simp

text \<open>
  A collective whose life has ended is never resurrected. Once it is completed, cancelled,
  retired or timed out, then after any sequence of registrations, attempts, activations,
  cancellations and retirements it is still recorded, still terminal, and its definition
  (generation included) and its last attempt are what they were.
\<close>

theorem terminal_never_resurrected:
  assumes "catalog_inv c" "catalog_find c i = Some r" "collective_state_is_terminal (crec_state r)"
  shows "\<exists>r'. catalog_find (foldl catalog_step c ops) i = Some r' \<and>
    collective_state_is_terminal (crec_state r') \<and> crec_definition r' = crec_definition r \<and>
    crec_current_attempt r' = crec_current_attempt r"
proof -
  have "catalog_inv c \<and> ended i (crec_definition r) (crec_current_attempt r) c"
    using assms by (simp add: ended_def catalog_find_def)
  from ended_run.run_inv [OF this, of ops] show ?thesis by (simp add: ended_def catalog_find_def)
qed

definition retired_sample :: CollectiveCatalog where
  "retired_sample = snd (catalog_retire (Identity 9 1) 6
     (snd (register_definition (sample_collective 1) 5 (CollectiveCatalog_new 1))))"

lemma retired_sample_inv: "catalog_inv retired_sample"
  using catalog_run.step_inv [OF sample_registered_inv, of 1 5 "Retire (Identity 9 1) 6"]
  by (simp add: retired_sample_def)

lemma retired_sample_terminal:
  "\<exists>r. catalog_find retired_sample (Identity 9 1) = Some r \<and> collective_state_is_terminal (crec_state r)"
  using sample_registered(1) [of 1 5]
  by (auto simp: retired_sample_def catalog_retire_def catalog_set_state_def catalog_find_def
      collective_state_is_terminal_def split: option.split)

theorem terminal_never_resurrected_witness:
  "\<exists>r'. catalog_find (foldl catalog_step retired_sample
       [Register (sample_collective 1) 7, BeginAttempt (Identity 9 1) (Identity 8 8) 8, Activate (Identity 9 1) 9])
       (Identity 9 1) = Some r' \<and> collective_state_is_terminal (crec_state r')"
proof -
  obtain r where "catalog_find retired_sample (Identity 9 1) = Some r"
    "collective_state_is_terminal (crec_state r)" using retired_sample_terminal by blast
  from terminal_never_resurrected [OF retired_sample_inv this] show ?thesis by blast
qed

text \<open>
  A restart loses nothing. For every catalog reached by fewer than \<open>2 ^ 64 - 1\<close> operations,
  loading its export into a new catalog of the same capacity succeeds, restores every record
  exactly, and recovers the mutation number, so that later generations are minted from fresh
  numbers. A load that is refused leaves the catalog as it was.
\<close>

theorem catalog_restart:
  assumes "length ops < 18446744073709551615"
  shows "(let c = foldl catalog_step (CollectiveCatalog_new capacity) ops;
              loaded = catalog_load (export_all c) (CollectiveCatalog_new capacity)
          in is_ok (fst loaded) \<and> (\<forall>i. catalog_find (snd loaded) i = catalog_find c i) \<and>
             cat_mutation_sequence (snd loaded) = cat_mutation_sequence c) \<and>
    (\<not> is_ok (fst (catalog_load records c0)) \<longrightarrow> snd (catalog_load records c0) = c0)"
proof -
  let ?c = "foldl catalog_step (CollectiveCatalog_new capacity) ops"
  have cap: "cat_capacity (CollectiveCatalog_new capacity) = cat_capacity ?c"
    using size_run.run_inv [of "CollectiveCatalog_new capacity" _ 0 ops] catalog_inv_new by simp
  have "snd (catalog_load records c0) = c0" if "\<not> is_ok (fst (catalog_load records c0))"
    using that by (auto simp: catalog_load_def split: sum.splits if_splits)
  moreover obtain c' where "catalog_load (export_all ?c) (CollectiveCatalog_new capacity) = (status_ok, c')"
    "\<forall>i. catalog_find c' i = catalog_find ?c i" "cat_mutation_sequence c' = cat_mutation_sequence ?c"
    using load_export [OF catalog_run.run_inv [OF catalog_inv_new] cap] run_sequence [OF assms] by blast
  ultimately show ?thesis by (simp add: Let_def)
qed

theorem catalog_restart_witness:
  "let c = foldl catalog_step (CollectiveCatalog_new 4) [Register (sample_collective 1) 5, Retire (Identity 9 1) 6]
   in catalog_find (snd (catalog_load (export_all c) (CollectiveCatalog_new 4))) (Identity 9 1) =
      catalog_find c (Identity 9 1)"
  using catalog_restart [of "[Register (sample_collective 1) 5, Retire (Identity 9 1) 6]" 4]
  by (simp add: Let_def)

text \<open>
  A changed definition gets a generation no earlier change was given: two changes made under
  different mutation numbers mint different generations, and neither is the unset identity.
\<close>

theorem changed_generation_fresh:
  assumes "ro_result (fst (register_definition d now c)) = RegistrationResult.kGenerationAdvanced"
    and "ro_result (fst (register_definition d' now' c')) = RegistrationResult.kGenerationAdvanced"
    and "cat_mutation_sequence c \<noteq> cat_mutation_sequence c'"
  shows "ro_generation (fst (register_definition d now c)) \<noteq> ro_generation (fst (register_definition d' now' c')) \<and>
    is_some (ro_generation (fst (register_definition d now c)))"
proof -
  have gen: "ro_generation (fst (register_definition d now c)) = mint_generation 0xBEEF (cat_mutation_sequence c + 1)"
    if "ro_result (fst (register_definition d now c)) = RegistrationResult.kGenerationAdvanced" for d now c
    using that
    by (auto simp: register_definition_def register_new_def register_change_def register_outcome_def Let_def
        split: if_splits option.splits)
  have "(cat_mutation_sequence c + 1) XOR 0xBEEF \<noteq> (cat_mutation_sequence c' + 1) XOR 0xBEEF"
    using assms(3) xor_right_inj by fastforce
  with gen [OF assms(1)] gen [OF assms(2)] show ?thesis
    by (simp add: mint_generation_simp minter_next_inj minter_next_some)
qed

definition changed_sample :: "u64 \<Rightarrow> CollectiveDefinition" where
  "changed_sample bytes = (sample_collective 1)\<lparr>def_logical_bytes := bytes\<rparr>"

lemma changed_sample_fields:
  "def_id (changed_sample bytes) = Identity 9 1" "def_logical_bytes (changed_sample bytes) = bytes"
  by (simp_all add: changed_sample_def sample_collective_def CollectiveDefinition_default_def)

text \<open>What a changed definition does to a catalog that holds a live collective.\<close>

lemma register_changed:
  assumes "idm_find (cat_records c) (Identity 9 1) = Some r" "\<not> collective_state_is_terminal (crec_state r)"
    and "def_logical_bytes (crec_definition r) \<noteq> bytes"
  shows "register_definition (changed_sample bytes) now c = register_change (changed_sample bytes) now r c"
proof -
  have "validate_definition (changed_sample bytes) = validate_definition (sample_collective 1)"
    by (simp add: changed_sample_def validate_definition_def Let_def)
  then have "is_ok (validate_definition (changed_sample bytes))" using sample_collective_valid by simp
  then show ?thesis
    using assms by (simp add: register_definition_def definitions_equivalent_def changed_sample_fields)
qed

lemma sample_stored:
  "\<exists>r. idm_find (cat_records (snd (register_definition (sample_collective 1) 5 (CollectiveCatalog_new 1)))) (Identity 9 1) =
     Some r \<and> crec_state r = CollectiveState.kRegistered \<and> def_logical_bytes (crec_definition r) = 0"
  "cat_mutation_sequence (snd (register_definition (sample_collective 1) 5 (CollectiveCatalog_new 1))) = 1"
  "ro_generation (fst (register_definition (sample_collective 1) 5 (CollectiveCatalog_new 1))) = mint_generation 0xC0FFEE 1"
  using sample_collective_valid [of 1]
  by (simp_all add: register_definition_def register_new_def register_outcome_def CollectiveCatalog_new_def Let_def
      sample_collective_def CollectiveDefinition_default_def is_none_def no_identity_def)

theorem changed_generation_fresh_witness:
  "let c = snd (register_definition (sample_collective 1) 5 (CollectiveCatalog_new 1));
       c1 = snd (register_definition (changed_sample 7) 6 c)
   in ro_generation (fst (register_definition (changed_sample 7) 6 c)) \<noteq>
      ro_generation (fst (register_definition (changed_sample 8) 7 c1))"
proof -
  let ?c = "snd (register_definition (sample_collective 1) 5 (CollectiveCatalog_new 1))"
  let ?c1 = "snd (register_definition (changed_sample 7) 6 ?c)"
  obtain r where r: "idm_find (cat_records ?c) (Identity 9 1) = Some r"
    "crec_state r = CollectiveState.kRegistered" "def_logical_bytes (crec_definition r) = 0"
    using sample_stored(1) by blast
  have reg: "register_definition (changed_sample 7) 6 ?c = register_change (changed_sample 7) 6 r ?c"
    by (rule register_changed [OF r(1)]) (simp_all add: r collective_state_is_terminal_def)
  obtain r1 where r1: "idm_find (cat_records ?c1) (Identity 9 1) = Some r1"
    "crec_state r1 = CollectiveState.kRegistered" "def_logical_bytes (crec_definition r1) = 7"
    by (simp add: reg register_change_def Let_def changed_sample_fields)
  have reg1: "register_definition (changed_sample 8) 7 ?c1 = register_change (changed_sample 8) 7 r1 ?c1"
    by (rule register_changed [OF r1(1)]) (simp_all add: r1 collective_state_is_terminal_def)
  have "cat_mutation_sequence ?c \<noteq> cat_mutation_sequence ?c1"
    by (simp add: reg register_change_def Let_def sample_stored(2))
  moreover have "ro_result (fst (register_definition (changed_sample 7) 6 ?c)) = RegistrationResult.kGenerationAdvanced"
    by (simp add: reg register_change_def register_outcome_def Let_def)
  moreover have "ro_result (fst (register_definition (changed_sample 8) 7 ?c1)) = RegistrationResult.kGenerationAdvanced"
    unfolding reg1 by (simp add: register_change_def register_outcome_def Let_def)
  ultimately show ?thesis unfolding Let_def by (intro changed_generation_fresh [THEN conjunct1])
qed

text \<open>
  Retiring collectives frees no capacity, although the refusal asks for it. Once the catalog
  holds as many collectives as its capacity, every further identity is refused for good,
  whatever is retired, cancelled or changed in between.
\<close>

theorem retirement_frees_no_capacity:
  assumes "catalog_inv c" "catalog_size c = unat (cat_capacity c)"
    and "catalog_find (foldl catalog_step c ops) (def_id d) = None" "is_ok (validate_definition d)"
  shows "ro_result (fst (register_definition d now (foldl catalog_step c ops))) = RegistrationResult.kRejectedCapacity"
proof -
  have "cat_capacity (foldl catalog_step c ops) = cat_capacity c"
    "idm_size (cat_records c) \<le> idm_size (cat_records (foldl catalog_step c ops))"
    using size_run.run_inv [of c "cat_capacity c" "idm_size (cat_records c)" ops] assms(1) by simp_all
  with assms(2-4) show ?thesis
    by (simp add: register_definition_def Let_def catalog_find_def catalog_size_def register_outcome_def)
qed

theorem retirement_frees_no_capacity_witness:
  "ro_result (fst (register_definition (sample_collective 2) 9 (foldl catalog_step
     (snd (register_definition (sample_collective 1) 5 (CollectiveCatalog_new 1))) [Retire (Identity 9 1) 6]))) =
   RegistrationResult.kRejectedCapacity"
proof (rule retirement_frees_no_capacity [OF sample_registered_inv])
  show "is_ok (validate_definition (sample_collective 2))" by (rule sample_collective_valid)
qed (use sample_registered(2) [of 1 5] sample_collective_valid [of 1] in
    \<open>simp_all add: register_definition_def register_new_def CollectiveCatalog_new_def catalog_find_def
      catalog_retire_def catalog_set_state_def Let_def sample_collective_def CollectiveDefinition_default_def\<close>)

lemma repeated_activation:
  assumes "idm_find (cat_records c) i = Some r" "\<not> collective_state_is_terminal (crec_state r)"
  shows "\<exists>r'. idm_find (cat_records (foldl catalog_step c (replicate n (Activate i now)))) i = Some r' \<and>
    \<not> collective_state_is_terminal (crec_state r') \<and> crec_definition r' = crec_definition r \<and>
    cat_mutation_sequence (foldl catalog_step c (replicate n (Activate i now))) = cat_mutation_sequence c + of_nat n"
  using assms
proof (induction n arbitrary: c r)
  case (Suc n)
  let ?c = "catalog_step c (Activate i now)"
  obtain r1 where "idm_find (cat_records ?c) i = Some r1" "\<not> collective_state_is_terminal (crec_state r1)"
    "crec_definition r1 = crec_definition r" "cat_mutation_sequence ?c = cat_mutation_sequence c + 1"
    using Suc.prems by (simp add: catalog_set_state_def collective_state_is_terminal_def)
  with Suc.IH [of ?c r1] show ?case by (simp add: add.assoc)
qed simp

text \<open>
  A changed definition can be given back a generation it already had. The generations of first
  registrations and of changes are minted from the same stream under different salts: a
  collective registered as mutation 1 whose definition changes as mutation 12599552 gets its
  first generation again, so decisions bound to the first definition are current again.
\<close>

theorem generation_reused:
  "let c = snd (register_definition (sample_collective 1) 5 (CollectiveCatalog_new 1));
       c' = foldl catalog_step c (replicate 12599550 (Activate (Identity 9 1) 6));
       again = fst (register_definition (changed_sample 7) 6 c')
   in ro_result again = RegistrationResult.kGenerationAdvanced \<and>
      ro_generation again = ro_generation (fst (register_definition (sample_collective 1) 5 (CollectiveCatalog_new 1)))"
proof -
  let ?c = "snd (register_definition (sample_collective 1) 5 (CollectiveCatalog_new 1))"
  define c' where "c' = foldl catalog_step ?c (replicate 12599550 (Activate (Identity 9 1) 6))"
  obtain r where r: "idm_find (cat_records ?c) (Identity 9 1) = Some r"
    "crec_state r = CollectiveState.kRegistered" "def_logical_bytes (crec_definition r) = 0"
    using sample_stored(1) by blast
  then have live: "\<not> collective_state_is_terminal (crec_state r)" by (simp add: collective_state_is_terminal_def)
  from repeated_activation [OF r(1) live, of 12599550 6] obtain r' where
    r': "idm_find (cat_records c') (Identity 9 1) = Some r'" "\<not> collective_state_is_terminal (crec_state r')"
      "crec_definition r' = crec_definition r"
    and n: "cat_mutation_sequence c' = cat_mutation_sequence ?c + of_nat 12599550"
    unfolding c'_def by blast
  have "register_definition (changed_sample 7) 6 c' = register_change (changed_sample 7) 6 r' c'"
    by (rule register_changed [OF r'(1,2)]) (simp add: r'(3) r(3))
  then show ?thesis
    by (simp add: Let_def c'_def [symmetric] register_change_def register_outcome_def n sample_stored(2,3)
        mint_generation_simp)
qed

end
