(* ===== verification/CTF_Codec.thy ===== *)
theory CTF_Codec
  imports CTF_Identity CTF_Error
begin

unbundle bit_operations_syntax

text \<open>
  The byte-level vocabulary that the snapshot format (\<^verbatim>\<open>persistence.cpp\<close>) and the wire
  protocol (\<^verbatim>\<open>protocol.cpp\<close>) have in common: little-endian integers, length-prefixed
  strings, booleans, enumerations and counted sequences. A reader is a function on the bytes that
  are left; it fails with an error or returns a value and the bytes after it.

  The interface of every field codec is a locale: \<open>decodes\<close> (an encoded value reads back, whatever
  follows it) and \<open>codec\<close> (moreover nothing but an encoding is accepted). The codecs of both formats
  are interpretations of it.
\<close>

named_theorems codec_simps \<open>a reader succeeds exactly on an encoding\<close>
named_theorems read_simps \<open>reading back what was written\<close>


section \<open>Little-endian integers\<close>

text \<open>The loops of \<^verbatim>\<open>put_u32\<close> and \<^verbatim>\<open>put_u64\<close> push the bytes from the least
  significant one; the loops of \<^verbatim>\<open>read_u32\<close> and \<^verbatim>\<open>read_u64\<close> shift them in from the
  last one.\<close>

definition put_bytes :: "nat \<Rightarrow> 'a :: len word \<Rightarrow> u8 list" where
  "put_bytes n v = map (\<lambda>index. ucast (drop_bit (index * 8) v AND 0xFF)) [0..<n]"

definition join_bytes :: "u8 list \<Rightarrow> 'a :: len word" where
  "join_bytes data = foldr (\<lambda>byte v. push_bit 8 v OR ucast byte) data 0"

definition put_u8 :: "u8 \<Rightarrow> u8 list" where
  "put_u8 v = [v]"

definition put_u16 :: "u16 \<Rightarrow> u8 list" where
  "put_u16 v = [ucast (v AND 0xFF), ucast (drop_bit 8 v AND 0xFF)]"

definition put_u32 :: "u32 \<Rightarrow> u8 list" where
  "put_u32 v = put_bytes 4 v"

definition put_u64 :: "u64 \<Rightarrow> u8 list" where
  "put_u64 v = put_bytes 8 v"

definition read_u16 :: "u8 list \<Rightarrow> u16" where
  "read_u16 data = ucast (data ! 0) OR push_bit 8 (ucast (data ! 1))"

definition read_u32 :: "u8 list \<Rightarrow> u32" where
  "read_u32 data = join_bytes (take 4 data)"

definition read_u64 :: "u8 list \<Rightarrow> u64" where
  "read_u64 data = join_bytes (take 8 data)"

definition put_boolean :: "bool \<Rightarrow> u8 list" where
  "put_boolean v = put_u8 (if v then 1 else 0)"

definition put_identity :: "Identity \<Rightarrow> u8 list" where
  "put_identity v = put_u64 (high v) @ put_u64 (low v)"

definition put_enumeration :: "('e \<Rightarrow> u64) \<Rightarrow> 'e \<Rightarrow> u8 list" where
  "put_enumeration val v = put_u8 (ucast (val v))"

definition char_bytes :: "string \<Rightarrow> u8 list" where
  "char_bytes s = map (\<lambda>c. of_nat (of_char c)) s"

definition bytes_string :: "u8 list \<Rightarrow> string" where
  "bytes_string bs = map (\<lambda>b. char_of (unat b)) bs"

definition put_string :: "string \<Rightarrow> u8 list" where
  "put_string s = put_u32 (of_nat (length s)) @ char_bytes s"

definition put_list :: "('a \<Rightarrow> u8 list) \<Rightarrow> 'a list \<Rightarrow> u8 list" where
  "put_list put xs = put_u32 (of_nat (length xs)) @ concat (map put xs)"


section \<open>Readers\<close>

type_synonym ('e, 'a) reader = "u8 list \<Rightarrow> 'e + 'a \<times> u8 list"

definition yield :: "'a \<Rightarrow> ('e, 'a) reader" where
  "yield v bs = Inr (v, bs)"

definition fail :: "'e \<Rightarrow> ('e, 'a) reader" where
  "fail e bs = Inl e"

definition then_read :: "('e, 'a) reader \<Rightarrow> ('a \<Rightarrow> ('e, 'b) reader) \<Rightarrow> ('e, 'b) reader" where
  "then_read p f bs = (case p bs of Inl e \<Rightarrow> Inl e | Inr (v, rest) \<Rightarrow> f v rest)"

definition take_bytes :: "'e \<Rightarrow> nat \<Rightarrow> ('e, u8 list) reader" where
  "take_bytes e n bs = (if n > length bs then Inl e else Inr (take n bs, drop n bs))"

fun read_many :: "nat \<Rightarrow> ('e, 'a) reader \<Rightarrow> ('e, 'a list) reader" where
  "read_many 0 p = yield []"
| "read_many (Suc n) p = then_read p (\<lambda>x. then_read (read_many n p) (\<lambda>xs. yield (x # xs)))"

definition get_u8 :: "'e \<Rightarrow> ('e, u8) reader" where
  "get_u8 e = then_read (take_bytes e 1) (\<lambda>bs. yield (hd bs))"

definition get_u16 :: "'e \<Rightarrow> ('e, u16) reader" where
  "get_u16 e = then_read (take_bytes e 2) (\<lambda>bs. yield (read_u16 bs))"

definition get_u32 :: "'e \<Rightarrow> ('e, u32) reader" where
  "get_u32 e = then_read (take_bytes e 4) (\<lambda>bs. yield (read_u32 bs))"

definition get_u64 :: "'e \<Rightarrow> ('e, u64) reader" where
  "get_u64 e = then_read (take_bytes e 8) (\<lambda>bs. yield (read_u64 bs))"

definition get_identity :: "'e \<Rightarrow> ('e, Identity) reader" where
  "get_identity e = then_read (get_u64 e) (\<lambda>hi. then_read (get_u64 e) (\<lambda>lo. yield (Identity hi lo)))"

definition get_boolean :: "'e \<Rightarrow> 'e \<Rightarrow> ('e, bool) reader" where
  "get_boolean e invalid =
     then_read (get_u8 e) (\<lambda>raw. if raw > 1 then fail invalid else yield (raw = 1))"

definition get_enumeration :: "'e \<Rightarrow> 'e \<Rightarrow> (u8 \<Rightarrow> 'a) \<Rightarrow> u8 \<Rightarrow> ('e, 'a) reader" where
  "get_enumeration e invalid cast max_value =
     then_read (get_u8 e) (\<lambda>raw. if raw > max_value then fail invalid else yield (cast raw))"

definition get_count :: "'e \<Rightarrow> 'e \<Rightarrow> nat \<Rightarrow> ('e, nat) reader" where
  "get_count e excess max_count =
     then_read (get_u32 e) (\<lambda>n. if unat n > max_count then fail excess else yield (unat n))"

definition get_string :: "'e \<Rightarrow> 'e \<Rightarrow> nat \<Rightarrow> ('e, string) reader" where
  "get_string e excess max_bytes =
     then_read (get_count e excess max_bytes) (\<lambda>n.
     then_read (take_bytes e n) (\<lambda>bs. yield (bytes_string bs)))"

definition get_list :: "'e \<Rightarrow> 'e \<Rightarrow> nat \<Rightarrow> ('e, 'a) reader \<Rightarrow> ('e, 'a list) reader" where
  "get_list e excess max_count p = then_read (get_count e excess max_count) (\<lambda>n. read_many n p)"


section \<open>The interface of a field codec\<close>

locale decodes =
  fixes ok :: "'a \<Rightarrow> bool"
    and enc :: "'a \<Rightarrow> u8 list"
    and dec :: "('e, 'a) reader"
  assumes decode_encode: "ok v \<Longrightarrow> dec (enc v @ rest) = Inr (v, rest)"
begin

lemma encode_inj:
  assumes "ok v" "ok w" "enc v @ r = enc w @ s"
  shows "v = w \<and> r = s"
proof -
  have "(Inr (v, r) :: 'e + _) = Inr (w, s)"
    using decode_encode [OF assms(1), of r] decode_encode [OF assms(2), of s]
    unfolding assms(3) by (rule trans [OF sym])
  then show ?thesis by blast
qed

lemma then_decode: "ok v \<Longrightarrow> then_read dec f (enc v @ rest) = f v rest"
  by (simp add: then_read_def decode_encode)

lemma many_decodes:
  "list_all ok xs \<Longrightarrow> read_many (length xs) dec (concat (map enc xs) @ rest) = Inr (xs, rest)"
proof (induction xs)
  case (Cons x xs)
  then have "dec (concat (map enc (x # xs)) @ rest) = Inr (x, concat (map enc xs) @ rest)"
    by (simp add: decode_encode)
  with Cons show ?case by (simp add: then_read_def yield_def)
qed (simp add: yield_def)

end

locale codec = decodes +
  assumes decode_strict: "dec bs = Inr (v, rest) \<Longrightarrow> ok v \<and> bs = enc v @ rest"
begin

lemma decode_iff: "dec bs = Inr (v, rest) \<longleftrightarrow> ok v \<and> bs = enc v @ rest"
  using decode_encode decode_strict by blast

lemma decode_prefix_fails:
  assumes "ok v" "k < length (enc v)"
  shows "\<exists>e. dec (take k (enc v)) = Inl e"
proof (cases "dec (take k (enc v))")
  case (Inr r)
  obtain w s where "r = (w, s)" by (cases r)
  with Inr have w: "ok w" "take k (enc v) = enc w @ s" using decode_strict by auto
  then have "enc v @ [] = enc w @ (s @ drop k (enc v))" by (metis append.assoc append_Nil2 append_take_drop_id)
  from encode_inj [OF assms(1) w(1) this] show ?thesis using assms(2) by simp
qed blast

lemma many_strict:
  "read_many n dec bs = Inr (xs, rest) \<Longrightarrow>
   length xs = n \<and> list_all ok xs \<and> bs = concat (map enc xs) @ rest"
proof (induction n arbitrary: bs xs)
  case (Suc n)
  then obtain x bs1 ys where "dec bs = Inr (x, bs1)" "read_many n dec bs1 = Inr (ys, rest)" "xs = x # ys"
    by (auto simp: then_read_def yield_def split: sum.splits prod.splits)
  with Suc.IH [of bs1 ys] decode_strict show ?case by auto
qed (simp add: yield_def)

end


section \<open>Readers, step by step\<close>

lemma then_read_iff [codec_simps]:
  "then_read p f bs = Inr (v, rest) \<longleftrightarrow> (\<exists>x bs'. p bs = Inr (x, bs') \<and> f x bs' = Inr (v, rest))"
  by (auto simp: then_read_def split: sum.splits)

lemma yield_iff [codec_simps]: "yield x bs = Inr (v, rest) \<longleftrightarrow> x = v \<and> bs = rest"
  by (simp add: yield_def)

lemma fail_iff [codec_simps]: "\<not> fail e bs = Inr r"
  by (simp add: fail_def)

lemma yield_read [read_simps]: "yield x bs = Inr (x, bs)"
  by (simp add: yield_def)

lemma then_read_Inr [read_simps]: "p bs = Inr (x, bs') \<Longrightarrow> then_read p f bs = f x bs'"
  by (simp add: then_read_def)

lemma take_bytes_iff [codec_simps]:
  "take_bytes e n bs = Inr (v, rest) \<longleftrightarrow> length v = n \<and> bs = v @ rest"
  by (auto simp: take_bytes_def)

lemma if_fail_iff [codec_simps]:
  "(if c then fail e else p) bs = Inr r \<longleftrightarrow> \<not> c \<and> p bs = Inr r"
  by (simp add: fail_def)


section \<open>Integers read back\<close>

lemma length_put_bytes [simp]: "length (put_bytes n v) = n"
  by (simp add: put_bytes_def)

lemma join_bytes_simps [simp]:
  "join_bytes [] = 0" "join_bytes (b # bs) = push_bit 8 (join_bytes bs) OR ucast b"
  by (simp_all add: join_bytes_def)

lemma bit_u8_high: "8 \<le> n \<Longrightarrow> \<not> bit (b :: u8) n"
  using bit_imp_le_length by fastforce

lemma bit_join_bytes:
  "8 * length bs \<le> LENGTH('a) \<Longrightarrow>
   bit (join_bytes bs :: 'a :: len word) i \<longleftrightarrow> i div 8 < length bs \<and> bit (bs ! (i div 8)) (i mod 8)"
proof (induction bs arbitrary: i)
  case (Cons b bs)
  then have IH: "bit (join_bytes bs :: 'a word) j \<longleftrightarrow> j div 8 < length bs \<and> bit (bs ! (j div 8)) (j mod 8)" for j
    by simp
  show ?case
  proof (cases "i < 8")
    case True
    then have "i div 8 = 0" "i mod 8 = i" by simp_all
    then show ?thesis using True Cons.prems by (auto simp: bit_simps)
  next
    case False
    then obtain j where j: "i = j + 8" by (metis add.commute le_Suc_ex not_less)
    have "i div 8 = Suc (j div 8)" "i mod 8 = j mod 8" by (simp_all add: j)
    moreover have "\<not> bit b i" using False by (simp add: bit_u8_high)
    moreover have "j div 8 < length bs \<Longrightarrow> i < LENGTH('a)" using Cons.prems by (simp add: j)
    ultimately show ?thesis using IH [of j] False by (auto simp: bit_simps j)
  qed
qed simp

lemma bit_put_bytes:
  "i < n \<Longrightarrow> bit (put_bytes n v ! i) j \<longleftrightarrow> j < 8 \<and> bit v (i * 8 + j)"
proof -
  have ff: "(0xFF :: 'a :: len word) = mask 8" by (simp add: mask_eq_exp_minus_1)
  have "bit v (i * 8 + j) \<Longrightarrow> j < LENGTH('a)" using bit_imp_le_length [of v "i * 8 + j"] by simp
  moreover assume "i < n"
  ultimately show ?thesis
    unfolding put_bytes_def ff by (auto simp: bit_simps)
qed

lemma join_put_bytes: "LENGTH('a) = 8 * n \<Longrightarrow> join_bytes (put_bytes n (v :: 'a :: len word)) = v"
proof (rule bit_word_eqI)
  fix i assume "LENGTH('a) = 8 * n" "i < LENGTH('a)"
  then show "bit (join_bytes (put_bytes n v) :: 'a word) i = bit v i"
    by (simp add: bit_join_bytes bit_put_bytes less_mult_imp_div_less mult.commute)
qed

lemma put_join_bytes:
  assumes "LENGTH('a) = 8 * n" "length bs = n"
  shows "put_bytes n (join_bytes bs :: 'a :: len word) = bs"
proof (rule nth_equalityI)
  fix i assume "i < length (put_bytes n (join_bytes bs :: 'a word))"
  then have i: "i < n" by simp
  show "put_bytes n (join_bytes bs :: 'a word) ! i = bs ! i"
  proof (rule bit_word_eqI)
    fix j assume "j < LENGTH(8)"
    then show "bit (put_bytes n (join_bytes bs :: 'a word) ! i) j = bit (bs ! i) j"
      using i assms by (simp add: bit_put_bytes bit_join_bytes)
  qed
qed (simp add: assms)

lemma put_u16_bytes: "put_u16 v = put_bytes 2 v"
  by (simp add: put_u16_def put_bytes_def numeral_2_eq_2)

lemma read_u16_bytes: "length bs = 2 \<Longrightarrow> read_u16 bs = join_bytes bs"
  by (auto simp: read_u16_def numeral_2_eq_2 length_Suc_conv or.commute)

lemma lengths [simp]:
  "length (put_u8 a) = 1" "length (put_u16 b) = 2" "length (put_u32 c) = 4" "length (put_u64 d) = 8"
  "length (put_boolean e) = 1" "length (put_identity f) = 16" "length (put_enumeration g h) = 1"
  by (simp_all add: put_u8_def put_u16_def put_u32_def put_u64_def put_boolean_def put_identity_def
      put_enumeration_def)


section \<open>Field codecs\<close>

lemma list_all_True [simp]: "list_all (\<lambda>_. True) xs"
  by (simp add: list_all_iff)

lemma codec_iffI: "(\<And>bs v rest. dec bs = Inr (v, rest) \<longleftrightarrow> ok v \<and> bs = enc v @ rest) \<Longrightarrow> codec ok enc dec"
  by unfold_locales auto

lemma codec_u8: "codec (\<lambda>_. True) put_u8 (get_u8 e)"
  by (rule codec_iffI) (auto simp: get_u8_def put_u8_def codec_simps length_Suc_conv)

lemma codec_bytes:
  assumes "LENGTH('a) = 8 * n" "\<And>bs. length bs = n \<Longrightarrow> read bs = (join_bytes bs :: 'a :: len word)"
  shows "codec (\<lambda>_. True) (put_bytes n :: 'a word \<Rightarrow> _) (then_read (take_bytes e n) (\<lambda>bs. yield (read bs)))"
  using assms by (intro codec_iffI) (auto simp: codec_simps join_put_bytes put_join_bytes)

lemma codec_u16: "codec (\<lambda>_. True) put_u16 (get_u16 e)"
  using codec_bytes [of 2 read_u16 e] by (simp add: put_u16_bytes [abs_def] get_u16_def read_u16_bytes)

lemma codec_u32: "codec (\<lambda>_. True) put_u32 (get_u32 e)"
  using codec_bytes [of 4 read_u32 e] by (simp add: put_u32_def [abs_def] get_u32_def read_u32_def)

lemma codec_u64: "codec (\<lambda>_. True) put_u64 (get_u64 e)"
  using codec_bytes [of 8 read_u64 e] by (simp add: put_u64_def [abs_def] get_u64_def read_u64_def)

lemmas [codec_simps] = codec.decode_iff [OF codec_u8] codec.decode_iff [OF codec_u16]
  codec.decode_iff [OF codec_u32] codec.decode_iff [OF codec_u64]

lemma codec_identity: "codec (\<lambda>_. True) put_identity (get_identity e)"
proof (rule codec_iffI)
  show "get_identity e bs = Inr (v, rest) \<longleftrightarrow> True \<and> bs = put_identity v @ rest" for bs v rest
    by (cases v) (auto simp: get_identity_def put_identity_def codec_simps)
qed

lemma codec_boolean: "codec (\<lambda>_. True) put_boolean (get_boolean e invalid)"
proof (rule codec_iffI)
  have "\<not> 1 < raw \<longleftrightarrow> raw = 0 \<or> raw = 1" for raw :: u8
    by (simp add: word_less_nat_alt le_Suc_eq not_less) (metis One_nat_def unat_1 unat_eq_zero word_unat_eq_iff)
  then show "get_boolean e invalid bs = Inr (v, rest) \<longleftrightarrow> True \<and> bs = put_boolean v @ rest" for bs v rest
    by (auto simp: get_boolean_def put_boolean_def codec_simps)
qed

text \<open>A scoped enumeration with the underlying type \<^verbatim>\<open>std::uint8_t\<close>: \<open>val\<close> is the number of an
  enumerator, \<open>cast\<close> the \<^verbatim>\<open>static_cast\<close> back.\<close>

locale byte_enum =
  fixes val :: "'e \<Rightarrow> u64" and cast :: "u8 \<Rightarrow> 'e" and max_value :: u8
  assumes val_bound: "ucast (val v) \<le> max_value"
    and cast_val: "cast (ucast (val v)) = v"
    and val_cast: "raw \<le> max_value \<Longrightarrow> ucast (val (cast raw)) = raw"
begin

lemma codec_enumeration: "codec (\<lambda>_. True) (put_enumeration val) (get_enumeration e invalid cast max_value)"
  by (rule codec_iffI)
    (auto simp: get_enumeration_def put_enumeration_def codec_simps not_less val_bound cast_val val_cast)

end

lemma codec_count:
  assumes "max_count < 4294967296"
  shows "codec (\<lambda>n. n \<le> max_count) (\<lambda>n. put_u32 (of_nat n)) (get_count e excess max_count)"
proof (rule codec_iffI)
  have "n \<le> max_count \<Longrightarrow> unat (of_nat n :: u32) = n" for n
    using assms by (simp add: unat_of_nat)
  then show "get_count e excess max_count bs = Inr (v, rest) \<longleftrightarrow>
    v \<le> max_count \<and> bs = put_u32 (of_nat v) @ rest" for bs v rest
    by (auto simp: get_count_def codec_simps not_less)
qed

lemma length_char_bytes [simp]: "length (char_bytes s) = length s"
  by (simp add: char_bytes_def)

lemma bytes_char_bytes [simp]: "bytes_string (char_bytes s) = s"
proof -
  have "char_of (unat (of_nat (of_char c) :: u8)) = c" for c :: char
    by (simp add: unat_of_nat)
  then show ?thesis by (simp add: bytes_string_def char_bytes_def map_idI)
qed

lemma char_bytes_string [simp]: "char_bytes (bytes_string bs) = bs"
proof -
  have "of_nat (of_char (char_of (unat b) :: char)) = b" for b :: u8
    using unsigned_less [of b, where ?'a = nat] by simp
  then show ?thesis by (simp add: bytes_string_def char_bytes_def map_idI)
qed

lemma length_bytes_string [simp]: "length (bytes_string bs) = length bs"
  by (simp add: bytes_string_def)

lemma codec_string:
  assumes "max_bytes < 4294967296"
  shows "codec (\<lambda>s. length s \<le> max_bytes) put_string (get_string e excess max_bytes)"
proof (rule codec_iffI)
  fix bs :: "u8 list" and v and rest
  show "get_string e excess max_bytes bs = Inr (v, rest) \<longleftrightarrow> length v \<le> max_bytes \<and> bs = put_string v @ rest"
    unfolding get_string_def put_string_def then_read_iff codec.decode_iff [OF codec_count [OF assms]]
      take_bytes_iff yield_iff
    by (metis append.assoc bytes_char_bytes char_bytes_string length_bytes_string)
qed

lemma codec_list:
  assumes "codec ok enc dec" "max_count < 4294967296"
  shows "codec (\<lambda>xs. length xs \<le> max_count \<and> list_all ok xs) (put_list enc) (get_list e excess max_count dec)"
proof (rule codec_iffI)
  have "read_many n dec bs = Inr (xs, rest) \<longleftrightarrow>
      length xs = n \<and> list_all ok xs \<and> bs = concat (map enc xs) @ rest" for n bs xs rest
    using codec.many_strict [OF assms(1)] decodes.many_decodes [OF codec.axioms(1) [OF assms(1)]] by metis
  then show "get_list e excess max_count dec bs = Inr (v, rest) \<longleftrightarrow>
     (length v \<le> max_count \<and> list_all ok v) \<and> bs = put_list enc v @ rest" for bs v rest
    unfolding get_list_def put_list_def then_read_iff codec.decode_iff [OF codec_count [OF assms(2)]] by auto
qed

lemma decodes_list:
  assumes "decodes ok enc dec" "max_count < 4294967296"
  shows "decodes (\<lambda>xs. length xs \<le> max_count \<and> list_all ok xs) (put_list enc) (get_list e excess max_count dec)"
proof (rule decodes.intro)
  fix v :: "'a list" and rest
  assume v: "length v \<le> max_count \<and> list_all ok v"
  then have "get_count e excess max_count (put_list enc v @ rest) = Inr (length v, concat (map enc v) @ rest)"
    by (simp add: put_list_def codec.decode_iff [OF codec_count [OF assms(2)]])
  then show "get_list e excess max_count dec (put_list enc v @ rest) = Inr (v, rest)"
    using v decodes.many_decodes [OF assms(1)] by (simp add: get_list_def then_read_Inr)
qed

lemmas [codec_simps] = codec.decode_iff [OF codec_identity] codec.decode_iff [OF codec_boolean]

lemma byte_enumI:
  assumes members: "\<And>v. v \<in> set vs" and vals: "map val vs = map of_nat [0..<length vs]"
    and max: "length vs = Suc (unat max_value)" and cast: "cast = (\<lambda>raw. vs ! unat raw)"
  shows "byte_enum val cast max_value"
proof
  have len: "length vs \<le> 256" using max unsigned_less [of max_value, where ?'a = nat] by simp
  have nth: "val (vs ! i) = of_nat i" if "i < length vs" for i
    using arg_cong [OF vals, of "\<lambda>ys. ys ! i"] that by simp
  have byte: "unat (ucast (of_nat i :: u64) :: u8) = i" if "i < length vs" for i
    using that len by (simp add: unsigned_ucast_eq take_bit_eq_mod unat_of_nat)
  fix v
  obtain i where i: "i < length vs" "v = vs ! i" using members [of v] by (auto simp: in_set_conv_nth)
  show "ucast (val v) \<le> max_value" using byte [OF i(1)] nth [OF i(1)] i max by (simp add: word_le_nat_alt)
  show "cast (ucast (val v)) = v" using byte [OF i(1)] nth [OF i(1)] i by (simp add: cast)
next
  fix raw :: u8
  have byte: "unat (ucast (of_nat i :: u64) :: u8) = i" if "i < 256" for i
    using that by (simp add: unsigned_ucast_eq take_bit_eq_mod unat_of_nat)
  assume "raw \<le> max_value"
  then have raw: "unat raw < length vs" by (simp add: max word_le_nat_alt)
  have val: "val (vs ! unat raw) = of_nat (unat raw)"
    using arg_cong [OF vals, of "\<lambda>ys. ys ! unat raw"] raw by simp
  have "unat raw < 256" using unsigned_less [of raw, where ?'a = nat] by simp
  then have "unat (ucast (val (vs ! unat raw)) :: u8) = unat raw" unfolding val by (rule byte)
  then show "ucast (val (cast raw)) = raw" unfolding cast by (rule iffD2 [OF word_unat_eq_iff])
qed

end
