(* ===== verification/CTF_Checksum.thy ===== *)
theory CTF_Checksum
  imports CTF_Codec
begin

unbundle bit_operations_syntax

text \<open>
  The two integrity checks of \<^verbatim>\<open>persistence.cpp\<close>: the table-driven CRC-32 that guards wire
  frames and snapshot payloads, and the 32-byte mixing digest of the snapshot envelope. The
  table-driven loop is proved equal to the bit-by-bit definition of the code, and from the
  linearity of the latter follows what a CRC is for: damage confined to four consecutive bytes is
  always noticed.
\<close>


section \<open>Definitions\<close>

text \<open>The inner loop that fills the table, for one bit.\<close>

definition crc_bit :: "u32 \<Rightarrow> u32" where
  "crc_bit v = (if v AND 1 \<noteq> 0 then drop_bit 1 v XOR 0xEDB88320 else drop_bit 1 v)"

definition crc_table :: "u32 list" where
  "crc_table = map (\<lambda>index. (crc_bit ^^ 8) (of_nat index)) [0..<256]"

definition crc32_update :: "u32 \<Rightarrow> u8 list \<Rightarrow> u32" where
  "crc32_update crc data =
     NOT (foldl (\<lambda>crc byte. crc_table ! unat ((crc XOR ucast byte) AND 0xFF) XOR drop_bit 8 crc) (NOT crc) data)"

definition crc32 :: "u8 list \<Rightarrow> u32" where
  "crc32 data = crc32_update 0 data"

definition digest_lane :: "u64 \<Rightarrow> u8 \<Rightarrow> u64" where
  "digest_lane lane byte =
     (let mixed = lane XOR (ucast byte + 0x9E3779B97F4A7C15 + push_bit 6 lane + drop_bit 2 lane);
          scaled = mixed * 0xFF51AFD7ED558CCD
      in scaled XOR drop_bit 33 scaled)"

definition digest_absorb :: "u64 list \<Rightarrow> nat \<times> u8 \<Rightarrow> u64 list" where
  "digest_absorb lanes = (\<lambda>(index, byte). lanes[index mod 4 := digest_lane (lanes ! (index mod 4)) byte])"

definition digest_finish :: "u64 list \<Rightarrow> nat \<Rightarrow> u64 list" where
  "digest_finish lanes index =
     (let mixed = lanes ! index XOR lanes ! ((index + 1) mod 4);
          scaled = mixed * 0xC4CEB9FE1A85EC53
      in lanes[index := scaled XOR drop_bit 29 scaled])"

definition digest_payload :: "u8 list \<Rightarrow> u8 list" where
  "digest_payload data =
     (let lanes = [0x243F6A8885A308D3, 0x13198A2E03707344, 0xA4093822299F31D0, 0x082EFA98EC4E6C89];
          absorbed = foldl digest_absorb lanes (zip [0..<length data] data);
          finished = foldl digest_finish absorbed ([0..<4] @ [0..<4]);
          out = concat (map put_u64 finished)
      in map2 (XOR) (take 8 out) (put_u64 (of_nat (length data))) @ drop 8 out)"

text \<open>The CRC of IEEE 802.3 bit by bit: a byte is added to the register and eight bits are shifted out.\<close>

definition crc_byte :: "u32 \<Rightarrow> u8 \<Rightarrow> u32" where
  "crc_byte crc byte = (crc_bit ^^ 8) (crc XOR ucast byte)"

definition crc_reference :: "u8 list \<Rightarrow> u32" where
  "crc_reference data = NOT (foldl crc_byte (NOT 0) data)"


section \<open>The shift register is linear\<close>

lemma crc_bit_odd: "crc_bit v = (if bit v 0 then drop_bit 1 v XOR 0xEDB88320 else drop_bit 1 v)"
  by (simp add: crc_bit_def and_one_eq bit_0 mod2_eq_if)

lemma drop_bit_xor_u32: "drop_bit n (a XOR b) = drop_bit n a XOR drop_bit n (b :: u32)"
  by (rule bit_word_eqI) (simp add: bit_simps)

lemma crc_bit_linear: "crc_bit (a XOR b) = crc_bit a XOR crc_bit b"
proof -
  have swap: "x XOR p XOR (y XOR p) = x XOR y" for x y p :: u32
    by (rule bit_word_eqI) (auto simp: bit_simps)
  show ?thesis
    by (cases "bit a 0"; cases "bit b 0")
      (simp_all add: crc_bit_odd drop_bit_xor_u32 bit_xor_iff swap xor.assoc xor.left_commute xor.commute)
qed

lemma crc_bits_linear: "(crc_bit ^^ n) (a XOR b) = (crc_bit ^^ n) a XOR (crc_bit ^^ n) b"
  by (induction n) (simp_all add: crc_bit_linear)

lemma crc_bits_zero: "(crc_bit ^^ n) 0 = 0"
  by (induction n) (simp_all add: crc_bit_def)

lemma crc_bit_eq_zero: "crc_bit v = 0 \<Longrightarrow> v = 0"
proof (rule ccontr)
  assume zero: "crc_bit v = 0" and "v \<noteq> 0"
  then obtain n where n: "bit v n" "n < 32" using bit_imp_le_length by (auto simp: bit_eq_iff)
  have "bit (0xEDB88320 :: u32) 31" by simp
  then have "bit v 0 \<Longrightarrow> bit (crc_bit v) 31"
    using bit_imp_le_length [of v 32] by (auto simp: crc_bit_odd bit_simps)
  with zero have even: "\<not> bit v 0" by auto
  then obtain m where "n = Suc m" using n by (cases n) auto
  with n even have "bit (crc_bit v) m" by (simp add: crc_bit_odd bit_simps)
  with zero show False by simp
qed

lemma crc_bits_eq_zero: "(crc_bit ^^ n) v = 0 \<Longrightarrow> v = 0"
  by (induction n) (auto dest: crc_bit_eq_zero)

lemma crc_bits_drop: "\<forall>i<n. \<not> bit v i \<Longrightarrow> (crc_bit ^^ n) v = drop_bit n v"
proof (induction n)
  case (Suc n)
  then have "(crc_bit ^^ n) v = drop_bit n v" "\<not> bit (drop_bit n v) 0" by (auto simp: bit_simps)
  then show ?case using crc_bit_odd [of "drop_bit n v"] by (simp add: drop_bit_drop_bit)
qed simp


section \<open>The table-driven loop\<close>

lemma low_byte_bit: "bit (v AND 0xFF :: u32) i \<longleftrightarrow> i < 8 \<and> bit v i"
proof -
  have ff: "(0xFF :: u32) = mask 8" by (simp add: mask_eq_exp_minus_1)
  show ?thesis unfolding ff using bit_imp_le_length [of v i] by (auto simp: bit_simps)
qed

lemma low_byte_less: "unat (v AND 0xFF :: u32) < 256"
proof -
  have ff: "(0xFF :: u32) = mask 8" by (simp add: mask_eq_exp_minus_1)
  have "v AND 0xFF = take_bit 8 v" unfolding ff by (simp add: take_bit_eq_mask)
  then show ?thesis by (simp add: unsigned_take_bit_eq take_bit_nat_less_exp [of 8, simplified])
qed

lemma crc_bits_8: "(crc_bit ^^ 8) v = (crc_bit ^^ 8) (v AND 0xFF) XOR drop_bit 8 v"
proof -
  define h where "h = v XOR (v AND 0xFF)"
  have h: "bit h i \<longleftrightarrow> \<not> i < 8 \<and> bit v i" for i
    using low_byte_bit [of v i] by (auto simp: h_def bit_xor_iff)
  then have "(crc_bit ^^ 8) h = drop_bit 8 h" by (intro crc_bits_drop) simp
  also have "drop_bit 8 h = drop_bit 8 v" by (rule bit_word_eqI) (simp add: bit_simps h)
  finally have "(crc_bit ^^ 8) ((v AND 0xFF) XOR h) = (crc_bit ^^ 8) (v AND 0xFF) XOR drop_bit 8 v"
    by (simp only: crc_bits_linear)
  moreover have "(v AND 0xFF) XOR h = v"
    unfolding h_def by (simp add: xor.left_commute)
  ultimately show ?thesis by simp
qed

lemma crc_table_step:
  "crc_table ! unat ((crc XOR ucast byte) AND 0xFF) XOR drop_bit 8 crc = crc_byte crc byte"
proof -
  have "drop_bit 8 (ucast byte :: u32) = 0"
    by (rule bit_word_eqI) (simp add: bit_simps bit_u8_high)
  then have "drop_bit 8 (crc XOR ucast byte) = drop_bit 8 crc" by (simp add: drop_bit_xor_u32)
  then show ?thesis
    using low_byte_less [of "crc XOR ucast byte"]
    by (simp add: crc_table_def crc_byte_def crc_bits_8 [of "crc XOR ucast byte"])
qed

lemma crc32_eq_reference: "crc32 data = crc_reference data"
  by (simp add: crc32_def crc32_update_def crc_reference_def crc_table_step)


section \<open>Damage is noticed\<close>

lemma crc_fold_join:
  "8 * length e \<le> 32 \<Longrightarrow> foldl crc_byte c e = (crc_bit ^^ (8 * length e)) (c XOR join_bytes e)"
proof (induction e arbitrary: c)
  case (Cons b e)
  have high: "\<not> bit (join_bytes e :: u32) i" if "24 \<le> i" for i
    using Cons.prems that by (auto simp: bit_join_bytes)
  have "\<forall>i<8. \<not> bit (push_bit 8 (join_bytes e) :: u32) i" by (simp add: bit_simps)
  then have "(crc_bit ^^ 8) (push_bit 8 (join_bytes e)) = drop_bit 8 (push_bit 8 (join_bytes e))"
    by (rule crc_bits_drop)
  also have "\<dots> = join_bytes e"
    by (rule bit_word_eqI) (use high in \<open>auto simp: bit_simps not_le [symmetric]\<close>)
  finally have shift: "(crc_bit ^^ 8) (push_bit 8 (join_bytes e)) = join_bytes e" .
  have join: "join_bytes (b # e) = (ucast b :: u32) XOR push_bit 8 (join_bytes e)"
    by (rule bit_word_eqI) (auto simp: bit_simps bit_u8_high)
  have "foldl crc_byte c (b # e) = (crc_bit ^^ (8 * length e)) (crc_byte c b XOR join_bytes e)"
    using Cons by simp
  also have "crc_byte c b XOR join_bytes e = (crc_bit ^^ 8) (c XOR join_bytes (b # e))"
    unfolding join crc_byte_def crc_bits_linear shift by (simp add: xor.assoc)
  also have "(crc_bit ^^ (8 * length e)) ((crc_bit ^^ 8) x) = (crc_bit ^^ (8 * length (b # e))) x" for x
    by (simp add: funpow_add [symmetric, THEN fun_cong, unfolded comp_def] add.commute)
  finally show ?case .
qed simp

lemma crc_fold_inj: "foldl crc_byte c ys = foldl crc_byte d ys \<Longrightarrow> c = d"
proof (induction ys arbitrary: c d)
  case (Cons y ys)
  then have "crc_byte c y = crc_byte d y" by simp
  then have "(crc_bit ^^ 8) ((c XOR ucast y) XOR (d XOR ucast y)) = 0"
    unfolding crc_bits_linear crc_byte_def by simp
  then have "(c XOR ucast y) XOR (d XOR ucast y) = 0" by (rule crc_bits_eq_zero)
  moreover have "(c XOR ucast y) XOR (d XOR ucast y) = c XOR d"
    by (rule bit_word_eqI) (auto simp: bit_simps)
  ultimately show ?case by (auto simp: bit_eq_iff bit_xor_iff)
qed simp

lemma crc32_burst_differs:
  assumes "length u = length w" "length u \<le> 4" "u \<noteq> w"
  shows "crc32 (xs @ u @ ys) \<noteq> crc32 (xs @ w @ ys)"
proof
  define c where "c = foldl crc_byte (NOT 0) xs"
  assume "crc32 (xs @ u @ ys) = crc32 (xs @ w @ ys)"
  then have "foldl crc_byte (foldl crc_byte c u) ys = foldl crc_byte (foldl crc_byte c w) ys"
    by (simp add: crc32_eq_reference crc_reference_def c_def)
  then have "foldl crc_byte c u = foldl crc_byte c w" by (rule crc_fold_inj)
  then have "(crc_bit ^^ (8 * length u)) (c XOR join_bytes u) = (crc_bit ^^ (8 * length u)) (c XOR join_bytes w)"
    using assms(1,2) by (simp add: crc_fold_join)
  then have "(crc_bit ^^ (8 * length u)) ((c XOR join_bytes u) XOR (c XOR join_bytes w)) = 0"
    unfolding crc_bits_linear [of _ "c XOR join_bytes u"] by simp
  then have "(c XOR join_bytes u) XOR (c XOR join_bytes w) = (0 :: u32)" by (rule crc_bits_eq_zero)
  then have join: "bit (join_bytes u :: u32) i = bit (join_bytes w :: u32) i" if "i < 32" for i
    using that by (auto simp: bit_eq_iff bit_xor_iff)
  have "u = w"
  proof (rule nth_equalityI [OF assms(1)], rule bit_word_eqI)
    fix i j assume "i < length u" "j < LENGTH(8)"
    then show "bit (u ! i) j = bit (w ! i) j"
      using join [of "8 * i + j"] assms(1,2) by (simp add: bit_join_bytes)
  qed
  with assms(3) show False by blast
qed


section \<open>Digest\<close>

lemma length_digest_payload [simp]: "length (digest_payload data) = 32"
proof -
  have absorb: "length (foldl digest_absorb lanes xs) = length lanes" for lanes xs
    by (induction xs arbitrary: lanes) (simp_all add: digest_absorb_def case_prod_beta)
  have finish: "length (foldl digest_finish lanes xs) = length lanes" for lanes xs
    by (induction xs arbitrary: lanes) (simp_all add: digest_finish_def Let_def)
  have concat: "length (concat (map put_u64 xs)) = 8 * length xs" for xs
    by (induction xs) simp_all
  show ?thesis
    by (simp add: digest_payload_def Let_def concat finish absorb del: foldl_append)
qed


section \<open>Properties\<close>

text \<open>
  The table-driven checksum is the CRC-32 of IEEE 802.3, computed bit by bit, and it notices
  every damage that is confined to four consecutive bytes, whatever comes before and after them.
\<close>

theorem crc_detects_bursts:
  assumes "length u = length w" "length u \<le> 4" "u \<noteq> w"
  shows "crc32 (xs @ u @ ys) \<noteq> crc32 (xs @ w @ ys) \<and> crc32 (xs @ u @ ys) = crc_reference (xs @ u @ ys)"
  using crc32_burst_differs [OF assms] crc32_eq_reference by blast

theorem crc_detects_bursts_witness:
  "crc32 ([7] @ [1, 2, 3, 4] @ [9]) \<noteq> crc32 ([7] @ [1, 2, 0, 5] @ [9])"
  by (rule crc_detects_bursts [THEN conjunct1]) simp_all

end
