(* ===== verification/CTF_Enumerations.thy ===== *)
theory CTF_Enumerations
  imports CTF_Codec CTF_Engine CTF_Catalog
begin

text \<open>
  The enumerations that travel in snapshots and frames: the \<^verbatim>\<open>static_cast\<close> from the byte
  read to the enumeration type, and for each of them the interface \<open>byte_enum\<close>, whose law is that
  the accepted bytes are exactly the numbers of the enumerators.
\<close>

definition CollectiveClass_cast :: "u8 \<Rightarrow> CollectiveClass" where
  "CollectiveClass_cast raw =
     [CollectiveClass.kUnknown, CollectiveClass.kAllReduce, CollectiveClass.kAllGather,
      CollectiveClass.kReduceScatter, CollectiveClass.kBroadcast, CollectiveClass.kGather,
      CollectiveClass.kScatter, CollectiveClass.kAllToAll, CollectiveClass.kPointToPoint,
      CollectiveClass.kBarrierOnly, CollectiveClass.kSendRecvGrouped, CollectiveClass.kReduce,
      CollectiveClass.kScan, CollectiveClass.kSendRecvSplit, CollectiveClass.kUnknownVendor] ! unat raw"

definition AlgorithmHint_cast :: "u8 \<Rightarrow> AlgorithmHint" where
  "AlgorithmHint_cast raw =
     [AlgorithmHint.kUnspecified, AlgorithmHint.kRing, AlgorithmHint.kTree,
      AlgorithmHint.kDoubleBinaryTree, AlgorithmHint.kHierarchical,
      AlgorithmHint.kRecursiveDoubling, AlgorithmHint.kRabenseifner, AlgorithmHint.kButterfly,
      AlgorithmHint.kDirect, AlgorithmHint.kPipeline, AlgorithmHint.kRingChunked,
      AlgorithmHint.kVendorSpecific] ! unat raw"

definition CollectiveScope_cast :: "u8 \<Rightarrow> CollectiveScope" where
  "CollectiveScope_cast raw =
     [CollectiveScope.kUnspecified, CollectiveScope.kIntraNode, CollectiveScope.kInterNode,
      CollectiveScope.kCrossRack, CollectiveScope.kCrossPod, CollectiveScope.kHybrid] ! unat raw"

definition CollectiveState_cast :: "u8 \<Rightarrow> CollectiveState" where
  "CollectiveState_cast raw =
     [CollectiveState.kUnregistered, CollectiveState.kRegistered, CollectiveState.kPlanning,
      CollectiveState.kActive, CollectiveState.kDraining, CollectiveState.kCompleted,
      CollectiveState.kCancelled, CollectiveState.kRetired, CollectiveState.kTimedOut] ! unat raw"

definition TrafficClass_cast :: "u8 \<Rightarrow> TrafficClass" where
  "TrafficClass_cast raw =
     [TrafficClass.kUnclassified, TrafficClass.kLatencyCritical, TrafficClass.kControlPlane,
      TrafficClass.kBulkData, TrafficClass.kBestEffortBulk, TrafficClass.kBackground,
      TrafficClass.kIsolated, TrafficClass.kProbe] ! unat raw"

definition IsolationMode_cast :: "u8 \<Rightarrow> IsolationMode" where
  "IsolationMode_cast raw =
     [IsolationMode.kShared, IsolationMode.kClassIsolated, IsolationMode.kDedicatedPath] ! unat raw"

definition PacingMode_cast :: "u8 \<Rightarrow> PacingMode" where
  "PacingMode_cast raw =
     [PacingMode.kNone, PacingMode.kImmediate, PacingMode.kTokenBucket, PacingMode.kRateLimited,
      PacingMode.kShaped] ! unat raw"

definition LinkClass_cast :: "u8 \<Rightarrow> LinkClass" where
  "LinkClass_cast raw =
     [LinkClass.kUnspecified, LinkClass.kIntraNode, LinkClass.kInterNode, LinkClass.kInterRack,
      LinkClass.kInterPod, LinkClass.kOversubscribed] ! unat raw"

definition CongestionLevel_cast :: "u8 \<Rightarrow> CongestionLevel" where
  "CongestionLevel_cast raw =
     [CongestionLevel.kUnknown, CongestionLevel.kNone, CongestionLevel.kLow,
      CongestionLevel.kModerate, CongestionLevel.kHigh, CongestionLevel.kSevere] ! unat raw"

definition FlowPattern_cast :: "u8 \<Rightarrow> FlowPattern" where
  "FlowPattern_cast raw =
     [FlowPattern.kUnspecified, FlowPattern.kRing, FlowPattern.kChain, FlowPattern.kTreeUp,
      FlowPattern.kTreeDown, FlowPattern.kStar, FlowPattern.kFullMesh,
      FlowPattern.kNeighborExchange, FlowPattern.kPairwiseDisjoint, FlowPattern.kPipeline,
      FlowPattern.kCustom] ! unat raw"

definition FlowDirection_cast :: "u8 \<Rightarrow> FlowDirection" where
  "FlowDirection_cast raw =
     [FlowDirection.kUnknown, FlowDirection.kUnidirectional, FlowDirection.kBidirectional] ! unat raw"

definition Outcome_cast :: "u8 \<Rightarrow> Outcome" where
  "Outcome_cast raw =
     [Outcome.kAdmitted, Outcome.kDeferred, Outcome.kRateLimited, Outcome.kIsolatedClass,
      Outcome.kRequiresReplan, Outcome.kRejectedStale, Outcome.kRejectedCapacity,
      Outcome.kRejectedPolicy, Outcome.kUnknownSemantics] ! unat raw"

definition AuthorityAxis_cast :: "u8 \<Rightarrow> AuthorityAxis" where
  "AuthorityAxis_cast raw =
     [AuthorityAxis.kNone, AuthorityAxis.kCoordinatorEpoch, AuthorityAxis.kTopologyGeneration,
      AuthorityAxis.kPolicyGeneration, AuthorityAxis.kCollectiveGeneration,
      AuthorityAxis.kAttemptGeneration, AuthorityAxis.kParticipantLiveness,
      AuthorityAxis.kCapacityEvidence, AuthorityAxis.kCongestionEvidence, AuthorityAxis.kLifecycle,
      AuthorityAxis.kSemantics, AuthorityAxis.kPlan] ! unat raw"

definition SyncKind_cast :: "u8 \<Rightarrow> SyncKind" where
  "SyncKind_cast raw =
     [SyncKind.kNone, SyncKind.kBarrier, SyncKind.kFence, SyncKind.kDependency,
      SyncKind.kCollectiveStep, SyncKind.kStreamOrder] ! unat raw"

definition SyncBasis_cast :: "u8 \<Rightarrow> SyncBasis" where
  "SyncBasis_cast raw =
     [SyncBasis.kUnspecified, SyncBasis.kDeclaredBarrierSemantics,
      SyncBasis.kDeclaredPhaseSynchronizationPoint, SyncBasis.kDerivedFromClass,
      SyncBasis.kDerivedFromPattern, SyncBasis.kDerivedFromPolicy] ! unat raw"

definition ParticipantState_cast :: "u8 \<Rightarrow> ParticipantState" where
  "ParticipantState_cast raw =
     [ParticipantState.kUnspecified, ParticipantState.kAdvertised, ParticipantState.kLive,
      ParticipantState.kSuspect, ParticipantState.kExpired, ParticipantState.kFenced,
      ParticipantState.kRetired] ! unat raw"

interpretation collective_class: byte_enum CollectiveClass_value CollectiveClass_cast 14
  by (rule byte_enumI [where vs =
        "[CollectiveClass.kUnknown, CollectiveClass.kAllReduce, CollectiveClass.kAllGather,
          CollectiveClass.kReduceScatter, CollectiveClass.kBroadcast, CollectiveClass.kGather,
          CollectiveClass.kScatter, CollectiveClass.kAllToAll, CollectiveClass.kPointToPoint,
          CollectiveClass.kBarrierOnly, CollectiveClass.kSendRecvGrouped, CollectiveClass.kReduce,
          CollectiveClass.kScan, CollectiveClass.kSendRecvSplit, CollectiveClass.kUnknownVendor]"])
    (simp_all add: CollectiveClass_cast_def [abs_def] CollectiveClass.nchotomy [simplified] upt_rec)

interpretation algorithm_hint: byte_enum AlgorithmHint_value AlgorithmHint_cast 11
  by (rule byte_enumI [where vs =
        "[AlgorithmHint.kUnspecified, AlgorithmHint.kRing, AlgorithmHint.kTree,
          AlgorithmHint.kDoubleBinaryTree, AlgorithmHint.kHierarchical,
          AlgorithmHint.kRecursiveDoubling, AlgorithmHint.kRabenseifner, AlgorithmHint.kButterfly,
          AlgorithmHint.kDirect, AlgorithmHint.kPipeline, AlgorithmHint.kRingChunked,
          AlgorithmHint.kVendorSpecific]"])
    (simp_all add: AlgorithmHint_cast_def [abs_def] AlgorithmHint.nchotomy [simplified] upt_rec)

interpretation collective_scope: byte_enum CollectiveScope_value CollectiveScope_cast 5
  by (rule byte_enumI [where vs =
        "[CollectiveScope.kUnspecified, CollectiveScope.kIntraNode, CollectiveScope.kInterNode,
          CollectiveScope.kCrossRack, CollectiveScope.kCrossPod, CollectiveScope.kHybrid]"])
    (simp_all add: CollectiveScope_cast_def [abs_def] CollectiveScope.nchotomy [simplified] upt_rec)

interpretation collective_state: byte_enum CollectiveState_value CollectiveState_cast 8
  by (rule byte_enumI [where vs =
        "[CollectiveState.kUnregistered, CollectiveState.kRegistered, CollectiveState.kPlanning,
          CollectiveState.kActive, CollectiveState.kDraining, CollectiveState.kCompleted,
          CollectiveState.kCancelled, CollectiveState.kRetired, CollectiveState.kTimedOut]"])
    (simp_all add: CollectiveState_cast_def [abs_def] CollectiveState.nchotomy [simplified] upt_rec)

interpretation traffic_class: byte_enum TrafficClass_value TrafficClass_cast 7
  by (rule byte_enumI [where vs =
        "[TrafficClass.kUnclassified, TrafficClass.kLatencyCritical, TrafficClass.kControlPlane,
          TrafficClass.kBulkData, TrafficClass.kBestEffortBulk, TrafficClass.kBackground,
          TrafficClass.kIsolated, TrafficClass.kProbe]"])
    (simp_all add: TrafficClass_cast_def [abs_def] TrafficClass.nchotomy [simplified] upt_rec)

interpretation isolation_mode: byte_enum IsolationMode_value IsolationMode_cast 2
  by (rule byte_enumI [where vs =
        "[IsolationMode.kShared, IsolationMode.kClassIsolated, IsolationMode.kDedicatedPath]"])
    (simp_all add: IsolationMode_cast_def [abs_def] IsolationMode.nchotomy [simplified] upt_rec)

interpretation pacing_mode: byte_enum PacingMode_value PacingMode_cast 4
  by (rule byte_enumI [where vs =
        "[PacingMode.kNone, PacingMode.kImmediate, PacingMode.kTokenBucket, PacingMode.kRateLimited,
          PacingMode.kShaped]"])
    (simp_all add: PacingMode_cast_def [abs_def] PacingMode.nchotomy [simplified] upt_rec)

interpretation link_class: byte_enum LinkClass_value LinkClass_cast 5
  by (rule byte_enumI [where vs =
        "[LinkClass.kUnspecified, LinkClass.kIntraNode, LinkClass.kInterNode, LinkClass.kInterRack,
          LinkClass.kInterPod, LinkClass.kOversubscribed]"])
    (simp_all add: LinkClass_cast_def [abs_def] LinkClass.nchotomy [simplified] upt_rec)

interpretation congestion_level: byte_enum CongestionLevel_value CongestionLevel_cast 5
  by (rule byte_enumI [where vs =
        "[CongestionLevel.kUnknown, CongestionLevel.kNone, CongestionLevel.kLow,
          CongestionLevel.kModerate, CongestionLevel.kHigh, CongestionLevel.kSevere]"])
    (simp_all add: CongestionLevel_cast_def [abs_def] CongestionLevel.nchotomy [simplified] upt_rec)

interpretation flow_pattern: byte_enum FlowPattern_value FlowPattern_cast 10
  by (rule byte_enumI [where vs =
        "[FlowPattern.kUnspecified, FlowPattern.kRing, FlowPattern.kChain, FlowPattern.kTreeUp,
          FlowPattern.kTreeDown, FlowPattern.kStar, FlowPattern.kFullMesh,
          FlowPattern.kNeighborExchange, FlowPattern.kPairwiseDisjoint, FlowPattern.kPipeline,
          FlowPattern.kCustom]"])
    (simp_all add: FlowPattern_cast_def [abs_def] FlowPattern.nchotomy [simplified] upt_rec)

interpretation flow_direction: byte_enum FlowDirection_value FlowDirection_cast 2
  by (rule byte_enumI [where vs =
        "[FlowDirection.kUnknown, FlowDirection.kUnidirectional, FlowDirection.kBidirectional]"])
    (simp_all add: FlowDirection_cast_def [abs_def] FlowDirection.nchotomy [simplified] upt_rec)

interpretation outcome: byte_enum Outcome_value Outcome_cast 8
  by (rule byte_enumI [where vs =
        "[Outcome.kAdmitted, Outcome.kDeferred, Outcome.kRateLimited, Outcome.kIsolatedClass,
          Outcome.kRequiresReplan, Outcome.kRejectedStale, Outcome.kRejectedCapacity,
          Outcome.kRejectedPolicy, Outcome.kUnknownSemantics]"])
    (simp_all add: Outcome_cast_def [abs_def] Outcome.nchotomy [simplified] upt_rec)

interpretation authority_axis: byte_enum AuthorityAxis_value AuthorityAxis_cast 11
  by (rule byte_enumI [where vs =
        "[AuthorityAxis.kNone, AuthorityAxis.kCoordinatorEpoch, AuthorityAxis.kTopologyGeneration,
          AuthorityAxis.kPolicyGeneration, AuthorityAxis.kCollectiveGeneration,
          AuthorityAxis.kAttemptGeneration, AuthorityAxis.kParticipantLiveness,
          AuthorityAxis.kCapacityEvidence, AuthorityAxis.kCongestionEvidence, AuthorityAxis.kLifecycle,
          AuthorityAxis.kSemantics, AuthorityAxis.kPlan]"])
    (simp_all add: AuthorityAxis_cast_def [abs_def] AuthorityAxis.nchotomy [simplified] upt_rec)

interpretation sync_kind: byte_enum SyncKind_value SyncKind_cast 5
  by (rule byte_enumI [where vs =
        "[SyncKind.kNone, SyncKind.kBarrier, SyncKind.kFence, SyncKind.kDependency,
          SyncKind.kCollectiveStep, SyncKind.kStreamOrder]"])
    (simp_all add: SyncKind_cast_def [abs_def] SyncKind.nchotomy [simplified] upt_rec)

interpretation sync_basis: byte_enum SyncBasis_value SyncBasis_cast 5
  by (rule byte_enumI [where vs =
        "[SyncBasis.kUnspecified, SyncBasis.kDeclaredBarrierSemantics,
          SyncBasis.kDeclaredPhaseSynchronizationPoint, SyncBasis.kDerivedFromClass,
          SyncBasis.kDerivedFromPattern, SyncBasis.kDerivedFromPolicy]"])
    (simp_all add: SyncBasis_cast_def [abs_def] SyncBasis.nchotomy [simplified] upt_rec)

interpretation participant_state: byte_enum ParticipantState_value ParticipantState_cast 6
  by (rule byte_enumI [where vs =
        "[ParticipantState.kUnspecified, ParticipantState.kAdvertised, ParticipantState.kLive,
          ParticipantState.kSuspect, ParticipantState.kExpired, ParticipantState.kFenced,
          ParticipantState.kRetired]"])
    (simp_all add: ParticipantState_cast_def [abs_def] ParticipantState.nchotomy [simplified] upt_rec)

lemmas enumeration_codecs =
  collective_class.codec_enumeration
  algorithm_hint.codec_enumeration
  collective_scope.codec_enumeration
  collective_state.codec_enumeration
  traffic_class.codec_enumeration
  isolation_mode.codec_enumeration
  pacing_mode.codec_enumeration
  link_class.codec_enumeration
  congestion_level.codec_enumeration
  flow_pattern.codec_enumeration
  flow_direction.codec_enumeration
  outcome.codec_enumeration
  authority_axis.codec_enumeration
  sync_kind.codec_enumeration
  sync_basis.codec_enumeration
  participant_state.codec_enumeration

lemmas [codec_simps] = enumeration_codecs [THEN codec.decode_iff]

end
