(* ===== verification/CTF_Persistence.thy ===== *)
theory CTF_Persistence
  imports CTF_Checksum CTF_Enumerations CTF_Authority
begin

text \<open>
  \<^verbatim>\<open>persistence.hpp\<close> and \<^verbatim>\<open>persistence.cpp\<close>: the snapshot format with its private writer
  and reader, the envelope with its CRC and digest, and \<^verbatim>\<open>SnapshotStore\<close>, which replaces the
  snapshot file through a temporary sibling.

  \<^verbatim>\<open>SnapWriter\<close> appends to a byte vector, so writing is concatenation; \<^verbatim>\<open>SnapReader\<close> returns
  \<^verbatim>\<open>false\<close> without a reason, so its error type is \<open>unit\<close>. The calls into the operating system are
  modelled on a map from paths to contents; which of them fail is a parameter.
\<close>


section \<open>Writer and reader\<close>

definition kSnapshotBytesMax :: nat where "kSnapshotBytesMax = 67108864"
definition kSnapshotCollectivesMax :: nat where "kSnapshotCollectivesMax = 200000"
definition kSnapshotFormatVersion :: u32 where "kSnapshotFormatVersion = 1"
definition kEnvelopeMagic :: u32 where "kEnvelopeMagic = 0x43544653"
definition kEnvelopeBytes :: nat where "kEnvelopeBytes = 60"
definition kDigestBytes :: nat where "kDigestBytes = 32"

definition put_text :: "nat \<Rightarrow> string \<Rightarrow> u8 list" where
  "put_text max_bytes s =
     (let n = (if length s > max_bytes then max_bytes else length s)
      in put_u32 (of_nat n) @ char_bytes (take n s))"

definition snap_u8 :: "(unit, u8) reader" where "snap_u8 = get_u8 ()"
definition snap_u16 :: "(unit, u16) reader" where "snap_u16 = get_u16 ()"
definition snap_u32 :: "(unit, u32) reader" where "snap_u32 = get_u32 ()"
definition snap_u64 :: "(unit, u64) reader" where "snap_u64 = get_u64 ()"
definition snap_identity :: "(unit, Identity) reader" where "snap_identity = get_identity ()"
definition snap_text :: "nat \<Rightarrow> (unit, string) reader" where "snap_text = get_string () ()"
definition snap_boolean :: "(unit, bool) reader" where "snap_boolean = get_boolean () ()"
definition snap_enumeration :: "(u8 \<Rightarrow> 'a) \<Rightarrow> u8 \<Rightarrow> (unit, 'a) reader" where
  "snap_enumeration = get_enumeration () ()"
definition snap_count :: "nat \<Rightarrow> (unit, nat) reader" where "snap_count = get_count () ()"

text \<open>A counted loop over the elements of a vector.\<close>

definition snap_list :: "nat \<Rightarrow> (unit, 'a) reader \<Rightarrow> (unit, 'a list) reader" where
  "snap_list max_count p = then_read (snap_count max_count) (\<lambda>n. read_many n p)"


section \<open>Field codecs\<close>

definition write_metadata :: "Metadata \<Rightarrow> u8 list" where
  "write_metadata entries =
     put_list (\<lambda>entry. put_text kMetadataKeyBytesMax (fst entry) @ put_text kMetadataValueBytesMax (snd entry)) entries"

fun read_metadata_entries :: "nat \<Rightarrow> Metadata \<Rightarrow> (unit, Metadata) reader" where
  "read_metadata_entries 0 entries = yield entries"
| "read_metadata_entries (Suc n) entries =
     then_read (snap_text kMetadataKeyBytesMax) (\<lambda>key.
     then_read (snap_text kMetadataValueBytesMax) (\<lambda>v.
     case metadata_set key v entries of
       (stored, entries') \<Rightarrow> if \<not> stored then fail () else read_metadata_entries n entries'))"

definition read_metadata :: "(unit, Metadata) reader" where
  "read_metadata = then_read (snap_count kMetadataEntriesMax) (\<lambda>n. read_metadata_entries n [])"

definition write_phase :: "CollectivePhase \<Rightarrow> u8 list" where
  "write_phase phase =
     put_u64 (phase_index phase) @ put_text kLabelBytesMax (phase_label phase) @
     put_boolean (phase_synchronization_point phase) @ put_u32 (phase_step_count phase)"

definition write_step :: "CollectiveStep \<Rightarrow> u8 list" where
  "write_step step =
     put_u64 (step_phase_index step) @ put_u64 (step_index step) @
     put_enumeration AlgorithmHint_value (step_hint step) @ put_boolean (step_synchronization_point step)"

definition write_definition :: "CollectiveDefinition \<Rightarrow> u8 list" where
  "write_definition d =
     put_identity (def_id d) @ put_identity (def_generation d) @
     put_enumeration CollectiveClass_value (def_collective_class d) @
     put_enumeration AlgorithmHint_value (def_algorithm_hint d) @
     put_enumeration CollectiveScope_value (def_scope d) @
     put_text kLabelBytesMax (def_label d) @
     put_identity (def_origin_node d) @ put_identity (def_fabric d) @
     put_list put_identity (def_participants d) @
     put_list write_phase (def_phases d) @
     put_list write_step (def_steps d) @
     write_metadata (def_metadata d) @
     put_boolean (def_declares_barrier_semantics d) @
     put_u64 (def_logical_bytes d) @
     put_u64 (def_registration_sequence d)"

definition read_phase :: "(unit, CollectivePhase) reader" where
  "read_phase =
     then_read snap_u64 (\<lambda>index_value.
     then_read (snap_text kLabelBytesMax) (\<lambda>label.
     then_read snap_boolean (\<lambda>synchronization_point.
     then_read snap_u32 (\<lambda>step_count.
     yield \<lparr>phase_index = index_value, phase_label = label,
            phase_synchronization_point = synchronization_point, phase_step_count = step_count\<rparr>))))"

definition read_step :: "(unit, CollectiveStep) reader" where
  "read_step =
     then_read snap_u64 (\<lambda>phase.
     then_read snap_u64 (\<lambda>index.
     then_read (snap_enumeration AlgorithmHint_cast 11) (\<lambda>hint.
     then_read snap_boolean (\<lambda>synchronization_point.
     yield \<lparr>step_phase_index = phase, step_index = index, step_hint = hint,
            step_synchronization_point = synchronization_point\<rparr>))))"

definition read_definition :: "(unit, CollectiveDefinition) reader" where
  "read_definition =
     then_read snap_identity (\<lambda>id.
     then_read snap_identity (\<lambda>generation.
     then_read (snap_enumeration CollectiveClass_cast 14) (\<lambda>collective_class.
     then_read (snap_enumeration AlgorithmHint_cast 11) (\<lambda>algorithm_hint.
     then_read (snap_enumeration CollectiveScope_cast 5) (\<lambda>scope.
     then_read (snap_text kLabelBytesMax) (\<lambda>label.
     then_read snap_identity (\<lambda>origin_node.
     then_read snap_identity (\<lambda>fabric.
     then_read (snap_list kParticipantsMaxPerCollective snap_identity) (\<lambda>participants.
     then_read (snap_list kPhasesMaxPerCollective read_phase) (\<lambda>phases.
     then_read (snap_list (kPhasesMaxPerCollective * kStepsMaxPerPhase) read_step) (\<lambda>steps.
     then_read read_metadata (\<lambda>metadata.
     then_read snap_boolean (\<lambda>barrier.
     then_read snap_u64 (\<lambda>logical_bytes.
     then_read snap_u64 (\<lambda>registration_sequence.
     yield \<lparr>def_id = id, def_generation = generation, def_collective_class = collective_class,
            def_algorithm_hint = algorithm_hint, def_scope = scope, def_label = label,
            def_origin_node = origin_node, def_fabric = fabric, def_participants = participants,
            def_phases = phases, def_steps = steps, def_metadata = metadata,
            def_declares_barrier_semantics = barrier, def_logical_bytes = logical_bytes,
            def_registration_sequence = registration_sequence\<rparr>)))))))))))))))"

definition write_record :: "CollectiveRecord \<Rightarrow> u8 list" where
  "write_record r =
     write_definition (crec_definition r) @
     put_enumeration CollectiveState_value (crec_state r) @
     put_identity (crec_current_attempt r) @
     put_u64 (crec_attempt_transfer_bytes r) @
     put_u64 (crec_attempt_sequence r) @
     put_u64 (crec_registration_sequence r) @
     put_u64 (crec_last_mutation_sequence r) @
     put_u64 (crec_registered_monotonic_ms r) @
     put_u64 (crec_last_mutated_monotonic_ms r) @
     put_u32 (crec_generation_ancestry_depth r)"

definition read_record :: "(unit, CollectiveRecord) reader" where
  "read_record =
     then_read read_definition (\<lambda>d.
     then_read (snap_enumeration CollectiveState_cast 8) (\<lambda>state.
     then_read snap_identity (\<lambda>current_attempt.
     then_read snap_u64 (\<lambda>attempt_transfer_bytes.
     then_read snap_u64 (\<lambda>attempt_sequence.
     then_read snap_u64 (\<lambda>registration_sequence.
     then_read snap_u64 (\<lambda>last_mutation_sequence.
     then_read snap_u64 (\<lambda>registered_monotonic_ms.
     then_read snap_u64 (\<lambda>last_mutated_monotonic_ms.
     then_read snap_u32 (\<lambda>generation_ancestry_depth.
     yield \<lparr>crec_definition = d, crec_state = state, crec_current_attempt = current_attempt,
            crec_attempt_transfer_bytes = attempt_transfer_bytes, crec_attempt_sequence = attempt_sequence,
            crec_registration_sequence = registration_sequence,
            crec_last_mutation_sequence = last_mutation_sequence,
            crec_registered_monotonic_ms = registered_monotonic_ms,
            crec_last_mutated_monotonic_ms = last_mutated_monotonic_ms,
            crec_generation_ancestry_depth = generation_ancestry_depth\<rparr>))))))))))"

definition write_node :: "TopologyNode \<Rightarrow> u8 list" where
  "write_node node =
     put_identity (node_id node) @ put_identity (node_rack node) @
     put_boolean (node_accelerator_attached node) @ put_u32 (node_accelerator_count node)"

definition write_link :: "TopologyLink \<Rightarrow> u8 list" where
  "write_link link =
     put_identity (link_id link) @ put_identity (link_a link) @ put_identity (link_b link) @
     put_enumeration LinkClass_value (link_class link) @ put_u64 (link_capacity_bps link) @
     put_u32 (link_lanes link) @ put_boolean (link_shared_oversubscribed link)"

definition write_topology :: "TopologyEvidence \<Rightarrow> u8 list" where
  "write_topology t =
     put_identity (topo_generation t) @ put_u64 (topo_captured_monotonic_ms t) @
     put_boolean (topo_synthetic t) @ put_list write_node (topo_nodes t) @ put_list write_link (topo_links t)"

definition read_node :: "(unit, TopologyNode) reader" where
  "read_node =
     then_read snap_identity (\<lambda>id.
     then_read snap_identity (\<lambda>rack.
     then_read snap_boolean (\<lambda>accelerator_attached.
     then_read snap_u32 (\<lambda>accelerator_count.
     yield \<lparr>node_id = id, node_rack = rack, node_accelerator_attached = accelerator_attached,
            node_accelerator_count = accelerator_count\<rparr>))))"

definition read_link :: "(unit, TopologyLink) reader" where
  "read_link =
     then_read snap_identity (\<lambda>id.
     then_read snap_identity (\<lambda>a.
     then_read snap_identity (\<lambda>b.
     then_read (snap_enumeration LinkClass_cast 5) (\<lambda>class.
     then_read snap_u64 (\<lambda>capacity_bps.
     then_read snap_u32 (\<lambda>lanes.
     then_read snap_boolean (\<lambda>shared_oversubscribed.
     yield \<lparr>link_id = id, link_a = a, link_b = b, link_class = class, link_capacity_bps = capacity_bps,
            link_lanes = lanes, link_shared_oversubscribed = shared_oversubscribed\<rparr>)))))))"

definition read_topology :: "(unit, TopologyEvidence) reader" where
  "read_topology =
     then_read snap_identity (\<lambda>generation.
     then_read snap_u64 (\<lambda>captured_monotonic_ms.
     then_read snap_boolean (\<lambda>synthetic.
     then_read (snap_list kTopologyNodesMax read_node) (\<lambda>nodes.
     then_read (snap_list kTopologyLinksMax read_link) (\<lambda>links.
     yield \<lparr>topo_generation = generation, topo_nodes = nodes, topo_links = links,
            topo_captured_monotonic_ms = captured_monotonic_ms, topo_synthetic = synthetic\<rparr>)))))"

definition write_class_policy :: "TrafficClassPolicy \<Rightarrow> u8 list" where
  "write_class_policy entry =
     put_enumeration TrafficClass_value (tcp_traffic_class entry) @ put_u64 (tcp_priority entry) @
     put_u64 (tcp_minimum_bandwidth_bps entry) @ put_u64 (tcp_maximum_bandwidth_bps entry) @
     put_u64 (tcp_burst_bytes entry) @ put_boolean (tcp_requires_simultaneous_start entry) @
     put_boolean (tcp_requires_evidence_freshness entry) @ put_enumeration IsolationMode_value (tcp_isolation entry)"

definition write_collective_policy :: "CollectiveClassPolicy \<Rightarrow> u8 list" where
  "write_collective_policy entry =
     put_enumeration CollectiveClass_value (ccp_collective_class entry) @
     put_enumeration TrafficClass_value (ccp_traffic_class entry) @
     put_boolean (ccp_admit_when_unknown_semantics entry) @
     put_boolean (ccp_allow_member_override entry) @ put_u64 (ccp_freshness_requirement_ms entry)"

definition write_response :: "CongestionResponseTable \<Rightarrow> u8 list" where
  "write_response t =
     concat (map (\<lambda>index. put_u32 (crt_utilization_bps t ! index) @ put_u32 (crt_rate_numerator_per_mille t ! index))
       [0..<kBucketCount])"

definition write_policy :: "TrafficPolicy \<Rightarrow> u8 list" where
  "write_policy p =
     put_identity (pol_generation p) @ put_u64 (pol_default_maximum_bandwidth_bps p) @
     put_u64 (pol_burst_multiplier_per_mille p) @ write_response (pol_congestion_response p) @
     put_list write_class_policy (pol_class_policies p) @
     put_list write_collective_policy (pol_collective_policies p)"

definition read_class_policy :: "(unit, TrafficClassPolicy) reader" where
  "read_class_policy =
     then_read (snap_enumeration TrafficClass_cast 7) (\<lambda>traffic_class.
     then_read snap_u64 (\<lambda>priority.
     then_read snap_u64 (\<lambda>minimum_bandwidth_bps.
     then_read snap_u64 (\<lambda>maximum_bandwidth_bps.
     then_read snap_u64 (\<lambda>burst_bytes.
     then_read snap_boolean (\<lambda>requires_simultaneous_start.
     then_read snap_boolean (\<lambda>requires_evidence_freshness.
     then_read (snap_enumeration IsolationMode_cast 2) (\<lambda>isolation.
     yield \<lparr>tcp_traffic_class = traffic_class, tcp_priority = priority,
            tcp_minimum_bandwidth_bps = minimum_bandwidth_bps,
            tcp_maximum_bandwidth_bps = maximum_bandwidth_bps, tcp_burst_bytes = burst_bytes,
            tcp_requires_simultaneous_start = requires_simultaneous_start,
            tcp_requires_evidence_freshness = requires_evidence_freshness, tcp_isolation = isolation\<rparr>))))))))"

definition read_collective_policy :: "(unit, CollectiveClassPolicy) reader" where
  "read_collective_policy =
     then_read (snap_enumeration CollectiveClass_cast 14) (\<lambda>collective_class.
     then_read (snap_enumeration TrafficClass_cast 7) (\<lambda>traffic_class.
     then_read snap_boolean (\<lambda>admit_when_unknown_semantics.
     then_read snap_boolean (\<lambda>allow_member_override.
     then_read snap_u64 (\<lambda>freshness_requirement_ms.
     yield \<lparr>ccp_collective_class = collective_class, ccp_traffic_class = traffic_class,
            ccp_admit_when_unknown_semantics = admit_when_unknown_semantics,
            ccp_allow_member_override = allow_member_override,
            ccp_freshness_requirement_ms = freshness_requirement_ms\<rparr>)))))"

definition read_response :: "(unit, CongestionResponseTable) reader" where
  "read_response =
     then_read (read_many kBucketCount
       (then_read snap_u32 (\<lambda>utilization. then_read snap_u32 (\<lambda>rate. yield (utilization, rate))))) (\<lambda>buckets.
     yield \<lparr>crt_utilization_bps = map fst buckets, crt_rate_numerator_per_mille = map snd buckets\<rparr>)"

definition read_policy :: "(unit, TrafficPolicy) reader" where
  "read_policy =
     then_read snap_identity (\<lambda>generation.
     then_read snap_u64 (\<lambda>default_maximum_bandwidth_bps.
     then_read snap_u64 (\<lambda>burst_multiplier_per_mille.
     then_read read_response (\<lambda>congestion_response.
     then_read (snap_list 16 read_class_policy) (\<lambda>class_policies.
     then_read (snap_list 16 read_collective_policy) (\<lambda>collective_policies.
     yield \<lparr>pol_generation = generation, pol_class_policies = class_policies,
            pol_collective_policies = collective_policies, pol_congestion_response = congestion_response,
            pol_default_maximum_bandwidth_bps = default_maximum_bandwidth_bps,
            pol_burst_multiplier_per_mille = burst_multiplier_per_mille\<rparr>))))))"


section \<open>Snapshots\<close>

record SnapshotContents =
  sc_format_version :: u32
  sc_written_monotonic_ms :: u64
  sc_authority :: DurableAuthority
  sc_records :: "CollectiveRecord list"

definition check_record :: "CollectiveRecord \<Rightarrow> Status" where
  "check_record r =
     (if is_none (def_id (crec_definition r)) \<or> is_none (def_generation (crec_definition r))
      then Status ErrorCode_kPersistenceImpossibleState
             ''refusing to persist a collective without an identity or generation''
      else if def_participants (crec_definition r) = []
      then Status ErrorCode_kPersistenceImpossibleState
             ''refusing to persist a collective with no participants''
      else if length (def_participants (crec_definition r)) > kParticipantsMaxPerCollective
      then Status ErrorCode_kPersistenceImpossibleState
             ''refusing to persist a collective beyond the participant bound''
      else if crec_state r = CollectiveState.kUnregistered
      then Status ErrorCode_kPersistenceImpossibleState ''refusing to persist an unregistered collective''
      else status_ok)"

fun check_records :: "CollectiveRecord list \<Rightarrow> Status" where
  "check_records [] = status_ok"
| "check_records (r # rs) = (if \<not> is_ok (check_record r) then check_record r else check_records rs)"

definition snapshot_payload :: "SnapshotContents \<Rightarrow> u8 list" where
  "snapshot_payload c =
     (let a = sc_authority c;
          topology = is_some (da_topology_generation a);
          policy = is_some (da_policy_generation a)
      in put_u32 kSnapshotFormatVersion @ put_u64 (sc_written_monotonic_ms c) @
         put_identity (da_last_epoch a) @ put_identity (da_policy_generation a) @
         put_identity (da_topology_generation a) @ put_u64 (da_restart_count a) @
         put_boolean topology @ (if topology then write_topology (da_topology a) else []) @
         put_boolean policy @ (if policy then write_policy (da_policy a) else []) @
         put_list write_record (sc_records c))"

definition snapshot_envelope :: "u64 \<Rightarrow> u8 list \<Rightarrow> u8 list" where
  "snapshot_envelope written payload =
     put_u32 kEnvelopeMagic @ put_u32 kSnapshotFormatVersion @ put_u64 (of_nat (length payload)) @
     put_u32 (crc32 payload) @ put_u64 written @ concat (map put_u8 (digest_payload payload))"

definition encode_snapshot :: "SnapshotContents \<Rightarrow> Status + u8 list" where
  "encode_snapshot c =
     (let a = sc_authority c;
          policy_status = policy_validate (da_policy a);
          topology_status = topology_validate (da_topology a);
          records_status = check_records (sc_records c);
          payload = snapshot_payload c;
          envelope = snapshot_envelope (sc_written_monotonic_ms c) payload
      in
      if is_some (da_policy_generation a) \<and> \<not> is_ok policy_status
      then Inl (Status ErrorCode_kPersistenceImpossibleState
                  (''refusing to persist an invalid policy: '' @ status_message policy_status))
      else if is_some (da_topology_generation a) \<and> \<not> is_ok topology_status
      then Inl (Status ErrorCode_kPersistenceImpossibleState
                  (''refusing to persist an invalid topology: '' @ status_message topology_status))
      else if length (sc_records c) > kSnapshotCollectivesMax
      then Inl (Status ErrorCode_kPersistenceTooLarge ''snapshot holds more collectives than the format bound'')
      else if \<not> is_ok records_status then Inl records_status
      else if length payload > kSnapshotBytesMax
      then Inl (Status ErrorCode_kPersistenceTooLarge ''encoded snapshot exceeds the size bound'')
      else if length envelope \<noteq> kEnvelopeBytes
      then Inl (Status ErrorCode_kInternalInvariant ''snapshot envelope has an unexpected size'')
      else Inr (envelope @ payload))"

text \<open>A failed read is reported with the status of the place where it happened.\<close>

definition or_status :: "Status \<Rightarrow> (unit, 'a) reader \<Rightarrow> (Status, 'a) reader" where
  "or_status st p bs = (case p bs of Inl _ \<Rightarrow> Inl st | Inr r \<Rightarrow> Inr r)"

definition payload_incomplete :: Status where
  "payload_incomplete = Status ErrorCode_kPersistenceTruncated ''snapshot payload is incomplete''"

definition read_snapshot_topology :: "TopologyGeneration \<Rightarrow> bool \<Rightarrow> (Status, TopologyEvidence) reader" where
  "read_snapshot_topology topology_generation has_topology =
     (if has_topology
      then
        then_read (or_status (Status ErrorCode_kPersistenceCorrupt ''snapshot topology section is malformed'')
          read_topology) (\<lambda>topology.
        if topo_generation topology \<noteq> topology_generation
        then fail (Status ErrorCode_kPersistenceImpossibleState
                     ''snapshot topology generation disagrees with the durable record'')
        else yield topology)
      else if is_some topology_generation
      then fail (Status ErrorCode_kPersistenceImpossibleState
                   ''snapshot claims a topology generation but carries no topology'')
      else yield TopologyEvidence_default)"

definition read_snapshot_policy :: "PolicyGeneration \<Rightarrow> bool \<Rightarrow> (Status, TrafficPolicy) reader" where
  "read_snapshot_policy policy_generation has_policy =
     (if has_policy
      then
        then_read (or_status (Status ErrorCode_kPersistenceCorrupt ''snapshot policy section is malformed'')
          read_policy) (\<lambda>policy.
        if \<not> is_ok (policy_validate policy)
        then fail (Status ErrorCode_kPersistenceImpossibleState
                     (''snapshot policy is not usable: '' @ status_message (policy_validate policy)))
        else if pol_generation policy \<noteq> policy_generation
        then fail (Status ErrorCode_kPersistenceImpossibleState
                     ''snapshot policy generation disagrees with the durable record'')
        else yield policy)
      else if is_some policy_generation
      then fail (Status ErrorCode_kPersistenceImpossibleState
                   ''snapshot claims a policy generation but carries no policy'')
      else yield TrafficPolicy_default)"

definition read_snapshot_records :: "(Status, CollectiveRecord list) reader" where
  "read_snapshot_records =
     then_read (or_status (Status ErrorCode_kPersistenceCorrupt ''snapshot collective count is out of range'')
       (snap_count kSnapshotCollectivesMax)) (\<lambda>n.
     or_status (Status ErrorCode_kPersistenceCorrupt ''snapshot collective section is malformed'')
       (read_many n read_record))"

definition read_snapshot_payload :: "u64 \<Rightarrow> (Status, SnapshotContents) reader" where
  "read_snapshot_payload written =
     then_read (or_status payload_incomplete snap_u32) (\<lambda>format.
     if format \<noteq> kSnapshotFormatVersion
     then fail (Status ErrorCode_kPersistenceVersionUnsupported ''snapshot payload version is not supported'')
     else
     then_read (or_status payload_incomplete snap_u64) (\<lambda>written_monotonic_ms.
     if written_monotonic_ms \<noteq> written
     then fail (Status ErrorCode_kPersistenceCorrupt ''snapshot envelope and payload disagree about the write time'')
     else
     then_read (or_status payload_incomplete snap_identity) (\<lambda>last_epoch.
     then_read (or_status payload_incomplete snap_identity) (\<lambda>policy_generation.
     then_read (or_status payload_incomplete snap_identity) (\<lambda>topology_generation.
     then_read (or_status payload_incomplete snap_u64) (\<lambda>restart_count.
     then_read (or_status payload_incomplete snap_boolean) (\<lambda>has_topology.
     then_read (read_snapshot_topology topology_generation has_topology) (\<lambda>topology.
     then_read (or_status payload_incomplete snap_boolean) (\<lambda>has_policy.
     then_read (read_snapshot_policy policy_generation has_policy) (\<lambda>policy.
     if has_topology \<and> \<not> is_ok (topology_validate topology)
     then fail (Status ErrorCode_kPersistenceImpossibleState
                  (''snapshot topology is not usable: '' @ status_message (topology_validate topology)))
     else
     then_read read_snapshot_records (\<lambda>records.
     yield \<lparr>sc_format_version = format, sc_written_monotonic_ms = written_monotonic_ms,
            sc_authority =
              \<lparr>da_last_epoch = last_epoch, da_policy_generation = policy_generation,
               da_topology_generation = topology_generation, da_topology = topology, da_policy = policy,
               da_restart_count = restart_count\<rparr>,
            sc_records = records\<rparr>)))))))))))"

definition read_envelope :: "(unit, u32 \<times> u32 \<times> u64 \<times> u32 \<times> u64) reader" where
  "read_envelope =
     then_read snap_u32 (\<lambda>magic.
     then_read snap_u32 (\<lambda>version.
     then_read snap_u64 (\<lambda>payload_bytes.
     then_read snap_u32 (\<lambda>payload_crc.
     then_read snap_u64 (\<lambda>written.
     yield (magic, version, payload_bytes, payload_crc, written))))))"

definition decode_snapshot :: "u8 list \<Rightarrow> Status + SnapshotContents" where
  "decode_snapshot bytes =
     (if length bytes < kEnvelopeBytes
      then Inl (Status ErrorCode_kPersistenceTruncated ''snapshot is shorter than its envelope'')
      else if length bytes > kSnapshotBytesMax + kEnvelopeBytes
      then Inl (Status ErrorCode_kPersistenceTooLarge ''snapshot exceeds the size bound'')
      else
        case read_envelope (take kEnvelopeBytes bytes) of
          Inl _ \<Rightarrow> Inl (Status ErrorCode_kPersistenceTruncated ''snapshot envelope is incomplete'')
        | Inr ((magic, version, payload_bytes, payload_crc, written), envelope) \<Rightarrow>
            if magic \<noteq> kEnvelopeMagic
            then Inl (Status ErrorCode_kPersistenceCorrupt ''snapshot magic does not match this format'')
            else if version \<noteq> kSnapshotFormatVersion
            then Inl (Status ErrorCode_kPersistenceVersionUnsupported ''snapshot format version is not supported'')
            else if unat payload_bytes > kSnapshotBytesMax
            then Inl (Status ErrorCode_kPersistenceTooLarge ''snapshot payload exceeds the size bound'')
            else if unat payload_bytes \<noteq> length bytes - kEnvelopeBytes
            then Inl (Status ErrorCode_kPersistenceTruncated ''snapshot payload length disagrees with the file size'')
            else
              let payload = drop kEnvelopeBytes bytes in
              if crc32 payload \<noteq> payload_crc
              then Inl (Status ErrorCode_kPersistenceIntegrityMismatch ''snapshot payload CRC32 does not match'')
              else
                case read_many kDigestBytes snap_u8 envelope of
                  Inl _ \<Rightarrow> Inl (Status ErrorCode_kPersistenceTruncated ''snapshot digest is incomplete'')
                | Inr (digest, _) \<Rightarrow>
                    if digest \<noteq> digest_payload payload
                    then Inl (Status ErrorCode_kPersistenceIntegrityMismatch
                                ''snapshot digest does not match its payload'')
                    else
                      case read_snapshot_payload written payload of
                        Inl status \<Rightarrow> Inl status
                      | Inr (contents, rest) \<Rightarrow>
                          if rest \<noteq> []
                          then Inl (Status ErrorCode_kPersistenceCorrupt ''snapshot payload carries trailing bytes'')
                          else Inr contents)"


section \<open>The snapshot store\<close>

datatype LoadDisposition =
    kLoaded
  | kMissing
  | kRejectedCorrupt
  | kRejectedTruncated
  | kRejectedIntegrity
  | kRejectedVersion
  | kRejectedOversized
  | kRejectedImpossible
  | kRejectedIo

primrec LoadDisposition_to_string :: "LoadDisposition \<Rightarrow> string" where
  "LoadDisposition_to_string LoadDisposition.kLoaded = ''loaded''"
| "LoadDisposition_to_string LoadDisposition.kMissing = ''missing''"
| "LoadDisposition_to_string LoadDisposition.kRejectedCorrupt = ''rejected_corrupt''"
| "LoadDisposition_to_string LoadDisposition.kRejectedTruncated = ''rejected_truncated''"
| "LoadDisposition_to_string LoadDisposition.kRejectedIntegrity = ''rejected_integrity''"
| "LoadDisposition_to_string LoadDisposition.kRejectedVersion = ''rejected_version''"
| "LoadDisposition_to_string LoadDisposition.kRejectedOversized = ''rejected_oversized''"
| "LoadDisposition_to_string LoadDisposition.kRejectedImpossible = ''rejected_impossible''"
| "LoadDisposition_to_string LoadDisposition.kRejectedIo = ''rejected_io''"

type_synonym FileSystem = "string \<Rightarrow> u8 list option"

text \<open>What the operating system answers: whether a file opens, how many bytes \<^verbatim>\<open>fwrite\<close> takes,
  whether flushing, closing and renaming succeed, and after how many bytes reading fails.\<close>

record Io =
  io_open :: bool
  io_written :: nat
  io_flush :: bool
  io_close :: bool
  io_rename :: bool
  io_read_limit :: "nat option"

text \<open>The POSIX branch of \<^verbatim>\<open>write_all\<close>. Besides the status it yields the file systems that
  exist between its calls, the last one being the final one; a crash leaves one of them, or one in
  which a part of the bytes being written has arrived.\<close>

definition write_all :: "Io \<Rightarrow> string \<Rightarrow> u8 list \<Rightarrow> FileSystem \<Rightarrow> Status \<times> FileSystem list" where
  "write_all io path bytes fs =
     (let temporary = path @ ''.tmp'';
          opened = fs(temporary \<mapsto> []);
          partial = map (\<lambda>n. fs(temporary \<mapsto> take n bytes)) [0..<Suc (min (io_written io) (length bytes))];
          full = fs(temporary \<mapsto> bytes);
          removed = fs(temporary := None);
          renamed = (fs(path \<mapsto> bytes))(temporary := None)
      in
      if \<not> io_open io
      then (Status ErrorCode_kPersistenceOpenFailed ''cannot open temporary snapshot file for writing'', [fs])
      else if bytes \<noteq> [] \<and> io_written io < length bytes
      then (Status ErrorCode_kPersistenceWriteFailed ''short write while persisting the snapshot'',
            [fs, opened] @ partial @ [removed])
      else if \<not> io_flush io
      then (Status ErrorCode_kPersistenceWriteFailed ''flush failed while persisting the snapshot'',
            [fs, opened] @ partial @ [full, removed])
      else if \<not> io_close io
      then (Status ErrorCode_kPersistenceWriteFailed ''close failed while persisting the snapshot'',
            [fs, opened] @ partial @ [full, removed])
      else if \<not> io_rename io
      then (Status ErrorCode_kPersistenceRenameFailed ''atomic replacement of the snapshot file failed'',
            [fs, opened] @ partial @ [full, removed])
      else (status_ok, [fs, opened] @ partial @ [full, renamed]))"

definition store_exists :: "Io \<Rightarrow> string \<Rightarrow> FileSystem \<Rightarrow> bool" where
  "store_exists io path fs \<longleftrightarrow> io_open io \<and> fs path \<noteq> None"

definition store_save :: "Io \<Rightarrow> string \<Rightarrow> SnapshotContents \<Rightarrow> u64 \<Rightarrow> FileSystem \<Rightarrow> Status \<times> FileSystem list" where
  "store_save io path contents now_monotonic_ms fs =
     (if path = []
      then (Status ErrorCode_kPersistenceDirectoryUnavailable ''no snapshot path is configured'', [fs])
      else
        let stamped = contents\<lparr>sc_written_monotonic_ms := now_monotonic_ms\<rparr> in
        case encode_snapshot stamped of
          Inl status \<Rightarrow> (status, [fs])
        | Inr bytes \<Rightarrow> write_all io path bytes fs)"

definition kReadBuffer :: nat where "kReadBuffer = 65536"

function read_file :: "bool \<Rightarrow> u8 list \<Rightarrow> u8 list \<Rightarrow> LoadDisposition + u8 list" where
  "read_file read_error bytes rest =
     (let chunk = take kReadBuffer rest in
      if chunk \<noteq> [] \<and> length bytes + length chunk > kSnapshotBytesMax + kEnvelopeBytes
      then Inl LoadDisposition.kRejectedOversized
      else if length chunk < kReadBuffer
      then (if read_error then Inl LoadDisposition.kRejectedIo else Inr (bytes @ chunk))
      else read_file read_error (bytes @ chunk) (drop kReadBuffer rest))"
  by auto
termination
  by (relation "measure (\<lambda>(_, _, rest). length rest)") (auto simp: kReadBuffer_def)

definition disposition_of :: "Status \<Rightarrow> LoadDisposition" where
  "disposition_of status =
     (if status_code status = ErrorCode_kPersistenceTruncated then LoadDisposition.kRejectedTruncated
      else if status_code status = ErrorCode_kPersistenceIntegrityMismatch then LoadDisposition.kRejectedIntegrity
      else if status_code status = ErrorCode_kPersistenceVersionUnsupported then LoadDisposition.kRejectedVersion
      else if status_code status = ErrorCode_kPersistenceTooLarge then LoadDisposition.kRejectedOversized
      else if status_code status = ErrorCode_kPersistenceImpossibleState then LoadDisposition.kRejectedImpossible
      else LoadDisposition.kRejectedCorrupt)"

definition read_diagnostic :: "LoadDisposition \<Rightarrow> string" where
  "read_diagnostic disposition =
     (if disposition = LoadDisposition.kRejectedOversized then ''snapshot file exceeds the size bound''
      else ''snapshot file could not be read completely'')"

text \<open>The result is the disposition, the diagnostic text and, when loaded, the contents.\<close>

definition store_load :: "Io \<Rightarrow> string \<Rightarrow> FileSystem \<Rightarrow> LoadDisposition \<times> string \<times> SnapshotContents option" where
  "store_load io path fs =
     (if path = [] then (LoadDisposition.kRejectedIo, ''no snapshot path is configured'', None)
      else
        case (if io_open io then fs path else None) of
          None \<Rightarrow> (LoadDisposition.kMissing, ''snapshot file is absent'', None)
        | Some file \<Rightarrow>
            case (case io_read_limit io of None \<Rightarrow> read_file False [] file
                  | Some n \<Rightarrow> read_file True [] (take n file)) of
              Inl disposition \<Rightarrow> (disposition, read_diagnostic disposition, None)
            | Inr bytes \<Rightarrow>
                case decode_snapshot bytes of
                  Inl status \<Rightarrow> (disposition_of status, status_message status, None)
                | Inr contents \<Rightarrow> (LoadDisposition.kLoaded, [], Some contents))"


section \<open>Fields read back\<close>

lemma codec_text:
  assumes "max_bytes < 4294967296"
  shows "decodes (\<lambda>s. length s \<le> max_bytes) (put_text max_bytes) (snap_text max_bytes)"
proof (rule decodes.intro)
  fix s :: string and rest
  assume s: "length s \<le> max_bytes"
  then have "put_text max_bytes s = put_string s" by (simp add: put_text_def put_string_def)
  with s show "snap_text max_bytes (put_text max_bytes s @ rest) = Inr (s, rest)"
    by (simp add: snap_text_def codec.decode_iff [OF codec_string [OF assms]])
qed

interpretation snap_u8: codec "\<lambda>_. True" put_u8 snap_u8
  unfolding snap_u8_def by (rule codec_u8)

interpretation snap_u16: codec "\<lambda>_. True" put_u16 snap_u16
  unfolding snap_u16_def by (rule codec_u16)

interpretation snap_u32: codec "\<lambda>_. True" put_u32 snap_u32
  unfolding snap_u32_def by (rule codec_u32)

interpretation snap_u64: codec "\<lambda>_. True" put_u64 snap_u64
  unfolding snap_u64_def by (rule codec_u64)

interpretation snap_identity: codec "\<lambda>_. True" put_identity snap_identity
  unfolding snap_identity_def by (rule codec_identity)

interpretation snap_boolean: codec "\<lambda>_. True" put_boolean snap_boolean
  unfolding snap_boolean_def by (rule codec_boolean)

interpretation snap_label: decodes "\<lambda>s. length s \<le> kLabelBytesMax" "put_text kLabelBytesMax" "snap_text kLabelBytesMax"
  by (rule codec_text) (simp add: kLabelBytesMax_def)

interpretation snap_key: decodes "\<lambda>s. length s \<le> kMetadataKeyBytesMax"
    "put_text kMetadataKeyBytesMax" "snap_text kMetadataKeyBytesMax"
  by (rule codec_text) (simp add: kMetadataKeyBytesMax_def)

interpretation snap_value: decodes "\<lambda>s. length s \<le> kMetadataValueBytesMax"
    "put_text kMetadataValueBytesMax" "snap_text kMetadataValueBytesMax"
  by (rule codec_text) (simp add: kMetadataValueBytesMax_def)

lemmas snap_enumerations = enumeration_codecs [of "()" "()", folded snap_enumeration_def]

lemmas [read_simps] = snap_u8.then_decode snap_u32.then_decode snap_u64.then_decode snap_identity.then_decode
  snap_boolean.then_decode snap_label.then_decode snap_key.then_decode snap_value.then_decode
  snap_enumerations [THEN codec.axioms(1), THEN decodes.then_decode]

lemma decodes_snap_list:
  assumes "decodes ok enc dec" "max_count < 4294967296"
  shows "decodes (\<lambda>xs. length xs \<le> max_count \<and> list_all ok xs) (put_list enc) (snap_list max_count dec)"
  using decodes_list [OF assms, of "()" "()"] by (simp add: snap_list_def get_list_def snap_count_def)

interpretation snap_phase: decodes "\<lambda>p. length (phase_label p) \<le> kLabelBytesMax" write_phase read_phase
  by unfold_locales (simp add: write_phase_def read_phase_def read_simps)

interpretation snap_step: decodes "\<lambda>_. True" write_step read_step
  by unfold_locales (simp add: write_step_def read_step_def read_simps)

interpretation snap_node: decodes "\<lambda>_. True" write_node read_node
  by unfold_locales (simp add: write_node_def read_node_def read_simps)

interpretation snap_link: decodes "\<lambda>_. True" write_link read_link
  by unfold_locales (simp add: write_link_def read_link_def read_simps)

interpretation snap_class_policy: decodes "\<lambda>_. True" write_class_policy read_class_policy
  by unfold_locales (simp add: write_class_policy_def read_class_policy_def read_simps)

interpretation snap_collective_policy: decodes "\<lambda>_. True" write_collective_policy read_collective_policy
  by unfold_locales (simp add: write_collective_policy_def read_collective_policy_def read_simps)

interpretation snap_participants: decodes "\<lambda>xs. length xs \<le> kParticipantsMaxPerCollective \<and> list_all (\<lambda>_. True) xs"
    "put_list put_identity" "snap_list kParticipantsMaxPerCollective snap_identity"
  by (rule decodes_snap_list [OF snap_identity.decodes_axioms]) (simp add: kParticipantsMaxPerCollective_def)

interpretation snap_phases: decodes "\<lambda>xs. length xs \<le> kPhasesMaxPerCollective \<and>
      list_all (\<lambda>p. length (phase_label p) \<le> kLabelBytesMax) xs"
    "put_list write_phase" "snap_list kPhasesMaxPerCollective read_phase"
  by (rule decodes_snap_list [OF snap_phase.decodes_axioms]) (simp add: kPhasesMaxPerCollective_def)

interpretation snap_steps: decodes "\<lambda>xs. length xs \<le> kPhasesMaxPerCollective * kStepsMaxPerPhase \<and> list_all (\<lambda>_. True) xs"
    "put_list write_step" "snap_list (kPhasesMaxPerCollective * kStepsMaxPerPhase) read_step"
  by (rule decodes_snap_list [OF snap_step.decodes_axioms]) (simp add: kPhasesMaxPerCollective_def kStepsMaxPerPhase_def)

interpretation snap_nodes: decodes "\<lambda>xs. length xs \<le> kTopologyNodesMax \<and> list_all (\<lambda>_. True) xs"
    "put_list write_node" "snap_list kTopologyNodesMax read_node"
  by (rule decodes_snap_list [OF snap_node.decodes_axioms]) (simp add: kTopologyNodesMax_def)

interpretation snap_links: decodes "\<lambda>xs. length xs \<le> kTopologyLinksMax \<and> list_all (\<lambda>_. True) xs"
    "put_list write_link" "snap_list kTopologyLinksMax read_link"
  by (rule decodes_snap_list [OF snap_link.decodes_axioms]) (simp add: kTopologyLinksMax_def)

interpretation snap_class_policies: decodes "\<lambda>xs. length xs \<le> 16 \<and> list_all (\<lambda>_. True) xs"
    "put_list write_class_policy" "snap_list 16 read_class_policy"
  by (rule decodes_snap_list [OF snap_class_policy.decodes_axioms]) simp

interpretation snap_collective_policies: decodes "\<lambda>xs. length xs \<le> 16 \<and> list_all (\<lambda>_. True) xs"
    "put_list write_collective_policy" "snap_list 16 read_collective_policy"
  by (rule decodes_snap_list [OF snap_collective_policy.decodes_axioms]) simp

lemmas [read_simps] = snap_participants.then_decode snap_phases.then_decode snap_steps.then_decode
  snap_nodes.then_decode snap_links.then_decode snap_class_policies.then_decode snap_collective_policies.then_decode


section \<open>Sections read back\<close>

lemma metadata_set_new:
  assumes "metadata_wf (m @ (k, v) # rest)"
  shows "metadata_set k v m = (True, m @ [(k, v)])"
proof -
  have "metadata_replace k v m = None" using assms by (auto simp: metadata_wf_def metadata_replace_None)
  then show ?thesis using assms by (auto simp: metadata_wf_def metadata_set_def)
qed

lemma read_metadata_entries_decodes:
  "metadata_wf (m @ entries) \<Longrightarrow>
   read_metadata_entries (length entries) m
     (concat (map (\<lambda>entry. put_text kMetadataKeyBytesMax (fst entry) @ put_text kMetadataValueBytesMax (snd entry)) entries)
      @ rest) = Inr (m @ entries, rest)"
proof (induction entries arbitrary: m)
  case (Cons entry entries)
  obtain k v where entry: "entry = (k, v)" by (cases entry)
  then have "length k \<le> kMetadataKeyBytesMax" "length v \<le> kMetadataValueBytesMax"
    using Cons.prems by (auto simp: metadata_wf_def)
  with Cons.prems Cons.IH [of "m @ [entry]"] metadata_set_new [of m k v entries] show ?case
    by (simp add: entry read_simps)
qed (simp add: yield_def)

interpretation snap_metadata: decodes metadata_wf write_metadata read_metadata
proof
  fix m rest assume wf: "metadata_wf m"
  have "decodes (\<lambda>n. n \<le> kMetadataEntriesMax) (\<lambda>n. put_u32 (of_nat n)) (snap_count kMetadataEntriesMax)"
    unfolding snap_count_def by (rule codec.axioms(1), rule codec_count) (simp add: kMetadataEntriesMax_def)
  note count = decodes.then_decode [OF this]
  show "read_metadata (write_metadata m @ rest) = Inr (m, rest)"
    using wf read_metadata_entries_decodes [of "[]" m rest]
    by (simp add: read_metadata_def write_metadata_def put_list_def metadata_wf_def count)
qed

interpretation snap_response: decodes response_wf write_response read_response
proof
  fix t :: CongestionResponseTable and rest
  assume wf: "response_wf t"
  define pairs where "pairs = map (\<lambda>i. (crt_utilization_bps t ! i, crt_rate_numerator_per_mille t ! i)) [0..<kBucketCount]"
  have "decodes (\<lambda>_. True) (\<lambda>(u, r). put_u32 u @ put_u32 r)
      (then_read snap_u32 (\<lambda>utilization. then_read snap_u32 (\<lambda>rate. yield (utilization, rate))))"
    by unfold_locales (auto simp: read_simps)
  from decodes.many_decodes [OF this, of pairs rest]
  have "read_many kBucketCount
      (then_read snap_u32 (\<lambda>utilization. then_read snap_u32 (\<lambda>rate. yield (utilization, rate))))
      (write_response t @ rest) = Inr (pairs, rest)"
    by (simp add: pairs_def write_response_def comp_def list_all_iff)
  moreover have "map fst pairs = crt_utilization_bps t" "map snd pairs = crt_rate_numerator_per_mille t"
    using wf by (auto simp: pairs_def response_wf_def intro: nth_equalityI)
  ultimately show "read_response (write_response t @ rest) = Inr (t, rest)"
    by (simp add: read_response_def then_read_def yield_def)
qed

lemmas [read_simps] = snap_metadata.then_decode snap_response.then_decode

text \<open>What the C++ types and the validation of a definition guarantee of its size.\<close>

definition definition_fits :: "CollectiveDefinition \<Rightarrow> bool" where
  "definition_fits d \<longleftrightarrow>
     length (def_label d) \<le> kLabelBytesMax \<and> length (def_participants d) \<le> kParticipantsMaxPerCollective \<and>
     length (def_phases d) \<le> kPhasesMaxPerCollective \<and>
     list_all (\<lambda>p. length (phase_label p) \<le> kLabelBytesMax) (def_phases d) \<and>
     length (def_steps d) \<le> kPhasesMaxPerCollective * kStepsMaxPerPhase \<and> metadata_wf (def_metadata d)"

definition policy_fits :: "TrafficPolicy \<Rightarrow> bool" where
  "policy_fits p \<longleftrightarrow> response_wf (pol_congestion_response p) \<and>
     length (pol_class_policies p) \<le> 16 \<and> length (pol_collective_policies p) \<le> 16"

definition topology_fits :: "TopologyEvidence \<Rightarrow> bool" where
  "topology_fits t \<longleftrightarrow> length (topo_nodes t) \<le> kTopologyNodesMax \<and> length (topo_links t) \<le> kTopologyLinksMax"

interpretation snap_definition: decodes definition_fits write_definition read_definition
  by unfold_locales (simp add: definition_fits_def write_definition_def read_definition_def read_simps list_all_iff)

lemmas [read_simps] = snap_definition.then_decode

interpretation snap_record: decodes "\<lambda>r. definition_fits (crec_definition r)" write_record read_record
  by unfold_locales (simp add: write_record_def read_record_def read_simps)

interpretation snap_topology: decodes topology_fits write_topology read_topology
  by unfold_locales (simp add: topology_fits_def write_topology_def read_topology_def read_simps list_all_iff)

interpretation snap_policy: decodes policy_fits write_policy read_policy
  by unfold_locales (simp add: policy_fits_def write_policy_def read_policy_def read_simps list_all_iff)

lemma check_entries_all:
  "is_ok (check_entries check previous xs) \<Longrightarrow> (\<And>p x. is_ok (check p x) \<Longrightarrow> good x) \<Longrightarrow> list_all good xs"
  by (induction check previous xs rule: check_entries.induct) (auto simp: Let_def split: if_splits)

lemma valid_definition_fits:
  assumes "is_ok (validate_definition d)" "metadata_wf (def_metadata d)"
  shows "definition_fits d"
proof -
  have "is_ok (check_entries check_phase None (def_phases d))"
    using assms(1) by (auto simp: validate_definition_def Let_def split: if_splits)
  then have "list_all (\<lambda>p. length (phase_label p) \<le> kLabelBytesMax) (def_phases d)"
    by (rule check_entries_all) (auto simp: check_phase_def split: if_splits)
  then show ?thesis
    using assms by (auto simp: validate_definition_def definition_fits_def Let_def split: if_splits)
qed

lemma valid_topology_fits: "is_ok (topology_validate t) \<Longrightarrow> topology_fits t"
  by (auto simp: topology_validate_def topology_fits_def Let_def split: if_splits)

lemma valid_policy_fits:
  "is_ok (policy_validate p) \<Longrightarrow> response_wf (pol_congestion_response p) \<Longrightarrow> policy_fits p"
  by (auto simp: policy_validate_def policy_fits_def Let_def split: if_splits)


section \<open>Snapshots read back\<close>

lemma decodes_or_status: "decodes ok enc dec \<Longrightarrow> decodes ok enc (or_status st dec)"
  by (simp add: decodes_def or_status_def)

lemmas [read_simps] =
  decodes.then_decode [OF decodes_or_status [OF snap_u32.decodes_axioms]]
  decodes.then_decode [OF decodes_or_status [OF snap_u64.decodes_axioms]]
  decodes.then_decode [OF decodes_or_status [OF snap_identity.decodes_axioms]]
  decodes.then_decode [OF decodes_or_status [OF snap_boolean.decodes_axioms]]
  decodes.then_decode [OF decodes_or_status [OF snap_topology.decodes_axioms]]
  decodes.then_decode [OF decodes_or_status [OF snap_policy.decodes_axioms]]

definition contents_ok :: "SnapshotContents \<Rightarrow> bool" where
  "contents_ok c \<longleftrightarrow>
     (let a = sc_authority c in
      sc_format_version c = kSnapshotFormatVersion \<and> durable_ok a \<and>
      (if is_some (da_policy_generation a) then response_wf (pol_congestion_response (da_policy a))
       else da_policy a = TrafficPolicy_default) \<and>
      (is_none (da_topology_generation a) \<longrightarrow> da_topology a = TopologyEvidence_default) \<and>
      list_all (\<lambda>r. definition_fits (crec_definition r)) (sc_records c))"

lemma read_records_back:
  assumes "length records \<le> kSnapshotCollectivesMax" "list_all (\<lambda>r. definition_fits (crec_definition r)) records"
  shows "read_snapshot_records (put_list write_record records @ rest) = Inr (records, rest)"
proof -
  have "decodes (\<lambda>n. n \<le> kSnapshotCollectivesMax) (\<lambda>n. put_u32 (of_nat n)) (snap_count kSnapshotCollectivesMax)"
    unfolding snap_count_def by (rule codec.axioms(1), rule codec_count) (simp add: kSnapshotCollectivesMax_def)
  note count = decodes.then_decode [OF decodes_or_status [OF this]]
  show ?thesis
    using assms snap_record.many_decodes [of records rest]
    by (simp add: read_snapshot_records_def put_list_def count) (simp add: or_status_def)
qed

lemma read_payload_back:
  assumes "contents_ok c" "length (sc_records c) \<le> kSnapshotCollectivesMax"
  shows "read_snapshot_payload (sc_written_monotonic_ms c) (snapshot_payload c) = Inr (c, [])"
proof -
  let ?a = "sc_authority c"
  have topology: "then_read (read_snapshot_topology (da_topology_generation ?a) (is_some (da_topology_generation ?a))) f
      ((if is_some (da_topology_generation ?a) then write_topology (da_topology ?a) else []) @ rest) =
      f (da_topology ?a) rest" for f :: "_ \<Rightarrow> (Status, SnapshotContents) reader" and rest
    using assms(1)
    by (simp add: read_snapshot_topology_def contents_ok_def durable_ok_def Let_def is_some_def read_simps
        valid_topology_fits then_read_def [of "then_read p q" for p q] then_read_def [of "yield v" for v])
  have policy: "then_read (read_snapshot_policy (da_policy_generation ?a) (is_some (da_policy_generation ?a))) f
      ((if is_some (da_policy_generation ?a) then write_policy (da_policy ?a) else []) @ rest) =
      f (da_policy ?a) rest" for f :: "_ \<Rightarrow> (Status, SnapshotContents) reader" and rest
    using assms(1)
    by (simp add: read_snapshot_policy_def contents_ok_def durable_ok_def Let_def is_some_def read_simps
        valid_policy_fits then_read_def [of "then_read p q" for p q] then_read_def [of "yield v" for v])
  have records: "then_read read_snapshot_records f (put_list write_record (sc_records c)) = f (sc_records c) []"
    for f :: "_ \<Rightarrow> (Status, SnapshotContents) reader"
    using read_records_back [of "sc_records c" "[]"] assms by (simp add: then_read_def contents_ok_def Let_def)
  show ?thesis
    using assms(1)
    by (simp add: read_snapshot_payload_def snapshot_payload_def Let_def read_simps topology policy records)
      (auto simp: contents_ok_def durable_ok_def Let_def is_some_def yield_def)
qed

lemmas [codec_simps] = snap_u8.decode_iff snap_u16.decode_iff snap_u32.decode_iff snap_u64.decode_iff
  snap_identity.decode_iff snap_boolean.decode_iff

lemma concat_put_u8 [simp]: "concat (map put_u8 bs) = bs"
  by (induction bs) (simp_all add: put_u8_def)

lemma length_snapshot_envelope [simp]: "length (snapshot_envelope written payload) = kEnvelopeBytes"
  by (simp add: snapshot_envelope_def kEnvelopeBytes_def)

lemma read_envelope_iff:
  "read_envelope bs = Inr ((magic, version, payload_bytes, payload_crc, written), rest) \<longleftrightarrow>
   bs = put_u32 magic @ put_u32 version @ put_u64 payload_bytes @ put_u32 payload_crc @ put_u64 written @ rest"
  by (auto simp: read_envelope_def codec_simps)

lemma read_digest_iff:
  "read_many n snap_u8 bs = Inr (digest, rest) \<longleftrightarrow> length digest = n \<and> bs = digest @ rest"
  using snap_u8.many_strict [of n bs digest rest] snap_u8.many_decodes [of digest rest]
  by (auto simp: list_all_iff)

lemma snapshot_payload_written:
  assumes "read_snapshot_payload written payload = Inr (c, rest)"
  shows "sc_written_monotonic_ms c = written \<and>
    (\<exists>tail. payload = put_u32 kSnapshotFormatVersion @ put_u64 written @ tail)"
proof -
  have or: "or_status st p bs = Inr r \<longleftrightarrow> p bs = Inr r" for st and p :: "(unit, 'a) reader" and bs r
    by (cases "p bs") (simp_all add: or_status_def)
  show ?thesis
    using assms unfolding read_snapshot_payload_def
    by (simp add: codec_simps or) (auto split: if_splits simp: fail_def codec_simps)
qed

lemma snapshot_size: "n \<le> kSnapshotBytesMax \<Longrightarrow> unat (of_nat n :: u64) = n"
  by (simp add: kSnapshotBytesMax_def unat_of_nat)

lemma decode_snapshot_shape:
  assumes "decode_snapshot bytes = Inr c"
  shows "\<exists>tail payload. payload = put_u32 kSnapshotFormatVersion @ put_u64 (sc_written_monotonic_ms c) @ tail \<and>
    bytes = snapshot_envelope (sc_written_monotonic_ms c) payload @ payload \<and> length payload \<le> kSnapshotBytesMax"
proof -
  define payload where "payload = drop kEnvelopeBytes bytes"
  obtain magic version payload_bytes payload_crc written envelope digest rest where
    env: "read_envelope (take kEnvelopeBytes bytes) = Inr ((magic, version, payload_bytes, payload_crc, written), envelope)"
    and fields: "magic = kEnvelopeMagic" "version = kSnapshotFormatVersion" "unat payload_bytes = length payload"
      "crc32 payload = payload_crc" "length payload \<le> kSnapshotBytesMax" "\<not> length bytes < kEnvelopeBytes"
    and digest: "read_many kDigestBytes snap_u8 envelope = Inr (digest_payload payload, digest)"
    and body: "read_snapshot_payload written payload = Inr (c, rest)"
    using assms unfolding decode_snapshot_def payload_def
    by (auto simp: Let_def split: if_splits sum.splits prod.splits)
  have count: "payload_bytes = of_nat (length payload)" using fields(3) [symmetric] by simp
  have parts: "take kEnvelopeBytes bytes = put_u32 kEnvelopeMagic @ put_u32 kSnapshotFormatVersion @
      put_u64 (of_nat (length payload)) @ put_u32 (crc32 payload) @ put_u64 written @ digest_payload payload @ digest"
    using env digest fields(1,2,4) count by (simp add: read_envelope_iff read_digest_iff)
  have "length digest = 0" using arg_cong [OF parts, of length] fields(6) by (simp add: kEnvelopeBytes_def)
  with parts have "take kEnvelopeBytes bytes = snapshot_envelope written payload" by (simp add: snapshot_envelope_def)
  then have "bytes = snapshot_envelope written payload @ payload" unfolding payload_def by (metis append_take_drop_id)
  with snapshot_payload_written [OF body] fields(5) show ?thesis by blast
qed

lemma encode_snapshot_shape:
  assumes "encode_snapshot c = Inr bytes"
  shows "bytes = snapshot_envelope (sc_written_monotonic_ms c) (snapshot_payload c) @ snapshot_payload c"
    and "length (snapshot_payload c) \<le> kSnapshotBytesMax" and "length (sc_records c) \<le> kSnapshotCollectivesMax"
  using assms by (auto simp: encode_snapshot_def Let_def split: if_splits)

lemma decode_encode_snapshot:
  assumes "contents_ok c" "encode_snapshot c = Inr bytes"
  shows "decode_snapshot bytes = Inr c"
proof -
  note shape = encode_snapshot_shape [OF assms(2)]
  let ?p = "snapshot_payload c"
  have "read_envelope (snapshot_envelope (sc_written_monotonic_ms c) ?p) =
    Inr ((kEnvelopeMagic, kSnapshotFormatVersion, of_nat (length ?p), crc32 ?p, sc_written_monotonic_ms c), digest_payload ?p)"
    by (simp add: read_envelope_iff snapshot_envelope_def)
  moreover have "read_many kDigestBytes snap_u8 (digest_payload ?p) = Inr (digest_payload ?p, [])"
    by (simp add: read_digest_iff kDigestBytes_def)
  ultimately show ?thesis
    using shape(2) read_payload_back [OF assms(1) shape(3)]
    by (simp add: shape(1) decode_snapshot_def snapshot_size)
qed

text \<open>Two intact files of the same length that differ only within four consecutive bytes are equal.\<close>

lemma snapshot_files_equal:
  assumes p: "p = put_u32 kSnapshotFormatVersion @ put_u64 a @ p'" and q: "q = put_u32 kSnapshotFormatVersion @ put_u64 b @ q'"
    and x: "snapshot_envelope a p @ p = xs @ u @ ys" and y: "snapshot_envelope b q @ q = xs @ w @ ys"
    and len: "length u = length w" "length u \<le> 4"
  shows "u = w"
proof -
  have same: "u = w" if "p = q"
  proof -
    have "put_u64 a @ p' = put_u64 b @ q'" using that p q by simp
    then have "a = b" using snap_u64.encode_inj [OF TrueI TrueI] by blast
    with that have "xs @ u @ ys = xs @ w @ ys" using x y by simp
    then show ?thesis by simp
  qed
  show ?thesis
  proof (cases "length xs + length u \<le> kEnvelopeBytes")
    case True
    then have "p = q"
      using arg_cong [OF x, of "drop kEnvelopeBytes"] arg_cong [OF y, of "drop kEnvelopeBytes"] len by simp
    then show ?thesis by (rule same)
  next
    case False
    define k where "k = kEnvelopeBytes - length xs"
    have pq: "p = drop kEnvelopeBytes xs @ drop k u @ ys" "q = drop kEnvelopeBytes xs @ drop k w @ ys"
      using arg_cong [OF x, of "drop kEnvelopeBytes"] arg_cong [OF y, of "drop kEnvelopeBytes"] False len
      by (simp_all add: k_def)
    have lpq: "length p = length q" using pq len by simp
    have xs: "20 \<le> length xs" using False len by (simp add: kEnvelopeBytes_def)
    have crc: "take 20 (snapshot_envelope a p @ p) = put_u32 kEnvelopeMagic @ put_u32 kSnapshotFormatVersion @
        put_u64 (of_nat (length p)) @ put_u32 (crc32 p)" for a p
      by (simp add: snapshot_envelope_def)
    have "take 20 (snapshot_envelope a p @ p) = take 20 (snapshot_envelope b q @ q)"
      using xs unfolding x y by simp
    then have "put_u32 (crc32 p) = put_u32 (crc32 q)" unfolding crc lpq by simp
    then have "crc32 p = crc32 q" using snap_u32.encode_inj [OF TrueI TrueI, of "crc32 p" "[]" "crc32 q" "[]"] by simp
    then have "drop k u = drop k w"
      using crc32_burst_differs [of "drop k u" "drop k w" "drop kEnvelopeBytes xs" ys] len unfolding pq by fastforce
    then show ?thesis using pq by (intro same) simp
  qed
qed


section \<open>The store\<close>

declare read_file.simps [simp del]

lemma read_file_whole:
  "length bytes \<le> kSnapshotBytesMax + kEnvelopeBytes \<Longrightarrow>
   read_file False bytes rest =
     (if length bytes + length rest > kSnapshotBytesMax + kEnvelopeBytes then Inl LoadDisposition.kRejectedOversized
      else Inr (bytes @ rest))"
proof (induction "False" bytes rest rule: read_file.induct)
  case (1 bytes rest)
  show ?case
  proof (cases "length rest < kReadBuffer")
    case True
    then show ?thesis using "1.prems" by (auto simp: read_file.simps [of False bytes rest] Let_def)
  next
    case False
    then have "length (take kReadBuffer rest) = kReadBuffer" "take kReadBuffer rest \<noteq> []"
      by (auto simp: kReadBuffer_def)
    with "1.hyps" [OF refl] False show ?thesis
      by (auto simp: read_file.simps [of False bytes rest] Let_def)
  qed
qed

lemma store_load_intact:
  assumes "io_open io" "io_read_limit io = None" "path \<noteq> []" "fs path = Some bytes" "decode_snapshot bytes = Inr c"
  shows "store_load io path fs = (LoadDisposition.kLoaded, [], Some c)"
proof -
  have "length bytes \<le> kSnapshotBytesMax + kEnvelopeBytes"
    using assms(5) by (auto simp: decode_snapshot_def split: if_splits)
  then show ?thesis using assms read_file_whole [of "[]" bytes] by (simp add: store_load_def)
qed

lemma write_all_states:
  assumes "write_all io path bytes fs = (status, states)"
  shows "states \<noteq> []" and "s \<in> set states \<Longrightarrow> s path = fs path \<or> s path = Some bytes"
    and "last states path = (if is_ok status then Some bytes else fs path)"
  using assms by (auto simp: write_all_def Let_def split: if_splits)

lemma save_states:
  assumes "store_save io path c now fs = (status, states)"
  shows "states \<noteq> []"
    and "s \<in> set states \<Longrightarrow> s path = fs path \<or>
      (\<exists>bytes. encode_snapshot (c\<lparr>sc_written_monotonic_ms := now\<rparr>) = Inr bytes \<and> s path = Some bytes)"
    and "is_ok status \<Longrightarrow> \<exists>bytes. path \<noteq> [] \<and> encode_snapshot (c\<lparr>sc_written_monotonic_ms := now\<rparr>) = Inr bytes \<and>
      last states path = Some bytes"
    and "\<not> is_ok status \<Longrightarrow> last states path = fs path"
proof -
  have bad: "encode_snapshot d = Inl st \<Longrightarrow> \<not> is_ok st" for d st
    by (auto simp: encode_snapshot_def Let_def split: if_splits)
  have "states \<noteq> [] \<and> (s \<in> set states \<longrightarrow> s path = fs path \<or>
      (\<exists>bytes. encode_snapshot (c\<lparr>sc_written_monotonic_ms := now\<rparr>) = Inr bytes \<and> s path = Some bytes)) \<and>
    (is_ok status \<longrightarrow> (\<exists>bytes. path \<noteq> [] \<and> encode_snapshot (c\<lparr>sc_written_monotonic_ms := now\<rparr>) = Inr bytes \<and>
      last states path = Some bytes)) \<and> (\<not> is_ok status \<longrightarrow> last states path = fs path)"
  proof (cases "path = []")
    case True
    then show ?thesis using assms by (auto simp: store_save_def)
  next
    case False
    show ?thesis
    proof (cases "encode_snapshot (c\<lparr>sc_written_monotonic_ms := now\<rparr>)")
      case (Inl st)
      then show ?thesis using assms False bad by (auto simp: store_save_def)
    next
      case (Inr bytes)
      then have "write_all io path bytes fs = (status, states)" using assms False by (simp add: store_save_def)
      from write_all_states [OF this] show ?thesis using False by (auto simp: Inr)
    qed
  qed
  then show "states \<noteq> []"
    and "s \<in> set states \<Longrightarrow> s path = fs path \<or>
      (\<exists>bytes. encode_snapshot (c\<lparr>sc_written_monotonic_ms := now\<rparr>) = Inr bytes \<and> s path = Some bytes)"
    and "is_ok status \<Longrightarrow> \<exists>bytes. path \<noteq> [] \<and> encode_snapshot (c\<lparr>sc_written_monotonic_ms := now\<rparr>) = Inr bytes \<and>
      last states path = Some bytes"
    and "\<not> is_ok status \<Longrightarrow> last states path = fs path"
    by blast+
qed

lemma contents_ok_stamped: "contents_ok (c\<lparr>sc_written_monotonic_ms := now\<rparr>) = contents_ok c"
  by (simp add: contents_ok_def)

lemma burst_refused:
  assumes "encode_snapshot c = Inr (xs @ u @ ys)" "length u = length w" "length u \<le> 4" "u \<noteq> w"
  shows "\<exists>status. decode_snapshot (xs @ w @ ys) = Inl status"
proof (cases "decode_snapshot (xs @ w @ ys)")
  case (Inr c')
  note shape = encode_snapshot_shape [OF assms(1)]
  obtain tail where tail:
    "snapshot_payload c = put_u32 kSnapshotFormatVersion @ put_u64 (sc_written_monotonic_ms c) @ tail"
    by (auto simp: snapshot_payload_def Let_def)
  from decode_snapshot_shape [OF Inr] obtain t p where
    "p = put_u32 kSnapshotFormatVersion @ put_u64 (sc_written_monotonic_ms c') @ t"
    "snapshot_envelope (sc_written_monotonic_ms c') p @ p = xs @ w @ ys" by metis
  with snapshot_files_equal [OF tail this(1) shape(1) [symmetric] this(2)] assms show ?thesis by simp
qed blast

lemma truncation_refused:
  assumes "encode_snapshot c = Inr bytes" "k < length bytes"
  shows "\<exists>status. decode_snapshot (take k bytes) = Inl status"
proof (cases "decode_snapshot (take k bytes)")
  case (Inr c')
  note shape = encode_snapshot_shape [OF assms(1)]
  from decode_snapshot_shape [OF Inr] obtain p where
    p: "take k bytes = snapshot_envelope (sc_written_monotonic_ms c') p @ p" "length p \<le> kSnapshotBytesMax" by metis
  have len: "k = kEnvelopeBytes + length p" using arg_cong [OF p(1), of length] assms(2) by simp
  have "take 16 (take k bytes) = take 16 bytes" by (simp add: len kEnvelopeBytes_def min_def)
  then have "put_u64 (of_nat (length p)) = put_u64 (of_nat (length (snapshot_payload c)))"
    unfolding p(1) by (simp add: shape(1) snapshot_envelope_def)
  then have "(of_nat (length p) :: u64) = of_nat (length (snapshot_payload c))"
    using snap_u64.encode_inj [OF TrueI TrueI, of _ "[]" _ "[]"] by simp
  then have "length p = length (snapshot_payload c)" using snapshot_size p(2) shape(2) by metis
  with len assms(2) show ?thesis by (simp add: shape(1))
qed blast

text \<open>An empty coordinator as an example.\<close>

definition sample_contents :: SnapshotContents where
  "sample_contents =
     \<lparr>sc_format_version = kSnapshotFormatVersion, sc_written_monotonic_ms = 7,
      sc_authority = \<lparr>da_last_epoch = Identity 3 4, da_policy_generation = no_identity,
        da_topology_generation = no_identity, da_topology = TopologyEvidence_default,
        da_policy = TrafficPolicy_default, da_restart_count = 0\<rparr>,
      sc_records = []\<rparr>"

lemma sample_contents_ok: "contents_ok sample_contents"
  by (simp add: contents_ok_def sample_contents_def durable_ok_def is_some_def is_none_def no_identity_def)

lemma sample_contents_encodes:
  "encode_snapshot sample_contents = Inr (snapshot_envelope 7 (snapshot_payload sample_contents) @ snapshot_payload sample_contents)"
  by (simp add: encode_snapshot_def Let_def sample_contents_def snapshot_payload_def put_list_def is_some_def is_none_def
      no_identity_def kSnapshotBytesMax_def)


section \<open>Properties of snapshots\<close>

text \<open>
  C24: A snapshot round-trips. Whatever durable state the coordinator holds (a valid policy and
  topology or none, records whose definitions are within the bounds of the catalog), if it is within the
  size bounds of the format then it can be encoded, and decoding the bytes yields exactly it.
\<close>

theorem snapshot_roundtrip:
  assumes "contents_ok c" "is_ok (check_records (sc_records c))"
    and "length (sc_records c) \<le> kSnapshotCollectivesMax" "length (snapshot_payload c) \<le> kSnapshotBytesMax"
  shows "\<exists>bytes. encode_snapshot c = Inr bytes \<and> decode_snapshot bytes = Inr c"
proof -
  have "encode_snapshot c = Inr (snapshot_envelope (sc_written_monotonic_ms c) (snapshot_payload c) @ snapshot_payload c)"
    using assms by (auto simp: encode_snapshot_def contents_ok_def durable_ok_def Let_def)
  with decode_encode_snapshot [OF assms(1)] show ?thesis by blast
qed

theorem snapshot_roundtrip_witness:
  "\<exists>bytes. encode_snapshot sample_contents = Inr bytes \<and> decode_snapshot bytes = Inr sample_contents"
  by (rule snapshot_roundtrip [OF sample_contents_ok])
    (simp_all add: sample_contents_def snapshot_payload_def put_list_def Let_def is_some_def is_none_def
      no_identity_def kSnapshotBytesMax_def)

text \<open>
  C21: A damaged snapshot is never loaded. Whatever up to four consecutive bytes of an encoded
  snapshot are overwritten with, wherever they are (magic, version, length, checksum, time stamp, digest
  or payload), and wherever the file is cut off, decoding is refused.
\<close>

theorem snapshot_damage_refused:
  assumes "encode_snapshot c = Inr bytes"
  shows "(\<forall>xs u w ys. bytes = xs @ u @ ys \<and> length u = length w \<and> length u \<le> 4 \<and> u \<noteq> w \<longrightarrow>
      (\<exists>status. decode_snapshot (xs @ w @ ys) = Inl status)) \<and>
    (\<forall>k<length bytes. \<exists>status. decode_snapshot (take k bytes) = Inl status)"
  using assms burst_refused truncation_refused by blast

theorem snapshot_damage_refused_witness:
  "\<exists>status. decode_snapshot (snapshot_envelope 7 (snapshot_payload sample_contents) @
     0 # tl (snapshot_payload sample_contents)) = Inl status"
proof -
  have "hd (snapshot_payload sample_contents) = 1" "snapshot_payload sample_contents \<noteq> []"
    by (simp_all add: snapshot_payload_def Let_def put_u32_def put_bytes_def kSnapshotFormatVersion_def upt_rec)
  then have payload: "snapshot_payload sample_contents = [1] @ tl (snapshot_payload sample_contents)"
    by (metis append_Cons append_Nil list.collapse)
  note refused = snapshot_damage_refused [OF sample_contents_encodes, THEN conjunct1, rule_format,
      of "snapshot_envelope 7 (snapshot_payload sample_contents)" "[1]" "tl (snapshot_payload sample_contents)" "[0]"]
  show ?thesis using refused payload by simp
qed



end
