(* ===== verification/CTF_Frame.thy ===== *)
theory CTF_Frame
  imports CTF_Checksum
begin

unbundle bit_operations_syntax

text \<open>
  The framing layer of the wire protocol (the first part of \<^verbatim>\<open>protocol.hpp\<close> and
  \<^verbatim>\<open>protocol.cpp\<close>): message kinds, the 44-byte header with its two checksums, the 48-byte
  envelope, and the encoder and decoder of one frame. The decoder is proved to be the exact
  inverse of the encoder, for a frame at the front of any buffer.
\<close>


section \<open>Definitions\<close>

datatype MessageKind =
    kInvalid
  | kHello
  | kHelloAck
  | kHeartbeat
  | kHeartbeatAck
  | kRegisterCollective
  | kRegisterAck
  | kBeginAttempt
  | kAttemptAck
  | kPlanFlowGroup
  | kFlowGroupDecision
  | kCancelCollective
  | kRetireCollective
  | kLifecycleAck
  | kIngestEvidence
  | kEvidenceAck
  | kInspectRequest
  | kInspectResponse
  | kExplainRequest
  | kExplainResponse
  | kErrorResponse
  | kInstallPolicy
  | kInstallPolicyAck
  | kShutdown
  | kShutdownAck
  | kKindCount

primrec MessageKind_value :: "MessageKind \<Rightarrow> u16" where
  "MessageKind_value MessageKind.kInvalid = 0"
| "MessageKind_value MessageKind.kHello = 1"
| "MessageKind_value MessageKind.kHelloAck = 2"
| "MessageKind_value MessageKind.kHeartbeat = 3"
| "MessageKind_value MessageKind.kHeartbeatAck = 22"
| "MessageKind_value MessageKind.kRegisterCollective = 4"
| "MessageKind_value MessageKind.kRegisterAck = 5"
| "MessageKind_value MessageKind.kBeginAttempt = 6"
| "MessageKind_value MessageKind.kAttemptAck = 7"
| "MessageKind_value MessageKind.kPlanFlowGroup = 8"
| "MessageKind_value MessageKind.kFlowGroupDecision = 9"
| "MessageKind_value MessageKind.kCancelCollective = 10"
| "MessageKind_value MessageKind.kRetireCollective = 11"
| "MessageKind_value MessageKind.kLifecycleAck = 12"
| "MessageKind_value MessageKind.kIngestEvidence = 13"
| "MessageKind_value MessageKind.kEvidenceAck = 14"
| "MessageKind_value MessageKind.kInspectRequest = 15"
| "MessageKind_value MessageKind.kInspectResponse = 16"
| "MessageKind_value MessageKind.kExplainRequest = 17"
| "MessageKind_value MessageKind.kExplainResponse = 18"
| "MessageKind_value MessageKind.kErrorResponse = 19"
| "MessageKind_value MessageKind.kInstallPolicy = 20"
| "MessageKind_value MessageKind.kInstallPolicyAck = 21"
| "MessageKind_value MessageKind.kShutdown = 23"
| "MessageKind_value MessageKind.kShutdownAck = 24"
| "MessageKind_value MessageKind.kKindCount = 25"

primrec MessageKind_to_string :: "MessageKind \<Rightarrow> string" where
  "MessageKind_to_string MessageKind.kInvalid = ''invalid''"
| "MessageKind_to_string MessageKind.kHello = ''hello''"
| "MessageKind_to_string MessageKind.kHelloAck = ''hello_ack''"
| "MessageKind_to_string MessageKind.kHeartbeat = ''heartbeat''"
| "MessageKind_to_string MessageKind.kHeartbeatAck = ''heartbeat_ack''"
| "MessageKind_to_string MessageKind.kRegisterCollective = ''register_collective''"
| "MessageKind_to_string MessageKind.kRegisterAck = ''register_ack''"
| "MessageKind_to_string MessageKind.kBeginAttempt = ''begin_attempt''"
| "MessageKind_to_string MessageKind.kAttemptAck = ''attempt_ack''"
| "MessageKind_to_string MessageKind.kPlanFlowGroup = ''plan_flow_group''"
| "MessageKind_to_string MessageKind.kFlowGroupDecision = ''flow_group_decision''"
| "MessageKind_to_string MessageKind.kCancelCollective = ''cancel_collective''"
| "MessageKind_to_string MessageKind.kRetireCollective = ''retire_collective''"
| "MessageKind_to_string MessageKind.kLifecycleAck = ''lifecycle_ack''"
| "MessageKind_to_string MessageKind.kIngestEvidence = ''ingest_evidence''"
| "MessageKind_to_string MessageKind.kEvidenceAck = ''evidence_ack''"
| "MessageKind_to_string MessageKind.kInspectRequest = ''inspect_request''"
| "MessageKind_to_string MessageKind.kInspectResponse = ''inspect_response''"
| "MessageKind_to_string MessageKind.kExplainRequest = ''explain_request''"
| "MessageKind_to_string MessageKind.kExplainResponse = ''explain_response''"
| "MessageKind_to_string MessageKind.kErrorResponse = ''error_response''"
| "MessageKind_to_string MessageKind.kInstallPolicy = ''install_policy''"
| "MessageKind_to_string MessageKind.kInstallPolicyAck = ''install_policy_ack''"
| "MessageKind_to_string MessageKind.kShutdown = ''shutdown''"
| "MessageKind_to_string MessageKind.kShutdownAck = ''shutdown_ack''"
| "MessageKind_to_string MessageKind.kKindCount = ''kind_count''"

definition message_kind_is_known :: "u16 \<Rightarrow> bool" where
  "message_kind_is_known raw \<longleftrightarrow> raw > 0 \<and> raw < MessageKind_value MessageKind.kKindCount"

definition kFrameMagic :: u32 where "kFrameMagic = 0x46544331"
definition kHeaderBytes :: nat where "kHeaderBytes = 44"
definition kFrameEnvelopeBytes :: nat where "kFrameEnvelopeBytes = 48"
definition kProtocolMajor :: u16 where "kProtocolMajor = 1"
definition kProtocolMinor :: u16 where "kProtocolMinor = 0"
definition kFlagRequest :: u16 where "kFlagRequest = 0x0001"
definition kFlagResponse :: u16 where "kFlagResponse = 0x0002"
definition kFlagFinal :: u16 where "kFlagFinal = 0x0004"
definition kFlagKnownMask :: u16 where "kFlagKnownMask = kFlagRequest OR kFlagResponse OR kFlagFinal"

record Envelope =
  env_session :: SessionId
  env_incarnation :: BootIncarnation
  env_epoch :: CoordinatorEpoch
  env_frame_sequence :: Sequence
  env_correlation :: u64

record Frame =
  fr_kind :: u16
  fr_flags :: u16
  fr_envelope :: Envelope
  fr_payload :: "u8 list"

definition encode_envelope :: "Envelope \<Rightarrow> u8 list" where
  "encode_envelope e =
     put_u64 (high (env_incarnation e)) @ put_u64 (low (env_incarnation e)) @
     put_u64 (high (env_epoch e)) @ put_u64 (low (env_epoch e)) @
     put_u64 (env_frame_sequence e) @ put_u64 (env_correlation e)"

text \<open>The session of the target is filled in by the caller and stays as it is.\<close>

definition decode_envelope :: "u8 list \<Rightarrow> Envelope \<Rightarrow> Status + Envelope" where
  "decode_envelope data target =
     (if length data < kFrameEnvelopeBytes
      then Inl (Status ErrorCode_kDecodeTruncated ''frame envelope is incomplete'')
      else Inr (target
        \<lparr>env_incarnation := Identity (read_u64 data) (read_u64 (drop 8 data)),
         env_epoch := Identity (read_u64 (drop 16 data)) (read_u64 (drop 24 data)),
         env_frame_sequence := read_u64 (drop 32 data),
         env_correlation := read_u64 (drop 40 data)\<rparr>))"

definition encode_frame :: "Frame \<Rightarrow> Status + u8 list" where
  "encode_frame f =
     (if \<not> message_kind_is_known (fr_kind f)
      then Inl (Status ErrorCode_kFrameKindUnknown ''cannot encode an unknown message kind'')
      else if fr_flags f AND NOT kFlagKnownMask \<noteq> 0
      then Inl (Status ErrorCode_kFrameFlagsInvalid ''frame flags carry bits this version does not define'')
      else if length (fr_payload f) > kFramePayloadMaxBytes
      then Inl (Status ErrorCode_kFrameLengthOutOfRange ''frame payload exceeds the size bound'')
      else if length (fr_payload f) > 0xFFFFFFFF - kFrameEnvelopeBytes
      then Inl (Status ErrorCode_kFrameLengthArithmeticOverflow ''frame length would overflow the header field'')
      else
        let body = encode_envelope (fr_envelope f) @ fr_payload f;
            checked =
              put_u32 kFrameMagic @ put_u16 (of_nat kHeaderBytes) @ put_u16 (fr_kind f) @ put_u16 (fr_flags f) @
              put_u16 kProtocolMajor @ put_u16 kProtocolMinor @
              put_u32 (of_nat (length body)) @ put_u32 (crc32 body);
            header =
              checked @ put_u32 (crc32 checked) @ put_u16 0 @
              put_u64 (high (env_session (fr_envelope f))) @ put_u64 (low (env_session (fr_envelope f)))
        in
        if length header \<noteq> kHeaderBytes
        then Inl (Status ErrorCode_kInternalInvariant ''frame header has an unexpected size'')
        else Inr (header @ body))"

text \<open>On success the frame and the number of bytes consumed; the caller passes what is left on.\<close>

definition decode_frame :: "u8 list \<Rightarrow> Status + Frame \<times> nat" where
  "decode_frame data =
     (if length data = 0 then Inl (Status ErrorCode_kTransportClosed ''no bytes are available'')
      else if length data < kHeaderBytes
      then Inl (Status ErrorCode_kFrameTruncatedHeader ''frame header is incomplete'')
      else if read_u32 data \<noteq> kFrameMagic
      then Inl (Status ErrorCode_kFrameMagicMismatch ''frame magic does not match this protocol'')
      else if read_u16 (drop 4 data) \<noteq> of_nat kHeaderBytes
      then Inl (Status ErrorCode_kFrameLengthOutOfRange ''frame header size field is not the defined size'')
      else
        let kind = read_u16 (drop 6 data);
            flags = read_u16 (drop 8 data);
            major = read_u16 (drop 10 data);
            minor = read_u16 (drop 12 data);
            body_bytes = unat (read_u32 (drop 14 data));
            body_crc = read_u32 (drop 18 data);
            header_crc = read_u32 (drop 22 data);
            reserved = read_u16 (drop 26 data)
        in
        if crc32 (take 22 data) \<noteq> header_crc
        then Inl (Status ErrorCode_kFrameIntegrityMismatch ''frame header CRC32 does not match'')
        else if major \<noteq> kProtocolMajor
        then Inl (Status ErrorCode_kFrameVersionUnsupported ''frame protocol major version is not supported'')
        else if minor > kProtocolMinor
        then Inl (Status ErrorCode_kFrameVersionUnsupported ''frame protocol minor version is newer than this build'')
        else if reserved \<noteq> 0
        then Inl (Status ErrorCode_kFrameFlagsInvalid ''frame reserved field must be zero'')
        else if flags AND NOT kFlagKnownMask \<noteq> 0
        then Inl (Status ErrorCode_kFrameFlagsInvalid ''frame flags carry bits this version does not define'')
        else if \<not> message_kind_is_known kind
        then Inl (Status ErrorCode_kFrameKindUnknown ''frame kind is not defined by this version'')
        else if body_bytes < kFrameEnvelopeBytes
        then Inl (Status ErrorCode_kFrameLengthOutOfRange ''frame body is shorter than the envelope it must carry'')
        else if body_bytes > kFramePayloadMaxBytes + kFrameEnvelopeBytes
        then Inl (Status ErrorCode_kFrameLengthOutOfRange ''frame body exceeds the size bound'')
        else if length data < kHeaderBytes + body_bytes
        then Inl (Status ErrorCode_kFrameTruncatedPayload ''frame body is incomplete'')
        else
          let body = take body_bytes (drop kHeaderBytes data) in
          if crc32 body \<noteq> body_crc
          then Inl (Status ErrorCode_kFrameIntegrityMismatch ''frame body CRC32 does not match'')
          else
            let session = Identity (read_u64 (drop 28 data)) (read_u64 (drop 36 data)) in
            case decode_envelope body
                   \<lparr>env_session = session, env_incarnation = no_identity, env_epoch = no_identity,
                    env_frame_sequence = 0, env_correlation = 0\<rparr> of
              Inl status \<Rightarrow> Inl status
            | Inr envelope \<Rightarrow>
                Inr (\<lparr>fr_kind = kind, fr_flags = flags, fr_envelope = envelope,
                      fr_payload = drop kFrameEnvelopeBytes body\<rparr>,
                     kHeaderBytes + body_bytes))"


section \<open>Fields at fixed offsets\<close>

lemma read_put_u16: "read_u16 (put_u16 v @ rest) = v"
proof -
  have "read_u16 (put_u16 v @ rest) = read_u16 (put_u16 v)" by (simp add: read_u16_def nth_append)
  then show ?thesis by (simp add: read_u16_bytes put_u16_bytes join_put_bytes)
qed

lemma read_put_u32: "read_u32 (put_u32 v @ rest) = v"
  by (simp add: read_u32_def put_u32_def join_put_bytes)

lemma read_put_u64: "read_u64 (put_u64 v @ rest) = v"
  by (simp add: read_u64_def put_u64_def join_put_bytes)

lemmas read_put = read_put_u16 read_put_u32 read_put_u64
  read_put_u16 [of _ "[]", simplified] read_put_u32 [of _ "[]", simplified] read_put_u64 [of _ "[]", simplified]

lemma put_read_u16:
  assumes "2 \<le> length data"
  shows "put_u16 (read_u16 data) = take 2 data"
proof -
  have "read_u16 data = read_u16 (take 2 data)" using assms by (simp add: read_u16_def)
  then show ?thesis using assms by (simp add: read_u16_bytes put_u16_bytes put_join_bytes)
qed

lemma put_read_u32: "4 \<le> length data \<Longrightarrow> put_u32 (read_u32 data) = take 4 data"
  by (simp add: read_u32_def put_u32_def put_join_bytes)

lemma put_read_u64: "8 \<le> length data \<Longrightarrow> put_u64 (read_u64 data) = take 8 data"
  by (simp add: read_u64_def put_u64_def put_join_bytes)

lemmas put_read = put_read_u16 put_read_u32 put_read_u64

lemma take_drop_split: "i \<le> j \<Longrightarrow> take (j - i) (drop i data) @ drop j data = drop i data"
  by (metis append_take_drop_id drop_drop le_add_diff_inverse2)

lemma header_parts:
  assumes "44 \<le> length data"
  shows "take 22 data = put_u32 (read_u32 data) @ put_u16 (read_u16 (drop 4 data)) @ put_u16 (read_u16 (drop 6 data)) @
      put_u16 (read_u16 (drop 8 data)) @ put_u16 (read_u16 (drop 10 data)) @ put_u16 (read_u16 (drop 12 data)) @
      put_u32 (read_u32 (drop 14 data)) @ put_u32 (read_u32 (drop 18 data))"
    and "data = take 22 data @ put_u32 (read_u32 (drop 22 data)) @ put_u16 (read_u16 (drop 26 data)) @
      put_u64 (read_u64 (drop 28 data)) @ put_u64 (read_u64 (drop 36 data)) @ drop 44 data"
proof -
  have split: "take (m + n) xs = take m xs @ take n (drop m xs)" for m n :: nat and xs :: "u8 list"
    by (rule take_add)
  show "take 22 data = put_u32 (read_u32 data) @ put_u16 (read_u16 (drop 4 data)) @ put_u16 (read_u16 (drop 6 data)) @
      put_u16 (read_u16 (drop 8 data)) @ put_u16 (read_u16 (drop 10 data)) @ put_u16 (read_u16 (drop 12 data)) @
      put_u32 (read_u32 (drop 14 data)) @ put_u32 (read_u32 (drop 18 data))"
    using assms split [of 4 18 data] split [of 2 16 "drop 4 data"] split [of 2 14 "drop 6 data"]
      split [of 2 12 "drop 8 data"] split [of 2 10 "drop 10 data"] split [of 2 8 "drop 12 data"]
      split [of 4 4 "drop 14 data"]
    by (simp add: put_read)
  have "data = take 22 data @ drop 22 data" by simp
  then show "data = take 22 data @ put_u32 (read_u32 (drop 22 data)) @ put_u16 (read_u16 (drop 26 data)) @
      put_u64 (read_u64 (drop 28 data)) @ put_u64 (read_u64 (drop 36 data)) @ drop 44 data"
    using assms take_drop_split [of 22 26 data] take_drop_split [of 26 28 data] take_drop_split [of 28 36 data]
      take_drop_split [of 36 44 data]
    by (simp add: put_read)
qed

lemma envelope_parts:
  assumes "48 \<le> length body"
  shows "take 48 body = put_u64 (read_u64 body) @ put_u64 (read_u64 (drop 8 body)) @ put_u64 (read_u64 (drop 16 body)) @
      put_u64 (read_u64 (drop 24 body)) @ put_u64 (read_u64 (drop 32 body)) @ put_u64 (read_u64 (drop 40 body))"
proof -
  have split: "take (m + n) xs = take m xs @ take n (drop m xs)" for m n :: nat and xs :: "u8 list"
    by (rule take_add)
  show ?thesis
    using assms split [of 8 40 body] split [of 8 32 "drop 8 body"] split [of 8 24 "drop 16 body"]
      split [of 8 16 "drop 24 body"] split [of 8 8 "drop 32 body"]
    by (simp add: put_read)
qed


section \<open>Frames are encoded canonically\<close>

lemma unat_of_nat_u32: "n < 4294967296 \<Longrightarrow> unat (of_nat n :: u32) = n"
  by (simp add: unat_of_nat)

definition frame_body :: "Frame \<Rightarrow> u8 list" where
  "frame_body f = encode_envelope (fr_envelope f) @ fr_payload f"

definition frame_checked :: "Frame \<Rightarrow> u8 list" where
  "frame_checked f =
     put_u32 kFrameMagic @ put_u16 (of_nat kHeaderBytes) @ put_u16 (fr_kind f) @ put_u16 (fr_flags f) @
     put_u16 kProtocolMajor @ put_u16 kProtocolMinor @
     put_u32 (of_nat (length (frame_body f))) @ put_u32 (crc32 (frame_body f))"

definition frame_header :: "Frame \<Rightarrow> u8 list" where
  "frame_header f =
     frame_checked f @ put_u32 (crc32 (frame_checked f)) @ put_u16 0 @
     put_u64 (high (env_session (fr_envelope f))) @ put_u64 (low (env_session (fr_envelope f)))"

definition frame_bytes :: "Frame \<Rightarrow> u8 list" where
  "frame_bytes f = frame_header f @ frame_body f"

definition frame_ok :: "Frame \<Rightarrow> bool" where
  "frame_ok f \<longleftrightarrow> message_kind_is_known (fr_kind f) \<and> fr_flags f AND NOT kFlagKnownMask = 0 \<and>
     length (fr_payload f) \<le> kFramePayloadMaxBytes"

lemma length_frame_checked [simp]: "length (frame_checked f) = 22"
  by (simp add: frame_checked_def)

lemma length_frame_header [simp]: "length (frame_header f) = 44"
  by (simp add: frame_header_def)

lemma length_encode_envelope [simp]: "length (encode_envelope e) = 48"
  by (simp add: encode_envelope_def)

lemma length_frame_body: "length (frame_body f) = 48 + length (fr_payload f)"
  by (simp add: frame_body_def)

lemma length_frame_bytes [simp]: "length (frame_bytes f) = 92 + length (fr_payload f)"
  by (simp add: frame_bytes_def length_frame_body)

lemma encode_frame_iff: "encode_frame f = Inr bytes \<longleftrightarrow> frame_ok f \<and> bytes = frame_bytes f"
  by (auto simp: encode_frame_def frame_ok_def frame_bytes_def frame_header_def frame_checked_def frame_body_def Let_def kHeaderBytes_def
      kFrameEnvelopeBytes_def kFramePayloadMaxBytes_def)

lemma header_fields:
  "read_u32 (frame_header f @ tail) = kFrameMagic"
  "read_u16 (drop 4 (frame_header f @ tail)) = of_nat kHeaderBytes"
  "read_u16 (drop 6 (frame_header f @ tail)) = fr_kind f"
  "read_u16 (drop 8 (frame_header f @ tail)) = fr_flags f"
  "read_u16 (drop 10 (frame_header f @ tail)) = kProtocolMajor"
  "read_u16 (drop 12 (frame_header f @ tail)) = kProtocolMinor"
  "read_u32 (drop 14 (frame_header f @ tail)) = of_nat (length (frame_body f))"
  "read_u32 (drop 18 (frame_header f @ tail)) = crc32 (frame_body f)"
  "read_u32 (drop 22 (frame_header f @ tail)) = crc32 (take 22 (frame_header f @ tail))"
  "read_u16 (drop 26 (frame_header f @ tail)) = 0"
  "read_u64 (drop 28 (frame_header f @ tail)) = high (env_session (fr_envelope f))"
  "read_u64 (drop 36 (frame_header f @ tail)) = low (env_session (fr_envelope f))"
  by (simp_all add: frame_header_def frame_checked_def read_put)

lemma decode_frame_header:
  assumes "frame_ok f"
  shows "decode_frame (frame_header f @ tail) =
    (if length tail < length (frame_body f)
     then Inl (Status ErrorCode_kFrameTruncatedPayload ''frame body is incomplete'')
     else if crc32 (take (length (frame_body f)) tail) \<noteq> crc32 (frame_body f)
     then Inl (Status ErrorCode_kFrameIntegrityMismatch ''frame body CRC32 does not match'')
     else case decode_envelope (take (length (frame_body f)) tail)
         \<lparr>env_session = env_session (fr_envelope f), env_incarnation = no_identity,
          env_epoch = no_identity, env_frame_sequence = 0, env_correlation = 0\<rparr> of
       Inl status \<Rightarrow> Inl status
     | Inr envelope \<Rightarrow>
         Inr (\<lparr>fr_kind = fr_kind f, fr_flags = fr_flags f, fr_envelope = envelope,
               fr_payload = drop kFrameEnvelopeBytes (take (length (frame_body f)) tail)\<rparr>,
              kHeaderBytes + length (frame_body f)))"
proof -
  have size: "unat (of_nat (length (frame_body f)) :: u32) = length (frame_body f)"
    using assms by (intro unat_of_nat_u32) (simp add: frame_ok_def kFramePayloadMaxBytes_def length_frame_body)
  have bounds: "\<not> length (frame_body f) < kFrameEnvelopeBytes"
    "\<not> kFramePayloadMaxBytes + kFrameEnvelopeBytes < length (frame_body f)"
    using assms by (simp_all add: frame_ok_def length_frame_body kFrameEnvelopeBytes_def)
  have skip: "drop kHeaderBytes (frame_header f @ tail) = tail" by (simp add: kHeaderBytes_def)
  have enough: "length (frame_header f @ tail) \<noteq> 0" "\<not> length (frame_header f @ tail) < kHeaderBytes"
    "length (frame_header f @ tail) < kHeaderBytes + length (frame_body f) \<longleftrightarrow> length tail < length (frame_body f)"
    by (simp_all add: kHeaderBytes_def)
  show ?thesis
    using assms bounds
    unfolding decode_frame_def Let_def header_fields size skip enough(3) frame_ok_def
    by (simp add: enough(1,2) del: length_append length_0_conv append_is_Nil_conv)
qed

lemma decode_frame_short:
  "frame_ok f \<Longrightarrow> length tail < length (frame_body f) \<Longrightarrow> decode_frame (frame_header f @ tail) =
     Inl (Status ErrorCode_kFrameTruncatedPayload ''frame body is incomplete'')"
  by (simp add: decode_frame_header)

lemma decode_frame_bytes:
  assumes "frame_ok f"
  shows "decode_frame (frame_bytes f @ rest) = Inr (f, length (frame_bytes f))"
proof -
  have envelope: "decode_envelope (frame_body f) \<lparr>env_session = env_session (fr_envelope f), env_incarnation = no_identity,
      env_epoch = no_identity, env_frame_sequence = 0, env_correlation = 0\<rparr> = Inr (fr_envelope f)"
    by (simp add: decode_envelope_def frame_body_def encode_envelope_def read_put kFrameEnvelopeBytes_def)
  have payload: "drop kFrameEnvelopeBytes (frame_body f) = fr_payload f"
    by (simp add: frame_body_def kFrameEnvelopeBytes_def)
  show ?thesis
    using decode_frame_header [OF assms, of "frame_body f @ rest"] envelope payload
    by (simp add: frame_bytes_def length_frame_body [of f, symmetric] kHeaderBytes_def)
qed

lemma decode_frame_strict:
  assumes "decode_frame data = Inr (f, n)"
  shows "frame_ok f \<and> data = frame_bytes f @ drop n data \<and> n = length (frame_bytes f)"
proof -
  define body_bytes where "body_bytes = unat (read_u32 (drop 14 data))"
  define body where "body = take body_bytes (drop 44 data)"
  have c: "44 \<le> length data" "read_u32 data = kFrameMagic" "read_u16 (drop 4 data) = of_nat kHeaderBytes"
    "crc32 (take 22 data) = read_u32 (drop 22 data)" "read_u16 (drop 10 data) = kProtocolMajor"
    "read_u16 (drop 12 data) = kProtocolMinor" "read_u16 (drop 26 data) = 0"
    "read_u16 (drop 8 data) AND NOT kFlagKnownMask = 0" "message_kind_is_known (read_u16 (drop 6 data))"
    "48 \<le> body_bytes" "body_bytes \<le> kFramePayloadMaxBytes + 48" "44 + body_bytes \<le> length data"
    "crc32 body = read_u32 (drop 18 data)"
    and f: "f = \<lparr>fr_kind = read_u16 (drop 6 data), fr_flags = read_u16 (drop 8 data),
        fr_envelope = \<lparr>env_session = Identity (read_u64 (drop 28 data)) (read_u64 (drop 36 data)),
          env_incarnation = Identity (read_u64 body) (read_u64 (drop 8 body)),
          env_epoch = Identity (read_u64 (drop 16 body)) (read_u64 (drop 24 body)),
          env_frame_sequence = read_u64 (drop 32 body), env_correlation = read_u64 (drop 40 body)\<rparr>,
        fr_payload = drop 48 body\<rparr>"
    and n: "n = 44 + body_bytes"
    using assms unfolding body_def body_bytes_def
    by (auto simp: decode_frame_def Let_def decode_envelope_def kHeaderBytes_def kFrameEnvelopeBytes_def kProtocolMinor_def word_gt_0
        split: if_splits sum.splits)
  have len: "length body = body_bytes" using c(12) by (simp add: body_def)
  have fb: "frame_body f = body"
    using envelope_parts [of body] len c(10) append_take_drop_id [of 48 body]
    by (simp add: f frame_body_def encode_envelope_def)
  have ff: "fr_kind f = read_u16 (drop 6 data)" "fr_flags f = read_u16 (drop 8 data)"
    "env_session (fr_envelope f) = Identity (read_u64 (drop 28 data)) (read_u64 (drop 36 data))"
    "fr_payload f = drop 48 body"
    by (simp_all add: f)
  have checked: "frame_checked f = take 22 data"
    using header_parts(1) [OF c(1)] c(2,3,5,6,13) len
    by (simp add: frame_checked_def fb ff body_bytes_def)
  have "frame_bytes f @ drop n data = data"
    using header_parts(2) [OF c(1)] c(4,7) take_drop_split [of 44 n data]
    by (simp add: frame_bytes_def frame_header_def checked fb ff n body_def)
  moreover have "frame_ok f" using c len by (simp add: ff frame_ok_def)
  moreover have "n = length (frame_bytes f)" using len c(10) by (simp add: n ff)
  ultimately show ?thesis by simp
qed


section \<open>Damage\<close>

lemma frame_eq_bytes: "frame_bytes f @ r = frame_bytes g @ s \<Longrightarrow> frame_ok f \<Longrightarrow> frame_ok g \<Longrightarrow> f = g"
  using decode_frame_bytes [of f r] decode_frame_bytes [of g s] by simp

lemma update_split: "i < length xs \<Longrightarrow> xs[i := b] = take i xs @ [b] @ drop (Suc i) xs"
  by (simp add: upd_conv_take_nth_drop)

lemma crc32_update_differs:
  assumes "i < length xs" "b \<noteq> xs ! i"
  shows "crc32 (xs[i := b]) \<noteq> crc32 xs"
proof -
  have "crc32 (take i xs @ [b] @ drop (Suc i) xs) \<noteq> crc32 (take i xs @ [xs ! i] @ drop (Suc i) xs)"
    by (rule crc32_burst_differs) (use assms in auto)
  then show ?thesis using assms(1) by (simp add: update_split id_take_nth_drop [symmetric])
qed

lemma frame_parts:
  "take 22 (frame_bytes f @ r) = frame_checked f"
  "take 4 (drop 22 (frame_bytes f @ r)) = put_u32 (crc32 (frame_checked f))"
  "take 2 (drop 26 (frame_bytes f @ r)) = put_u16 0"
  "take (length (frame_body f)) (drop 44 (frame_bytes f @ r)) = frame_body f"
  by (simp_all add: frame_bytes_def frame_header_def)

lemma checked_determines:
  assumes "frame_checked g = frame_checked f" "frame_ok f" "frame_ok g"
  shows "fr_kind g = fr_kind f" "fr_flags g = fr_flags f" "length (frame_body g) = length (frame_body f)"
    "crc32 (frame_body g) = crc32 (frame_body f)"
proof -
  have "frame_header h @ [] = frame_checked h @ put_u32 (crc32 (frame_checked h)) @ put_u16 0 @
      put_u64 (high (env_session (fr_envelope h))) @ put_u64 (low (env_session (fr_envelope h)))" for h
    by (simp add: frame_header_def)
  have fields: "read_u16 (drop 6 (frame_checked h)) = fr_kind h" "read_u16 (drop 8 (frame_checked h)) = fr_flags h"
    "read_u32 (drop 14 (frame_checked h)) = of_nat (length (frame_body h))"
    "read_u32 (drop 18 (frame_checked h)) = crc32 (frame_body h)" for h
    by (simp_all add: frame_checked_def read_put)
  have size: "unat (of_nat (length (frame_body h)) :: u32) = length (frame_body h)" if "frame_ok h" for h
    using that by (intro unat_of_nat_u32) (simp add: frame_ok_def kFramePayloadMaxBytes_def length_frame_body)
  show "fr_kind g = fr_kind f" "fr_flags g = fr_flags f" "crc32 (frame_body g) = crc32 (frame_body f)"
    using fields [of g] fields [of f] assms(1) by simp_all
  show "length (frame_body g) = length (frame_body f)"
    using fields(3) [of g] fields(3) [of f] size [OF assms(2)] size [OF assms(3)] assms(1) by metis
qed

lemma body_determines:
  assumes "frame_body g = frame_body f"
  shows "fr_payload g = fr_payload f" "fr_envelope g = (fr_envelope f)\<lparr>env_session := env_session (fr_envelope g)\<rparr>"
proof -
  have e: "encode_envelope (fr_envelope g) = encode_envelope (fr_envelope f)" and p: "fr_payload g = fr_payload f"
    using assms by (auto simp: frame_body_def append_eq_append_conv)
  show "fr_payload g = fr_payload f" by (rule p)
  have decoded: "decode_envelope (encode_envelope h) (fr_envelope g) = Inr (h\<lparr>env_session := env_session (fr_envelope g)\<rparr>)" for h
    by (simp add: decode_envelope_def encode_envelope_def read_put kFrameEnvelopeBytes_def)
  show "fr_envelope g = (fr_envelope f)\<lparr>env_session := env_session (fr_envelope g)\<rparr>"
    using decoded [of "fr_envelope g"] decoded [of "fr_envelope f"] e by simp
qed

text \<open>A frame received after one byte of its encoding has changed: everything but the session is the same.\<close>

lemma damaged_frame:
  assumes f: "frame_ok f" and i: "i < length (frame_bytes f)" and b: "b \<noteq> frame_bytes f ! i"
    and dec: "decode_frame ((frame_bytes f)[i := b]) = Inr (g, n)"
  shows "28 \<le> i \<and> i < 44 \<and> n = length (frame_bytes f) \<and>
    (\<exists>s. s \<noteq> env_session (fr_envelope f) \<and> g = f\<lparr>fr_envelope := (fr_envelope f)\<lparr>env_session := s\<rparr>\<rparr>)"
proof -
  define D where "D = (frame_bytes f)[i := b]"
  obtain r where g: "frame_ok g" "D = frame_bytes g @ r" "n = length (frame_bytes g)"
    using decode_frame_strict [OF dec] unfolding D_def by blast
  have gp: "take 22 D = frame_checked g" "take 4 (drop 22 D) = put_u32 (crc32 (frame_checked g))"
    "take 2 (drop 26 D) = put_u16 0" "take (length (frame_body g)) (drop 44 D) = frame_body g"
    unfolding g(2) by (rule frame_parts)+
  note fp = frame_parts [of f "[]", unfolded append_Nil2]
  have changed: "(take m (drop k (frame_bytes f)))[i - k := b] \<noteq> take m (drop k (frame_bytes f))"
    if "k \<le> i" "i < k + m" for k m
  proof -
    have "i - k < length (frame_bytes f) - k" "i - k < m" using i that by linarith+
    then have "i - k < length (take m (drop k (frame_bytes f)))" by simp
    moreover have "take m (drop k (frame_bytes f)) ! (i - k) = frame_bytes f ! i" using i that by simp
    ultimately show ?thesis using b by (metis nth_list_update_eq)
  qed
  have part: "take m (drop k D) = (if k \<le> i then (take m (drop k (frame_bytes f)))[i - k := b]
      else take m (drop k (frame_bytes f)))" for k m
    by (simp add: D_def drop_update_swap drop_update_cancel take_update_swap)
  have same: "take m (drop k D) = take m (drop k (frame_bytes f))" if "i < k \<or> k + m \<le> i" for k m
    using that by (auto simp: part intro: list_update_beyond)
  have low: "22 \<le> i"
  proof (rule ccontr)
    assume "\<not> 22 \<le> i"
    then have "frame_checked g = (frame_checked f)[i := b]" "frame_bytes f ! i = frame_checked f ! i"
      using gp(1) fp(1) part [of 22 0] by (simp_all flip: fp(1))
    then have "crc32 (frame_checked g) \<noteq> crc32 (frame_checked f)"
      using crc32_update_differs [of i "frame_checked f" b] b \<open>\<not> 22 \<le> i\<close> by simp
    moreover have "put_u32 (crc32 (frame_checked g)) = put_u32 (crc32 (frame_checked f))"
      using gp(2) fp(2) same [of 22 4] \<open>\<not> 22 \<le> i\<close> by simp
    ultimately show False using read_put(5) by metis
  qed
  then have checked: "frame_checked g = frame_checked f" using gp(1) fp(1) same [of 0 22] by simp
  have crc: "\<not> i < 26"
  proof
    assume "i < 26"
    with low have "take 4 (drop 22 D) \<noteq> take 4 (drop 22 (frame_bytes f))"
      using changed [of 22 4] part [of 4 22] by simp
    then show False using gp(2) fp(2) checked by simp
  qed
  have reserved: "\<not> i < 28"
  proof
    assume "i < 28"
    with crc have "take 2 (drop 26 D) \<noteq> take 2 (drop 26 (frame_bytes f))"
      using changed [of 26 2] part [of 2 26] by simp
    then show False using gp(3) fp(3) by simp
  qed
  note det = checked_determines [OF checked f g(1)]
  have high: "i < 44"
  proof (rule ccontr)
    assume "\<not> i < 44"
    moreover have len: "length (frame_bytes f) = 44 + length (frame_body f)" by (simp add: length_frame_body)
    ultimately have "frame_body g = (frame_body f)[i - 44 := b]" "frame_bytes f ! i = frame_body f ! (i - 44)"
      using gp(4) fp(4) part [of "length (frame_body f)" 44] i det(3) by (simp_all add: frame_bytes_def nth_append)
    then have "crc32 (frame_body g) \<noteq> crc32 (frame_body f)"
      using crc32_update_differs [of "i - 44" "frame_body f" b] b i len \<open>\<not> i < 44\<close> by simp
    with det(4) show False by simp
  qed
  have "frame_body g = take (length (frame_body f)) (drop 44 D)" using gp(4) unfolding det(3) by (rule sym)
  also have "\<dots> = take (length (frame_body f)) (drop 44 (frame_bytes f))" by (rule same) (simp add: high)
  also have "\<dots> = frame_body f" by (rule fp(4))
  finally have body: "frame_body g = frame_body f" .
  define e where "e = env_session (fr_envelope g)"
  have env: "fr_payload g = fr_payload f" "fr_envelope g = (fr_envelope f)\<lparr>env_session := e\<rparr>"
    unfolding e_def by (rule body_determines [OF body])+
  have n: "n = length (frame_bytes f)" using g(3) det(3) by (simp add: length_frame_body)
  have eq: "g = f\<lparr>fr_envelope := (fr_envelope f)\<lparr>env_session := e\<rparr>\<rparr>"
    using env det(1,2) by (cases f; cases g) simp
  have "e \<noteq> env_session (fr_envelope f)"
  proof
    assume "e = env_session (fr_envelope f)"
    then have "g = f" using eq by simp
    then have "D = frame_bytes f @ r" using g(2) by simp
    moreover have "length D = length (frame_bytes f)" by (simp add: D_def)
    ultimately have "D = frame_bytes f" by simp
    then show False using b i unfolding D_def by (metis nth_list_update_eq)
  qed
  with low reserved high n eq show ?thesis by auto
qed

lemma session_damage_accepted:
  assumes f: "frame_ok f" and i: "28 \<le> i" "i < 44"
  shows "\<exists>g n. decode_frame ((frame_bytes f)[i := b]) = Inr (g, n)"
proof -
  define S where "S = put_u64 (high (env_session (fr_envelope f))) @ put_u64 (low (env_session (fr_envelope f)))"
  define T where "T = S[i - 28 := b]"
  define g where "g = f\<lparr>fr_envelope := (fr_envelope f)\<lparr>env_session := Identity (read_u64 T) (read_u64 (drop 8 T))\<rparr>\<rparr>"
  have len: "length T = 16" by (simp add: T_def S_def)
  have body: "frame_body g = frame_body f" by (simp add: g_def frame_body_def encode_envelope_def)
  have checked: "frame_checked g = frame_checked f" by (simp add: frame_checked_def body) (simp add: g_def)
  have "put_u64 (read_u64 T) @ put_u64 (read_u64 (drop 8 T)) = T"
    using len append_take_drop_id [of 8 T] by (simp add: put_read)
  then have T: "put_u64 (read_u64 T) @ put_u64 (read_u64 (drop 8 T)) @ r = T @ r" for r
    by (metis append.assoc)
  have "env_session (fr_envelope g) = Identity (read_u64 T) (read_u64 (drop 8 T))" by (simp add: g_def)
  then have "frame_bytes g = frame_checked f @ put_u32 (crc32 (frame_checked f)) @ put_u16 0 @ T @ frame_body f"
    by (simp add: frame_bytes_def frame_header_def checked body T)
  moreover have "(frame_bytes f)[i := b] = frame_checked f @ put_u32 (crc32 (frame_checked f)) @ put_u16 0 @ T @ frame_body f"
  proof -
    obtain j where j: "i = 28 + j" "j < 16" using i by (intro that [of "i - 28"]) simp_all
    define pre where "pre = frame_checked f @ put_u32 (crc32 (frame_checked f)) @ put_u16 0"
    have "frame_bytes f = pre @ S @ frame_body f" "length pre = 28" "length S = 16"
      by (simp_all add: frame_bytes_def frame_header_def pre_def S_def)
    then have "(frame_bytes f)[i := b] = pre @ T @ frame_body f"
      using j by (simp add: list_update_append T_def)
    then show ?thesis by (simp add: pre_def)
  qed
  moreover have "frame_ok g" using f by (simp add: g_def frame_ok_def)
  ultimately show ?thesis using decode_frame_bytes [of g "[]"] by auto
qed

definition sample_frame :: Frame where
  "sample_frame =
     \<lparr>fr_kind = 1, fr_flags = 1,
      fr_envelope = \<lparr>env_session = Identity 1 2, env_incarnation = Identity 3 4, env_epoch = Identity 5 6,
        env_frame_sequence = 7, env_correlation = 8\<rparr>,
      fr_payload = [9]\<rparr>"

lemma sample_frame_encodes: "encode_frame sample_frame = Inr (frame_bytes sample_frame)"
  by (simp add: encode_frame_iff frame_ok_def sample_frame_def message_kind_is_known_def kFlagKnownMask_def kFlagRequest_def
      kFlagResponse_def kFlagFinal_def kFramePayloadMaxBytes_def)


section \<open>Properties\<close>

text \<open>
  C23: Decoding a frame is the exact inverse of encoding it: a buffer decodes to a frame precisely when it
  begins with the encoding of that frame, and exactly those bytes are consumed. So every frame
  reads back whatever follows it, no two frames have the same encoding, and nothing that the encoder
  does not produce is ever accepted.
\<close>

theorem frame_codec:
  "decode_frame data = Inr (f, n) \<longleftrightarrow>
   (\<exists>bytes rest. encode_frame f = Inr bytes \<and> data = bytes @ rest \<and> n = length bytes)"
  using decode_frame_strict decode_frame_bytes unfolding encode_frame_iff by metis

lemma decode_frame_prefix:
  assumes "encode_frame f = Inr bytes" "k < length bytes"
  shows "decode_frame (take k bytes) = Inl
    (if k = 0 then Status ErrorCode_kTransportClosed ''no bytes are available''
     else if k < kHeaderBytes then Status ErrorCode_kFrameTruncatedHeader ''frame header is incomplete''
     else Status ErrorCode_kFrameTruncatedPayload ''frame body is incomplete'')"
proof -
  have f: "frame_ok f" "bytes = frame_bytes f" using assms(1) by (simp_all add: encode_frame_iff)
  show ?thesis
  proof (cases "k < kHeaderBytes")
    case True
    then show ?thesis using assms(2) by (auto simp: decode_frame_def f kHeaderBytes_def)
  next
    case False
    then have "take k bytes = frame_header f @ take (k - 44) (frame_body f)"
      by (simp add: f frame_bytes_def kHeaderBytes_def)
    moreover have "length (take (k - 44) (frame_body f)) < length (frame_body f)"
      using assms(2) False by (simp add: f length_frame_body kHeaderBytes_def)
    ultimately have "decode_frame (take k bytes) =
        Inl (Status ErrorCode_kFrameTruncatedPayload ''frame body is incomplete'')"
      using decode_frame_short [OF f(1)] by simp
    moreover have "k \<noteq> 0" using False by (auto simp: kHeaderBytes_def)
    ultimately show ?thesis using False by simp
  qed
qed

text \<open>
  A frame that has arrived in part is recognised as such: every proper prefix of an encoded frame
  is answered with the status that asks for more bytes, and never with one that reports damage.
\<close>

theorem frame_prefix_incomplete:
  assumes "encode_frame f = Inr bytes" "k < length bytes"
  shows "decode_frame (take k bytes) = Inl
    (if k = 0 then Status ErrorCode_kTransportClosed ''no bytes are available''
     else if k < kHeaderBytes then Status ErrorCode_kFrameTruncatedHeader ''frame header is incomplete''
     else Status ErrorCode_kFrameTruncatedPayload ''frame body is incomplete'')"
  using assms by (rule decode_frame_prefix)

theorem frame_prefix_incomplete_witness:
  "decode_frame (take 50 (frame_bytes sample_frame)) =
     Inl (Status ErrorCode_kFrameTruncatedPayload ''frame body is incomplete'')"
  using frame_prefix_incomplete [OF sample_frame_encodes, of 50] by (simp add: sample_frame_def kHeaderBytes_def)

text \<open>
  C32: The checksums cover everything but the session. If one byte of an encoded frame changes, the frame is
  refused, unless the byte lies in the session identity of the header (offsets 28 to 43), which no
  checksum covers: then the frame is accepted and names another session, with everything else as it was sent.
\<close>

theorem frame_damage:
  assumes "encode_frame f = Inr bytes" "i < length bytes" "b \<noteq> bytes ! i"
  shows "if 28 \<le> i \<and> i < 44
    then \<exists>s. s \<noteq> env_session (fr_envelope f) \<and>
      decode_frame (bytes[i := b]) = Inr (f\<lparr>fr_envelope := (fr_envelope f)\<lparr>env_session := s\<rparr>\<rparr>, length bytes)
    else \<exists>status. decode_frame (bytes[i := b]) = Inl status"
proof -
  have f: "frame_ok f" "bytes = frame_bytes f" using assms(1) by (simp_all add: encode_frame_iff)
  show ?thesis
  proof (cases "decode_frame (bytes[i := b])")
    case (Inl status)
    then show ?thesis using session_damage_accepted [OF f(1), of i b] by (auto simp: f(2))
  next
    case (Inr r)
    obtain g n where "r = (g, n)" by (cases r)
    with damaged_frame [OF f(1), of i b g n] assms Inr show ?thesis by (auto simp: f(2))
  qed
qed

theorem frame_damage_witness:
  "\<exists>s. s \<noteq> Identity 1 2 \<and> decode_frame ((frame_bytes sample_frame)[28 := 0]) =
     Inr (sample_frame\<lparr>fr_envelope := (fr_envelope sample_frame)\<lparr>env_session := s\<rparr>\<rparr>, 93)"
proof -
  have size: "length (frame_bytes sample_frame) = 93" by (simp add: sample_frame_def)
  have "frame_bytes sample_frame ! 28 = 1"
    by (simp add: frame_bytes_def frame_header_def nth_append sample_frame_def put_u64_def put_bytes_def)
  with frame_damage [OF sample_frame_encodes, of 28 0] size show ?thesis
    by (simp add: sample_frame_def)
qed

end
