(* ===== verification/CTF_Protocol.thy ===== *)
theory CTF_Protocol
  imports CTF_Frame CTF_Persistence
begin

text \<open>
  The payload codec of the wire protocol: \<^verbatim>\<open>Writer\<close> and \<^verbatim>\<open>Reader\<close> of
  \<^verbatim>\<open>protocol.cpp\<close> and the nested codecs shared by the messages (reason chains, definitions, plans,
  flow groups, evidence, policies, requests and decisions) of \<^verbatim>\<open>protocol.cpp\<close>,
  \<^verbatim>\<open>protocol_evidence.cpp\<close> and \<^verbatim>\<open>protocol_messages.cpp\<close>. A nested encoder that cannot fail
  is modelled by the bytes it appends; the only one that can fail is that of a reason chain. A
  decoder carries the status of its first failing field.

  Every codec is an interpretation of \<open>codec\<close> where decoding is the exact inverse of encoding, and of
  \<open>decodes\<close> where the decoder also normalises (evidence is sorted, metadata entries are merged).
\<close>


section \<open>Reader\<close>

definition decode_truncated :: Status where
  "decode_truncated = Status ErrorCode_kDecodeTruncated ''payload ended before the field was complete''"

definition reader_u8 :: "(Status, u8) reader" where "reader_u8 = get_u8 decode_truncated"
definition reader_u16 :: "(Status, u16) reader" where "reader_u16 = get_u16 decode_truncated"
definition reader_u32 :: "(Status, u32) reader" where "reader_u32 = get_u32 decode_truncated"
definition reader_u64 :: "(Status, u64) reader" where "reader_u64 = get_u64 decode_truncated"
definition reader_identity :: "(Status, Identity) reader" where "reader_identity = get_identity decode_truncated"
definition reader_boolean :: "(Status, bool) reader" where
  "reader_boolean = get_boolean decode_truncated
     (Status ErrorCode_kDecodeInvalidBoolean ''boolean field carried a value other than 0 or 1'')"
definition reader_string :: "nat \<Rightarrow> (Status, string) reader" where
  "reader_string = get_string decode_truncated
     (Status ErrorCode_kDecodeLengthOutOfRange ''string field exceeds its bound'')"
definition reader_count :: "nat \<Rightarrow> (Status, nat) reader" where
  "reader_count = get_count decode_truncated
     (Status ErrorCode_kDecodeCountOutOfRange ''collection count exceeds its bound'')"

text \<open>The recurring pattern of reading a byte and comparing it with the last enumerator.\<close>

definition reader_enumeration :: "(u8 \<Rightarrow> 'a) \<Rightarrow> u8 \<Rightarrow> string \<Rightarrow> (Status, 'a) reader" where
  "reader_enumeration cast max_value what =
     get_enumeration decode_truncated (Status ErrorCode_kDecodeInvalidEnum (what @ '' is not defined by this version''))
       cast max_value"

definition reader_list :: "nat \<Rightarrow> (Status, 'a) reader \<Rightarrow> (Status, 'a list) reader" where
  "reader_list max_count p = then_read (reader_count max_count) (\<lambda>n. read_many n p)"

definition require_end :: "u8 list \<Rightarrow> Status" where
  "require_end rest =
     (if rest \<noteq> [] then Status ErrorCode_kDecodeTrailingBytes ''payload carried trailing bytes'' else status_ok)"


section \<open>Reason chains\<close>

definition encode_reason :: "Reason \<Rightarrow> u8 list" where
  "encode_reason r = put_string (reason_code r) @ put_string (reason_detail r) @ put_identity (reason_subject r)"

definition encode_reason_chain :: "ReasonChain \<Rightarrow> Status + u8 list" where
  "encode_reason_chain reasons =
     (if length reasons > kReasonChainMax
      then Inl (Status ErrorCode_kValidationReasonChainTooLong ''reason chain exceeds its bound'')
      else Inr (put_list encode_reason reasons))"

fun decode_reasons :: "nat \<Rightarrow> ReasonChain \<Rightarrow> (Status, ReasonChain) reader" where
  "decode_reasons 0 chain = yield chain"
| "decode_reasons (Suc n) chain =
     then_read (reader_string 128) (\<lambda>code.
     then_read (reader_string kReasonDetailBytesMax) (\<lambda>detail.
     then_read reader_identity (\<lambda>subject.
     case chain_add_flag code detail subject chain of
       (added, chain') \<Rightarrow>
         if \<not> added
         then fail (Status ErrorCode_kValidationReasonChainTooLong ''reason chain exceeded its bound while decoding'')
         else decode_reasons n chain')))"

definition decode_reason_chain :: "(Status, ReasonChain) reader" where
  "decode_reason_chain = then_read (reader_count kReasonChainMax) (\<lambda>n. decode_reasons n [])"


section \<open>Definitions\<close>

definition encode_phase :: "CollectivePhase \<Rightarrow> u8 list" where
  "encode_phase v =
     put_u64 (phase_index v) @
     put_string (phase_label v) @
     put_boolean (phase_synchronization_point v) @
     put_u32 (phase_step_count v)"

definition decode_phase :: "(Status, CollectivePhase) reader" where
  "decode_phase =
     then_read reader_u64 (\<lambda>index.
     then_read (reader_string kLabelBytesMax) (\<lambda>label.
     then_read reader_boolean (\<lambda>sync.
     then_read reader_u32 (\<lambda>count.
     yield \<lparr>phase_index = index, phase_label = label, phase_synchronization_point = sync,
            phase_step_count = count\<rparr>))))"

definition encode_step :: "CollectiveStep \<Rightarrow> u8 list" where
  "encode_step v =
     put_u64 (step_phase_index v) @
     put_u64 (step_index v) @
     put_enumeration AlgorithmHint_value (step_hint v) @
     put_boolean (step_synchronization_point v)"

definition decode_step :: "(Status, CollectiveStep) reader" where
  "decode_step =
     then_read reader_u64 (\<lambda>phase.
     then_read reader_u64 (\<lambda>index.
     then_read (reader_enumeration AlgorithmHint_cast 11 ''step algorithm hint'') (\<lambda>hint.
     then_read reader_boolean (\<lambda>sync.
     yield \<lparr>step_phase_index = phase, step_index = index, step_hint = hint,
            step_synchronization_point = sync\<rparr>))))"

definition encode_metadata :: "Metadata \<Rightarrow> u8 list" where
  "encode_metadata = put_list (\<lambda>entry. put_string (fst entry) @ put_string (snd entry))"

fun decode_metadata :: "nat \<Rightarrow> Metadata \<Rightarrow> (Status, Metadata) reader" where
  "decode_metadata 0 entries = yield entries"
| "decode_metadata (Suc n) entries =
     then_read (reader_string kMetadataKeyBytesMax) (\<lambda>key.
     then_read (reader_string kMetadataValueBytesMax) (\<lambda>v.
     case metadata_set key v entries of
       (stored, entries') \<Rightarrow>
         if \<not> stored then fail (Status ErrorCode_kDecodeDuplicateEntry ''metadata carries a duplicate key'')
         else decode_metadata n entries'))"

definition decode_participants :: "(Status, ParticipantId list) reader" where
  "decode_participants =
     then_read (reader_count kParticipantsMaxPerCollective) (\<lambda>n.
     if n = 0
     then fail (Status ErrorCode_kDecodeEmptyRequiredField ''a collective definition must name its participants'')
     else read_many n reader_identity)"

definition encode_definition :: "CollectiveDefinition \<Rightarrow> u8 list" where
  "encode_definition v =
     put_identity (def_id v) @ put_identity (def_generation v) @
     put_enumeration CollectiveClass_value (def_collective_class v) @
     put_enumeration AlgorithmHint_value (def_algorithm_hint v) @
     put_enumeration CollectiveScope_value (def_scope v) @
     put_string (def_label v) @
     put_identity (def_origin_node v) @ put_identity (def_fabric v) @
     put_list put_identity (def_participants v) @
     put_list encode_phase (def_phases v) @
     put_list encode_step (def_steps v) @
     encode_metadata (def_metadata v) @
     put_boolean (def_declares_barrier_semantics v) @
     put_u64 (def_logical_bytes v) @
     put_u64 (def_registration_sequence v)"

definition decode_definition :: "(Status, CollectiveDefinition) reader" where
  "decode_definition =
     then_read reader_identity (\<lambda>id.
     then_read reader_identity (\<lambda>generation.
     then_read (reader_enumeration CollectiveClass_cast 14 ''collective class'') (\<lambda>collective_class.
     then_read (reader_enumeration AlgorithmHint_cast 11 ''algorithm hint'') (\<lambda>algorithm_hint.
     then_read (reader_enumeration CollectiveScope_cast 5 ''collective scope'') (\<lambda>scope.
     then_read (reader_string kLabelBytesMax) (\<lambda>label.
     then_read reader_identity (\<lambda>origin_node.
     then_read reader_identity (\<lambda>fabric.
     then_read decode_participants (\<lambda>participants.
     then_read (reader_list kPhasesMaxPerCollective decode_phase) (\<lambda>phases.
     then_read (reader_list (kPhasesMaxPerCollective * kStepsMaxPerPhase) decode_step) (\<lambda>steps.
     then_read (reader_count kMetadataEntriesMax) (\<lambda>metadata_count.
     then_read (decode_metadata metadata_count []) (\<lambda>metadata.
     then_read reader_boolean (\<lambda>barrier.
     then_read reader_u64 (\<lambda>logical_bytes.
     then_read reader_u64 (\<lambda>registration_sequence.
     yield \<lparr>def_id = id, def_generation = generation, def_collective_class = collective_class,
            def_algorithm_hint = algorithm_hint, def_scope = scope, def_label = label,
            def_origin_node = origin_node, def_fabric = fabric, def_participants = participants,
            def_phases = phases, def_steps = steps, def_metadata = metadata,
            def_declares_barrier_semantics = barrier, def_logical_bytes = logical_bytes,
            def_registration_sequence = registration_sequence\<rparr>))))))))))))))))"


section \<open>Plans and flow groups\<close>

definition encode_edge :: "FlowEdge \<Rightarrow> u8 list" where
  "encode_edge v =
     put_identity (edge_source v) @
     put_identity (edge_destination v) @
     put_u64 (edge_logical_bytes v) @
     put_u64 (edge_step_index v) @
     put_enumeration AlgorithmHint_value (edge_hint v) @
     put_boolean (edge_crosses_rack v)"

definition decode_edge :: "(Status, FlowEdge) reader" where
  "decode_edge =
     then_read reader_identity (\<lambda>source.
     then_read reader_identity (\<lambda>destination.
     then_read reader_u64 (\<lambda>logical_bytes.
     then_read reader_u64 (\<lambda>step.
     then_read (reader_enumeration AlgorithmHint_cast 11 ''edge algorithm hint'') (\<lambda>hint.
     then_read reader_boolean (\<lambda>crosses_rack.
     yield \<lparr>edge_source = source, edge_destination = destination, edge_logical_bytes =
            logical_bytes, edge_step_index = step, edge_hint = hint, edge_crosses_rack =
            crosses_rack\<rparr>))))))"

definition encode_flow_group_plan :: "FlowGroupPlan \<Rightarrow> u8 list" where
  "encode_flow_group_plan v =
     put_identity (inst_id (plan_instance v)) @
     put_identity (inst_generation (plan_instance v)) @
     put_identity (inst_attempt (plan_instance v)) @
     put_u64 (inst_attempt_sequence (plan_instance v)) @
     put_enumeration CollectiveClass_value (plan_collective_class v) @
     put_enumeration FlowPattern_value (plan_pattern v) @
     put_enumeration FlowDirection_value (plan_direction v) @
     put_u64 (plan_sequence v) @
     put_boolean (plan_requires_simultaneous_start v) @
     put_list encode_edge (plan_edges v)"

definition decode_flow_group_plan :: "(Status, FlowGroupPlan) reader" where
  "decode_flow_group_plan =
     then_read reader_identity (\<lambda>id.
     then_read reader_identity (\<lambda>generation.
     then_read reader_identity (\<lambda>attempt.
     then_read reader_u64 (\<lambda>attempt_sequence.
     then_read (reader_enumeration CollectiveClass_cast 14 ''collective class'') (\<lambda>collective_class.
     then_read (reader_enumeration FlowPattern_cast 10 ''flow pattern'') (\<lambda>pattern.
     then_read (reader_enumeration FlowDirection_cast 2 ''flow direction'') (\<lambda>direction.
     then_read reader_u64 (\<lambda>sequence.
     then_read reader_boolean (\<lambda>simultaneous.
     then_read (reader_list kEdgesMaxPerFlowGroup decode_edge) (\<lambda>edges.
     yield \<lparr>plan_instance = \<lparr>inst_id = id, inst_generation = generation, inst_attempt =
            attempt, inst_attempt_sequence = attempt_sequence\<rparr>, plan_collective_class =
            collective_class, plan_pattern = pattern, plan_direction = direction, plan_edges =
            edges, plan_sequence = sequence, plan_requires_simultaneous_start = simultaneous\<rparr>))))))))))"

definition encode_flow_group :: "FlowGroup \<Rightarrow> u8 list" where
  "encode_flow_group v =
     put_identity (group_id v) @
     put_identity (inst_id (group_instance v)) @
     put_identity (inst_generation (group_instance v)) @
     put_identity (inst_attempt (group_instance v)) @
     put_enumeration CollectiveClass_value (group_collective_class v) @
     put_enumeration FlowPattern_value (group_pattern v) @
     put_enumeration FlowDirection_value (group_direction v) @
     put_list encode_edge (group_edges v) @
     put_list put_identity (group_participants v) @
     put_u64 (group_total_logical_bytes v) @
     put_u32 (group_max_fan_out v) @
     put_u32 (group_max_fan_in v) @
     put_u32 (group_cross_rack_edge_count v) @
     put_boolean (group_requires_simultaneous_start v) @
     put_u64 (group_plan_sequence v)"

definition decode_flow_group :: "(Status, FlowGroup) reader" where
  "decode_flow_group =
     then_read reader_identity (\<lambda>group.
     then_read reader_identity (\<lambda>id.
     then_read reader_identity (\<lambda>generation.
     then_read reader_identity (\<lambda>attempt.
     then_read (reader_enumeration CollectiveClass_cast 14 ''collective class'') (\<lambda>collective_class.
     then_read (reader_enumeration FlowPattern_cast 10 ''flow pattern'') (\<lambda>pattern.
     then_read (reader_enumeration FlowDirection_cast 2 ''flow direction'') (\<lambda>direction.
     then_read (reader_list kEdgesMaxPerFlowGroup decode_edge) (\<lambda>edges.
     then_read (reader_list kParticipantsMaxPerCollective reader_identity) (\<lambda>participants.
     then_read reader_u64 (\<lambda>total.
     then_read reader_u32 (\<lambda>fan_out.
     then_read reader_u32 (\<lambda>fan_in.
     then_read reader_u32 (\<lambda>cross_rack.
     then_read reader_boolean (\<lambda>simultaneous.
     then_read reader_u64 (\<lambda>sequence.
     yield \<lparr>group_id = group, group_instance = \<lparr>inst_id = id, inst_generation = generation,
            inst_attempt = attempt, inst_attempt_sequence = 0\<rparr>, group_collective_class =
            collective_class, group_pattern = pattern, group_direction = direction, group_edges =
            edges, group_participants = participants, group_total_logical_bytes = total,
            group_max_fan_out = fan_out, group_max_fan_in = fan_in, group_cross_rack_edge_count =
            cross_rack, group_requires_simultaneous_start = simultaneous, group_plan_sequence =
            sequence\<rparr>)))))))))))))))"


section \<open>Evidence and policies\<close>

definition encode_link_capacity :: "LinkCapacity \<Rightarrow> u8 list" where
  "encode_link_capacity v =
     put_identity (lcap_link v) @
     put_u64 (lcap_provisioned_bps v) @
     put_u64 (lcap_available_bps v) @
     put_u32 (lcap_utilization_bps v) @
     put_boolean (lcap_oversubscribed v) @
     put_u32 (lcap_oversubscription_ratio_per_mille v)"

definition decode_link_capacity :: "(Status, LinkCapacity) reader" where
  "decode_link_capacity =
     then_read reader_identity (\<lambda>link.
     then_read reader_u64 (\<lambda>provisioned_bps.
     then_read reader_u64 (\<lambda>available_bps.
     then_read reader_u32 (\<lambda>utilization_bps.
     then_read reader_boolean (\<lambda>oversubscribed.
     then_read reader_u32 (\<lambda>ratio.
     yield \<lparr>lcap_link = link, lcap_provisioned_bps = provisioned_bps, lcap_available_bps =
            available_bps, lcap_utilization_bps = utilization_bps, lcap_oversubscribed =
            oversubscribed, lcap_oversubscription_ratio_per_mille = ratio\<rparr>))))))"

definition encode_link_congestion :: "LinkCongestion \<Rightarrow> u8 list" where
  "encode_link_congestion v =
     put_identity (lcon_link v) @
     put_u32 (lcon_utilization_bps v) @
     put_u32 (lcon_queue_depth_bytes v) @
     put_u32 (lcon_ecn_marks_per_mille v) @
     put_u32 (lcon_pfc_pause_per_mille v) @
     put_enumeration CongestionLevel_value (lcon_level v)"

definition decode_link_congestion :: "(Status, LinkCongestion) reader" where
  "decode_link_congestion =
     then_read reader_identity (\<lambda>link.
     then_read reader_u32 (\<lambda>utilization_bps.
     then_read reader_u32 (\<lambda>queue_depth_bytes.
     then_read reader_u32 (\<lambda>ecn.
     then_read reader_u32 (\<lambda>pfc.
     then_read (reader_enumeration CongestionLevel_cast 5 ''congestion level'') (\<lambda>level.
     yield \<lparr>lcon_link = link, lcon_utilization_bps = utilization_bps, lcon_queue_depth_bytes =
            queue_depth_bytes, lcon_ecn_marks_per_mille = ecn, lcon_pfc_pause_per_mille = pfc,
            lcon_level = level\<rparr>))))))"

definition encode_node :: "TopologyNode \<Rightarrow> u8 list" where
  "encode_node v =
     put_identity (node_id v) @
     put_identity (node_rack v) @
     put_boolean (node_accelerator_attached v) @
     put_u32 (node_accelerator_count v)"

definition decode_node :: "(Status, TopologyNode) reader" where
  "decode_node =
     then_read reader_identity (\<lambda>id.
     then_read reader_identity (\<lambda>rack.
     then_read reader_boolean (\<lambda>attached.
     then_read reader_u32 (\<lambda>count.
     yield \<lparr>node_id = id, node_rack = rack, node_accelerator_attached = attached,
            node_accelerator_count = count\<rparr>))))"

definition encode_link :: "TopologyLink \<Rightarrow> u8 list" where
  "encode_link v =
     put_identity (link_id v) @
     put_identity (link_a v) @
     put_identity (link_b v) @
     put_enumeration LinkClass_value (link_class v) @
     put_u64 (link_capacity_bps v) @
     put_u32 (link_lanes v) @
     put_boolean (link_shared_oversubscribed v)"

definition decode_link :: "(Status, TopologyLink) reader" where
  "decode_link =
     then_read reader_identity (\<lambda>id.
     then_read reader_identity (\<lambda>a.
     then_read reader_identity (\<lambda>b.
     then_read (reader_enumeration LinkClass_cast 5 ''link class'') (\<lambda>class.
     then_read reader_u64 (\<lambda>capacity_bps.
     then_read reader_u32 (\<lambda>lanes.
     then_read reader_boolean (\<lambda>shared.
     yield \<lparr>link_id = id, link_a = a, link_b = b, link_class = class, link_capacity_bps =
            capacity_bps, link_lanes = lanes, link_shared_oversubscribed = shared\<rparr>)))))))"

definition encode_capacity :: "CapacityEvidence \<Rightarrow> u8 list" where
  "encode_capacity v =
     put_identity (cap_generation v) @
     put_identity (cap_topology_generation v) @
     put_u64 (cap_captured_monotonic_ms v) @
     put_boolean (cap_synthetic v) @
     put_list encode_link_capacity (cap_links v)"

definition decode_capacity :: "(Status, CapacityEvidence) reader" where
  "decode_capacity =
     then_read reader_identity (\<lambda>generation.
     then_read reader_identity (\<lambda>topology_generation.
     then_read reader_u64 (\<lambda>captured.
     then_read reader_boolean (\<lambda>synthetic.
     then_read (reader_list kTopologyLinksMax decode_link_capacity) (\<lambda>links.
     yield (capacity_canonicalize \<lparr>cap_generation = generation, cap_topology_generation = topology_generation, cap_links
            = links, cap_captured_monotonic_ms = captured, cap_synthetic = synthetic\<rparr>))))))"

definition encode_congestion :: "CongestionEvidence \<Rightarrow> u8 list" where
  "encode_congestion v =
     put_identity (con_generation v) @
     put_identity (con_topology_generation v) @
     put_u64 (con_captured_monotonic_ms v) @
     put_u64 (con_valid_for_ms v) @
     put_boolean (con_synthetic v) @
     put_list encode_link_congestion (con_links v)"

definition decode_congestion :: "(Status, CongestionEvidence) reader" where
  "decode_congestion =
     then_read reader_identity (\<lambda>generation.
     then_read reader_identity (\<lambda>topology_generation.
     then_read reader_u64 (\<lambda>captured.
     then_read reader_u64 (\<lambda>valid_for.
     then_read reader_boolean (\<lambda>synthetic.
     then_read (reader_list kTopologyLinksMax decode_link_congestion) (\<lambda>links.
     yield (congestion_canonicalize \<lparr>con_generation = generation, con_topology_generation = topology_generation, con_links
            = links, con_captured_monotonic_ms = captured, con_valid_for_ms = valid_for,
            con_synthetic = synthetic\<rparr>)))))))"

definition encode_topology :: "TopologyEvidence \<Rightarrow> u8 list" where
  "encode_topology v =
     put_identity (topo_generation v) @
     put_u64 (topo_captured_monotonic_ms v) @
     put_boolean (topo_synthetic v) @
     put_list encode_node (topo_nodes v) @
     put_list encode_link (topo_links v)"

definition decode_topology :: "(Status, TopologyEvidence) reader" where
  "decode_topology =
     then_read reader_identity (\<lambda>generation.
     then_read reader_u64 (\<lambda>captured.
     then_read reader_boolean (\<lambda>synthetic.
     then_read (reader_list kTopologyNodesMax decode_node) (\<lambda>nodes.
     then_read (reader_list kTopologyLinksMax decode_link) (\<lambda>links.
     yield (topology_canonicalize \<lparr>topo_generation = generation, topo_nodes = nodes, topo_links = links,
            topo_captured_monotonic_ms = captured, topo_synthetic = synthetic\<rparr>))))))"

definition encode_class_policy :: "TrafficClassPolicy \<Rightarrow> u8 list" where
  "encode_class_policy v =
     put_enumeration TrafficClass_value (tcp_traffic_class v) @
     put_u64 (tcp_priority v) @
     put_u64 (tcp_minimum_bandwidth_bps v) @
     put_u64 (tcp_maximum_bandwidth_bps v) @
     put_u64 (tcp_burst_bytes v) @
     put_boolean (tcp_requires_simultaneous_start v) @
     put_boolean (tcp_requires_evidence_freshness v) @
     put_enumeration IsolationMode_value (tcp_isolation v)"

definition decode_class_policy :: "(Status, TrafficClassPolicy) reader" where
  "decode_class_policy =
     then_read (reader_enumeration TrafficClass_cast 7 ''traffic class'') (\<lambda>traffic_class.
     then_read reader_u64 (\<lambda>priority.
     then_read reader_u64 (\<lambda>minimum.
     then_read reader_u64 (\<lambda>maximum.
     then_read reader_u64 (\<lambda>burst.
     then_read reader_boolean (\<lambda>simultaneous.
     then_read reader_boolean (\<lambda>freshness.
     then_read (reader_enumeration IsolationMode_cast 2 ''isolation mode'') (\<lambda>isolation.
     yield \<lparr>tcp_traffic_class = traffic_class, tcp_priority = priority, tcp_minimum_bandwidth_bps
            = minimum, tcp_maximum_bandwidth_bps = maximum, tcp_burst_bytes = burst,
            tcp_requires_simultaneous_start = simultaneous, tcp_requires_evidence_freshness =
            freshness, tcp_isolation = isolation\<rparr>))))))))"

definition encode_collective_policy :: "CollectiveClassPolicy \<Rightarrow> u8 list" where
  "encode_collective_policy v =
     put_enumeration CollectiveClass_value (ccp_collective_class v) @
     put_enumeration TrafficClass_value (ccp_traffic_class v) @
     put_boolean (ccp_admit_when_unknown_semantics v) @
     put_boolean (ccp_allow_member_override v) @
     put_u64 (ccp_freshness_requirement_ms v)"

definition decode_collective_policy :: "(Status, CollectiveClassPolicy) reader" where
  "decode_collective_policy =
     then_read (reader_enumeration CollectiveClass_cast 14 ''collective class'') (\<lambda>collective_class.
     then_read (reader_enumeration TrafficClass_cast 7 ''traffic class'') (\<lambda>traffic_class.
     then_read reader_boolean (\<lambda>admit_unknown.
     then_read reader_boolean (\<lambda>allow_override.
     then_read reader_u64 (\<lambda>freshness.
     yield \<lparr>ccp_collective_class = collective_class, ccp_traffic_class = traffic_class,
            ccp_admit_when_unknown_semantics = admit_unknown, ccp_allow_member_override =
            allow_override, ccp_freshness_requirement_ms = freshness\<rparr>)))))"

definition encode_response :: "CongestionResponseTable \<Rightarrow> u8 list" where
  "encode_response t =
     concat (map (\<lambda>index. put_u32 (crt_utilization_bps t ! index) @ put_u32 (crt_rate_numerator_per_mille t ! index))
       [0..<kBucketCount])"

definition decode_response :: "(Status, CongestionResponseTable) reader" where
  "decode_response =
     then_read (read_many kBucketCount
       (then_read reader_u32 (\<lambda>utilization. then_read reader_u32 (\<lambda>rate. yield (utilization, rate))))) (\<lambda>buckets.
     yield \<lparr>crt_utilization_bps = map fst buckets, crt_rate_numerator_per_mille = map snd buckets\<rparr>)"

definition encode_traffic_policy :: "TrafficPolicy \<Rightarrow> u8 list" where
  "encode_traffic_policy v =
     put_identity (pol_generation v) @
     put_u64 (pol_default_maximum_bandwidth_bps v) @
     put_u64 (pol_burst_multiplier_per_mille v) @
     encode_response (pol_congestion_response v) @
     put_list encode_class_policy (pol_class_policies v) @
     put_list encode_collective_policy (pol_collective_policies v)"

definition decode_traffic_policy :: "(Status, TrafficPolicy) reader" where
  "decode_traffic_policy =
     then_read reader_identity (\<lambda>generation.
     then_read reader_u64 (\<lambda>default_maximum.
     then_read reader_u64 (\<lambda>burst_multiplier.
     then_read decode_response (\<lambda>response.
     then_read (reader_list 16 decode_class_policy) (\<lambda>classes.
     then_read (reader_list 16 decode_collective_policy) (\<lambda>collectives.
     yield \<lparr>pol_generation = generation, pol_class_policies = classes, pol_collective_policies =
            collectives, pol_congestion_response = response, pol_default_maximum_bandwidth_bps =
            default_maximum, pol_burst_multiplier_per_mille = burst_multiplier\<rparr>))))))"


section \<open>Requests and decisions\<close>

definition encode_decision_request :: "DecisionRequest \<Rightarrow> u8 list" where
  "encode_decision_request v =
     put_identity (req_session v) @
     put_identity (inst_id (req_instance v)) @
     put_identity (inst_generation (req_instance v)) @
     put_identity (inst_attempt (req_instance v)) @
     put_u64 (inst_attempt_sequence (req_instance v)) @
     put_identity (req_observed_topology_generation v) @
     put_identity (req_observed_policy_generation v) @
     put_identity (req_observed_epoch v) @
     put_identity (req_observed_capacity_generation v) @
     put_identity (req_observed_congestion_generation v) @
     put_boolean (req_has_flow_group_plan v) @
     (if req_has_flow_group_plan v then encode_flow_group_plan (req_plan v) else []) @
     put_boolean (req_has_requested_class v) @
     put_enumeration TrafficClass_value (req_requested_class v) @
     put_u64 (req_requested_transfer_bytes v)"

definition decode_decision_request :: "(Status, DecisionRequest) reader" where
  "decode_decision_request =
     then_read reader_identity (\<lambda>session.
     then_read reader_identity (\<lambda>id.
     then_read reader_identity (\<lambda>generation.
     then_read reader_identity (\<lambda>attempt.
     then_read reader_u64 (\<lambda>attempt_sequence.
     then_read reader_identity (\<lambda>topology_generation.
     then_read reader_identity (\<lambda>policy_generation.
     then_read reader_identity (\<lambda>epoch.
     then_read reader_identity (\<lambda>capacity_generation.
     then_read reader_identity (\<lambda>congestion_generation.
     then_read reader_boolean (\<lambda>has_plan.
     then_read (if has_plan then decode_flow_group_plan else yield FlowGroupPlan_default) (\<lambda>plan.
     then_read reader_boolean (\<lambda>has_class.
     then_read (reader_enumeration TrafficClass_cast 7 ''requested traffic class'') (\<lambda>requested_class.
     then_read reader_u64 (\<lambda>transfer_bytes.
     yield \<lparr>req_session = session,
            req_instance = \<lparr>inst_id = id, inst_generation = generation, inst_attempt = attempt,
              inst_attempt_sequence = attempt_sequence\<rparr>,
            req_observed_topology_generation = topology_generation,
            req_observed_policy_generation = policy_generation, req_observed_epoch = epoch,
            req_observed_capacity_generation = capacity_generation,
            req_observed_congestion_generation = congestion_generation,
            req_has_flow_group_plan = has_plan, req_plan = plan, req_has_requested_class = has_class,
            req_requested_class = requested_class, req_requested_transfer_bytes = transfer_bytes\<rparr>)))))))))))))))"

definition encode_pacing :: "DecisionRecord \<Rightarrow> u8 list" where
  "encode_pacing v =
     put_enumeration PacingMode_value (pi_mode (rec_pacing v)) @
     put_identity (rec_flow_group v) @
     put_identity (inst_id (rec_instance v)) @
     put_identity (inst_generation (rec_instance v)) @
     put_identity (inst_attempt (rec_instance v)) @
     put_u64 (pi_admitted_bandwidth_bps (rec_pacing v)) @
     put_u64 (pi_ceiling_bandwidth_bps (rec_pacing v)) @
     put_u64 (pi_burst_bytes (rec_pacing v)) @
     put_u64 (pi_utilization_bps (rec_pacing v)) @
     put_u64 (pi_release_after_monotonic_ms (rec_pacing v))"

definition decode_pacing :: "(Status, PacingIntent) reader" where
  "decode_pacing =
     then_read (reader_enumeration PacingMode_cast 4 ''pacing mode'') (\<lambda>mode.
     then_read reader_identity (\<lambda>flow_group.
     then_read reader_identity (\<lambda>id.
     then_read reader_identity (\<lambda>generation.
     then_read reader_identity (\<lambda>attempt.
     then_read reader_u64 (\<lambda>admitted.
     then_read reader_u64 (\<lambda>ceiling.
     then_read reader_u64 (\<lambda>burst.
     then_read reader_u64 (\<lambda>utilization.
     then_read reader_u64 (\<lambda>release_after.
     yield \<lparr>pi_mode = mode, pi_flow_group = flow_group,
            pi_instance = \<lparr>inst_id = id, inst_generation = generation, inst_attempt = attempt,
              inst_attempt_sequence = 0\<rparr>,
            pi_admitted_bandwidth_bps = admitted, pi_ceiling_bandwidth_bps = ceiling, pi_burst_bytes = burst,
            pi_utilization_bps = utilization, pi_release_after_monotonic_ms = release_after,
            pi_reason_code = no_identity\<rparr>))))))))))"

definition encode_sync :: "SyncSensitivity \<Rightarrow> u8 list" where
  "encode_sync v =
     put_enumeration SyncKind_value (sync_kind v) @
     put_enumeration SyncBasis_value (sync_basis v) @
     put_boolean (sync_latency_critical v) @
     put_boolean (sync_all_members_must_arrive v) @
     put_boolean (sync_completion_ordering_matters v) @
     put_u32 (sync_barrier_member_count v) @
     put_u64 (sync_maximum_skew_micros v)"

definition decode_sync :: "(Status, SyncSensitivity) reader" where
  "decode_sync =
     then_read (reader_enumeration SyncKind_cast 5 ''sync kind'') (\<lambda>kind.
     then_read (reader_enumeration SyncBasis_cast 5 ''sync basis'') (\<lambda>basis.
     then_read reader_boolean (\<lambda>latency_critical.
     then_read reader_boolean (\<lambda>all_arrive.
     then_read reader_boolean (\<lambda>ordering.
     then_read reader_u32 (\<lambda>members.
     then_read reader_u64 (\<lambda>skew.
     yield \<lparr>sync_kind = kind, sync_basis = basis, sync_latency_critical = latency_critical,
            sync_all_members_must_arrive = all_arrive, sync_completion_ordering_matters =
            ordering, sync_barrier_member_count = members, sync_maximum_skew_micros = skew\<rparr>)))))))"

text \<open>An error code travels in four bytes; a number beyond the last code is refused.\<close>

definition decode_error_code :: "(Status, ErrorCode) reader" where
  "decode_error_code =
     then_read reader_u32 (\<lambda>code.
     if code > ucast ErrorCode_kInternalUnsupported
     then fail (Status ErrorCode_kDecodeInvalidEnum ''error code is not defined by this version'')
     else yield (ucast code))"

definition encode_decision_record :: "DecisionRecord \<Rightarrow> Status + u8 list" where
  "encode_decision_record v =
     (case encode_reason_chain (rec_reasons v) of
        Inl status \<Rightarrow> Inl status
      | Inr reasons \<Rightarrow> Inr (
          put_identity (inst_id (rec_instance v)) @
          put_identity (inst_generation (rec_instance v)) @
          put_identity (inst_attempt (rec_instance v)) @
          put_u64 (inst_attempt_sequence (rec_instance v)) @
          put_enumeration CollectiveClass_value (rec_collective_class v) @
          put_enumeration AlgorithmHint_value (rec_algorithm_hint v) @
          put_enumeration Outcome_value (rec_outcome v) @
          put_enumeration AuthorityAxis_value (rec_axis v) @
          put_u32 (ucast (rec_code v)) @
          put_identity (rec_flow_group v) @
          put_boolean (rec_flow_group_constructed v) @
          encode_flow_group (rec_group v) @
          put_list put_identity (rec_participants v) @
          put_enumeration TrafficClass_value (rec_traffic_class v) @
          put_u64 (rec_priority v) @
          put_enumeration IsolationMode_value (rec_isolation v) @
          encode_pacing v @
          encode_sync (rec_sync v) @
          put_identity (rec_collective_generation v) @
          put_identity (rec_topology_generation v) @
          put_identity (rec_policy_generation v) @
          put_identity (rec_capacity_generation v) @
          put_identity (rec_congestion_generation v) @
          put_identity (rec_epoch v) @
          put_boolean (rec_congestion_evidence_used v) @
          put_boolean (rec_capacity_evidence_used v) @
          put_boolean (rec_all_members_live v) @
          put_u64 (rec_phase_index v) @
          put_u64 (rec_step_index v) @
          reasons @
          put_u64 (rec_decided_monotonic_ms v) @
          put_u64 (rec_decision_sequence v)))"

definition decode_decision_record :: "(Status, DecisionRecord) reader" where
  "decode_decision_record =
     then_read reader_identity (\<lambda>id.
     then_read reader_identity (\<lambda>generation.
     then_read reader_identity (\<lambda>attempt.
     then_read reader_u64 (\<lambda>attempt_sequence.
     then_read (reader_enumeration CollectiveClass_cast 14 ''collective class'') (\<lambda>collective_class.
     then_read (reader_enumeration AlgorithmHint_cast 11 ''algorithm hint'') (\<lambda>algorithm_hint.
     then_read (reader_enumeration Outcome_cast 8 ''outcome'') (\<lambda>outcome.
     then_read (reader_enumeration AuthorityAxis_cast 11 ''authority axis'') (\<lambda>axis.
     then_read decode_error_code (\<lambda>code.
     then_read reader_identity (\<lambda>flow_group.
     then_read reader_boolean (\<lambda>constructed.
     then_read decode_flow_group (\<lambda>group.
     then_read (reader_list kParticipantsMaxPerCollective reader_identity) (\<lambda>participants.
     then_read (reader_enumeration TrafficClass_cast 7 ''traffic class'') (\<lambda>traffic_class.
     then_read reader_u64 (\<lambda>priority.
     then_read (reader_enumeration IsolationMode_cast 2 ''isolation mode'') (\<lambda>isolation.
     then_read decode_pacing (\<lambda>pacing.
     then_read decode_sync (\<lambda>sync.
     then_read reader_identity (\<lambda>collective_generation.
     then_read reader_identity (\<lambda>topology_generation.
     then_read reader_identity (\<lambda>policy_generation.
     then_read reader_identity (\<lambda>capacity_generation.
     then_read reader_identity (\<lambda>congestion_generation.
     then_read reader_identity (\<lambda>epoch.
     then_read reader_boolean (\<lambda>congestion_used.
     then_read reader_boolean (\<lambda>capacity_used.
     then_read reader_boolean (\<lambda>all_live.
     then_read reader_u64 (\<lambda>phase.
     then_read reader_u64 (\<lambda>step.
     then_read decode_reason_chain (\<lambda>reasons.
     then_read reader_u64 (\<lambda>decided.
     then_read reader_u64 (\<lambda>sequence.
     yield \<lparr>rec_instance = \<lparr>inst_id = id, inst_generation = generation, inst_attempt = attempt,
              inst_attempt_sequence = attempt_sequence\<rparr>,
            rec_collective_class = collective_class, rec_algorithm_hint = algorithm_hint, rec_outcome = outcome,
            rec_axis = axis, rec_code = code, rec_flow_group = flow_group,
            rec_flow_group_constructed = constructed, rec_group = group, rec_participants = participants,
            rec_traffic_class = traffic_class, rec_priority = priority, rec_isolation = isolation,
            rec_pacing = pacing, rec_sync = sync, rec_collective_generation = collective_generation,
            rec_topology_generation = topology_generation, rec_policy_generation = policy_generation,
            rec_capacity_generation = capacity_generation, rec_congestion_generation = congestion_generation,
            rec_epoch = epoch, rec_congestion_evidence_used = congestion_used,
            rec_capacity_evidence_used = capacity_used, rec_all_members_live = all_live,
            rec_phase_index = phase, rec_step_index = step, rec_reasons = reasons,
            rec_decided_monotonic_ms = decided, rec_decision_sequence = sequence\<rparr>))))))))))))))))))))))))))))))))"


section \<open>Primitive fields\<close>

interpretation wire_u8: codec "\<lambda>_. True" put_u8 reader_u8
  unfolding reader_u8_def by (rule codec_u8)

interpretation wire_u16: codec "\<lambda>_. True" put_u16 reader_u16
  unfolding reader_u16_def by (rule codec_u16)

interpretation wire_u32: codec "\<lambda>_. True" put_u32 reader_u32
  unfolding reader_u32_def by (rule codec_u32)

interpretation wire_u64: codec "\<lambda>_. True" put_u64 reader_u64
  unfolding reader_u64_def by (rule codec_u64)

interpretation wire_identity: codec "\<lambda>_. True" put_identity reader_identity
  unfolding reader_identity_def by (rule codec_identity)

interpretation wire_boolean: codec "\<lambda>_. True" put_boolean reader_boolean
  unfolding reader_boolean_def by (rule codec_boolean)

lemma codec_wire_string:
  "max_bytes < 4294967296 \<Longrightarrow> codec (\<lambda>s. length s \<le> max_bytes) put_string (reader_string max_bytes)"
  unfolding reader_string_def by (rule codec_string)

lemma codec_wire_count:
  "max_count < 4294967296 \<Longrightarrow> codec (\<lambda>n. n \<le> max_count) (\<lambda>n. put_u32 (of_nat n)) (reader_count max_count)"
  unfolding reader_count_def by (rule codec_count)

lemma codec_wire_list:
  assumes "codec ok enc dec" "max_count < 4294967296"
  shows "codec (\<lambda>xs. length xs \<le> max_count \<and> list_all ok xs) (put_list enc) (reader_list max_count dec)"
  using codec_list [OF assms, of decode_truncated] by (simp add: reader_list_def get_list_def reader_count_def)

interpretation wire_label: codec "\<lambda>s. length s \<le> kLabelBytesMax" put_string "reader_string kLabelBytesMax"
  by (rule codec_wire_string) (simp add: kLabelBytesMax_def)

interpretation wire_key: codec "\<lambda>s. length s \<le> kMetadataKeyBytesMax" put_string "reader_string kMetadataKeyBytesMax"
  by (rule codec_wire_string) (simp add: kMetadataKeyBytesMax_def)

interpretation wire_value: codec "\<lambda>s. length s \<le> kMetadataValueBytesMax" put_string "reader_string kMetadataValueBytesMax"
  by (rule codec_wire_string) (simp add: kMetadataValueBytesMax_def)

interpretation wire_code: codec "\<lambda>s. length s \<le> 128" put_string "reader_string 128"
  by (rule codec_wire_string) simp

interpretation wire_detail: codec "\<lambda>s. length s \<le> kReasonDetailBytesMax" put_string "reader_string kReasonDetailBytesMax"
  by (rule codec_wire_string) (simp add: kReasonDetailBytesMax_def)

interpretation wire_text: codec "\<lambda>s. length s \<le> kFramePayloadMaxBytes" put_string "reader_string kFramePayloadMaxBytes"
  by (rule codec_wire_string) (simp add: kFramePayloadMaxBytes_def)

lemmas wire_enumerations = enumeration_codecs [of decode_truncated
    "Status ErrorCode_kDecodeInvalidEnum (what @ '' is not defined by this version'')" for what,
    folded reader_enumeration_def]

lemmas [codec_simps] = wire_u8.decode_iff wire_u16.decode_iff wire_u32.decode_iff wire_u64.decode_iff
  wire_identity.decode_iff wire_boolean.decode_iff wire_label.decode_iff wire_key.decode_iff wire_value.decode_iff
  wire_code.decode_iff wire_detail.decode_iff wire_text.decode_iff wire_enumerations [THEN codec.decode_iff]

lemmas [read_simps] = wire_u8.then_decode wire_u16.then_decode wire_u32.then_decode wire_u64.then_decode
  wire_identity.then_decode wire_boolean.then_decode wire_label.then_decode wire_key.then_decode wire_value.then_decode
  wire_code.then_decode wire_detail.then_decode wire_text.then_decode
  wire_enumerations [THEN codec.axioms(1), THEN decodes.then_decode]


section \<open>What fits into a message\<close>

definition phase_fits :: "CollectivePhase \<Rightarrow> bool" where
  "phase_fits v \<longleftrightarrow>
     length (phase_label v) \<le> kLabelBytesMax"

definition plan_fits :: "FlowGroupPlan \<Rightarrow> bool" where
  "plan_fits v \<longleftrightarrow>
     length (plan_edges v) \<le> kEdgesMaxPerFlowGroup"

definition group_fits :: "FlowGroup \<Rightarrow> bool" where
  "group_fits v \<longleftrightarrow>
     length (group_edges v) \<le> kEdgesMaxPerFlowGroup \<and>
     length (group_participants v) \<le> kParticipantsMaxPerCollective"


section \<open>Nested fields\<close>

interpretation wire_phase: codec phase_fits encode_phase decode_phase
proof (rule codec_iffI)
  show "decode_phase bs = Inr (v, rest) \<longleftrightarrow> phase_fits v \<and> bs = encode_phase v @ rest" for bs v rest
    by (cases v) (auto simp: decode_phase_def encode_phase_def phase_fits_def codec_simps)
qed

lemmas [codec_simps] = wire_phase.decode_iff
lemmas [read_simps] = wire_phase.then_decode

interpretation wire_step: codec "\<lambda>_. True" encode_step decode_step
proof (rule codec_iffI)
  show "decode_step bs = Inr (v, rest) \<longleftrightarrow> True \<and> bs = encode_step v @ rest" for bs v rest
    by (cases v) (auto simp: decode_step_def encode_step_def codec_simps)
qed

lemmas [codec_simps] = wire_step.decode_iff
lemmas [read_simps] = wire_step.then_decode

interpretation wire_phases: codec "\<lambda>xs. length xs \<le> kPhasesMaxPerCollective \<and> list_all phase_fits xs"
    "put_list encode_phase" "reader_list kPhasesMaxPerCollective decode_phase"
  by (rule codec_wire_list [OF wire_phase.codec_axioms]) (simp add: kPhasesMaxPerCollective_def)

lemmas [codec_simps] = wire_phases.decode_iff
lemmas [read_simps] = wire_phases.then_decode

interpretation wire_steps: codec "\<lambda>xs. length xs \<le> (kPhasesMaxPerCollective * kStepsMaxPerPhase) \<and> list_all (\<lambda>_. True) xs"
    "put_list encode_step" "reader_list (kPhasesMaxPerCollective * kStepsMaxPerPhase) decode_step"
  by (rule codec_wire_list [OF wire_step.codec_axioms]) (simp add: kPhasesMaxPerCollective_def kStepsMaxPerPhase_def)

lemmas [codec_simps] = wire_steps.decode_iff
lemmas [read_simps] = wire_steps.then_decode

interpretation wire_edge: codec "\<lambda>_. True" encode_edge decode_edge
proof (rule codec_iffI)
  show "decode_edge bs = Inr (v, rest) \<longleftrightarrow> True \<and> bs = encode_edge v @ rest" for bs v rest
    by (cases v) (auto simp: decode_edge_def encode_edge_def codec_simps)
qed

lemmas [codec_simps] = wire_edge.decode_iff
lemmas [read_simps] = wire_edge.then_decode

interpretation wire_edges: codec "\<lambda>xs. length xs \<le> kEdgesMaxPerFlowGroup \<and> list_all (\<lambda>_. True) xs"
    "put_list encode_edge" "reader_list kEdgesMaxPerFlowGroup decode_edge"
  by (rule codec_wire_list [OF wire_edge.codec_axioms]) (simp add: kEdgesMaxPerFlowGroup_def)

lemmas [codec_simps] = wire_edges.decode_iff
lemmas [read_simps] = wire_edges.then_decode

interpretation wire_participants: codec "\<lambda>xs. length xs \<le> kParticipantsMaxPerCollective \<and> list_all (\<lambda>_. True) xs"
    "put_list put_identity" "reader_list kParticipantsMaxPerCollective reader_identity"
  by (rule codec_wire_list [OF wire_identity.codec_axioms]) (simp add: kParticipantsMaxPerCollective_def)

lemmas [codec_simps] = wire_participants.decode_iff
lemmas [read_simps] = wire_participants.then_decode

interpretation wire_flow_group_plan: codec plan_fits encode_flow_group_plan decode_flow_group_plan
proof (rule codec_iffI)
  show "decode_flow_group_plan bs = Inr (v, rest) \<longleftrightarrow> plan_fits v \<and> bs = encode_flow_group_plan v @ rest" for bs v rest
    by (cases v; cases "plan_instance v") (auto simp: decode_flow_group_plan_def encode_flow_group_plan_def plan_fits_def codec_simps)
qed

lemmas [codec_simps] = wire_flow_group_plan.decode_iff
lemmas [read_simps] = wire_flow_group_plan.then_decode

interpretation wire_link_capacity: codec "\<lambda>_. True" encode_link_capacity decode_link_capacity
proof (rule codec_iffI)
  show "decode_link_capacity bs = Inr (v, rest) \<longleftrightarrow> True \<and> bs = encode_link_capacity v @ rest" for bs v rest
    by (cases v) (auto simp: decode_link_capacity_def encode_link_capacity_def codec_simps)
qed

lemmas [codec_simps] = wire_link_capacity.decode_iff
lemmas [read_simps] = wire_link_capacity.then_decode

interpretation wire_link_congestion: codec "\<lambda>_. True" encode_link_congestion decode_link_congestion
proof (rule codec_iffI)
  show "decode_link_congestion bs = Inr (v, rest) \<longleftrightarrow> True \<and> bs = encode_link_congestion v @ rest" for bs v rest
    by (cases v) (auto simp: decode_link_congestion_def encode_link_congestion_def codec_simps)
qed

lemmas [codec_simps] = wire_link_congestion.decode_iff
lemmas [read_simps] = wire_link_congestion.then_decode

interpretation wire_node: codec "\<lambda>_. True" encode_node decode_node
proof (rule codec_iffI)
  show "decode_node bs = Inr (v, rest) \<longleftrightarrow> True \<and> bs = encode_node v @ rest" for bs v rest
    by (cases v) (auto simp: decode_node_def encode_node_def codec_simps)
qed

lemmas [codec_simps] = wire_node.decode_iff
lemmas [read_simps] = wire_node.then_decode

interpretation wire_link: codec "\<lambda>_. True" encode_link decode_link
proof (rule codec_iffI)
  show "decode_link bs = Inr (v, rest) \<longleftrightarrow> True \<and> bs = encode_link v @ rest" for bs v rest
    by (cases v) (auto simp: decode_link_def encode_link_def codec_simps)
qed

lemmas [codec_simps] = wire_link.decode_iff
lemmas [read_simps] = wire_link.then_decode

interpretation wire_capacities: codec "\<lambda>xs. length xs \<le> kTopologyLinksMax \<and> list_all (\<lambda>_. True) xs"
    "put_list encode_link_capacity" "reader_list kTopologyLinksMax decode_link_capacity"
  by (rule codec_wire_list [OF wire_link_capacity.codec_axioms]) (simp add: kTopologyLinksMax_def)

lemmas [codec_simps] = wire_capacities.decode_iff
lemmas [read_simps] = wire_capacities.then_decode

interpretation wire_congestions: codec "\<lambda>xs. length xs \<le> kTopologyLinksMax \<and> list_all (\<lambda>_. True) xs"
    "put_list encode_link_congestion" "reader_list kTopologyLinksMax decode_link_congestion"
  by (rule codec_wire_list [OF wire_link_congestion.codec_axioms]) (simp add: kTopologyLinksMax_def)

lemmas [codec_simps] = wire_congestions.decode_iff
lemmas [read_simps] = wire_congestions.then_decode

interpretation wire_nodes: codec "\<lambda>xs. length xs \<le> kTopologyNodesMax \<and> list_all (\<lambda>_. True) xs"
    "put_list encode_node" "reader_list kTopologyNodesMax decode_node"
  by (rule codec_wire_list [OF wire_node.codec_axioms]) (simp add: kTopologyNodesMax_def)

lemmas [codec_simps] = wire_nodes.decode_iff
lemmas [read_simps] = wire_nodes.then_decode

interpretation wire_links: codec "\<lambda>xs. length xs \<le> kTopologyLinksMax \<and> list_all (\<lambda>_. True) xs"
    "put_list encode_link" "reader_list kTopologyLinksMax decode_link"
  by (rule codec_wire_list [OF wire_link.codec_axioms]) (simp add: kTopologyLinksMax_def)

lemmas [codec_simps] = wire_links.decode_iff
lemmas [read_simps] = wire_links.then_decode

interpretation wire_class_policy: codec "\<lambda>_. True" encode_class_policy decode_class_policy
proof (rule codec_iffI)
  show "decode_class_policy bs = Inr (v, rest) \<longleftrightarrow> True \<and> bs = encode_class_policy v @ rest" for bs v rest
    by (cases v) (auto simp: decode_class_policy_def encode_class_policy_def codec_simps)
qed

lemmas [codec_simps] = wire_class_policy.decode_iff
lemmas [read_simps] = wire_class_policy.then_decode

interpretation wire_collective_policy: codec "\<lambda>_. True" encode_collective_policy decode_collective_policy
proof (rule codec_iffI)
  show "decode_collective_policy bs = Inr (v, rest) \<longleftrightarrow> True \<and> bs = encode_collective_policy v @ rest" for bs v rest
    by (cases v) (auto simp: decode_collective_policy_def encode_collective_policy_def codec_simps)
qed

lemmas [codec_simps] = wire_collective_policy.decode_iff
lemmas [read_simps] = wire_collective_policy.then_decode

interpretation wire_class_policies: codec "\<lambda>xs. length xs \<le> 16 \<and> list_all (\<lambda>_. True) xs"
    "put_list encode_class_policy" "reader_list 16 decode_class_policy"
  by (rule codec_wire_list [OF wire_class_policy.codec_axioms]) simp

lemmas [codec_simps] = wire_class_policies.decode_iff
lemmas [read_simps] = wire_class_policies.then_decode

interpretation wire_collective_policies: codec "\<lambda>xs. length xs \<le> 16 \<and> list_all (\<lambda>_. True) xs"
    "put_list encode_collective_policy" "reader_list 16 decode_collective_policy"
  by (rule codec_wire_list [OF wire_collective_policy.codec_axioms]) simp

lemmas [codec_simps] = wire_collective_policies.decode_iff
lemmas [read_simps] = wire_collective_policies.then_decode

interpretation wire_sync: codec "\<lambda>_. True" encode_sync decode_sync
proof (rule codec_iffI)
  show "decode_sync bs = Inr (v, rest) \<longleftrightarrow> True \<and> bs = encode_sync v @ rest" for bs v rest
    by (cases v) (auto simp: decode_sync_def encode_sync_def codec_simps)
qed

lemmas [codec_simps] = wire_sync.decode_iff
lemmas [read_simps] = wire_sync.then_decode


lemma then_count:
  "n \<le> max_count \<Longrightarrow> max_count < 4294967296 \<Longrightarrow>
   then_read (reader_count max_count) f (put_u32 (of_nat n) @ rest) = f n rest"
  using codec_wire_count [THEN codec.axioms(1), THEN decodes.then_decode] by blast

lemma count_bounds:
  "kReasonChainMax < 4294967296" "kMetadataEntriesMax < 4294967296" "kParticipantsMaxPerCollective < 4294967296"
  by (simp_all add: limit_defs)

definition reason_fits :: "Reason \<Rightarrow> bool" where
  "reason_fits r \<longleftrightarrow> reason_code r \<noteq> [] \<and> length (reason_code r) \<le> 128 \<and>
     length (reason_detail r) \<le> kReasonDetailBytesMax"

definition chain_fits :: "ReasonChain \<Rightarrow> bool" where
  "chain_fits chain \<longleftrightarrow> length chain \<le> kReasonChainMax \<and> list_all reason_fits chain"

lemma decode_reasons_back:
  "chain_fits (chain @ rs) \<Longrightarrow>
   decode_reasons (length rs) chain (concat (map encode_reason rs) @ rest) = Inr (chain @ rs, rest)"
proof (induction rs arbitrary: chain)
  case (Cons r rs)
  then have "reason_fits r" "length chain < kReasonChainMax" "chain_fits ((chain @ [r]) @ rs)"
    by (simp_all add: chain_fits_def)
  moreover from this have "chain_add_flag (reason_code r) (reason_detail r) (reason_subject r) chain = (True, chain @ [r])"
    by (cases r) (simp add: chain_add_flag_def reason_fits_def Let_def)
  ultimately show ?case
    using Cons.IH [of "chain @ [r]"] by (simp add: encode_reason_def reason_fits_def read_simps)
qed (simp add: yield_def)

interpretation wire_reasons: decodes chain_fits "put_list encode_reason" decode_reason_chain
proof
  fix chain rest assume fits: "chain_fits chain"
  note count = then_count [of _ kReasonChainMax]
  show "decode_reason_chain (put_list encode_reason chain @ rest) = Inr (chain, rest)"
    using fits decode_reasons_back [of "[]" chain rest]
    by (simp add: decode_reason_chain_def put_list_def count chain_fits_def count_bounds)
qed

lemma encode_reason_chain_fits: "chain_fits chain \<Longrightarrow> encode_reason_chain chain = Inr (put_list encode_reason chain)"
  by (simp add: encode_reason_chain_def chain_fits_def)

lemma decode_metadata_back:
  "metadata_wf (m @ entries) \<Longrightarrow>
   decode_metadata (length entries) m
     (concat (map (\<lambda>entry. put_string (fst entry) @ put_string (snd entry)) entries) @ rest) = Inr (m @ entries, rest)"
proof (induction entries arbitrary: m)
  case (Cons entry entries)
  obtain k v where entry: "entry = (k, v)" by (cases entry)
  then have "length k \<le> kMetadataKeyBytesMax" "length v \<le> kMetadataValueBytesMax"
    using Cons.prems by (auto simp: metadata_wf_def)
  with Cons.prems Cons.IH [of "m @ [entry]"] metadata_set_new [of m k v entries] show ?case
    by (simp add: entry read_simps)
qed (simp add: yield_def)

lemma then_decode_metadata:
  assumes "metadata_wf m"
  shows "then_read (reader_count kMetadataEntriesMax) (\<lambda>n. then_read (decode_metadata n []) f) (encode_metadata m @ rest) =
    f m rest"
proof -
  note count = then_count [of _ kMetadataEntriesMax]
  show ?thesis
    using assms decode_metadata_back [of "[]" m rest]
    by (simp add: encode_metadata_def put_list_def count metadata_wf_def count_bounds then_read_def [of "decode_metadata n []" for n]
        del: decode_metadata.simps)
qed

interpretation wire_required_participants: decodes "\<lambda>ps. ps \<noteq> [] \<and> length ps \<le> kParticipantsMaxPerCollective"
    "put_list put_identity" decode_participants
proof
  fix ps :: "ParticipantId list" and rest
  assume ps: "ps \<noteq> [] \<and> length ps \<le> kParticipantsMaxPerCollective"
  note count = then_count [of _ kParticipantsMaxPerCollective]
  show "decode_participants (put_list put_identity ps @ rest) = Inr (ps, rest)"
    using ps wire_identity.many_decodes [of ps rest]
    by (simp add: decode_participants_def put_list_def count count_bounds)
qed

lemmas [read_simps] = wire_reasons.then_decode wire_required_participants.then_decode then_decode_metadata

interpretation wire_definition: decodes "\<lambda>d. definition_fits d \<and> def_participants d \<noteq> []"
    encode_definition decode_definition
  by unfold_locales
    (simp add: definition_fits_def phase_fits_def [abs_def] encode_definition_def decode_definition_def read_simps)

definition group_as_sent :: "FlowGroup \<Rightarrow> FlowGroup" where
  "group_as_sent g = g\<lparr>group_instance := (group_instance g)\<lparr>inst_attempt_sequence := 0\<rparr>\<rparr>"

lemma then_decode_flow_group [read_simps]:
  "group_fits g \<Longrightarrow> then_read decode_flow_group f (encode_flow_group g @ rest) = f (group_as_sent g) rest"
proof -
  assume "group_fits g"
  then have "decode_flow_group (encode_flow_group g @ rest) = Inr (group_as_sent g, rest)"
    by (cases g; cases "group_instance g")
      (simp add: group_fits_def encode_flow_group_def decode_flow_group_def group_as_sent_def read_simps)
  then show ?thesis by (rule then_read_Inr)
qed

interpretation wire_capacity: decodes "\<lambda>c. length (cap_links c) \<le> kTopologyLinksMax \<and> ascending lcap_link (cap_links c)"
    encode_capacity decode_capacity
  by unfold_locales (simp add: encode_capacity_def decode_capacity_def capacity_canonicalize_def ascending_std_sort_id read_simps)

interpretation wire_congestion: decodes "\<lambda>c. length (con_links c) \<le> kTopologyLinksMax \<and> ascending lcon_link (con_links c)"
    encode_congestion decode_congestion
  by unfold_locales (simp add: encode_congestion_def decode_congestion_def congestion_canonicalize_def ascending_std_sort_id read_simps)

interpretation wire_topology: decodes "\<lambda>t. topology_fits t \<and> ascending node_id (topo_nodes t) \<and> ascending link_id (topo_links t)"
    encode_topology decode_topology
  by unfold_locales
    (simp add: encode_topology_def decode_topology_def topology_canonicalize_def topology_fits_def ascending_std_sort_id read_simps)

interpretation wire_response: decodes response_wf encode_response decode_response
proof
  fix t :: CongestionResponseTable and rest
  assume wf: "response_wf t"
  define pairs where "pairs = map (\<lambda>i. (crt_utilization_bps t ! i, crt_rate_numerator_per_mille t ! i)) [0..<kBucketCount]"
  have "decodes (\<lambda>_. True) (\<lambda>(u, r). put_u32 u @ put_u32 r)
      (then_read reader_u32 (\<lambda>utilization. then_read reader_u32 (\<lambda>rate. yield (utilization, rate))))"
    by unfold_locales (auto simp: read_simps)
  from decodes.many_decodes [OF this, of pairs rest]
  have "read_many kBucketCount
      (then_read reader_u32 (\<lambda>utilization. then_read reader_u32 (\<lambda>rate. yield (utilization, rate))))
      (encode_response t @ rest) = Inr (pairs, rest)"
    by (simp add: pairs_def encode_response_def comp_def)
  moreover have "map fst pairs = crt_utilization_bps t" "map snd pairs = crt_rate_numerator_per_mille t"
    using wf by (auto simp: pairs_def response_wf_def intro: nth_equalityI)
  ultimately show "decode_response (encode_response t @ rest) = Inr (t, rest)"
    by (simp add: decode_response_def then_read_def yield_def)
qed

lemmas [read_simps] = wire_response.then_decode

interpretation wire_policy: decodes policy_fits encode_traffic_policy decode_traffic_policy
  by unfold_locales (simp add: policy_fits_def encode_traffic_policy_def decode_traffic_policy_def read_simps)

lemmas [read_simps] = wire_definition.then_decode wire_capacity.then_decode wire_congestion.then_decode
  wire_topology.then_decode wire_policy.then_decode

definition request_fits :: "DecisionRequest \<Rightarrow> bool" where
  "request_fits r \<longleftrightarrow> (if req_has_flow_group_plan r then plan_fits (req_plan r) else req_plan r = FlowGroupPlan_default)"

interpretation wire_request: codec request_fits encode_decision_request decode_decision_request
proof (rule codec_iffI)
  show "decode_decision_request bs = Inr (v, rest) \<longleftrightarrow> request_fits v \<and> bs = encode_decision_request v @ rest" for bs v rest
    by (cases v; cases "req_instance v")
      (auto simp: decode_decision_request_def encode_decision_request_def request_fits_def codec_simps split: if_splits)
qed

definition pacing_as_sent :: "DecisionRecord \<Rightarrow> PacingIntent" where
  "pacing_as_sent r = (rec_pacing r)\<lparr>pi_flow_group := rec_flow_group r,
     pi_instance := (rec_instance r)\<lparr>inst_attempt_sequence := 0\<rparr>, pi_reason_code := no_identity\<rparr>"

lemma then_decode_pacing [read_simps]:
  "then_read decode_pacing f (encode_pacing r @ rest) = f (pacing_as_sent r) rest"
proof -
  have "decode_pacing (encode_pacing r @ rest) = Inr (pacing_as_sent r, rest)"
    by (cases "rec_pacing r"; cases "rec_instance r")
      (simp add: encode_pacing_def decode_pacing_def pacing_as_sent_def read_simps)
  then show ?thesis by (rule then_read_Inr)
qed

lemma then_decode_error_code [read_simps]:
  "code \<le> ErrorCode_kInternalUnsupported \<Longrightarrow> then_read decode_error_code f (put_u32 (ucast code) @ rest) = f code rest"
proof -
  assume "code \<le> ErrorCode_kInternalUnsupported"
  then have "\<not> (ucast code :: u32) > ucast ErrorCode_kInternalUnsupported"
    by (simp add: word_less_nat_alt word_le_nat_alt unsigned_ucast_eq take_bit_eq_mod)
  moreover have "ucast (ucast code :: u32) = code"
    by (rule bit_word_eqI) (simp add: bit_simps)
  ultimately have "decode_error_code (put_u32 (ucast code) @ rest) = Inr (code, rest)"
    by (simp add: decode_error_code_def read_simps)
  then show ?thesis by (rule then_read_Inr)
qed

text \<open>What a peer receives of a decision: the flow group and the pacing intent arrive without the attempt sequence,
  and the pacing intent with the identity of the decision instead of its own, and without its reason.\<close>

definition as_sent :: "DecisionRecord \<Rightarrow> DecisionRecord" where
  "as_sent r = r\<lparr>rec_group := group_as_sent (rec_group r), rec_pacing := pacing_as_sent r\<rparr>"

definition record_fits :: "DecisionRecord \<Rightarrow> bool" where
  "record_fits r \<longleftrightarrow> group_fits (rec_group r) \<and> length (rec_participants r) \<le> kParticipantsMaxPerCollective \<and>
     rec_code r \<le> ErrorCode_kInternalUnsupported \<and> chain_fits (rec_reasons r)"

lemma decode_record_back:
  assumes "record_fits r"
  shows "\<exists>bytes. encode_decision_record r = Inr bytes \<and>
    (\<forall>rest. decode_decision_record (bytes @ rest) = Inr (as_sent r, rest))"
  using assms
  by (cases "rec_instance r")
    (simp add: encode_decision_record_def record_fits_def encode_reason_chain_fits decode_decision_record_def read_simps
      as_sent_def)

text \<open>Two metadata entries with one key are merged into the later one.\<close>

lemma duplicate_metadata_merged:
  "decode_metadata 2 [] (put_string ''k'' @ put_string ''x'' @ put_string ''k'' @ put_string ''y'') = Inr ([(''k'', ''y'')], [])"
proof -
  have bounds: "Suc 0 \<le> kMetadataKeyBytesMax" "Suc 0 \<le> kMetadataValueBytesMax" "\<not> kMetadataEntriesMax \<le> 0"
    "\<not> kMetadataKeyBytesMax < Suc 0" "\<not> kMetadataValueBytesMax < Suc 0"
    by (simp_all add: kMetadataKeyBytesMax_def kMetadataValueBytesMax_def kMetadataEntriesMax_def)
  then show ?thesis
    by (simp add: numeral_2_eq_2 read_simps wire_value.then_decode [where rest = "[]", simplified] metadata_set_def yield_def)
qed


end
