(* ===== verification/CTF_Messages.thy ===== *)
theory CTF_Messages
  imports CTF_Protocol
begin

text \<open>
  The messages of \<^verbatim>\<open>protocol_messages.cpp\<close>: the payload structures of \<^verbatim>\<open>protocol.hpp\<close> and one
  encoder and decoder per message kind. A payload structure with a single member (a definition, a
  request, a decision, a policy) is modelled by that member. At the end the messages are put into one type, and
  a message sent in a frame is shown to arrive.
\<close>


section \<open>Decoding a whole payload\<close>

definition kInspectionPageMax :: nat where "kInspectionPageMax = 4096"

definition decode_one :: "(Status, 'a) reader \<Rightarrow> u8 list \<Rightarrow> Status + 'a" where
  "decode_one decode bytes =
     (case decode bytes of
        Inl status \<Rightarrow> Inl status
      | Inr (v, rest) \<Rightarrow> let status = require_end rest in if \<not> is_ok status then Inl status else Inr v)"

text \<open>Most messages end with a reason chain, whose encoding can fail.\<close>

definition with_reasons :: "u8 list \<Rightarrow> ReasonChain \<Rightarrow> Status + u8 list" where
  "with_reasons bytes reasons =
     (case encode_reason_chain reasons of Inl status \<Rightarrow> Inl status | Inr chain \<Rightarrow> Inr (bytes @ chain))"


section \<open>Payloads\<close>

record HelloPayload =
  hello_client_label :: string
  hello_client_version :: string
  hello_client_boot_monotonic_ms :: u64

definition encode_hello :: "HelloPayload \<Rightarrow> u8 list" where
  "encode_hello v =
     put_string (hello_client_label v) @
     put_string (hello_client_version v) @
     put_u64 (hello_client_boot_monotonic_ms v)"

definition read_hello :: "(Status, HelloPayload) reader" where
  "read_hello =
     then_read (reader_string kLabelBytesMax) (\<lambda>client_label.
     then_read (reader_string kLabelBytesMax) (\<lambda>client_version.
     then_read reader_u64 (\<lambda>client_boot_monotonic_ms.
     yield \<lparr>hello_client_label = client_label, hello_client_version = client_version,
            hello_client_boot_monotonic_ms = client_boot_monotonic_ms\<rparr>)))"

definition decode_hello :: "u8 list \<Rightarrow> Status + HelloPayload" where
  "decode_hello = decode_one read_hello"

record HelloAckPayload =
  hack_session :: Identity
  hack_incarnation :: Identity
  hack_epoch :: Identity
  hack_policy_generation :: Identity
  hack_topology_generation :: Identity
  hack_capacity_generation :: Identity
  hack_congestion_generation :: Identity
  hack_max_frame_payload_bytes :: u32
  hack_coordinator_label :: string

definition encode_hello_ack :: "HelloAckPayload \<Rightarrow> u8 list" where
  "encode_hello_ack v =
     put_identity (hack_session v) @
     put_identity (hack_incarnation v) @
     put_identity (hack_epoch v) @
     put_identity (hack_policy_generation v) @
     put_identity (hack_topology_generation v) @
     put_identity (hack_capacity_generation v) @
     put_identity (hack_congestion_generation v) @
     put_u32 (hack_max_frame_payload_bytes v) @
     put_string (hack_coordinator_label v)"

definition read_hello_ack :: "(Status, HelloAckPayload) reader" where
  "read_hello_ack =
     then_read reader_identity (\<lambda>session.
     then_read reader_identity (\<lambda>incarnation.
     then_read reader_identity (\<lambda>epoch.
     then_read reader_identity (\<lambda>policy_generation.
     then_read reader_identity (\<lambda>topology_generation.
     then_read reader_identity (\<lambda>capacity_generation.
     then_read reader_identity (\<lambda>congestion_generation.
     then_read reader_u32 (\<lambda>max_frame_payload_bytes.
     if (unat max_frame_payload_bytes > kFramePayloadMaxBytes)
     then fail (Status ErrorCode_kDecodeLengthOutOfRange ''peer advertised an unsupported frame size'')
     else
     then_read (reader_string kLabelBytesMax) (\<lambda>coordinator_label.
     yield \<lparr>hack_session = session, hack_incarnation = incarnation, hack_epoch = epoch,
            hack_policy_generation = policy_generation, hack_topology_generation =
            topology_generation, hack_capacity_generation = capacity_generation,
            hack_congestion_generation = congestion_generation, hack_max_frame_payload_bytes
            = max_frame_payload_bytes, hack_coordinator_label = coordinator_label\<rparr>)))))))))"

definition decode_hello_ack :: "u8 list \<Rightarrow> Status + HelloAckPayload" where
  "decode_hello_ack = decode_one read_hello_ack"

record HeartbeatPayload =
  hb_participant :: Identity
  hb_incarnation :: Identity
  hb_state :: ParticipantState
  hb_node :: Identity
  hb_client_clock_ms :: u64

definition encode_heartbeat :: "HeartbeatPayload \<Rightarrow> u8 list" where
  "encode_heartbeat v =
     put_identity (hb_participant v) @
     put_identity (hb_incarnation v) @
     put_enumeration ParticipantState_value (hb_state v) @
     put_identity (hb_node v) @
     put_u64 (hb_client_clock_ms v)"

definition read_heartbeat :: "(Status, HeartbeatPayload) reader" where
  "read_heartbeat =
     then_read reader_identity (\<lambda>participant.
     then_read reader_identity (\<lambda>incarnation.
     then_read (reader_enumeration ParticipantState_cast 6 ''participant state'') (\<lambda>state.
     then_read reader_identity (\<lambda>node.
     then_read reader_u64 (\<lambda>client_clock_ms.
     yield \<lparr>hb_participant = participant, hb_incarnation = incarnation, hb_state = state,
            hb_node = node, hb_client_clock_ms = client_clock_ms\<rparr>)))))"

definition decode_heartbeat :: "u8 list \<Rightarrow> Status + HeartbeatPayload" where
  "decode_heartbeat = decode_one read_heartbeat"

record HeartbeatAckPayload =
  hback_participant :: Identity
  hback_incarnation :: Identity
  hback_state :: ParticipantState
  hback_expires_at_monotonic_ms :: u64
  hback_accepted :: bool
  hback_reasons :: ReasonChain

definition encode_heartbeat_ack :: "HeartbeatAckPayload \<Rightarrow> Status + u8 list" where
  "encode_heartbeat_ack v =
     with_reasons
       (put_identity (hback_participant v) @
        put_identity (hback_incarnation v) @
        put_enumeration ParticipantState_value (hback_state v) @
        put_u64 (hback_expires_at_monotonic_ms v) @
        put_boolean (hback_accepted v))
       (hback_reasons v)"

definition read_heartbeat_ack :: "(Status, HeartbeatAckPayload) reader" where
  "read_heartbeat_ack =
     then_read reader_identity (\<lambda>participant.
     then_read reader_identity (\<lambda>incarnation.
     then_read (reader_enumeration ParticipantState_cast 6 ''participant state'') (\<lambda>state.
     then_read reader_u64 (\<lambda>expires_at_monotonic_ms.
     then_read reader_boolean (\<lambda>accepted.
     then_read decode_reason_chain (\<lambda>reasons.
     yield \<lparr>hback_participant = participant, hback_incarnation = incarnation, hback_state =
            state, hback_expires_at_monotonic_ms = expires_at_monotonic_ms, hback_accepted =
            accepted, hback_reasons = reasons\<rparr>))))))"

definition decode_heartbeat_ack :: "u8 list \<Rightarrow> Status + HeartbeatAckPayload" where
  "decode_heartbeat_ack = decode_one read_heartbeat_ack"

text \<open>A registration is decoded and then brought into canonical order; a phase or a step stated twice is refused.\<close>

definition adjacent_duplicate :: "('a \<Rightarrow> 'k) \<Rightarrow> 'a list \<Rightarrow> bool" where
  "adjacent_duplicate key xs \<longleftrightarrow> list_ex (\<lambda>(a, b). key a = key b) (zip xs (tl xs))"

definition canonical_definition :: "CollectiveDefinition \<Rightarrow> CollectiveDefinition" where
  "canonical_definition d =
     d\<lparr>def_participants := canonicalize_participants (def_participants d),
       def_phases := std_sort (\<lambda>a b. phase_index a < phase_index b) (def_phases d),
       def_steps := std_sort (\<lambda>a b.
         if step_phase_index a \<noteq> step_phase_index b then step_phase_index a < step_phase_index b
         else step_index a < step_index b) (def_steps d)\<rparr>"

definition decode_register_collective :: "u8 list \<Rightarrow> Status + CollectiveDefinition" where
  "decode_register_collective bytes =
     (case decode_one decode_definition bytes of
        Inl status \<Rightarrow> Inl status
      | Inr decoded \<Rightarrow>
          let d = canonical_definition decoded in
          if adjacent_duplicate phase_index (def_phases d)
          then Inl (Status ErrorCode_kDecodeDuplicateEntry ''collective definition states the same phase twice'')
          else if adjacent_duplicate (\<lambda>s. (step_phase_index s, step_index s)) (def_steps d)
          then Inl (Status ErrorCode_kDecodeDuplicateEntry ''collective definition states the same step twice'')
          else Inr d)"

record RegisterAckPayload =
  rack_id :: Identity
  rack_generation :: Identity
  rack_result :: u8
  rack_registration_sequence :: u64
  rack_reasons :: ReasonChain

definition encode_register_ack :: "RegisterAckPayload \<Rightarrow> Status + u8 list" where
  "encode_register_ack v =
     with_reasons
       (put_identity (rack_id v) @
        put_identity (rack_generation v) @
        put_u8 (rack_result v) @
        put_u64 (rack_registration_sequence v))
       (rack_reasons v)"

definition read_register_ack :: "(Status, RegisterAckPayload) reader" where
  "read_register_ack =
     then_read reader_identity (\<lambda>id.
     then_read reader_identity (\<lambda>generation.
     then_read reader_u8 (\<lambda>result.
     then_read reader_u64 (\<lambda>registration_sequence.
     then_read decode_reason_chain (\<lambda>reasons.
     yield \<lparr>rack_id = id, rack_generation = generation, rack_result = result,
            rack_registration_sequence = registration_sequence, rack_reasons = reasons\<rparr>)))))"

definition decode_register_ack :: "u8 list \<Rightarrow> Status + RegisterAckPayload" where
  "decode_register_ack = decode_one read_register_ack"

record BeginAttemptPayload =
  ba_id :: Identity
  ba_generation :: Identity
  ba_attempt :: Identity
  ba_transfer_bytes :: u64

definition encode_begin_attempt :: "BeginAttemptPayload \<Rightarrow> u8 list" where
  "encode_begin_attempt v =
     put_identity (ba_id v) @
     put_identity (ba_generation v) @
     put_identity (ba_attempt v) @
     put_u64 (ba_transfer_bytes v)"

definition read_begin_attempt :: "(Status, BeginAttemptPayload) reader" where
  "read_begin_attempt =
     then_read reader_identity (\<lambda>id.
     then_read reader_identity (\<lambda>generation.
     then_read reader_identity (\<lambda>attempt.
     then_read reader_u64 (\<lambda>transfer_bytes.
     yield \<lparr>ba_id = id, ba_generation = generation, ba_attempt = attempt, ba_transfer_bytes =
            transfer_bytes\<rparr>))))"

definition decode_begin_attempt :: "u8 list \<Rightarrow> Status + BeginAttemptPayload" where
  "decode_begin_attempt = decode_one read_begin_attempt"

record AttemptAckPayload =
  aack_id :: Identity
  aack_attempt :: Identity
  aack_previous_attempt :: Identity
  aack_state :: CollectiveState
  aack_reasons :: ReasonChain

definition encode_attempt_ack :: "AttemptAckPayload \<Rightarrow> Status + u8 list" where
  "encode_attempt_ack v =
     with_reasons
       (put_identity (aack_id v) @
        put_identity (aack_attempt v) @
        put_identity (aack_previous_attempt v) @
        put_enumeration CollectiveState_value (aack_state v))
       (aack_reasons v)"

definition read_attempt_ack :: "(Status, AttemptAckPayload) reader" where
  "read_attempt_ack =
     then_read reader_identity (\<lambda>id.
     then_read reader_identity (\<lambda>attempt.
     then_read reader_identity (\<lambda>previous_attempt.
     then_read (reader_enumeration CollectiveState_cast 8 ''collective state'') (\<lambda>state.
     then_read decode_reason_chain (\<lambda>reasons.
     yield \<lparr>aack_id = id, aack_attempt = attempt, aack_previous_attempt = previous_attempt,
            aack_state = state, aack_reasons = reasons\<rparr>)))))"

definition decode_attempt_ack :: "u8 list \<Rightarrow> Status + AttemptAckPayload" where
  "decode_attempt_ack = decode_one read_attempt_ack"

definition decode_plan_flow_group :: "u8 list \<Rightarrow> Status + DecisionRequest" where
  "decode_plan_flow_group = decode_one decode_decision_request"

definition decode_decision :: "u8 list \<Rightarrow> Status + DecisionRecord" where
  "decode_decision = decode_one decode_decision_record"

record LifecyclePayload =
  life_id :: Identity
  life_generation :: Identity
  life_attempt :: Identity
  life_reason :: string

definition encode_lifecycle :: "LifecyclePayload \<Rightarrow> u8 list" where
  "encode_lifecycle v =
     put_identity (life_id v) @
     put_identity (life_generation v) @
     put_identity (life_attempt v) @
     put_string (life_reason v)"

definition read_lifecycle :: "(Status, LifecyclePayload) reader" where
  "read_lifecycle =
     then_read reader_identity (\<lambda>id.
     then_read reader_identity (\<lambda>generation.
     then_read reader_identity (\<lambda>attempt.
     then_read (reader_string kReasonDetailBytesMax) (\<lambda>reason.
     yield \<lparr>life_id = id, life_generation = generation, life_attempt = attempt, life_reason =
            reason\<rparr>))))"

definition decode_lifecycle :: "u8 list \<Rightarrow> Status + LifecyclePayload" where
  "decode_lifecycle = decode_one read_lifecycle"

record LifecycleAckPayload =
  lack_id :: Identity
  lack_state :: CollectiveState
  lack_reasons :: ReasonChain

definition encode_lifecycle_ack :: "LifecycleAckPayload \<Rightarrow> Status + u8 list" where
  "encode_lifecycle_ack v =
     with_reasons
       (put_identity (lack_id v) @
        put_enumeration CollectiveState_value (lack_state v))
       (lack_reasons v)"

definition read_lifecycle_ack :: "(Status, LifecycleAckPayload) reader" where
  "read_lifecycle_ack =
     then_read reader_identity (\<lambda>id.
     then_read (reader_enumeration CollectiveState_cast 8 ''collective state'') (\<lambda>state.
     then_read decode_reason_chain (\<lambda>reasons.
     yield \<lparr>lack_id = id, lack_state = state, lack_reasons = reasons\<rparr>)))"

definition decode_lifecycle_ack :: "u8 list \<Rightarrow> Status + LifecycleAckPayload" where
  "decode_lifecycle_ack = decode_one read_lifecycle_ack"

datatype EvidenceKindTag = kNone | kCapacity | kCongestion | kTopology | kPolicy

primrec EvidenceKindTag_value :: "EvidenceKindTag \<Rightarrow> u64" where
  "EvidenceKindTag_value EvidenceKindTag.kNone = 0"
| "EvidenceKindTag_value EvidenceKindTag.kCapacity = 1"
| "EvidenceKindTag_value EvidenceKindTag.kCongestion = 2"
| "EvidenceKindTag_value EvidenceKindTag.kTopology = 3"
| "EvidenceKindTag_value EvidenceKindTag.kPolicy = 4"

definition EvidenceKindTag_cast :: "u8 \<Rightarrow> EvidenceKindTag" where
  "EvidenceKindTag_cast raw =
     [EvidenceKindTag.kNone, EvidenceKindTag.kCapacity, EvidenceKindTag.kCongestion, EvidenceKindTag.kTopology,
      EvidenceKindTag.kPolicy] ! unat raw"

text \<open>\<^verbatim>\<open>EvidencePayload\<close> has a member for every kind, of which only the one named by its tag is used.\<close>

datatype EvidencePayload =
    NoEvidence
  | EvidenceCapacity CapacityEvidence
  | EvidenceCongestion CongestionEvidence
  | EvidenceTopology TopologyEvidence
  | EvidencePolicy TrafficPolicy

definition encode_evidence :: "EvidencePayload \<Rightarrow> Status + u8 list" where
  "encode_evidence v =
     (case v of
        NoEvidence \<Rightarrow> Inl (Status ErrorCode_kDecodeInvalidTag ''evidence payload states no evidence kind'')
      | EvidenceCapacity c \<Rightarrow> Inr (put_enumeration EvidenceKindTag_value EvidenceKindTag.kCapacity @ encode_capacity c)
      | EvidenceCongestion c \<Rightarrow> Inr (put_enumeration EvidenceKindTag_value EvidenceKindTag.kCongestion @ encode_congestion c)
      | EvidenceTopology t \<Rightarrow> Inr (put_enumeration EvidenceKindTag_value EvidenceKindTag.kTopology @ encode_topology t)
      | EvidencePolicy p \<Rightarrow> Inr (put_enumeration EvidenceKindTag_value EvidenceKindTag.kPolicy @ encode_traffic_policy p))"

definition read_evidence_tag :: "(Status, EvidenceKindTag) reader" where
  "read_evidence_tag =
     get_enumeration decode_truncated (Status ErrorCode_kDecodeInvalidTag ''evidence kind is not defined by this version'')
       EvidenceKindTag_cast 4"

definition read_evidence :: "(Status, EvidencePayload) reader" where
  "read_evidence =
     then_read read_evidence_tag (\<lambda>kind.
     case kind of
       EvidenceKindTag.kCapacity \<Rightarrow> then_read decode_capacity (\<lambda>c. yield (EvidenceCapacity c))
     | EvidenceKindTag.kCongestion \<Rightarrow> then_read decode_congestion (\<lambda>c. yield (EvidenceCongestion c))
     | EvidenceKindTag.kTopology \<Rightarrow> then_read decode_topology (\<lambda>t. yield (EvidenceTopology t))
     | EvidenceKindTag.kPolicy \<Rightarrow> then_read decode_traffic_policy (\<lambda>p. yield (EvidencePolicy p))
     | EvidenceKindTag.kNone \<Rightarrow>
         fail (Status ErrorCode_kDecodeInvalidTag ''evidence payload states no evidence kind''))"

definition decode_evidence :: "u8 list \<Rightarrow> Status + EvidencePayload" where
  "decode_evidence = decode_one read_evidence"

record EvidenceAckPayload =
  evack_kind :: EvidenceKindTag
  evack_result :: u8
  evack_generation :: Identity
  evack_reasons :: ReasonChain

definition encode_evidence_ack :: "EvidenceAckPayload \<Rightarrow> Status + u8 list" where
  "encode_evidence_ack v =
     with_reasons
       (put_enumeration EvidenceKindTag_value (evack_kind v) @ put_u8 (evack_result v) @
        put_identity (evack_generation v))
       (evack_reasons v)"

definition read_evidence_ack :: "(Status, EvidenceAckPayload) reader" where
  "read_evidence_ack =
     then_read read_evidence_tag (\<lambda>kind.
     then_read reader_u8 (\<lambda>result.
     then_read reader_identity (\<lambda>generation.
     then_read decode_reason_chain (\<lambda>reasons.
     yield \<lparr>evack_kind = kind, evack_result = result, evack_generation = generation,
            evack_reasons = reasons\<rparr>))))"

definition decode_evidence_ack :: "u8 list \<Rightarrow> Status + EvidenceAckPayload" where
  "decode_evidence_ack = decode_one read_evidence_ack"

record InspectRequestPayload =
  ireq_subject :: u8
  ireq_id :: Identity
  ireq_offset :: u32
  ireq_limit :: u32

definition encode_inspect_request :: "InspectRequestPayload \<Rightarrow> u8 list" where
  "encode_inspect_request v =
     put_u8 (ireq_subject v) @
     put_identity (ireq_id v) @
     put_u32 (ireq_offset v) @
     put_u32 (ireq_limit v)"

definition read_inspect_request :: "(Status, InspectRequestPayload) reader" where
  "read_inspect_request =
     then_read reader_u8 (\<lambda>subject.
     then_read reader_identity (\<lambda>id.
     then_read reader_u32 (\<lambda>offset.
     then_read reader_u32 (\<lambda>limit.
     if (unat limit > kInspectionPageMax)
     then fail (Status ErrorCode_kDecodeCountOutOfRange ''inspection page size exceeds the bound'')
     else
     yield \<lparr>ireq_subject = subject, ireq_id = id, ireq_offset = offset, ireq_limit = limit\<rparr>))))"

definition decode_inspect_request :: "u8 list \<Rightarrow> Status + InspectRequestPayload" where
  "decode_inspect_request = decode_one read_inspect_request"

record InspectResponsePayload =
  iresp_subject :: u8
  iresp_body :: string
  iresp_truncated :: bool

definition encode_inspect_response :: "InspectResponsePayload \<Rightarrow> u8 list" where
  "encode_inspect_response v =
     put_u8 (iresp_subject v) @
     put_string (iresp_body v) @
     put_boolean (iresp_truncated v)"

definition read_inspect_response :: "(Status, InspectResponsePayload) reader" where
  "read_inspect_response =
     then_read reader_u8 (\<lambda>subject.
     then_read (reader_string kFramePayloadMaxBytes) (\<lambda>body.
     then_read reader_boolean (\<lambda>truncated.
     yield \<lparr>iresp_subject = subject, iresp_body = body, iresp_truncated = truncated\<rparr>)))"

definition decode_inspect_response :: "u8 list \<Rightarrow> Status + InspectResponsePayload" where
  "decode_inspect_response = decode_one read_inspect_response"

record ExplainRequestPayload =
  ereq_id :: Identity
  ereq_attempt :: Identity
  ereq_correlation :: u64
  ereq_has_correlation :: bool

definition encode_explain_request :: "ExplainRequestPayload \<Rightarrow> u8 list" where
  "encode_explain_request v =
     put_identity (ereq_id v) @
     put_identity (ereq_attempt v) @
     put_u64 (ereq_correlation v) @
     put_boolean (ereq_has_correlation v)"

definition read_explain_request :: "(Status, ExplainRequestPayload) reader" where
  "read_explain_request =
     then_read reader_identity (\<lambda>id.
     then_read reader_identity (\<lambda>attempt.
     then_read reader_u64 (\<lambda>correlation.
     then_read reader_boolean (\<lambda>has_correlation.
     yield \<lparr>ereq_id = id, ereq_attempt = attempt, ereq_correlation = correlation,
            ereq_has_correlation = has_correlation\<rparr>))))"

definition decode_explain_request :: "u8 list \<Rightarrow> Status + ExplainRequestPayload" where
  "decode_explain_request = decode_one read_explain_request"

record ExplainResponsePayload =
  eresp_found :: bool
  eresp_decision :: DecisionRecord
  eresp_explanation :: string

definition encode_explain_response :: "ExplainResponsePayload \<Rightarrow> Status + u8 list" where
  "encode_explain_response v =
     (case encode_decision_record (eresp_decision v) of
        Inl status \<Rightarrow> Inl status
      | Inr decision \<Rightarrow> Inr (put_boolean (eresp_found v) @ decision @ put_string (eresp_explanation v)))"

definition read_explain_response :: "(Status, ExplainResponsePayload) reader" where
  "read_explain_response =
     then_read reader_boolean (\<lambda>found.
     then_read decode_decision_record (\<lambda>decision.
     then_read (reader_string kFramePayloadMaxBytes) (\<lambda>explanation.
     yield \<lparr>eresp_found = found, eresp_decision = decision, eresp_explanation = explanation\<rparr>)))"

definition decode_explain_response :: "u8 list \<Rightarrow> Status + ExplainResponsePayload" where
  "decode_explain_response = decode_one read_explain_response"

definition decode_install_policy :: "u8 list \<Rightarrow> Status + TrafficPolicy" where
  "decode_install_policy = decode_one decode_traffic_policy"

record InstallPolicyAckPayload =
  pack_generation :: Identity
  pack_result :: u8
  pack_reasons :: ReasonChain

definition encode_install_policy_ack :: "InstallPolicyAckPayload \<Rightarrow> Status + u8 list" where
  "encode_install_policy_ack v =
     with_reasons
       (put_identity (pack_generation v) @
        put_u8 (pack_result v))
       (pack_reasons v)"

definition read_install_policy_ack :: "(Status, InstallPolicyAckPayload) reader" where
  "read_install_policy_ack =
     then_read reader_identity (\<lambda>generation.
     then_read reader_u8 (\<lambda>result.
     then_read decode_reason_chain (\<lambda>reasons.
     yield \<lparr>pack_generation = generation, pack_result = result, pack_reasons = reasons\<rparr>)))"

definition decode_install_policy_ack :: "u8 list \<Rightarrow> Status + InstallPolicyAckPayload" where
  "decode_install_policy_ack = decode_one read_install_policy_ack"

record ErrorPayload =
  err_code :: ErrorCode
  err_message :: string
  err_reasons :: ReasonChain

definition encode_error :: "ErrorPayload \<Rightarrow> Status + u8 list" where
  "encode_error v = with_reasons (put_u32 (ucast (err_code v)) @ put_string (err_message v)) (err_reasons v)"

definition read_error :: "(Status, ErrorPayload) reader" where
  "read_error =
     then_read decode_error_code (\<lambda>code.
     then_read (reader_string kReasonDetailBytesMax) (\<lambda>message.
     then_read decode_reason_chain (\<lambda>reasons.
     yield \<lparr>err_code = code, err_message = message, err_reasons = reasons\<rparr>)))"

definition decode_error :: "u8 list \<Rightarrow> Status + ErrorPayload" where
  "decode_error = decode_one read_error"


section \<open>Payloads read back\<close>

lemma decode_one_back: "decode (bytes @ []) = Inr (v, []) \<Longrightarrow> decode_one decode bytes = Inr v"
  by (simp add: decode_one_def require_end_def)

lemma then_read_last: "p bs = Inr (v, []) \<Longrightarrow> then_read p f bs = f v []"
  by (simp add: then_read_def)

lemma decode_one_iff: "decode_one decode bytes = Inr v \<longleftrightarrow> decode bytes = Inr (v, [])"
  by (auto simp: decode_one_def require_end_def Let_def split: sum.splits prod.splits if_splits)

text \<open>The last field of a payload has nothing after it.\<close>

lemmas last_field =
  wire_u8.then_decode [where rest = "[]"] wire_u32.then_decode [where rest = "[]"] wire_u64.then_decode [where rest = "[]"]
  wire_identity.then_decode [where rest = "[]"] wire_boolean.then_decode [where rest = "[]"]
  wire_label.then_decode [where rest = "[]"] wire_detail.then_decode [where rest = "[]"]
  wire_text.then_decode [where rest = "[]"] wire_reasons.then_decode [where rest = "[]"]

interpretation evidence_kind_tag: byte_enum EvidenceKindTag_value EvidenceKindTag_cast 4
  by (rule byte_enumI [where vs =
        "[EvidenceKindTag.kNone, EvidenceKindTag.kCapacity, EvidenceKindTag.kCongestion, EvidenceKindTag.kTopology,
          EvidenceKindTag.kPolicy]"])
    (simp_all add: EvidenceKindTag_cast_def [abs_def] EvidenceKindTag.nchotomy [simplified] upt_rec)

interpretation evidence_tag: codec "\<lambda>_. True" "put_enumeration EvidenceKindTag_value" read_evidence_tag
  unfolding read_evidence_tag_def by (rule evidence_kind_tag.codec_enumeration)

lemmas [read_simps] = evidence_tag.then_decode

lemmas message_simps = decode_one_iff with_reasons_def encode_reason_chain_fits read_simps
  last_field [unfolded append_Nil2] not_less


lemma hello_back:
  "length (hello_client_label v) \<le> kLabelBytesMax \<and> length (hello_client_version v) \<le> kLabelBytesMax \<Longrightarrow> decode_hello (encode_hello v) = Inr v"
  by (simp add: encode_hello_def decode_hello_def read_hello_def message_simps)

lemma hello_ack_back:
  "\<not> (unat (hack_max_frame_payload_bytes v) > kFramePayloadMaxBytes) \<and> length (hack_coordinator_label v) \<le> kLabelBytesMax \<Longrightarrow> decode_hello_ack (encode_hello_ack v) = Inr v"
  by (simp add: encode_hello_ack_def decode_hello_ack_def read_hello_ack_def message_simps)

lemma heartbeat_back:
  "decode_heartbeat (encode_heartbeat v) = Inr v"
  by (simp add: encode_heartbeat_def decode_heartbeat_def read_heartbeat_def message_simps)

lemma heartbeat_ack_back:
  "chain_fits (hback_reasons v) \<Longrightarrow> \<exists>bytes. encode_heartbeat_ack v = Inr bytes \<and> decode_heartbeat_ack bytes = Inr v"
  by (simp add: encode_heartbeat_ack_def decode_heartbeat_ack_def read_heartbeat_ack_def message_simps)

lemma register_ack_back:
  "chain_fits (rack_reasons v) \<Longrightarrow> \<exists>bytes. encode_register_ack v = Inr bytes \<and> decode_register_ack bytes = Inr v"
  by (simp add: encode_register_ack_def decode_register_ack_def read_register_ack_def message_simps)

lemma begin_attempt_back:
  "decode_begin_attempt (encode_begin_attempt v) = Inr v"
  by (simp add: encode_begin_attempt_def decode_begin_attempt_def read_begin_attempt_def message_simps)

lemma attempt_ack_back:
  "chain_fits (aack_reasons v) \<Longrightarrow> \<exists>bytes. encode_attempt_ack v = Inr bytes \<and> decode_attempt_ack bytes = Inr v"
  by (simp add: encode_attempt_ack_def decode_attempt_ack_def read_attempt_ack_def message_simps)

lemma lifecycle_back:
  "length (life_reason v) \<le> kReasonDetailBytesMax \<Longrightarrow> decode_lifecycle (encode_lifecycle v) = Inr v"
  by (simp add: encode_lifecycle_def decode_lifecycle_def read_lifecycle_def message_simps)

lemma lifecycle_ack_back:
  "chain_fits (lack_reasons v) \<Longrightarrow> \<exists>bytes. encode_lifecycle_ack v = Inr bytes \<and> decode_lifecycle_ack bytes = Inr v"
  by (simp add: encode_lifecycle_ack_def decode_lifecycle_ack_def read_lifecycle_ack_def message_simps)

lemma evidence_ack_back:
  "chain_fits (evack_reasons v) \<Longrightarrow> \<exists>bytes. encode_evidence_ack v = Inr bytes \<and> decode_evidence_ack bytes = Inr v"
  by (simp add: encode_evidence_ack_def decode_evidence_ack_def read_evidence_ack_def message_simps)

lemma inspect_request_back:
  "\<not> (unat (ireq_limit v) > kInspectionPageMax) \<Longrightarrow> decode_inspect_request (encode_inspect_request v) = Inr v"
  by (simp add: encode_inspect_request_def decode_inspect_request_def read_inspect_request_def message_simps)

lemma inspect_response_back:
  "length (iresp_body v) \<le> kFramePayloadMaxBytes \<Longrightarrow> decode_inspect_response (encode_inspect_response v) = Inr v"
  by (simp add: encode_inspect_response_def decode_inspect_response_def read_inspect_response_def message_simps)

lemma explain_request_back:
  "decode_explain_request (encode_explain_request v) = Inr v"
  by (simp add: encode_explain_request_def decode_explain_request_def read_explain_request_def message_simps)

lemma install_policy_ack_back:
  "chain_fits (pack_reasons v) \<Longrightarrow> \<exists>bytes. encode_install_policy_ack v = Inr bytes \<and> decode_install_policy_ack bytes = Inr v"
  by (simp add: encode_install_policy_ack_def decode_install_policy_ack_def read_install_policy_ack_def message_simps)

lemma error_back:
  "err_code v \<le> ErrorCode_kInternalUnsupported \<Longrightarrow> length (err_message v) \<le> kReasonDetailBytesMax \<Longrightarrow>
   chain_fits (err_reasons v) \<Longrightarrow> \<exists>bytes. encode_error v = Inr bytes \<and> decode_error bytes = Inr v"
  by (simp add: encode_error_def decode_error_def read_error_def message_simps)


section \<open>Registrations arrive in canonical order\<close>

definition step_key :: "CollectiveStep \<Rightarrow> nat" where
  "step_key s = unat (step_phase_index s) * 18446744073709551616 + unat (step_index s)"

lemma lex_key_less:
  fixes a b c d :: nat
  assumes "b < m" "d < m"
  shows "a * m + b < c * m + d \<longleftrightarrow> (if a \<noteq> c then a < c else b < d)"
proof -
  have less: "x * m + y < z * m + w" if "x < z" "y < m" for x y z w :: nat
  proof -
    have "x * m + y < Suc x * m" using \<open>y < m\<close> by simp
    also have "\<dots> \<le> z * m" using \<open>x < z\<close> by (intro mult_le_mono1) simp
    finally show ?thesis by simp
  qed
  show ?thesis using less [of a c b d] less [of c a d b] assms by (cases a c rule: linorder_cases) auto
qed

lemma step_order:
  "(if step_phase_index a \<noteq> step_phase_index b then step_phase_index a < step_phase_index b
    else step_index a < step_index b) \<longleftrightarrow> step_key a < step_key b"
  by (simp add: step_key_def lex_key_less word_less_nat_alt flip: word_unat_eq_iff)

lemma step_key_eq: "step_key a = step_key b \<longleftrightarrow> (step_phase_index a, step_index a) = (step_phase_index b, step_index b)"
proof
  assume "step_key a = step_key b"
  then have "\<not> step_key a < step_key b" "\<not> step_key b < step_key a" by simp_all
  then show "(step_phase_index a, step_index a) = (step_phase_index b, step_index b)"
    unfolding step_order [symmetric] by (simp add: not_less split: if_splits)
qed (simp add: step_key_def)

lemma no_adjacent_duplicate:
  "sorted_wrt (\<lambda>a b. \<not> f b < f a) xs \<Longrightarrow> \<not> adjacent_duplicate f xs \<Longrightarrow> ascending f xs" for f :: "'a \<Rightarrow> 'k :: linorder"
proof (induction xs)
  case (Cons x xs)
  then have asc: "ascending f xs" by (cases xs) (auto simp: adjacent_duplicate_def)
  moreover have "f x < f y" if "y \<in> set xs" for y
  proof -
    from that obtain z zs where xs: "xs = z # zs" by (cases xs) auto
    with Cons.prems have "f x < f z" by (auto simp: adjacent_duplicate_def not_less)
    with asc that show ?thesis unfolding xs by auto
  qed
  ultimately show ?case by simp
qed simp

lemma ascending_no_duplicate: "ascending f xs \<Longrightarrow> \<not> adjacent_duplicate f xs"
proof (induction xs)
  case (Cons x xs)
  then show ?case by (cases xs) (auto simp: adjacent_duplicate_def)
qed (simp add: adjacent_duplicate_def)

lemma steps_no_duplicate:
  "adjacent_duplicate (\<lambda>s. (step_phase_index s, step_index s)) xs = adjacent_duplicate step_key xs"
  by (simp add: adjacent_duplicate_def step_key_eq)

lemma canonical_sorted:
  "sorted_wrt (\<lambda>a b. \<not> phase_index b < phase_index a) (def_phases (canonical_definition d))"
  "sorted_wrt (\<lambda>a b. \<not> step_key b < step_key a) (def_steps (canonical_definition d))"
  unfolding canonical_definition_def step_order
  by (simp_all add: comparator.std_sort_sorted [OF comparator_key])

lemma length_read_many: "read_many n p bs = Inr (xs, rest) \<Longrightarrow> length xs = n"
  by (induction n arbitrary: bs xs) (auto simp: then_read_def yield_def split: sum.splits prod.splits)

lemma decode_participants_some: "decode_participants bs = Inr (ps, rest) \<Longrightarrow> ps \<noteq> []"
  by (auto simp: decode_participants_def then_read_def fail_def dest: length_read_many split: sum.splits prod.splits if_splits)

lemma decoded_participants: "decode_one decode_definition bytes = Inr d \<Longrightarrow> def_participants d \<noteq> []"
  by (auto simp: decode_one_iff decode_definition_def then_read_def yield_def dest: decode_participants_some
      split: sum.splits prod.splits)

text \<open>A registration that states every phase and step once, in whatever order.\<close>

definition registration_fits :: "CollectiveDefinition \<Rightarrow> bool" where
  "registration_fits d \<longleftrightarrow> definition_fits d \<and> def_participants d \<noteq> [] \<and>
     distinct (map phase_index (def_phases d)) \<and> distinct (map step_key (def_steps d))"

lemma registration_back:
  assumes "registration_fits d"
  shows "decode_register_collective (encode_definition d) = Inr (canonical_definition d)"
proof -
  have "decode_one decode_definition (encode_definition d) = Inr d"
    using wire_definition.decode_encode [of d "[]"] assms by (simp add: decode_one_iff registration_fits_def)
  moreover have "ascending phase_index (def_phases (canonical_definition d))"
    "ascending step_key (def_steps (canonical_definition d))"
    using assms unfolding canonical_definition_def step_order
    by (simp_all add: registration_fits_def std_sort_ascending)
  ultimately show ?thesis
    by (simp add: decode_register_collective_def Let_def steps_no_duplicate ascending_no_duplicate)
qed


section \<open>Messages\<close>

text \<open>The messages of the protocol in one type, each with the decoder that its receiver applies.\<close>

datatype Message =
    MHello HelloPayload
  | MHelloAck HelloAckPayload
  | MHeartbeat HeartbeatPayload
  | MHeartbeatAck HeartbeatAckPayload
  | MRegister CollectiveDefinition
  | MRegisterAck RegisterAckPayload
  | MBeginAttempt BeginAttemptPayload
  | MAttemptAck AttemptAckPayload
  | MPlan DecisionRequest
  | MDecision DecisionRecord
  | MCancel LifecyclePayload
  | MRetire LifecyclePayload
  | MLifecycleAck LifecycleAckPayload
  | MEvidence EvidencePayload
  | MEvidenceAck EvidenceAckPayload
  | MInspect InspectRequestPayload
  | MInspectResponse InspectResponsePayload
  | MExplain ExplainRequestPayload
  | MExplainResponse ExplainResponsePayload
  | MError ErrorPayload
  | MInstallPolicy TrafficPolicy
  | MInstallPolicyAck InstallPolicyAckPayload

fun message_kind :: "Message \<Rightarrow> MessageKind" where
  "message_kind (MHello _) = MessageKind.kHello"
| "message_kind (MHelloAck _) = MessageKind.kHelloAck"
| "message_kind (MHeartbeat _) = MessageKind.kHeartbeat"
| "message_kind (MHeartbeatAck _) = MessageKind.kHeartbeatAck"
| "message_kind (MRegister _) = MessageKind.kRegisterCollective"
| "message_kind (MRegisterAck _) = MessageKind.kRegisterAck"
| "message_kind (MBeginAttempt _) = MessageKind.kBeginAttempt"
| "message_kind (MAttemptAck _) = MessageKind.kAttemptAck"
| "message_kind (MPlan _) = MessageKind.kPlanFlowGroup"
| "message_kind (MDecision _) = MessageKind.kFlowGroupDecision"
| "message_kind (MCancel _) = MessageKind.kCancelCollective"
| "message_kind (MRetire _) = MessageKind.kRetireCollective"
| "message_kind (MLifecycleAck _) = MessageKind.kLifecycleAck"
| "message_kind (MEvidence _) = MessageKind.kIngestEvidence"
| "message_kind (MEvidenceAck _) = MessageKind.kEvidenceAck"
| "message_kind (MInspect _) = MessageKind.kInspectRequest"
| "message_kind (MInspectResponse _) = MessageKind.kInspectResponse"
| "message_kind (MExplain _) = MessageKind.kExplainRequest"
| "message_kind (MExplainResponse _) = MessageKind.kExplainResponse"
| "message_kind (MError _) = MessageKind.kErrorResponse"
| "message_kind (MInstallPolicy _) = MessageKind.kInstallPolicy"
| "message_kind (MInstallPolicyAck _) = MessageKind.kInstallPolicyAck"

fun encode_message :: "Message \<Rightarrow> Status + u8 list" where
  "encode_message (MHello v) = Inr (encode_hello v)"
| "encode_message (MHelloAck v) = Inr (encode_hello_ack v)"
| "encode_message (MHeartbeat v) = Inr (encode_heartbeat v)"
| "encode_message (MHeartbeatAck v) = encode_heartbeat_ack v"
| "encode_message (MRegister v) = Inr (encode_definition v)"
| "encode_message (MRegisterAck v) = encode_register_ack v"
| "encode_message (MBeginAttempt v) = Inr (encode_begin_attempt v)"
| "encode_message (MAttemptAck v) = encode_attempt_ack v"
| "encode_message (MPlan v) = Inr (encode_decision_request v)"
| "encode_message (MDecision v) = encode_decision_record v"
| "encode_message (MCancel v) = Inr (encode_lifecycle v)"
| "encode_message (MRetire v) = Inr (encode_lifecycle v)"
| "encode_message (MLifecycleAck v) = encode_lifecycle_ack v"
| "encode_message (MEvidence v) = encode_evidence v"
| "encode_message (MEvidenceAck v) = encode_evidence_ack v"
| "encode_message (MInspect v) = Inr (encode_inspect_request v)"
| "encode_message (MInspectResponse v) = Inr (encode_inspect_response v)"
| "encode_message (MExplain v) = Inr (encode_explain_request v)"
| "encode_message (MExplainResponse v) = encode_explain_response v"
| "encode_message (MError v) = encode_error v"
| "encode_message (MInstallPolicy v) = Inr (encode_traffic_policy v)"
| "encode_message (MInstallPolicyAck v) = encode_install_policy_ack v"

definition decode_message :: "MessageKind \<Rightarrow> u8 list \<Rightarrow> Status + Message" where
  "decode_message kind bytes =
     (case kind of
        MessageKind.kHello \<Rightarrow> map_sum id MHello (decode_hello bytes)
      | MessageKind.kHelloAck \<Rightarrow> map_sum id MHelloAck (decode_hello_ack bytes)
      | MessageKind.kHeartbeat \<Rightarrow> map_sum id MHeartbeat (decode_heartbeat bytes)
      | MessageKind.kHeartbeatAck \<Rightarrow> map_sum id MHeartbeatAck (decode_heartbeat_ack bytes)
      | MessageKind.kRegisterCollective \<Rightarrow> map_sum id MRegister (decode_register_collective bytes)
      | MessageKind.kRegisterAck \<Rightarrow> map_sum id MRegisterAck (decode_register_ack bytes)
      | MessageKind.kBeginAttempt \<Rightarrow> map_sum id MBeginAttempt (decode_begin_attempt bytes)
      | MessageKind.kAttemptAck \<Rightarrow> map_sum id MAttemptAck (decode_attempt_ack bytes)
      | MessageKind.kPlanFlowGroup \<Rightarrow> map_sum id MPlan (decode_plan_flow_group bytes)
      | MessageKind.kFlowGroupDecision \<Rightarrow> map_sum id MDecision (decode_decision bytes)
      | MessageKind.kCancelCollective \<Rightarrow> map_sum id MCancel (decode_lifecycle bytes)
      | MessageKind.kRetireCollective \<Rightarrow> map_sum id MRetire (decode_lifecycle bytes)
      | MessageKind.kLifecycleAck \<Rightarrow> map_sum id MLifecycleAck (decode_lifecycle_ack bytes)
      | MessageKind.kIngestEvidence \<Rightarrow> map_sum id MEvidence (decode_evidence bytes)
      | MessageKind.kEvidenceAck \<Rightarrow> map_sum id MEvidenceAck (decode_evidence_ack bytes)
      | MessageKind.kInspectRequest \<Rightarrow> map_sum id MInspect (decode_inspect_request bytes)
      | MessageKind.kInspectResponse \<Rightarrow> map_sum id MInspectResponse (decode_inspect_response bytes)
      | MessageKind.kExplainRequest \<Rightarrow> map_sum id MExplain (decode_explain_request bytes)
      | MessageKind.kExplainResponse \<Rightarrow> map_sum id MExplainResponse (decode_explain_response bytes)
      | MessageKind.kErrorResponse \<Rightarrow> map_sum id MError (decode_error bytes)
      | MessageKind.kInstallPolicy \<Rightarrow> map_sum id MInstallPolicy (decode_install_policy bytes)
      | MessageKind.kInstallPolicyAck \<Rightarrow> map_sum id MInstallPolicyAck (decode_install_policy_ack bytes)
      | _ \<Rightarrow> Inl (Status ErrorCode_kFrameKindUnknown ''the frame kind carries no message''))"

text \<open>The bounds on the lengths and counts of a message that its receiver enforces.\<close>

fun evidence_fits :: "EvidencePayload \<Rightarrow> bool" where
  "evidence_fits NoEvidence = False"
| "evidence_fits (EvidenceCapacity c) \<longleftrightarrow> length (cap_links c) \<le> kTopologyLinksMax \<and> ascending lcap_link (cap_links c)"
| "evidence_fits (EvidenceCongestion c) \<longleftrightarrow> length (con_links c) \<le> kTopologyLinksMax \<and> ascending lcon_link (con_links c)"
| "evidence_fits (EvidenceTopology t) \<longleftrightarrow>
     topology_fits t \<and> ascending node_id (topo_nodes t) \<and> ascending link_id (topo_links t)"
| "evidence_fits (EvidencePolicy p) \<longleftrightarrow> policy_fits p"

fun message_fits :: "Message \<Rightarrow> bool" where
  "message_fits (MHello v) \<longleftrightarrow> length (hello_client_label v) \<le> kLabelBytesMax \<and> length (hello_client_version v) \<le> kLabelBytesMax"
| "message_fits (MHelloAck v) \<longleftrightarrow>
     unat (hack_max_frame_payload_bytes v) \<le> kFramePayloadMaxBytes \<and> length (hack_coordinator_label v) \<le> kLabelBytesMax"
| "message_fits (MHeartbeat v) \<longleftrightarrow> True"
| "message_fits (MHeartbeatAck v) \<longleftrightarrow> chain_fits (hback_reasons v)"
| "message_fits (MRegister v) \<longleftrightarrow> registration_fits v"
| "message_fits (MRegisterAck v) \<longleftrightarrow> chain_fits (rack_reasons v)"
| "message_fits (MBeginAttempt v) \<longleftrightarrow> True"
| "message_fits (MAttemptAck v) \<longleftrightarrow> chain_fits (aack_reasons v)"
| "message_fits (MPlan v) \<longleftrightarrow> request_fits v"
| "message_fits (MDecision v) \<longleftrightarrow> record_fits v"
| "message_fits (MCancel v) \<longleftrightarrow> length (life_reason v) \<le> kReasonDetailBytesMax"
| "message_fits (MRetire v) \<longleftrightarrow> length (life_reason v) \<le> kReasonDetailBytesMax"
| "message_fits (MLifecycleAck v) \<longleftrightarrow> chain_fits (lack_reasons v)"
| "message_fits (MEvidence v) \<longleftrightarrow> evidence_fits v"
| "message_fits (MEvidenceAck v) \<longleftrightarrow> chain_fits (evack_reasons v)"
| "message_fits (MInspect v) \<longleftrightarrow> unat (ireq_limit v) \<le> kInspectionPageMax"
| "message_fits (MInspectResponse v) \<longleftrightarrow> length (iresp_body v) \<le> kFramePayloadMaxBytes"
| "message_fits (MExplain v) \<longleftrightarrow> True"
| "message_fits (MExplainResponse v) \<longleftrightarrow>
     record_fits (eresp_decision v) \<and> length (eresp_explanation v) \<le> kFramePayloadMaxBytes"
| "message_fits (MError v) \<longleftrightarrow> err_code v \<le> ErrorCode_kInternalUnsupported \<and>
     length (err_message v) \<le> kReasonDetailBytesMax \<and> chain_fits (err_reasons v)"
| "message_fits (MInstallPolicy v) \<longleftrightarrow> policy_fits v"
| "message_fits (MInstallPolicyAck v) \<longleftrightarrow> chain_fits (pack_reasons v)"

text \<open>What the receiver sees: the message, except that a registration is put in canonical order and a decision
  loses what is not sent with it.\<close>

fun message_received :: "Message \<Rightarrow> Message" where
  "message_received (MRegister d) = MRegister (canonical_definition d)"
| "message_received (MDecision r) = MDecision (as_sent r)"
| "message_received (MExplainResponse v) = MExplainResponse (v\<lparr>eresp_decision := as_sent (eresp_decision v)\<rparr>)"
| "message_received m = m"

lemma explain_response_back:
  assumes "record_fits (eresp_decision v)" "length (eresp_explanation v) \<le> kFramePayloadMaxBytes"
  shows "\<exists>bytes. encode_explain_response v = Inr bytes \<and>
    decode_explain_response bytes = Inr (v\<lparr>eresp_decision := as_sent (eresp_decision v)\<rparr>)"
proof -
  from decode_record_back [OF assms(1)] obtain decision where
    enc: "encode_decision_record (eresp_decision v) = Inr decision" and
    dec: "\<And>rest. decode_decision_record (decision @ rest) = Inr (as_sent (eresp_decision v), rest)" by blast
  have "then_read decode_decision_record f (decision @ rest) = f (as_sent (eresp_decision v)) rest"
    for f :: "DecisionRecord \<Rightarrow> (Status, ExplainResponsePayload) reader" and rest
    using dec by (rule then_read_Inr)
  then show ?thesis
    using enc assms(2)
    by (simp add: encode_explain_response_def decode_explain_response_def read_explain_response_def message_simps)
qed

lemma evidence_back: "evidence_fits v \<Longrightarrow> \<exists>bytes. encode_evidence v = Inr bytes \<and> decode_evidence bytes = Inr v"
  by (cases v)
    (simp_all add: encode_evidence_def decode_evidence_def read_evidence_def message_simps
      wire_capacity.then_decode [where rest = "[]", simplified] wire_congestion.then_decode [where rest = "[]", simplified]
      wire_topology.then_decode [where rest = "[]", simplified] wire_policy.then_decode [where rest = "[]", simplified])

lemma plan_back: "request_fits v \<Longrightarrow> decode_plan_flow_group (encode_decision_request v) = Inr v"
  using wire_request.decode_encode [of v "[]"] by (simp add: decode_plan_flow_group_def decode_one_iff)

lemma policy_back: "policy_fits v \<Longrightarrow> decode_install_policy (encode_traffic_policy v) = Inr v"
  using wire_policy.decode_encode [of v "[]"] by (simp add: decode_install_policy_def decode_one_iff)

lemma decision_back:
  "record_fits v \<Longrightarrow> \<exists>bytes. encode_decision_record v = Inr bytes \<and> decode_decision bytes = Inr (as_sent v)"
  using decode_record_back [of v] by (auto simp: decode_decision_def decode_one_iff dest: spec [where x = "[]"])

lemma message_back:
  assumes "message_fits m"
  shows "\<exists>bytes. encode_message m = Inr bytes \<and> decode_message (message_kind m) bytes = Inr (message_received m)"
  using assms
  by (cases m) (auto simp: decode_message_def not_less registration_back plan_back policy_back
      hello_back hello_ack_back heartbeat_back begin_attempt_back lifecycle_back inspect_request_back
      inspect_response_back explain_request_back
      dest: heartbeat_ack_back register_ack_back attempt_ack_back lifecycle_ack_back evidence_ack_back
        install_policy_ack_back error_back evidence_back decision_back explain_response_back)


section \<open>Properties\<close>

definition sample_registration :: CollectiveDefinition where
  "sample_registration = CollectiveDefinition_default\<lparr>
     def_participants := [Identity 0 9, Identity 0 4, Identity 0 9],
     def_phases := [\<lparr>phase_index = 2, phase_label = ''b'', phase_synchronization_point = True, phase_step_count = 1\<rparr>,
                    \<lparr>phase_index = 1, phase_label = ''a'', phase_synchronization_point = False, phase_step_count = 0\<rparr>]\<rparr>"

text \<open>
  C25: Every message arrives. A message within the bounds of the protocol has an encoding; put into a
  frame with any flags and envelope that the frame layer sends, and followed by any other bytes, it is
  decoded from those bytes as the message that was sent, with its envelope. Only two things differ: a registration
  is received in canonical order, and a decision without the members that its encoding leaves out.
\<close>

theorem message_delivered:
  assumes "message_fits m"
  shows "\<exists>payload. encode_message m = Inr payload \<and>
    (\<forall>flags envelope bytes rest.
      encode_frame \<lparr>fr_kind = MessageKind_value (message_kind m), fr_flags = flags, fr_envelope = envelope, fr_payload = payload\<rparr>
        = Inr bytes \<longrightarrow>
      (\<exists>f. decode_frame (bytes @ rest) = Inr (f, length bytes) \<and> fr_envelope f = envelope \<and>
        fr_kind f = MessageKind_value (message_kind m) \<and>
        decode_message (message_kind m) (fr_payload f) = Inr (message_received m)))"
proof -
  from message_back [OF assms] obtain payload where
    payload: "encode_message m = Inr payload" "decode_message (message_kind m) payload = Inr (message_received m)" by blast
  then show ?thesis by (auto simp: encode_frame_iff decode_frame_bytes intro!: exI [of _ payload])
qed

theorem message_delivered_witness:
  "\<exists>payload. encode_message (MRegister sample_registration) = Inr payload \<and>
    (\<forall>flags envelope bytes rest.
      encode_frame \<lparr>fr_kind = 4, fr_flags = flags, fr_envelope = envelope, fr_payload = payload\<rparr> = Inr bytes \<longrightarrow>
      (\<exists>f. decode_frame (bytes @ rest) = Inr (f, length bytes) \<and> fr_envelope f = envelope \<and> fr_kind f = 4 \<and>
        decode_message MessageKind.kRegisterCollective (fr_payload f) =
          Inr (MRegister (canonical_definition sample_registration))))"
  using message_delivered [of "MRegister sample_registration"]
  by (simp add: registration_fits_def definition_fits_def sample_registration_def CollectiveDefinition_default_def
      kLabelBytesMax_def kParticipantsMaxPerCollective_def kPhasesMaxPerCollective_def kStepsMaxPerPhase_def
      kMetadataEntriesMax_def metadata_wf_def)

text \<open>
  C26: Whatever bytes a peer sends as a registration, what the coordinator accepts from them is canonical: it
  names at least one participant, the participants ascend without a duplicate, and so do the phases by
  index and the steps by phase and index.
\<close>

theorem decoded_registration_canonical:
  assumes "decode_register_collective bytes = Inr d"
  shows "def_participants d \<noteq> [] \<and> ascending (\<lambda>p. p) (def_participants d) \<and> ascending phase_index (def_phases d) \<and>
    ascending step_key (def_steps d)"
proof -
  from assms obtain decoded where
    dec: "decode_one decode_definition bytes = Inr decoded" and d: "d = canonical_definition decoded" and
    phases: "\<not> adjacent_duplicate phase_index (def_phases d)" and steps: "\<not> adjacent_duplicate step_key (def_steps d)"
    by (auto simp: decode_register_collective_def Let_def steps_no_duplicate split: sum.splits if_splits)
  have "def_participants decoded \<noteq> []"
    using dec by (rule decoded_participants)
  then have "set (def_participants d) \<noteq> {}" by (simp add: d canonical_definition_def)
  moreover have "ascending (\<lambda>p. p) (def_participants d)"
    by (simp add: d canonical_definition_def canonicalize_ascending)
  ultimately show ?thesis
    using canonical_sorted [of decoded] phases steps by (auto simp: d intro: no_adjacent_duplicate)
qed

theorem decoded_registration_canonical_witness:
  "decode_register_collective (encode_definition sample_registration) = Inr (canonical_definition sample_registration) \<and>
   ascending phase_index (def_phases (canonical_definition sample_registration))"
  using decoded_registration_canonical [of "encode_definition sample_registration" "canonical_definition sample_registration"]
    registration_back [of sample_registration]
  by (simp add: registration_fits_def definition_fits_def sample_registration_def CollectiveDefinition_default_def
      kLabelBytesMax_def kParticipantsMaxPerCollective_def kPhasesMaxPerCollective_def kStepsMaxPerPhase_def
      kMetadataEntriesMax_def metadata_wf_def)


end
