(* ===== verification/CTF_Service.thy ===== *)
theory CTF_Service
  imports CTF_Admission CTF_History CTF_Catalog CTF_Persistence
begin

text \<open>
  The coordinator service (include/ctf/service.hpp, src/service.cpp): sessions and envelope checks,
  participants, the lifecycle of collectives, decisions, evidence, persistence, and the counters.
  It composes the authority, the catalog, the history, the admission table and the snapshot store.

  Every public method holds one mutex while it reads or writes the state, so a method is one function
  from state to state. \<^verbatim>\<open>flush\<close> and \<^verbatim>\<open>stop\<close> release the mutex while the file is written: they are
  split where the mutex is released, so that other methods can run in between. Out parameters that a
  method leaves alone on some path are passed in and returned.

  \<open>svc_mint\<close> is the process-wide state of \<^verbatim>\<open>mint_identity\<close>; its entropy is arbitrary.
\<close>

section \<open>State\<close>

record EnvelopeView =
  view_session :: SessionId
  view_incarnation :: BootIncarnation
  view_epoch :: CoordinatorEpoch
  view_frame_sequence :: Sequence
  view_correlation :: u64

record SessionBinding =
  sb_id :: SessionId
  sb_incarnation :: BootIncarnation
  sb_epoch :: CoordinatorEpoch
  sb_peer_label :: string
  sb_opened_monotonic_ms :: u64
  sb_last_frame_monotonic_ms :: u64
  sb_last_frame_sequence :: Sequence
  sb_frames_received :: u64
  sb_frames_rejected :: u64
  sb_accepted_participants :: u64

record AttemptOutcome =
  ao_id :: CollectiveId
  ao_attempt :: CollectiveAttemptId
  ao_previous_attempt :: CollectiveAttemptId
  ao_state :: CollectiveState
  ao_reasons :: ReasonChain

definition AttemptOutcome_default :: AttemptOutcome where
  "AttemptOutcome_default =
     \<lparr>ao_id = no_identity, ao_attempt = no_identity, ao_previous_attempt = no_identity,
      ao_state = CollectiveState.kUnregistered, ao_reasons = []\<rparr>"

record ServiceRequestContext =
  ctx_session :: SessionId
  ctx_incarnation :: BootIncarnation
  ctx_epoch :: CoordinatorEpoch
  ctx_now_monotonic_ms :: u64
  ctx_correlation :: u64

record ServiceConfig =
  cfg_decision_history_capacity :: nat
  cfg_participant_ttl_ms :: u64
  cfg_session_idle_ttl_ms :: u64
  cfg_congestion_valid_for_ms :: u64
  cfg_require_congestion_evidence :: bool
  cfg_coordinator_label :: string

definition ServiceConfig_default :: ServiceConfig where
  "ServiceConfig_default =
     \<lparr>cfg_decision_history_capacity = kDecisionHistoryDefaultCapacity, cfg_participant_ttl_ms = 3000,
      cfg_session_idle_ttl_ms = 30000, cfg_congestion_valid_for_ms = 2000,
      cfg_require_congestion_evidence = True, cfg_coordinator_label = ''ctf-coordinator''\<rparr>"

record Counters =
  cnt_sessions_opened :: u64
  cnt_sessions_closed :: u64
  cnt_registrations :: u64
  cnt_generation_advances :: u64
  cnt_decisions :: u64
  cnt_admissions :: u64
  cnt_rejections :: u64
  cnt_rate_limited :: u64
  cnt_deferred :: u64
  cnt_replans :: u64
  cnt_fences :: u64
  cnt_evidence_ingests :: u64
  cnt_rejections_stale :: u64
  cnt_cancellations :: u64
  cnt_retirements :: u64
  cnt_stale_completions_rejected :: u64
  cnt_persists :: u64
  cnt_restores :: u64

definition Counters_default :: Counters where
  "Counters_default =
     \<lparr>cnt_sessions_opened = 0, cnt_sessions_closed = 0, cnt_registrations = 0, cnt_generation_advances = 0,
      cnt_decisions = 0, cnt_admissions = 0, cnt_rejections = 0, cnt_rate_limited = 0, cnt_deferred = 0,
      cnt_replans = 0, cnt_fences = 0, cnt_evidence_ingests = 0, cnt_rejections_stale = 0,
      cnt_cancellations = 0, cnt_retirements = 0, cnt_stale_completions_rejected = 0, cnt_persists = 0,
      cnt_restores = 0\<rparr>"

record CoordinatorService =
  svc_config :: ServiceConfig
  svc_authority :: AuthorityState
  svc_catalog :: CollectiveCatalog
  svc_history :: DecisionHistory
  svc_admission :: AdmissionController
  svc_counters :: Counters
  svc_sessions :: "(SessionId, SessionBinding) idmap"
  svc_mutation_sequence :: u64
  svc_persistence_dirty :: bool
  svc_running :: bool
  svc_persistence_path :: string
  svc_last_flush_monotonic_ms :: u64
  svc_mint :: mint_source

definition CoordinatorService_new :: "ServiceConfig \<Rightarrow> mint_source \<Rightarrow> CoordinatorService" where
  "CoordinatorService_new config ms =
     \<lparr>svc_config = config, svc_authority = AuthorityState_new,
      svc_catalog = CollectiveCatalog_new (of_nat kCollectivesMaxLive),
      svc_history = set_capacity (cfg_decision_history_capacity config)
        (DecisionHistory_new kDecisionHistoryDefaultCapacity),
      svc_admission = AdmissionController_new (of_nat kTokenBucketsMax), svc_counters = Counters_default,
      svc_sessions = [], svc_mutation_sequence = 0, svc_persistence_dirty = False, svc_running = False,
      svc_persistence_path = [], svc_last_flush_monotonic_ms = 0, svc_mint = ms\<rparr>"

text \<open>\<open>count cnt_fences_update\<close> is \<^verbatim>\<open>++counters_.fences\<close>.\<close>

definition count :: "((u64 \<Rightarrow> u64) \<Rightarrow> Counters \<Rightarrow> Counters) \<Rightarrow> CoordinatorService \<Rightarrow> CoordinatorService" where
  "count field svc = svc\<lparr>svc_counters := field (\<lambda>n. n + 1) (svc_counters svc)\<rparr>"

definition count_by ::
  "((u64 \<Rightarrow> u64) \<Rightarrow> Counters \<Rightarrow> Counters) \<Rightarrow> nat \<Rightarrow> CoordinatorService \<Rightarrow> CoordinatorService" where
  "count_by field k svc = svc\<lparr>svc_counters := field (\<lambda>n. n + of_nat k) (svc_counters svc)\<rparr>"

definition mark_durable_mutation :: "CoordinatorService \<Rightarrow> CoordinatorService" where
  "mark_durable_mutation svc =
     svc\<lparr>svc_mutation_sequence := svc_mutation_sequence svc + 1, svc_persistence_dirty := True\<rparr>"

definition service_mint :: "CoordinatorService \<Rightarrow> Identity \<times> CoordinatorService" where
  "service_mint svc = (let (minted, ms) = mint_identity (svc_mint svc) in (minted, svc\<lparr>svc_mint := ms\<rparr>))"

definition age_ms :: "u64 \<Rightarrow> u64 \<Rightarrow> u64" where
  "age_ms now since = (if now \<ge> since then now - since else 0)"

definition participants_without_authority :: "ParticipantId list \<Rightarrow> EvaluationSnapshot \<Rightarrow> ParticipantId list" where
  "participants_without_authority participants snapshot =
     std_sort (\<lambda>a b. a < b)
       (filter (\<lambda>p. case find_peer snapshot p of None \<Rightarrow> True
                  | Some liveness \<Rightarrow> \<not> is_current liveness (snap_now_monotonic_ms snapshot)) participants)"


section \<open>Lifecycle of the service\<close>

text \<open>\<open>None\<close> would be a \<^verbatim>\<open>begin_boot\<close> that never finds a fresh epoch.\<close>

definition service_start :: "u64 \<Rightarrow> CoordinatorService \<Rightarrow> (Status \<times> CoordinatorService) option" where
  "service_start now_monotonic_ms svc =
     (if svc_running svc
      then Some (Status ErrorCode_kStateDuplicateRegistration ''the coordinator is already running'', svc)
      else
        case begin_boot (au_epoch (svc_authority svc)) (svc_authority svc) (svc_mint svc) of
          None \<Rightarrow> None
        | Some (_, authority, ms) \<Rightarrow>
            let freshness = FreshnessPolicy_default
                  \<lparr>fresh_congestion_max_age_ms := cfg_congestion_valid_for_ms (svc_config svc)\<rparr>
            in Some (status_ok,
                     svc\<lparr>svc_authority := set_freshness_policy freshness authority, svc_mint := ms,
                         svc_running := True\<rparr>))"

definition snapshot_contents :: "u64 \<Rightarrow> CoordinatorService \<Rightarrow> SnapshotContents" where
  "snapshot_contents now_monotonic_ms svc =
     \<lparr>sc_format_version = kSnapshotFormatVersion, sc_written_monotonic_ms = now_monotonic_ms,
      sc_authority = durable_snapshot (svc_authority svc), sc_records = export_all (svc_catalog svc)\<rparr>"

text \<open>
  What \<^verbatim>\<open>stop\<close> and \<^verbatim>\<open>flush\<close> do under the mutex before they write: \<open>Inl\<close> of a status when they return
  at once, otherwise the captured contents, the path and the captured mutation sequence.
\<close>

type_synonym Capture = "SnapshotContents \<times> string \<times> u64"

definition stop_begin :: "u64 \<Rightarrow> CoordinatorService \<Rightarrow> (Status + Capture) \<times> CoordinatorService" where
  "stop_begin now_monotonic_ms svc =
     (if \<not> svc_running svc
      then (Inl (Status ErrorCode_kStateNotLive ''the coordinator is not running''), svc)
      else
        let expired = foldl (\<lambda>a session. snd (expire_session session now_monotonic_ms a))
              (svc_authority svc) (map fst (svc_sessions svc));
            svc1 = svc\<lparr>svc_running := False, svc_sessions := [],
                       svc_history := history_clear (svc_history svc),
                       svc_authority := invalidate_dynamic_evidence expired,
                       svc_admission := admission_clear (svc_admission svc)\<rparr>
        in
        if svc_persistence_dirty svc1 \<and> svc_persistence_path svc1 \<noteq> []
        then (Inr (snapshot_contents now_monotonic_ms svc1, svc_persistence_path svc1,
                   svc_mutation_sequence svc1), svc1)
        else (Inl status_ok, svc1))"

definition flush_begin :: "u64 \<Rightarrow> CoordinatorService \<Rightarrow> (Status + Capture) \<times> CoordinatorService" where
  "flush_begin now_monotonic_ms svc =
     (if svc_persistence_path svc = []
      then (Inl (Status ErrorCode_kPersistenceDirectoryUnavailable ''no persistence path is configured''), svc)
      else if \<not> svc_persistence_dirty svc then (Inl status_ok, svc)
      else (Inr (snapshot_contents now_monotonic_ms svc, svc_persistence_path svc, svc_mutation_sequence svc),
            svc\<lparr>svc_last_flush_monotonic_ms := now_monotonic_ms\<rparr>))"

text \<open>What both do under the mutex after a write with the given status.\<close>

definition flush_end :: "Status \<Rightarrow> u64 \<Rightarrow> CoordinatorService \<Rightarrow> CoordinatorService" where
  "flush_end status captured_sequence svc =
     (if \<not> is_ok status then svc
      else count cnt_persists_update
        (if svc_mutation_sequence svc = captured_sequence then svc\<lparr>svc_persistence_dirty := False\<rparr> else svc))"

text \<open>The whole methods, when no other method runs during the write.\<close>

definition finish_write ::
  "Io \<Rightarrow> u64 \<Rightarrow> (Status + Capture) \<times> CoordinatorService \<Rightarrow> FileSystem \<Rightarrow>
   Status \<times> CoordinatorService \<times> FileSystem" where
  "finish_write io now_monotonic_ms begun fs =
     (case begun of
        (Inl status, svc) \<Rightarrow> (status, svc, fs)
      | (Inr (contents, path, captured_sequence), svc) \<Rightarrow>
          let (status, states) = store_save io path contents now_monotonic_ms fs
          in (status, flush_end status captured_sequence svc, last states))"

definition service_stop ::
  "Io \<Rightarrow> u64 \<Rightarrow> CoordinatorService \<Rightarrow> FileSystem \<Rightarrow> Status \<times> CoordinatorService \<times> FileSystem" where
  "service_stop io now_monotonic_ms svc fs = finish_write io now_monotonic_ms (stop_begin now_monotonic_ms svc) fs"

definition flush ::
  "Io \<Rightarrow> u64 \<Rightarrow> CoordinatorService \<Rightarrow> FileSystem \<Rightarrow> Status \<times> CoordinatorService \<times> FileSystem" where
  "flush io now_monotonic_ms svc fs = finish_write io now_monotonic_ms (flush_begin now_monotonic_ms svc) fs"

definition has_policy :: "CoordinatorService \<Rightarrow> bool" where
  "has_policy svc \<longleftrightarrow> is_some (pol_generation (policy_snapshot (svc_authority svc)))"


section \<open>Sessions\<close>

definition open_session ::
  "string \<Rightarrow> u64 \<Rightarrow> CoordinatorService \<Rightarrow> (Status + SessionBinding) \<times> CoordinatorService" where
  "open_session peer_label now_monotonic_ms svc =
     (if \<not> svc_running svc
      then (Inl (Status ErrorCode_kStateShuttingDown ''the coordinator is not accepting sessions''), svc)
      else if idm_size (svc_sessions svc) \<ge> kSessionsMax
      then (Inl (Status ErrorCode_kTransportSessionLimit ''the session limit has been reached''), svc)
      else
        let (sid, svc1) = service_mint svc;
            (incarnation, svc2) = service_mint svc1;
            binding = \<lparr>sb_id = sid, sb_incarnation = incarnation, sb_epoch = au_epoch (svc_authority svc2),
                       sb_peer_label = (if length peer_label > kLabelBytesMax
                                        then take kLabelBytesMax peer_label else peer_label),
                       sb_opened_monotonic_ms = now_monotonic_ms,
                       sb_last_frame_monotonic_ms = now_monotonic_ms, sb_last_frame_sequence = 0,
                       sb_frames_received = 0, sb_frames_rejected = 0, sb_accepted_participants = 0\<rparr>
        in (Inr binding,
            count cnt_sessions_opened_update
              (svc2\<lparr>svc_sessions := (if idm_find (svc_sessions svc2) sid = None
                                    then idm_store sid binding (svc_sessions svc2)
                                    else svc_sessions svc2)\<rparr>)))"

definition check_session_locked ::
  "EnvelopeView \<Rightarrow> u64 \<Rightarrow> ReasonChain \<Rightarrow> CoordinatorService \<Rightarrow> Status \<times> ReasonChain \<times> CoordinatorService" where
  "check_session_locked envelope now_monotonic_ms reasons svc =
     (if is_none (view_session envelope)
      then (Status ErrorCode_kEnvelopeSessionUnknown ''the frame carries no session identity'',
            chain_add ''envelope_session_missing'' ''the frame carries no session identity'' no_identity reasons, svc)
      else
        case idm_find (svc_sessions svc) (view_session envelope) of
          None \<Rightarrow>
            (Status ErrorCode_kEnvelopeSessionUnknown ''unknown session'',
             chain_add ''envelope_session_unknown'' ''the session is not known to this coordinator''
               (view_session envelope) reasons, svc)
        | Some binding \<Rightarrow>
            if is_none (view_epoch envelope) \<or> view_epoch envelope \<noteq> au_epoch (svc_authority svc)
            then (Status ErrorCode_kEnvelopeEpochStale ''stale coordinator epoch'',
                  chain_add ''envelope_epoch_stale''
                    ''the frame names a coordinator epoch that is not current; a restart invalidates every earlier authority''
                    (view_epoch envelope) reasons, svc)
            else if is_none (view_incarnation envelope)
            then (Status ErrorCode_kEnvelopeIncarnationStale ''missing boot incarnation'',
                  chain_add ''envelope_incarnation_missing'' ''the frame carries no boot incarnation''
                    no_identity reasons, svc)
            else if view_incarnation envelope \<noteq> sb_incarnation binding
            then
              (if view_incarnation envelope < sb_incarnation binding
               then (Status ErrorCode_kEnvelopeIncarnationStale ''fenced boot incarnation'',
                     chain_add ''envelope_incarnation_fenced''
                       ''the frame comes from a boot incarnation that has been fenced''
                       (view_incarnation envelope) reasons, svc)
               else (Status ErrorCode_kEnvelopeSessionMismatch ''boot incarnation does not match this session'',
                     reasons, svc))
            else if is_unset (view_frame_sequence envelope)
            then (Status ErrorCode_kEnvelopeSequenceRegression ''missing frame sequence'',
                  chain_add ''envelope_sequence_missing'' ''the frame carries no sequence number'' no_identity reasons,
                  svc)
            else if view_frame_sequence envelope \<le> sb_last_frame_sequence binding
            then (Status ErrorCode_kEnvelopeReplayed ''frame sequence did not advance'',
                  chain_add ''envelope_sequence_regression''
                    ''the frame sequence did not advance; replays and reordered frames are refused''
                    (view_session envelope) reasons, svc)
            else (status_ok, reasons,
                  svc\<lparr>svc_sessions := idm_store (view_session envelope)
                        (binding\<lparr>sb_last_frame_sequence := view_frame_sequence envelope,
                           sb_last_frame_monotonic_ms := now_monotonic_ms,
                           sb_frames_received := sb_frames_received binding + 1\<rparr>) (svc_sessions svc)\<rparr>))"

definition validate_envelope ::
  "EnvelopeView \<Rightarrow> u64 \<Rightarrow> ReasonChain \<Rightarrow> CoordinatorService \<Rightarrow> Status \<times> ReasonChain \<times> CoordinatorService" where
  "validate_envelope envelope now_monotonic_ms reasons svc = check_session_locked envelope now_monotonic_ms reasons svc"

text \<open>The teardown of one session, shared by \<^verbatim>\<open>close_session\<close> and the sweep.\<close>

definition teardown :: "u64 \<Rightarrow> CoordinatorService \<Rightarrow> SessionId \<Rightarrow> CoordinatorService" where
  "teardown now_monotonic_ms svc session =
     (let (expired, authority) = expire_session session now_monotonic_ms (svc_authority svc)
      in count cnt_sessions_closed_update
           (count_by cnt_fences_update expired
             (svc\<lparr>svc_authority := authority, svc_sessions := idm_erase session (svc_sessions svc)\<rparr>)))"

definition close_session :: "SessionId \<Rightarrow> u64 \<Rightarrow> CoordinatorService \<Rightarrow> Status \<times> CoordinatorService" where
  "close_session session now_monotonic_ms svc =
     (if idm_find (svc_sessions svc) session = None
      then (Status ErrorCode_kEnvelopeSessionUnknown ''unknown session'', svc)
      else (status_ok, teardown now_monotonic_ms svc session))"

definition session_count :: "CoordinatorService \<Rightarrow> nat" where
  "session_count svc = idm_size (svc_sessions svc)"

definition sweep_idle_sessions :: "u64 \<Rightarrow> CoordinatorService \<Rightarrow> nat \<times> CoordinatorService" where
  "sweep_idle_sessions now_monotonic_ms svc =
     (let stale = std_sort (\<lambda>a b. a < b)
            (map fst (filter (\<lambda>(_, binding). age_ms now_monotonic_ms (sb_last_frame_monotonic_ms binding)
                               > cfg_session_idle_ttl_ms (svc_config svc)) (svc_sessions svc)))
      in (length stale, foldl (teardown now_monotonic_ms) svc stale))"


section \<open>Participants\<close>

definition publish_participant ::
  "ServiceRequestContext \<Rightarrow> ParticipantId \<Rightarrow> BootIncarnation \<Rightarrow> NodeId \<Rightarrow> ParticipantState \<Rightarrow>
   CoordinatorService \<Rightarrow> Status \<times> CoordinatorService" where
  "publish_participant context participant incarnation node state svc =
     (let now = ctx_now_monotonic_ms context;
          observed = PeerLiveness_default
            \<lparr>pl_participant := participant, pl_incarnation := incarnation, pl_state := state, pl_node := node,
             pl_bound_session := ctx_session context, pl_last_seen_monotonic_ms := now,
             pl_expires_at_monotonic_ms := now\<rparr>;
          fenced = Status ErrorCode_kEnvelopeIncarnationStale
            ''a newer boot incarnation for this participant has already been observed''
      in
      if is_none participant \<or> is_none incarnation
      then (Status ErrorCode_kValidationParticipantUnset ''participant or incarnation identity is unset'', svc)
      else if \<not> participant_state_holds_authority state
      then
        let (published, authority) = publish_liveness observed (svc_authority svc);
            svc1 = svc\<lparr>svc_authority := authority\<rparr>
        in if published = PublishResult.kFencedStaleIncarnation then (fenced, count cnt_fences_update svc1)
           else (status_ok, svc1)
      else
        let (published, authority) = publish_liveness
              (observed\<lparr>pl_state := ParticipantState.kLive,
                 pl_expires_at_monotonic_ms := now + cfg_participant_ttl_ms (svc_config svc)\<rparr>)
              (svc_authority svc);
            svc1 = svc\<lparr>svc_authority := authority\<rparr>
        in
        if published = PublishResult.kFencedStaleIncarnation then (fenced, count cnt_fences_update svc1)
        else if published = PublishResult.kRejectedCapacity
        then (Status ErrorCode_kStateCapacityExceeded ''the participant table is full'', svc1)
        else
          (status_ok,
           case idm_find (svc_sessions svc1) (ctx_session context) of
             None \<Rightarrow> svc1
           | Some binding \<Rightarrow>
               svc1\<lparr>svc_sessions := idm_store (ctx_session context)
                 (binding\<lparr>sb_accepted_participants := sb_accepted_participants binding + 1\<rparr>)
                 (svc_sessions svc1)\<rparr>))"

definition service_heartbeat ::
  "ServiceRequestContext \<Rightarrow> ParticipantId \<Rightarrow> BootIncarnation \<Rightarrow> CoordinatorService \<Rightarrow> Status \<times> CoordinatorService" where
  "service_heartbeat context participant incarnation svc =
     (if is_none participant \<or> is_none incarnation
      then (Status ErrorCode_kValidationParticipantUnset ''participant or incarnation identity is unset'', svc)
      else
        let (accepted, authority) = heartbeat participant incarnation (ctx_now_monotonic_ms context)
              (cfg_participant_ttl_ms (svc_config svc)) (svc_authority svc);
            svc1 = svc\<lparr>svc_authority := authority\<rparr>
        in if accepted then (status_ok, svc1)
           else (Status ErrorCode_kEnvelopeIncarnationStale
                   ''the heartbeat comes from a boot incarnation that has been fenced'',
                 count cnt_fences_update svc1))"


section \<open>Collectives\<close>

definition register_collective ::
  "ServiceRequestContext \<Rightarrow> CollectiveDefinition \<Rightarrow> RegistrationOutcome \<Rightarrow> CoordinatorService \<Rightarrow>
   Status \<times> RegistrationOutcome \<times> CoordinatorService" where
  "register_collective context d out svc =
     (if \<not> svc_running svc
      then (Status ErrorCode_kStateShuttingDown ''the coordinator is not running'', out, svc)
      else if idm_find (svc_sessions svc) (ctx_session context) = None
      then (Status ErrorCode_kEnvelopeSessionUnknown ''unknown session'', out, svc)
      else
        let (outcome, catalog) = register_definition d (ctx_now_monotonic_ms context) (svc_catalog svc);
            svc1 = svc\<lparr>svc_catalog := catalog\<rparr>
        in
        case ro_result outcome of
          RegistrationResult.kRegistered \<Rightarrow>
            (status_ok, outcome, mark_durable_mutation (count cnt_registrations_update svc1))
        | RegistrationResult.kGenerationAdvanced \<Rightarrow>
            (status_ok, outcome,
             mark_durable_mutation (count cnt_generation_advances_update (count cnt_registrations_update svc1)))
        | RegistrationResult.kUnchanged \<Rightarrow> (status_ok, outcome, svc1)
        | RegistrationResult.kRejectedCapacity \<Rightarrow>
            (Status ErrorCode_kStateCapacityExceeded ''the live collective bound has been reached'', outcome, svc1)
        | RegistrationResult.kRejectedTerminal \<Rightarrow>
            (Status ErrorCode_kStateCollectiveRetired
               ''the collective is terminal; a durable definition is never resurrected'', outcome, svc1)
        | RegistrationResult.kRejectedInvalid \<Rightarrow>
            (Status ErrorCode_kValidationClassUnknownRejected ''the definition was rejected'', outcome, svc1))"

definition begin_attempt ::
  "ServiceRequestContext \<Rightarrow> CollectiveId \<Rightarrow> CollectiveGeneration \<Rightarrow> CollectiveAttemptId \<Rightarrow> u64 \<Rightarrow> AttemptOutcome \<Rightarrow>
   CoordinatorService \<Rightarrow> Status \<times> AttemptOutcome \<times> CoordinatorService" where
  "begin_attempt context i generation attempt transfer_bytes out svc =
     (let outcome = AttemptOutcome_default\<lparr>ao_id := i, ao_attempt := attempt\<rparr>;
          stale = count cnt_stale_completions_rejected_update svc
      in
      if \<not> svc_running svc
      then (Status ErrorCode_kStateShuttingDown ''the coordinator is not running'', out, svc)
      else
        case catalog_find (svc_catalog svc) i of
          None \<Rightarrow>
            (Status ErrorCode_kCompletionUnknownCollective ''collective is not registered'',
             outcome\<lparr>ao_reasons := chain_add ''collective_unknown''
               ''no durable definition exists for this identity'' i []\<rparr>, stale)
        | Some record \<Rightarrow>
            if def_generation (crec_definition record) \<noteq> generation
            then (Status ErrorCode_kCompletionStaleGeneration ''collective generation is stale'',
                  outcome\<lparr>ao_state := crec_state record,
                    ao_reasons := chain_add ''attempt_generation_stale''
                      ''the attempt names a collective generation that is not current'' i []\<rparr>, stale)
            else if collective_state_is_terminal (crec_state record)
            then (Status (if crec_state record = CollectiveState.kCancelled then ErrorCode_kCompletionCancelled
                          else ErrorCode_kCompletionRetired) ''collective is terminal'',
                  outcome\<lparr>ao_state := crec_state record,
                    ao_reasons := chain_add ''collective_terminal''
                      ''a cancelled, retired or completed collective never resumes'' i []\<rparr>, stale)
            else
              let (begun, catalog) = catalog_begin_attempt i attempt (ctx_now_monotonic_ms context) (svc_catalog svc)
              in
              case begun of
                Inl status \<Rightarrow>
                  (status, outcome\<lparr>ao_reasons := chain_add ''attempt_rejected'' (status_message status) i []\<rparr>,
                   svc\<lparr>svc_catalog := catalog\<rparr>)
              | Inr previous \<Rightarrow>
                  let annotated = set_attempt_transfer_bytes i transfer_bytes catalog in
                  (status_ok,
                   outcome\<lparr>ao_previous_attempt := previous,
                     ao_state := (case catalog_find annotated i of None \<Rightarrow> CollectiveState.kPlanning
                                  | Some updated \<Rightarrow> crec_state updated),
                     ao_reasons := chain_add ''attempt_begun''
                       ''a new attempt was opened; every decision bound to the previous attempt is now stale'' i []\<rparr>,
                   mark_durable_mutation (svc\<lparr>svc_catalog := annotated\<rparr>)))"

definition cancel_collective ::
  "ServiceRequestContext \<Rightarrow> CollectiveId \<Rightarrow> CollectiveGeneration \<Rightarrow> CollectiveAttemptId \<Rightarrow> CollectiveState \<Rightarrow>
   ReasonChain \<Rightarrow> CoordinatorService \<Rightarrow> Status \<times> CollectiveState \<times> ReasonChain \<times> CoordinatorService" where
  "cancel_collective context i generation attempt out_state reasons svc =
     (let stale = count cnt_stale_completions_rejected_update svc in
      case catalog_find (svc_catalog svc) i of
        None \<Rightarrow>
          (Status ErrorCode_kCompletionUnknownCollective ''collective is not registered'', out_state,
           chain_add ''collective_unknown'' ''no durable definition exists for this identity'' i reasons, svc)
      | Some record \<Rightarrow>
          if def_generation (crec_definition record) \<noteq> generation
          then (Status ErrorCode_kCompletionStaleGeneration ''collective generation is stale'', out_state,
                chain_add ''cancellation_generation_stale''
                  ''the cancellation names a generation that is not current; it is refused rather than applied to the wrong generation''
                  i reasons, stale)
          else if collective_state_is_terminal (crec_state record)
          then (Status (if crec_state record = CollectiveState.kCancelled then ErrorCode_kCompletionDuplicate
                        else ErrorCode_kCompletionRetired) ''collective is already terminal'', crec_state record,
                chain_add ''cancellation_terminal'' ''the collective is already terminal'' i reasons, svc)
          else if is_some (crec_current_attempt record) \<and> is_some attempt \<and> crec_current_attempt record \<noteq> attempt
          then (Status ErrorCode_kCompletionStaleAttempt ''attempt is stale'', out_state,
                chain_add ''cancellation_attempt_stale''
                  ''the cancellation names an attempt that is no longer current'' i reasons, stale)
          else
            let (status, catalog) = catalog_cancel i (ctx_now_monotonic_ms context) (svc_catalog svc);
                svc1 = svc\<lparr>svc_catalog := catalog\<rparr>
            in
            if \<not> is_ok status
            then (status, out_state, chain_add ''cancellation_failed'' (status_message status) i reasons, svc1)
            else (status_ok, CollectiveState.kCancelled,
                  chain_add ''cancelled''
                    ''the collective is cancelled; a later completion for any earlier generation or attempt cannot restore it''
                    i reasons,
                  mark_durable_mutation (count cnt_cancellations_update svc1)))"

definition retire_collective ::
  "ServiceRequestContext \<Rightarrow> CollectiveId \<Rightarrow> CollectiveGeneration \<Rightarrow> CollectiveAttemptId \<Rightarrow> CollectiveState \<Rightarrow>
   ReasonChain \<Rightarrow> CoordinatorService \<Rightarrow> Status \<times> CollectiveState \<times> ReasonChain \<times> CoordinatorService" where
  "retire_collective context i generation attempt out_state reasons svc =
     (let stale = count cnt_stale_completions_rejected_update svc in
      case catalog_find (svc_catalog svc) i of
        None \<Rightarrow>
          (Status ErrorCode_kCompletionUnknownCollective ''collective is not registered'', out_state,
           chain_add ''collective_unknown'' ''no durable definition exists for this identity'' i reasons, svc)
      | Some record \<Rightarrow>
          if def_generation (crec_definition record) \<noteq> generation
          then (Status ErrorCode_kCompletionStaleGeneration ''collective generation is stale'', out_state,
                chain_add ''retirement_generation_stale''
                  ''the retirement names a generation that is not current'' i reasons, stale)
          else if collective_state_is_terminal (crec_state record)
          then (Status ErrorCode_kCompletionDuplicate ''collective is already terminal'', crec_state record,
                chain_add ''retirement_terminal'' ''the collective is already terminal'' i reasons, svc)
          else if is_some (crec_current_attempt record) \<and> is_some attempt \<and> crec_current_attempt record \<noteq> attempt
          then (Status ErrorCode_kCompletionStaleAttempt ''attempt is stale'', out_state,
                chain_add ''retirement_attempt_stale''
                  ''the retirement names an attempt that is no longer current'' i reasons, stale)
          else
            let (status, catalog) = catalog_retire i (ctx_now_monotonic_ms context) (svc_catalog svc);
                svc1 = svc\<lparr>svc_catalog := catalog\<rparr>
            in
            if \<not> is_ok status
            then (status, out_state, chain_add ''retirement_failed'' (status_message status) i reasons, svc1)
            else (status_ok, CollectiveState.kRetired,
                  chain_add ''retired'' ''the durable definition is retired and never resurrected'' i reasons,
                  mark_durable_mutation (count cnt_retirements_update svc1)))"


section \<open>Decisions\<close>

text \<open>
  The four refusals that \<^verbatim>\<open>plan_flow_group\<close> makes before the engine runs: they are counted, recorded in the
  history and returned, without a correlation.
\<close>

definition refuse_request ::
  "ServiceRequestContext \<Rightarrow> DecisionRequest \<Rightarrow> CollectiveClass \<Rightarrow> AuthorityAxis \<Rightarrow> ErrorCode \<Rightarrow> string \<Rightarrow> string \<Rightarrow>
   CoordinatorService \<Rightarrow> DecisionRecord \<times> CoordinatorService" where
  "refuse_request context request cls axis code reason detail svc =
     (let decision = DecisionRecord_default
            \<lparr>rec_instance := req_instance request, rec_collective_class := cls,
             rec_outcome := Outcome.kRejectedStale, rec_axis := axis, rec_code := code,
             rec_decided_monotonic_ms := ctx_now_monotonic_ms context,
             rec_reasons := chain_add reason detail (inst_id (req_instance request)) []\<rparr>
      in (decision, svc\<lparr>svc_history := snd (history_record decision (svc_history svc))\<rparr>))"

text \<open>The branch of a granting decision: activation of the collective, then the admission table.\<close>

definition admit_decision ::
  "ServiceRequestContext \<Rightarrow> DecisionRequest \<Rightarrow> DecisionRecord \<Rightarrow> CoordinatorService \<Rightarrow>
   DecisionRecord \<times> CoordinatorService" where
  "admit_decision context request evaluated svc =
     (let now = ctx_now_monotonic_ms context;
          (advanced, catalog) =
            catalog_set_state (inst_id (req_instance request)) CollectiveState.kActive now (svc_catalog svc);
          svc1 = svc\<lparr>svc_catalog := catalog\<rparr>
      in
      if \<not> is_ok advanced
      then (evaluated\<lparr>rec_outcome := Outcome.kRejectedStale, rec_axis := AuthorityAxis.kLifecycle,
              rec_code := status_code advanced,
              rec_reasons := chain_add ''activation_failed'' (status_message advanced)
                (inst_id (req_instance request)) (rec_reasons evaluated)\<rparr>, svc1)
      else
        let (admission, controller) = admit evaluated now (svc_admission svc1);
            svc2 = svc1\<lparr>svc_admission := controller\<rparr>;
            noted = evaluated\<lparr>rec_reasons :=
              foldl (\<lambda>chain reason. chain_add_reason reason chain) (rec_reasons evaluated) (ar_reasons admission)\<rparr>
        in
        case ar_outcome admission of
          AdmissionOutcome.kGranted \<Rightarrow> (noted, count cnt_admissions_update svc2)
        | AdmissionOutcome.kRateLimited \<Rightarrow>
            (noted\<lparr>rec_pacing := (rec_pacing noted)\<lparr>pi_release_after_monotonic_ms := now + ar_wait_ms admission\<rparr>,
               rec_outcome := Outcome.kRateLimited, rec_code := ErrorCode_kAdmissionRateLimited\<rparr>,
             count cnt_rate_limited_update svc2)
        | AdmissionOutcome.kClockRegression \<Rightarrow>
            (noted\<lparr>rec_outcome := Outcome.kDeferred, rec_code := ErrorCode_kAdmissionClockRegression,
               rec_pacing := (rec_pacing noted)\<lparr>pi_release_after_monotonic_ms := 0\<rparr>\<rparr>,
             count cnt_deferred_update svc2)
        | AdmissionOutcome.kBucketTableFull \<Rightarrow>
            (noted\<lparr>rec_outcome := Outcome.kRejectedCapacity, rec_axis := AuthorityAxis.kCapacityEvidence,
               rec_code := ErrorCode_kAdmissionBucketCapacity\<rparr>, count cnt_rejections_update svc2)
        | AdmissionOutcome.kNotApplicable \<Rightarrow> (noted, svc2))"

definition effective_definition :: "CollectiveRecord \<Rightarrow> CollectiveDefinition" where
  "effective_definition record =
     (let d = crec_definition record in
      if def_logical_bytes d = 0 \<and> crec_attempt_transfer_bytes record \<noteq> 0
      then d\<lparr>def_logical_bytes := crec_attempt_transfer_bytes record\<rparr> else d)"

text \<open>The evaluation of a request against the current record, and what follows from its outcome.\<close>

definition decide ::
  "ServiceRequestContext \<Rightarrow> DecisionRequest \<Rightarrow> CollectiveRecord \<Rightarrow> CoordinatorService \<Rightarrow>
   DecisionRecord \<times> CoordinatorService" where
  "decide context request record svc =
     (let snapshot = authority_snapshot (ctx_now_monotonic_ms context) (svc_authority svc);
          evaluated = (fst (evaluate snapshot request (effective_definition record) EngineCounters_default))
            \<lparr>rec_instance := req_instance request\<rparr>
      in
      if outcome_grants_authority (rec_outcome evaluated) then admit_decision context request evaluated svc
      else if outcome_is_rejection (rec_outcome evaluated)
      then (evaluated,
            (let svc1 = count cnt_rejections_update svc;
                 svc2 = (if rec_outcome evaluated = Outcome.kRejectedStale
                         then count cnt_rejections_stale_update svc1 else svc1)
             in if rec_outcome evaluated = Outcome.kUnknownSemantics then count cnt_rejections_update svc2 else svc2))
      else if outcome_requires_replan (rec_outcome evaluated) then (evaluated, count cnt_replans_update svc)
      else (evaluated, svc))"

definition record_decision ::
  "ServiceRequestContext \<Rightarrow> DecisionRecord \<Rightarrow> CoordinatorService \<Rightarrow> CoordinatorService" where
  "record_decision context evaluated svc =
     (let svc1 = count cnt_decisions_update svc;
          (ordinal, history) = history_record evaluated (svc_history svc1)
      in svc1\<lparr>svc_history :=
           (if is_some (ctx_session context) \<and> ctx_correlation context \<noteq> 0
            then bind_correlation (ctx_correlation context) ordinal history else history)\<rparr>)"

definition plan_flow_group ::
  "ServiceRequestContext \<Rightarrow> DecisionRequest \<Rightarrow> DecisionRecord \<Rightarrow> CoordinatorService \<Rightarrow>
   Status \<times> DecisionRecord \<times> CoordinatorService" where
  "plan_flow_group context request out svc =
     (if \<not> svc_running svc
      then (Status ErrorCode_kStateShuttingDown ''the coordinator is not running'', out, svc)
      else
        let session_status =
          (if is_some (ctx_session context)
           then
             (case idm_find (svc_sessions svc) (ctx_session context) of
                None \<Rightarrow> Status ErrorCode_kEnvelopeSessionUnknown ''unknown session''
              | Some binding \<Rightarrow>
                  if sb_incarnation binding \<noteq> ctx_incarnation context
                  then Status ErrorCode_kEnvelopeSessionMismatch ''session incarnation does not match''
                  else if is_some (ctx_epoch context) \<and> ctx_epoch context \<noteq> au_epoch (svc_authority svc)
                  then Status ErrorCode_kEnvelopeEpochStale ''stale coordinator epoch''
                  else status_ok)
           else status_ok);
          validated = validate_decision_request request;
          rejected = count cnt_rejections_update svc;
          counted = count cnt_stale_completions_rejected_update (count cnt_rejections_stale_update rejected)
        in
        if \<not> is_ok session_status then (session_status, out, svc)
        else if \<not> is_ok validated then (validated, out, svc)
        else
          case catalog_find (svc_catalog svc) (inst_id (req_instance request)) of
            None \<Rightarrow>
              (status_ok, refuse_request context request CollectiveClass.kUnknown AuthorityAxis.kCollectiveGeneration
                 ErrorCode_kCompletionUnknownCollective ''collective_unknown''
                 ''no durable definition exists for this identity; a decision requires a registered collective'' counted)
          | Some record \<Rightarrow>
              if def_generation (crec_definition record) \<noteq> inst_generation (req_instance request)
              then
                (status_ok, refuse_request context request (def_collective_class (crec_definition record))
                   AuthorityAxis.kCollectiveGeneration ErrorCode_kCompletionStaleGeneration
                   ''collective_generation_stale''
                   ''the request names a generation that is not current; membership or semantics changed and every earlier decision is stale''
                   counted)
              else if is_none (crec_current_attempt record) \<or>
                crec_current_attempt record \<noteq> inst_attempt (req_instance request)
              then
                (status_ok, refuse_request context request (def_collective_class (crec_definition record))
                   AuthorityAxis.kAttemptGeneration ErrorCode_kCompletionStaleAttempt ''attempt_stale''
                   ''the request names an attempt that is not the current attempt of this generation; flow group authority cannot be reused across attempts''
                   counted)
              else if collective_state_is_terminal (crec_state record)
              then
                (status_ok, refuse_request context request (def_collective_class (crec_definition record))
                   AuthorityAxis.kLifecycle
                   (if crec_state record = CollectiveState.kCancelled then ErrorCode_kCompletionCancelled
                    else ErrorCode_kCompletionRetired)
                   ''collective_terminal''
                   (''the collective is '' @ CollectiveState_to_string (crec_state record) @
                    ''; it cannot be restored by a later completion'')
                   (count cnt_stale_completions_rejected_update rejected))
              else
                let (evaluated, svc1) = decide context request record svc
                in (status_ok, evaluated, record_decision context evaluated svc1))"


section \<open>Evidence\<close>

definition check_context_locked ::
  "ServiceRequestContext \<Rightarrow> ReasonChain \<Rightarrow> CoordinatorService \<Rightarrow> Status \<times> ReasonChain" where
  "check_context_locked context reasons svc =
     (case idm_find (svc_sessions svc) (ctx_session context) of
        None \<Rightarrow>
          (Status ErrorCode_kEnvelopeSessionUnknown ''unknown session'',
           chain_add ''session_unknown'' ''the request does not come from a session this coordinator owns''
             (ctx_session context) reasons)
      | Some binding \<Rightarrow>
          if is_none (ctx_incarnation context) \<or> sb_incarnation binding \<noteq> ctx_incarnation context
          then (Status ErrorCode_kEnvelopeSessionMismatch ''session incarnation does not match'',
                chain_add ''session_incarnation_mismatch''
                  ''the request carries a boot incarnation that this session does not own''
                  (ctx_incarnation context) reasons)
          else if is_some (ctx_epoch context) \<and> ctx_epoch context \<noteq> au_epoch (svc_authority svc)
          then (Status ErrorCode_kEnvelopeEpochStale ''stale coordinator epoch'',
                chain_add ''epoch_stale''
                  ''the request names a coordinator epoch that is not current; a restart invalidates every earlier authority''
                  (ctx_epoch context) reasons)
          else (status_ok, reasons))"

text \<open>The generation of evidence that states none.\<close>

definition stated_or_minted :: "Identity \<Rightarrow> CoordinatorService \<Rightarrow> Identity \<times> CoordinatorService" where
  "stated_or_minted generation svc = (if is_none generation then service_mint svc else (generation, svc))"

definition ingest_capacity ::
  "ServiceRequestContext \<Rightarrow> CapacityEvidence \<Rightarrow> EvidenceGeneration \<Rightarrow> ReasonChain \<Rightarrow> CoordinatorService \<Rightarrow>
   Status \<times> EvidenceGeneration \<times> ReasonChain \<times> CoordinatorService" where
  "ingest_capacity context observed out_generation reasons svc =
     (let (status, reasons1) = check_context_locked context reasons svc in
      if \<not> is_ok status then (status, out_generation, reasons1, svc)
      else
        let (generation, svc1) = stated_or_minted (cap_generation observed) svc;
            evidence = observed\<lparr>cap_generation := generation\<rparr>;
            (result, authority) = install_capacity evidence (svc_authority svc1);
            svc2 = count cnt_evidence_ingests_update (svc1\<lparr>svc_authority := authority\<rparr>);
            out = au_capacity_generation authority
        in
        case result of
          InstallResult.kInstalled \<Rightarrow>
            (status_ok, out,
             chain_add ''capacity_installed'' ''capacity observation installed for the current topology''
               generation reasons1, svc2)
        | InstallResult.kRejectedOlderGeneration \<Rightarrow>
            (Status ErrorCode_kEnvelopeEpochStale ''capacity generation is not newer'', out,
             chain_add ''capacity_generation_stale''
               ''a newer capacity observation is already installed; an older one is refused'' generation reasons1, svc2)
        | InstallResult.kRejectedInvalid \<Rightarrow>
            (Status ErrorCode_kValidationTopologyMissing ''capacity evidence rejected'', out,
             chain_add ''capacity_invalid''
               ''the capacity observation does not match the current topology or is malformed''
               (cap_topology_generation observed) reasons1, svc2)
        | _ \<Rightarrow>
            (Status ErrorCode_kDecodeCountOutOfRange ''capacity evidence too large'', out,
             chain_add ''capacity_oversized'' ''the capacity observation exceeds the accepted bound''
               generation reasons1, svc2))"

definition ingest_congestion ::
  "ServiceRequestContext \<Rightarrow> CongestionEvidence \<Rightarrow> EvidenceGeneration \<Rightarrow> ReasonChain \<Rightarrow> CoordinatorService \<Rightarrow>
   Status \<times> EvidenceGeneration \<times> ReasonChain \<times> CoordinatorService" where
  "ingest_congestion context observed out_generation reasons svc =
     (let (status, reasons1) = check_context_locked context reasons svc in
      if \<not> is_ok status then (status, out_generation, reasons1, svc)
      else
        let (generation, svc1) = stated_or_minted (con_generation observed) svc;
            bound = min (con_valid_for_ms observed) (cfg_congestion_valid_for_ms (svc_config svc));
            evidence = observed\<lparr>con_generation := generation, con_valid_for_ms := bound\<rparr>;
            (result, authority) = install_congestion evidence (svc_authority svc1);
            svc2 = count cnt_evidence_ingests_update (svc1\<lparr>svc_authority := authority\<rparr>);
            out = au_congestion_generation authority
        in
        case result of
          InstallResult.kInstalled \<Rightarrow>
            (status_ok, out,
             chain_add ''congestion_installed'' ''congestion observation installed for the current topology''
               generation reasons1, svc2)
        | InstallResult.kRejectedOlderGeneration \<Rightarrow>
            (Status ErrorCode_kEnvelopeEpochStale ''congestion generation is not newer'', out,
             chain_add ''congestion_generation_stale''
               ''a newer congestion observation is already installed; an older one is refused'' generation reasons1,
             svc2)
        | InstallResult.kRejectedInvalid \<Rightarrow>
            (Status ErrorCode_kValidationTopologyMissing ''congestion evidence rejected'', out,
             chain_add ''congestion_invalid''
               ''the congestion observation does not match the current topology or is malformed''
               (con_topology_generation observed) reasons1, svc2)
        | _ \<Rightarrow>
            (Status ErrorCode_kDecodeCountOutOfRange ''congestion evidence too large'', out,
             chain_add ''congestion_oversized'' ''the congestion observation exceeds the accepted bound''
               generation reasons1, svc2))"

definition ingest_topology ::
  "ServiceRequestContext \<Rightarrow> TopologyEvidence \<Rightarrow> TopologyGeneration \<Rightarrow> ReasonChain \<Rightarrow> CoordinatorService \<Rightarrow>
   Status \<times> TopologyGeneration \<times> ReasonChain \<times> CoordinatorService" where
  "ingest_topology context observed out_generation reasons svc =
     (let (status, reasons1) = check_context_locked context reasons svc in
      if \<not> is_ok status then (status, out_generation, reasons1, svc)
      else
        let (generation, svc1) = stated_or_minted (topo_generation observed) svc;
            evidence = observed\<lparr>topo_generation := generation\<rparr>;
            (result, authority) = install_topology evidence (svc_authority svc1);
            svc2 = count cnt_evidence_ingests_update (svc1\<lparr>svc_authority := authority\<rparr>);
            out = au_topology_generation authority
        in
        case result of
          InstallResult.kInstalled \<Rightarrow>
            (status_ok, out,
             chain_add ''topology_installed''
               ''topology installed; capacity and congestion observations were dropped because they describe a previous topology''
               generation reasons1, mark_durable_mutation svc2)
        | InstallResult.kRejectedOlderGeneration \<Rightarrow>
            (Status ErrorCode_kEnvelopeEpochStale ''topology generation is not newer'', out,
             chain_add ''topology_generation_stale''
               ''a newer topology is already installed; an older one is refused'' generation reasons1, svc2)
        | InstallResult.kRejectedInvalid \<Rightarrow>
            (Status ErrorCode_kValidationNodeUnknown ''topology evidence rejected'', out,
             chain_add ''topology_invalid'' ''the topology observation is malformed'' generation reasons1, svc2)
        | _ \<Rightarrow>
            (Status ErrorCode_kDecodeCountOutOfRange ''topology evidence too large'', out,
             chain_add ''topology_oversized'' ''the topology observation exceeds the accepted bound''
               generation reasons1, svc2))"

definition service_install_policy ::
  "ServiceRequestContext \<Rightarrow> TrafficPolicy \<Rightarrow> PolicyGeneration \<Rightarrow> ReasonChain \<Rightarrow> CoordinatorService \<Rightarrow>
   Status \<times> PolicyGeneration \<times> ReasonChain \<times> CoordinatorService" where
  "service_install_policy context proposed out_generation reasons svc =
     (let (status, reasons1) = check_context_locked context reasons svc in
      if \<not> is_ok status then (status, out_generation, reasons1, svc)
      else
        let (generation, svc1) = stated_or_minted (pol_generation proposed) svc;
            policy = proposed\<lparr>pol_generation := generation\<rparr>;
            (result, authority) = install_policy policy (svc_authority svc1);
            svc2 = svc1\<lparr>svc_authority := authority\<rparr>;
            out = au_policy_generation authority
        in
        case result of
          InstallResult.kInstalled \<Rightarrow>
            (status_ok, out,
             chain_add ''policy_installed''
               ''traffic policy installed; earlier decisions bound to a previous policy generation are now stale''
               out reasons1, mark_durable_mutation svc2)
        | InstallResult.kRejectedSameGeneration \<Rightarrow>
            (Status ErrorCode_kEnvelopeEpochStale ''policy generation is already installed'', out,
             chain_add ''policy_generation_reused''
               ''the policy generation equals the one already installed; a different policy under the same generation would make two incompatible decisions indistinguishable''
               out reasons1, svc2)
        | InstallResult.kRejectedOlderGeneration \<Rightarrow>
            (Status ErrorCode_kEnvelopeEpochStale ''policy generation is superseded'', out,
             chain_add ''policy_generation_superseded''
               ''this policy generation has already been superseded by a newer one'' out reasons1, svc2)
        | _ \<Rightarrow>
            (Status ErrorCode_kValidationPolicyMissing ''traffic policy rejected'', out,
             chain_add ''policy_rejected'' ''the traffic policy is not internally consistent'' no_identity reasons1,
             svc2))"


section \<open>Explanations\<close>

definition explanation_text :: "DecisionRecord \<Rightarrow> string" where
  "explanation_text found =
     ''decision_ordinal: '' @ decimal (rec_decision_sequence found) @ [CHR 0x0A] @ explain found"

text \<open>The flag, the decision (left alone when nothing is found) and the text.\<close>

definition service_explain ::
  "CollectiveId \<Rightarrow> CollectiveAttemptId \<Rightarrow> DecisionRecord \<Rightarrow> CoordinatorService \<Rightarrow> bool \<times> DecisionRecord \<times> string" where
  "service_explain i attempt out_decision svc =
     (case find_attempt i attempt (svc_history svc) of
        Inl status \<Rightarrow>
          (False, out_decision,
           ''no retained decision exists for collective '' @ identity_to_string i @ '' attempt '' @
           (if is_some attempt then identity_to_string attempt else ''(latest)'') @
           ''; history status: '' @ HistoryStatus_to_string status @ [CHR 0x0A])
      | Inr found \<Rightarrow> (True, found, explanation_text found))"

definition explain_correlation ::
  "u64 \<Rightarrow> DecisionRecord \<Rightarrow> CoordinatorService \<Rightarrow> bool \<times> DecisionRecord \<times> string" where
  "explain_correlation correlation out_decision svc =
     (case find_correlation correlation (svc_history svc) of
        Inr found \<Rightarrow> (True, found, explanation_text found)
      | Inl _ \<Rightarrow> (False, out_decision, ''no retained decision matches that correlation'' @ [CHR 0x0A]))"


section \<open>Persistence\<close>

definition configure_persistence :: "string \<Rightarrow> u64 \<Rightarrow> CoordinatorService \<Rightarrow> Status \<times> CoordinatorService" where
  "configure_persistence path now_monotonic_ms svc =
     (status_ok, svc\<lparr>svc_persistence_path := path, svc_persistence_dirty := False,
                     svc_last_flush_monotonic_ms := now_monotonic_ms\<rparr>)"

definition service_restore ::
  "Io \<Rightarrow> string \<Rightarrow> u64 \<Rightarrow> FileSystem \<Rightarrow> CoordinatorService \<Rightarrow> Status \<times> LoadDisposition \<times> CoordinatorService" where
  "service_restore io path now_monotonic_ms fs svc =
     (case store_load io path fs of
        (disposition, diagnostic, loaded) \<Rightarrow>
          if disposition = LoadDisposition.kMissing
          then (Status ErrorCode_kPersistenceOpenFailed ''no snapshot file exists at the configured path'',
                disposition, svc)
          else if disposition \<noteq> LoadDisposition.kLoaded
          then (Status ErrorCode_kPersistenceCorrupt (if diagnostic = [] then ''snapshot rejected'' else diagnostic),
                disposition, svc)
          else
            let contents = the loaded;
                (status, authority) = restore_durable (sc_authority contents) now_monotonic_ms (svc_authority svc);
                svc1 = svc\<lparr>svc_authority := authority\<rparr>
            in
            if \<not> is_ok status then (status, LoadDisposition.kRejectedImpossible, svc1)
            else
              let (status', catalog) = catalog_load (sc_records contents) (svc_catalog svc1);
                  svc2 = svc1\<lparr>svc_catalog := catalog\<rparr>
              in
              if \<not> is_ok status' then (status', LoadDisposition.kRejectedImpossible, svc2)
              else (status_ok, disposition,
                    count cnt_restores_update
                      (svc2\<lparr>svc_persistence_path := path, svc_persistence_dirty := False\<rparr>)))"

definition persistence_configured :: "CoordinatorService \<Rightarrow> bool" where
  "persistence_configured svc \<longleftrightarrow> svc_persistence_path svc \<noteq> []"

definition reset_counters :: "CoordinatorService \<Rightarrow> CoordinatorService" where
  "reset_counters svc = svc\<lparr>svc_counters := Counters_default\<rparr>"

definition set_config :: "ServiceConfig \<Rightarrow> CoordinatorService \<Rightarrow> CoordinatorService" where
  "set_config config svc =
     svc\<lparr>svc_config := config,
         svc_history := set_capacity (cfg_decision_history_capacity config) (svc_history svc)\<rparr>"

end
