(* ===== verification/CTF_Inspection.thy ===== *)
theory CTF_Inspection
  imports CTF_Service
begin

text \<open>
  The texts the service answers inspections with (\<^verbatim>\<open>inspect_*\<close> in src/service.cpp). They read the state and
  change nothing. \<^verbatim>\<open>inspect_summary\<close> reads the monotonic clock, which is a parameter here.
\<close>

section \<open>Rendering\<close>

definition newline :: string where "newline = [CHR 0x0A]"

definition size_text :: "nat \<Rightarrow> string" where "size_text n = decimal (of_nat n)"

definition identity_or_dash :: "Identity \<Rightarrow> string" where
  "identity_or_dash i = (if is_some i then identity_to_string i else ''-'')"

definition render_definition :: "CollectiveDefinition \<Rightarrow> string" where
  "render_definition d =
     ''  class='' @ CollectiveClass_to_string (def_collective_class d) @
     '' hint='' @ AlgorithmHint_to_string (def_algorithm_hint d) @
     '' scope='' @ CollectiveScope_to_string (def_scope d) @ newline @
     ''  label='' @ (if def_label d = [] then ''-'' else def_label d) @ newline @
     ''  participants='' @ size_text (length (def_participants d)) @
     '' phases='' @ size_text (length (def_phases d)) @ '' steps='' @ size_text (length (def_steps d)) @
     '' logical_bytes='' @ decimal (def_logical_bytes d) @ newline @
     ''  barrier_semantics='' @ yes_no (def_declares_barrier_semantics d) @
     '' fabric='' @ identity_or_dash (def_fabric d) @ newline"

definition inspect_summary :: "u64 \<Rightarrow> CoordinatorService \<Rightarrow> string" where
  "inspect_summary monotonic_now_ms svc =
     (let authority = svc_authority svc; counters = svc_counters svc in
      ''coordinator: '' @ cfg_coordinator_label (svc_config svc) @ newline @
      ''running: '' @ yes_no (svc_running svc) @ newline @
      ''epoch: '' @ identity_to_string (au_epoch authority) @ newline @
      ''policy_generation: '' @ identity_to_string (au_policy_generation authority) @ newline @
      ''topology_generation: '' @ identity_to_string (au_topology_generation authority) @ newline @
      ''capacity_generation: '' @ identity_to_string (au_capacity_generation authority) @ newline @
      ''congestion_generation: '' @ identity_to_string (au_congestion_generation authority) @ newline @
      ''collectives: '' @ size_text (catalog_size (svc_catalog svc)) @
      '' of '' @ decimal (ucast (cat_capacity (svc_catalog svc))) @ newline @
      ''peers: '' @ size_text (live_peer_count monotonic_now_ms authority) @ '' live of '' @
      size_text (peer_count authority) @ '' recorded'' @ newline @
      ''sessions: '' @ size_text (idm_size (svc_sessions svc)) @ '' of '' @ size_text kSessionsMax @ newline @
      ''decision_history: '' @ size_text (history_size (svc_history svc)) @
      '' of '' @ size_text (hist_capacity (svc_history svc)) @ newline @
      ''decisions: '' @ decimal (cnt_decisions counters) @ '' admissions: '' @ decimal (cnt_admissions counters) @
      '' rejections: '' @ decimal (cnt_rejections counters) @ newline @
      ''rate_limited: '' @ decimal (cnt_rate_limited counters) @ '' deferred: '' @ decimal (cnt_deferred counters) @
      '' replans: '' @ decimal (cnt_replans counters) @ newline @
      ''fences: '' @ decimal (cnt_fences counters) @ '' stale_completions_rejected: '' @
      decimal (cnt_stale_completions_rejected counters) @ newline @
      ''persistence: '' @ (if svc_persistence_path svc = [] then ''disabled'' else svc_persistence_path svc) @
      (if svc_persistence_dirty svc then '' (dirty)'' else '' (clean)'') @ newline)"

definition inspect_collective :: "CollectiveId \<Rightarrow> CoordinatorService \<Rightarrow> string" where
  "inspect_collective i svc =
     (case catalog_find (svc_catalog svc) i of
        None \<Rightarrow> ''collective '' @ identity_to_string i @ '' is not registered'' @ newline
      | Some record \<Rightarrow>
          ''collective: '' @ identity_to_string (def_id (crec_definition record)) @ newline @
          ''  generation: '' @ identity_to_string (def_generation (crec_definition record)) @ newline @
          ''  state: '' @ CollectiveState_to_string (crec_state record) @ newline @
          ''  current_attempt: '' @ identity_or_none (crec_current_attempt record) @ newline @
          ''  attempt_sequence: '' @ decimal (crec_attempt_sequence record) @ newline @
          ''  registration_sequence: '' @ decimal (crec_registration_sequence record) @ newline @
          ''  generation_ancestry_depth: '' @ decimal (ucast (crec_generation_ancestry_depth record)) @ newline @
          ''  accepts_new_authority: '' @ yes_no (accepts_new_authority record) @ newline @
          render_definition (crec_definition record))"

definition inspect_decisions :: "u64 \<Rightarrow> nat \<Rightarrow> CoordinatorService \<Rightarrow> DecisionRecord list" where
  "inspect_decisions offset limit svc = page offset limit (svc_history svc)"

definition inspect_decisions_text :: "u64 \<Rightarrow> nat \<Rightarrow> CoordinatorService \<Rightarrow> string" where
  "inspect_decisions_text offset limit svc =
     (let records = page offset limit (svc_history svc);
          histogram = outcome_histogram (svc_history svc)
      in ''decisions: '' @ size_text (length records) @ '' from ordinal '' @ decimal offset @ newline @
         concat (map (\<lambda>r. ''  ['' @ decimal (rec_decision_sequence r) @ ''] '' @ summary r @ newline) records) @
         ''outcomes:'' @ concat (map (\<lambda>(name, n). '' '' @ name @ ''='' @ decimal n) histogram) @ newline)"

definition inspect_peers :: "CoordinatorService \<Rightarrow> string" where
  "inspect_peers svc =
     (let snapshot = peers_snapshot (svc_authority svc) in
      ''peers: '' @ size_text (length snapshot) @ newline @
      concat (map (\<lambda>peer.
        ''  '' @ identity_to_string (pl_participant peer) @
        '' incarnation='' @ identity_to_string (pl_incarnation peer) @
        '' state='' @ ParticipantState_to_string (pl_state peer) @ '' node='' @ identity_or_dash (pl_node peer) @
        '' expires_at='' @ decimal (pl_expires_at_monotonic_ms peer) @ newline) snapshot))"

definition inspect_policy :: "CoordinatorService \<Rightarrow> string" where
  "inspect_policy svc =
     (let policy = policy_snapshot (svc_authority svc) in
      if is_none (pol_generation policy) then ''policy: none installed'' @ newline
      else
        ''policy: '' @ identity_to_string (pol_generation policy) @ newline @
        concat (map (\<lambda>p.
          ''  class='' @ TrafficClass_to_string (tcp_traffic_class p) @ '' priority='' @ decimal (tcp_priority p) @
          '' floor='' @ decimal (tcp_minimum_bandwidth_bps p) @
          '' ceiling='' @ (if tcp_maximum_bandwidth_bps p = kUnlimitedRate then ''unlimited''
                           else decimal (tcp_maximum_bandwidth_bps p)) @
          '' isolation='' @ IsolationMode_to_string (tcp_isolation p) @
          (if tcp_requires_evidence_freshness p then '' fresh-evidence'' else '' evidence-optional'') @ newline)
          (pol_class_policies policy)) @
        concat (map (\<lambda>p.
          ''  collective='' @ CollectiveClass_to_string (ccp_collective_class p) @
          '' traffic='' @ TrafficClass_to_string (ccp_traffic_class p) @
          (if ccp_admit_when_unknown_semantics p then '' admits-unknown'' else '' refuses-unknown'') @
          (if ccp_allow_member_override p then '' override-allowed'' else '' override-refused'') @
          '' freshness_ms='' @ decimal (ccp_freshness_requirement_ms p) @ newline)
          (pol_collective_policies policy)))"

definition inspect_topology :: "CoordinatorService \<Rightarrow> string" where
  "inspect_topology svc =
     (let topology = topology_snapshot (svc_authority svc) in
      if is_none (topo_generation topology) then ''topology: none installed'' @ newline
      else
        ''topology: '' @ identity_to_string (topo_generation topology) @
        (if topo_synthetic topology then '' (SYNTHETIC)'' else '' (supplied by the deployment)'') @ newline @
        ''  nodes: '' @ size_text (length (topo_nodes topology)) @
        '' links: '' @ size_text (length (topo_links topology)) @
        '' captured_monotonic_ms: '' @ decimal (topo_captured_monotonic_ms topology) @ newline @
        ''  aggregate_link_capacity_bps: '' @
        decimal (foldl (\<lambda>capacity link. capacity + link_capacity_bps link) 0 (topo_links topology)) @ newline)"

end
