(* ===== verification/CTF_ServiceRun.thy ===== *)
theory CTF_ServiceRun
  imports CTF_Service
begin

text \<open>
  The service as a machine. \<open>ServiceOp\<close> has one constructor per public method that changes state, with
  \<^verbatim>\<open>flush\<close> and \<^verbatim>\<open>stop\<close> split where they release the mutex, so a list of operations is any interleaving of
  the calls of any number of threads.

  The authority, the catalog, the history and the admission table are interpretations of \<open>component\<close>:
  every service operation acts on each of them by a sequence of its own operations. What was proved of the
  parts therefore holds of the service.
\<close>

section \<open>Operations\<close>

datatype ServiceOp =
    OpStart u64
  | OpStop u64
  | OpOpenSession string u64
  | OpValidateEnvelope EnvelopeView u64
  | OpCloseSession SessionId u64
  | OpSweep u64
  | OpPublish ServiceRequestContext ParticipantId BootIncarnation NodeId ParticipantState
  | OpHeartbeat ServiceRequestContext ParticipantId BootIncarnation
  | OpRegister ServiceRequestContext CollectiveDefinition
  | OpBeginAttempt ServiceRequestContext CollectiveId CollectiveGeneration CollectiveAttemptId u64
  | OpCancel ServiceRequestContext CollectiveId CollectiveGeneration CollectiveAttemptId
  | OpRetire ServiceRequestContext CollectiveId CollectiveGeneration CollectiveAttemptId
  | OpPlan ServiceRequestContext DecisionRequest
  | OpCapacity ServiceRequestContext CapacityEvidence
  | OpCongestion ServiceRequestContext CongestionEvidence
  | OpTopology ServiceRequestContext TopologyEvidence
  | OpPolicy ServiceRequestContext TrafficPolicy
  | OpConfigure string u64
  | OpRestore Io string u64 FileSystem
  | OpFlushBegin u64
  | OpFlushEnd Status u64
  | OpResetCounters
  | OpSetConfig ServiceConfig

fun service_step :: "CoordinatorService \<Rightarrow> ServiceOp \<Rightarrow> CoordinatorService" where
  "service_step s (OpStart now) = (case service_start now s of None \<Rightarrow> s | Some (_, t) \<Rightarrow> t)"
| "service_step s (OpStop now) = snd (stop_begin now s)"
| "service_step s (OpOpenSession label now) = snd (open_session label now s)"
| "service_step s (OpValidateEnvelope view now) = snd (snd (validate_envelope view now [] s))"
| "service_step s (OpCloseSession session now) = snd (close_session session now s)"
| "service_step s (OpSweep now) = snd (sweep_idle_sessions now s)"
| "service_step s (OpPublish context p i node state) = snd (publish_participant context p i node state s)"
| "service_step s (OpHeartbeat context p i) = snd (service_heartbeat context p i s)"
| "service_step s (OpRegister context d) = snd (snd (register_collective context d RegistrationOutcome_default s))"
| "service_step s (OpBeginAttempt context i g a bytes) =
     snd (snd (begin_attempt context i g a bytes AttemptOutcome_default s))"
| "service_step s (OpCancel context i g a) =
     snd (snd (snd (cancel_collective context i g a CollectiveState.kUnregistered [] s)))"
| "service_step s (OpRetire context i g a) =
     snd (snd (snd (retire_collective context i g a CollectiveState.kUnregistered [] s)))"
| "service_step s (OpPlan context request) = snd (snd (plan_flow_group context request DecisionRecord_default s))"
| "service_step s (OpCapacity context e) = snd (snd (snd (ingest_capacity context e no_identity [] s)))"
| "service_step s (OpCongestion context e) = snd (snd (snd (ingest_congestion context e no_identity [] s)))"
| "service_step s (OpTopology context e) = snd (snd (snd (ingest_topology context e no_identity [] s)))"
| "service_step s (OpPolicy context p) = snd (snd (snd (service_install_policy context p no_identity [] s)))"
| "service_step s (OpConfigure path now) = snd (configure_persistence path now s)"
| "service_step s (OpRestore io path now fs) = snd (snd (service_restore io path now fs s))"
| "service_step s (OpFlushBegin now) = snd (flush_begin now s)"
| "service_step s (OpFlushEnd status captured) = flush_end status captured s"
| "service_step s OpResetCounters = reset_counters s"
| "service_step s (OpSetConfig config) = set_config config s"

fun restores :: "ServiceOp \<Rightarrow> bool" where
  "restores (OpRestore _ _ _ _) = True"
| "restores _ = False"

fun boots :: "ServiceOp \<Rightarrow> bool" where
  "boots (OpStart _) = True"
| "boots (OpRestore _ _ _ _) = True"
| "boots _ = False"


section \<open>What the operations touch\<close>

text \<open>The bookkeeping that touches no component.\<close>

lemma count_parts [simp]:
  "svc_authority (count f s) = svc_authority s" "svc_catalog (count f s) = svc_catalog s"
  "svc_history (count f s) = svc_history s" "svc_admission (count f s) = svc_admission s"
  "svc_sessions (count f s) = svc_sessions s" "svc_mint (count f s) = svc_mint s"
  "svc_running (count f s) = svc_running s" "svc_config (count f s) = svc_config s"
  "svc_mutation_sequence (count f s) = svc_mutation_sequence s"
  "svc_persistence_dirty (count f s) = svc_persistence_dirty s"
  "svc_persistence_path (count f s) = svc_persistence_path s"
  by (simp_all add: count_def)

lemma count_by_parts [simp]:
  "svc_authority (count_by f k s) = svc_authority s" "svc_catalog (count_by f k s) = svc_catalog s"
  "svc_history (count_by f k s) = svc_history s" "svc_admission (count_by f k s) = svc_admission s"
  "svc_sessions (count_by f k s) = svc_sessions s" "svc_mint (count_by f k s) = svc_mint s"
  "svc_running (count_by f k s) = svc_running s" "svc_config (count_by f k s) = svc_config s"
  "svc_mutation_sequence (count_by f k s) = svc_mutation_sequence s"
  "svc_persistence_dirty (count_by f k s) = svc_persistence_dirty s"
  "svc_persistence_path (count_by f k s) = svc_persistence_path s"
  by (simp_all add: count_by_def)

lemma mark_parts [simp]:
  "svc_authority (mark_durable_mutation s) = svc_authority s" "svc_catalog (mark_durable_mutation s) = svc_catalog s"
  "svc_history (mark_durable_mutation s) = svc_history s" "svc_admission (mark_durable_mutation s) = svc_admission s"
  "svc_sessions (mark_durable_mutation s) = svc_sessions s" "svc_mint (mark_durable_mutation s) = svc_mint s"
  "svc_running (mark_durable_mutation s) = svc_running s" "svc_config (mark_durable_mutation s) = svc_config s"
  "svc_mutation_sequence (mark_durable_mutation s) = svc_mutation_sequence s + 1"
  "svc_persistence_path (mark_durable_mutation s) = svc_persistence_path s"
  by (simp_all add: mark_durable_mutation_def)

lemma mint_parts [simp]:
  "svc_authority (snd (service_mint s)) = svc_authority s" "svc_catalog (snd (service_mint s)) = svc_catalog s"
  "svc_history (snd (service_mint s)) = svc_history s" "svc_admission (snd (service_mint s)) = svc_admission s"
  "svc_sessions (snd (service_mint s)) = svc_sessions s" "svc_running (snd (service_mint s)) = svc_running s"
  "svc_mutation_sequence (snd (service_mint s)) = svc_mutation_sequence s"
  "svc_config (snd (service_mint s)) = svc_config s"
  by (simp_all add: service_mint_def Let_def case_prod_unfold)

lemma stated_parts [simp]:
  "svc_authority (snd (stated_or_minted g s)) = svc_authority s" "svc_catalog (snd (stated_or_minted g s)) = svc_catalog s"
  "svc_history (snd (stated_or_minted g s)) = svc_history s" "svc_admission (snd (stated_or_minted g s)) = svc_admission s"
  "svc_sessions (snd (stated_or_minted g s)) = svc_sessions s" "svc_running (snd (stated_or_minted g s)) = svc_running s"
  "svc_mutation_sequence (snd (stated_or_minted g s)) = svc_mutation_sequence s"
  by (simp_all add: stated_or_minted_def)

lemma teardown_parts [simp]:
  "svc_authority (teardown now s session) = snd (expire_session session now (svc_authority s))"
  "svc_catalog (teardown now s session) = svc_catalog s" "svc_history (teardown now s session) = svc_history s"
  "svc_admission (teardown now s session) = svc_admission s"
  "svc_sessions (teardown now s session) = idm_erase session (svc_sessions s)"
  "svc_mint (teardown now s session) = svc_mint s" "svc_running (teardown now s session) = svc_running s"
  "svc_mutation_sequence (teardown now s session) = svc_mutation_sequence s"
  by (simp_all add: teardown_def Let_def case_prod_unfold)

lemma sweep_parts:
  "svc_authority (foldl (teardown now) s sessions) =
     foldl (\<lambda>a session. snd (expire_session session now a)) (svc_authority s) sessions"
  "svc_catalog (foldl (teardown now) s sessions) = svc_catalog s"
  "svc_history (foldl (teardown now) s sessions) = svc_history s"
  "svc_admission (foldl (teardown now) s sessions) = svc_admission s"
  "svc_sessions (foldl (teardown now) s sessions) = foldl (\<lambda>m session. idm_erase session m) (svc_sessions s) sessions"
  "svc_mint (foldl (teardown now) s sessions) = svc_mint s"
  "svc_running (foldl (teardown now) s sessions) = svc_running s"
  "svc_mutation_sequence (foldl (teardown now) s sessions) = svc_mutation_sequence s"
  by (induction sessions arbitrary: s) simp_all

lemma refuse_parts [simp]:
  "svc_authority (snd (refuse_request context request cls axis code reason detail s)) = svc_authority s"
  "svc_catalog (snd (refuse_request context request cls axis code reason detail s)) = svc_catalog s"
  "svc_admission (snd (refuse_request context request cls axis code reason detail s)) = svc_admission s"
  "svc_sessions (snd (refuse_request context request cls axis code reason detail s)) = svc_sessions s"
  "svc_mint (snd (refuse_request context request cls axis code reason detail s)) = svc_mint s"
  "svc_running (snd (refuse_request context request cls axis code reason detail s)) = svc_running s"
  "svc_mutation_sequence (snd (refuse_request context request cls axis code reason detail s)) = svc_mutation_sequence s"
  by (simp_all add: refuse_request_def Let_def)

lemma record_decision_parts [simp]:
  "svc_authority (record_decision context d s) = svc_authority s" "svc_catalog (record_decision context d s) = svc_catalog s"
  "svc_admission (record_decision context d s) = svc_admission s" "svc_sessions (record_decision context d s) = svc_sessions s"
  "svc_mint (record_decision context d s) = svc_mint s" "svc_running (record_decision context d s) = svc_running s"
  "svc_mutation_sequence (record_decision context d s) = svc_mutation_sequence s"
  by (simp_all add: record_decision_def case_prod_unfold Let_def)

lemma admit_decision_parts [simp]:
  "svc_authority (snd (admit_decision context request d s)) = svc_authority s"
  "svc_history (snd (admit_decision context request d s)) = svc_history s"
  "svc_sessions (snd (admit_decision context request d s)) = svc_sessions s"
  "svc_mint (snd (admit_decision context request d s)) = svc_mint s"
  "svc_running (snd (admit_decision context request d s)) = svc_running s"
  "svc_mutation_sequence (snd (admit_decision context request d s)) = svc_mutation_sequence s"
  "svc_catalog (snd (admit_decision context request d s)) =
     snd (catalog_set_state (inst_id (req_instance request)) CollectiveState.kActive (ctx_now_monotonic_ms context) (svc_catalog s))"
  by (simp_all add: admit_decision_def case_prod_unfold Let_def split: AdmissionOutcome.split)

lemma decide_parts [simp]:
  "svc_authority (snd (decide context request record s)) = svc_authority s"
  "svc_history (snd (decide context request record s)) = svc_history s"
  "svc_sessions (snd (decide context request record s)) = svc_sessions s"
  "svc_mint (snd (decide context request record s)) = svc_mint s"
  "svc_running (snd (decide context request record s)) = svc_running s"
  "svc_mutation_sequence (snd (decide context request record s)) = svc_mutation_sequence s"
  by (simp_all add: decide_def Let_def)

lemmas service_defs = stop_begin_def open_session_def validate_envelope_def check_session_locked_def close_session_def
  sweep_idle_sessions_def publish_participant_def service_heartbeat_def register_collective_def begin_attempt_def
  cancel_collective_def retire_collective_def plan_flow_group_def ingest_capacity_def ingest_congestion_def
  ingest_topology_def service_install_policy_def configure_persistence_def flush_begin_def flush_end_def
  reset_counters_def set_config_def


section \<open>The parts of the service\<close>

lemma expire_all_reaches:
  "reaches live_step a (foldl (\<lambda>a session. snd (expire_session session now a)) a sessions)"
proof (induction sessions arbitrary: a)
  case (Cons session sessions)
  have "reaches live_step a (snd (expire_session session now a))"
    using reaches_step [of live_step a "ExpireSession session now"] by simp
  from reaches_trans [OF this Cons.IH] show ?case by simp
qed simp

lemma live_ops_reach:
  "reaches live_step a (snd (install_policy p a))" "reaches live_step a (snd (install_topology t a))"
  "reaches live_step a (snd (install_capacity c a))" "reaches live_step a (snd (install_congestion g a))"
  "reaches live_step a (snd (publish_liveness l a))" "reaches live_step a (snd (heartbeat q i now ttl a))"
  "reaches live_step a (snd (expire_session session now a))"
  using reaches_step [of live_step a "InstallPolicy p"] reaches_step [of live_step a "InstallTopology t"]
    reaches_step [of live_step a "InstallCapacity c"] reaches_step [of live_step a "InstallCongestion g"]
    reaches_step [of live_step a "Publish l"] reaches_step [of live_step a "Heartbeat q i now ttl"]
    reaches_step [of live_step a "ExpireSession session now"] by simp_all

lemma stop_reaches:
  "reaches live_step a
     (invalidate_dynamic_evidence (foldl (\<lambda>a session. snd (expire_session session now a)) a sessions))"
  using reaches_trans [OF expire_all_reaches [of a now sessions] reaches_step [of live_step _ InvalidateDynamic]] by simp

interpretation authority_part: component service_step "\<lambda>op. \<not> boots op" svc_authority live_step
proof
  fix s op
  assume "\<not> boots op"
  then show "reaches live_step (svc_authority s) (svc_authority (service_step s op))"
    by (cases op)
      (simp_all add: service_defs Let_def case_prod_unfold sweep_parts live_ops_reach stop_reaches expire_all_reaches
        split: option.split sum.split RegistrationResult.split InstallResult.split)
qed

lemma catalog_ops_reach:
  "reaches catalog_step c (snd (register_definition d now c))"
  "reaches catalog_step c (snd (catalog_begin_attempt i a now c))"
  "reaches catalog_step c (snd (catalog_set_state i CollectiveState.kActive now c))"
  "reaches catalog_step c (snd (catalog_retire i now c))" "reaches catalog_step c (snd (catalog_cancel i now c))"
  using reaches_step [of catalog_step c "Register d now"] reaches_step [of catalog_step c "BeginAttempt i a now"]
    reaches_step [of catalog_step c "Activate i now"] reaches_step [of catalog_step c "Retire i now"]
    reaches_step [of catalog_step c "Cancel i now"] by simp_all

lemma attempt_reaches:
  "reaches catalog_step c (set_attempt_transfer_bytes i bytes (snd (catalog_begin_attempt i a now c)))"
  using reaches_trans [OF catalog_ops_reach(2) reaches_step [of catalog_step _ "DeclareBytes i bytes"]] by simp

lemma decide_catalog: "reaches catalog_step (svc_catalog s) (svc_catalog (snd (decide context request record s)))"
  by (simp add: decide_def Let_def catalog_ops_reach)

interpretation catalog_part: component service_step "\<lambda>op. \<not> restores op" svc_catalog catalog_step
proof
  fix s op
  assume "\<not> restores op"
  then show "reaches catalog_step (svc_catalog s) (svc_catalog (service_step s op))"
    by (cases op)
      (simp_all add: service_defs service_start_def Let_def case_prod_unfold sweep_parts catalog_ops_reach attempt_reaches
        decide_catalog split: option.split sum.split RegistrationResult.split InstallResult.split)
qed

lemma history_ops_reach:
  "reaches history_step h (snd (history_record d h))" "reaches history_step h (history_clear h)"
  "reaches history_step h (set_capacity n h)"
  using reaches_step [of history_step h "Record d"] reaches_step [of history_step h ClearAll]
    reaches_step [of history_step h "SetCapacity n"] by simp_all

lemma bind_reaches: "reaches history_step h (bind_correlation c ordinal (snd (history_record d h)))"
  using reaches_trans [OF history_ops_reach(1) reaches_step [of history_step _ "Bind c ordinal"]] by simp

lemma record_decision_history: "reaches history_step (svc_history s) (svc_history (record_decision context d s))"
  by (simp add: record_decision_def case_prod_unfold Let_def history_ops_reach bind_reaches)

lemma refuse_history:
  "reaches history_step (svc_history s) (svc_history (snd (refuse_request context request cls axis code reason detail s)))"
  by (simp add: refuse_request_def Let_def history_ops_reach)

text \<open>The same from a state that differs in components the history does not see.\<close>

lemma plan_history:
  "reaches history_step (svc_history s) (svc_history (record_decision context d (snd (decide context' request record s))))"
  "reaches history_step (svc_history s)
     (svc_history (snd (refuse_request context request cls axis code reason detail (count f (count g s)))))"
  "reaches history_step (svc_history s)
     (svc_history (snd (refuse_request context request cls axis code reason detail (count f (count g (count h s))))))"
  using record_decision_history [of "snd (decide context' request record s)" "context" d]
    refuse_history [of "count f (count g s)" "context" request cls axis code reason detail]
    refuse_history [of "count f (count g (count h s))" "context" request cls axis code reason detail] by simp_all

interpretation history_part: component service_step "\<lambda>_. True" svc_history history_step
proof
  fix s op
  show "reaches history_step (svc_history s) (svc_history (service_step s op))"
    by (cases op)
      (simp_all add: service_defs service_start_def service_restore_def Let_def case_prod_unfold sweep_parts
        history_ops_reach plan_history
        split: option.split sum.split RegistrationResult.split InstallResult.split)
qed

lemma admission_ops_reach:
  "reaches admission_step c (snd (admit d now c))" "reaches admission_step c (admission_clear c)"
  using reaches_step [of admission_step c "Admit d now"] reaches_step [of admission_step c Clear] by simp_all

lemma decide_admission: "reaches admission_step (svc_admission s) (svc_admission (snd (decide context request record s)))"
  by (simp add: decide_def admit_decision_def case_prod_unfold Let_def admission_ops_reach split: AdmissionOutcome.split)

interpretation admission_part: component service_step "\<lambda>_. True" svc_admission admission_step
proof
  fix s op
  show "reaches admission_step (svc_admission s) (svc_admission (service_step s op))"
    by (cases op)
      (simp_all add: service_defs service_start_def service_restore_def Let_def case_prod_unfold sweep_parts
        admission_ops_reach decide_admission
        split: option.split sum.split RegistrationResult.split InstallResult.split)
qed


section \<open>The invariant of the service\<close>

definition sessions_inv :: "CoordinatorService \<Rightarrow> bool" where
  "sessions_inv s \<longleftrightarrow>
     idm_wf (svc_sessions s) \<and> idm_size (svc_sessions s) \<le> kSessionsMax \<and>
     (\<forall>session b. idm_find (svc_sessions s) session = Some b \<longrightarrow>
        sb_id b = session \<and> is_some session \<and> is_some (sb_incarnation b)) \<and>
     (\<not> svc_running s \<longrightarrow> svc_sessions s = [])"

definition service_inv :: "CoordinatorService \<Rightarrow> bool" where
  "service_inv s \<longleftrightarrow>
     authority_inv (svc_authority s) \<and>
     (catalog_inv (svc_catalog s) \<and> cat_capacity (svc_catalog s) = of_nat kCollectivesMaxLive) \<and>
     (\<exists>l. log_represents l (svc_history s)) \<and> admission_inv (of_nat kTokenBucketsMax) (svc_admission s) \<and>
     sessions_inv s"

lemma update_capacity: "catalog_update c c' \<Longrightarrow> cat_capacity c' = cat_capacity c"
  by (induction rule: catalog_update.induct) simp_all

interpretation catalog_bound_run: invariant_system catalog_step "\<lambda>c. catalog_inv c \<and> cat_capacity c = k" for k
  by unfold_locales (auto dest: catalog_step_update update_inv update_capacity)

interpretation live_run: invariant_system live_step authority_inv
  by unfold_locales (rule live_step_inv)

interpretation history_run: invariant_system history_step "\<lambda>h. \<exists>l. log_represents l h"
  by unfold_locales (blast dest: history_log.step_represents)

lemma if_Inl_eq_Inr: "(if c then Inl x else y) = Inr z \<longleftrightarrow> \<not> c \<and> y = Inr z"
  by simp

lemma stage_records_inv:
  "stage_records rs staged highest = Inr (staged', reached) \<Longrightarrow> idm_wf staged \<Longrightarrow>
   \<forall>i r. idm_find staged i = Some r \<longrightarrow> record_ok i r \<Longrightarrow>
   idm_wf staged' \<and> idm_size staged' = idm_size staged + length rs \<and>
   (\<forall>i r. idm_find staged' i = Some r \<longrightarrow> record_ok i r)"
proof (induction rs arbitrary: staged highest)
  case (Cons r rs)
  let ?staged = "idm_store (record_id r) r staged"
  have "is_ok (validate_definition (crec_definition r))" "\<not> is_none (def_generation (crec_definition r))"
    "crec_state r \<noteq> CollectiveState.kUnregistered" "idm_find staged (record_id r) = None"
    "stage_records rs ?staged (max (max highest (crec_registration_sequence r)) (crec_last_mutation_sequence r))
       = Inr (staged', reached)"
    using Cons.prems(1) unfolding stage_records.simps Let_def if_Inl_eq_Inr by blast+
  note r = this
  then have "record_ok (record_id r) r" by (simp add: record_ok_def is_some_def)
  then have "\<forall>i r'. idm_find ?staged i = Some r' \<longrightarrow> record_ok i r'"
    using Cons.prems(3) by (simp only: idm.lookup_store) (metis option.inject)
  moreover have "idm_wf ?staged" using Cons.prems(2) by (rule idm.wf_store)
  ultimately have staged: "idm_wf staged'" "idm_size staged' = idm_size ?staged + length rs"
    "\<forall>i r. idm_find staged' i = Some r \<longrightarrow> record_ok i r"
    using Cons.IH [OF r(5)] by blast+
  have "idm_size ?staged = Suc (idm_size staged)" using r(4) by (simp add: idm.entries_store)
  then have "idm_size staged' = idm_size staged + length (r # rs)" using staged(2) by simp
  with staged(1,3) show ?case by blast
qed simp

lemma catalog_load_inv:
  assumes "catalog_inv c \<and> cat_capacity c = k"
  shows "catalog_inv (snd (catalog_load rs c)) \<and> cat_capacity (snd (catalog_load rs c)) = k"
proof (cases "stage_records rs [] 0")
  case (Inr p)
  obtain staged reached where "p = (staged, reached)" by (cases p)
  with Inr stage_records_inv [of rs "[]" 0 staged reached] assms show ?thesis
    by (auto simp: catalog_load_def catalog_inv_def idm.wf_void idm.entries_void idm.lookup_void)
qed (use assms in \<open>simp add: catalog_load_def\<close>)

lemma mint_some [simp]: "is_some (fst (service_mint s))"
  using mint_identity_some [of "svc_mint s"] by (simp add: service_mint_def Let_def case_prod_unfold)

lemma sessions_inv_cong:
  "svc_sessions t = svc_sessions s \<Longrightarrow> svc_running t = svc_running s \<Longrightarrow> sessions_inv s \<Longrightarrow> sessions_inv t"
  by (simp add: sessions_inv_def)

lemma idm_erase_Nil: "idm_erase k [] = []"
  by (simp add: idm_erase_def)

lemma sessions_inv_erase:
  assumes "sessions_inv s" "svc_running t = svc_running s" "svc_sessions t = idm_erase session (svc_sessions s)"
  shows "sessions_inv t"
  using assms by (auto simp: sessions_inv_def idm.wf_erase idm.lookup_erase idm.bounded_erase idm_erase_Nil split: if_splits)

lemma sessions_inv_sweep: "sessions_inv s \<Longrightarrow> sessions_inv (foldl (teardown now) s sessions)"
  by (induction sessions arbitrary: s) (simp_all add: sessions_inv_erase [OF _ _ teardown_parts(5)])

lemma sessions_inv_store:
  assumes "sessions_inv s" "svc_running t = svc_running s" "svc_sessions t = idm_store session b (svc_sessions s)"
    "svc_running s" "is_some session" "sb_id b = session" "is_some (sb_incarnation b)"
    "idm_find (svc_sessions s) session \<noteq> None \<or> idm_size (svc_sessions s) < kSessionsMax"
  shows "sessions_inv t"
  using assms by (auto simp: sessions_inv_def idm.wf_store idm.lookup_store idm.bounded_store)

lemma sessions_inv_find:
  assumes "sessions_inv s" "idm_find (svc_sessions s) session = Some b"
  shows "sb_id b = session" "is_some session" "is_some (sb_incarnation b)" "svc_running s"
  using assms by (auto simp: sessions_inv_def idm.lookup_void)

lemma publish_sessions:
  assumes "sessions_inv s"
  shows "sessions_inv (snd (publish_participant context p i node state s))"
proof (cases "svc_sessions (snd (publish_participant context p i node state s)) = svc_sessions s")
  case True
  moreover have "svc_running (snd (publish_participant context p i node state s)) = svc_running s"
    by (simp add: publish_participant_def Let_def case_prod_unfold split: option.split)
  ultimately show ?thesis using assms by (rule sessions_inv_cong)
next
  case False
  then obtain b where b: "idm_find (svc_sessions s) (ctx_session context) = Some b"
    "svc_sessions (snd (publish_participant context p i node state s)) = idm_store (ctx_session context)
       (b\<lparr>sb_accepted_participants := sb_accepted_participants b + 1\<rparr>) (svc_sessions s)"
    by (auto simp: publish_participant_def Let_def case_prod_unfold split: option.splits if_splits)
  from sessions_inv_find [OF assms b(1)] b(1) show ?thesis
    by (intro sessions_inv_store [OF assms _ b(2)])
      (simp_all add: publish_participant_def Let_def case_prod_unfold split: option.split)
qed

text \<open>What an acceptable envelope is, and what accepting it changes.\<close>

definition envelope_current :: "EnvelopeView \<Rightarrow> CoordinatorService \<Rightarrow> bool" where
  "envelope_current view s \<longleftrightarrow>
     (\<exists>b. idm_find (svc_sessions s) (view_session view) = Some b \<and> is_some (view_session view) \<and>
        is_some (view_epoch view) \<and> view_epoch view = au_epoch (svc_authority s) \<and>
        is_some (view_incarnation view) \<and> view_incarnation view = sb_incarnation b \<and>
        sb_last_frame_sequence b < view_frame_sequence view)"

definition session_advanced :: "EnvelopeView \<Rightarrow> u64 \<Rightarrow> CoordinatorService \<Rightarrow> CoordinatorService" where
  "session_advanced view now s =
     (let b = the (idm_find (svc_sessions s) (view_session view)) in
      s\<lparr>svc_sessions := idm_store (view_session view)
        (b\<lparr>sb_last_frame_sequence := view_frame_sequence view, sb_last_frame_monotonic_ms := now,
           sb_frames_received := sb_frames_received b + 1\<rparr>) (svc_sessions s)\<rparr>)"

lemma check_session_ok: "is_ok (fst (check_session_locked view now reasons s)) \<longleftrightarrow> envelope_current view s"
proof (cases "idm_find (svc_sessions s) (view_session view)")
  case (Some b)
  have "sb_last_frame_sequence b < view_frame_sequence view \<longleftrightarrow>
      \<not> is_unset (view_frame_sequence view) \<and> \<not> view_frame_sequence view \<le> sb_last_frame_sequence b"
    by (auto simp: is_unset_def not_le)
  with Some show ?thesis
    by (cases "view_epoch view = au_epoch (svc_authority s)")
      (simp_all add: check_session_locked_def envelope_current_def is_some_def conj_ac)
qed (simp add: check_session_locked_def envelope_current_def)

text \<open>A refusal leaves the state alone.\<close>

definition refusal_keeps :: "'s \<Rightarrow> Status \<times> 'r \<times> 's \<Rightarrow> bool" where
  "refusal_keeps s result \<longleftrightarrow> is_ok (fst result) \<or> snd (snd result) = s"

lemma refusal_keeps_if: "refusal_keeps s a \<Longrightarrow> refusal_keeps s b \<Longrightarrow> refusal_keeps s (if c then a else b)"
  by simp

lemma refusal_keeps_refused: "refusal_keeps s (status, reasons, s)"
  by (simp add: refusal_keeps_def)

lemma refusal_keeps_accepted: "refusal_keeps s (status_ok, reasons, t)"
  by (simp add: refusal_keeps_def)

lemma check_session_refused: "refusal_keeps s (check_session_locked view now reasons s)"
proof (cases "idm_find (svc_sessions s) (view_session view)")
  case None
  show ?thesis unfolding check_session_locked_def None option.case
    by (intro refusal_keeps_if refusal_keeps_refused)
next
  case (Some b)
  show ?thesis unfolding check_session_locked_def Some option.case
    by (intro refusal_keeps_if refusal_keeps_refused refusal_keeps_accepted)
qed

lemma above_not_zero: "a < b \<Longrightarrow> b \<noteq> 0" for a b :: u64
  by auto

lemma check_session_state:
  "snd (snd (check_session_locked view now reasons s)) =
     (if envelope_current view s then session_advanced view now s else s)"
proof (cases "envelope_current view s")
  case True
  then obtain b where b: "idm_find (svc_sessions s) (view_session view) = Some b" "\<not> is_none (view_session view)"
    "\<not> is_none (view_epoch view)" "view_epoch view = au_epoch (svc_authority s)" "\<not> is_none (view_incarnation view)"
    "view_incarnation view = sb_incarnation b" "sb_last_frame_sequence b < view_frame_sequence view"
    unfolding envelope_current_def is_some_def by blast
  moreover have "\<not> is_unset (view_frame_sequence view)" "\<not> view_frame_sequence view \<le> sb_last_frame_sequence b"
    using above_not_zero [OF b(7)] b(7) by (simp_all add: is_unset_def)
  ultimately show ?thesis using True by (simp add: check_session_locked_def session_advanced_def)
next
  case False
  with check_session_refused [of s view now reasons] show ?thesis by (simp add: refusal_keeps_def check_session_ok)
qed

lemma check_session_sessions:
  assumes "sessions_inv s"
  shows "sessions_inv (snd (snd (check_session_locked view now reasons s)))"
proof (cases "envelope_current view s")
  case True
  then obtain b where b: "idm_find (svc_sessions s) (view_session view) = Some b" by (auto simp: envelope_current_def)
  let ?t = "snd (snd (check_session_locked view now reasons s))"
  have t: "svc_sessions ?t = idm_store (view_session view) (b\<lparr>sb_last_frame_sequence := view_frame_sequence view,
      sb_last_frame_monotonic_ms := now, sb_frames_received := sb_frames_received b + 1\<rparr>) (svc_sessions s)"
    "svc_running ?t = svc_running s"
    using b True by (simp_all add: check_session_state session_advanced_def Let_def)
  from sessions_inv_find [OF assms b] b show ?thesis
    by (intro sessions_inv_store [OF assms t(2,1)]) simp_all
qed (use assms in \<open>simp add: check_session_state\<close>)

lemma open_sessions:
  assumes "sessions_inv s"
  shows "sessions_inv (snd (open_session label now s))"
proof (cases "svc_running s \<and> idm_size (svc_sessions s) < kSessionsMax")
  case False
  then show ?thesis using assms by (simp add: open_session_def not_less)
next
  case True
  let ?t = "snd (open_session label now s)" and ?sid = "fst (service_mint s)"
  show ?thesis
  proof (cases "idm_find (svc_sessions s) ?sid")
    case None
    with True obtain b where "svc_sessions ?t = idm_store ?sid b (svc_sessions s)" "svc_running ?t"
      "sb_id b = ?sid" "is_some (sb_incarnation b)"
      by (simp add: open_session_def Let_def case_prod_unfold)
    with True show ?thesis by (intro sessions_inv_store [OF assms]) simp_all
  next
    case (Some b)
    with True assms show ?thesis
      by (intro sessions_inv_cong [OF _ _ assms]) (simp_all add: open_session_def Let_def case_prod_unfold)
  qed
qed

lemma service_step_sessions:
  assumes "sessions_inv s"
  shows "sessions_inv (service_step s op)"
proof -
  have keep: "sessions_inv t" if "svc_sessions t = svc_sessions s" "svc_running t = svc_running s" for t
    using that assms by (rule sessions_inv_cong)
  have "svc_sessions s = [] \<Longrightarrow> svc_sessions t = [] \<Longrightarrow> sessions_inv t" for t
    by (simp add: sessions_inv_def)
  show ?thesis
  proof (cases op)
    case (OpStart now)
    show ?thesis
    proof (cases "svc_running s")
      case False
      with assms have "svc_sessions s = []" by (simp add: sessions_inv_def)
      then show ?thesis unfolding OpStart sessions_inv_def
        by (simp add: service_start_def Let_def split: option.split)
    qed (use assms OpStart in \<open>simp add: service_start_def\<close>)
  next
    case (OpStop now)
    then show ?thesis using assms by (simp add: stop_begin_def Let_def sessions_inv_def)
  next
    case (OpCloseSession session now)
    with assms show ?thesis by (simp add: close_session_def sessions_inv_erase [OF _ _ teardown_parts(5)])
  next
    case (OpSweep now)
    with assms show ?thesis by (simp add: sweep_idle_sessions_def Let_def sessions_inv_sweep)
  qed (use assms in \<open>simp_all add: publish_sessions open_sessions check_session_sessions validate_envelope_def\<close>,
      (rule keep; simp add: service_defs service_restore_def Let_def case_prod_unfold
        split: option.split sum.split RegistrationResult.split InstallResult.split)+)
qed

lemma service_step_inv:
  assumes "service_inv s"
  shows "service_inv (service_step s op)"
proof -
  have a: "authority_inv (svc_authority (service_step s op))"
  proof (cases "boots op")
    case False
    then show ?thesis
      using authority_part.run_part_inv [OF live_run.invariant_system_axioms, where ops = "[op]" and s = s] assms by (simp add: service_inv_def)
  next
    case True
    then show ?thesis
      using assms boot_inv [of "svc_authority s"] freshness_inv restore_inv
      by (cases op) (auto simp: service_inv_def service_start_def service_restore_def Let_def case_prod_unfold
          split: option.split)
  qed
  have c: "catalog_inv (svc_catalog (service_step s op)) \<and>
      cat_capacity (svc_catalog (service_step s op)) = of_nat kCollectivesMaxLive"
  proof (cases "restores op")
    case False
    then show ?thesis
      using catalog_part.run_part_inv [OF catalog_bound_run.invariant_system_axioms, where ops = "[op]" and s = s] assms
      by (simp add: service_inv_def)
  next
    case True
    then show ?thesis
      using assms catalog_load_inv
      by (cases op) (simp_all add: service_inv_def service_restore_def Let_def case_prod_unfold)
  qed
  show ?thesis
    using a c service_step_sessions [of s op] assms
      history_part.run_part_inv [OF history_run.invariant_system_axioms, where ops = "[op]" and s = s]
      admission_part.run_part_inv [OF admission_run.invariant_system_axioms, where ops = "[op]" and s = s]
    by (simp add: service_inv_def)
qed

interpretation service_run: invariant_system service_step service_inv
  by unfold_locales (rule service_step_inv)

lemma service_inv_new: "service_inv (CoordinatorService_new config ms)"
proof -
  have "\<exists>l. log_represents l (svc_history (CoordinatorService_new config ms))"
    using history_log.step_represents [OF log_represents_new, of kDecisionHistoryDefaultCapacity
        "SetCapacity (cfg_decision_history_capacity config)"]
    by (auto simp: CoordinatorService_new_def)
  moreover have "cat_capacity (CollectiveCatalog_new (of_nat kCollectivesMaxLive)) = of_nat kCollectivesMaxLive"
    "admission_inv (of_nat kTokenBucketsMax) (AdmissionController_new (of_nat kTokenBucketsMax))"
    by (simp_all add: CollectiveCatalog_new_def admission_inv_def AdmissionController_new_def kCollectivesMaxLive_def
        kTokenBucketsMax_def)
  ultimately show ?thesis
    by (simp add: service_inv_def sessions_inv_def CoordinatorService_new_def authority_inv_new catalog_inv_new)
qed

end
