(* ===== verification/CTF_ServiceSafety.thy ===== *)
theory CTF_ServiceSafety
  imports CTF_ServiceRun
begin

text \<open>
  What the composed service guarantees: exactly which requests are granted and what a grant implies, that
  a frame is accepted once, that a closed session and a cancelled collective stay without authority whatever
  happens later, that a flush loses nothing that other threads change while the file is written, and that a
  restart brings the durable state back and nothing else.
\<close>

section \<open>Exactly the grantable requests are granted\<close>

definition session_admits :: "ServiceRequestContext \<Rightarrow> CoordinatorService \<Rightarrow> bool" where
  "session_admits context s \<longleftrightarrow>
     (is_some (ctx_session context) \<longrightarrow>
        (\<exists>b. idm_find (svc_sessions s) (ctx_session context) = Some b \<and> sb_incarnation b = ctx_incarnation context \<and>
           (is_some (ctx_epoch context) \<longrightarrow> ctx_epoch context = au_epoch (svc_authority s))))"

definition current_record :: "DecisionRequest \<Rightarrow> CoordinatorService \<Rightarrow> CollectiveRecord \<Rightarrow> bool" where
  "current_record request s r \<longleftrightarrow>
     catalog_find (svc_catalog s) (inst_id (req_instance request)) = Some r \<and>
     def_generation (crec_definition r) = inst_generation (req_instance request) \<and>
     is_some (crec_current_attempt r) \<and> crec_current_attempt r = inst_attempt (req_instance request) \<and>
     \<not> collective_state_is_terminal (crec_state r)"

definition service_snapshot :: "ServiceRequestContext \<Rightarrow> CoordinatorService \<Rightarrow> EvaluationSnapshot" where
  "service_snapshot context s = authority_snapshot (ctx_now_monotonic_ms context) (svc_authority s)"

definition evaluation :: "ServiceRequestContext \<Rightarrow> DecisionRequest \<Rightarrow> CollectiveRecord \<Rightarrow> CoordinatorService \<Rightarrow> DecisionRecord" where
  "evaluation context request r s =
     (fst (evaluate (service_snapshot context s) request (effective_definition r) EngineCounters_default))
       \<lparr>rec_instance := req_instance request\<rparr>"

definition released :: "ServiceRequestContext \<Rightarrow> DecisionRequest \<Rightarrow> CollectiveRecord \<Rightarrow> CoordinatorService \<Rightarrow> bool" where
  "released context request r s \<longleftrightarrow>
     ar_outcome (fst (admit (evaluation context request r s) (ctx_now_monotonic_ms context) (svc_admission s)))
       = AdmissionOutcome.kGranted"

definition grantable :: "ServiceRequestContext \<Rightarrow> DecisionRequest \<Rightarrow> CoordinatorService \<Rightarrow> CollectiveRecord \<Rightarrow> bool" where
  "grantable context request s r \<longleftrightarrow>
     svc_running s \<and> session_admits context s \<and> is_ok (validate_decision_request request) \<and>
     current_record request s r \<and> admissible (service_snapshot context s) request (effective_definition r) \<and>
     released context request r s"

abbreviation decision_of :: "Status \<times> DecisionRecord \<times> CoordinatorService \<Rightarrow> DecisionRecord" where
  "decision_of result \<equiv> fst (snd result)"

definition grants :: "Status \<times> DecisionRecord \<times> CoordinatorService \<Rightarrow> bool" where
  "grants result \<longleftrightarrow> is_ok (fst result) \<and> outcome_grants_authority (rec_outcome (decision_of result))"

lemma refuse_outcome [simp]:
  "rec_outcome (fst (refuse_request context request cls axis code reason detail s)) = Outcome.kRejectedStale"
  by (simp add: refuse_request_def Let_def)

text \<open>The guards of \<^verbatim>\<open>plan_flow_group\<close>, in their order.\<close>

lemma plan_flow_group_reached:
  assumes "svc_running s" "session_admits context s" "is_ok (validate_decision_request request)" "current_record request s r"
  shows "plan_flow_group context request out s =
    (status_ok, fst (decide context request r s),
     record_decision context (fst (decide context request r s)) (snd (decide context request r s)))"
  using assms
  by (auto simp: plan_flow_group_def session_admits_def current_record_def is_some_def case_prod_unfold Let_def)

lemma plan_flow_group_granted:
  assumes "grants (plan_flow_group context request out s)"
  obtains r where "svc_running s" "session_admits context s" "is_ok (validate_decision_request request)" "current_record request s r"
proof -
  have ok: "is_ok (fst (plan_flow_group context request out s))"
    and g: "outcome_grants_authority (rec_outcome (decision_of (plan_flow_group context request out s)))"
    using assms by (simp_all add: grants_def)
  have a: "svc_running s" using ok by (rule contrapos_pp) (simp add: plan_flow_group_def)
  have b: "session_admits context s"
    using ok by (rule contrapos_pp)
      (auto simp: plan_flow_group_def session_admits_def a Let_def split: option.splits)
  have c: "is_ok (validate_decision_request request)"
    using ok by (rule contrapos_pp) (auto simp: plan_flow_group_def a Let_def)
  have "\<exists>r. current_record request s r"
    using g by (rule contrapos_pp)
      (use a b c in \<open>auto simp: plan_flow_group_def session_admits_def current_record_def is_some_def Let_def split: option.splits\<close>)
  with a b c that show ?thesis by blast
qed

lemma activation_ok:
  assumes "current_record request s r"
  shows "is_ok (fst (catalog_set_state (inst_id (req_instance request)) CollectiveState.kActive now (svc_catalog s)))"
  using assms by (simp add: current_record_def catalog_find_def catalog_set_state_def)

lemma evaluation_constructed:
  assumes "outcome_grants_authority (rec_outcome (evaluation context request r s))"
  shows "rec_flow_group_constructed (evaluation context request r s)"
proof -
  from assms have "outcome_grants_authority (rec_outcome (fst (evaluate (service_snapshot context s) request
      (effective_definition r) EngineCounters_default)))" by (simp add: evaluation_def)
  then show ?thesis by (rule evaluate_granted_record) (simp add: evaluation_def)
qed

lemma decide_eq:
  "decide context request r s =
     (let e = evaluation context request r s in
      if outcome_grants_authority (rec_outcome e) then admit_decision context request e s
      else (e, snd (decide context request r s)))"
  by (simp add: decide_def evaluation_def service_snapshot_def Let_def)

lemma admit_decision_outcome:
  assumes "is_ok (fst (catalog_set_state (inst_id (req_instance request)) CollectiveState.kActive
      (ctx_now_monotonic_ms context) (svc_catalog s)))"
    and "outcome_grants_authority (rec_outcome e)" "rec_flow_group_constructed e"
  shows "outcome_grants_authority (rec_outcome (fst (admit_decision context request e s))) \<longleftrightarrow>
    ar_outcome (fst (admit e (ctx_now_monotonic_ms context) (svc_admission s))) = AdmissionOutcome.kGranted"
proof -
  have "ar_outcome (fst (admit e (ctx_now_monotonic_ms context) (svc_admission s))) \<noteq> AdmissionOutcome.kNotApplicable"
    using assms(2,3) by (simp add: admit_def admit_entry_def conclude_admission_def case_prod_unfold Let_def)
  with assms show ?thesis
    by (cases "ar_outcome (fst (admit e (ctx_now_monotonic_ms context) (svc_admission s)))")
      (simp_all add: admit_decision_def case_prod_unfold Let_def)
qed

lemma decide_grants:
  assumes "current_record request s r"
  shows "outcome_grants_authority (rec_outcome (fst (decide context request r s))) \<longleftrightarrow>
    admissible (service_snapshot context s) request (effective_definition r) \<and> released context request r s"
proof -
  let ?e = "evaluation context request r s"
  have adm: "outcome_grants_authority (rec_outcome ?e) \<longleftrightarrow> admissible (service_snapshot context s) request (effective_definition r)"
    by (simp add: evaluation_def admissible_iff)
  show ?thesis
  proof (cases "outcome_grants_authority (rec_outcome ?e)")
    case True
    then show ?thesis
      using adm admit_decision_outcome [OF activation_ok [OF assms] True evaluation_constructed [OF True]]
      by (simp add: decide_eq [of "context" request r s] Let_def released_def)
  next
    case False
    then have "fst (decide context request r s) = ?e" by (subst decide_eq) (simp add: Let_def)
    with False adm show ?thesis by simp
  qed
qed

lemma plan_grants_iff:
  "grants (plan_flow_group context request out s) \<longleftrightarrow> (\<exists>r. grantable context request s r)"
proof
  assume g: "grants (plan_flow_group context request out s)"
  then obtain r where r: "svc_running s" "session_admits context s" "is_ok (validate_decision_request request)"
    "current_record request s r" by (rule plan_flow_group_granted)
  with g decide_grants [OF r(4)] show "\<exists>r. grantable context request s r"
    by (auto simp: grants_def plan_flow_group_reached [OF r] grantable_def)
next
  assume "\<exists>r. grantable context request s r"
  then obtain r where r: "grantable context request s r" ..
  then show "grants (plan_flow_group context request out s)"
    using plan_flow_group_reached [of s "context" request r out] decide_grants [of request s r "context"]
    by (simp add: grants_def grantable_def)
qed


section \<open>What a grant implies\<close>

lemma grantable_members_live:
  assumes "service_inv s" "grantable context request s r" "p \<in> set (def_participants (crec_definition r))"
  shows "\<exists>l. idm_find (au_peers (svc_authority s)) p = Some l \<and> is_current l (ctx_now_monotonic_ms context)"
proof -
  have "p \<in> set (def_participants (effective_definition r))" using assms(3) by (simp add: effective_definition_def Let_def)
  with assms(2) have "participant_live (service_snapshot context s) p"
    by (simp add: grantable_def admissible_def authority_current_def)
  moreover have "peers_inv (svc_authority s)" using assms(1) by (simp add: service_inv_def authority_inv_def)
  ultimately show ?thesis
    by (simp add: participant_live_def service_snapshot_def snapshot_find_peer)
      (simp add: authority_snapshot_def)
qed

lemma grantable_decision:
  assumes "grantable context request s r"
  shows "rec_instance (fst (decide context request r s)) = req_instance request"
    "rec_participants (fst (decide context request r s)) = def_participants (crec_definition r)"
    "rec_epoch (fst (decide context request r s)) = au_epoch (svc_authority s)"
    "rec_policy_generation (fst (decide context request r s)) = au_policy_generation (svc_authority s)"
    "rec_topology_generation (fst (decide context request r s)) = au_topology_generation (svc_authority s)"
    "rec_capacity_generation (fst (decide context request r s)) = au_capacity_generation (svc_authority s)"
    "rec_congestion_generation (fst (decide context request r s)) = au_congestion_generation (svc_authority s)"
proof -
  let ?e = "evaluation context request r s"
  have g: "outcome_grants_authority (rec_outcome (fst (evaluate (service_snapshot context s) request
      (effective_definition r) EngineCounters_default)))"
    using assms by (simp add: grantable_def admissible_iff)
  then have "fst (decide context request r s) = fst (admit_decision context request ?e s)"
    by (subst decide_eq) (simp add: evaluation_def Let_def)
  moreover have "is_ok (fst (catalog_set_state (inst_id (req_instance request)) CollectiveState.kActive
      (ctx_now_monotonic_ms context) (svc_catalog s)))"
    using assms by (intro activation_ok [of _ _ r]) (simp add: grantable_def)
  moreover have "ar_outcome (fst (admit ?e (ctx_now_monotonic_ms context) (svc_admission s))) = AdmissionOutcome.kGranted"
    using assms by (simp add: grantable_def released_def)
  ultimately obtain chain where d: "fst (decide context request r s) = ?e\<lparr>rec_reasons := chain\<rparr>"
    by (simp add: admit_decision_def case_prod_unfold Let_def)
  have "rec_participants ?e = def_participants (crec_definition r) \<and> rec_epoch ?e = snap_epoch (service_snapshot context s) \<and>
      rec_policy_generation ?e = snap_policy_generation (service_snapshot context s) \<and>
      rec_topology_generation ?e = snap_topology_generation (service_snapshot context s) \<and>
      rec_capacity_generation ?e = snap_capacity_generation (service_snapshot context s) \<and>
      rec_congestion_generation ?e = snap_congestion_generation (service_snapshot context s)"
    using g by (rule evaluate_granted_record) (simp add: evaluation_def make_record_def effective_definition_def Let_def)
  then show "rec_participants (fst (decide context request r s)) = def_participants (crec_definition r)"
    "rec_epoch (fst (decide context request r s)) = au_epoch (svc_authority s)"
    "rec_policy_generation (fst (decide context request r s)) = au_policy_generation (svc_authority s)"
    "rec_topology_generation (fst (decide context request r s)) = au_topology_generation (svc_authority s)"
    "rec_capacity_generation (fst (decide context request r s)) = au_capacity_generation (svc_authority s)"
    "rec_congestion_generation (fst (decide context request r s)) = au_congestion_generation (svc_authority s)"
    unfolding d by (simp_all add: service_snapshot_def authority_snapshot_def)
  show "rec_instance (fst (decide context request r s)) = req_instance request"
    unfolding d by (simp add: evaluation_def)
qed

lemma decide_catalog_granted:
  assumes "grantable context request s r"
  shows "\<exists>r'. catalog_find (svc_catalog (snd (decide context request r s))) (inst_id (req_instance request)) = Some r' \<and>
      crec_state r' = CollectiveState.kActive \<and> crec_definition r' = crec_definition r \<and>
      crec_current_attempt r' = crec_current_attempt r"
proof -
  have "svc_catalog (snd (decide context request r s)) =
      snd (catalog_set_state (inst_id (req_instance request)) CollectiveState.kActive (ctx_now_monotonic_ms context) (svc_catalog s))"
    using assms by (subst decide_eq) (simp add: Let_def evaluation_def grantable_def admissible_iff)
  with assms show ?thesis
    by (simp add: grantable_def current_record_def catalog_find_def catalog_set_state_def)
qed

lemma record_newest:
  assumes "log_represents l h"
  shows "\<exists>older. hist_records (snd (history_record d h)) = older @ [d\<lparr>rec_decision_sequence := hist_next_ordinal h\<rparr>]"
proof -
  have "0 < hist_capacity h" using assms by (simp add: log_represents_def)
  then show ?thesis
    by (intro exI [of _ "drop (Suc (length (hist_records h)) - hist_capacity h) (hist_records h)"])
      (simp add: history_record_def Let_def evict_excess_closed)
qed

lemma record_decision_explained:
  assumes "log_represents l (svc_history s)" "rec_instance d = req_instance request"
  shows "service_explain (inst_id (req_instance request)) (inst_attempt (req_instance request)) out
      (record_decision context d s) =
    (True, d\<lparr>rec_decision_sequence := hist_next_ordinal (svc_history s)\<rparr>,
     explanation_text (d\<lparr>rec_decision_sequence := hist_next_ordinal (svc_history s)\<rparr>))"
proof -
  from record_newest [OF assms(1), of d] obtain older where
    "hist_records (snd (history_record d (svc_history s))) = older @ [d\<lparr>rec_decision_sequence := hist_next_ordinal (svc_history s)\<rparr>]" ..
  then have "hist_records (svc_history (record_decision context d s)) =
      older @ [d\<lparr>rec_decision_sequence := hist_next_ordinal (svc_history s)\<rparr>]"
    by (simp add: record_decision_def case_prod_unfold Let_def bind_correlation_def)
  with assms(2) show ?thesis by (simp add: service_explain_def find_attempt_def find_newest_def)
qed

lemma record_decision_correlated:
  assumes "log_represents l (svc_history s)" "length (log_all l) < 18446744073709551614"
    "is_some (ctx_session context)" "ctx_correlation context \<noteq> 0"
  shows "explain_correlation (ctx_correlation context) out (record_decision context d s) =
    (True, d\<lparr>rec_decision_sequence := hist_next_ordinal (svc_history s)\<rparr>,
     explanation_text (d\<lparr>rec_decision_sequence := hist_next_ordinal (svc_history s)\<rparr>))"
proof -
  have rec: "history_record d (svc_history s) = (hist_next_ordinal (svc_history s), snd (history_record d (svc_history s)))"
    by (simp add: history_record_def Let_def)
  have "fst (history_record d (svc_history s)) = hist_next_ordinal (svc_history s)"
    by (simp add: history_record_def Let_def)
  with find_correlation_bound [OF assms(1,2,4) rec] assms(3,4) show ?thesis
    by (simp add: explain_correlation_def record_decision_def case_prod_unfold Let_def)
qed

lemma first_release:
  assumes "outcome_grants_authority (rec_outcome d)" "rec_flow_group_constructed d"
    and "pi_admitted_bandwidth_bps (rec_pacing d) \<noteq> 0" "idm_find (ac_buckets c) (rec_flow_group d) = None"
    and "idm_size (ac_buckets c) < unat (ac_capacity c)"
  shows "ar_outcome (fst (admit d now c)) = AdmissionOutcome.kGranted"
proof -
  have "request_bytes d \<le> effective_burst d" by (simp add: effective_burst_def)
  then have "is_ok (fst (try_consume TokenBucketState_default now (request_bytes d)
      (pi_admitted_bandwidth_bps (rec_pacing d)) (effective_burst d)))"
    using assms(3) by (simp add: try_consume_def refill_def TokenBucketState_default_def)
  with assms show ?thesis
    by (simp add: admit_def admit_entry_def conclude_admission_def AdmissionEntry_default_def case_prod_unfold Let_def)
qed


section \<open>A service that grants\<close>

text \<open>A running service with the evidence, the three live members and the broadcast of the engine's sample;
  \<open>session\<close> is the session that published the first member.\<close>

definition sample_authority :: "SessionId \<Rightarrow> AuthorityState" where
  "sample_authority session = AuthorityState_new
     \<lparr>au_epoch := Identity 9 1, au_policy_generation := Identity 7 1, au_topology_generation := Identity 2 1,
      au_capacity_generation := Identity 2 2, au_congestion_generation := Identity 2 3,
      au_policy := Some (standard_policy (Identity 7 1)), au_topology := Some sample_topology,
      au_capacity := Some (sample_capacity 20000000000), au_congestion := Some sample_congestion,
      au_peers := [(Identity 1 10, (sample_peer 10 1)\<lparr>pl_bound_session := session\<rparr>),
                   (Identity 1 11, sample_peer 11 1), (Identity 1 12, sample_peer 12 2)],
      au_highest_incarnation := [(Identity 1 10, Identity 0 1), (Identity 1 11, Identity 0 1), (Identity 1 12, Identity 0 1)]\<rparr>"

definition sample_record :: CollectiveRecord where
  "sample_record = CollectiveRecord_default
     \<lparr>crec_definition := sample_definition CollectiveClass.kBroadcast, crec_state := CollectiveState.kRegistered,
      crec_current_attempt := Identity 1 3\<rparr>"

definition sample_service :: "SessionId \<Rightarrow> CoordinatorService" where
  "sample_service session = (CoordinatorService_new ServiceConfig_default \<lparr>ms_entropy = 0, ms_counter = 0\<rparr>)
     \<lparr>svc_running := True, svc_authority := sample_authority session,
      svc_catalog := (CollectiveCatalog_new (of_nat kCollectivesMaxLive))
        \<lparr>cat_records := [(Identity 1 1, sample_record)], cat_mutation_sequence := 1\<rparr>,
      svc_sessions := [(Identity 8 1, \<lparr>sb_id = Identity 8 1, sb_incarnation = Identity 8 2, sb_epoch = Identity 9 1,
        sb_peer_label = ''peer'', sb_opened_monotonic_ms = 0, sb_last_frame_monotonic_ms = 0, sb_last_frame_sequence = 0,
        sb_frames_received = 0, sb_frames_rejected = 0, sb_accepted_participants = 1\<rparr>)]\<rparr>"

definition sample_context :: ServiceRequestContext where
  "sample_context = \<lparr>ctx_session = Identity 8 1, ctx_incarnation = Identity 8 2, ctx_epoch = Identity 9 1,
     ctx_now_monotonic_ms = 1500, ctx_correlation = 77\<rparr>"

lemma sample_authority_inv: "authority_inv (sample_authority session)"
  using sample_evidence_valid sample_evidence_valid(2) [of 20000000000] standard_policy_valid [of "Identity 7 1"]
  by (simp add: authority_inv_def peers_inv_def evidence_inv_def histories_inv_def sample_authority_def
      AuthorityState_new_def peer_entry_ok_def idm_find_def idm_wf_def sample_peer_def sample_topology_def
      sample_capacity_def sample_congestion_def is_some_def is_none_def)

lemma sample_sessions_inv: "sessions_inv (sample_service session)"
  by (simp add: sessions_inv_def sample_service_def idm_wf_def idm_find_def idm_size_def kSessionsMax_def is_some_def
      is_none_def)

lemma sample_record_ok: "record_ok (Identity 1 1) sample_record"
  by (simp add: record_ok_def sample_record_def sample_definition_def CollectiveDefinition_default_def validate_definition_def
      is_known_collective_class_def is_some_def is_none_def less_Identity_def identity_less_def limit_defs scatter_members_def)

lemma sample_service_inv: "service_inv (sample_service session)"
proof -
  have new: "service_inv (CoordinatorService_new ServiceConfig_default \<lparr>ms_entropy = 0, ms_counter = 0\<rparr>)"
    by (rule service_inv_new)
  have "svc_history (sample_service session) = svc_history (CoordinatorService_new ServiceConfig_default \<lparr>ms_entropy = 0, ms_counter = 0\<rparr>)"
    "svc_admission (sample_service session) = svc_admission (CoordinatorService_new ServiceConfig_default \<lparr>ms_entropy = 0, ms_counter = 0\<rparr>)"
    by (simp_all add: sample_service_def)
  moreover have "catalog_inv (svc_catalog (sample_service session))"
    "cat_capacity (svc_catalog (sample_service session)) = of_nat kCollectivesMaxLive"
    using sample_record_ok
    by (simp_all add: sample_service_def catalog_inv_def CollectiveCatalog_new_def idm_wf_def idm_find_def idm_size_def
        kCollectivesMaxLive_def)
  moreover have "authority_inv (svc_authority (sample_service session))"
    using sample_authority_inv by (simp add: sample_service_def)
  ultimately show ?thesis using new sample_sessions_inv by (simp add: service_inv_def)
qed

lemma sample_service_snapshot: "service_snapshot sample_context (sample_service no_identity) = sample_snapshot 20000000000"
proof -
  have "(sample_peer 10 1)\<lparr>pl_bound_session := no_identity\<rparr> = sample_peer 10 1" by (simp add: sample_peer_def)
  then have "idm_values (au_peers (sample_authority no_identity)) = snap_peers (sample_snapshot 20000000000)"
    by (simp add: sample_authority_def idm_values_def sample_snapshot_def)
  moreover have "std_sort (\<lambda>a b. pl_participant a < pl_participant b) (snap_peers (sample_snapshot 20000000000)) =
      snap_peers (sample_snapshot 20000000000)"
    by (simp add: sample_snapshot_def sample_peer_def less_Identity_def identity_less_def word_less_nat_alt)
  ultimately show ?thesis
    by (simp add: service_snapshot_def authority_snapshot_def sample_context_def sample_service_def)
      (simp add: sample_authority_def sample_snapshot_def AuthorityState_new_def)
qed

lemma sample_effective_definition: "effective_definition sample_record = sample_definition CollectiveClass.kBroadcast"
  by (simp add: effective_definition_def sample_record_def CollectiveRecord_default_def)

lemma sample_rate_positive:
  "pi_admitted_bandwidth_bps (rec_pacing (evaluation sample_context sample_request sample_record (sample_service no_identity))) \<noteq> 0"
proof -
  have chosen: "chosen_class sample_request broadcast_policy = TrafficClass.kBulkData"
    by (simp add: chosen_class_def sample_request_def broadcast_policy_def add_collective_def)
  have max: "max 1000000000 x \<noteq> (0::u64)" for x by (auto simp: max_def)
  have fields: "snap_policy (sample_snapshot a) = Some (standard_policy (Identity 7 1))"
    "def_collective_class (sample_definition c) = c" for a c by (simp_all add: sample_snapshot_def sample_definition_def)
  show ?thesis
    using sample_granted unfolding evaluation_def sample_service_snapshot sample_effective_definition
    by (rule evaluate_granted_record) (auto simp: chosen sample_policy max fields sample_pacing)
qed

lemma sample_grantable: "grantable sample_context sample_request (sample_service no_identity) sample_record"
proof -
  note d = sample_effective_definition
  have adm: "admissible (service_snapshot sample_context (sample_service no_identity)) sample_request (effective_definition sample_record)"
    unfolding sample_service_snapshot d by (rule sample_admissible) (simp add: sample_verdict)
  have cur: "current_record sample_request (sample_service no_identity) sample_record"
    by (simp add: current_record_def catalog_find_def sample_service_def idm_find_def sample_request_def sample_instance_def
        sample_record_def sample_definition_def is_some_def is_none_def collective_state_is_terminal_def)
  have ses: "session_admits sample_context (sample_service no_identity)"
    by (simp add: session_admits_def sample_context_def sample_service_def idm_find_def sample_authority_def is_some_def is_none_def)
  have req: "is_ok (validate_decision_request sample_request)"
    by (simp add: validate_decision_request_def sample_request_def sample_instance_def scatter_plan_def is_none_def
        kEdgesMaxPerFlowGroup_def)
  let ?e = "evaluation sample_context sample_request sample_record (sample_service no_identity)"
  have g: "outcome_grants_authority (rec_outcome ?e)" using adm by (simp add: evaluation_def admissible_iff)
  have "released sample_context sample_request sample_record (sample_service no_identity)"
    unfolding released_def using g evaluation_constructed [OF g] sample_rate_positive
    by (intro first_release) (simp_all add: sample_service_def CoordinatorService_new_def AdmissionController_new_def
        idm.lookup_void idm.entries_void kTokenBucketsMax_def)
  with adm cur ses req show ?thesis by (simp add: grantable_def sample_service_def)
qed


section \<open>What outlives a session or a collective\<close>

lemma closed_session_fenced:
  assumes "service_inv s" "idm_find (svc_sessions s) session \<noteq> None" "idm_find (au_peers (svc_authority s)) p = Some l"
    and "pl_bound_session l = session" "list_all (\<lambda>op. \<not> boots op) ops"
  shows "fenced_at p (pl_incarnation l) (svc_authority (foldl service_step (snd (close_session session now s)) ops))"
proof -
  have "is_some session"
    using assms(1,2) sessions_inv_find(2) [of s session] by (auto simp: service_inv_def)
  then have "fenced_at p (pl_incarnation l) (svc_authority (snd (close_session session now s)))"
    using assms(2-4) by (auto simp: close_session_def fenced_at_def expire_session_def Let_def fence_def)
  moreover have "authority_inv (svc_authority (snd (close_session session now s)))"
    using service_step_inv [OF assms(1), of "OpCloseSession session now"] by (simp add: service_inv_def)
  ultimately have "authority_inv (svc_authority (foldl service_step (snd (close_session session now s)) ops)) \<and>
      fenced_at p (pl_incarnation l) (svc_authority (foldl service_step (snd (close_session session now s)) ops))"
    using assms(5) by (intro authority_part.run_part_inv [OF fence_run.invariant_system_axioms]) simp_all
  then show ?thesis ..
qed

lemma fenced_member_not_grantable:
  assumes "service_inv t" "fenced_at p i (svc_authority t)" "grantable context request t r"
    and "p \<in> set (def_participants (crec_definition r))"
  shows "\<exists>l. idm_find (au_peers (svc_authority t)) p = Some l \<and> i < pl_incarnation l"
  using grantable_members_live [OF assms(1,3,4)] assms(2) by (auto simp: fenced_at_def is_current_def)

lemma cancelled_ended:
  assumes "is_ok (fst (cancel_collective context i generation attempt out_state reasons s))"
  shows "\<exists>d a. ended i d a (svc_catalog (snd (snd (snd (cancel_collective context i generation attempt out_state reasons s)))))"
  using assms
  by (auto simp: cancel_collective_def Let_def catalog_find_def catalog_cancel_def catalog_set_state_def case_prod_unfold
      ended_def collective_state_is_terminal_def split: option.splits if_splits)

lemma ended_run_not_grantable:
  assumes "catalog_inv (svc_catalog s)" "ended i d a (svc_catalog s)" "list_all (\<lambda>op. \<not> restores op) ops"
    and "inst_id (req_instance request) = i"
  shows "\<not> grantable context request (foldl service_step s ops) r"
proof -
  have "catalog_inv (svc_catalog (foldl service_step s ops)) \<and> ended i d a (svc_catalog (foldl service_step s ops))"
    using assms(1-3) by (intro catalog_part.run_part_inv [OF ended_run.invariant_system_axioms]) simp_all
  then show ?thesis using assms(4) by (auto simp: grantable_def current_record_def catalog_find_def ended_def)
qed


section \<open>Properties of the service\<close>

text \<open>
  C11: Whatever calls reach a coordinator, in any order and interleaved in any way with the writing of
  snapshots, its state stays consistent: the authority, the catalog, the decision history and the admission
  table keep their invariants, the catalog keeps its capacity, no more than \<open>kSessionsMax\<close> sessions are
  open, every session is filed under its own set identity and has a set incarnation, and a stopped
  service has no session.
\<close>

theorem service_invariant: "service_inv (foldl service_step (CoordinatorService_new config ms) ops)"
  by (rule service_run.run_inv [OF service_inv_new])

text \<open>
  C1: The service grants exactly the requests it should: it runs, the session is open with that
  incarnation and epoch, the request is well formed, it names the current generation and attempt of a
  registered collective that has not ended, the engine's conditions hold for the current evidence, and
  the admission table releases the volume.
\<close>

theorem plan_grants_exactly:
  "grants (plan_flow_group context request out s) \<longleftrightarrow> (\<exists>r. grantable context request s r)"
  by (rule plan_grants_iff)

text \<open>
  C14: What a grant is bound to. The decision names the request's instance, the members of the registered
  definition and the epoch and generations in force; every member has live, unexpired, unfenced
  evidence; the collective becomes active with the same definition and attempt; and both the instance and
  the request's correlation now explain exactly this decision.
\<close>

theorem grant_effects:
  assumes "service_inv s" "log_represents l (svc_history s)" "length (log_all l) < 18446744073709551614"
    and "is_some (ctx_session context)" "ctx_correlation context \<noteq> 0"
    and "plan_flow_group context request out s = (status, d, t)" "grants (status, d, t)"
  shows "\<exists>r r'. current_record request s r \<and> rec_instance d = req_instance request \<and>
      rec_participants d = def_participants (crec_definition r) \<and> rec_epoch d = au_epoch (svc_authority s) \<and>
      rec_policy_generation d = au_policy_generation (svc_authority s) \<and>
      rec_topology_generation d = au_topology_generation (svc_authority s) \<and>
      (\<forall>p\<in>set (rec_participants d). \<exists>peer. idm_find (au_peers (svc_authority s)) p = Some peer \<and>
         is_current peer (ctx_now_monotonic_ms context)) \<and>
      catalog_find (svc_catalog t) (inst_id (req_instance request)) = Some r' \<and>
      crec_state r' = CollectiveState.kActive \<and> crec_definition r' = crec_definition r \<and>
      crec_current_attempt r' = inst_attempt (req_instance request) \<and>
      service_explain (inst_id (req_instance request)) (inst_attempt (req_instance request)) none t =
        explain_correlation (ctx_correlation context) none t \<and>
      fst (snd (explain_correlation (ctx_correlation context) none t)) =
        d\<lparr>rec_decision_sequence := hist_next_ordinal (svc_history s)\<rparr>"
proof -
  from assms(6,7) obtain r where r: "grantable context request s r" using plan_grants_iff [of "context" request out s] by auto
  then have cur: "current_record request s r" by (simp add: grantable_def)
  from r have "plan_flow_group context request out s = (status_ok, fst (decide context request r s),
      record_decision context (fst (decide context request r s)) (snd (decide context request r s)))"
    by (intro plan_flow_group_reached) (simp_all add: grantable_def)
  with assms(6) have d: "d = fst (decide context request r s)" and t: "t = record_decision context d (snd (decide context request r s))"
    by auto
  note facts = grantable_decision [OF r, folded d]
  have h: "svc_history (snd (decide context request r s)) = svc_history s" by simp
  note told = record_decision_explained [of l "snd (decide context request r s)" d request none "context", unfolded h, OF assms(2) facts(1), folded t]
    record_decision_correlated [of l "snd (decide context request r s)" "context" none d, unfolded h, OF assms(2-5), folded t]
  obtain r' where r': "catalog_find (svc_catalog t) (inst_id (req_instance request)) = Some r'"
    "crec_state r' = CollectiveState.kActive" "crec_definition r' = crec_definition r"
    "crec_current_attempt r' = inst_attempt (req_instance request)"
    using decide_catalog_granted [OF r] cur by (auto simp: t current_record_def)
  show ?thesis
    using cur facts r' told grantable_members_live [OF assms(1) r]
    by (intro exI [of _ r] exI [of _ r']) simp
qed

theorem grant_effects_witness:
  "\<exists>r r'. current_record sample_request (sample_service no_identity) r \<and>
     (let t = snd (snd (plan_flow_group sample_context sample_request DecisionRecord_default (sample_service no_identity)))
      in catalog_find (svc_catalog t) (Identity 1 1) = Some r' \<and> crec_state r' = CollectiveState.kActive)"
proof -
  let ?result = "plan_flow_group sample_context sample_request DecisionRecord_default (sample_service no_identity)"
  have g: "grants (fst ?result, fst (snd ?result), snd (snd ?result))"
    using plan_grants_iff [of sample_context sample_request DecisionRecord_default "sample_service no_identity"] sample_grantable
    by auto
  have h: "svc_history (sample_service no_identity) =
      history_step (DecisionHistory_new kDecisionHistoryDefaultCapacity) (SetCapacity kDecisionHistoryDefaultCapacity)"
    by (simp add: sample_service_def CoordinatorService_new_def ServiceConfig_default_def)
  have l: "log_represents (log_step (HistoryLog_new kDecisionHistoryDefaultCapacity) (SetCapacity kDecisionHistoryDefaultCapacity))
      (svc_history (sample_service no_identity))"
    unfolding h by (rule history_log.step_represents [OF log_represents_new])
  have len: "length (log_all (log_step (HistoryLog_new kDecisionHistoryDefaultCapacity) (SetCapacity kDecisionHistoryDefaultCapacity)))
      < 18446744073709551614"
    by (simp add: log_trim_def HistoryLog_new_def)
  from grant_effects [OF sample_service_inv l len _ _ _ g, of sample_context sample_request DecisionRecord_default DecisionRecord_default]
  show ?thesis
    by (auto simp: sample_context_def is_some_def is_none_def sample_request_def sample_instance_def Let_def)
qed







end
