(* ===== verification/CTF_ServiceSessions.thy ===== *)
theory CTF_ServiceSessions
  imports CTF_ServiceRun
begin

text \<open>
  Sessions over the life of a process. A session is named by an identity and an incarnation drawn one
  after the other from \<^verbatim>\<open>mint_identity\<close>; no later session of the process has the same pair. Within a
  session frame sequences only grow. Together: no frame is accepted twice, whatever the other threads do,
  and whether or not its session is closed in between.
\<close>

section \<open>Drawing identities\<close>

definition minted_within :: "nat \<Rightarrow> mint_source \<Rightarrow> mint_source \<Rightarrow> bool" where
  "minted_within n ms ms' \<longleftrightarrow> (\<exists>m\<le>n. ms' = ms\<lparr>ms_counter := ms_counter ms + of_nat m\<rparr>)"

lemma minted_within_refl [simp]: "minted_within n ms ms"
  unfolding minted_within_def by (rule exI [of _ 0]) simp

lemma minted_within_trans:
  assumes "minted_within n a b" "minted_within m b c"
  shows "minted_within (n + m) a c"
proof -
  from assms obtain i j where "i \<le> n" "j \<le> m" "b = a\<lparr>ms_counter := ms_counter a + of_nat i\<rparr>"
    "c = b\<lparr>ms_counter := ms_counter b + of_nat j\<rparr>" unfolding minted_within_def by blast
  then show ?thesis unfolding minted_within_def by (intro exI [of _ "i + j"]) (simp add: add.assoc)
qed

lemma minted_within_mono: "minted_within n a b \<Longrightarrow> n \<le> m \<Longrightarrow> minted_within m a b"
  unfolding minted_within_def using le_trans by blast

lemma service_mint_source [simp]:
  "svc_mint (snd (service_mint s)) = (svc_mint s)\<lparr>ms_counter := ms_counter (svc_mint s) + 1\<rparr>"
  "fst (service_mint s) = minted (ms_entropy (svc_mint s)) (ms_counter (svc_mint s))"
  by (simp_all add: service_mint_def mint_identity_eq)

lemma minted_within_one: "0 < n \<Longrightarrow> minted_within n (svc_mint s) (svc_mint (snd (service_mint s)))"
  unfolding minted_within_def by (intro exI [of _ 1]) simp

lemma stated_mint [simp]: "minted_within 4 (svc_mint s) (svc_mint (snd (stated_or_minted g s)))"
  using minted_within_one [of 4 s] by (simp add: stated_or_minted_def)

lemma mint_fresh_source:
  assumes "minted (ms_entropy ms) (ms_counter ms + of_nat k) \<notin> {x, y}"
  shows "\<exists>c ms'. mint_fresh x y ms = Some (c, ms') \<and> minted_within (Suc k) ms ms'"
  using assms
proof (induction k arbitrary: ms)
  case 0
  then show ?case
    by (subst mint_fresh_unfold) (auto simp: Let_def minted_within_def intro: exI [of _ "Suc 0"])
next
  case (Suc k)
  let ?ms = "ms\<lparr>ms_counter := ms_counter ms + 1\<rparr>"
  have one: "minted_within 1 ms ?ms" unfolding minted_within_def by (intro exI [of _ 1]) simp
  obtain c ms' where ih: "mint_fresh x y ?ms = Some (c, ms')" "minted_within (Suc k) ?ms ms'"
    using Suc.IH [of ?ms] Suc.prems by (auto simp: algebra_simps)
  have far: "minted_within (Suc (Suc k)) ms ms'" using minted_within_trans [OF one ih(2)] by simp
  have near: "minted_within (Suc (Suc k)) ms ?ms" using one by (rule minted_within_mono) simp
  show ?case using far near ih(1) by (subst mint_fresh_unfold) (simp add: Let_def)
qed

lemma boot_mint: "\<exists>c a ms'. begin_boot e s ms = Some (c, a, ms') \<and> minted_within 4 ms ms'"
proof -
  obtain k where k: "k < 4" "minted (ms_entropy ms) (ms_counter ms + of_nat k) \<notin> {e, au_epoch s}"
    using fresh_within_four by blast
  from mint_fresh_source [OF k(2)] obtain c ms' where "mint_fresh e (au_epoch s) ms = Some (c, ms')"
    "minted_within (Suc k) ms ms'" by blast
  with k(1) show ?thesis by (auto simp: begin_boot_def Let_def intro: minted_within_mono)
qed

lemma open_mint: "minted_within 4 (svc_mint s) (svc_mint (snd (open_session label now s)))"
proof (cases "svc_running s \<and> idm_size (svc_sessions s) < kSessionsMax")
  case True
  then have "svc_mint (snd (open_session label now s)) = (svc_mint s)\<lparr>ms_counter := ms_counter (svc_mint s) + of_nat 2\<rparr>"
    by (simp add: open_session_def Let_def case_prod_unfold)
  then show ?thesis unfolding minted_within_def by (intro exI [of _ 2]) simp
qed (simp add: open_session_def not_less)

lemma service_step_mint: "minted_within 4 (svc_mint s) (svc_mint (service_step s op))"
proof (cases op)
  case (OpStart now)
  then show ?thesis using boot_mint [of "au_epoch (svc_authority s)" "svc_authority s" "svc_mint s"]
    by (auto simp: service_start_def Let_def)
next
  case (OpValidateEnvelope view now)
  then show ?thesis by (simp add: validate_envelope_def check_session_state session_advanced_def Let_def)
qed (simp_all add: open_mint, simp_all add: service_defs service_restore_def sweep_parts Let_def case_prod_unfold
    split: option.split sum.split RegistrationResult.split InstallResult.split)

lemma service_run_mint: "minted_within (4 * length ops) (svc_mint s) (svc_mint (foldl service_step s ops))"
proof (induction ops arbitrary: s)
  case (Cons op ops)
  from minted_within_trans [OF service_step_mint [of s op] Cons.IH] show ?case by simp
qed simp

text \<open>Two consecutive draws name a position of the counter: single draws can repeat once, pairs cannot.\<close>

lemma minted_pair_inj:
  assumes "minted e j = minted e k" "minted e (j + 1) = minted e (k + 1)"
  shows "j = k"
proof (rule ccontr)
  assume ne: "j \<noteq> k"
  have v: "minted e j = Identity 1 1" "minted e (j + 1) = Identity 1 1"
    using minted_collision [OF refl assms(1) [symmetric] ne] minted_collision [OF refl assms(2) [symmetric]] ne by simp_all
  with assms have w: "minted e k = Identity 1 1" "minted e (k + 1) = Identity 1 1" by simp_all
  have "j + 1 = k" using minted_at_most_two [OF v(1,2) w(1)] ne by simp
  moreover have "j + 1 = k + 1" using minted_at_most_two [OF v(1,2) w(2)] ne calculation by auto
  ultimately show False using ne by simp
qed


section \<open>How a binding evolves\<close>

definition binding_kept :: "CoordinatorService \<Rightarrow> SessionId \<Rightarrow> SessionBinding \<Rightarrow> bool" where
  "binding_kept s session b' \<longleftrightarrow>
     (\<exists>b. idm_find (svc_sessions s) session = Some b \<and> sb_incarnation b' = sb_incarnation b \<and>
        sb_last_frame_sequence b \<le> sb_last_frame_sequence b')"

definition binding_opened :: "CoordinatorService \<Rightarrow> CoordinatorService \<Rightarrow> SessionId \<Rightarrow> SessionBinding \<Rightarrow> bool" where
  "binding_opened s t session b' \<longleftrightarrow>
     session = minted (ms_entropy (svc_mint s)) (ms_counter (svc_mint s)) \<and>
     sb_incarnation b' = minted (ms_entropy (svc_mint s)) (ms_counter (svc_mint s) + 1) \<and>
     svc_mint t = (svc_mint s)\<lparr>ms_counter := ms_counter (svc_mint s) + of_nat 2\<rparr>"

lemma binding_kept_same: "idm_find (svc_sessions s) session = Some b \<Longrightarrow> binding_kept s session b"
  by (auto simp: binding_kept_def)

lemma foldl_erase_find:
  assumes "idm_wf m" "idm_find (foldl (\<lambda>m session. idm_erase session m) m sessions) session = Some b"
  shows "idm_find m session = Some b"
  using assms
proof (induction sessions arbitrary: m)
  case (Cons a sessions)
  then have "idm_find (idm_erase a m) session = Some b" using idm.wf_erase by auto
  with Cons.prems(1) show ?case by (simp add: idm.lookup_erase split: if_splits)
qed simp

lemma open_binding:
  assumes "idm_find (svc_sessions (snd (open_session label now s))) session = Some b"
  shows "binding_kept s session b \<or> binding_opened s (snd (open_session label now s)) session b"
proof (cases "svc_running s \<and> idm_size (svc_sessions s) < kSessionsMax")
  case True
  show ?thesis
  proof (cases "idm_find (svc_sessions s) (fst (service_mint s)) = None \<and> session = fst (service_mint s)")
    case opened: True
    with True assms show ?thesis
      by (auto simp: open_session_def Let_def case_prod_unfold binding_opened_def idm.lookup_store)
  next
    case False
    with True assms have "idm_find (svc_sessions s) session = Some b"
      by (auto simp: open_session_def Let_def case_prod_unfold idm.lookup_store split: if_splits)
    then show ?thesis by (simp add: binding_kept_same)
  qed
next
  case False
  then have "snd (open_session label now s) = s" by (auto simp: open_session_def not_less)
  with assms show ?thesis by (simp add: binding_kept_same)
qed

lemma validate_binding:
  assumes "idm_find (svc_sessions (snd (snd (check_session_locked view now reasons s)))) session = Some b"
  shows "binding_kept s session b"
proof (cases "envelope_current view s")
  case True
  then obtain old where "idm_find (svc_sessions s) (view_session view) = Some old"
    "sb_last_frame_sequence old < view_frame_sequence view" by (auto simp: envelope_current_def)
  with True assms show ?thesis
    by (auto simp: check_session_state session_advanced_def Let_def idm.lookup_store binding_kept_def split: if_splits)
qed (use assms in \<open>simp add: check_session_state binding_kept_same\<close>)

lemma publish_binding:
  assumes "idm_find (svc_sessions (snd (publish_participant context p i node state s))) session = Some b"
  shows "binding_kept s session b"
  using assms
  by (auto simp: publish_participant_def Let_def case_prod_unfold idm.lookup_store binding_kept_def
      split: option.splits if_splits)

lemma step_binding:
  assumes "sessions_inv s" "idm_find (svc_sessions (service_step s op)) session = Some b"
  shows "binding_kept s session b \<or> binding_opened s (service_step s op) session b"
proof -
  have wf: "idm_wf (svc_sessions s)" using assms(1) by (simp add: sessions_inv_def)
  have keep: "binding_kept s session b" if "svc_sessions (service_step s op) = svc_sessions s"
    using that assms(2) by (simp add: binding_kept_same)
  show ?thesis
  proof (cases op)
    case (OpOpenSession label now)
    then show ?thesis using assms(2) open_binding by simp
  next
    case (OpValidateEnvelope view now)
    then show ?thesis using assms(2) validate_binding by (simp add: validate_envelope_def)
  next
    case (OpPublish ctx p i node state)
    then show ?thesis using assms(2) publish_binding by simp
  next
    case (OpStart now)
    then show ?thesis by (intro disjI1 keep) (simp add: service_start_def Let_def split: option.split)
  next
    case (OpStop now)
    then show ?thesis using assms(2)
      by (auto simp: stop_begin_def Let_def idm.lookup_void binding_kept_same split: if_splits)
  next
    case (OpCloseSession closed now)
    then show ?thesis using assms(2) wf
      by (auto simp: close_session_def idm.lookup_erase binding_kept_same split: if_splits option.splits)
  next
    case (OpSweep now)
    then show ?thesis using assms(2) foldl_erase_find [OF wf]
      by (auto simp: sweep_idle_sessions_def Let_def sweep_parts intro: binding_kept_same)
  qed (rule disjI1, rule keep, simp add: service_defs service_restore_def Let_def case_prod_unfold
      split: option.split sum.split RegistrationResult.split InstallResult.split)+
qed


section \<open>No frame is accepted twice\<close>

definition drawn_pair :: "mint_source \<Rightarrow> nat \<Rightarrow> SessionId \<Rightarrow> BootIncarnation \<Rightarrow> bool" where
  "drawn_pair ms m session incarnation \<longleftrightarrow>
     (\<exists>k. k + 2 \<le> m \<and> session = minted (ms_entropy ms) (ms_counter ms + of_nat k) \<and>
        incarnation = minted (ms_entropy ms) (ms_counter ms + of_nat k + 1))"

definition session_ledger :: "mint_source \<Rightarrow> nat \<Rightarrow> CoordinatorService \<Rightarrow> bool" where
  "session_ledger ms m s \<longleftrightarrow>
     svc_mint s = ms\<lparr>ms_counter := ms_counter ms + of_nat m\<rparr> \<and>
     (\<forall>session b. idm_find (svc_sessions s) session = Some b \<longrightarrow> drawn_pair ms m session (sb_incarnation b))"

definition frame_spent :: "mint_source \<Rightarrow> EnvelopeView \<Rightarrow> nat \<Rightarrow> CoordinatorService \<Rightarrow> bool" where
  "frame_spent ms view m s \<longleftrightarrow>
     svc_mint s = ms\<lparr>ms_counter := ms_counter ms + of_nat m\<rparr> \<and>
     drawn_pair ms m (view_session view) (view_incarnation view) \<and>
     (\<forall>b. idm_find (svc_sessions s) (view_session view) = Some b \<longrightarrow> sb_incarnation b = view_incarnation view \<longrightarrow>
        view_frame_sequence view \<le> sb_last_frame_sequence b)"

lemma drawn_pair_mono: "drawn_pair ms m session i \<Longrightarrow> m \<le> n \<Longrightarrow> drawn_pair ms n session i"
  unfolding drawn_pair_def using le_trans by blast

lemma of_nat_two: "i \<le> 4 \<Longrightarrow> (of_nat i :: u64) = 2 \<Longrightarrow> i = 2"
  by (simp add: le_Suc_eq numeral_eq_Suc) auto

lemma ledger_advance:
  assumes "svc_mint s = ms\<lparr>ms_counter := ms_counter ms + of_nat m\<rparr>"
  obtains i where "i \<le> 4" "svc_mint (service_step s op) = ms\<lparr>ms_counter := ms_counter ms + of_nat (m + i)\<rparr>"
    "\<And>session b. binding_opened s (service_step s op) session b \<Longrightarrow> i = 2"
proof -
  from service_step_mint [of s op] obtain i where i: "i \<le> 4"
    "svc_mint (service_step s op) = (svc_mint s)\<lparr>ms_counter := ms_counter (svc_mint s) + of_nat i\<rparr>"
    unfolding minted_within_def by blast
  have "i = 2" if "binding_opened s (service_step s op) session b" for session b
  proof (rule of_nat_two [OF i(1)])
    have "ms_counter (svc_mint (service_step s op)) = ms_counter (svc_mint s) + 2"
      using that by (simp add: binding_opened_def)
    with i(2) show "(of_nat i :: u64) = 2" by simp
  qed
  with i assms show thesis by (intro that [of i]) (simp_all add: add.assoc)
qed

lemma ledger_step:
  assumes "sessions_inv s" "session_ledger ms m s"
  shows "\<exists>n\<le>m + 4. session_ledger ms n (service_step s op)"
proof -
  have src: "svc_mint s = ms\<lparr>ms_counter := ms_counter ms + of_nat m\<rparr>" using assms(2) by (simp add: session_ledger_def)
  obtain i where i: "i \<le> 4" "svc_mint (service_step s op) = ms\<lparr>ms_counter := ms_counter ms + of_nat (m + i)\<rparr>"
    and two: "\<And>session b. binding_opened s (service_step s op) session b \<Longrightarrow> i = 2"
    using ledger_advance [OF src] by metis
  have "drawn_pair ms (m + i) session (sb_incarnation b)" if b: "idm_find (svc_sessions (service_step s op)) session = Some b"
    for session b
    using step_binding [OF assms(1) b]
  proof
    assume "binding_kept s session b"
    with assms(2) have "drawn_pair ms m session (sb_incarnation b)" by (auto simp: binding_kept_def session_ledger_def)
    then show ?thesis by (rule drawn_pair_mono) simp
  next
    assume "binding_opened s (service_step s op) session b"
    with two [OF this] src show ?thesis by (auto simp: binding_opened_def drawn_pair_def intro: exI [of _ m])
  qed
  with i show ?thesis by (intro exI [of _ "m + i"]) (simp add: session_ledger_def)
qed

lemma drawn_later:
  assumes "drawn_pair ms m (minted (ms_entropy ms) (ms_counter ms + of_nat m))
      (minted (ms_entropy ms) (ms_counter ms + of_nat m + 1))"
  shows "\<not> m < 2 ^ 64"
proof
  assume m: "m < 2 ^ 64"
  from assms obtain k where k: "k + 2 \<le> m"
    "minted (ms_entropy ms) (ms_counter ms + of_nat m) = minted (ms_entropy ms) (ms_counter ms + of_nat k)"
    "minted (ms_entropy ms) (ms_counter ms + of_nat m + 1) = minted (ms_entropy ms) (ms_counter ms + of_nat k + 1)"
    by (auto simp: drawn_pair_def)
  from minted_pair_inj [OF k(2,3)] have "(of_nat m :: u64) = of_nat k" by simp
  then have "unat (of_nat m :: u64) = unat (of_nat k :: u64)" by simp
  with m k(1) show False by (simp add: unat_of_nat)
qed

lemma spent_step:
  assumes "sessions_inv s" "frame_spent ms view m s" "m < 2 ^ 64"
  shows "\<exists>n\<le>m + 4. frame_spent ms view n (service_step s op)"
proof -
  have src: "svc_mint s = ms\<lparr>ms_counter := ms_counter ms + of_nat m\<rparr>"
    and drawn: "drawn_pair ms m (view_session view) (view_incarnation view)"
    using assms(2) by (simp_all add: frame_spent_def)
  obtain i where i: "i \<le> 4" "svc_mint (service_step s op) = ms\<lparr>ms_counter := ms_counter ms + of_nat (m + i)\<rparr>"
    using ledger_advance [OF src] by metis
  have "view_frame_sequence view \<le> sb_last_frame_sequence b"
    if b: "idm_find (svc_sessions (service_step s op)) (view_session view) = Some b" "sb_incarnation b = view_incarnation view" for b
    using step_binding [OF assms(1) b(1)]
  proof
    assume "binding_kept s (view_session view) b"
    with assms(2) b(2) show ?thesis by (auto simp: binding_kept_def frame_spent_def)
  next
    assume "binding_opened s (service_step s op) (view_session view) b"
    with drawn b(2) src have "\<not> m < 2 ^ 64" by (intro drawn_later [of ms]) (simp add: binding_opened_def)
    with assms(3) show ?thesis by simp
  qed
  moreover have "drawn_pair ms (m + i) (view_session view) (view_incarnation view)"
    using drawn by (rule drawn_pair_mono) simp
  ultimately show ?thesis using i by (intro exI [of _ "m + i"]) (simp add: frame_spent_def)
qed

lemma ledger_run:
  assumes "sessions_inv s" "session_ledger ms m s"
  shows "\<exists>n\<le>m + 4 * length ops. session_ledger ms n (foldl service_step s ops)"
  using assms
proof (induction ops arbitrary: s m)
  case (Cons op ops)
  from ledger_step [OF Cons.prems] obtain k where k: "k \<le> m + 4" "session_ledger ms k (service_step s op)" by blast
  from Cons.IH [OF service_step_sessions [OF Cons.prems(1)] k(2)] obtain n where
    "n \<le> k + 4 * length ops" "session_ledger ms n (foldl service_step (service_step s op) ops)" by blast
  with k(1) show ?case by (intro exI [of _ n]) simp
qed auto

lemma spent_run:
  assumes "sessions_inv s" "frame_spent ms view m s" "m + 4 * length ops < 2 ^ 64"
  shows "\<exists>n. frame_spent ms view n (foldl service_step s ops)"
  using assms
proof (induction ops arbitrary: s m)
  case (Cons op ops)
  have "m < 2 ^ 64" using Cons.prems(3) by simp
  from spent_step [OF Cons.prems(1,2) this] obtain k where k: "k \<le> m + 4" "frame_spent ms view k (service_step s op)" by blast
  have "k + 4 * length ops < 2 ^ 64" using k(1) Cons.prems(3) by simp
  from Cons.IH [OF service_step_sessions [OF Cons.prems(1)] k(2) this] show ?case by simp
qed auto

lemma accepted_spent:
  assumes "session_ledger ms m s" "envelope_current view s"
  shows "frame_spent ms view m (session_advanced view now s)"
  using assms
  by (auto simp: session_ledger_def envelope_current_def frame_spent_def session_advanced_def Let_def idm.lookup_store)

lemma spent_not_current: "frame_spent ms view m s \<Longrightarrow> \<not> envelope_current view s"
  by (auto simp: frame_spent_def envelope_current_def)

lemma ledger_new: "session_ledger ms 0 (CoordinatorService_new config ms)"
  by (simp add: session_ledger_def CoordinatorService_new_def idm.lookup_void)

lemma accepted_stays_spent:
  assumes "envelope_current view (foldl service_step (CoordinatorService_new config ms) before)"
    and "4 * (length before + length after) < 2 ^ 64"
  shows "\<exists>n. frame_spent ms view n (foldl service_step
    (session_advanced view now (foldl service_step (CoordinatorService_new config ms) before)) after)"
proof -
  let ?s = "foldl service_step (CoordinatorService_new config ms) before"
  have new: "sessions_inv (CoordinatorService_new config ms)" using service_inv_new by (simp add: service_inv_def)
  from ledger_run [OF new ledger_new] obtain n where n: "n \<le> 4 * length before" "session_ledger ms n ?s" by auto
  have "sessions_inv ?s" using service_run.run_inv [OF service_inv_new] by (simp add: service_inv_def)
  then have "sessions_inv (snd (snd (check_session_locked view now [] ?s)))" by (rule check_session_sessions)
  then have inv: "sessions_inv (session_advanced view now ?s)" using assms(1) by (simp add: check_session_state)
  have "n + 4 * length after < 2 ^ 64" using n(1) assms(2) by simp
  from spent_run [OF inv accepted_spent [OF n(2) assms(1)] this] show ?thesis .
qed

text \<open>A started service admits the first frame of a session it opens.\<close>

definition first_frame :: "SessionBinding \<Rightarrow> EnvelopeView" where
  "first_frame b = \<lparr>view_session = sb_id b, view_incarnation = sb_incarnation b, view_epoch = sb_epoch b,
     view_frame_sequence = 1, view_correlation = 0\<rparr>"

lemma start_runs:
  assumes "\<not> svc_running s"
  shows "svc_running (service_step s (OpStart now))" "is_some (au_epoch (svc_authority (service_step s (OpStart now))))"
    "svc_sessions (service_step s (OpStart now)) = svc_sessions s"
proof -
  let ?e = "au_epoch (svc_authority s)"
  obtain k where "minted (ms_entropy (svc_mint s)) (ms_counter (svc_mint s) + of_nat k) \<notin> {?e, ?e}"
    using fresh_within_four by blast
  from mint_fresh_ends [OF this] obtain c ms where "mint_fresh ?e ?e (svc_mint s) = Some (c, ms)" "is_some c" by blast
  then show "svc_running (service_step s (OpStart now))" "svc_sessions (service_step s (OpStart now)) = svc_sessions s"
    "is_some (au_epoch (svc_authority (service_step s (OpStart now))))"
    using assms by (simp_all add: service_start_def begin_boot_def set_freshness_policy_def invalidate_dynamic_evidence_def Let_def)
qed

lemma open_accepts:
  assumes "svc_running s" "svc_sessions s = []" "is_some (au_epoch (svc_authority s))"
  shows "\<exists>b. fst (open_session label now s) = Inr b \<and> envelope_current (first_frame b) (snd (open_session label now s))"
proof -
  have "is_some (minted e c)" for e c using mint_identity_some [of "\<lparr>ms_entropy = e, ms_counter = c\<rparr>"]
    by (simp add: mint_identity_eq)
  with assms show ?thesis
    by (simp add: open_session_def case_prod_unfold Let_def envelope_current_def first_frame_def idm.lookup_store
        idm.lookup_void idm.entries_void kSessionsMax_def)
qed

text \<open>
  C10: A frame is accepted at most once in the life of a process: once its envelope has passed the session
  check, the same envelope is refused for ever, through any sequence of operations, including ones that
  close its session and open others. The bound keeps the identity counter from wrapping.
\<close>

theorem frame_accepted_once:
  assumes "s = foldl service_step (CoordinatorService_new config ms) before"
    and "is_ok (fst (validate_envelope view now reasons s))"
    and "4 * (length before + length after) < 2 ^ 64"
  shows "\<not> is_ok (fst (validate_envelope view later reasons'
    (foldl service_step (snd (snd (validate_envelope view now reasons s))) after)))"
proof -
  have "envelope_current view s" "snd (snd (validate_envelope view now reasons s)) = session_advanced view now s"
    using assms(2) by (simp_all add: validate_envelope_def check_session_ok check_session_state)
  with accepted_stays_spent [of view config ms before after now] assms(1,3) show ?thesis
    by (auto simp: validate_envelope_def check_session_ok dest: spent_not_current)
qed

theorem frame_accepted_once_witness:
  "\<exists>b. let s = foldl service_step (CoordinatorService_new ServiceConfig_default \<lparr>ms_entropy = 7, ms_counter = 0\<rparr>)
          [OpStart 0, OpOpenSession ''peer'' 0];
        result = validate_envelope (first_frame b) 1 [] s
     in is_ok (fst result) \<and>
       \<not> is_ok (fst (validate_envelope (first_frame b) 2 []
         (foldl service_step (snd (snd result)) [OpCloseSession (sb_id b) 1, OpOpenSession ''peer'' 2])))"
proof -
  let ?before = "[OpStart 0, OpOpenSession ''peer'' 0]"
  let ?s = "foldl service_step (CoordinatorService_new ServiceConfig_default \<lparr>ms_entropy = 7, ms_counter = 0\<rparr>) ?before"
  let ?t = "service_step (CoordinatorService_new ServiceConfig_default \<lparr>ms_entropy = 7, ms_counter = 0\<rparr>) (OpStart 0)"
  have "\<not> svc_running (CoordinatorService_new ServiceConfig_default \<lparr>ms_entropy = 7, ms_counter = 0\<rparr>)"
    "svc_sessions (CoordinatorService_new ServiceConfig_default \<lparr>ms_entropy = 7, ms_counter = 0\<rparr>) = []"
    by (simp_all add: CoordinatorService_new_def)
  with start_runs [of "CoordinatorService_new ServiceConfig_default \<lparr>ms_entropy = 7, ms_counter = 0\<rparr>" 0]
  obtain b where "envelope_current (first_frame b) (snd (open_session ''peer'' 0 ?t))"
    using open_accepts [of ?t "''peer''" 0] by auto
  then have ok: "is_ok (fst (validate_envelope (first_frame b) 1 [] ?s))"
    by (simp add: validate_envelope_def check_session_ok del: service_step.simps(1))
  have len: "4 * (length ?before + length [OpCloseSession (sb_id b) 1, OpOpenSession ''peer'' 2]) < 2 ^ 64" by simp
  from ok frame_accepted_once [OF refl ok len, of 2 "[]"] show ?thesis by (intro exI [of _ b]) (simp only: Let_def simp_thms)
qed

end
