(* ===== verification/CTF_ServiceDurable.thy ===== *)
theory CTF_ServiceDurable
  imports CTF_ServiceSafety CTF_ServiceSessions
begin

text \<open>
  What the service writes to disk and reads back. \<open>durable_kept\<close> says that two states have the same durable
  contents but for collectives that became active, which the service does not count as a change. Every
  other change of the durable contents advances \<^verbatim>\<open>mutation_sequence_\<close>; that is what lets \<^verbatim>\<open>flush\<close> release
  the mutex while it writes. Two flushes at the same time are another matter.
\<close>

section \<open>The mutation sequence\<close>

definition without_activation :: "CollectiveRecord \<Rightarrow> CollectiveRecord" where
  "without_activation r =
     r\<lparr>crec_state := (if collective_state_is_terminal (crec_state r) then crec_state r else CollectiveState.kActive),
       crec_last_mutated_monotonic_ms := 0, crec_last_mutation_sequence := 0\<rparr>"

definition durable_kept :: "CoordinatorService \<Rightarrow> CoordinatorService \<Rightarrow> bool" where
  "durable_kept s t \<longleftrightarrow>
     durable_snapshot (svc_authority t) = durable_snapshot (svc_authority s) \<and>
     (\<forall>i. map_option without_activation (catalog_find (svc_catalog t) i) =
          map_option without_activation (catalog_find (svc_catalog s) i))"

lemma durable_kept_trans: "durable_kept s t \<Longrightarrow> durable_kept t u \<Longrightarrow> durable_kept s u"
  by (simp add: durable_kept_def)

lemma durable_kept_cong:
  "durable_snapshot (svc_authority t) = durable_snapshot (svc_authority s) \<Longrightarrow> svc_catalog t = svc_catalog s \<Longrightarrow>
   durable_kept s t"
  by (simp add: durable_kept_def)

text \<open>Liveness, capacity and congestion are not part of the durable contents.\<close>

lemma durable_live:
  "durable_snapshot (snd (publish_liveness l a)) = durable_snapshot a"
  "durable_snapshot (snd (heartbeat q i now ttl a)) = durable_snapshot a"
  "durable_snapshot (snd (expire_session session now a)) = durable_snapshot a"
  "durable_snapshot (invalidate_dynamic_evidence a) = durable_snapshot a"
  "durable_snapshot (snd (install_capacity c a)) = durable_snapshot a"
  "durable_snapshot (snd (install_congestion g a)) = durable_snapshot a"
  by (simp_all add: durable_snapshot_def topology_snapshot_def policy_snapshot_def publish_liveness_def heartbeat_def
      expire_session_def invalidate_dynamic_evidence_def install_capacity_def install_congestion_def store_peer_def
      raise_incarnation_def Let_def split: option.split)

lemma durable_expire_all:
  "durable_snapshot (foldl (\<lambda>a session. snd (expire_session session now a)) a sessions) = durable_snapshot a"
  by (induction sessions arbitrary: a) (simp_all add: durable_live)

lemma install_refused:
  "fst (install_policy p a) \<noteq> InstallResult.kInstalled \<Longrightarrow> snd (install_policy p a) = a"
  "fst (install_topology t a) \<noteq> InstallResult.kInstalled \<Longrightarrow> snd (install_topology t a) = a"
  by (auto simp: install_policy_def install_topology_def Let_def split: if_splits option.splits)

lemma register_refused:
  assumes "ro_result (fst (register_definition d now c)) \<notin> {RegistrationResult.kRegistered, RegistrationResult.kGenerationAdvanced}"
  shows "snd (register_definition d now c) = c"
  using assms
  by (auto simp: register_definition_def register_new_def register_change_def register_outcome_def Let_def
      split: option.splits if_splits)

lemma attempt_refused:
  "fst (catalog_begin_attempt i attempt now c) = Inl status \<Longrightarrow> snd (catalog_begin_attempt i attempt now c) = c"
  by (auto simp: catalog_begin_attempt_def split: option.splits if_splits)

lemma set_state_refused: "\<not> is_ok (fst (catalog_set_state i state now c)) \<Longrightarrow> snd (catalog_set_state i state now c) = c"
  by (auto simp: catalog_set_state_def split: option.splits if_splits)

lemma activation_kept:
  "map_option without_activation (catalog_find (snd (catalog_set_state i CollectiveState.kActive now c)) j) =
   map_option without_activation (catalog_find c j)"
  by (auto simp: catalog_set_state_def catalog_find_def idm.lookup_store without_activation_def
      collective_state_is_terminal_def split: option.split)

lemma decide_kept: "durable_kept s (snd (decide context request r s))"
  by (subst decide_eq) (simp add: decide_def durable_kept_def activation_kept Let_def)

text \<open>The operations that neither replace the durable state nor settle the dirty flag.\<close>

fun quiet :: "ServiceOp \<Rightarrow> bool" where
  "quiet (OpStart _) = False"
| "quiet (OpRestore _ _ _ _) = False"
| "quiet (OpConfigure _ _) = False"
| "quiet (OpFlushEnd _ _) = False"
| "quiet _ = True"

lemma dirty_parts [simp]:
  "svc_persistence_dirty (mark_durable_mutation s)" "svc_persistence_dirty (snd (service_mint s)) = svc_persistence_dirty s"
  "svc_persistence_dirty (snd (stated_or_minted g s)) = svc_persistence_dirty s"
  "svc_persistence_dirty (teardown now s session) = svc_persistence_dirty s"
  "svc_persistence_dirty (snd (refuse_request context request cls axis code reason detail s)) = svc_persistence_dirty s"
  "svc_persistence_dirty (record_decision context d s) = svc_persistence_dirty s"
  "svc_persistence_dirty (snd (admit_decision context request d s)) = svc_persistence_dirty s"
  by (simp_all add: mark_durable_mutation_def service_mint_def stated_or_minted_def teardown_def refuse_request_def
      record_decision_def admit_decision_def Let_def case_prod_unfold split: AdmissionOutcome.split)

lemma decide_dirty [simp]: "svc_persistence_dirty (snd (decide context request r s)) = svc_persistence_dirty s"
  by (simp add: decide_def Let_def)

lemma sweep_dirty [simp]: "svc_persistence_dirty (foldl (teardown now) s sessions) = svc_persistence_dirty s"
  by (induction sessions arbitrary: s) simp_all

definition marked :: "CoordinatorService \<Rightarrow> CoordinatorService \<Rightarrow> bool" where
  "marked s t \<longleftrightarrow> svc_mutation_sequence t = svc_mutation_sequence s + 1 \<and> svc_persistence_dirty t"

definition unmarked :: "CoordinatorService \<Rightarrow> CoordinatorService \<Rightarrow> bool" where
  "unmarked s t \<longleftrightarrow>
     svc_mutation_sequence t = svc_mutation_sequence s \<and> svc_persistence_dirty t = svc_persistence_dirty s \<and> durable_kept s t"

lemma unmarked_cong:
  "svc_mutation_sequence t = svc_mutation_sequence s \<Longrightarrow> svc_persistence_dirty t = svc_persistence_dirty s \<Longrightarrow>
   durable_snapshot (svc_authority t) = durable_snapshot (svc_authority s) \<Longrightarrow> svc_catalog t = svc_catalog s \<Longrightarrow> unmarked s t"
  by (simp add: unmarked_def durable_kept_cong)

lemma unmarked_parts:
  "unmarked s s" "unmarked s (count f t) = unmarked s t" "unmarked s (record_decision context d t) = unmarked s t"
  "unmarked s (snd (refuse_request context request cls axis code reason detail t)) = unmarked s t"
  "unmarked s (snd (decide context request r s))"
  using decide_kept by (simp_all add: unmarked_def durable_kept_def)

lemma plan_unmarked: "unmarked s (snd (snd (plan_flow_group context request out s)))"
  unfolding plan_flow_group_def Let_def case_prod_unfold by (simp add: unmarked_parts split: option.split)

lemma register_marked:
  "marked s (snd (snd (register_collective context d out s))) \<or> unmarked s (snd (snd (register_collective context d out s)))"
proof (cases "ro_result (fst (register_definition d (ctx_now_monotonic_ms context) (svc_catalog s)))
    \<in> {RegistrationResult.kRegistered, RegistrationResult.kGenerationAdvanced}")
  case True
  then show ?thesis
    by (auto simp: register_collective_def Let_def case_prod_unfold marked_def unmarked_def durable_kept_def)
next
  case False
  have "unmarked s (snd (snd (register_collective context d out s)))"
    using False register_refused [OF False]
    by (intro unmarked_cong) (auto simp: register_collective_def Let_def case_prod_unfold split: RegistrationResult.split)
  then show ?thesis ..
qed

lemma attempt_marked:
  "marked s (snd (snd (begin_attempt context i g a bytes out s))) \<or> unmarked s (snd (snd (begin_attempt context i g a bytes out s)))"
proof (cases "fst (catalog_begin_attempt i a (ctx_now_monotonic_ms context) (svc_catalog s))")
  case (Inl status)
  have "unmarked s (snd (snd (begin_attempt context i g a bytes out s)))"
    using Inl attempt_refused [OF Inl]
    by (intro unmarked_cong) (auto simp: begin_attempt_def Let_def case_prod_unfold split: option.split)
  then show ?thesis ..
next
  case (Inr previous)
  then show ?thesis
    by (auto simp: begin_attempt_def Let_def case_prod_unfold marked_def unmarked_def durable_kept_def split: option.split)
qed

lemma ending_marked:
  "marked s (snd (snd (snd (cancel_collective context i g a st reasons s)))) \<or>
   unmarked s (snd (snd (snd (cancel_collective context i g a st reasons s))))"
  "marked s (snd (snd (snd (retire_collective context i g a st reasons s)))) \<or>
   unmarked s (snd (snd (snd (retire_collective context i g a st reasons s))))"
  using set_state_refused [of i CollectiveState.kCancelled "ctx_now_monotonic_ms context" "svc_catalog s"]
    set_state_refused [of i CollectiveState.kRetired "ctx_now_monotonic_ms context" "svc_catalog s"]
  by (auto simp: cancel_collective_def retire_collective_def catalog_cancel_def catalog_retire_def Let_def case_prod_unfold
      marked_def unmarked_def durable_kept_def split: option.split)

lemma evidence_marked:
  "marked s (snd (snd (snd (ingest_topology context e gen reasons s)))) \<or>
   unmarked s (snd (snd (snd (ingest_topology context e gen reasons s))))"
  "marked s (snd (snd (snd (service_install_policy context p gen reasons s)))) \<or>
   unmarked s (snd (snd (snd (service_install_policy context p gen reasons s))))"
proof -
  let ?e = "e\<lparr>topo_generation := fst (stated_or_minted (topo_generation e) s)\<rparr>"
    and ?p = "p\<lparr>pol_generation := fst (stated_or_minted (pol_generation p) s)\<rparr>"
  show "marked s (snd (snd (snd (ingest_topology context e gen reasons s)))) \<or>
    unmarked s (snd (snd (snd (ingest_topology context e gen reasons s))))"
    using install_refused(2) [of ?e "svc_authority s"]
    by (cases "fst (install_topology ?e (svc_authority s))")
      (auto simp: ingest_topology_def Let_def case_prod_unfold marked_def unmarked_def durable_kept_def)
  show "marked s (snd (snd (snd (service_install_policy context p gen reasons s)))) \<or>
    unmarked s (snd (snd (snd (service_install_policy context p gen reasons s))))"
    using install_refused(1) [of ?p "svc_authority s"]
    by (cases "fst (install_policy ?p (svc_authority s))")
      (auto simp: service_install_policy_def Let_def case_prod_unfold marked_def unmarked_def durable_kept_def)
qed

lemma quiet_step:
  assumes "quiet op"
  shows "marked s (service_step s op) \<or> unmarked s (service_step s op)"
proof (cases op)
  case (OpRegister ctx d)
  then show ?thesis using register_marked by simp
next
  case (OpBeginAttempt ctx i g a bytes)
  then show ?thesis using attempt_marked by simp
next
  case (OpCancel ctx i g a)
  then show ?thesis using ending_marked(1) by simp
next
  case (OpRetire ctx i g a)
  then show ?thesis using ending_marked(2) by simp
next
  case (OpPlan ctx request)
  then show ?thesis using plan_unmarked by simp
next
  case (OpTopology ctx e)
  then show ?thesis using evidence_marked(1) by simp
next
  case (OpPolicy ctx p)
  then show ?thesis using evidence_marked(2) by simp
next
  case (OpValidateEnvelope view now)
  then show ?thesis
    by (intro disjI2 unmarked_cong) (simp_all add: validate_envelope_def check_session_state session_advanced_def Let_def)
qed (use assms in \<open>simp_all\<close>, (rule disjI2, rule unmarked_cong; simp add: service_defs sweep_parts durable_live durable_expire_all
    Let_def case_prod_unfold split: option.split InstallResult.split)+)

lemma quiet_run:
  assumes "list_all quiet ops"
  shows "\<exists>k\<le>length ops. svc_mutation_sequence (foldl service_step s ops) = svc_mutation_sequence s + of_nat k \<and>
    (k = 0 \<longrightarrow> durable_kept s (foldl service_step s ops)) \<and>
    (svc_persistence_dirty s \<longrightarrow> svc_persistence_dirty (foldl service_step s ops))"
  using assms
proof (induction ops arbitrary: s)
  case Nil
  then show ?case by (simp add: durable_kept_def)
next
  case (Cons op ops)
  let ?t = "service_step s op"
  from Cons obtain k where k: "k \<le> length ops" "svc_mutation_sequence (foldl service_step ?t ops) = svc_mutation_sequence ?t + of_nat k"
    "k = 0 \<longrightarrow> durable_kept ?t (foldl service_step ?t ops)"
    "svc_persistence_dirty ?t \<longrightarrow> svc_persistence_dirty (foldl service_step ?t ops)" by auto
  from Cons.prems quiet_step [of op s] consider "marked s ?t" | "unmarked s ?t" by auto
  then show ?case
  proof cases
    case 1
    with k show ?thesis by (intro exI [of _ "Suc k"]) (simp add: marked_def)
  next
    case 2
    with k durable_kept_trans [of s ?t] show ?thesis by (intro exI [of _ k]) (auto simp: unmarked_def)
  qed
qed

lemma of_nat_zero_u64: "k < 2 ^ 64 \<Longrightarrow> (of_nat k :: u64) = 0 \<longleftrightarrow> k = 0"
proof -
  assume "k < 2 ^ 64"
  then have "unat (of_nat k :: u64) = k" by (simp add: unat_of_nat)
  then show "(of_nat k :: u64) = 0 \<longleftrightarrow> k = 0" by force
qed

text \<open>The contents a flush captures, and what a saved file gives back.\<close>

lemma flush_begin_capture:
  assumes "flush_begin now s = (Inr (contents, path, captured), s')"
  shows "contents = snapshot_contents now s" "path = svc_persistence_path s" "path \<noteq> []" "svc_persistence_dirty s"
    "captured = svc_mutation_sequence s" "s' = s\<lparr>svc_last_flush_monotonic_ms := now\<rparr>"
  using assms by (auto simp: flush_begin_def split: if_splits)

lemma saved_loads:
  assumes "contents_ok c" "store_save io path c now fs = (status, states)" "is_ok status" "io_open reader" "io_read_limit reader = None"
  shows "store_load reader path (last states) = (LoadDisposition.kLoaded, [], Some (c\<lparr>sc_written_monotonic_ms := now\<rparr>))"
proof -
  from save_states(3) [OF assms(2,3)] obtain bytes where
    "path \<noteq> []" "encode_snapshot (c\<lparr>sc_written_monotonic_ms := now\<rparr>) = Inr bytes" "last states path = Some bytes" by blast
  then show ?thesis
    using assms(1,4,5) by (intro store_load_intact decode_encode_snapshot) (simp_all add: contents_ok_stamped)
qed

lemma snapshot_contents_ok:
  assumes "service_inv s" "response_wf (pol_congestion_response (policy_snapshot (svc_authority s)))"
    and "\<And>i r. catalog_find (svc_catalog s) i = Some r \<Longrightarrow> metadata_wf (def_metadata (crec_definition r))"
  shows "contents_ok (snapshot_contents now s)"
proof -
  have a: "authority_inv (svc_authority s)" and c: "catalog_inv (svc_catalog s)" using assms(1) by (simp_all add: service_inv_def)
  have "definition_fits (crec_definition r)" if "r \<in> set (export_all (svc_catalog s))" for r
  proof -
    have "idm_find (cat_records (svc_catalog s)) (record_id r) = Some r" using that by (simp add: export_records(1) [OF c])
    with assms(3) catalog_inv_record [OF c this] show ?thesis
      by (intro valid_definition_fits) (simp_all add: catalog_find_def record_ok_def)
  qed
  moreover have "policy_snapshot (svc_authority s) = TrafficPolicy_default" if "\<not> is_some (au_policy_generation (svc_authority s))"
    using policy_snapshot_eq [OF a] that by (metis option.simps(4) policy_snapshot_def)
  moreover have "topology_snapshot (svc_authority s) = TopologyEvidence_default" if "is_none (au_topology_generation (svc_authority s))"
    using topology_snapshot_eq [OF a] that by (metis is_some_def option.simps(4) topology_snapshot_def)
  ultimately show ?thesis
    using assms(2) durable_snapshot_ok [OF a]
    by (simp add: contents_ok_def snapshot_contents_def durable_snapshot_def list_all_iff Let_def)
qed

lemma restore_snapshot:
  assumes "authority_inv a" "au_policy b = None" "au_topology b = None" "au_policy_generation b = no_identity"
    "au_topology_generation b = no_identity"
  shows "is_ok (fst (restore_durable (durable_snapshot a) now b))"
    and "au_policy (snd (restore_durable (durable_snapshot a) now b)) = au_policy a"
    and "au_topology (snd (restore_durable (durable_snapshot a) now b)) = au_topology a"
    and "au_policy_generation (snd (restore_durable (durable_snapshot a) now b)) = au_policy_generation a"
    and "au_topology_generation (snd (restore_durable (durable_snapshot a) now b)) = au_topology_generation a"
    and "au_peers (snd (restore_durable (durable_snapshot a) now b)) = []"
    and "au_capacity (snd (restore_durable (durable_snapshot a) now b)) = None"
    and "au_congestion (snd (restore_durable (durable_snapshot a) now b)) = None"
    and "au_epoch (snd (restore_durable (durable_snapshot a) now b)) = au_epoch b"
proof -
  note ok = durable_snapshot_ok [OF assms(1)]
  have gen: "(if is_some g then g else no_identity) = g" for g by (simp add: is_some_def is_none_iff)
  show "is_ok (fst (restore_durable (durable_snapshot a) now b))" by (rule restore_accepted(1) [OF ok])
  show "au_policy (snd (restore_durable (durable_snapshot a) now b)) = au_policy a"
    "au_topology (snd (restore_durable (durable_snapshot a) now b)) = au_topology a"
    "au_policy_generation (snd (restore_durable (durable_snapshot a) now b)) = au_policy_generation a"
    "au_topology_generation (snd (restore_durable (durable_snapshot a) now b)) = au_topology_generation a"
    "au_peers (snd (restore_durable (durable_snapshot a) now b)) = []"
    "au_capacity (snd (restore_durable (durable_snapshot a) now b)) = None"
    "au_congestion (snd (restore_durable (durable_snapshot a) now b)) = None"
    "au_epoch (snd (restore_durable (durable_snapshot a) now b)) = au_epoch b"
    unfolding restore_accepted(2) [OF ok] using assms(2-5)
    by (simp_all add: durable_snapshot_def gen policy_snapshot_eq [OF assms(1), symmetric]
        topology_snapshot_eq [OF assms(1), symmetric] split del: if_split cong: if_cong)
qed

lemma started_authority:
  assumes "\<not> svc_running s"
  shows "au_policy (svc_authority (service_step s (OpStart now))) = au_policy (svc_authority s)"
    "au_topology (svc_authority (service_step s (OpStart now))) = au_topology (svc_authority s)"
    "au_policy_generation (svc_authority (service_step s (OpStart now))) = au_policy_generation (svc_authority s)"
    "au_topology_generation (svc_authority (service_step s (OpStart now))) = au_topology_generation (svc_authority s)"
    "svc_catalog (service_step s (OpStart now)) = svc_catalog s" "svc_sessions (service_step s (OpStart now)) = svc_sessions s"
  using assms
  by (simp_all add: service_start_def begin_boot_def invalidate_dynamic_evidence_def set_freshness_policy_def Let_def
      case_prod_unfold split: option.split)

lemma flush_settles:
  assumes "flush_begin now s = (Inr (contents, path, captured), s')" "list_all quiet ops" "length ops < 2 ^ 64"
    and "\<not> svc_persistence_dirty (flush_end status captured (foldl service_step s' ops))"
  shows "is_ok status \<and> durable_kept s (foldl service_step s' ops)"
proof -
  note cap = flush_begin_capture [OF assms(1)]
  have s': "svc_mutation_sequence s' = captured" "svc_persistence_dirty s'" "durable_kept s s'"
    using cap by (simp_all add: durable_kept_def)
  from quiet_run [OF assms(2), of s'] obtain k where k: "k \<le> length ops"
    "svc_mutation_sequence (foldl service_step s' ops) = captured + of_nat k"
    "k = 0 \<longrightarrow> durable_kept s' (foldl service_step s' ops)" "svc_persistence_dirty (foldl service_step s' ops)"
    using s'(1,2) by auto
  have "is_ok status" "captured + of_nat k = captured"
    using assms(4) k(2,4) by (auto simp: flush_end_def split: if_splits)
  moreover have "k < 2 ^ 64" using k(1) assms(3) by simp
  ultimately show ?thesis using k(3) of_nat_zero_u64 [of k] durable_kept_trans [OF s'(3)] by simp
qed

lemma kept_records:
  assumes "durable_kept s t" "catalog_find (svc_catalog t) i = Some r"
  obtains r0 where "catalog_find (svc_catalog s) i = Some r0" "without_activation r0 = without_activation r"
proof -
  have "map_option without_activation (catalog_find (svc_catalog s) i) = map_option without_activation (catalog_find (svc_catalog t) i)"
    using assms(1) by (simp add: durable_kept_def)
  with assms(2) that show thesis by auto
qed


section \<open>Properties of persistence\<close>


text \<open>A service with one collective that has not been written yet.\<close>

definition dirty_service :: CoordinatorService where
  "dirty_service = (CoordinatorService_new ServiceConfig_default \<lparr>ms_entropy = 0, ms_counter = 0\<rparr>)
     \<lparr>svc_catalog := (CollectiveCatalog_new (of_nat kCollectivesMaxLive))
        \<lparr>cat_records := [(Identity 1 1, sample_record)], cat_mutation_sequence := 1\<rparr>,
      svc_persistence_path := ''ctf'', svc_persistence_dirty := True, svc_mutation_sequence := 1\<rparr>"

definition good_io :: Io where
  "good_io = \<lparr>io_open = True, io_written = 1000, io_flush = True, io_close = True, io_rename = True, io_read_limit = None\<rparr>"

lemma dirty_service_inv: "service_inv dirty_service"
proof -
  have new: "service_inv (CoordinatorService_new ServiceConfig_default \<lparr>ms_entropy = 0, ms_counter = 0\<rparr>)"
    by (rule service_inv_new)
  have "catalog_inv (svc_catalog dirty_service)" "cat_capacity (svc_catalog dirty_service) = of_nat kCollectivesMaxLive"
    using sample_record_ok
    by (simp_all add: dirty_service_def catalog_inv_def CollectiveCatalog_new_def idm_wf_def idm_find_def idm_size_def
        kCollectivesMaxLive_def)
  with new show ?thesis by (simp add: service_inv_def sessions_inv_def dirty_service_def)
qed

lemma dirty_service_typed:
  "response_wf (pol_congestion_response (policy_snapshot (svc_authority dirty_service)))"
  "\<forall>i r. catalog_find (svc_catalog dirty_service) i = Some r \<longrightarrow> metadata_wf (def_metadata (crec_definition r))"
  by (simp_all add: dirty_service_def CoordinatorService_new_def AuthorityState_new_def policy_snapshot_def
      TrafficPolicy_default_def response_wf_def kBucketCount_def CongestionResponseTable_default_def catalog_find_def idm_find_def
      sample_record_def sample_definition_def CollectiveDefinition_default_def metadata_wf_def)

definition single_contents :: "u64 \<Rightarrow> CollectiveRecord \<Rightarrow> SnapshotContents" where
  "single_contents now r =
     \<lparr>sc_format_version = kSnapshotFormatVersion, sc_written_monotonic_ms = now,
      sc_authority = \<lparr>da_last_epoch = no_identity, da_policy_generation = no_identity, da_topology_generation = no_identity,
        da_topology = TopologyEvidence_default, da_policy = TrafficPolicy_default, da_restart_count = 0\<rparr>,
      sc_records = [r]\<rparr>"

lemma single_snapshot:
  assumes "svc_authority s = AuthorityState_new" "cat_records (svc_catalog s) = [(i, r)]"
  shows "snapshot_contents now s = single_contents now r"
  using assms by (simp add: snapshot_contents_def single_contents_def durable_snapshot_def AuthorityState_new_def
      topology_snapshot_def policy_snapshot_def export_all_def idm_values_def)

lemma dirty_contents: "snapshot_contents now dirty_service = single_contents now sample_record"
  by (rule single_snapshot) (simp_all add: dirty_service_def CoordinatorService_new_def)

lemma single_saves:
  assumes "crec_definition r = sample_definition CollectiveClass.kBroadcast" "crec_state r \<noteq> CollectiveState.kUnregistered"
  shows "is_ok (fst (store_save good_io ''ctf'' (single_contents now r) now fs))"
proof -
  let ?c = "single_contents now r"
  have c: "?c\<lparr>sc_written_monotonic_ms := now\<rparr> = ?c" by (simp add: single_contents_def)
  have size: "length (snapshot_payload ?c) \<le> 900"
    using assms(1)
    by (simp add: single_contents_def snapshot_payload_def put_list_def is_some_def is_none_def no_identity_def write_record_def
        write_definition_def sample_definition_def CollectiveDefinition_default_def Let_def scatter_members_def
        write_metadata_def put_text_def)
  have "is_ok (check_record r)"
    using assms by (simp add: check_record_def sample_definition_def scatter_members_def is_none_def
        kParticipantsMaxPerCollective_def)
  with size have "encode_snapshot ?c = Inr (snapshot_envelope now (snapshot_payload ?c) @ snapshot_payload ?c)"
    by (simp add: encode_snapshot_def Let_def single_contents_def is_some_def is_none_def no_identity_def
        kSnapshotBytesMax_def kSnapshotCollectivesMax_def)
  with size show ?thesis by (simp add: store_save_def c write_all_def good_io_def Let_def kEnvelopeBytes_def)
qed

lemma dirty_saves: "is_ok (fst (store_save good_io ''ctf'' (snapshot_contents now dirty_service) now fs))"
  unfolding dirty_contents by (rule single_saves) (simp_all add: sample_record_def)


text \<open>
  C16: A restart gives back every durable fact and nothing else. After a successful flush, a new process
  that starts and restores from the file has the same collectives, policy and topology, and no session,
  no participant and no capacity or congestion evidence.
\<close>

theorem restart_restores:
  assumes "service_inv s" "response_wf (pol_congestion_response (policy_snapshot (svc_authority s)))"
    and "\<forall>i r. catalog_find (svc_catalog s) i = Some r \<longrightarrow> metadata_wf (def_metadata (crec_definition r))"
    and "svc_persistence_dirty s" "flush io now s fs = (status, s', fs')" "is_ok status"
    and "io_open reader" "io_read_limit reader = None"
    and "fresh = service_step (CoordinatorService_new config ms) (OpStart now')"
  shows "\<exists>t. service_restore reader (svc_persistence_path s) later fs' fresh = (status_ok, LoadDisposition.kLoaded, t) \<and>
    (\<forall>i. catalog_find (svc_catalog t) i = catalog_find (svc_catalog s) i) \<and>
    au_policy (svc_authority t) = au_policy (svc_authority s) \<and>
    au_topology (svc_authority t) = au_topology (svc_authority s) \<and>
    svc_running t \<and> svc_sessions t = [] \<and> au_peers (svc_authority t) = [] \<and>
    au_capacity (svc_authority t) = None \<and> au_congestion (svc_authority t) = None"
proof -
  have a: "authority_inv (svc_authority s)" and c: "catalog_inv (svc_catalog s)"
    and cap: "cat_capacity (svc_catalog s) = of_nat kCollectivesMaxLive"
    using assms(1) by (simp_all add: service_inv_def)
  have path: "svc_persistence_path s \<noteq> []" using assms(5,6) by (auto simp: flush_def flush_begin_def finish_write_def)
  obtain states where save: "store_save io (svc_persistence_path s) (snapshot_contents now s) now fs = (status, states)"
    and fs': "fs' = last states"
    using assms(4,5) path
      that [of "snd (store_save io (svc_persistence_path s) (snapshot_contents now s) now fs)"]
    by (simp add: flush_def flush_begin_def finish_write_def Let_def case_prod_unfold prod_eq_iff)
  have "contents_ok (snapshot_contents now s)" using snapshot_contents_ok [OF assms(1,2)] assms(3) by blast
  from saved_loads [OF this save assms(6-8)] have load: "store_load reader (svc_persistence_path s) fs' =
      (LoadDisposition.kLoaded, [], Some (snapshot_contents now s))" by (simp add: fs' snapshot_contents_def)
  have off: "\<not> svc_running (CoordinatorService_new config ms)" by (simp add: CoordinatorService_new_def)
  have fresh: "au_policy (svc_authority fresh) = None" "au_topology (svc_authority fresh) = None"
    "au_policy_generation (svc_authority fresh) = no_identity" "au_topology_generation (svc_authority fresh) = no_identity"
    "cat_capacity (svc_catalog fresh) = of_nat kCollectivesMaxLive" "svc_sessions fresh = []"
    unfolding assms(9) started_authority [OF off]
    by (simp_all add: CoordinatorService_new_def AuthorityState_new_def CollectiveCatalog_new_def kCollectivesMaxLive_def)
  have running: "svc_running fresh" unfolding assms(9) by (rule start_runs(1) [OF off])
  note restored = restore_snapshot [OF a fresh(1-4)]
  obtain c' where c': "catalog_load (export_all (svc_catalog s)) (svc_catalog fresh) = (status_ok, c')"
    "\<forall>i. catalog_find c' i = catalog_find (svc_catalog s) i"
    using load_export [OF c, of "svc_catalog fresh"] fresh(5) cap by auto
  show ?thesis
    using restored [of later] c' fresh(6) running
    by (simp add: service_restore_def load Let_def case_prod_unfold snapshot_contents_def)
qed

theorem restart_restores_witness:
  "\<exists>t. service_restore good_io ''ctf'' 9 (snd (snd (flush good_io 5 dirty_service (\<lambda>_. None))))
       (service_step (CoordinatorService_new ServiceConfig_default \<lparr>ms_entropy = 1, ms_counter = 0\<rparr>) (OpStart 8)) =
       (status_ok, LoadDisposition.kLoaded, t) \<and>
     catalog_find (svc_catalog t) (Identity 1 1) = Some sample_record"
proof -
  obtain status s' fs' where f: "flush good_io 5 dirty_service (\<lambda>_. None) = (status, s', fs')" by (cases rule: prod_cases3)
  have dirty: "svc_persistence_dirty dirty_service" and path: "svc_persistence_path dirty_service = ''ctf''"
    by (simp_all add: dirty_service_def)
  have "is_ok status"
    using f dirty_saves [of 5 "\<lambda>_. None"] dirty path by (auto simp: flush_def flush_begin_def finish_write_def Let_def case_prod_unfold)
  moreover have "catalog_find (svc_catalog dirty_service) (Identity 1 1) = Some sample_record"
    by (simp add: dirty_service_def catalog_find_def idm_find_def)
  moreover have "io_open good_io" "io_read_limit good_io = None" by (simp_all add: good_io_def)
  ultimately show ?thesis
    using restart_restores [OF dirty_service_inv dirty_service_typed dirty f _ _ _ refl, of good_io 9 ServiceConfig_default
        "\<lparr>ms_entropy = 1, ms_counter = 0\<rparr>" 8]
    by (auto simp: path f)
qed

text \<open>
  C37: Two flushes that overlap can lose a change. The first captures the state, a collective is
  cancelled, the second flush captures, writes and settles, and then the write of the first one lands. The
  service is clean, so no later flush will write, but the file holds the collective as it was before the
  cancellation.
\<close>

theorem overlapping_flushes_lose:
  "let context = \<lparr>ctx_session = no_identity, ctx_incarnation = no_identity, ctx_epoch = no_identity,
         ctx_now_monotonic_ms = 6, ctx_correlation = 0\<rparr>;
       (first, s1) = flush_begin 5 dirty_service;
       s2 = service_step s1 (OpCancel context (Identity 1 1) (Identity 1 2) no_identity);
       (second, s3) = flush_begin 7 s2;
       (_, s4, fs) = finish_write good_io 7 (second, s3) (\<lambda>_. None);
       (_, t, fs') = finish_write good_io 5 (first, s4) fs
   in \<not> svc_persistence_dirty t \<and>
      map_option crec_state (catalog_find (svc_catalog t) (Identity 1 1)) = Some CollectiveState.kCancelled \<and>
      (\<exists>saved. store_load good_io ''ctf'' fs' = (LoadDisposition.kLoaded, [], Some saved) \<and>
         map crec_state (sc_records saved) = [CollectiveState.kRegistered])"
proof -
  let ?ctx = "\<lparr>ctx_session = no_identity, ctx_incarnation = no_identity, ctx_epoch = no_identity,
      ctx_now_monotonic_ms = 6, ctx_correlation = 0\<rparr> :: ServiceRequestContext"
  let ?s1 = "dirty_service\<lparr>svc_last_flush_monotonic_ms := 5\<rparr>"
  define s2 where "s2 = service_step ?s1 (OpCancel ?ctx (Identity 1 1) (Identity 1 2) no_identity)"
  define r where "r = sample_record\<lparr>crec_state := CollectiveState.kCancelled, crec_last_mutated_monotonic_ms := 6,
      crec_last_mutation_sequence := 2\<rparr>"
  have s2: "svc_authority s2 = AuthorityState_new" "cat_records (svc_catalog s2) = [(Identity 1 1, r)]"
    "svc_persistence_path s2 = ''ctf''" "svc_persistence_dirty s2" "svc_mutation_sequence s2 = 2"
    by (simp_all add: s2_def r_def dirty_service_def CoordinatorService_new_def cancel_collective_def catalog_find_def
        catalog_cancel_def catalog_set_state_def idm_find_def idm_store_def sample_record_def sample_definition_def
        CollectiveRecord_default_def collective_state_is_terminal_def Let_def is_some_def is_none_def no_identity_def)
  have r: "crec_definition r = sample_definition CollectiveClass.kBroadcast" "crec_state r = CollectiveState.kCancelled"
    by (simp_all add: r_def sample_record_def)
  have begin1: "flush_begin 5 dirty_service = (Inr (single_contents 5 sample_record, ''ctf'', 1), ?s1)"
    by (simp add: flush_begin_def dirty_contents) (simp add: dirty_service_def)
  have begin2: "flush_begin 7 s2 = (Inr (single_contents 7 r, ''ctf'', 2), s2\<lparr>svc_last_flush_monotonic_ms := 7\<rparr>)"
    using s2 single_snapshot [OF s2(1,2)] by (simp add: flush_begin_def)
  obtain states2 status2 where save2: "store_save good_io ''ctf'' (single_contents 7 r) 7 (\<lambda>_. None) = (status2, states2)" by fastforce
  have ok2: "is_ok status2" using single_saves [of r 7 "\<lambda>_. None"] r save2 by simp
  obtain states1 status1 where save1: "store_save good_io ''ctf'' (single_contents 5 sample_record) 5 (last states2) = (status1, states1)" by fastforce
  have ok1: "is_ok status1" using dirty_saves [of 5 "last states2"] save1 by (simp add: dirty_contents)
  have "contents_ok (single_contents 5 sample_record)"
    using snapshot_contents_ok [OF dirty_service_inv dirty_service_typed(1), of 5] dirty_service_typed(2) dirty_contents by metis
  from saved_loads [OF this save1 ok1, of good_io]
  have load: "store_load good_io ''ctf'' (last states1) = (LoadDisposition.kLoaded, [], Some (single_contents 5 sample_record))"
    by (simp add: good_io_def single_contents_def)
  have t: "flush_end status1 1 (flush_end status2 2 (s2\<lparr>svc_last_flush_monotonic_ms := 7\<rparr>)) =
      count cnt_persists_update (count cnt_persists_update (s2\<lparr>svc_last_flush_monotonic_ms := 7, svc_persistence_dirty := False\<rparr>))"
    using ok1 ok2 s2(5) by (simp add: flush_end_def)
  have registered: "map crec_state (sc_records (single_contents 5 sample_record)) = [CollectiveState.kRegistered]"
    by (simp add: single_contents_def sample_record_def)
  show ?thesis
    unfolding begin1 Let_def prod.case s2_def [symmetric] begin2
    using registered by (simp add: finish_write_def save2 save1 t load s2(2) r catalog_find_def idm_find_def)
qed

end
