(* ===== verification/CTF_Transport.thy ===== *)
theory CTF_Transport
  imports CTF_Frame
begin

text \<open>
  The transport (include/ctf/transport.hpp, src/transport.cpp): cutting a byte stream into frames, writing
  frames out, the loop of a session thread, and the table of live sessions of a server.

  What the operating system answers is a parameter: one \<open>RecvAnswer\<close> for every wait and \<^verbatim>\<open>recv\<close>, one
  \<open>SendAnswer\<close> for every \<^verbatim>\<open>send\<close>, and \<open>ListenAnswers\<close> for the calls of \<^verbatim>\<open>listen\<close>. A receive that needs more
  answers than it is given is still waiting: \<open>None\<close>. A descriptor is its number, and the calls that close it
  are recorded. Socket options and the joining of threads are not modelled.
\<close>

section \<open>Sockets\<close>

text \<open>A descriptor is the integer the system gave out, \<open>-1\<close> when there is none.\<close>

definition kInvalidSocket :: int where "kInvalidSocket = -1"

record Socket =
  sk_handle :: int
  sk_closed :: bool
  sk_released :: bool

definition Socket_new :: "int \<Rightarrow> Socket" where
  "Socket_new handle = \<lparr>sk_handle = handle, sk_closed = False, sk_released = False\<rparr>"

text \<open>The descriptors handed to the system's \<^verbatim>\<open>close\<close>.\<close>

definition close_native :: "int \<Rightarrow> int list" where
  "close_native socket = (if socket = kInvalidSocket then [] else [socket])"

definition is_open :: "Socket option \<Rightarrow> bool" where
  "is_open socket =
     (case socket of None \<Rightarrow> False | Some s \<Rightarrow> \<not> sk_closed s \<and> sk_handle s \<noteq> kInvalidSocket)"

definition release_for_teardown :: "Socket \<Rightarrow> Socket \<times> int list" where
  "release_for_teardown socket =
     (if sk_released socket then (socket, [])
      else (socket\<lparr>sk_released := True, sk_closed := True, sk_handle := kInvalidSocket\<rparr>,
            close_native (sk_handle socket)))"

text \<open>The descriptor \<^verbatim>\<open>shutdown_socket\<close> shuts down without closing it.\<close>

definition shutdown_socket :: "Socket \<Rightarrow> int list" where
  "shutdown_socket socket =
     (if sk_released socket \<or> sk_handle socket = kInvalidSocket then [] else [sk_handle socket])"

definition Socket_destroy :: "Socket \<Rightarrow> int list" where
  "Socket_destroy socket = (if sk_released socket then [] else close_native (sk_handle socket))"

text \<open>Everything closed by a number of teardowns followed by the destructor.\<close>

fun closed_descriptors :: "nat \<Rightarrow> Socket \<Rightarrow> int list" where
  "closed_descriptors 0 socket = Socket_destroy socket"
| "closed_descriptors (Suc teardowns) socket =
     (case release_for_teardown socket of (socket', closed) \<Rightarrow> closed @ closed_descriptors teardowns socket')"


section \<open>Connecting\<close>

text \<open>The system's parser of address literals is a parameter; addresses and ports are in host order.\<close>

definition kLoopback :: u32 where "kLoopback = 0x7F000001"

record Endpoint =
  ep_host :: string
  ep_port :: u16

definition Endpoint_default :: Endpoint where
  "Endpoint_default = \<lparr>ep_host = ''127.0.0.1'', ep_port = 0\<rparr>"

definition fill_sockaddr :: "(string \<Rightarrow> u32 option) \<Rightarrow> Endpoint \<Rightarrow> (u32 \<times> u16) option" where
  "fill_sockaddr inet_pton endpoint =
     (if ep_host endpoint = [] then Some (kLoopback, ep_port endpoint)
      else map_option (\<lambda>address. (address, ep_port endpoint)) (inet_pton (ep_host endpoint)))"

record ConnectAnswers =
  ca_runtime_ready :: bool
  ca_inet_pton :: "string \<Rightarrow> u32 option"
  ca_socket :: int
  ca_connect :: "u32 \<times> u16 \<Rightarrow> bool"
  ca_local_port :: "u16 option"

record Connection =
  cn_socket :: Socket
  cn_peer :: Endpoint
  cn_local :: Endpoint

definition connect_to :: "ConnectAnswers \<Rightarrow> Endpoint \<Rightarrow> Status + Connection" where
  "connect_to os endpoint =
     (if \<not> ca_runtime_ready os
      then Inl (Status ErrorCode_kTransportSocketFailed ''the socket runtime is unavailable'')
      else
        case fill_sockaddr (ca_inet_pton os) endpoint of
          None \<Rightarrow> Inl (Status ErrorCode_kTransportAddressInvalid ''endpoint host is not a valid IPv4 literal'')
        | Some address \<Rightarrow>
            if ca_socket os = kInvalidSocket
            then Inl (Status ErrorCode_kTransportSocketFailed ''cannot create a client socket'')
            else if \<not> ca_connect os address
            then Inl (Status ErrorCode_kTransportConnectFailed
                        (''cannot connect to '' @ ep_host endpoint @ '':'' @ decimal (ucast (ep_port endpoint))))
            else Inr
              \<lparr>cn_socket = Socket_new (ca_socket os), cn_peer = endpoint,
               cn_local = (case ca_local_port os of
                             None \<Rightarrow> Endpoint_default
                           | Some port \<Rightarrow> \<lparr>ep_host = ep_host endpoint, ep_port = port\<rparr>)\<rparr>)"


text \<open>The port the system gave to a socket that is closed again, and the descriptors that were closed.\<close>

definition reserve_ephemeral_port ::
  "bool \<Rightarrow> int \<Rightarrow> bool \<Rightarrow> u16 option \<Rightarrow> (Status + u16) \<times> int list" where
  "reserve_ephemeral_port runtime_ready socket bound local_port =
     (if \<not> runtime_ready
      then (Inl (Status ErrorCode_kTransportSocketFailed ''the socket runtime is unavailable''), [])
      else if socket = kInvalidSocket
      then (Inl (Status ErrorCode_kTransportSocketFailed ''cannot create a socket to reserve a port''), [])
      else if \<not> bound
      then (Inl (Status ErrorCode_kTransportBindFailed ''cannot bind a loopback socket to reserve a port''),
            close_native socket)
      else
        case local_port of
          None \<Rightarrow>
            (Inl (Status ErrorCode_kTransportAddressInvalid ''cannot read back the reserved port''), close_native socket)
        | Some out_port \<Rightarrow> (Inr out_port, close_native socket))"

text \<open>Waiting, with the answer of \<^verbatim>\<open>select\<close>.\<close>

definition wait_ready :: "bool \<Rightarrow> int \<Rightarrow> bool" where
  "wait_ready ready socket = (if socket = kInvalidSocket then False else ready)"

definition wait_readable :: "bool \<Rightarrow> Socket option \<Rightarrow> bool" where
  "wait_readable ready socket =
     (case socket of None \<Rightarrow> False | Some s \<Rightarrow> if sk_closed s then False else wait_ready ready (sk_handle s))"

definition wait_writable :: "bool \<Rightarrow> Socket option \<Rightarrow> bool" where
  "wait_writable ready socket =
     (case socket of None \<Rightarrow> False | Some s \<Rightarrow> if sk_closed s then False else wait_ready ready (sk_handle s))"


section \<open>Connections\<close>

definition kIoBufferBytes :: nat where "kIoBufferBytes = 65536"
definition kBacklogMax :: nat where "kBacklogMax = 64"

text \<open>
  \<open>Shut\<close>: the socket was already closed. \<open>Interrupted\<close>: it was closed while waiting. \<open>Quiet\<close>: nothing arrived
  within the poll interval. \<open>EndOfStream\<close>: \<^verbatim>\<open>recv\<close> returned 0. \<open>RecvFailed\<close>: it returned a negative number and
  set \<^verbatim>\<open>errno\<close>.
\<close>

datatype RecvAnswer =
    Received "u8 list"
  | Shut
  | Interrupted
  | Quiet
  | EndOfStream
  | RecvFailed u64

definition last_socket_error :: "string \<Rightarrow> u64 \<Rightarrow> Status" where
  "last_socket_error what code =
     Status ErrorCode_kTransportReceiveFailed (what @ '' failed with errno '' @ decimal code)"

fun receive_raw :: "RecvAnswer \<Rightarrow> Status + u8 list" where
  "receive_raw Shut = Inl (Status ErrorCode_kTransportClosed ''connection is closed'')"
| "receive_raw Interrupted =
     Inl (Status ErrorCode_kTransportClosed ''connection was shut down while waiting to read'')"
| "receive_raw Quiet = Inl (Status ErrorCode_kTransportTimeout ''no bytes arrived within the poll interval'')"
| "receive_raw EndOfStream = Inl (Status ErrorCode_kTransportClosed ''peer closed the connection'')"
| "receive_raw (RecvFailed code) = Inl (last_socket_error ''recv'' code)"
| "receive_raw (Received bytes) = Inr bytes"

text \<open>The first half of the loop: what the buffer already holds. \<open>None\<close> asks for more bytes.\<close>

definition buffered_frame :: "u8 list \<Rightarrow> (Status + Frame \<times> u8 list) option" where
  "buffered_frame read_buffer =
     (if read_buffer = [] then None
      else
        case decode_frame read_buffer of
          Inr (frame, consumed) \<Rightarrow> Some (Inr (frame, drop consumed read_buffer))
        | Inl status \<Rightarrow>
            if status_code status \<noteq> ErrorCode_kFrameTruncatedHeader \<and>
               status_code status \<noteq> ErrorCode_kFrameTruncatedPayload
            then Some (Inl status) else None)"

text \<open>The result, the buffer that remains, and the answers not yet asked for.\<close>

fun receive_frame ::
  "nat \<Rightarrow> RecvAnswer list \<Rightarrow> u8 list \<Rightarrow> ((Status + Frame) \<times> u8 list \<times> RecvAnswer list) option" where
  "receive_frame read_capacity answers read_buffer =
     (case buffered_frame read_buffer of
        Some (Inr (frame, rest)) \<Rightarrow> Some (Inr frame, rest, answers)
      | Some (Inl status) \<Rightarrow> Some (Inl status, read_buffer, answers)
      | None \<Rightarrow>
          if length read_buffer \<ge> read_capacity + kFramePayloadMaxBytes + kHeaderBytes
          then Some (Inl (Status ErrorCode_kFrameLengthOutOfRange
                            ''receive buffer exceeded its bound without a frame''), read_buffer, answers)
          else
            case answers of
              [] \<Rightarrow> None
            | answer # later \<Rightarrow>
                case receive_raw answer of
                  Inr chunk \<Rightarrow> receive_frame read_capacity later (read_buffer @ chunk)
                | Inl status \<Rightarrow>
                    if status_code status = ErrorCode_kTransportTimeout
                    then receive_frame read_capacity later read_buffer
                    else if status_code status = ErrorCode_kTransportClosed \<and> read_buffer \<noteq> []
                    then Some (Inl (Status ErrorCode_kFrameTruncatedPayload
                                      ''peer closed the connection mid frame''), read_buffer, later)
                    else Some (Inl status, read_buffer, later))"

declare receive_frame.simps [simp del]

text \<open>
  Every \<^verbatim>\<open>send\<close> is offered at most \<open>kSendChunkBytes\<close> and answers how many bytes it took, and \<^verbatim>\<open>errno\<close>. The
  result is the status and what the system has taken. \<open>answers n\<close> is the answer to the n-th \<^verbatim>\<open>send\<close> of the call.
\<close>

definition kSendChunkBytes :: nat where "kSendChunkBytes = 1048576"

datatype SendAnswer = SendAnswer (written: int) (sent_errno: u64)

function send_bytes :: "(nat \<Rightarrow> SendAnswer) \<Rightarrow> u8 list \<Rightarrow> Status \<times> u8 list" where
  "send_bytes answers data =
     (if data = [] then (status_ok, [])
      else
        let chunk = take (min (length data) kSendChunkBytes) data; taken = written (answers 0) in
        if taken \<le> 0 then (last_socket_error ''send'' (sent_errno (answers 0)), [])
        else
          let (status, rest) = send_bytes (\<lambda>n. answers (Suc n)) (drop (nat taken) data)
          in (status, take (nat taken) chunk @ rest))"
  by pat_completeness auto

termination
  by (relation "measure (length \<circ> snd)") auto

declare send_bytes.simps [simp del]

definition send_raw :: "Socket option \<Rightarrow> (nat \<Rightarrow> SendAnswer) \<Rightarrow> u8 list \<Rightarrow> Status \<times> u8 list" where
  "send_raw socket answers data =
     (case socket of
        None \<Rightarrow> (Status ErrorCode_kTransportNotStarted ''connection is not open'', [])
      | Some s \<Rightarrow>
          if sk_closed s then (Status ErrorCode_kTransportClosed ''connection is closed'', [])
          else send_bytes answers data)"

definition send_frame :: "Socket option \<Rightarrow> (nat \<Rightarrow> SendAnswer) \<Rightarrow> Frame \<Rightarrow> Status \<times> u8 list" where
  "send_frame socket answers frame =
     (case encode_frame frame of
        Inl status \<Rightarrow> (status, [])
      | Inr bytes \<Rightarrow> send_raw socket answers bytes)"


section \<open>Sessions of a server\<close>

text \<open>What a session thread calls on its handler. \<open>running\<close> are the values of the running flag it reads.\<close>

datatype HandlerCall = OnOpen | OnFrame Frame | OnClose Status

fun session_frames :: "nat \<Rightarrow> bool list \<Rightarrow> RecvAnswer list \<Rightarrow> u8 list \<Rightarrow> HandlerCall list" where
  "session_frames read_capacity [] answers read_buffer = []"
| "session_frames read_capacity (running # later) answers read_buffer =
     (if \<not> running then [OnClose (Status ErrorCode_kTransportClosed ''the server is shutting down'')]
      else
        case receive_frame read_capacity answers read_buffer of
          None \<Rightarrow> []
        | Some (Inr frame, rest, answers') \<Rightarrow> OnFrame frame # session_frames read_capacity later answers' rest
        | Some (Inl status, rest, answers') \<Rightarrow>
            if status_code status = ErrorCode_kTransportTimeout
            then session_frames read_capacity later answers' rest
            else [OnClose status])"

definition session_loop :: "nat \<Rightarrow> bool list \<Rightarrow> RecvAnswer list \<Rightarrow> HandlerCall list" where
  "session_loop read_capacity running answers = OnOpen # session_frames read_capacity running answers []"

record ServerConfig =
  tsc_bind_host :: string
  tsc_port :: u16
  tsc_max_sessions :: nat
  tsc_read_buffer_bytes :: nat
  tsc_backlog :: int
  tsc_reuse_address :: bool

definition ServerConfig_default :: ServerConfig where
  "ServerConfig_default =
     \<lparr>tsc_bind_host = ''127.0.0.1'', tsc_port = 0, tsc_max_sessions = kSessionsMax,
      tsc_read_buffer_bytes = kIoBufferBytes, tsc_backlog = int kBacklogMax, tsc_reuse_address = True\<rparr>"

record Server =
  ts_config :: ServerConfig
  ts_running :: bool
  ts_listener :: bool
  ts_live :: "nat list"
  ts_accepted_total :: u64
  ts_rejected_total :: u64

definition Server_new :: Server where
  "Server_new = \<lparr>ts_config = ServerConfig_default, ts_running = False, ts_listener = False, ts_live = [],
     ts_accepted_total = 0, ts_rejected_total = 0\<rparr>"

record ListenAnswers =
  la_runtime_ready :: bool
  la_inet_pton :: "string \<Rightarrow> u32 option"
  la_socket :: bool
  la_bind :: bool
  la_listen :: bool
  la_thread :: "string option"

definition clamp_server_config :: "ServerConfig \<Rightarrow> ServerConfig" where
  "clamp_server_config config =
     config\<lparr>tsc_max_sessions := (if tsc_max_sessions config = 0 then 1
                             else if tsc_max_sessions config > kSessionsMax then kSessionsMax
                             else tsc_max_sessions config),
            tsc_backlog := (if tsc_backlog config \<le> 0 then 1 else tsc_backlog config)\<rparr>"

definition listen :: "ListenAnswers \<Rightarrow> ServerConfig \<Rightarrow> Server \<Rightarrow> Status \<times> Server" where
  "listen os config server =
     (if \<not> la_runtime_ready os
      then (Status ErrorCode_kTransportSocketFailed ''the socket runtime is unavailable'', server)
      else if ts_running server
      then (Status ErrorCode_kStateDuplicateRegistration ''the server is already listening'', server)
      else
        let configured = server\<lparr>ts_config := clamp_server_config config\<rparr>;
            started = configured\<lparr>ts_listener := True, ts_live := [], ts_accepted_total := 0, ts_rejected_total := 0,
                                 ts_running := True\<rparr>
        in
        if fill_sockaddr (la_inet_pton os) \<lparr>ep_host = tsc_bind_host config, ep_port = tsc_port config\<rparr> = None
        then (Status ErrorCode_kTransportAddressInvalid ''bind host is not a valid IPv4 literal'', configured)
        else if \<not> la_socket os
        then (Status ErrorCode_kTransportSocketFailed ''cannot create a listening socket'', configured)
        else if \<not> la_bind os
        then (Status ErrorCode_kTransportBindFailed
                (''cannot bind '' @ tsc_bind_host config @ '':'' @ decimal (ucast (tsc_port config))), configured)
        else if \<not> la_listen os
        then (Status ErrorCode_kTransportListenFailed ''cannot listen on the bound socket'', configured)
        else
          case la_thread os of
            None \<Rightarrow> (status_ok, started)
          | Some what \<Rightarrow>
              (Status ErrorCode_kTransportSocketFailed (''cannot start the acceptor thread: '' @ what),
               started\<lparr>ts_running := False, ts_listener := False\<rparr>))"

text \<open>One accepted socket in \<^verbatim>\<open>accept_loop\<close>; the number stands for the new connection object.\<close>

definition accept_one :: "nat \<Rightarrow> Server \<Rightarrow> bool \<times> Server" where
  "accept_one connection server =
     (if \<not> ts_running server \<or> \<not> ts_listener server then (False, server)
      else if length (ts_live server) \<ge> tsc_max_sessions (ts_config server)
      then (False, server\<lparr>ts_rejected_total := ts_rejected_total server + 1\<rparr>)
      else (True, server\<lparr>ts_live := ts_live server @ [connection],
                         ts_accepted_total := ts_accepted_total server + 1\<rparr>))"

definition session_end :: "nat \<Rightarrow> Server \<Rightarrow> Server" where
  "session_end connection server = server\<lparr>ts_live := filter (\<lambda>candidate. candidate \<noteq> connection) (ts_live server)\<rparr>"

definition server_shutdown :: "Server \<Rightarrow> Server" where
  "server_shutdown server =
     (if \<not> ts_running server then server\<lparr>ts_listener := False\<rparr>
      else server\<lparr>ts_running := False, ts_listener := False, ts_live := []\<rparr>)"

definition bound_port :: "u16 option \<Rightarrow> Server \<Rightarrow> u16" where
  "bound_port local_port server =
     (if \<not> ts_listener server then 0 else case local_port of None \<Rightarrow> 0 | Some port \<Rightarrow> port)"

definition server_session_count :: "Server \<Rightarrow> nat" where
  "server_session_count server = length (ts_live server)"


section \<open>Reassembly\<close>

text \<open>Answers that carry data, and the bytes they carry.\<close>

fun data_answer :: "RecvAnswer \<Rightarrow> bool" where
  "data_answer (Received bytes) = (bytes \<noteq> [])"
| "data_answer Quiet = True"
| "data_answer _ = False"

fun answer_bytes :: "RecvAnswer \<Rightarrow> u8 list" where
  "answer_bytes (Received bytes) = bytes"
| "answer_bytes _ = []"

definition arrived :: "RecvAnswer list \<Rightarrow> u8 list" where
  "arrived answers = concat (map answer_bytes answers)"

lemma arrived_simps [simp]: "arrived [] = []" "arrived (a # answers) = answer_bytes a @ arrived answers"
  by (simp_all add: arrived_def)

lemma frame_bytes_nonempty [simp]: "frame_bytes f \<noteq> []"
  using length_frame_bytes [of f] by (metis add_is_0 list.size(3) zero_neq_numeral)

lemma buffered_complete:
  assumes "frame_ok f"
  shows "buffered_frame (frame_bytes f @ rest) = Some (Inr (f, rest))"
  using decode_frame_bytes [OF assms, of rest] by (simp add: buffered_frame_def)

lemma buffered_incomplete:
  assumes "frame_ok f" "frame_bytes f = buffer @ rest" "rest \<noteq> []"
  shows "buffered_frame buffer = None" "length buffer < 48 + kFramePayloadMaxBytes + kHeaderBytes"
proof -
  have len: "length buffer + length rest = 92 + length (fr_payload f)" using assms(2) by (metis length_append length_frame_bytes)
  have k: "length buffer < length (frame_bytes f)" using assms(2,3) by simp
  have "take (length buffer) (frame_bytes f) = buffer" by (simp add: assms(2))
  with decode_frame_prefix [of f, OF _ k] assms(1)
  have "buffer \<noteq> [] \<Longrightarrow> decode_frame buffer = Inl (if length buffer < kHeaderBytes
      then Status ErrorCode_kFrameTruncatedHeader ''frame header is incomplete''
      else Status ErrorCode_kFrameTruncatedPayload ''frame body is incomplete'')"
    by (simp add: encode_frame_iff)
  then show "buffered_frame buffer = None" by (simp add: buffered_frame_def)
  show "length buffer < 48 + kFramePayloadMaxBytes + kHeaderBytes"
    using len assms(1,3) by (cases rest) (simp_all add: frame_ok_def kHeaderBytes_def)
qed

lemma prefix_split:
  assumes "buffer @ later = frame @ rest"
  obtains more where "buffer = frame @ more" "rest = more @ later"
    | missing where "missing \<noteq> []" "frame = buffer @ missing" "later = missing @ rest"
proof -
  from assms obtain us where "buffer = frame @ us \<and> us @ later = rest \<or> buffer @ us = frame \<and> later = us @ rest"
    by (auto simp: append_eq_append_conv2)
  then show ?thesis using that by (cases "us = []") auto
qed

lemma receive_next:
  assumes "frame_ok f" "48 \<le> cap" "list_all data_answer answers" "buffer @ arrived answers = frame_bytes f @ rest"
  shows "\<exists>answers' buffer'. receive_frame cap (answers @ ends) buffer = Some (Inr f, buffer', answers' @ ends) \<and>
    list_all data_answer answers' \<and> buffer' @ arrived answers' = rest"
  using assms(3,4)
proof (induction answers arbitrary: buffer)
  case Nil
  then have "buffered_frame buffer = Some (Inr (f, rest))" using buffered_complete [OF assms(1)] by simp
  then show ?case by (subst receive_frame.simps) (auto intro: exI [of _ "[]"])
next
  case (Cons a answers)
  from Cons.prems(2) show ?case
  proof (rule prefix_split)
    fix more
    assume "buffer = frame_bytes f @ more" "rest = more @ arrived (a # answers)"
    then show ?thesis using buffered_complete [OF assms(1)] Cons.prems(1)
      by (subst receive_frame.simps) (auto intro!: exI [of _ "a # answers"])
  next
    fix missing
    assume m: "missing \<noteq> []" "frame_bytes f = buffer @ missing" "arrived (a # answers) = missing @ rest"
    have "(buffer @ answer_bytes a) @ arrived answers = frame_bytes f @ rest" using m by simp
    from Cons.IH [OF _ this] Cons.prems(1) obtain answers' buffer' where
      ih: "receive_frame cap (answers @ ends) (buffer @ answer_bytes a) = Some (Inr f, buffer', answers' @ ends)"
        "list_all data_answer answers'" "buffer' @ arrived answers' = rest" by auto
    have "receive_frame cap ((a # answers) @ ends) buffer = receive_frame cap (answers @ ends) (buffer @ answer_bytes a)"
      using buffered_incomplete [OF assms(1) m(2,1)] Cons.prems(1) assms(2)
      by (subst receive_frame.simps) (cases a; simp)
    with ih show ?thesis by auto
  qed
qed

lemma receive_last:
  assumes "frame_ok g" "48 \<le> cap" "list_all data_answer answers" "frame_bytes g = buffer @ arrived answers @ missing" "missing \<noteq> []"
  shows "\<exists>buffer'. receive_frame cap (answers @ [EndOfStream]) buffer =
    Some (Inl (if buffer @ arrived answers = [] then Status ErrorCode_kTransportClosed ''peer closed the connection''
               else Status ErrorCode_kFrameTruncatedPayload ''peer closed the connection mid frame''), buffer', [])"
  using assms(3,4)
proof (induction answers arbitrary: buffer)
  case Nil
  then have "buffered_frame buffer = None" "length buffer < 48 + kFramePayloadMaxBytes + kHeaderBytes"
    using buffered_incomplete [OF assms(1) _ assms(5)] by auto
  with assms(2) show ?case by (subst receive_frame.simps) simp
next
  case (Cons a answers)
  have inc: "buffered_frame buffer = None" "length buffer < 48 + kFramePayloadMaxBytes + kHeaderBytes"
    using buffered_incomplete [OF assms(1) Cons.prems(2)] assms(5) by auto
  have "receive_frame cap ((a # answers) @ [EndOfStream]) buffer =
      receive_frame cap (answers @ [EndOfStream]) (buffer @ answer_bytes a)"
    using inc Cons.prems(1) assms(2) by (subst receive_frame.simps) (cases a; simp)
  with Cons.IH [of "buffer @ answer_bytes a"] Cons.prems show ?case by simp
qed

lemma session_delivers:
  assumes "list_all frame_ok frames" "frame_ok g" "48 \<le> cap" "list_all data_answer answers" "missing \<noteq> []"
    and "buffer @ arrived answers = concat (map frame_bytes frames) @ partial" "frame_bytes g = partial @ missing"
  shows "session_frames cap (replicate (Suc (length frames)) True) (answers @ [EndOfStream]) buffer =
    map OnFrame frames @
    [OnClose (if partial = [] then Status ErrorCode_kTransportClosed ''peer closed the connection''
              else Status ErrorCode_kFrameTruncatedPayload ''peer closed the connection mid frame'')]"
  using assms(1,4,6)
proof (induction frames arbitrary: answers buffer)
  case Nil
  then have "frame_bytes g = buffer @ arrived answers @ missing" using assms(7) by simp
  from receive_last [OF assms(2,3) Nil.prems(2) this assms(5)] Nil.prems(3) obtain buffer' where
    "receive_frame cap (answers @ [EndOfStream]) buffer =
       Some (Inl (if partial = [] then Status ErrorCode_kTransportClosed ''peer closed the connection''
                  else Status ErrorCode_kFrameTruncatedPayload ''peer closed the connection mid frame''), buffer', [])"
    by (auto simp: append_eq_conv_conj)
  then show ?case by simp
next
  case (Cons f frames)
  have ok: "frame_ok f" using Cons.prems(1) by simp
  have "buffer @ arrived answers = frame_bytes f @ (concat (map frame_bytes frames) @ partial)" using Cons.prems(3) by simp
  from receive_next [OF ok assms(3) Cons.prems(2) this, of "[EndOfStream]"] obtain answers' buffer' where
    r: "receive_frame cap (answers @ [EndOfStream]) buffer = Some (Inr f, buffer', answers' @ [EndOfStream])"
      "list_all data_answer answers'" "buffer' @ arrived answers' = concat (map frame_bytes frames) @ partial" by blast
  show ?case using Cons.IH [OF _ r(2,3)] Cons.prems(1) r(1) by simp
qed

text \<open>
  What a write hands over: a prefix of the data, and all of it exactly when it succeeds. The system never takes
  more than it was offered, which the bound on the answers says.
\<close>

definition system_sends :: "(nat \<Rightarrow> SendAnswer) \<Rightarrow> bool" where
  "system_sends answers = (\<forall>n. written (answers n) \<le> int kSendChunkBytes)"

lemma socket_error_not_ok [simp]: "\<not> is_ok (last_socket_error what code)"
  by (simp add: last_socket_error_def)

lemma encode_frame_fails: "encode_frame f = Inl status \<Longrightarrow> \<not> is_ok status"
  by (auto simp: encode_frame_def Let_def split: if_splits)

lemma send_bytes_prefix:
  "system_sends answers \<Longrightarrow> send_bytes answers data = (status, taken) \<Longrightarrow>
   \<exists>missing. data = taken @ missing \<and> (is_ok status \<longleftrightarrow> missing = [])"
proof (induction answers data arbitrary: status taken rule: send_bytes.induct)
  case (1 answers data)
  let ?n = "written (answers 0)" and ?later = "\<lambda>n. answers (Suc n)"
  show ?case
  proof (cases "data = [] \<or> ?n \<le> 0")
    case True
    then show ?thesis using "1.prems"(2) by (auto simp: send_bytes.simps [of answers] Let_def split: if_splits)
  next
    case False
    have small: "nat ?n \<le> kSendChunkBytes" "system_sends ?later"
      using "1.prems"(1) by (simp_all add: system_sends_def nat_le_iff)
    obtain rest where rest: "send_bytes ?later (drop (nat ?n) data) = (status, rest)"
      "taken = take (nat ?n) (take (min (length data) kSendChunkBytes) data) @ rest"
      using "1.prems"(2) False by (auto simp: send_bytes.simps [of answers] Let_def split: prod.splits)
    have "taken = take (nat ?n) data @ rest" using rest(2) small(1) by (simp add: min_def)
    moreover obtain missing where "drop (nat ?n) data = rest @ missing" "is_ok status \<longleftrightarrow> missing = []"
      using "1.IH" [OF _ refl refl _ small(2) rest(1)] False by auto
    ultimately show ?thesis by (metis append.assoc append_take_drop_id)
  qed
qed

lemma send_frame_prefix:
  assumes "send_frame socket answers f = (status, taken)" "system_sends answers"
  shows "is_ok status \<Longrightarrow> frame_ok f \<and> taken = frame_bytes f"
    and "\<not> is_ok status \<Longrightarrow> taken = [] \<or> frame_ok f \<and> (\<exists>missing. missing \<noteq> [] \<and> frame_bytes f = taken @ missing)"
proof -
  have "(is_ok status \<longrightarrow> frame_ok f \<and> taken = frame_bytes f) \<and>
    (\<not> is_ok status \<longrightarrow> taken = [] \<or> frame_ok f \<and> (\<exists>missing. missing \<noteq> [] \<and> frame_bytes f = taken @ missing))"
  proof (cases "encode_frame f")
    case (Inl failure)
    then have "\<not> is_ok failure" by (rule encode_frame_fails)
    with Inl assms(1) show ?thesis by (simp add: send_frame_def)
  next
    case (Inr bytes)
    then have bytes: "frame_ok f" "bytes = frame_bytes f" by (simp_all add: encode_frame_iff)
    with Inr assms(1) have sent: "send_raw socket answers (frame_bytes f) = (status, taken)" by (simp add: send_frame_def)
    show ?thesis
    proof (cases "\<exists>s. socket = Some s \<and> \<not> sk_closed s")
      case True
      then have "send_bytes answers (frame_bytes f) = (status, taken)" using sent by (auto simp: send_raw_def)
      from send_bytes_prefix [OF assms(2) this] bytes(1) show ?thesis by fastforce
    next
      case False
      then show ?thesis using sent by (auto simp: send_raw_def split: option.splits)
    qed
  qed
  then show "is_ok status \<Longrightarrow> frame_ok f \<and> taken = frame_bytes f"
    "\<not> is_ok status \<Longrightarrow> taken = [] \<or> frame_ok f \<and> (\<exists>missing. missing \<noteq> [] \<and> frame_bytes f = taken @ missing)"
    by simp_all
qed

text \<open>
  One end's frames against what the system took of them: every frame was sent with success, then possibly one
  more whose sending failed part of the way.
\<close>

definition sent_as :: "Frame \<Rightarrow> u8 list \<Rightarrow> bool" where
  "sent_as frame bytes = (\<exists>socket answers status.
     system_sends answers \<and> send_frame socket answers frame = (status, bytes) \<and> is_ok status)"

definition cut_short :: "u8 list \<Rightarrow> bool" where
  "cut_short bytes = (\<exists>frame socket answers status.
     system_sends answers \<and> send_frame socket answers frame = (status, bytes) \<and> \<not> is_ok status)"

lemma sent_as_bytes: "sent_as f bytes \<Longrightarrow> frame_ok f \<and> bytes = frame_bytes f"
  unfolding sent_as_def using send_frame_prefix(1) by blast

lemma cut_short_prefix:
  assumes "bytes = [] \<or> cut_short bytes"
  obtains g missing where "frame_ok g" "missing \<noteq> []" "frame_bytes g = bytes @ missing"
proof (cases "bytes = []")
  case True
  moreover have "frame_ok sample_frame" using sample_frame_encodes by (simp add: encode_frame_iff)
  ultimately show ?thesis using that [of sample_frame "frame_bytes sample_frame"] by simp
next
  case False
  with assms show ?thesis using that send_frame_prefix(2) unfolding cut_short_def by blast
qed

lemma sent_frames: "list_all2 sent_as frames sent \<Longrightarrow> list_all frame_ok frames \<and> concat sent = concat (map frame_bytes frames)"
  by (induction rule: list_all2_induct) (use sent_as_bytes in auto)

text \<open>
  C8: However the network cuts up and delays the bytes one end has sent, the session at the other end hands its
  handler exactly the frames that were sent with success, in order, each once and unchanged; a frame whose
  sending failed part of the way is never handed over, and the close that follows says that the stream broke
  off inside a frame exactly when some of its bytes arrived. The read capacity must be at least the size of an
  envelope: the bound on the buffer leaves the envelope out.
\<close>
theorem stream_reassembled:
  assumes "48 \<le> read_capacity" "list_all2 sent_as frames sent" "partial = [] \<or> cut_short partial"
    and "list_all data_answer answers" "arrived answers = concat sent @ partial"
  shows "session_loop read_capacity (replicate (Suc (length frames)) True) (answers @ [EndOfStream]) =
    OnOpen # map OnFrame frames @
    [OnClose (if partial = [] then Status ErrorCode_kTransportClosed ''peer closed the connection''
              else Status ErrorCode_kFrameTruncatedPayload ''peer closed the connection mid frame'')]"
proof -
  from assms(3) obtain g missing where g: "frame_ok g" "missing \<noteq> []" "frame_bytes g = partial @ missing"
    by (rule cut_short_prefix)
  show ?thesis
    using session_delivers [of frames g read_capacity answers missing "[]" partial] g assms sent_frames [OF assms(2)]
    by (simp add: session_loop_def)
qed

definition two_sends :: "SendAnswer \<Rightarrow> nat \<Rightarrow> SendAnswer" where
  "two_sends second n = (if n = 0 then SendAnswer 40 0 else second)"

lemma two_sends_simps [simp]:
  "two_sends second 0 = SendAnswer 40 0" "two_sends second (Suc n) = second"
  by (simp_all add: two_sends_def)

lemma sample_sends:
  assumes "send_bytes (\<lambda>_. second) (drop 40 (frame_bytes sample_frame)) = (status, rest)"
  shows "send_frame (Some (Socket_new 3)) (two_sends second) sample_frame =
    (status, take 40 (frame_bytes sample_frame) @ rest)"
proof -
  have "length (frame_bytes sample_frame) = 93" by (simp add: sample_frame_def)
  with assms show ?thesis
    by (simp add: send_frame_def sample_frame_encodes send_raw_def Socket_new_def send_bytes.simps [of "two_sends second"]
        kSendChunkBytes_def Let_def)
qed

lemma sample_sent: "sent_as sample_frame (frame_bytes sample_frame)"
proof -
  have size: "length (frame_bytes sample_frame) = 93" by (simp add: sample_frame_def)
  have "send_bytes (\<lambda>_. SendAnswer 53 0) (drop 40 (frame_bytes sample_frame)) =
      (status_ok, drop 40 (frame_bytes sample_frame))"
    using size by (simp add: send_bytes.simps kSendChunkBytes_def Let_def)
  from sample_sends [OF this] show ?thesis
    unfolding sent_as_def system_sends_def two_sends_def kSendChunkBytes_def
    by (intro exI [of _ "Some (Socket_new 3)"] exI [of _ "\<lambda>n. if n = 0 then SendAnswer 40 0 else SendAnswer 53 0"]
        exI [of _ status_ok]) (simp add: two_sends_def)
qed

lemma sample_cut: "cut_short (take 40 (frame_bytes sample_frame))"
proof -
  have "length (frame_bytes sample_frame) = 93" by (simp add: sample_frame_def)
  then have "send_bytes (\<lambda>_. SendAnswer (-1) 32) (drop 40 (frame_bytes sample_frame)) = (last_socket_error ''send'' 32, [])"
    by (simp add: send_bytes.simps)
  from sample_sends [OF this] show ?thesis unfolding cut_short_def system_sends_def kSendChunkBytes_def
    by (intro exI [of _ sample_frame] exI [of _ "Some (Socket_new 3)"] exI [of _ "two_sends (SendAnswer (-1) 32)"]
        exI [of _ "last_socket_error ''send'' 32"]) (simp add: two_sends_def)
qed

theorem stream_reassembled_witness:
  "let bytes = frame_bytes sample_frame in
   session_loop kIoBufferBytes [True, True, True]
     [Received (take 10 bytes), Quiet, Received (drop 10 bytes @ bytes @ take 7 bytes), Received (drop 7 (take 40 bytes)),
      EndOfStream] =
   [OnOpen, OnFrame sample_frame, OnFrame sample_frame,
    OnClose (Status ErrorCode_kFrameTruncatedPayload ''peer closed the connection mid frame'')]"
proof -
  let ?b = "frame_bytes sample_frame"
  have size: "length ?b = 93" by (simp add: sample_frame_def)
  have "take 7 ?b = take 7 (take 40 ?b)" by simp
  then have cut: "take 7 ?b @ drop 7 (take 40 ?b) = take 40 ?b" by (metis append_take_drop_id)
  have data: "take 10 ?b \<noteq> []" "drop 7 (take 40 ?b) \<noteq> []" "take 40 ?b \<noteq> []" using size by auto
  show ?thesis
    using stream_reassembled [of kIoBufferBytes "[sample_frame, sample_frame]" "[?b, ?b]" "take 40 ?b"
        "[Received (take 10 ?b), Quiet, Received (drop 10 ?b @ ?b @ take 7 ?b), Received (drop 7 (take 40 ?b))]"]
      sample_sent sample_cut data cut size
    by (simp add: kIoBufferBytes_def numeral_eq_Suc [of "num.Bit1 num.One"])
qed


section \<open>Descriptors and the session table\<close>

lemma closed_after_release: "sk_released socket \<Longrightarrow> closed_descriptors teardowns socket = []"
  by (induction teardowns) (simp_all add: Socket_destroy_def release_for_teardown_def)

text \<open>
  Whatever number of teardowns reach a socket before it is destroyed, its descriptor is closed exactly once, so
  a number the system has given out again is never closed by mistake. After a teardown the connection is not
  open, nothing is shut down through it and every write is refused without a byte being sent.
\<close>
theorem descriptor_closed_once:
  "handle \<noteq> kInvalidSocket \<Longrightarrow>
   closed_descriptors teardowns (Socket_new handle) = [handle] \<and>
   (case release_for_teardown (Socket_new handle) of (torn, closed) \<Rightarrow>
      \<not> is_open (Some torn) \<and> shutdown_socket torn = [] \<and>
      send_raw (Some torn) answers data = (Status ErrorCode_kTransportClosed ''connection is closed'', []))"
  using closed_after_release [of _ "teardowns - 1"]
  by (cases teardowns) (simp_all add: release_for_teardown_def Socket_new_def is_open_def shutdown_socket_def send_raw_def
      Socket_destroy_def close_native_def)

theorem descriptor_closed_once_witness: "closed_descriptors 2 (Socket_new 7) = [7]"
  using descriptor_closed_once [of 7 2] by (simp add: kInvalidSocket_def)

text \<open>A run of the server: accepted sockets, ended sessions, shutdowns and restarts.\<close>

datatype ServerOp = Listen ListenAnswers ServerConfig | Accepted nat | Ended nat | Shutdown

fun server_step :: "Server \<Rightarrow> ServerOp \<Rightarrow> Server" where
  "server_step server (Listen os config) = snd (listen os config server)"
| "server_step server (Accepted connection) = snd (accept_one connection server)"
| "server_step server (Ended connection) = session_end connection server"
| "server_step server Shutdown = server_shutdown server"

definition server_inv :: "Server \<Rightarrow> bool" where
  "server_inv server =
     (length (ts_live server) \<le> tsc_max_sessions (ts_config server) \<and>
      1 \<le> tsc_max_sessions (ts_config server) \<and> tsc_max_sessions (ts_config server) \<le> kSessionsMax \<and>
      (\<not> ts_running server \<longrightarrow> ts_live server = []))"

lemma clamp_bounds [simp]:
  "tsc_max_sessions (clamp_server_config config) \<le> kSessionsMax" "Suc 0 \<le> tsc_max_sessions (clamp_server_config config)"
  by (simp_all add: clamp_server_config_def kSessionsMax_def)

lemma listen_inv: "server_inv server \<Longrightarrow> server_inv (snd (listen os config server))"
  by (auto simp: listen_def server_inv_def Let_def split: option.split)

lemma listen_stopped:
  "\<not> ts_running server \<Longrightarrow> ts_live server = [] \<Longrightarrow>
   ts_live (snd (listen os config server)) = [] \<and>
   ts_running (snd (listen os config server)) = is_ok (fst (listen os config server))"
  by (simp add: listen_def Let_def split: option.split)

lemma accept_inv: "server_inv server \<Longrightarrow> server_inv (snd (accept_one connection server))"
  by (auto simp: accept_one_def server_inv_def)

lemma end_inv: "server_inv server \<Longrightarrow> server_inv (session_end connection server)"
  by (auto simp: session_end_def server_inv_def intro: le_trans [OF length_filter_le])

lemma shutdown_inv: "server_inv server \<Longrightarrow> server_inv (server_shutdown server)"
  by (auto simp: server_shutdown_def server_inv_def)

interpretation server: invariant_system server_step server_inv
proof
  fix s op
  assume "server_inv s"
  then show "server_inv (server_step s op)"
    by (cases op) (simp_all add: listen_inv accept_inv end_inv shutdown_inv)
qed

lemma new_server_inv: "server_inv Server_new"
  by (simp add: server_inv_def Server_new_def ServerConfig_default_def kSessionsMax_def)

text \<open>
  Over any run of a server, whatever the configuration asks for and however sockets, ends of sessions,
  shutdowns and restarts interleave, no more sessions are live than the configured bound, which lies between 1
  and \<open>kSessionsMax\<close>; a server that is not running has none. A socket that arrives at a running server is
  given a session exactly when the bound leaves room, and is counted as accepted or as rejected.
\<close>
theorem live_sessions_bounded:
  "let server = foldl server_step Server_new ops; bound = tsc_max_sessions (ts_config server);
       (given, after) = accept_one connection server in
   server_session_count server \<le> bound \<and> 1 \<le> bound \<and> bound \<le> kSessionsMax \<and>
   (ts_running server \<or> server_session_count server = 0) \<and>
   (ts_running server \<and> ts_listener server \<longrightarrow>
      (given \<longleftrightarrow> server_session_count server < bound) \<and>
      server_session_count after = server_session_count server + (if given then 1 else 0) \<and>
      ts_accepted_total after + ts_rejected_total after = ts_accepted_total server + ts_rejected_total server + 1)"
  using server.run_inv [OF new_server_inv, of ops]
  by (auto simp: Let_def server_inv_def server_session_count_def accept_one_def)

theorem live_sessions_bounded_witness:
  "let server = foldl server_step Server_new [Listen \<lparr>la_runtime_ready = True, la_inet_pton = (\<lambda>_. Some kLoopback), la_socket = True,
         la_bind = True, la_listen = True, la_thread = None\<rparr> (ServerConfig_default\<lparr>tsc_max_sessions := 0\<rparr>), Accepted 1] in
   server_session_count server = 1 \<and> fst (accept_one 2 server) = False"
  using live_sessions_bounded [of "[Listen \<lparr>la_runtime_ready = True, la_inet_pton = (\<lambda>_. Some kLoopback), la_socket = True,
         la_bind = True, la_listen = True, la_thread = None\<rparr> (ServerConfig_default\<lparr>tsc_max_sessions := 0\<rparr>), Accepted 1]" 2]
  by (simp add: Let_def listen_def accept_one_def Server_new_def clamp_server_config_def server_session_count_def
      ServerConfig_default_def fill_sockaddr_def)

end
