(* ===== verification/CTF_Coordinator.thy ===== *)
theory CTF_Coordinator
  imports CTF_Transport CTF_Messages CTF_Inspection
begin

unbundle bit_operations_syntax

text \<open>
  The networked coordinator (include/ctf/coordinator.hpp, src/coordinator.cpp): the handler that turns the
  frames of a connection into calls of the service and answers them, and the server that owns the service, the
  transport and the snapshot file.

  A handler call is a function from the coordinator's state to the new state and the list of what it did to its
  socket. Handler calls of different connections are taken one after the other; the service's own theories
  treat the interleavings inside a call. A connection is a number in place of the address of its object.
\<close>

section \<open>State\<close>

record ConnectionState =
  cs_session :: SessionId
  cs_incarnation :: BootIncarnation
  cs_epoch :: CoordinatorEpoch
  cs_peer_label :: string
  cs_opened_monotonic_ms :: u64
  cs_hellos_pending :: int
  cs_rejected :: bool

definition ConnectionState_default :: ConnectionState where
  "ConnectionState_default =
     \<lparr>cs_session = no_identity, cs_incarnation = no_identity, cs_epoch = no_identity, cs_peer_label = [],
      cs_opened_monotonic_ms = 0, cs_hellos_pending = 1, cs_rejected = False\<rparr>"

record CoordinatorConfig =
  co_transport :: ServerConfig
  co_service :: ServiceConfig
  co_snapshot_path :: string
  co_persist_on_mutation :: bool
  co_clock_offset_ms :: u64

definition CoordinatorConfig_default :: CoordinatorConfig where
  "CoordinatorConfig_default =
     \<lparr>co_transport = ServerConfig_default, co_service = ServiceConfig_default, co_snapshot_path = [],
      co_persist_on_mutation = False, co_clock_offset_ms = 0\<rparr>"

text \<open>\<open>crd_sessions\<close> and \<open>crd_next_sequence\<close> belong to the handler; \<open>crd_files\<close> is the file system.\<close>

record CoordinatorServer =
  crd_config :: CoordinatorConfig
  crd_service :: CoordinatorService
  crd_sessions :: "(nat, ConnectionState) idmap"
  crd_next_sequence :: u64
  crd_server :: Server
  crd_running :: bool
  crd_shutdown_requested :: bool
  crd_stale_frames :: u64
  crd_malformed_frames :: u64
  crd_protocol_violations :: u64
  crd_send_failures :: u64
  crd_files :: FileSystem

definition CoordinatorServer_new :: "CoordinatorConfig \<Rightarrow> mint_source \<Rightarrow> FileSystem \<Rightarrow> CoordinatorServer" where
  "CoordinatorServer_new config ms files =
     \<lparr>crd_config = config, crd_service = CoordinatorService_new (co_service config) ms, crd_sessions = [],
      crd_next_sequence = 0, crd_server = Server_new, crd_running = False, crd_shutdown_requested = False,
      crd_stale_frames = 0, crd_malformed_frames = 0, crd_protocol_violations = 0, crd_send_failures = 0,
      crd_files = files\<rparr>"

definition tracked_sessions :: "CoordinatorServer \<Rightarrow> nat" where
  "tracked_sessions crd = idm_size (crd_sessions crd)"

text \<open>
  What a handler call finds around it: the clock when it begins and when it reads it again, the snapshot
  directory's behaviour, the socket of its connection and the answers of the system to its writes.
\<close>

record HandlerEnv =
  he_now :: u64
  he_later :: u64
  he_io :: Io
  he_socket :: "Socket option"
  he_answers :: "nat \<Rightarrow> SendAnswer"

text \<open>\<open>Sent\<close> is a frame given to \<^verbatim>\<open>send_frame\<close> with what the system took of it.\<close>

datatype HandlerOutput = Sent Frame "u8 list" | ShutdownSocket


section \<open>Responses\<close>

definition reasons_from :: "ErrorCode \<Rightarrow> string \<Rightarrow> ReasonChain" where
  "reasons_from code message = chain_add (ErrorCode_to_string code) message no_identity []"

text \<open>The part of \<^verbatim>\<open>send_typed\<close> after the encoding.\<close>

definition respond ::
  "HandlerEnv \<Rightarrow> ConnectionState \<Rightarrow> MessageKind \<Rightarrow> Frame \<Rightarrow> u8 list \<Rightarrow> CoordinatorServer \<Rightarrow>
   CoordinatorServer \<times> HandlerOutput list" where
  "respond env state kind request body crd =
     (let sequence = crd_next_sequence crd + 1;
          response = \<lparr>fr_kind = MessageKind_value kind, fr_flags = kFlagResponse OR kFlagFinal,
            fr_envelope = \<lparr>env_session = cs_session state, env_incarnation = cs_incarnation state,
              env_epoch = cs_epoch state, env_frame_sequence = sequence,
              env_correlation = env_correlation (fr_envelope request)\<rparr>,
            fr_payload = body\<rparr>;
          (sent, taken) = send_frame (he_socket env) (he_answers env) response;
          numbered = crd\<lparr>crd_next_sequence := sequence\<rparr>
      in (if \<not> is_ok sent then numbered\<lparr>crd_send_failures := crd_send_failures crd + 1\<rparr> else numbered,
          [Sent response taken]))"

text \<open>
  \<^verbatim>\<open>send_error_with_reasons\<close> and \<^verbatim>\<open>send_typed\<close> call each other when the encoding fails. The encoding of an
  error fails only for a chain that is too long, and the second attempt has a chain of one reason.
\<close>

lemma encode_error_fails:
  "encode_error \<lparr>err_code = code, err_message = message, err_reasons = reasons\<rparr> = Inl status \<Longrightarrow>
   kReasonChainMax < length reasons"
  by (simp add: encode_error_def with_reasons_def encode_reason_chain_def split: if_splits)

lemma reasons_from_short: "length (reasons_from code message) \<le> 1"
  by (simp add: reasons_from_def chain_add_def chain_add_flag_def Let_def)

function send_error_with_reasons ::
  "HandlerEnv \<Rightarrow> nat \<Rightarrow> Frame \<Rightarrow> ErrorCode \<Rightarrow> string \<Rightarrow> ReasonChain \<Rightarrow> CoordinatorServer \<Rightarrow>
   CoordinatorServer \<times> HandlerOutput list" where
  "send_error_with_reasons env connection request code message reasons crd =
     (case idm_find (crd_sessions crd) connection of
        None \<Rightarrow> (crd, [])
      | Some state \<Rightarrow>
          case encode_error \<lparr>err_code = code, err_message = message, err_reasons = reasons\<rparr> of
            Inl status \<Rightarrow>
              send_error_with_reasons env connection request (status_code status) (status_message status)
                (reasons_from (status_code status) (status_message status)) crd
          | Inr body \<Rightarrow> respond env state MessageKind.kErrorResponse request body crd)"
  by pat_completeness auto

termination
proof (relation "measure (\<lambda>(env, connection, request, code, message, reasons, crd). length reasons)")
  fix env :: HandlerEnv and connection :: nat and request :: Frame and code message reasons
    and crd :: CoordinatorServer and state status
  assume "encode_error \<lparr>err_code = code, err_message = message, err_reasons = reasons\<rparr> = Inl status"
  then have "kReasonChainMax < length reasons" by (rule encode_error_fails)
  moreover have "1 \<le> kReasonChainMax" by (simp add: kReasonChainMax_def)
  ultimately have "length (reasons_from (status_code status) (status_message status)) < length reasons"
    using reasons_from_short [of "status_code status" "status_message status"] by simp
  then show "((env, connection, request, status_code status, status_message status,
      reasons_from (status_code status) (status_message status), crd), env, connection, request, code, message, reasons, crd)
    \<in> measure (\<lambda>(env, connection, request, code, message, reasons, crd). length reasons)" by simp
qed simp

declare send_error_with_reasons.simps [simp del]

definition send_error ::
  "HandlerEnv \<Rightarrow> nat \<Rightarrow> Frame \<Rightarrow> ErrorCode \<Rightarrow> string \<Rightarrow> CoordinatorServer \<Rightarrow>
   CoordinatorServer \<times> HandlerOutput list" where
  "send_error env connection request code message crd =
     send_error_with_reasons env connection request code message (reasons_from code message) crd"

text \<open>The payload arrives here encoded, or with the status of its failed encoding.\<close>

definition send_typed ::
  "HandlerEnv \<Rightarrow> nat \<Rightarrow> ConnectionState \<Rightarrow> MessageKind \<Rightarrow> Frame \<Rightarrow> Status + u8 list \<Rightarrow> CoordinatorServer \<Rightarrow>
   CoordinatorServer \<times> HandlerOutput list" where
  "send_typed env connection state kind request encoded crd =
     (case encoded of
        Inl status \<Rightarrow> send_error env connection request (status_code status) (status_message status) crd
      | Inr body \<Rightarrow> respond env state kind request body crd)"

definition reject ::
  "HandlerEnv \<Rightarrow> nat \<Rightarrow> Frame \<Rightarrow> Status \<Rightarrow> CoordinatorServer \<Rightarrow> CoordinatorServer \<times> HandlerOutput list" where
  "reject env connection frame status crd =
     send_error env connection frame (status_code status) (status_message status)
       (crd\<lparr>crd_malformed_frames := crd_malformed_frames crd + 1\<rparr>)"

definition persist_if_configured :: "HandlerEnv \<Rightarrow> CoordinatorServer \<Rightarrow> CoordinatorServer" where
  "persist_if_configured env crd =
     (if \<not> co_persist_on_mutation (crd_config crd) then crd
      else
        case flush (he_io env) (he_later env) (crd_service crd) (crd_files crd) of
          (_, svc, files) \<Rightarrow> crd\<lparr>crd_service := svc, crd_files := files\<rparr>)"


section \<open>Dispatch\<close>

text \<open>A raw kind that names no message is treated by every switch as \<open>kInvalid\<close> is.\<close>

definition MessageKind_cast :: "u16 \<Rightarrow> MessageKind" where
  "MessageKind_cast raw =
     (case find (\<lambda>kind. MessageKind_value kind = raw)
        [MessageKind.kHello, MessageKind.kHelloAck, MessageKind.kHeartbeat, MessageKind.kHeartbeatAck,
         MessageKind.kRegisterCollective, MessageKind.kRegisterAck, MessageKind.kBeginAttempt, MessageKind.kAttemptAck,
         MessageKind.kPlanFlowGroup, MessageKind.kFlowGroupDecision, MessageKind.kCancelCollective,
         MessageKind.kRetireCollective, MessageKind.kLifecycleAck, MessageKind.kIngestEvidence, MessageKind.kEvidenceAck,
         MessageKind.kInspectRequest, MessageKind.kInspectResponse, MessageKind.kExplainRequest,
         MessageKind.kExplainResponse, MessageKind.kErrorResponse, MessageKind.kInstallPolicy,
         MessageKind.kInstallPolicyAck, MessageKind.kShutdown, MessageKind.kShutdownAck] of
        None \<Rightarrow> MessageKind.kInvalid
      | Some kind \<Rightarrow> kind)"

definition protocol_message_requires_request :: "MessageKind \<Rightarrow> bool" where
  "protocol_message_requires_request kind \<longleftrightarrow>
     kind \<in> {MessageKind.kHeartbeat, MessageKind.kRegisterCollective, MessageKind.kBeginAttempt,
       MessageKind.kPlanFlowGroup, MessageKind.kCancelCollective, MessageKind.kRetireCollective,
       MessageKind.kIngestEvidence, MessageKind.kInspectRequest, MessageKind.kExplainRequest,
       MessageKind.kInstallPolicy, MessageKind.kShutdown}"

primrec RegistrationResult_value :: "RegistrationResult \<Rightarrow> u8" where
  "RegistrationResult_value RegistrationResult.kRegistered = 0"
| "RegistrationResult_value RegistrationResult.kGenerationAdvanced = 1"
| "RegistrationResult_value RegistrationResult.kUnchanged = 2"
| "RegistrationResult_value RegistrationResult.kRejectedInvalid = 3"
| "RegistrationResult_value RegistrationResult.kRejectedTerminal = 4"
| "RegistrationResult_value RegistrationResult.kRejectedCapacity = 5"

text \<open>The reason added when a refusal came without one.\<close>

definition reasons_or_status :: "Status \<Rightarrow> Identity \<Rightarrow> ReasonChain \<Rightarrow> ReasonChain" where
  "reasons_or_status status subject reasons =
     (if \<not> is_ok status \<and> reasons = []
      then chain_add (ErrorCode_to_string (status_code status)) (status_message status) subject reasons
      else reasons)"

definition handle_heartbeat ::
  "HandlerEnv \<Rightarrow> nat \<Rightarrow> ConnectionState \<Rightarrow> Frame \<Rightarrow> ServiceRequestContext \<Rightarrow> CoordinatorServer \<Rightarrow>
   CoordinatorServer \<times> HandlerOutput list" where
  "handle_heartbeat env connection state frame context crd =
     (case decode_heartbeat (fr_payload frame) of
        Inl decoded \<Rightarrow> reject env connection frame decoded crd
      | Inr payload \<Rightarrow>
          let (status, svc) = publish_participant context (hb_participant payload) (hb_incarnation payload)
                (hb_node payload) (hb_state payload) (crd_service crd);
              crd1 = crd\<lparr>crd_service := svc\<rparr>
          in
          if \<not> is_ok status
          then send_error env connection frame (status_code status) (status_message status) crd1
          else send_typed env connection state MessageKind.kHeartbeatAck frame (encode_heartbeat_ack
            \<lparr>hback_participant = hb_participant payload, hback_incarnation = hb_incarnation payload,
             hback_state = hb_state payload,
             hback_expires_at_monotonic_ms =
               pl_expires_at_monotonic_ms (peer_snapshot (hb_participant payload) (svc_authority svc)),
             hback_accepted = True,
             hback_reasons = chain_add ''heartbeat_accepted''
               ''liveness accepted for this incarnation; the participant now holds authority until the expiry instant reported here''
               (hb_participant payload) []\<rparr>) crd1)"

definition handle_register ::
  "HandlerEnv \<Rightarrow> nat \<Rightarrow> ConnectionState \<Rightarrow> Frame \<Rightarrow> ServiceRequestContext \<Rightarrow> CoordinatorServer \<Rightarrow>
   CoordinatorServer \<times> HandlerOutput list" where
  "handle_register env connection state frame context crd =
     (case decode_register_collective (fr_payload frame) of
        Inl decoded \<Rightarrow> reject env connection frame decoded crd
      | Inr d \<Rightarrow>
          let (status, outcome, svc) = register_collective context d RegistrationOutcome_default (crd_service crd)
          in send_typed env connection state MessageKind.kRegisterAck frame (encode_register_ack
               \<lparr>rack_id = def_id d, rack_generation = ro_generation outcome,
                rack_result = RegistrationResult_value (ro_result outcome),
                rack_registration_sequence = (if ro_created outcome then 1 else 0),
                rack_reasons =
                  (if \<not> is_ok status
                   then chain_add (ErrorCode_to_string (status_code status)) (status_message status) (def_id d)
                          (ro_reasons outcome)
                   else ro_reasons outcome)\<rparr>)
               (persist_if_configured env (crd\<lparr>crd_service := svc\<rparr>)))"

definition handle_begin_attempt ::
  "HandlerEnv \<Rightarrow> nat \<Rightarrow> ConnectionState \<Rightarrow> Frame \<Rightarrow> ServiceRequestContext \<Rightarrow> CoordinatorServer \<Rightarrow>
   CoordinatorServer \<times> HandlerOutput list" where
  "handle_begin_attempt env connection state frame context crd =
     (case decode_begin_attempt (fr_payload frame) of
        Inl decoded \<Rightarrow> reject env connection frame decoded crd
      | Inr payload \<Rightarrow>
          let (status, outcome, svc) = begin_attempt context (ba_id payload) (ba_generation payload) (ba_attempt payload)
                (ba_transfer_bytes payload) AttemptOutcome_default (crd_service crd)
          in send_typed env connection state MessageKind.kAttemptAck frame (encode_attempt_ack
               \<lparr>aack_id = ba_id payload, aack_attempt = ba_attempt payload,
                aack_previous_attempt = ao_previous_attempt outcome, aack_state = ao_state outcome,
                aack_reasons = reasons_or_status status (ba_id payload) (ao_reasons outcome)\<rparr>)
               (persist_if_configured env (crd\<lparr>crd_service := svc\<rparr>)))"

definition handle_plan ::
  "HandlerEnv \<Rightarrow> nat \<Rightarrow> ConnectionState \<Rightarrow> Frame \<Rightarrow> ServiceRequestContext \<Rightarrow> CoordinatorServer \<Rightarrow>
   CoordinatorServer \<times> HandlerOutput list" where
  "handle_plan env connection state frame context crd =
     (case decode_plan_flow_group (fr_payload frame) of
        Inl decoded \<Rightarrow> reject env connection frame decoded crd
      | Inr request \<Rightarrow>
          let (status, decision, svc) = plan_flow_group context request DecisionRecord_default (crd_service crd);
              crd1 = crd\<lparr>crd_service := svc\<rparr>
          in
          if \<not> is_ok status
          then send_error env connection frame (status_code status) (status_message status) crd1
          else send_typed env connection state MessageKind.kFlowGroupDecision frame (encode_decision_record decision) crd1)"

definition handle_lifecycle ::
  "HandlerEnv \<Rightarrow> nat \<Rightarrow> ConnectionState \<Rightarrow> Frame \<Rightarrow> MessageKind \<Rightarrow> ServiceRequestContext \<Rightarrow> CoordinatorServer \<Rightarrow>
   CoordinatorServer \<times> HandlerOutput list" where
  "handle_lifecycle env connection state frame kind context crd =
     (case decode_lifecycle (fr_payload frame) of
        Inl decoded \<Rightarrow> reject env connection frame decoded crd
      | Inr payload \<Rightarrow>
          let (status, out_state, reasons, svc) =
                (if kind = MessageKind.kCancelCollective
                 then cancel_collective context (life_id payload) (life_generation payload) (life_attempt payload)
                        CollectiveState.kUnregistered [] (crd_service crd)
                 else retire_collective context (life_id payload) (life_generation payload) (life_attempt payload)
                        CollectiveState.kUnregistered [] (crd_service crd))
          in send_typed env connection state MessageKind.kLifecycleAck frame (encode_lifecycle_ack
               \<lparr>lack_id = life_id payload, lack_state = out_state,
                lack_reasons = reasons_or_status status (life_id payload) reasons\<rparr>)
               (persist_if_configured env (crd\<lparr>crd_service := svc\<rparr>)))"

text \<open>The status, the kind and the generation an ingestion reports, and the reasons it gives.\<close>

definition ingest ::
  "ServiceRequestContext \<Rightarrow> EvidencePayload \<Rightarrow> CoordinatorService \<Rightarrow>
   (ErrorCode \<times> EvidenceKindTag \<times> u8 \<times> Identity) \<times> ReasonChain \<times> CoordinatorService" where
  "ingest context payload svc =
     (let report = (\<lambda>kind (status, generation, reasons, svc').
        ((status_code status, kind, if is_ok status then 0 else 1, generation), reasons, svc'))
      in
      case payload of
        EvidenceCapacity c \<Rightarrow> report EvidenceKindTag.kCapacity (ingest_capacity context c no_identity [] svc)
      | EvidenceCongestion c \<Rightarrow> report EvidenceKindTag.kCongestion (ingest_congestion context c no_identity [] svc)
      | EvidenceTopology t \<Rightarrow> report EvidenceKindTag.kTopology (ingest_topology context t no_identity [] svc)
      | EvidencePolicy p \<Rightarrow> report EvidenceKindTag.kPolicy (service_install_policy context p no_identity [] svc)
      | NoEvidence \<Rightarrow>
          ((ErrorCode_kDecodeInvalidTag, EvidenceKindTag.kNone, 0, no_identity),
           chain_add ''evidence_kind_unknown'' ''the evidence kind is not defined by this version'' no_identity [], svc))"

definition handle_evidence ::
  "HandlerEnv \<Rightarrow> nat \<Rightarrow> ConnectionState \<Rightarrow> Frame \<Rightarrow> ServiceRequestContext \<Rightarrow> CoordinatorServer \<Rightarrow>
   CoordinatorServer \<times> HandlerOutput list" where
  "handle_evidence env connection state frame context crd =
     (case decode_evidence (fr_payload frame) of
        Inl decoded \<Rightarrow> reject env connection frame decoded crd
      | Inr payload \<Rightarrow>
          let ((code, kind, result, generation), reasons, svc) = ingest context payload (crd_service crd)
          in send_typed env connection state MessageKind.kEvidenceAck frame (encode_evidence_ack
               \<lparr>evack_kind = kind, evack_result = result, evack_generation = generation,
                evack_reasons =
                  (if code \<noteq> ErrorCode_kOk \<and> reasons = []
                   then chain_add (ErrorCode_to_string code) ''evidence ingestion failed'' no_identity reasons
                   else reasons)\<rparr>)
               (persist_if_configured env (crd\<lparr>crd_service := svc\<rparr>)))"

definition inspection_body :: "u64 \<Rightarrow> InspectRequestPayload \<Rightarrow> CoordinatorService \<Rightarrow> string" where
  "inspection_body monotonic_now_ms payload svc =
     (if ireq_subject payload = 0 then inspect_summary monotonic_now_ms svc
      else if ireq_subject payload = 1 then inspect_collective (ireq_id payload) svc
      else if ireq_subject payload = 2
      then inspect_decisions_text (ucast (ireq_offset payload)) (unat (ireq_limit payload)) svc
      else if ireq_subject payload = 3 then inspect_peers svc
      else if ireq_subject payload = 4 then inspect_policy svc
      else if ireq_subject payload = 5 then inspect_topology svc
      else ''unknown inspection subject'' @ newline)"

definition handle_inspect ::
  "HandlerEnv \<Rightarrow> nat \<Rightarrow> ConnectionState \<Rightarrow> Frame \<Rightarrow> CoordinatorServer \<Rightarrow>
   CoordinatorServer \<times> HandlerOutput list" where
  "handle_inspect env connection state frame crd =
     (case decode_inspect_request (fr_payload frame) of
        Inl decoded \<Rightarrow> reject env connection frame decoded crd
      | Inr payload \<Rightarrow>
          let body = inspection_body (he_later env) payload (crd_service crd);
              limit = kFramePayloadMaxBytes div 2
          in send_typed env connection state MessageKind.kInspectResponse frame (Inr (encode_inspect_response
               \<lparr>iresp_subject = ireq_subject payload,
                iresp_body = (if length body > limit then take limit body else body),
                iresp_truncated = (length body > limit)\<rparr>)) crd)"

definition handle_explain ::
  "HandlerEnv \<Rightarrow> nat \<Rightarrow> ConnectionState \<Rightarrow> Frame \<Rightarrow> CoordinatorServer \<Rightarrow>
   CoordinatorServer \<times> HandlerOutput list" where
  "handle_explain env connection state frame crd =
     (case decode_explain_request (fr_payload frame) of
        Inl decoded \<Rightarrow> reject env connection frame decoded crd
      | Inr payload \<Rightarrow>
          let (found, decision, text) =
                (if ereq_has_correlation payload
                 then explain_correlation (ereq_correlation payload) DecisionRecord_default (crd_service crd)
                 else service_explain (ereq_id payload) (ereq_attempt payload) DecisionRecord_default (crd_service crd))
          in send_typed env connection state MessageKind.kExplainResponse frame (encode_explain_response
               \<lparr>eresp_found = found, eresp_decision = decision, eresp_explanation = text\<rparr>) crd)"

definition handle_install_policy ::
  "HandlerEnv \<Rightarrow> nat \<Rightarrow> ConnectionState \<Rightarrow> Frame \<Rightarrow> ServiceRequestContext \<Rightarrow> CoordinatorServer \<Rightarrow>
   CoordinatorServer \<times> HandlerOutput list" where
  "handle_install_policy env connection state frame context crd =
     (case decode_install_policy (fr_payload frame) of
        Inl decoded \<Rightarrow> reject env connection frame decoded crd
      | Inr policy \<Rightarrow>
          let (status, generation, reasons, svc) =
                service_install_policy context policy no_identity [] (crd_service crd)
          in send_typed env connection state MessageKind.kInstallPolicyAck frame (encode_install_policy_ack
               \<lparr>pack_generation = generation, pack_result = (if is_ok status then 0 else 1),
                pack_reasons = reasons_or_status status no_identity reasons\<rparr>)
               (persist_if_configured env (crd\<lparr>crd_service := svc\<rparr>)))"

definition handle_shutdown ::
  "HandlerEnv \<Rightarrow> nat \<Rightarrow> ConnectionState \<Rightarrow> Frame \<Rightarrow> CoordinatorServer \<Rightarrow>
   CoordinatorServer \<times> HandlerOutput list" where
  "handle_shutdown env connection state frame crd =
     (let (crd1, outputs) = send_typed env connection state MessageKind.kShutdownAck frame (Inr (encode_inspect_response
            \<lparr>iresp_subject = 255, iresp_body = ''shutdown acknowledged; no new work will be accepted'',
             iresp_truncated = False\<rparr>)) crd
      in (crd1\<lparr>crd_shutdown_requested := True\<rparr>, outputs))"

definition dispatch ::
  "HandlerEnv \<Rightarrow> nat \<Rightarrow> Frame \<Rightarrow> MessageKind \<Rightarrow> ServiceRequestContext \<Rightarrow> CoordinatorServer \<Rightarrow>
   CoordinatorServer \<times> HandlerOutput list" where
  "dispatch env connection frame kind context crd =
     (case idm_find (crd_sessions crd) connection of
        None \<Rightarrow> (crd, [])
      | Some state \<Rightarrow>
          case kind of
            MessageKind.kHeartbeat \<Rightarrow> handle_heartbeat env connection state frame context crd
          | MessageKind.kRegisterCollective \<Rightarrow> handle_register env connection state frame context crd
          | MessageKind.kBeginAttempt \<Rightarrow> handle_begin_attempt env connection state frame context crd
          | MessageKind.kPlanFlowGroup \<Rightarrow> handle_plan env connection state frame context crd
          | MessageKind.kCancelCollective \<Rightarrow> handle_lifecycle env connection state frame kind context crd
          | MessageKind.kRetireCollective \<Rightarrow> handle_lifecycle env connection state frame kind context crd
          | MessageKind.kIngestEvidence \<Rightarrow> handle_evidence env connection state frame context crd
          | MessageKind.kInspectRequest \<Rightarrow> handle_inspect env connection state frame crd
          | MessageKind.kExplainRequest \<Rightarrow> handle_explain env connection state frame crd
          | MessageKind.kInstallPolicy \<Rightarrow> handle_install_policy env connection state frame context crd
          | MessageKind.kShutdown \<Rightarrow> handle_shutdown env connection state frame crd
          | MessageKind.kHello \<Rightarrow>
              send_error env connection frame ErrorCode_kEnvelopeProvenanceRejected
                ''a second hello on an established session is refused''
                (crd\<lparr>crd_protocol_violations := crd_protocol_violations crd + 1\<rparr>)
          | _ \<Rightarrow>
              send_error env connection frame ErrorCode_kFrameKindUnknown
                ''the frame kind is not valid on an established session''
                (crd\<lparr>crd_malformed_frames := crd_malformed_frames crd + 1\<rparr>))"


section \<open>Callbacks of a session thread\<close>

text \<open>\<^verbatim>\<open>emplace\<close>: an entry that exists is left alone.\<close>

definition track :: "nat \<Rightarrow> ConnectionState \<Rightarrow> CoordinatorServer \<Rightarrow> CoordinatorServer" where
  "track connection state crd =
     (if idm_find (crd_sessions crd) connection = None
      then crd\<lparr>crd_sessions := idm_store connection state (crd_sessions crd)\<rparr> else crd)"

definition on_open :: "u64 \<Rightarrow> nat \<Rightarrow> CoordinatorServer \<Rightarrow> CoordinatorServer \<times> HandlerOutput list" where
  "on_open now connection crd =
     (case open_session ''pending-handshake'' now (crd_service crd) of
        (Inl status, svc) \<Rightarrow>
          (track connection (ConnectionState_default\<lparr>cs_rejected := True\<rparr>) (crd\<lparr>crd_service := svc\<rparr>), [ShutdownSocket])
      | (Inr binding, svc) \<Rightarrow>
          (track connection
             (ConnectionState_default\<lparr>cs_session := sb_id binding, cs_incarnation := sb_incarnation binding,
                cs_epoch := sb_epoch binding, cs_hellos_pending := 1, cs_opened_monotonic_ms := now\<rparr>)
             (crd\<lparr>crd_service := svc\<rparr>), []))"

definition then_shutdown :: "CoordinatorServer \<times> HandlerOutput list \<Rightarrow> CoordinatorServer \<times> HandlerOutput list" where
  "then_shutdown result = (fst result, snd result @ [ShutdownSocket])"

text \<open>The branch of \<^verbatim>\<open>on_frame\<close> for a session whose hello is still awaited.\<close>

definition handshake ::
  "HandlerEnv \<Rightarrow> nat \<Rightarrow> ConnectionState \<Rightarrow> Frame \<Rightarrow> CoordinatorServer \<Rightarrow>
   CoordinatorServer \<times> HandlerOutput list" where
  "handshake env connection snapshot frame crd =
     (if fr_kind frame \<noteq> MessageKind_value MessageKind.kHello
      then then_shutdown (send_error env connection frame ErrorCode_kEnvelopeSessionUnknown
        ''the first frame of a session must be a hello''
        (crd\<lparr>crd_protocol_violations := crd_protocol_violations crd + 1\<rparr>))
      else
        case decode_hello (fr_payload frame) of
          Inl decoded \<Rightarrow>
            then_shutdown (send_error env connection frame (status_code decoded) (status_message decoded)
              (crd\<lparr>crd_malformed_frames := crd_malformed_frames crd + 1\<rparr>))
        | Inr hello \<Rightarrow>
            let authority = svc_authority (crd_service crd);
                greeted = (case idm_find (crd_sessions crd) connection of
                    None \<Rightarrow> crd
                  | Some existing \<Rightarrow> crd\<lparr>crd_sessions := idm_store connection
                      (existing\<lparr>cs_hellos_pending := 0, cs_peer_label := hello_client_label hello\<rparr>) (crd_sessions crd)\<rparr>)
            in send_typed env connection snapshot MessageKind.kHelloAck frame (Inr (encode_hello_ack
                 \<lparr>hack_session = cs_session snapshot, hack_incarnation = cs_incarnation snapshot,
                  hack_epoch = cs_epoch snapshot, hack_policy_generation = au_policy_generation authority,
                  hack_topology_generation = au_topology_generation authority,
                  hack_capacity_generation = au_capacity_generation authority,
                  hack_congestion_generation = au_congestion_generation authority,
                  hack_max_frame_payload_bytes = of_nat kFramePayloadMaxBytes,
                  hack_coordinator_label = cfg_coordinator_label (co_service (crd_config crd))\<rparr>)) greeted)"

definition envelope_view :: "Frame \<Rightarrow> EnvelopeView" where
  "envelope_view frame =
     \<lparr>view_session = env_session (fr_envelope frame), view_incarnation = env_incarnation (fr_envelope frame),
      view_epoch = env_epoch (fr_envelope frame), view_frame_sequence = env_frame_sequence (fr_envelope frame),
      view_correlation = env_correlation (fr_envelope frame)\<rparr>"

definition request_context :: "EnvelopeView \<Rightarrow> u64 \<Rightarrow> ServiceRequestContext" where
  "request_context envelope now =
     \<lparr>ctx_session = view_session envelope, ctx_incarnation = view_incarnation envelope,
      ctx_epoch = view_epoch envelope, ctx_now_monotonic_ms = now, ctx_correlation = view_correlation envelope\<rparr>"

definition on_frame ::
  "HandlerEnv \<Rightarrow> nat \<Rightarrow> Frame \<Rightarrow> CoordinatorServer \<Rightarrow> CoordinatorServer \<times> HandlerOutput list" where
  "on_frame env connection frame crd =
     (case idm_find (crd_sessions crd) connection of
        None \<Rightarrow> (crd, [ShutdownSocket])
      | Some snapshot \<Rightarrow>
          if cs_rejected snapshot then (crd, [ShutdownSocket])
          else if cs_hellos_pending snapshot \<noteq> 0 then handshake env connection snapshot frame crd
          else if env_session (fr_envelope frame) \<noteq> cs_session snapshot \<or>
            env_incarnation (fr_envelope frame) \<noteq> cs_incarnation snapshot
          then then_shutdown (send_error env connection frame ErrorCode_kEnvelopeSessionMismatch
            ''the frame names a session or boot incarnation that this connection does not own''
            (crd\<lparr>crd_protocol_violations := crd_protocol_violations crd + 1\<rparr>))
          else
            let envelope = envelope_view frame;
                (status, reasons, svc) = validate_envelope envelope (he_now env) [] (crd_service crd);
                crd1 = crd\<lparr>crd_service := svc\<rparr>;
                kind = MessageKind_cast (fr_kind frame)
            in
            if \<not> is_ok status
            then
              (let answered = send_error_with_reasons env connection frame (status_code status) (status_message status)
                     reasons (crd1\<lparr>crd_stale_frames := crd_stale_frames crd + 1\<rparr>)
               in if status_code status = ErrorCode_kEnvelopeSessionUnknown \<or>
                    status_code status = ErrorCode_kEnvelopeSessionMismatch \<or>
                    status_code status = ErrorCode_kEnvelopeIncarnationStale
                  then then_shutdown answered else answered)
            else if protocol_message_requires_request kind \<and> fr_flags frame AND kFlagRequest = 0
            then send_error env connection frame ErrorCode_kFrameFlagsInvalid
              ''this message kind must be sent as a request''
              (crd1\<lparr>crd_protocol_violations := crd_protocol_violations crd + 1\<rparr>)
            else dispatch env connection frame kind (request_context envelope (he_now env)) crd1)"

definition on_close :: "u64 \<Rightarrow> nat \<Rightarrow> CoordinatorServer \<Rightarrow> CoordinatorServer" where
  "on_close now connection crd =
     (let (session, crd1) =
        (case idm_find (crd_sessions crd) connection of
           None \<Rightarrow> (no_identity, crd)
         | Some existing \<Rightarrow>
             (cs_session existing, crd\<lparr>crd_sessions := idm_erase connection (crd_sessions crd)\<rparr>))
      in
      if is_some session
      then crd1\<lparr>crd_service := snd (close_session session now (crd_service crd1))\<rparr>
      else crd1)"


section \<open>The server\<close>

text \<open>\<open>clock n\<close> is the n-th reading of the clock by the method.\<close>

definition restore_configured ::
  "(nat \<Rightarrow> u64) \<Rightarrow> Io \<Rightarrow> string \<Rightarrow> FileSystem \<Rightarrow> CoordinatorService \<Rightarrow> CoordinatorService" where
  "restore_configured clock io path files svc =
     (if path = [] then svc
      else
        let (_, configured) = configure_persistence path (clock 1) svc;
            (restored, disposition, svc1) = service_restore io path (clock 2) files configured
        in if \<not> is_ok restored \<and> disposition \<noteq> LoadDisposition.kMissing
           then snd (configure_persistence path (clock 3) svc1) else svc1)"

definition coordinator_start ::
  "(nat \<Rightarrow> u64) \<Rightarrow> Io \<Rightarrow> ListenAnswers \<Rightarrow> CoordinatorServer \<Rightarrow> (Status \<times> CoordinatorServer) option" where
  "coordinator_start clock io os crd =
     (if crd_running crd
      then Some (Status ErrorCode_kStateDuplicateRegistration ''the coordinator is already running'', crd)
      else
        case service_start (clock 0) (crd_service crd) of
          None \<Rightarrow> None
        | Some (status, svc) \<Rightarrow>
            if \<not> is_ok status then Some (status, crd\<lparr>crd_service := svc\<rparr>)
            else
              let svc1 = restore_configured clock io (co_snapshot_path (crd_config crd)) (crd_files crd) svc;
                  (status', server) = listen os (co_transport (crd_config crd)) (crd_server crd)
              in
              if \<not> is_ok status'
              then
                let (_, svc2, files) = service_stop io (clock 4) svc1 (crd_files crd)
                in Some (status', crd\<lparr>crd_service := svc2, crd_files := files, crd_server := server\<rparr>)
              else Some (status_ok, crd\<lparr>crd_service := svc1, crd_server := server, crd_running := True\<rparr>))"

text \<open>The joined session threads end with \<^verbatim>\<open>on_close\<close> of their connections.\<close>

definition close_connections :: "u64 \<Rightarrow> nat list \<Rightarrow> CoordinatorServer \<Rightarrow> CoordinatorServer" where
  "close_connections now connections crd = foldl (\<lambda>crd connection. on_close now connection crd) crd connections"

definition coordinator_stop :: "u64 \<Rightarrow> Io \<Rightarrow> CoordinatorServer \<Rightarrow> Status \<times> CoordinatorServer" where
  "coordinator_stop now io crd =
     (if \<not> crd_running crd then (status_ok, crd)
      else
        let (stopped, svc, files) = service_stop io now (crd_service crd) (crd_files crd);
            closed = close_connections now (map fst (crd_sessions crd))
              (crd\<lparr>crd_running := False, crd_service := svc, crd_files := files\<rparr>)
        in (stopped, closed\<lparr>crd_server := server_shutdown (crd_server closed)\<rparr>))"

definition coordinator_flush :: "u64 \<Rightarrow> Io \<Rightarrow> CoordinatorServer \<Rightarrow> Status \<times> CoordinatorServer" where
  "coordinator_flush now io crd =
     (case flush io now (crd_service crd) (crd_files crd) of
        (status, svc, files) \<Rightarrow> (status, crd\<lparr>crd_service := svc, crd_files := files\<rparr>))"

definition coordinator_restore :: "u64 \<Rightarrow> Io \<Rightarrow> CoordinatorServer \<Rightarrow> Status \<times> LoadDisposition \<times> CoordinatorServer" where
  "coordinator_restore now io crd =
     (case service_restore io (co_snapshot_path (crd_config crd)) now (crd_files crd) (crd_service crd) of
        (status, disposition, svc) \<Rightarrow> (status, disposition, crd\<lparr>crd_service := svc\<rparr>))"

text \<open>An accepted socket gets a session thread, which opens; a thread that ends closes and leaves the live set.\<close>

definition coordinator_accept :: "u64 \<Rightarrow> nat \<Rightarrow> CoordinatorServer \<Rightarrow> CoordinatorServer \<times> HandlerOutput list" where
  "coordinator_accept now connection crd =
     (let (given, server) = accept_one connection (crd_server crd); crd1 = crd\<lparr>crd_server := server\<rparr>
      in if given then on_open now connection crd1 else (crd1, []))"

definition coordinator_end :: "u64 \<Rightarrow> nat \<Rightarrow> CoordinatorServer \<Rightarrow> CoordinatorServer" where
  "coordinator_end now connection crd =
     (let closed = on_close now connection crd
      in closed\<lparr>crd_server := session_end connection (crd_server closed)\<rparr>)"

end
