(* ===== verification/CTF_CoordinatorRun.thy ===== *)
theory CTF_CoordinatorRun
  imports CTF_Coordinator CTF_ServiceSessions
begin

text \<open>
  The coordinator as a machine: accepted sockets, frames, ends of sessions, starts, stops and the calls an
  embedding program makes. Every operation acts on the service by a bounded sequence of service operations, so
  what was proved of the service holds behind the network; and every operation acts on the transport's session
  table by its operations.
\<close>

section \<open>What a response touches\<close>

lemma respond_parts [simp]:
  "crd_config (fst (respond env state kind request body crd)) = crd_config crd"
  "crd_service (fst (respond env state kind request body crd)) = crd_service crd"
  "crd_sessions (fst (respond env state kind request body crd)) = crd_sessions crd"
  "crd_next_sequence (fst (respond env state kind request body crd)) = crd_next_sequence crd + 1"
  "crd_server (fst (respond env state kind request body crd)) = crd_server crd"
  "crd_running (fst (respond env state kind request body crd)) = crd_running crd"
  "crd_files (fst (respond env state kind request body crd)) = crd_files crd"
  by (simp_all add: respond_def Let_def case_prod_unfold)

text \<open>An error is answered like everything else: there is always a body.\<close>

lemma short_error_encodes: "\<exists>body. encode_error \<lparr>err_code = code, err_message = message, err_reasons = reasons_from c m\<rparr> = Inr body"
  using reasons_from_short [of c m]
  by (cases "encode_error \<lparr>err_code = code, err_message = message, err_reasons = reasons_from c m\<rparr>")
    (auto dest: encode_error_fails simp: kReasonChainMax_def)

definition error_body :: "ErrorCode \<Rightarrow> string \<Rightarrow> ReasonChain \<Rightarrow> u8 list" where
  "error_body code message reasons =
     (let payload = (\<lambda>c m rs. encode_error \<lparr>err_code = c, err_message = m, err_reasons = rs\<rparr>) in
      case payload code message reasons of
        Inr body \<Rightarrow> body
      | Inl status \<Rightarrow>
          case payload (status_code status) (status_message status) (reasons_from (status_code status) (status_message status)) of
            Inr body \<Rightarrow> body | Inl _ \<Rightarrow> [])"

lemma error_value:
  assumes "idm_find (crd_sessions crd) connection = Some state"
  shows "send_error_with_reasons env connection request code message reasons crd =
    respond env state MessageKind.kErrorResponse request (error_body code message reasons) crd"
proof (cases "encode_error \<lparr>err_code = code, err_message = message, err_reasons = reasons\<rparr>")
  case (Inl status)
  from short_error_encodes obtain body where body: "encode_error \<lparr>err_code = status_code status, err_message = status_message status,
      err_reasons = reasons_from (status_code status) (status_message status)\<rparr> = Inr body" by blast
  then have "send_error_with_reasons env connection request (status_code status) (status_message status)
      (reasons_from (status_code status) (status_message status)) crd =
      respond env state MessageKind.kErrorResponse request body crd"
    using assms by (simp add: send_error_with_reasons.simps)
  moreover have "send_error_with_reasons env connection request code message reasons crd =
      send_error_with_reasons env connection request (status_code status) (status_message status)
        (reasons_from (status_code status) (status_message status)) crd"
    using assms Inl by (subst send_error_with_reasons.simps) simp
  ultimately show ?thesis using Inl body by (simp add: error_body_def)
next
  case (Inr body)
  then show ?thesis using assms by (simp add: send_error_with_reasons.simps error_body_def)
qed

lemma error_responds:
  "idm_find (crd_sessions crd) connection = Some state \<Longrightarrow>
   \<exists>body. send_error_with_reasons env connection request code message reasons crd =
     respond env state MessageKind.kErrorResponse request body crd"
  using error_value by blast

lemma typed_responds:
  assumes "idm_find (crd_sessions crd) connection = Some state"
  shows "\<exists>kind' body. send_typed env connection state kind request encoded crd = respond env state kind' request body crd"
  using error_responds [OF assms] unfolding send_typed_def send_error_def by (cases encoded) (auto, blast+)

lemma persist_parts [simp]:
  "crd_config (persist_if_configured env crd) = crd_config crd"
  "crd_sessions (persist_if_configured env crd) = crd_sessions crd"
  "crd_next_sequence (persist_if_configured env crd) = crd_next_sequence crd"
  "crd_server (persist_if_configured env crd) = crd_server crd"
  "crd_running (persist_if_configured env crd) = crd_running crd"
  by (simp_all add: persist_if_configured_def split: prod.split)


section \<open>What a frame can do\<close>

text \<open>
  \<open>serves n s t\<close>: the service gets from \<open>s\<close> to \<open>t\<close> by at most \<open>n\<close> of its operations.
\<close>

definition serves :: "nat \<Rightarrow> CoordinatorService \<Rightarrow> CoordinatorService \<Rightarrow> bool" where
  "serves n s t \<longleftrightarrow> (\<exists>ops. length ops \<le> n \<and> t = foldl service_step s ops)"

lemma serves_none [simp]: "serves n s s"
  unfolding serves_def by (rule exI [of _ "[]"]) simp

lemma serves_one: "0 < n \<Longrightarrow> t = service_step s op \<Longrightarrow> serves n s t"
  unfolding serves_def by (rule exI [of _ "[op]"]) simp

lemma serves_trans:
  assumes "serves n s t" "serves m t u" "n + m \<le> k"
  shows "serves k s u"
proof -
  from assms(1,2) obtain ops ops' where "length ops \<le> n" "t = foldl service_step s ops" "length ops' \<le> m"
    "u = foldl service_step t ops'" unfolding serves_def by blast
  with assms(3) show ?thesis unfolding serves_def by (intro exI [of _ "ops @ ops'"]) simp
qed

lemma serves_mono: "serves n s t \<Longrightarrow> n \<le> m \<Longrightarrow> serves m s t"
  unfolding serves_def using le_trans by blast

lemma finish_serves: "serves 1 (snd begun) (fst (snd (finish_write io now begun files)))"
proof (cases begun)
  case (Pair result svc)
  show ?thesis
  proof (cases result)
    case (Inr capture)
    obtain contents path captured where capture: "capture = (contents, path, captured)" by (cases capture)
    show ?thesis using Pair Inr capture
      by (auto simp: finish_write_def Let_def case_prod_unfold
          intro!: serves_one [where op = "OpFlushEnd (fst (store_save io path contents now files)) captured"])
  qed (simp add: finish_write_def Pair)
qed

lemma flush_serves: "serves 2 s (fst (snd (flush io now s files)))"
  using serves_trans [OF serves_one [of 1 _ s "OpFlushBegin now"] finish_serves, of "flush_begin now s" 2 io now files]
  by (simp add: flush_def)

lemma stop_serves: "serves 2 s (fst (snd (service_stop io now s files)))"
  using serves_trans [OF serves_one [of 1 _ s "OpStop now"] finish_serves, of "stop_begin now s" 2 io now files]
  by (simp add: service_stop_def)

lemma persist_serves:
  "crd_service crd = t \<Longrightarrow> serves 2 t (crd_service (persist_if_configured env crd))"
  using flush_serves [of "crd_service crd" "he_io env" "he_later env" "crd_files crd"]
  by (auto simp: persist_if_configured_def split: prod.split)

text \<open>
  A handler for an established session gives one response on behalf of the connection and reaches the service
  by at most three operations.
\<close>

definition handled :: "HandlerEnv \<Rightarrow> ConnectionState \<Rightarrow> Frame \<Rightarrow> CoordinatorServer \<Rightarrow>
  CoordinatorServer \<times> HandlerOutput list \<Rightarrow> bool" where
  "handled env state frame crd result \<longleftrightarrow>
     (\<exists>mid kind body. snd result = snd (respond env state kind frame body mid) \<and>
        crd_next_sequence mid = crd_next_sequence crd \<and> crd_next_sequence (fst result) = crd_next_sequence crd + 1) \<and>
     crd_config (fst result) = crd_config crd \<and> crd_sessions (fst result) = crd_sessions crd \<and>
     crd_server (fst result) = crd_server crd \<and> crd_running (fst result) = crd_running crd \<and>
     serves 3 (crd_service crd) (crd_service (fst result))"

lemma handledI:
  assumes "result = respond env state kind frame body mid" "crd_next_sequence mid = crd_next_sequence crd"
    "crd_config mid = crd_config crd" "crd_sessions mid = crd_sessions crd" "crd_server mid = crd_server crd"
    "crd_running mid = crd_running crd" "serves 3 (crd_service crd) (crd_service mid)"
  shows "handled env state frame crd result"
  unfolding handled_def using assms by auto

lemma handled_typed:
  assumes "idm_find (crd_sessions crd) connection = Some state" "crd_next_sequence mid = crd_next_sequence crd"
    "crd_config mid = crd_config crd" "crd_sessions mid = crd_sessions crd" "crd_server mid = crd_server crd"
    "crd_running mid = crd_running crd" "serves 3 (crd_service crd) (crd_service mid)"
  shows "handled env state frame crd (send_typed env connection state kind frame encoded mid)"
proof -
  have "idm_find (crd_sessions mid) connection = Some state" using assms(1,4) by simp
  from typed_responds [OF this] assms show ?thesis by (metis handledI)
qed

lemma handled_error:
  assumes "idm_find (crd_sessions crd) connection = Some state" "crd_next_sequence mid = crd_next_sequence crd"
    "crd_config mid = crd_config crd" "crd_sessions mid = crd_sessions crd" "crd_server mid = crd_server crd"
    "crd_running mid = crd_running crd" "serves 3 (crd_service crd) (crd_service mid)"
  shows "handled env state frame crd (send_error_with_reasons env connection frame code message reasons mid)"
    "handled env state frame crd (send_error env connection frame code message mid)"
proof -
  have "idm_find (crd_sessions mid) connection = Some state" using assms(1,4) by simp
  from error_responds [OF this] assms
  show "handled env state frame crd (send_error_with_reasons env connection frame code message reasons mid)" for reasons
    by (metis handledI)
  then show "handled env state frame crd (send_error env connection frame code message mid)" by (simp add: send_error_def)
qed

lemma handled_reject:
  "idm_find (crd_sessions crd) connection = Some state \<Longrightarrow> handled env state frame crd (reject env connection frame status crd)"
  unfolding reject_def by (rule handled_error(2)) simp_all

text \<open>One call of the service, and then possibly a flush.\<close>

lemma one_call:
  "t = service_step s op \<Longrightarrow> serves 3 s t"
  "t = service_step (crd_service crd) op \<Longrightarrow>
   serves 3 (crd_service crd) (crd_service (persist_if_configured env (crd\<lparr>crd_service := t\<rparr>)))"
proof -
  show "serves 3 s t" if "t = service_step s op" using serves_one [of 3 t s op] that by simp
  assume "t = service_step (crd_service crd) op"
  then have "serves 1 (crd_service crd) t" by (intro serves_one) simp_all
  moreover have "serves 2 t (crd_service (persist_if_configured env (crd\<lparr>crd_service := t\<rparr>)))"
    by (rule persist_serves) simp
  ultimately show "serves 3 (crd_service crd) (crd_service (persist_if_configured env (crd\<lparr>crd_service := t\<rparr>)))"
    by (rule serves_trans) simp
qed

lemmas handled_intros = handled_typed handled_error

lemma handled_heartbeat:
  assumes "idm_find (crd_sessions crd) connection = Some state"
  shows "handled env state frame crd (handle_heartbeat env connection state frame ctx crd)"
proof (cases "decode_heartbeat (fr_payload frame)")
  case (Inr payload)
  let ?svc = "snd (publish_participant ctx (hb_participant payload) (hb_incarnation payload) (hb_node payload)
    (hb_state payload) (crd_service crd))"
  have "serves 3 (crd_service crd) ?svc" by (rule one_call(1) [where op = "OpPublish ctx (hb_participant payload)
    (hb_incarnation payload) (hb_node payload) (hb_state payload)"]) simp
  with Inr assms show ?thesis
    by (simp add: handle_heartbeat_def Let_def case_prod_unfold handled_intros)
qed (simp add: handle_heartbeat_def assms handled_reject)

lemma handled_register:
  assumes "idm_find (crd_sessions crd) connection = Some state"
  shows "handled env state frame crd (handle_register env connection state frame ctx crd)"
proof (cases "decode_register_collective (fr_payload frame)")
  case (Inr d)
  then show ?thesis using assms
    by (auto simp: handle_register_def Let_def case_prod_unfold intro!: handled_typed one_call(2) [where op = "OpRegister ctx d"])
qed (simp add: handle_register_def assms handled_reject)

lemma handled_begin_attempt:
  assumes "idm_find (crd_sessions crd) connection = Some state"
  shows "handled env state frame crd (handle_begin_attempt env connection state frame ctx crd)"
proof (cases "decode_begin_attempt (fr_payload frame)")
  case (Inr p)
  then show ?thesis using assms
    by (auto simp: handle_begin_attempt_def Let_def case_prod_unfold intro!: handled_typed
        one_call(2) [where op = "OpBeginAttempt ctx (ba_id p) (ba_generation p) (ba_attempt p) (ba_transfer_bytes p)"])
qed (simp add: handle_begin_attempt_def assms handled_reject)

lemma handled_plan:
  assumes "idm_find (crd_sessions crd) connection = Some state"
  shows "handled env state frame crd (handle_plan env connection state frame ctx crd)"
proof (cases "decode_plan_flow_group (fr_payload frame)")
  case (Inr request)
  have "serves 3 (crd_service crd) (snd (snd (plan_flow_group ctx request DecisionRecord_default (crd_service crd))))"
    by (rule one_call(1) [where op = "OpPlan ctx request"]) simp
  with Inr assms show ?thesis by (simp add: handle_plan_def Let_def case_prod_unfold handled_intros)
qed (simp add: handle_plan_def assms handled_reject)

lemma handled_lifecycle:
  assumes "idm_find (crd_sessions crd) connection = Some state"
  shows "handled env state frame crd (handle_lifecycle env connection state frame kind ctx crd)"
proof (cases "decode_lifecycle (fr_payload frame)")
  case (Inr p)
  show ?thesis
  proof (cases "kind = MessageKind.kCancelCollective")
    case True
    with Inr assms show ?thesis
      by (auto simp: handle_lifecycle_def Let_def case_prod_unfold intro!: handled_typed
          one_call(2) [where op = "OpCancel ctx (life_id p) (life_generation p) (life_attempt p)"])
  next
    case False
    with Inr assms show ?thesis
      by (auto simp: handle_lifecycle_def Let_def case_prod_unfold intro!: handled_typed
          one_call(2) [where op = "OpRetire ctx (life_id p) (life_generation p) (life_attempt p)"])
  qed
qed (simp add: handle_lifecycle_def assms handled_reject)

lemma ingest_call: "snd (snd (ingest ctx payload s)) = s \<or> (\<exists>op. snd (snd (ingest ctx payload s)) = service_step s op)"
proof (cases payload)
  case NoEvidence
  then show ?thesis by (simp add: ingest_def)
next
  case (EvidenceCapacity e)
  then show ?thesis by (intro disjI2 exI [of _ "OpCapacity ctx e"]) (simp add: ingest_def case_prod_unfold)
next
  case (EvidenceCongestion e)
  then show ?thesis by (intro disjI2 exI [of _ "OpCongestion ctx e"]) (simp add: ingest_def case_prod_unfold)
next
  case (EvidenceTopology e)
  then show ?thesis by (intro disjI2 exI [of _ "OpTopology ctx e"]) (simp add: ingest_def case_prod_unfold)
next
  case (EvidencePolicy p)
  then show ?thesis by (intro disjI2 exI [of _ "OpPolicy ctx p"]) (simp add: ingest_def case_prod_unfold)
qed

lemma handled_evidence:
  assumes "idm_find (crd_sessions crd) connection = Some state"
  shows "handled env state frame crd (handle_evidence env connection state frame ctx crd)"
proof (cases "decode_evidence (fr_payload frame)")
  case (Inr p)
  let ?t = "snd (snd (ingest ctx p (crd_service crd)))"
  have "serves 3 (crd_service crd) (crd_service (persist_if_configured env (crd\<lparr>crd_service := ?t\<rparr>)))"
    using ingest_call [of ctx p "crd_service crd"]
  proof
    assume "?t = crd_service crd"
    then show ?thesis using persist_serves [of "crd\<lparr>crd_service := ?t\<rparr>" "crd_service crd" env]
      by (auto intro: serves_mono)
  next
    assume "\<exists>op. ?t = service_step (crd_service crd) op"
    then show ?thesis using one_call(2) by blast
  qed
  with Inr assms show ?thesis
    by (auto simp: handle_evidence_def Let_def case_prod_unfold intro!: handled_typed)
qed (simp add: handle_evidence_def assms handled_reject)

lemma handled_reading:
  assumes "idm_find (crd_sessions crd) connection = Some state"
  shows "handled env state frame crd (handle_inspect env connection state frame crd)"
    "handled env state frame crd (handle_explain env connection state frame crd)"
  using assms
  by (auto simp: handle_inspect_def handle_explain_def Let_def case_prod_unfold handled_reject
      intro!: handled_typed split: sum.split)

lemma handled_install_policy:
  assumes "idm_find (crd_sessions crd) connection = Some state"
  shows "handled env state frame crd (handle_install_policy env connection state frame ctx crd)"
proof (cases "decode_install_policy (fr_payload frame)")
  case (Inr p)
  then show ?thesis using assms
    by (auto simp: handle_install_policy_def Let_def case_prod_unfold
        intro!: handled_typed one_call(2) [where op = "OpPolicy ctx p"])
qed (simp add: handle_install_policy_def assms handled_reject)

lemma handled_shutdown:
  assumes "idm_find (crd_sessions crd) connection = Some state"
  shows "handled env state frame crd (handle_shutdown env connection state frame crd)"
proof -
  obtain kind body where "handle_shutdown env connection state frame crd =
      (fst (respond env state kind frame body crd)\<lparr>crd_shutdown_requested := True\<rparr>, snd (respond env state kind frame body crd))"
    unfolding handle_shutdown_def using typed_responds [OF assms] by (metis (no_types, lifting) case_prod_unfold)
  then show ?thesis unfolding handled_def by auto
qed

lemma handled_dispatch:
  assumes "idm_find (crd_sessions crd) connection = Some state"
  shows "handled env state frame crd (dispatch env connection frame kind ctx crd)"
  using assms
  by (cases kind) (simp_all add: dispatch_def handled_heartbeat handled_register handled_begin_attempt handled_plan
      handled_lifecycle handled_evidence handled_reading handled_install_policy handled_shutdown handled_error)


section \<open>A frame on a connection\<close>

lemma error_parts [simp]:
  "crd_service (fst (send_error_with_reasons env connection frame code message reasons crd)) = crd_service crd"
  "crd_files (fst (send_error_with_reasons env connection frame code message reasons crd)) = crd_files crd"
  "crd_service (fst (send_error env connection frame code message crd)) = crd_service crd"
  "crd_files (fst (send_error env connection frame code message crd)) = crd_files crd"
proof -
  show "crd_service (fst (send_error_with_reasons env connection frame code message reasons crd)) = crd_service crd"
    "crd_files (fst (send_error_with_reasons env connection frame code message reasons crd)) = crd_files crd" for reasons
    using error_responds [of crd connection _ env frame code message reasons]
    by (cases "idm_find (crd_sessions crd) connection"; force simp: send_error_with_reasons.simps)+
  then show "crd_service (fst (send_error env connection frame code message crd)) = crd_service crd"
    "crd_files (fst (send_error env connection frame code message crd)) = crd_files crd" by (simp_all add: send_error_def)
qed

lemma then_shutdown_parts [simp]:
  "fst (then_shutdown result) = fst result" "snd (then_shutdown result) = snd result @ [ShutdownSocket]"
  by (simp_all add: then_shutdown_def)

text \<open>The frames that reach the dispatcher: those of the connection's own session whose envelope is accepted.\<close>

definition owned :: "nat \<Rightarrow> Frame \<Rightarrow> CoordinatorServer \<Rightarrow> bool" where
  "owned connection frame crd \<longleftrightarrow>
     (\<exists>state. idm_find (crd_sessions crd) connection = Some state \<and> \<not> cs_rejected state \<and>
        cs_hellos_pending state = 0 \<and> env_session (fr_envelope frame) = cs_session state \<and>
        env_incarnation (fr_envelope frame) = cs_incarnation state)"

definition admitted :: "nat \<Rightarrow> Frame \<Rightarrow> CoordinatorServer \<Rightarrow> bool" where
  "admitted connection frame crd \<longleftrightarrow>
     owned connection frame crd \<and> envelope_current (envelope_view frame) (crd_service crd)"

definition validated :: "HandlerEnv \<Rightarrow> Frame \<Rightarrow> CoordinatorServer \<Rightarrow> CoordinatorServer" where
  "validated env frame crd =
     crd\<lparr>crd_service := session_advanced (envelope_view frame) (he_now env) (crd_service crd)\<rparr>"

text \<open>One response, and possibly the end of the conversation.\<close>

definition replied :: "HandlerEnv \<Rightarrow> ConnectionState \<Rightarrow> Frame \<Rightarrow> CoordinatorServer \<Rightarrow>
  CoordinatorServer \<times> HandlerOutput list \<Rightarrow> bool" where
  "replied env state frame crd result \<longleftrightarrow>
     (\<exists>mid kind body closing.
        snd result = snd (respond env state kind frame body mid) @ (if closing then [ShutdownSocket] else []) \<and>
        crd_next_sequence mid = crd_next_sequence crd) \<and>
     crd_next_sequence (fst result) = crd_next_sequence crd + 1"

lemma handled_replied:
  assumes "handled env state frame crd' result" "crd_next_sequence crd' = crd_next_sequence crd"
  shows "replied env state frame crd result" "replied env state frame crd (then_shutdown result)"
proof -
  from assms obtain mid kind body where r: "snd result = snd (respond env state kind frame body mid)"
    "crd_next_sequence mid = crd_next_sequence crd" "crd_next_sequence (fst result) = crd_next_sequence crd + 1"
    by (auto simp: handled_def)
  show "replied env state frame crd result" unfolding replied_def using r
    by (intro conjI exI [of _ mid] exI [of _ kind] exI [of _ body] exI [of _ False]) simp_all
  show "replied env state frame crd (then_shutdown result)" unfolding replied_def using r
    by (intro conjI exI [of _ mid] exI [of _ kind] exI [of _ body] exI [of _ True]) simp_all
qed

text \<open>What a frame leaves as it is in a connection's entry: only the hello flag and the label change.\<close>

definition conn_identity :: "ConnectionState \<Rightarrow> SessionId \<times> BootIncarnation \<times> CoordinatorEpoch \<times> bool" where
  "conn_identity state = (cs_session state, cs_incarnation state, cs_epoch state, cs_rejected state)"

definition same_connections :: "CoordinatorServer \<Rightarrow> CoordinatorServer \<Rightarrow> bool" where
  "same_connections crd crd' \<longleftrightarrow>
     (\<forall>c. map_option conn_identity (idm_find (crd_sessions crd') c) = map_option conn_identity (idm_find (crd_sessions crd) c)) \<and>
     (idm_wf (crd_sessions crd) \<longrightarrow> idm_wf (crd_sessions crd')) \<and>
     crd_config crd' = crd_config crd \<and> crd_server crd' = crd_server crd \<and> crd_running crd' = crd_running crd"

lemma handled_same:
  assumes "handled env state frame crd' result" "crd_sessions crd' = crd_sessions crd" "crd_config crd' = crd_config crd"
    "crd_server crd' = crd_server crd" "crd_running crd' = crd_running crd"
  shows "same_connections crd (fst result)"
  using assms by (simp add: handled_def same_connections_def)

lemma handshake_result:
  assumes tracked: "idm_find (crd_sessions crd) connection = Some state"
  shows "replied env state frame crd (handshake env connection state frame crd)"
    and "same_connections crd (fst (handshake env connection state frame crd))"
    and "crd_service (fst (handshake env connection state frame crd)) = crd_service crd"
    and "crd_files (fst (handshake env connection state frame crd)) = crd_files crd"
proof -
  let ?violation = "crd\<lparr>crd_protocol_violations := crd_protocol_violations crd + 1\<rparr>"
  let ?malformed = "crd\<lparr>crd_malformed_frames := crd_malformed_frames crd + 1\<rparr>"
  have err: "handled env state frame ?violation (send_error env connection frame code message ?violation)"
    "handled env state frame ?malformed (send_error env connection frame code message ?malformed)" for code message
    using tracked by (simp_all add: handled_error)
  have "replied env state frame crd (handshake env connection state frame crd) \<and>
    same_connections crd (fst (handshake env connection state frame crd)) \<and>
    crd_service (fst (handshake env connection state frame crd)) = crd_service crd \<and>
    crd_files (fst (handshake env connection state frame crd)) = crd_files crd"
  proof (cases "fr_kind frame = MessageKind_value MessageKind.kHello")
    case False
    then show ?thesis
      using handled_replied(2) [OF err(1), of crd] handled_same [OF err(1), of crd] by (simp add: handshake_def)
  next
    case hello: True
    show ?thesis
    proof (cases "decode_hello (fr_payload frame)")
      case (Inl decoded)
      with hello show ?thesis
        using handled_replied(2) [OF err(2), of crd] handled_same [OF err(2), of crd] by (simp add: handshake_def)
    next
      case (Inr payload)
      let ?greeted = "crd\<lparr>crd_sessions := idm_store connection
        (state\<lparr>cs_hellos_pending := 0, cs_peer_label := hello_client_label payload\<rparr>) (crd_sessions crd)\<rparr>"
      obtain body where r: "handshake env connection state frame crd =
          respond env state MessageKind.kHelloAck frame body ?greeted"
        using hello Inr tracked by (auto simp: handshake_def send_typed_def Let_def)
      have "replied env state frame crd (respond env state MessageKind.kHelloAck frame body ?greeted)"
        unfolding replied_def
        by (intro conjI exI [of _ ?greeted] exI [of _ "MessageKind.kHelloAck"] exI [of _ body] exI [of _ False]) simp_all
      with r tracked show ?thesis by (simp add: same_connections_def conn_identity_def)
    qed
  qed
  then show "replied env state frame crd (handshake env connection state frame crd)"
    "same_connections crd (fst (handshake env connection state frame crd))"
    "crd_service (fst (handshake env connection state frame crd)) = crd_service crd"
    "crd_files (fst (handshake env connection state frame crd)) = crd_files crd" by simp_all
qed

lemma validate_admits:
  "is_ok (fst (validate_envelope view now reasons s)) \<longleftrightarrow> envelope_current view s"
  "snd (snd (validate_envelope view now reasons s)) = (if envelope_current view s then session_advanced view now s else s)"
  by (simp_all add: validate_envelope_def check_session_ok check_session_state)

lemma on_frame_admitted:
  assumes "admitted connection frame crd"
  shows "on_frame env connection frame crd =
    (let kind = MessageKind_cast (fr_kind frame); crd1 = validated env frame crd in
     if protocol_message_requires_request kind \<and> fr_flags frame AND kFlagRequest = 0
     then send_error env connection frame ErrorCode_kFrameFlagsInvalid ''this message kind must be sent as a request''
       (crd1\<lparr>crd_protocol_violations := crd_protocol_violations crd + 1\<rparr>)
     else dispatch env connection frame kind (request_context (envelope_view frame) (he_now env)) crd1)"
  using assms
  by (auto simp: admitted_def owned_def on_frame_def Let_def case_prod_unfold validate_admits validated_def)

lemma frame_refused:
  assumes "\<not> admitted connection frame crd"
  shows "crd_service (fst (on_frame env connection frame crd)) = crd_service crd"
    "crd_files (fst (on_frame env connection frame crd)) = crd_files crd"
  using assms
  by (auto simp: on_frame_def Let_def case_prod_unfold validate_admits admitted_def owned_def handshake_result
      split: option.split)

lemma on_frame_unsent:
  assumes "idm_find (crd_sessions crd) connection = None \<or>
    (\<exists>state. idm_find (crd_sessions crd) connection = Some state \<and> cs_rejected state)"
  shows "on_frame env connection frame crd = (crd, [ShutdownSocket])"
  using assms by (auto simp: on_frame_def)

lemma on_frame_result:
  assumes tracked: "idm_find (crd_sessions crd) connection = Some state" "\<not> cs_rejected state"
  shows "replied env state frame crd (on_frame env connection frame crd)"
    "same_connections crd (fst (on_frame env connection frame crd))"
proof -
  have err: "handled env state frame crd' (send_error env connection frame code message crd')"
    "handled env state frame crd' (send_error_with_reasons env connection frame code message reasons crd')"
    if "crd_sessions crd' = crd_sessions crd" for crd' code message reasons
    using tracked that by (simp_all add: handled_error)
  have disp: "handled env state frame (validated env frame crd) (dispatch env connection frame kind ctx (validated env frame crd))"
    for kind ctx using tracked by (intro handled_dispatch) (simp add: validated_def)
  have "replied env state frame crd (on_frame env connection frame crd) \<and>
    same_connections crd (fst (on_frame env connection frame crd))"
  proof (cases "admitted connection frame crd")
    case True
    then show ?thesis
      using handled_replied(1) [OF disp, of crd] handled_same [OF disp, of crd]
        handled_replied(1) [OF err(1), of _ crd] handled_same [OF err(1), of _ crd]
      by (simp add: on_frame_admitted Let_def validated_def)
  next
    case False
    then show ?thesis using tracked
      using handled_replied [OF err(1), of _ crd] handled_same [OF err(1), of _ crd] handshake_result [OF tracked(1)]
        handled_replied [OF err(2), of _ crd] handled_same [OF err(2), of _ crd]
      by (auto simp: on_frame_def Let_def case_prod_unfold validate_admits admitted_def owned_def)
  qed
  then show "replied env state frame crd (on_frame env connection frame crd)"
    "same_connections crd (fst (on_frame env connection frame crd))" by simp_all
qed

lemma on_frame_serves:
  "admitted connection frame crd \<Longrightarrow>
   serves 3 (crd_service (validated env frame crd)) (crd_service (fst (on_frame env connection frame crd)))"
proof -
  assume admitted: "admitted connection frame crd"
  then obtain state where "idm_find (crd_sessions (validated env frame crd)) connection = Some state"
    by (auto simp: admitted_def owned_def validated_def)
  from handled_dispatch [OF this] admitted show ?thesis by (simp add: on_frame_admitted Let_def handled_def)
qed

lemma frame_serves: "serves 4 (crd_service crd) (crd_service (fst (on_frame env connection frame crd)))"
proof (cases "admitted connection frame crd")
  case True
  then have "crd_service (validated env frame crd) = service_step (crd_service crd) (OpValidateEnvelope (envelope_view frame) (he_now env))"
    by (simp add: validated_def validate_admits admitted_def)
  then have "serves 1 (crd_service crd) (crd_service (validated env frame crd))"
    by (rule serves_one [rotated]) simp
  from serves_trans [OF this on_frame_serves [OF True]] show ?thesis by simp
qed (simp add: frame_refused)


section \<open>The machine\<close>

text \<open>\<open>CrdService\<close> is a call an embedding program makes on \<^verbatim>\<open>service()\<close>.\<close>

datatype CoordinatorOp =
    CrdStart "nat \<Rightarrow> u64" Io ListenAnswers
  | CrdStop u64 Io
  | CrdAccept u64 nat
  | CrdFrame HandlerEnv nat Frame
  | CrdEnd u64 nat
  | CrdFlush u64 Io
  | CrdRestore u64 Io
  | CrdService ServiceOp

fun coordinator_step :: "CoordinatorServer \<Rightarrow> CoordinatorOp \<Rightarrow> CoordinatorServer" where
  "coordinator_step crd (CrdStart clock io os) = (case coordinator_start clock io os crd of None \<Rightarrow> crd | Some (_, t) \<Rightarrow> t)"
| "coordinator_step crd (CrdStop now io) = snd (coordinator_stop now io crd)"
| "coordinator_step crd (CrdAccept now connection) = fst (coordinator_accept now connection crd)"
| "coordinator_step crd (CrdFrame env connection frame) = fst (on_frame env connection frame crd)"
| "coordinator_step crd (CrdEnd now connection) = coordinator_end now connection crd"
| "coordinator_step crd (CrdFlush now io) = snd (coordinator_flush now io crd)"
| "coordinator_step crd (CrdRestore now io) = snd (snd (coordinator_restore now io crd))"
| "coordinator_step crd (CrdService op) = crd\<lparr>crd_service := service_step (crd_service crd) op\<rparr>"

definition connections_inv :: "CoordinatorServer \<Rightarrow> bool" where
  "connections_inv crd \<longleftrightarrow>
     idm_wf (crd_sessions crd) \<and> crd_running crd = ts_running (crd_server crd) \<and>
     (\<forall>c. idm_find (crd_sessions crd) c \<noteq> None \<longleftrightarrow> c \<in> set (ts_live (crd_server crd))) \<and>
     (\<forall>c state. idm_find (crd_sessions crd) c = Some state \<longrightarrow>
        (if cs_rejected state then is_none (cs_session state)
         else is_some (cs_session state) \<and> is_some (cs_incarnation state)))"

definition coordinator_inv :: "CoordinatorServer \<Rightarrow> bool" where
  "coordinator_inv crd \<longleftrightarrow> service_inv (crd_service crd) \<and> server_inv (crd_server crd) \<and> connections_inv crd"

lemma idm_size_card: "idm_wf m \<Longrightarrow> idm_size m = card {k. idm_find m k \<noteq> None}"
proof -
  assume "idm_wf m"
  then have "card (set (map fst m)) = length (map fst m)" unfolding idm_wf_def by (rule distinct_card)
  moreover have "{k. idm_find m k \<noteq> None} = set (map fst m)" by (auto simp: idm_find_def map_of_eq_None_iff)
  ultimately show ?thesis by (simp add: idm_size_def)
qed

lemma tracked_bounded:
  assumes "coordinator_inv crd"
  shows "tracked_sessions crd \<le> server_session_count (crd_server crd)" "server_session_count (crd_server crd) \<le> kSessionsMax"
proof -
  have "{c. idm_find (crd_sessions crd) c \<noteq> None} = set (ts_live (crd_server crd))" "idm_wf (crd_sessions crd)"
    using assms by (auto simp: coordinator_inv_def connections_inv_def)
  then show "tracked_sessions crd \<le> server_session_count (crd_server crd)"
    by (simp add: tracked_sessions_def server_session_count_def idm_size_card card_length)
  show "server_session_count (crd_server crd) \<le> kSessionsMax"
    using assms by (simp add: coordinator_inv_def server_inv_def server_session_count_def)
qed

lemma is_some_minted [simp]: "is_some (minted e c)"
  using mint_identity_some [of "\<lparr>ms_entropy = e, ms_counter = c\<rparr>"] by (simp add: mint_identity_eq)

lemma open_binding_some:
  "fst (open_session label now s) = Inr binding \<Longrightarrow> is_some (sb_id binding) \<and> is_some (sb_incarnation binding)"
  by (auto simp: open_session_def Let_def case_prod_unfold split: if_splits)

lemma no_identity_none [simp]: "is_none no_identity"
  by (simp add: is_none_def no_identity_def)

text \<open>The connections after the callbacks.\<close>

lemma on_open_parts:
  "crd_service (fst (on_open now connection crd)) = service_step (crd_service crd) (OpOpenSession ''pending-handshake'' now)"
  "crd_server (fst (on_open now connection crd)) = crd_server crd"
  "crd_running (fst (on_open now connection crd)) = crd_running crd"
  by (auto simp: on_open_def track_def split: prod.split sum.split)

lemma on_open_sessions:
  "idm_wf (crd_sessions crd) \<Longrightarrow> idm_wf (crd_sessions (fst (on_open now connection crd)))"
  "idm_find (crd_sessions (fst (on_open now connection crd))) c =
     (if c = connection \<and> idm_find (crd_sessions crd) c = None
      then Some (case fst (open_session ''pending-handshake'' now (crd_service crd)) of
             Inl _ \<Rightarrow> ConnectionState_default\<lparr>cs_rejected := True\<rparr>
           | Inr b \<Rightarrow> ConnectionState_default\<lparr>cs_session := sb_id b, cs_incarnation := sb_incarnation b,
               cs_epoch := sb_epoch b, cs_hellos_pending := 1, cs_opened_monotonic_ms := now\<rparr>)
      else idm_find (crd_sessions crd) c)"
  by (auto simp: on_open_def track_def split: prod.split sum.split)

lemma on_close_parts:
  "crd_sessions (on_close now connection crd) =
     (if idm_find (crd_sessions crd) connection = None then crd_sessions crd else idm_erase connection (crd_sessions crd))"
  "crd_server (on_close now connection crd) = crd_server crd" "crd_running (on_close now connection crd) = crd_running crd"
  "serves 1 (crd_service crd) (crd_service (on_close now connection crd))"
  by (auto simp: on_close_def Let_def split: option.split intro!: serves_one [where op = "OpCloseSession session now" for session])

lemma close_all:
  "serves (length cs) (crd_service crd) (crd_service (close_connections now cs crd))"
    "crd_server (close_connections now cs crd) = crd_server crd" "crd_running (close_connections now cs crd) = crd_running crd"
    "idm_wf (crd_sessions crd) \<Longrightarrow> idm_wf (crd_sessions (close_connections now cs crd)) \<and>
       (\<forall>c. idm_find (crd_sessions (close_connections now cs crd)) c = (if c \<in> set cs then None else idm_find (crd_sessions crd) c))"
proof -
  show "serves (length cs) (crd_service crd) (crd_service (close_connections now cs crd))"
  proof (induction cs arbitrary: crd)
    case (Cons c cs)
    from serves_trans [OF on_close_parts(4) [of crd now c] Cons.IH] show ?case by (simp add: close_connections_def)
  qed (simp add: close_connections_def)
  show "crd_server (close_connections now cs crd) = crd_server crd" "crd_running (close_connections now cs crd) = crd_running crd"
    by (induction cs arbitrary: crd) (simp_all add: close_connections_def on_close_parts)
  show "idm_wf (crd_sessions crd) \<Longrightarrow> idm_wf (crd_sessions (close_connections now cs crd)) \<and>
       (\<forall>c. idm_find (crd_sessions (close_connections now cs crd)) c = (if c \<in> set cs then None else idm_find (crd_sessions crd) c))"
  proof (induction cs arbitrary: crd)
    case (Cons c cs)
    then have "idm_wf (crd_sessions (on_close now c crd))" by (simp add: on_close_parts)
    from Cons.IH [OF this] Cons.prems show ?case by (auto simp: close_connections_def on_close_parts)
  qed (simp add: close_connections_def)
qed

lemma restore_serves: "serves 3 s (restore_configured clock io path files s)"
proof (cases "path = []")
  case False
  let ?c = "snd (configure_persistence path (clock 1) s)"
  let ?r = "snd (snd (service_restore io path (clock 2) files ?c))"
  have c: "serves 1 s ?c" by (rule serves_one [where op = "OpConfigure path (clock 1)"]) simp_all
  have r: "serves 1 ?c ?r" by (rule serves_one [where op = "OpRestore io path (clock 2) files"]) simp_all
  have "serves 1 ?r (snd (configure_persistence path (clock 3) ?r))"
    by (rule serves_one [where op = "OpConfigure path (clock 3)"]) simp_all
  from serves_trans [OF serves_trans [OF c r] this, of 2 3] serves_trans [OF c r, of 3] False show ?thesis
    by (simp add: restore_configured_def Let_def case_prod_unfold)
qed (simp add: restore_configured_def)

lemma started:
  assumes "coordinator_start clock io os crd = Some (status, crd')"
  shows "serves 6 (crd_service crd) (crd_service crd')"
    "crd_sessions crd' = crd_sessions crd"
    "crd_server crd' = crd_server crd \<and> crd_running crd' = crd_running crd \<or>
     \<not> crd_running crd \<and> (\<exists>listened. listen os (co_transport (crd_config crd)) (crd_server crd) = (listened, crd_server crd') \<and>
       crd_running crd' = is_ok listened)"
proof -
  let ?start = "service_start (clock 0) (crd_service crd)"
  let ?listen = "listen os (co_transport (crd_config crd)) (crd_server crd)"
  have "serves 6 (crd_service crd) (crd_service crd') \<and> crd_sessions crd' = crd_sessions crd \<and>
    (crd_server crd' = crd_server crd \<and> crd_running crd' = crd_running crd \<or>
     \<not> crd_running crd \<and> (\<exists>listened. ?listen = (listened, crd_server crd') \<and> crd_running crd' = is_ok listened))"
  proof (cases "crd_running crd")
    case True
    then show ?thesis using assms by (auto simp: coordinator_start_def)
  next
    case stopped: False
    obtain status' svc where start: "?start = Some (status', svc)"
      using assms stopped by (cases ?start) (auto simp: coordinator_start_def)
    then have one: "serves 1 (crd_service crd) svc" by (intro serves_one [where op = "OpStart (clock 0)"]) simp_all
    show ?thesis
    proof (cases "is_ok status'")
      case False
      then show ?thesis using assms stopped start serves_mono [OF one, of 6] by (auto simp: coordinator_start_def)
    next
      case ok: True
      let ?restored = "restore_configured clock io (co_snapshot_path (crd_config crd)) (crd_files crd) svc"
      have four: "serves 4 (crd_service crd) ?restored" by (rule serves_trans [OF one restore_serves]) simp
      have six: "serves 6 (crd_service crd) (fst (snd (service_stop io (clock 4) ?restored (crd_files crd))))"
        by (rule serves_trans [OF four stop_serves]) simp
      obtain listened server where l: "?listen = (listened, server)" by (cases ?listen)
      show ?thesis using assms stopped start ok six serves_mono [OF four, of 6] l
        by (cases "is_ok listened") (auto simp: coordinator_start_def Let_def case_prod_unfold)
    qed
  qed
  then show "serves 6 (crd_service crd) (crd_service crd')" "crd_sessions crd' = crd_sessions crd"
    "crd_server crd' = crd_server crd \<and> crd_running crd' = crd_running crd \<or>
     \<not> crd_running crd \<and> (\<exists>listened. ?listen = (listened, crd_server crd') \<and> crd_running crd' = is_ok listened)"
    by blast+
qed

lemma stopped:
  assumes "crd_running crd"
  shows "serves (tracked_sessions crd + 2) (crd_service crd) (crd_service (snd (coordinator_stop now io crd)))"
    "crd_server (snd (coordinator_stop now io crd)) = server_shutdown (crd_server crd)"
    "\<not> crd_running (snd (coordinator_stop now io crd))"
    "idm_wf (crd_sessions crd) \<Longrightarrow> idm_wf (crd_sessions (snd (coordinator_stop now io crd))) \<and>
       (\<forall>c. idm_find (crd_sessions (snd (coordinator_stop now io crd))) c = None)"
proof -
  let ?stop = "service_stop io now (crd_service crd) (crd_files crd)"
  let ?crd = "crd\<lparr>crd_running := False, crd_service := fst (snd ?stop), crd_files := snd (snd ?stop)\<rparr>"
  let ?cs = "map fst (crd_sessions crd)"
  let ?closed = "close_connections now ?cs ?crd"
  have eq: "snd (coordinator_stop now io crd) = ?closed\<lparr>crd_server := server_shutdown (crd_server ?closed)\<rparr>"
    using assms by (simp add: coordinator_stop_def Let_def case_prod_unfold)
  have "serves (length ?cs) (fst (snd ?stop)) (crd_service ?closed)" using close_all(1) [of ?cs ?crd now] by simp
  with serves_trans [OF stop_serves this, of "tracked_sessions crd + 2"] eq
  show "serves (tracked_sessions crd + 2) (crd_service crd) (crd_service (snd (coordinator_stop now io crd)))"
    by (simp add: tracked_sessions_def idm_size_def)
  show "crd_server (snd (coordinator_stop now io crd)) = server_shutdown (crd_server crd)"
    "\<not> crd_running (snd (coordinator_stop now io crd))"
    using eq by (simp_all add: close_all)
  assume "idm_wf (crd_sessions crd)"
  moreover have "c \<notin> set ?cs \<Longrightarrow> idm_find (crd_sessions crd) c = None" for c
    by (simp add: idm_find_def map_of_eq_None_iff)
  ultimately show "idm_wf (crd_sessions (snd (coordinator_stop now io crd))) \<and>
       (\<forall>c. idm_find (crd_sessions (snd (coordinator_stop now io crd))) c = None)"
    using close_all(4) [of ?crd now ?cs] eq by simp
qed

lemma coordinator_step_serves:
  assumes "coordinator_inv crd"
  shows "serves 40 (crd_service crd) (crd_service (coordinator_step crd op))"
proof (cases op)
  case (CrdStart clock io os)
  then show ?thesis using started(1) [of clock io os crd] serves_mono [of 6 _ _ 40]
    by (auto split: option.split)
next
  case (CrdStop now io)
  have "tracked_sessions crd + 2 \<le> 40" using tracked_bounded [OF assms] by (simp add: kSessionsMax_def)
  then show ?thesis using CrdStop stopped(1) [of crd now io] serves_mono
    by (cases "crd_running crd") (auto simp: coordinator_stop_def)
next
  case (CrdAccept now connection)
  then show ?thesis
    by (auto simp: coordinator_accept_def Let_def case_prod_unfold on_open_parts simp del: service_step.simps
        intro: serves_one [OF _ refl])
next
  case (CrdFrame env connection frame)
  then show ?thesis using serves_mono [OF frame_serves, of 40] by simp
next
  case (CrdEnd now connection)
  then show ?thesis using serves_mono [OF on_close_parts(4), of 40] by (simp add: coordinator_end_def Let_def)
next
  case (CrdFlush now io)
  then show ?thesis using serves_mono [OF flush_serves, of 40] by (simp add: coordinator_flush_def case_prod_unfold)
next
  case (CrdRestore now io)
  then show ?thesis
    by (auto simp: coordinator_restore_def case_prod_unfold intro!: serves_one
        [where op = "OpRestore io (co_snapshot_path (crd_config crd)) now (crd_files crd)"])
next
  case (CrdService sop)
  then show ?thesis by (simp add: serves_one [OF _ refl])
qed

lemma serves_inv: "serves n s t \<Longrightarrow> service_inv s \<Longrightarrow> service_inv t"
  unfolding serves_def using service_run.run_inv by blast

lemma frame_same: "same_connections crd (fst (on_frame env connection frame crd))"
proof (cases "\<exists>state. idm_find (crd_sessions crd) connection = Some state \<and> \<not> cs_rejected state")
  case False
  then have "on_frame env connection frame crd = (crd, [ShutdownSocket])"
    by (intro on_frame_unsent) (cases "idm_find (crd_sessions crd) connection"; auto)
  then show ?thesis by (simp add: same_connections_def)
qed (use on_frame_result(2) in blast)

text \<open>An entry seen through \<open>conn_identity\<close>, which is all the invariant speaks of.\<close>

definition conn_good :: "SessionId \<times> BootIncarnation \<times> CoordinatorEpoch \<times> bool \<Rightarrow> bool" where
  "conn_good = (\<lambda>(session, incarnation, epoch, rejected).
     if rejected then is_none session else is_some session \<and> is_some incarnation)"

lemma all_map_option:
  "(\<forall>c y. map_option g (f c) = Some y \<longrightarrow> P y) \<longleftrightarrow> (\<forall>c x. f c = Some x \<longrightarrow> P (g x))"
  by auto

lemma connections_inv_identity:
  "connections_inv crd \<longleftrightarrow>
     idm_wf (crd_sessions crd) \<and> crd_running crd = ts_running (crd_server crd) \<and>
     (\<forall>c. map_option conn_identity (idm_find (crd_sessions crd) c) \<noteq> None \<longleftrightarrow> c \<in> set (ts_live (crd_server crd))) \<and>
     (\<forall>c identity. map_option conn_identity (idm_find (crd_sessions crd) c) = Some identity \<longrightarrow> conn_good identity)"
  unfolding all_map_option by (simp add: connections_inv_def conn_identity_def conn_good_def)

lemma same_inv: "same_connections crd crd' \<Longrightarrow> connections_inv crd \<Longrightarrow> connections_inv crd'"
  by (simp add: connections_inv_identity same_connections_def)

lemma accept_connections:
  assumes "connections_inv crd"
  shows "connections_inv (fst (coordinator_accept now connection crd))"
proof (cases "accept_one connection (crd_server crd)")
  case (Pair given server)
  let ?crd = "crd\<lparr>crd_server := server\<rparr>"
  have server: "ts_running server = ts_running (crd_server crd)"
    "set (ts_live server) = (if given then insert connection (set (ts_live (crd_server crd))) else set (ts_live (crd_server crd)))"
    using Pair by (auto simp: accept_one_def split: if_splits)
  show ?thesis
  proof (cases given)
    case False
    with Pair server assms show ?thesis by (simp add: coordinator_accept_def connections_inv_def)
  next
    case True
    have opened: "coordinator_accept now connection crd = on_open now connection ?crd"
      using Pair True by (simp add: coordinator_accept_def)
    show ?thesis unfolding opened connections_inv_def using assms server True
      by (auto simp: on_open_parts on_open_sessions connections_inv_def ConnectionState_default_def
          simp del: service_step.simps split: sum.split dest: open_binding_some)
  qed
qed

lemma end_connections:
  assumes "connections_inv crd"
  shows "connections_inv (coordinator_end now connection crd)"
proof -
  have "idm_find (crd_sessions crd) connection = None \<longleftrightarrow> connection \<notin> set (ts_live (crd_server crd))"
    using assms by (metis connections_inv_def)
  note live = this
  show ?thesis
  proof (cases "idm_find (crd_sessions crd) connection = None")
    case True
    then have "filter (\<lambda>candidate. candidate \<noteq> connection) (ts_live (crd_server crd)) = ts_live (crd_server crd)"
      using live by (auto intro: filter_True)
    with True assms show ?thesis
      by (simp add: connections_inv_def coordinator_end_def Let_def on_close_parts session_end_def)
  next
    case False
    then obtain state where "idm_find (crd_sessions crd) connection = Some state" by blast
    with assms show ?thesis
      by (auto simp: connections_inv_def coordinator_end_def Let_def on_close_parts session_end_def)
  qed
qed

lemma start_connections:
  assumes "connections_inv crd" "server_inv (crd_server crd)" "coordinator_start clock io os crd = Some (status, crd')"
  shows "connections_inv crd'"
  using started(3) [OF assms(3)]
proof
  assume "crd_server crd' = crd_server crd \<and> crd_running crd' = crd_running crd"
  then show ?thesis using assms(1) started(2) [OF assms(3)] by (simp add: connections_inv_def)
next
  assume "\<not> crd_running crd \<and> (\<exists>listened. listen os (co_transport (crd_config crd)) (crd_server crd) =
    (listened, crd_server crd') \<and> crd_running crd' = is_ok listened)"
  then obtain listened where l: "\<not> crd_running crd" "crd_running crd' = is_ok listened"
    "listen os (co_transport (crd_config crd)) (crd_server crd) = (listened, crd_server crd')" by blast
  have off: "\<not> ts_running (crd_server crd)" "ts_live (crd_server crd) = []"
    using assms(1,2) l(1) by (auto simp: connections_inv_def server_inv_def)
  have "ts_live (crd_server crd') = []" "ts_running (crd_server crd') = is_ok listened"
    using listen_stopped [OF off, of os "co_transport (crd_config crd)"] l(3) by simp_all
  with assms(1) off l(2) started(2) [OF assms(3)] show ?thesis by (simp add: connections_inv_def)
qed

lemma stop_connections:
  assumes "connections_inv crd"
  shows "connections_inv (snd (coordinator_stop now io crd))"
proof (cases "crd_running crd")
  case True
  moreover have "idm_wf (crd_sessions crd)" using assms by (simp add: connections_inv_def)
  moreover have "ts_running (crd_server crd)" using assms True by (simp add: connections_inv_def)
  ultimately show ?thesis using stopped [of crd now io] by (simp add: connections_inv_def server_shutdown_def)
qed (simp add: coordinator_stop_def assms)

lemma step_server:
  assumes "server_inv (crd_server crd)"
  shows "server_inv (crd_server (coordinator_step crd op))"
proof (cases op)
  case (CrdStart clock io os)
  show ?thesis
  proof (cases "coordinator_start clock io os crd")
    case (Some result)
    obtain status crd' where r: "coordinator_start clock io os crd = Some (status, crd')" using Some by (cases result) auto
    show ?thesis using CrdStart r started(3) [OF r] assms listen_inv [OF assms, of os "co_transport (crd_config crd)"] by auto
  qed (simp add: CrdStart assms)
next
  case (CrdStop now io)
  then show ?thesis using assms stopped(2) [of crd now io] shutdown_inv
    by (cases "crd_running crd") (auto simp: coordinator_stop_def)
next
  case (CrdAccept now connection)
  then show ?thesis using accept_inv [OF assms, of connection]
    by (simp add: coordinator_accept_def Let_def case_prod_unfold on_open_parts)
next
  case (CrdFrame env connection frame)
  then show ?thesis using assms frame_same [of crd env connection frame] by (simp add: same_connections_def)
next
  case (CrdEnd now connection)
  then show ?thesis using end_inv [OF assms] by (simp add: coordinator_end_def Let_def on_close_parts)
qed (simp_all add: assms coordinator_flush_def coordinator_restore_def case_prod_unfold)

lemma step_connections:
  assumes "coordinator_inv crd"
  shows "connections_inv (coordinator_step crd op)"
proof -
  have c: "connections_inv crd" "server_inv (crd_server crd)" using assms by (simp_all add: coordinator_inv_def)
  show ?thesis
  proof (cases op)
    case (CrdStart clock io os)
    then show ?thesis using c start_connections by (auto split: option.split)
  qed (simp_all add: c stop_connections accept_connections end_connections same_inv [OF frame_same c(1)],
      use c(1) in \<open>simp_all add: connections_inv_def coordinator_flush_def coordinator_restore_def case_prod_unfold\<close>)
qed

interpretation coordinator_run: invariant_system coordinator_step coordinator_inv
proof
  fix crd op
  assume inv: "coordinator_inv crd"
  then have "service_inv (crd_service (coordinator_step crd op))"
    using serves_inv [OF coordinator_step_serves] by (simp add: coordinator_inv_def)
  with inv show "coordinator_inv (coordinator_step crd op)"
    by (simp add: coordinator_inv_def step_server step_connections [unfolded coordinator_inv_def])
qed

lemma coordinator_inv_new: "coordinator_inv (CoordinatorServer_new config ms files)"
  using new_server_inv
  by (simp add: coordinator_inv_def CoordinatorServer_new_def service_inv_new connections_inv_def Server_new_def)

end
