(* ===== verification/CTF_CoordinatorSafety.thy ===== *)
theory CTF_CoordinatorSafety
  imports CTF_CoordinatorRun CTF_ServiceSafety
begin

unbundle bit_operations_syntax

text \<open>
  What the coordinator promises to the peers on the other side of the network: who can act, that a frame acts
  once, that every frame is answered once, and what survives a stop.
\<close>

section \<open>Runs of the coordinator as runs of the service\<close>

lemma run_serves:
  assumes "coordinator_inv crd"
  shows "serves (40 * length ops) (crd_service crd) (crd_service (foldl coordinator_step crd ops))"
  using assms
proof (induction ops arbitrary: crd)
  case (Cons op ops)
  from serves_trans [OF coordinator_step_serves [OF Cons.prems] Cons.IH [OF coordinator_run.step_inv [OF Cons.prems]]]
  show ?case by simp
qed simp

lemma new_serves:
  "serves (40 * length ops) (CoordinatorService_new (co_service config) ms)
     (crd_service (foldl coordinator_step (CoordinatorServer_new config ms files) ops))"
  using run_serves [OF coordinator_inv_new, of ops config ms files] by (simp add: CoordinatorServer_new_def)

lemma spent_refuses:
  assumes "frame_spent ms (envelope_view frame) n (crd_service crd)"
    "env_session (fr_envelope again) = env_session (fr_envelope frame)"
    "env_incarnation (fr_envelope again) = env_incarnation (fr_envelope frame)"
    "env_frame_sequence (fr_envelope again) \<le> env_frame_sequence (fr_envelope frame)"
  shows "\<not> admitted connection again crd"
proof
  assume "admitted connection again crd"
  then obtain b where "idm_find (svc_sessions (crd_service crd)) (env_session (fr_envelope again)) = Some b"
    "sb_incarnation b = env_incarnation (fr_envelope again)"
    "sb_last_frame_sequence b < env_frame_sequence (fr_envelope again)"
    by (auto simp: admitted_def envelope_current_def envelope_view_def)
  with assms show False by (auto simp: frame_spent_def envelope_view_def)
qed

lemma admitted_stays_spent:
  assumes "crd = foldl coordinator_step (CoordinatorServer_new config ms files) before" "admitted connection frame crd"
    and "160 * (length before + length after + 1) < 2 ^ 64"
  shows "\<exists>n. frame_spent ms (envelope_view frame) n
    (crd_service (foldl coordinator_step (fst (on_frame env connection frame crd)) after))"
proof -
  let ?later = "foldl coordinator_step (fst (on_frame env connection frame crd)) after"
  from new_serves [of before config ms files] obtain ops where
    ops: "length ops \<le> 40 * length before" "crd_service crd = foldl service_step (CoordinatorService_new (co_service config) ms) ops"
    unfolding serves_def assms(1) by blast
  have "coordinator_inv crd" unfolding assms(1) by (rule coordinator_run.run_inv [OF coordinator_inv_new])
  then have "coordinator_inv (fst (on_frame env connection frame crd))"
    using coordinator_run.step_inv [of crd "CrdFrame env connection frame"] by simp
  from serves_trans [OF on_frame_serves [OF assms(2)] run_serves [OF this, of after] le_refl]
  obtain ops' where ops': "length ops' \<le> 3 + 40 * length after"
    "crd_service ?later = foldl service_step (crd_service (validated env frame crd)) ops'" unfolding serves_def by blast
  have current: "envelope_current (envelope_view frame) (foldl service_step (CoordinatorService_new (co_service config) ms) ops)"
    using assms(2) ops(2) by (simp add: admitted_def)
  have "4 * (length ops + length ops') < 2 ^ 64" using ops(1) ops'(1) assms(3) by simp
  from accepted_stays_spent [OF current this, of "he_now env"] ops(2) ops'(2) show ?thesis by (simp add: validated_def)
qed


section \<open>A coordinator in service\<close>

text \<open>
  A started coordinator gives an accepted connection a session, answers its hello and admits its first frame;
  the runs below instantiate the theorems.
\<close>

definition sample_listen :: ListenAnswers where
  "sample_listen = \<lparr>la_runtime_ready = True, la_inet_pton = (\<lambda>_. Some kLoopback), la_socket = True, la_bind = True,
     la_listen = True, la_thread = None\<rparr>"

definition sample_env :: HandlerEnv where
  "sample_env = \<lparr>he_now = 5, he_later = 6, he_io = \<lparr>io_open = True, io_written = 1000, io_flush = True, io_close = True,
     io_rename = True, io_read_limit = None\<rparr>, he_socket = Some (Socket_new 3), he_answers = (\<lambda>_. SendAnswer 1000 0)\<rparr>"

definition hello_frame :: Frame where
  "hello_frame = \<lparr>fr_kind = 1, fr_flags = 1, fr_envelope = \<lparr>env_session = no_identity, env_incarnation = no_identity,
     env_epoch = no_identity, env_frame_sequence = 0, env_correlation = 0\<rparr>,
     fr_payload = encode_hello \<lparr>hello_client_label = ''peer'', hello_client_version = ''1'', hello_client_boot_monotonic_ms = 0\<rparr>\<rparr>"

definition request_frame :: "MessageKind \<Rightarrow> u8 list \<Rightarrow> ConnectionState \<Rightarrow> Sequence \<Rightarrow> Frame" where
  "request_frame kind payload state n =
     \<lparr>fr_kind = MessageKind_value kind, fr_flags = 1, fr_envelope = \<lparr>env_session = cs_session state,
        env_incarnation = cs_incarnation state, env_epoch = cs_epoch state, env_frame_sequence = n, env_correlation = 9\<rparr>,
      fr_payload = payload\<rparr>"

definition sample_started :: CoordinatorServer where
  "sample_started = foldl coordinator_step (CoordinatorServer_new CoordinatorConfig_default \<lparr>ms_entropy = 7, ms_counter = 0\<rparr> Map.empty)
     [CrdStart (\<lambda>_. 0) (he_io sample_env) sample_listen]"

lemma start_result: "\<not> svc_running s \<Longrightarrow> service_start now s = Some (status_ok, service_step s (OpStart now))"
  using boot_mint [of "au_epoch (svc_authority s)" "svc_authority s" "svc_mint s"]
  by (auto simp: service_start_def Let_def)

lemma sample_started_parts:
  "crd_running sample_started" "svc_running (crd_service sample_started)" "svc_sessions (crd_service sample_started) = []"
  "is_some (au_epoch (svc_authority (crd_service sample_started)))" "crd_sessions sample_started = []"
  "ts_running (crd_server sample_started)" "ts_listener (crd_server sample_started)" "ts_live (crd_server sample_started) = []"
  "tsc_max_sessions (ts_config (crd_server sample_started)) = kSessionsMax"
  "svc_catalog (crd_service sample_started) = CollectiveCatalog_new (of_nat kCollectivesMaxLive)"
proof -
  let ?s = "CoordinatorService_new ServiceConfig_default \<lparr>ms_entropy = 7, ms_counter = 0\<rparr>"
  have off: "\<not> svc_running ?s" "svc_sessions ?s = []" by (simp_all add: CoordinatorService_new_def)
  have eq: "sample_started = (CoordinatorServer_new CoordinatorConfig_default \<lparr>ms_entropy = 7, ms_counter = 0\<rparr> Map.empty)
      \<lparr>crd_service := service_step ?s (OpStart 0),
       crd_server := Server_new\<lparr>ts_config := clamp_server_config ServerConfig_default, ts_listener := True, ts_running := True\<rparr>,
       crd_running := True\<rparr>"
    using start_result [OF off(1), of 0]
    by (simp add: sample_started_def coordinator_start_def CoordinatorServer_new_def CoordinatorConfig_default_def
        restore_configured_def listen_def sample_listen_def Server_new_def ServerConfig_default_def fill_sockaddr_def Let_def
        del: service_step.simps)
  show "crd_running sample_started" "svc_running (crd_service sample_started)" "svc_sessions (crd_service sample_started) = []"
    "is_some (au_epoch (svc_authority (crd_service sample_started)))"
    using start_runs [OF off(1), of 0] off(2) by (simp_all add: eq del: service_step.simps)
  have "svc_catalog (service_step s (OpStart 0)) = svc_catalog s" for s
    by (simp add: service_start_def Let_def split: option.split)
  then show "svc_catalog (crd_service sample_started) = CollectiveCatalog_new (of_nat kCollectivesMaxLive)"
    by (simp add: eq CoordinatorService_new_def del: service_step.simps)
  show "crd_sessions sample_started = []"
    "ts_running (crd_server sample_started)" "ts_listener (crd_server sample_started)" "ts_live (crd_server sample_started) = []"
    "tsc_max_sessions (ts_config (crd_server sample_started)) = kSessionsMax"
    by (simp_all add: eq CoordinatorServer_new_def Server_new_def clamp_server_config_def ServerConfig_default_def kSessionsMax_def)
qed

lemma open_given:
  assumes "svc_running s" "idm_size (svc_sessions s) < kSessionsMax"
  shows "\<exists>b. fst (open_session label now s) = Inr b \<and> sb_epoch b = au_epoch (svc_authority s)"
    "svc_running (snd (open_session label now s))" "idm_size (svc_sessions (snd (open_session label now s))) \<le> Suc (idm_size (svc_sessions s))"
  using assms by (simp_all add: open_session_def Let_def case_prod_unfold idm.entries_store)

lemma open_catalog: "svc_catalog (snd (open_session label now s)) = svc_catalog s"
  by (simp add: open_session_def Let_def case_prod_unfold)

text \<open>The entry of a new connection, and after its hello.\<close>

definition opened_state :: "u64 \<Rightarrow> SessionBinding \<Rightarrow> ConnectionState" where
  "opened_state now b = ConnectionState_default\<lparr>cs_session := sb_id b, cs_incarnation := sb_incarnation b,
     cs_epoch := sb_epoch b, cs_hellos_pending := 1, cs_opened_monotonic_ms := now\<rparr>"

lemma accept_tracks:
  assumes "svc_running (crd_service crd)" "idm_size (svc_sessions (crd_service crd)) < kSessionsMax"
    and "fst (accept_one connection (crd_server crd))" "idm_find (crd_sessions crd) connection = None"
  shows "\<exists>b. fst (open_session ''pending-handshake'' now (crd_service crd)) = Inr b \<and>
      idm_find (crd_sessions (coordinator_step crd (CrdAccept now connection))) connection = Some (opened_state now b) \<and>
      (\<forall>c. c \<noteq> connection \<longrightarrow> idm_find (crd_sessions (coordinator_step crd (CrdAccept now connection))) c = idm_find (crd_sessions crd) c)"
    "crd_service (coordinator_step crd (CrdAccept now connection)) =
       snd (open_session ''pending-handshake'' now (crd_service crd))"
    "crd_server (coordinator_step crd (CrdAccept now connection)) = snd (accept_one connection (crd_server crd))"
    "crd_running (coordinator_step crd (CrdAccept now connection)) = crd_running crd"
proof -
  obtain server where given: "accept_one connection (crd_server crd) = (True, server)"
    using assms(3) by (cases "accept_one connection (crd_server crd)") auto
  let ?crd = "crd\<lparr>crd_server := server\<rparr>"
  have eq: "coordinator_step crd (CrdAccept now connection) = fst (on_open now connection ?crd)"
    using given by (simp add: coordinator_accept_def)
  obtain b where b: "fst (open_session ''pending-handshake'' now (crd_service crd)) = Inr b"
    using open_given(1) [OF assms(1,2)] by blast
  show "\<exists>b. fst (open_session ''pending-handshake'' now (crd_service crd)) = Inr b \<and>
      idm_find (crd_sessions (coordinator_step crd (CrdAccept now connection))) connection = Some (opened_state now b) \<and>
      (\<forall>c. c \<noteq> connection \<longrightarrow> idm_find (crd_sessions (coordinator_step crd (CrdAccept now connection))) c = idm_find (crd_sessions crd) c)"
    unfolding eq using assms(4) b by (simp add: on_open_sessions opened_state_def)
  show "crd_service (coordinator_step crd (CrdAccept now connection)) =
       snd (open_session ''pending-handshake'' now (crd_service crd))"
    "crd_server (coordinator_step crd (CrdAccept now connection)) = snd (accept_one connection (crd_server crd))"
    "crd_running (coordinator_step crd (CrdAccept now connection)) = crd_running crd"
    unfolding eq using given by (simp_all add: on_open_parts)
qed

lemma greeted:
  assumes "idm_find (crd_sessions crd) connection = Some st" "\<not> cs_rejected st" "cs_hellos_pending st \<noteq> 0"
  shows "idm_find (crd_sessions (coordinator_step crd (CrdFrame env connection hello_frame))) connection =
      Some (st\<lparr>cs_hellos_pending := 0, cs_peer_label := ''peer''\<rparr>)"
    "crd_service (coordinator_step crd (CrdFrame env connection hello_frame)) = crd_service crd"
    "crd_server (coordinator_step crd (CrdFrame env connection hello_frame)) = crd_server crd"
    "crd_running (coordinator_step crd (CrdFrame env connection hello_frame)) = crd_running crd"
proof -
  have "decode_hello (fr_payload hello_frame) =
      Inr \<lparr>hello_client_label = ''peer'', hello_client_version = ''1'', hello_client_boot_monotonic_ms = 0\<rparr>"
    unfolding hello_frame_def by (simp add: hello_back kLabelBytesMax_def)
  moreover have "fr_kind hello_frame = MessageKind_value MessageKind.kHello" by (simp add: hello_frame_def)
  ultimately show "idm_find (crd_sessions (coordinator_step crd (CrdFrame env connection hello_frame))) connection =
      Some (st\<lparr>cs_hellos_pending := 0, cs_peer_label := ''peer''\<rparr>)"
    "crd_service (coordinator_step crd (CrdFrame env connection hello_frame)) = crd_service crd"
    "crd_server (coordinator_step crd (CrdFrame env connection hello_frame)) = crd_server crd"
    "crd_running (coordinator_step crd (CrdFrame env connection hello_frame)) = crd_running crd"
    using assms by (simp_all add: on_frame_def handshake_def send_typed_def Let_def)
qed

definition sample_ops :: "CoordinatorOp list" where
  "sample_ops = [CrdStart (\<lambda>_. 0) (he_io sample_env) sample_listen, CrdAccept 1 1, CrdFrame sample_env 1 hello_frame]"

definition sample_coordinator :: CoordinatorServer where
  "sample_coordinator = foldl coordinator_step
     (CoordinatorServer_new CoordinatorConfig_default \<lparr>ms_entropy = 7, ms_counter = 0\<rparr> Map.empty) sample_ops"

lemma sample_established:
  "\<exists>state. idm_find (crd_sessions sample_coordinator) 1 = Some state \<and> \<not> cs_rejected state \<and> cs_hellos_pending state = 0 \<and>
     (\<forall>kind payload. envelope_current (envelope_view (request_frame kind payload state 1)) (crd_service sample_coordinator))"
  "crd_running sample_coordinator" "svc_running (crd_service sample_coordinator)"
  "svc_catalog (crd_service sample_coordinator) = CollectiveCatalog_new (of_nat kCollectivesMaxLive)"
proof -
  let ?accepted = "coordinator_step sample_started (CrdAccept 1 1)"
  note parts = sample_started_parts
  have eq: "sample_coordinator = coordinator_step ?accepted (CrdFrame sample_env 1 hello_frame)"
    by (simp add: sample_coordinator_def sample_ops_def sample_started_def)
  have given: "fst (accept_one 1 (crd_server sample_started))" "idm_find (crd_sessions sample_started) 1 = None"
    using parts by (simp_all add: accept_one_def kSessionsMax_def)
  have size: "idm_size (svc_sessions (crd_service sample_started)) < kSessionsMax" using parts by (simp add: kSessionsMax_def)
  note accept = accept_tracks [OF parts(2) size given, of 1]
  from accept(1) obtain b where b: "fst (open_session ''pending-handshake'' 1 (crd_service sample_started)) = Inr b"
    "idm_find (crd_sessions ?accepted) 1 = Some (opened_state 1 b)" by blast
  have st: "\<not> cs_rejected (opened_state 1 b)" "cs_hellos_pending (opened_state 1 b) \<noteq> 0"
    by (simp_all add: opened_state_def ConnectionState_default_def)
  note greet = greeted [OF b(2) st, of sample_env]
  from open_accepts [OF parts(2,3,4), of "''pending-handshake''" 1] b(1)
  have "envelope_current (first_frame b) (crd_service ?accepted)" using accept(2) by simp
  moreover have "envelope_current (envelope_view (request_frame kind payload st 1)) s \<longleftrightarrow> envelope_current (first_frame b) s"
    if "cs_session st = sb_id b" "cs_incarnation st = sb_incarnation b" "cs_epoch st = sb_epoch b" for st s kind payload
    using that by (simp add: envelope_current_def envelope_view_def request_frame_def first_frame_def)
  ultimately show "\<exists>state. idm_find (crd_sessions sample_coordinator) 1 = Some state \<and> \<not> cs_rejected state \<and> cs_hellos_pending state = 0 \<and>
     (\<forall>kind payload. envelope_current (envelope_view (request_frame kind payload state 1)) (crd_service sample_coordinator))"
    using greet(1,2) st(1) unfolding eq
    by (intro exI [of _ "(opened_state 1 b)\<lparr>cs_hellos_pending := 0, cs_peer_label := ''peer''\<rparr>"])
      (simp add: opened_state_def del: coordinator_step.simps)
  show "crd_running sample_coordinator" unfolding eq using greet(4) accept(4) parts(1) by (simp del: coordinator_step.simps)
  show "svc_running (crd_service sample_coordinator)"
    "svc_catalog (crd_service sample_coordinator) = CollectiveCatalog_new (of_nat kCollectivesMaxLive)"
    unfolding eq using greet(2) accept(2) parts(2,10) open_given(2) [OF parts(2) size] open_catalog
    by (simp_all del: coordinator_step.simps)
qed

lemma sample_admitted:
  "\<exists>state. idm_find (crd_sessions sample_coordinator) 1 = Some state \<and> admitted 1 (request_frame MessageKind.kHello [] state 1) sample_coordinator \<and>
     crd_service (fst (on_frame sample_env 1 (request_frame MessageKind.kHello [] state 1) sample_coordinator)) \<noteq> crd_service sample_coordinator"
proof -
  from sample_established(1) obtain state where st: "idm_find (crd_sessions sample_coordinator) 1 = Some state"
    "\<not> cs_rejected state" "cs_hellos_pending state = 0"
    "envelope_current (envelope_view (request_frame MessageKind.kHello [] state 1)) (crd_service sample_coordinator)" by blast
  let ?frame = "request_frame MessageKind.kHello [] state 1"
  have ok: "admitted 1 ?frame sample_coordinator" using st by (auto simp: admitted_def owned_def request_frame_def)
  have kind: "MessageKind_cast (fr_kind ?frame) = MessageKind.kHello"
    by (simp add: request_frame_def MessageKind_cast_def)
  have "crd_service (fst (on_frame sample_env 1 ?frame sample_coordinator)) =
      session_advanced (envelope_view ?frame) (he_now sample_env) (crd_service sample_coordinator)"
    using ok st(1) kind by (simp add: on_frame_admitted Let_def protocol_message_requires_request_def dispatch_def validated_def)
  moreover have "session_advanced view now s \<noteq> s" if "envelope_current view s" for view now s
  proof
    assume same: "session_advanced view now s = s"
    from that obtain b where b: "idm_find (svc_sessions s) (view_session view) = Some b"
      "sb_last_frame_sequence b < view_frame_sequence view" by (auto simp: envelope_current_def)
    have "idm_find (svc_sessions (session_advanced view now s)) (view_session view) = Some
        (b\<lparr>sb_last_frame_sequence := view_frame_sequence view, sb_last_frame_monotonic_ms := now,
           sb_frames_received := sb_frames_received b + 1\<rparr>)" using b(1) by (simp add: session_advanced_def Let_def)
    with same b have "sb_last_frame_sequence b = view_frame_sequence view"
      by (auto dest: arg_cong [where f = sb_last_frame_sequence])
    with b(2) show False by simp
  qed
  ultimately show ?thesis using st ok by (intro exI [of _ state]) simp
qed


section \<open>Sessions belong to one connection\<close>

definition conn_ledger :: "mint_source \<Rightarrow> nat \<Rightarrow> CoordinatorServer \<Rightarrow> bool" where
  "conn_ledger ms m crd \<longleftrightarrow>
     svc_mint (crd_service crd) = ms\<lparr>ms_counter := ms_counter ms + of_nat m\<rparr> \<and>
     (\<forall>c st. idm_find (crd_sessions crd) c = Some st \<longrightarrow> \<not> cs_rejected st \<longrightarrow>
        drawn_pair ms m (cs_session st) (cs_incarnation st)) \<and>
     (\<forall>c c' st st'. idm_find (crd_sessions crd) c = Some st \<longrightarrow> idm_find (crd_sessions crd) c' = Some st' \<longrightarrow>
        \<not> cs_rejected st \<longrightarrow> \<not> cs_rejected st' \<longrightarrow>
        cs_session st = cs_session st' \<and> cs_incarnation st = cs_incarnation st' \<longrightarrow> c = c')"

definition fewer_connections :: "CoordinatorServer \<Rightarrow> CoordinatorServer \<Rightarrow> bool" where
  "fewer_connections crd crd' \<longleftrightarrow>
     (\<forall>c st'. idm_find (crd_sessions crd') c = Some st' \<longrightarrow>
        (\<exists>st. idm_find (crd_sessions crd) c = Some st \<and> conn_identity st = conn_identity st'))"

lemma serves_mint: "serves n s t \<Longrightarrow> minted_within (4 * n) (svc_mint s) (svc_mint t)"
  unfolding serves_def using service_run_mint minted_within_mono by (metis mult_le_mono2)

lemma same_fewer:
  assumes "same_connections crd crd'"
  shows "fewer_connections crd crd'"
  unfolding fewer_connections_def
proof (intro allI impI)
  fix c st'
  assume "idm_find (crd_sessions crd') c = Some st'"
  with assms have "map_option conn_identity (idm_find (crd_sessions crd) c) = Some (conn_identity st')"
    by (metis option.map(2) same_connections_def)
  then show "\<exists>st. idm_find (crd_sessions crd) c = Some st \<and> conn_identity st = conn_identity st'" by auto
qed

lemma step_fewer:
  assumes "idm_wf (crd_sessions crd)" "\<And>now connection. op \<noteq> CrdAccept now connection"
  shows "fewer_connections crd (coordinator_step crd op)"
proof (cases op)
  case (CrdStart clock io os)
  then show ?thesis using started(2) [of clock io os crd] by (auto simp: fewer_connections_def split: option.splits)
next
  case (CrdStop now io)
  then show ?thesis using stopped(4) [OF _ assms(1), of now io]
    by (cases "crd_running crd") (auto simp: fewer_connections_def coordinator_stop_def)
next
  case (CrdFrame env connection frame)
  then show ?thesis using same_fewer [OF frame_same] by simp
next
  case (CrdEnd now connection)
  then show ?thesis using assms(1)
    by (auto simp: fewer_connections_def coordinator_end_def Let_def on_close_parts split: if_splits)
qed (use assms(2) in \<open>auto simp: fewer_connections_def coordinator_flush_def coordinator_restore_def case_prod_unfold\<close>)

lemma fewer_ledger:
  assumes "conn_ledger ms m crd" "fewer_connections crd crd'"
    "minted_within k (svc_mint (crd_service crd)) (svc_mint (crd_service crd'))"
  shows "\<exists>n\<le>m + k. conn_ledger ms n crd'"
proof -
  from assms(1,3) obtain i where i: "i \<le> k" "svc_mint (crd_service crd') = ms\<lparr>ms_counter := ms_counter ms + of_nat (m + i)\<rparr>"
    by (auto simp: conn_ledger_def minted_within_def add.assoc)
  have find: "\<exists>st. idm_find (crd_sessions crd) c = Some st \<and> cs_session st = cs_session st' \<and>
      cs_incarnation st = cs_incarnation st' \<and> cs_rejected st = cs_rejected st'"
    if "idm_find (crd_sessions crd') c = Some st'" for c st'
    using assms(2) that unfolding fewer_connections_def conn_identity_def by fastforce
  have "conn_ledger ms (m + i) crd'" unfolding conn_ledger_def
  proof (intro conjI allI impI)
    fix c st'
    assume "idm_find (crd_sessions crd') c = Some st'" "\<not> cs_rejected st'"
    with find [of c st'] assms(1) have "drawn_pair ms m (cs_session st') (cs_incarnation st')"
      unfolding conn_ledger_def by metis
    then show "drawn_pair ms (m + i) (cs_session st') (cs_incarnation st')" by (rule drawn_pair_mono) simp
  next
    fix c c' st st'
    assume "idm_find (crd_sessions crd') c = Some st" "idm_find (crd_sessions crd') c' = Some st'"
      "\<not> cs_rejected st" "\<not> cs_rejected st'" "cs_session st = cs_session st' \<and> cs_incarnation st = cs_incarnation st'"
    with find [of c st] find [of c' st'] assms(1) show "c = c'" unfolding conn_ledger_def by metis
  qed (rule i(2))
  with i(1) show ?thesis by (intro exI [of _ "m + i"]) simp
qed

lemma opened_pair:
  assumes "fst (open_session label now s) = Inr b"
  shows "sb_id b = minted (ms_entropy (svc_mint s)) (ms_counter (svc_mint s))"
    "sb_incarnation b = minted (ms_entropy (svc_mint s)) (ms_counter (svc_mint s) + 1)"
    "svc_mint (snd (open_session label now s)) = (svc_mint s)\<lparr>ms_counter := ms_counter (svc_mint s) + 2\<rparr>"
  using assms by (auto simp: open_session_def Let_def case_prod_unfold split: if_splits)

lemma open_ledger:
  assumes "conn_ledger ms m crd" "m < 2 ^ 64"
  shows "\<exists>n\<le>m + 4. conn_ledger ms n (fst (on_open now connection crd))"
proof (cases "idm_find (crd_sessions crd) connection = None \<and>
    (\<exists>b. fst (open_session ''pending-handshake'' now (crd_service crd)) = Inr b)")
  case False
  let ?crd = "fst (on_open now connection crd)"
  have "fewer_connections crd ?crd \<or> (\<exists>status. fst (open_session ''pending-handshake'' now (crd_service crd)) = Inl status)"
    using False by (cases "fst (open_session ''pending-handshake'' now (crd_service crd))")
      (auto simp: fewer_connections_def on_open_sessions)
  then show ?thesis
  proof
    assume "fewer_connections crd ?crd"
    from fewer_ledger [OF assms(1) this, of 4] service_step_mint [of "crd_service crd" "OpOpenSession ''pending-handshake'' now"]
    show ?thesis by (simp add: on_open_parts del: service_step.simps)
  next
    assume "\<exists>status. fst (open_session ''pending-handshake'' now (crd_service crd)) = Inl status"
    then obtain status where refused: "fst (open_session ''pending-handshake'' now (crd_service crd)) = Inl status" by blast
    then have "snd (open_session ''pending-handshake'' now (crd_service crd)) = crd_service crd"
      by (auto simp: open_session_def Let_def case_prod_unfold split: if_splits)
    then have "conn_ledger ms m ?crd" using assms(1) refused
      unfolding conn_ledger_def by (simp add: on_open_parts on_open_sessions)
    then show ?thesis by (intro exI [of _ m]) simp
  qed
next
  case True
  let ?crd = "fst (on_open now connection crd)"
  let ?e = "ms_entropy ms" and ?k = "ms_counter ms + of_nat m"
  from True obtain b where b: "fst (open_session ''pending-handshake'' now (crd_service crd)) = Inr b" by blast
  have mint: "svc_mint (crd_service crd) = ms\<lparr>ms_counter := ?k\<rparr>" using assms(1) by (simp add: conn_ledger_def)
  have pair: "sb_id b = minted ?e ?k" "sb_incarnation b = minted ?e (?k + 1)"
    "svc_mint (crd_service ?crd) = ms\<lparr>ms_counter := ms_counter ms + of_nat (m + 2)\<rparr>"
    using opened_pair [OF b] mint by (simp_all add: on_open_parts add.assoc)
  have fresh: "\<not> (cs_session st = sb_id b \<and> cs_incarnation st = sb_incarnation b)"
    if "idm_find (crd_sessions crd) c = Some st" "\<not> cs_rejected st" for c st
    using that assms drawn_later [of ms m] pair(1,2) unfolding conn_ledger_def by metis
  have drawn: "drawn_pair ms (m + 2) (sb_id b) (sb_incarnation b)" unfolding drawn_pair_def
    by (intro exI [of _ m]) (simp add: pair)
  have old: "drawn_pair ms (m + 2) (cs_session st) (cs_incarnation st)"
    if "idm_find (crd_sessions crd) c = Some st" "\<not> cs_rejected st" for c st
    using that assms(1) drawn_pair_mono [of ms m _ _ "m + 2"] unfolding conn_ledger_def by simp
  have distinct: "c = c'" if "idm_find (crd_sessions crd) c = Some st" "idm_find (crd_sessions crd) c' = Some st'"
      "\<not> cs_rejected st" "\<not> cs_rejected st'" "cs_session st = cs_session st'" "cs_incarnation st = cs_incarnation st'"
    for c c' st st' using that assms(1) unfolding conn_ledger_def by metis
  have find: "c = connection \<and> cs_session st = sb_id b \<and> cs_incarnation st = sb_incarnation b \<or>
      idm_find (crd_sessions crd) c = Some st" if "idm_find (crd_sessions ?crd) c = Some st" for c st
    using that b by (auto simp: on_open_sessions split: if_splits)
  have "conn_ledger ms (m + 2) ?crd" unfolding conn_ledger_def
  proof (intro conjI allI impI)
    fix c st
    assume "idm_find (crd_sessions ?crd) c = Some st" "\<not> cs_rejected st"
    then show "drawn_pair ms (m + 2) (cs_session st) (cs_incarnation st)" using find [of c st] old [of c st] drawn by metis
  next
    fix c c' st st'
    assume "idm_find (crd_sessions ?crd) c = Some st" "idm_find (crd_sessions ?crd) c' = Some st'"
      "\<not> cs_rejected st" "\<not> cs_rejected st'" "cs_session st = cs_session st' \<and> cs_incarnation st = cs_incarnation st'"
    then show "c = c'" using find [of c st] find [of c' st'] fresh [of c st] fresh [of c' st'] distinct [of c st c' st']
      by metis
  qed (rule pair(3))
  then show ?thesis by (intro exI [of _ "m + 2"]) simp
qed

lemma ledger_coordinator_step:
  assumes "coordinator_inv crd" "conn_ledger ms m crd" "m < 2 ^ 64"
  shows "\<exists>n\<le>m + 160. conn_ledger ms n (coordinator_step crd op)"
proof (cases "\<exists>now connection. op = CrdAccept now connection")
  case True
  then obtain now connection where op: "op = CrdAccept now connection" by blast
  show ?thesis
  proof (cases "accept_one connection (crd_server crd)")
    case (Pair given server)
    let ?crd = "crd\<lparr>crd_server := server\<rparr>"
    have ledger: "conn_ledger ms m ?crd" using assms(2) by (simp add: conn_ledger_def)
    from open_ledger [OF this assms(3), of now connection] obtain n where
      n: "n \<le> m + 4" "conn_ledger ms n (fst (on_open now connection ?crd))" by blast
    show ?thesis
    proof (cases given)
      case True
      with n op Pair show ?thesis by (intro exI [of _ n]) (simp add: coordinator_accept_def)
    next
      case False
      with ledger op Pair show ?thesis by (intro exI [of _ m]) (simp add: coordinator_accept_def)
    qed
  qed
next
  case False
  have "idm_wf (crd_sessions crd)" using assms(1) by (simp add: coordinator_inv_def connections_inv_def)
  then have "fewer_connections crd (coordinator_step crd op)" using False by (intro step_fewer) blast+
  from fewer_ledger [OF assms(2) this serves_mint [OF coordinator_step_serves [OF assms(1)]]] show ?thesis by simp
qed

lemma ledger_coordinator_run:
  assumes "coordinator_inv crd" "conn_ledger ms m crd" "m + 160 * length ops < 2 ^ 64"
  shows "\<exists>n. conn_ledger ms n (foldl coordinator_step crd ops)"
  using assms
proof (induction ops arbitrary: crd m)
  case (Cons op ops)
  have "m < 2 ^ 64" using Cons.prems(3) by simp
  from ledger_coordinator_step [OF Cons.prems(1,2) this] obtain n where
    n: "n \<le> m + 160" "conn_ledger ms n (coordinator_step crd op)" by blast
  have "n + 160 * length ops < 2 ^ 64" using n(1) Cons.prems(3) by simp
  from Cons.IH [OF coordinator_run.step_inv [OF Cons.prems(1)] n(2) this] show ?case by simp
qed auto

lemma ledger_new_coordinator: "conn_ledger ms 0 (CoordinatorServer_new config ms files)"
  by (simp add: conn_ledger_def CoordinatorServer_new_def CoordinatorService_new_def)

text \<open>
  C6: No two connections ever own the same session: over any run, the pairs of session and incarnation minted for
  two different tracked connections differ, so a frame that names the pair of one is refused on every other.
\<close>
theorem sessions_not_shared:
  assumes "crd = foldl coordinator_step (CoordinatorServer_new config ms files) ops" "160 * length ops < 2 ^ 64"
    and "idm_find (crd_sessions crd) c = Some st" "idm_find (crd_sessions crd) c' = Some st'" "c \<noteq> c'"
    and "\<not> cs_rejected st" "\<not> cs_rejected st'"
  shows "(cs_session st, cs_incarnation st) \<noteq> (cs_session st', cs_incarnation st')"
proof -
  have "0 + 160 * length ops < 2 ^ 64" using assms(2) by simp
  from ledger_coordinator_run [OF coordinator_inv_new [of config ms files] ledger_new_coordinator this] obtain n where
    "conn_ledger ms n crd" using assms(1) by blast
  with assms(3-7) show ?thesis unfolding conn_ledger_def by blast
qed


theorem sessions_not_shared_witness:
  "let crd = foldl coordinator_step
         (CoordinatorServer_new CoordinatorConfig_default \<lparr>ms_entropy = 7, ms_counter = 0\<rparr> Map.empty)
         [CrdStart (\<lambda>_. 0) (he_io sample_env) sample_listen, CrdAccept 1 1, CrdAccept 2 2] in
   \<exists>st st'. idm_find (crd_sessions crd) 1 = Some st \<and> idm_find (crd_sessions crd) 2 = Some st' \<and>
     (cs_session st, cs_incarnation st) \<noteq> (cs_session st', cs_incarnation st')"
proof -
  let ?one = "coordinator_step sample_started (CrdAccept 1 1)"
  let ?two = "coordinator_step ?one (CrdAccept 2 2)"
  let ?ops = "[CrdStart (\<lambda>_. 0) (he_io sample_env) sample_listen, CrdAccept 1 1, CrdAccept 2 2]"
  let ?new = "CoordinatorServer_new CoordinatorConfig_default \<lparr>ms_entropy = 7, ms_counter = 0\<rparr> Map.empty"
  note parts = sample_started_parts
  have run: "foldl coordinator_step ?new ?ops = ?two" by (simp add: sample_started_def)
  have given: "fst (accept_one 1 (crd_server sample_started))" "idm_find (crd_sessions sample_started) 1 = None"
    and size: "idm_size (svc_sessions (crd_service sample_started)) < kSessionsMax"
    using parts by (simp_all add: accept_one_def kSessionsMax_def)
  note first = accept_tracks [OF parts(2) size given, of 1]
  from first(1) obtain b where b: "idm_find (crd_sessions ?one) 1 = Some (opened_state 1 b)"
    "idm_find (crd_sessions ?one) 2 = None" using parts(5) by (auto simp del: coordinator_step.simps)
  have given2: "fst (accept_one 2 (crd_server ?one))" using parts first(3) by (simp add: accept_one_def kSessionsMax_def del: coordinator_step.simps)
  have running2: "svc_running (crd_service ?one)" "idm_size (svc_sessions (crd_service ?one)) < kSessionsMax"
    using open_given(2,3) [OF parts(2) size, of "''pending-handshake''" 1] first(2) parts(3)
    by (simp_all add: kSessionsMax_def del: coordinator_step.simps)
  from accept_tracks(1) [OF running2 given2 b(2), of 2] obtain b' where
    b': "idm_find (crd_sessions ?two) 2 = Some (opened_state 2 b')" "idm_find (crd_sessions ?two) 1 = Some (opened_state 1 b)"
    using b(1) by (auto simp del: coordinator_step.simps)
  have len: "160 * length ?ops < 2 ^ 64" by simp
  have live: "\<not> cs_rejected (opened_state 1 b)" "\<not> cs_rejected (opened_state 2 b')"
    by (simp_all add: opened_state_def ConnectionState_default_def)
  from sessions_not_shared [OF run [symmetric] len b'(2,1) _ live] b' show ?thesis
    unfolding run Let_def by (intro exI conjI) (rule b'(2), rule b'(1), simp)
qed


section \<open>Who can act, and how often\<close>

text \<open>
  C2: A frame acts at most once. If handling it changed the service or the files, then whatever happens
  afterwards, on any connection, a frame with the same session and incarnation and a sequence that is not
  higher leaves the service and the files as they are: a replay, a duplicate from the network or a copy sent
  on another connection has no effect. The bound keeps the identity counter from wrapping.
\<close>
theorem frame_acts_once:
  assumes "crd = foldl coordinator_step (CoordinatorServer_new config ms files) before"
    and "160 * (length before + length after + 1) < 2 ^ 64"
    and "crd' = fst (on_frame env connection frame crd)"
    and "crd_service crd' \<noteq> crd_service crd \<or> crd_files crd' \<noteq> crd_files crd"
    and "later = foldl coordinator_step crd' after"
    and "env_session (fr_envelope again) = env_session (fr_envelope frame)"
    and "env_incarnation (fr_envelope again) = env_incarnation (fr_envelope frame)"
    and "env_frame_sequence (fr_envelope again) \<le> env_frame_sequence (fr_envelope frame)"
  shows "crd_service (fst (on_frame env' connection' again later)) = crd_service later \<and>
    crd_files (fst (on_frame env' connection' again later)) = crd_files later"
proof -
  have "admitted connection frame crd" using assms(3,4) frame_refused [of connection frame crd env] by blast
  from admitted_stays_spent [OF assms(1) this assms(2)] obtain n where
    "frame_spent ms (envelope_view frame) n (crd_service later)" using assms(3,5) by blast
  from spent_refuses [OF this assms(6,7,8)] show ?thesis using frame_refused by blast
qed

theorem frame_acts_once_witness:
  "\<exists>frame. let crd' = fst (on_frame sample_env 1 frame sample_coordinator);
        later = foldl coordinator_step crd' [CrdEnd 8 1, CrdAccept 9 2] in
     crd_service crd' \<noteq> crd_service sample_coordinator \<and>
     crd_service (fst (on_frame sample_env 2 frame later)) = crd_service later \<and>
     crd_files (fst (on_frame sample_env 2 frame later)) = crd_files later"
proof -
  from sample_admitted obtain state where
    changed: "crd_service (fst (on_frame sample_env 1 (request_frame MessageKind.kHello [] state 1) sample_coordinator)) \<noteq> crd_service sample_coordinator"
    by blast
  have len: "160 * (length sample_ops + length [CrdEnd 8 1, CrdAccept 9 2] + 1) < 2 ^ 64" by (simp add: sample_ops_def)
  from frame_acts_once [OF sample_coordinator_def len refl disjI1 [OF changed] refl refl refl order_refl, of sample_env 2] changed
  show ?thesis by (intro exI [of _ "request_frame MessageKind.kHello [] state 1"]) (simp only: Let_def simp_thms)
qed

text \<open>
  C3: Only the owner of a session acts through it. A frame changes the service or the files only when its
  connection is tracked, was not rejected, has completed its hello, and the frame names exactly the session
  and the incarnation that were minted for that connection, with an envelope that the service accepts as
  current. In every other case the service and the files stay as they are.
\<close>
theorem only_owner_acts:
  assumes "crd_service (fst (on_frame env connection frame crd)) \<noteq> crd_service crd \<or>
    crd_files (fst (on_frame env connection frame crd)) \<noteq> crd_files crd"
  shows "\<exists>state. idm_find (crd_sessions crd) connection = Some state \<and> \<not> cs_rejected state \<and>
    cs_hellos_pending state = 0 \<and> env_session (fr_envelope frame) = cs_session state \<and>
    env_incarnation (fr_envelope frame) = cs_incarnation state \<and>
    is_ok (fst (validate_envelope (envelope_view frame) (he_now env) [] (crd_service crd)))"
proof -
  have "admitted connection frame crd" using assms frame_refused [of connection frame crd env] by blast
  then show ?thesis by (auto simp: admitted_def owned_def validate_admits)
qed

theorem only_owner_acts_witness:
  "\<exists>frame state. idm_find (crd_sessions sample_coordinator) 1 = Some state \<and>
     env_session (fr_envelope frame) = cs_session state \<and>
     crd_service (fst (on_frame sample_env 1 frame sample_coordinator)) \<noteq> crd_service sample_coordinator"
proof -
  from sample_admitted obtain state where
    changed: "crd_service (fst (on_frame sample_env 1 (request_frame MessageKind.kHello [] state 1) sample_coordinator)) \<noteq> crd_service sample_coordinator"
    by blast
  from only_owner_acts [OF disjI1 [OF changed]] changed show ?thesis by blast
qed


text \<open>
  C7: The coordinator's state stays well formed over every run: the service keeps its invariant, no more sessions
  are live than \<open>kSessionsMax\<close>, the handler tracks exactly the connections that are live, each once, the
  coordinator runs exactly when its transport does, and a tracked connection has a session and an incarnation
  unless it was rejected, in which case it has none.
\<close>
theorem coordinator_invariant:
  "let crd = foldl coordinator_step (CoordinatorServer_new config ms files) ops in
   service_inv (crd_service crd) \<and>
   tracked_sessions crd \<le> server_session_count (crd_server crd) \<and> server_session_count (crd_server crd) \<le> kSessionsMax \<and>
   connections_inv crd"
  using coordinator_run.run_inv [OF coordinator_inv_new, of config ms files ops]
    tracked_bounded [of "foldl coordinator_step (CoordinatorServer_new config ms files) ops"]
  by (simp add: Let_def coordinator_inv_def)

lemma finish_keeps [simp]:
  "svc_running (fst (snd (finish_write io now begun files))) = svc_running (snd begun)"
  "svc_sessions (fst (snd (finish_write io now begun files))) = svc_sessions (snd begun)"
  by (simp_all add: finish_write_def flush_end_def Let_def split: prod.split sum.split)

lemma service_stopped:
  assumes "sessions_inv s"
  shows "\<not> svc_running (fst (snd (service_stop io now s files)))" "svc_sessions (fst (snd (service_stop io now s files))) = []"
  using assms by (auto simp: service_stop_def stop_begin_def Let_def sessions_inv_def)

lemma close_without_sessions:
  "svc_sessions (crd_service crd) = [] \<Longrightarrow> crd_service (close_connections now cs crd) = crd_service crd"
proof (induction cs arbitrary: crd)
  case (Cons c cs)
  then have "crd_service (on_close now c crd) = crd_service crd"
    by (simp add: on_close_def close_session_def Let_def split: option.split)
  with Cons show ?case by (simp add: close_connections_def)
qed (simp add: close_connections_def)

lemma stop_service:
  assumes "crd_running crd" "sessions_inv (crd_service crd)"
  shows "crd_service (snd (coordinator_stop now io crd)) = fst (snd (service_stop io now (crd_service crd) (crd_files crd)))"
  using assms close_without_sessions service_stopped(2) [OF assms(2)]
  by (simp add: coordinator_stop_def Let_def case_prod_unfold)

text \<open>
  C9: Stopping a running coordinator leaves nothing behind: it is not running and neither is its transport or its
  service, no connection is tracked, no session is live, and the service has no session left.
\<close>
theorem stop_releases_everything:
  assumes "crd = foldl coordinator_step (CoordinatorServer_new config ms files) ops" "crd_running crd"
  shows "let stopped = snd (coordinator_stop now io crd) in
    \<not> crd_running stopped \<and> \<not> ts_running (crd_server stopped) \<and> \<not> svc_running (crd_service stopped) \<and>
    tracked_sessions stopped = 0 \<and> server_session_count (crd_server stopped) = 0 \<and> session_count (crd_service stopped) = 0"
proof -
  let ?stopped = "snd (coordinator_stop now io crd)"
  have inv: "sessions_inv (crd_service crd)" "idm_wf (crd_sessions crd)" "ts_running (crd_server crd)"
    using coordinator_run.run_inv [OF coordinator_inv_new, of config ms files ops] assms
    by (simp_all add: coordinator_inv_def service_inv_def connections_inv_def)
  have "tracked_sessions ?stopped = 0"
    using stopped(4) [OF assms(2) inv(2), of now io] by (simp add: tracked_sessions_def idm_size_card)
  then show ?thesis
    using stopped(2,3) [OF assms(2), of now io] service_stopped [OF inv(1)] stop_service [OF assms(2) inv(1)] inv(3)
    by (simp add: Let_def server_shutdown_def server_session_count_def session_count_def idm_size_def)
qed

theorem stop_releases_everything_witness:
  "crd_running sample_coordinator \<and> tracked_sessions (snd (coordinator_stop 9 (he_io sample_env) sample_coordinator)) = 0"
  using stop_releases_everything [OF sample_coordinator_def sample_established(2), of 9 "he_io sample_env"]
    sample_established(2) by (simp add: Let_def)

end
