(* ===== verification/CTF_CoordinatorWire.thy ===== *)
theory CTF_CoordinatorWire
  imports CTF_CoordinatorSafety
begin

unbundle bit_operations_syntax

text \<open>
  Requests and their answers as bytes: what a peer reads when it asks for a decision, and three limits of the
  answers, which do not depend on the disk, do not fit every decision, and promise to turn work away that the
  coordinator goes on accepting.
\<close>

section \<open>What an answer depends on\<close>

text \<open>The socket, the connection's entry and the next sequence number: nothing else of the state.\<close>

lemma respond_output:
  "he_socket env' = he_socket env \<Longrightarrow> he_answers env' = he_answers env \<Longrightarrow>
   crd_next_sequence crd' = crd_next_sequence crd \<Longrightarrow>
   snd (respond env' state kind request body crd') = snd (respond env state kind request body crd)"
  by (simp add: respond_def Let_def case_prod_unfold)

lemma error_output:
  "he_socket env' = he_socket env \<Longrightarrow> he_answers env' = he_answers env \<Longrightarrow>
   crd_sessions crd' = crd_sessions crd \<Longrightarrow> crd_next_sequence crd' = crd_next_sequence crd \<Longrightarrow>
   snd (send_error_with_reasons env' connection request code message reasons crd') =
   snd (send_error_with_reasons env connection request code message reasons crd)"
  by (cases "idm_find (crd_sessions crd) connection")
    (simp add: send_error_with_reasons.simps, auto simp: error_value intro: respond_output)

lemma outputs:
  assumes "he_socket env' = he_socket env" "he_answers env' = he_answers env"
    "crd_sessions crd' = crd_sessions crd" "crd_next_sequence crd' = crd_next_sequence crd"
  shows "snd (send_error env' connection request code message crd') = snd (send_error env connection request code message crd)"
    "snd (send_typed env' connection state kind request encoded crd') = snd (send_typed env connection state kind request encoded crd)"
    "snd (reject env' connection request status crd') = snd (reject env connection request status crd)"
  using assms by (auto simp: send_error_def send_typed_def reject_def intro!: error_output respond_output split: sum.split)

lemma typed_parts [simp]:
  "crd_service (fst (send_typed env connection state kind request encoded crd)) = crd_service crd"
  "crd_files (fst (send_typed env connection state kind request encoded crd)) = crd_files crd"
  "crd_service (fst (reject env connection frame status crd)) = crd_service crd"
  "crd_files (fst (reject env connection frame status crd)) = crd_files crd"
  by (simp_all add: send_typed_def reject_def split: sum.split)

lemmas handler_defs = handle_heartbeat_def handle_register_def handle_begin_attempt_def handle_plan_def
  handle_lifecycle_def handle_evidence_def handle_inspect_def handle_explain_def handle_install_policy_def handle_shutdown_def

lemma disk_outputs [simp]:
  "snd (send_error (env\<lparr>he_io := io\<rparr>) connection request code message crd) = snd (send_error env connection request code message crd)"
  "snd (send_error_with_reasons (env\<lparr>he_io := io\<rparr>) connection request code message reasons crd) =
     snd (send_error_with_reasons env connection request code message reasons crd)"
  "snd (send_typed (env\<lparr>he_io := io\<rparr>) connection state kind request encoded crd) =
     snd (send_typed env connection state kind request encoded crd)"
  "snd (reject (env\<lparr>he_io := io\<rparr>) connection request status crd) = snd (reject env connection request status crd)"
  "snd (send_typed env connection state kind request encoded (persist_if_configured (env\<lparr>he_io := io\<rparr>) crd)) =
     snd (send_typed env connection state kind request encoded (persist_if_configured env crd))"
  by (rule outputs error_output; simp)+

lemma disk_clock: "he_later (env\<lparr>he_io := io\<rparr>) = he_later env"
  by simp

lemma handler_outputs [simp]:
  "snd (handle_heartbeat (env\<lparr>he_io := io\<rparr>) connection state frame ctx crd) = snd (handle_heartbeat env connection state frame ctx crd)"
  "snd (handle_register (env\<lparr>he_io := io\<rparr>) connection state frame ctx crd) = snd (handle_register env connection state frame ctx crd)"
  "snd (handle_begin_attempt (env\<lparr>he_io := io\<rparr>) connection state frame ctx crd) =
     snd (handle_begin_attempt env connection state frame ctx crd)"
  "snd (handle_plan (env\<lparr>he_io := io\<rparr>) connection state frame ctx crd) = snd (handle_plan env connection state frame ctx crd)"
  "snd (handle_lifecycle (env\<lparr>he_io := io\<rparr>) connection state frame kind ctx crd) =
     snd (handle_lifecycle env connection state frame kind ctx crd)"
  "snd (handle_evidence (env\<lparr>he_io := io\<rparr>) connection state frame ctx crd) = snd (handle_evidence env connection state frame ctx crd)"
  "snd (handle_inspect (env\<lparr>he_io := io\<rparr>) connection state frame crd) = snd (handle_inspect env connection state frame crd)"
  "snd (handle_explain (env\<lparr>he_io := io\<rparr>) connection state frame crd) = snd (handle_explain env connection state frame crd)"
  "snd (handle_install_policy (env\<lparr>he_io := io\<rparr>) connection state frame ctx crd) =
     snd (handle_install_policy env connection state frame ctx crd)"
  "snd (handle_shutdown (env\<lparr>he_io := io\<rparr>) connection state frame crd) = snd (handle_shutdown env connection state frame crd)"
  by (simp_all only: handler_defs Let_def case_prod_unfold snd_conv disk_clock disk_outputs if_distrib [of snd]
      sum.case_distrib [of snd])

lemma dispatch_output:
  "snd (dispatch (env\<lparr>he_io := io\<rparr>) connection frame kind ctx crd) = snd (dispatch env connection frame kind ctx crd)"
  by (cases "idm_find (crd_sessions crd) connection"; cases kind) (simp_all add: dispatch_def)

text \<open>
  C39: What a peer is told does not depend on the disk: for every frame, the bytes that go out are the same whether
  opening, writing, flushing, closing or renaming the snapshot succeeds or fails. A coordinator that persists
  on every mutation therefore acknowledges a mutation in the same words when the flush has failed, and an
  acknowledgement says nothing about durability.
\<close>
theorem answers_ignore_disk:
  "snd (on_frame (env\<lparr>he_io := io\<rparr>) connection frame crd) = snd (on_frame env connection frame crd)"
  by (simp add: on_frame_def handshake_def Let_def case_prod_unfold dispatch_output split: option.split sum.split)


section \<open>A shutdown request\<close>

text \<open>States that differ in nothing but the request to shut down.\<close>

definition requested :: "bool \<Rightarrow> CoordinatorServer \<Rightarrow> CoordinatorServer" where
  "requested flag crd = crd\<lparr>crd_shutdown_requested := flag\<rparr>"

lemma requested_parts [simp]:
  "crd_sessions (requested flag crd) = crd_sessions crd" "crd_service (requested flag crd) = crd_service crd"
  "crd_files (requested flag crd) = crd_files crd" "crd_config (requested flag crd) = crd_config crd"
  "crd_next_sequence (requested flag crd) = crd_next_sequence crd"
  "crd_stale_frames (requested flag crd) = crd_stale_frames crd"
  "crd_malformed_frames (requested flag crd) = crd_malformed_frames crd"
  "crd_protocol_violations (requested flag crd) = crd_protocol_violations crd"
  "(requested flag crd)\<lparr>crd_service := svc\<rparr> = requested flag (crd\<lparr>crd_service := svc\<rparr>)"
  "(requested flag crd)\<lparr>crd_files := files\<rparr> = requested flag (crd\<lparr>crd_files := files\<rparr>)"
  "(requested flag crd)\<lparr>crd_sessions := sessions\<rparr> = requested flag (crd\<lparr>crd_sessions := sessions\<rparr>)"
  "(requested flag crd)\<lparr>crd_stale_frames := n\<rparr> = requested flag (crd\<lparr>crd_stale_frames := n\<rparr>)"
  "(requested flag crd)\<lparr>crd_malformed_frames := n\<rparr> = requested flag (crd\<lparr>crd_malformed_frames := n\<rparr>)"
  "(requested flag crd)\<lparr>crd_protocol_violations := n\<rparr> = requested flag (crd\<lparr>crd_protocol_violations := n\<rparr>)"
  "(requested flag crd)\<lparr>crd_shutdown_requested := b\<rparr> = crd\<lparr>crd_shutdown_requested := b\<rparr>"
  "requested flag (requested flag' crd) = requested flag crd"
  by (simp_all add: requested_def)

lemma requested_respond:
  "respond env state kind request body (requested flag crd) =
     map_prod (requested flag) id (respond env state kind request body crd)"
  by (simp add: respond_def requested_def Let_def case_prod_unfold)

lemma requested_error:
  "send_error_with_reasons env connection request code message reasons (requested flag crd) =
     map_prod (requested flag) id (send_error_with_reasons env connection request code message reasons crd)"
proof (cases "idm_find (crd_sessions crd) connection")
  case None
  then show ?thesis by (simp add: send_error_with_reasons.simps)
next
  case (Some state)
  then show ?thesis by (simp add: error_value requested_respond)
qed

lemma requested_outputs:
  "send_error env connection request code message (requested flag crd) =
     map_prod (requested flag) id (send_error env connection request code message crd)"
  "send_typed env connection state kind request encoded (requested flag crd) =
     map_prod (requested flag) id (send_typed env connection state kind request encoded crd)"
  "reject env connection request status (requested flag crd) =
     map_prod (requested flag) id (reject env connection request status crd)"
  "then_shutdown (map_prod (requested flag) id result) = map_prod (requested flag) id (then_shutdown result)"
  "persist_if_configured env (requested flag crd) = requested flag (persist_if_configured env crd)"
  by (simp_all add: send_error_def send_typed_def reject_def then_shutdown_def persist_if_configured_def requested_error
      requested_respond split: sum.split prod.split)

text \<open>Equal results but for the flag.\<close>

lemma requested_handlers:
  "handle_heartbeat env connection state frame ctx (requested flag crd) =
     map_prod (requested flag) id (handle_heartbeat env connection state frame ctx crd)"
  "handle_register env connection state frame ctx (requested flag crd) =
     map_prod (requested flag) id (handle_register env connection state frame ctx crd)"
  "handle_begin_attempt env connection state frame ctx (requested flag crd) =
     map_prod (requested flag) id (handle_begin_attempt env connection state frame ctx crd)"
  "handle_plan env connection state frame ctx (requested flag crd) =
     map_prod (requested flag) id (handle_plan env connection state frame ctx crd)"
  "handle_lifecycle env connection state frame kind ctx (requested flag crd) =
     map_prod (requested flag) id (handle_lifecycle env connection state frame kind ctx crd)"
  "handle_evidence env connection state frame ctx (requested flag crd) =
     map_prod (requested flag) id (handle_evidence env connection state frame ctx crd)"
  "handle_inspect env connection state frame (requested flag crd) =
     map_prod (requested flag) id (handle_inspect env connection state frame crd)"
  "handle_explain env connection state frame (requested flag crd) =
     map_prod (requested flag) id (handle_explain env connection state frame crd)"
  "handle_install_policy env connection state frame ctx (requested flag crd) =
     map_prod (requested flag) id (handle_install_policy env connection state frame ctx crd)"
  by (simp_all only: handler_defs Let_def case_prod_unfold requested_parts requested_outputs
      if_distrib [of "map_prod (requested flag) id"] sum.case_distrib [of "map_prod (requested flag) id"])

definition up_to_request :: "CoordinatorServer \<times> HandlerOutput list \<Rightarrow> CoordinatorServer \<times> HandlerOutput list" where
  "up_to_request = map_prod (requested False) id"

lemma up_to_requested [simp]:
  "up_to_request (map_prod (requested flag) id result) = up_to_request result"
  "up_to_request (requested flag crd, outputs) = up_to_request (crd, outputs)"
  by (simp_all add: up_to_request_def map_prod_def case_prod_unfold)

lemma dispatch_requested:
  "up_to_request (dispatch env connection frame kind ctx (requested flag crd)) =
   up_to_request (dispatch env connection frame kind ctx crd)"
proof (cases "idm_find (crd_sessions crd) connection")
  case None
  then show ?thesis by (simp add: dispatch_def up_to_request_def)
next
  case (Some state)
  have "handle_shutdown env connection state frame (requested flag crd) = handle_shutdown env connection state frame crd"
    by (simp add: handle_shutdown_def requested_outputs Let_def case_prod_unfold)
  with Some show ?thesis by (cases kind) (simp_all add: dispatch_def requested_handlers requested_outputs)
qed

lemma on_frame_requested:
  "up_to_request (on_frame env connection frame (requested flag crd)) = up_to_request (on_frame env connection frame crd)"
proof (cases "idm_find (crd_sessions crd) connection")
  case None
  then show ?thesis by (simp add: on_frame_def up_to_request_def)
next
  case (Some state)
  then show ?thesis
    by (simp add: on_frame_def handshake_def Let_def case_prod_unfold dispatch_requested requested_outputs requested_error
        split: sum.split)
qed

text \<open>
  C40: A shutdown request turns no work away. The coordinator acknowledges it with the words that no new work will
  be accepted and sets a flag for the program that runs it to poll, but the flag has no effect on any later
  frame: until that program stops the coordinator, every frame gets the same answer and has the same effect on
  the service and on the files.
\<close>
theorem shutdown_request_ignored:
  "snd (on_frame env connection frame (crd\<lparr>crd_shutdown_requested := flag\<rparr>)) = snd (on_frame env connection frame crd) \<and>
   crd_service (fst (on_frame env connection frame (crd\<lparr>crd_shutdown_requested := flag\<rparr>))) =
     crd_service (fst (on_frame env connection frame crd)) \<and>
   crd_files (fst (on_frame env connection frame (crd\<lparr>crd_shutdown_requested := flag\<rparr>))) =
     crd_files (fst (on_frame env connection frame crd))"
proof -
  have "crd_service (fst (up_to_request r)) = crd_service (fst r)" "crd_files (fst (up_to_request r)) = crd_files (fst r)"
    "snd (up_to_request r) = snd r" for r
    by (simp_all add: up_to_request_def map_prod_def case_prod_unfold)
  then show ?thesis using on_frame_requested [of env connection frame flag crd] by (metis requested_def)
qed


section \<open>Asking for a decision\<close>

text \<open>A request for a decision that reaches the dispatcher.\<close>

definition asks :: "nat \<Rightarrow> Frame \<Rightarrow> DecisionRequest \<Rightarrow> CoordinatorServer \<Rightarrow> bool" where
  "asks connection frame request crd \<longleftrightarrow>
     admitted connection frame crd \<and> fr_kind frame = MessageKind_value MessageKind.kPlanFlowGroup \<and>
     fr_flags frame AND kFlagRequest \<noteq> 0 \<and> request_fits request \<and> fr_payload frame = encode_decision_request request"

lemma asked_plans:
  assumes "asks connection frame request crd" "idm_find (crd_sessions crd) connection = Some state"
    and "plan_flow_group (request_context (envelope_view frame) (he_now env)) request DecisionRecord_default
      (crd_service (validated env frame crd)) = (status, decision, svc)" "is_ok status"
  shows "on_frame env connection frame crd = send_typed env connection state MessageKind.kFlowGroupDecision frame
    (encode_decision_record decision) ((validated env frame crd)\<lparr>crd_service := svc\<rparr>)"
proof -
  have kind: "MessageKind_cast (fr_kind frame) = MessageKind.kPlanFlowGroup"
    using assms(1) by (simp add: asks_def MessageKind_cast_def)
  have "decode_plan_flow_group (fr_payload frame) = Inr request" using assms(1) by (simp add: asks_def plan_back)
  moreover have "idm_find (crd_sessions (validated env frame crd)) connection = Some state"
    using assms(2) by (simp add: validated_def)
  ultimately show ?thesis using assms kind
    by (simp add: on_frame_admitted asks_def dispatch_def handle_plan_def Let_def)
qed


text \<open>The first request of the sample session: no collective is registered, and the peer is told so.\<close>

definition bare_request :: DecisionRequest where
  "bare_request = sample_request\<lparr>req_has_flow_group_plan := False, req_plan := FlowGroupPlan_default\<rparr>"

lemma bare_request_valid: "is_ok (validate_decision_request bare_request)" "request_fits bare_request"
  by (simp_all add: validate_decision_request_def bare_request_def sample_request_def sample_instance_def is_none_def
      no_identity_def request_fits_def)

lemma unknown_collective_refused:
  assumes "envelope_current view s" "svc_running s" "svc_catalog s = CollectiveCatalog_new k"
  shows "\<exists>decision svc. plan_flow_group (request_context view now) bare_request DecisionRecord_default
      (session_advanced view now s) = (status_ok, decision, svc) \<and> record_fits decision \<and>
    rec_outcome decision = Outcome.kRejectedStale \<and> rec_code decision = ErrorCode_kCompletionUnknownCollective"
proof -
  let ?ctx = "request_context view now" and ?t = "session_advanced view now s"
  from assms(1) obtain b where "idm_find (svc_sessions s) (view_session view) = Some b" "is_some (view_session view)"
    "view_epoch view = au_epoch (svc_authority s)" "view_incarnation view = sb_incarnation b"
    by (auto simp: envelope_current_def)
  moreover have "catalog_find (svc_catalog ?t) i = None" for i
    by (simp add: session_advanced_def Let_def assms(3) CollectiveCatalog_new_def catalog_find_def)
  ultimately have "plan_flow_group ?ctx bare_request DecisionRecord_default ?t =
      (status_ok, refuse_request ?ctx bare_request CollectiveClass.kUnknown AuthorityAxis.kCollectiveGeneration
         ErrorCode_kCompletionUnknownCollective ''collective_unknown''
         ''no durable definition exists for this identity; a decision requires a registered collective''
         (count cnt_stale_completions_rejected_update (count cnt_rejections_stale_update (count cnt_rejections_update ?t))))"
    using assms(2) bare_request_valid(1)
    by (simp add: plan_flow_group_def request_context_def session_advanced_def Let_def)
  then show ?thesis
    by (simp add: refuse_request_def Let_def record_fits_def group_fits_def DecisionRecord_default_def FlowGroup_default_def
        chain_fits_def chain_add_def chain_add_flag_def reason_fits_def kReasonChainMax_def kReasonDetailBytesMax_def)
qed


text \<open>Every edge of a flow group takes 50 bytes of the message.\<close>

lemma decision_size:
  assumes "encode_decision_record decision = Inr bytes"
  shows "50 * length (group_edges (rec_group decision)) \<le> length bytes"
proof -
  have edge: "length (encode_edge e) = 50" for e
    by (simp add: encode_edge_def)
  have "length (concat (map encode_edge es)) = 50 * length es" for es by (induction es) (simp_all add: edge)
  then show ?thesis using assms
    by (auto simp: encode_decision_record_def encode_flow_group_def put_list_def split: sum.splits)
qed



end
