(* ===== verification/Spec2Isabelle.thy ===== *)
theory Spec2Isabelle
  imports CTF_Prelude CTF_Identity CTF_Error CTF_Participant CTF_Collective CTF_FlowGroup CTF_Traffic
    CTF_Sync CTF_Evidence CTF_Decision CTF_Engine CTF_Authority CTF_Admission CTF_History CTF_Catalog
    CTF_Codec CTF_Checksum CTF_Enumerations CTF_Persistence CTF_Frame CTF_Protocol CTF_Messages
    CTF_Service CTF_Inspection CTF_ServiceRun CTF_ServiceSafety CTF_ServiceSessions CTF_ServiceDurable
    CTF_Transport CTF_Coordinator CTF_CoordinatorRun CTF_CoordinatorSafety CTF_CoordinatorWire
begin

text \<open>
  Collective Traffic Fabric: a verification development.

  \<^bold>\<open>The program.\<close> The fabric decides which collective operations of a cluster may put traffic on
  the network and at what rate. Peers connect to a coordinator over TCP and register collectives, report their
  liveness, ingest evidence on topology, capacity and congestion, and ask for decisions on flow groups. A
  decision is a pure function of a frozen snapshot of the evidence; a granted one is charged to a token bucket
  and kept in a bounded history. Definitions, policy and topology survive a restart in a snapshot file; liveness,
  capacity and congestion do not. All file names below are relative to src/; names of headers are in
  include/ctf/, names of sources in src/.

  \<^bold>\<open>Conventions.\<close> An operation of a class is a function from the old state to the result and the
  new state, under the name it has in the source where that name is free. A structure is a record whose fields
  carry a short prefix (\<open>svc_sessions\<close> for the member \<open>sessions_\<close> of the service); an enumeration is a
  datatype with the enumerators as constructors. Machine integers are words of their width and wrap as in C++.
  A failure is a \<open>Status\<close> with its code and message, or the left injection of a sum. A hash map
  keyed by identities is an association list with distinct keys, and where the source sorts before it uses the
  entries so does the model. What the program obtains from outside (the entropy of a process, the clock, the
  answers of the file system, of \<^verbatim>\<open>recv\<close>, \<^verbatim>\<open>send\<close>, \<^verbatim>\<open>connect\<close>, \<^verbatim>\<open>bind\<close> and \<^verbatim>\<open>listen\<close>) is an argument of the
  operation.

  \<^bold>\<open>Vocabulary.\<close> \<open>CTF_Prelude\<close> holds the integers, \<^verbatim>\<open>std::sort\<close> and \<^verbatim>\<open>std::unique\<close> with the
  locales of comparators, the keyed map, tables of names, and the locales \<open>invariant_system\<close>, \<open>simulation\<close>
  and \<open>component\<close> that the machines below interpret. \<open>CTF_Identity\<close> (identity.hpp, identity.cpp),
  \<open>CTF_Error\<close> (error.hpp, error.cpp), \<open>CTF_Participant\<close> (participant.hpp, participant.cpp),
  \<open>CTF_Collective\<close> (collective.hpp, collective.cpp) and \<open>CTF_Sync\<close> (sync.hpp, sync.cpp) are the values
  the components exchange, with round trips of their spellings, distinctness of minted identities and the bound
  of a reason chain.

  \<^bold>\<open>Decisions.\<close> \<open>CTF_FlowGroup\<close> (flow_group.hpp, flow_group.cpp) validates a plan and builds its
  canonical group: the group holds exactly the edges of the plan and does not depend on their order.
  \<open>CTF_Traffic\<close> (traffic.hpp, traffic.cpp) has the policy and the token bucket, \<open>CTF_Evidence\<close>
  (evidence.hpp, evidence.cpp, snapshot.hpp) the evidence and its lookups, \<open>CTF_Decision\<close> (decision.hpp,
  decision.cpp) requests and records. \<open>CTF_Engine\<close> (engine.hpp, engine.cpp) is the evaluation: it
  grants exactly the requests that satisfy a predicate stated without the order of the checks, its record binds
  everything the decision rests on, its pacing arithmetic stays in bounds and every refusal is explained.

  \<^bold>\<open>State.\<close> \<open>CTF_Authority\<close> (authority.hpp, authority.cpp) installs policy and evidence through
  one contract, the locale \<open>install_axis\<close>, and fences the incarnations of closed sessions.
  \<open>CTF_Admission\<close> (admission.hpp, admission.cpp) carries the conformance of one bucket over to the table.
  \<open>CTF_History\<close> (history.hpp, history.cpp) refines an append-only log. \<open>CTF_Catalog\<close> (catalog.hpp,
  catalog.cpp) keeps the definitions and their lifecycle.

  \<^bold>\<open>Bytes.\<close> \<open>CTF_Codec\<close> has the locales \<open>decodes\<close>, \<open>codec\<close> and \<open>byte_enum\<close>, which every
  codec of the program interprets; \<open>CTF_Checksum\<close> the CRC and the digest; \<open>CTF_Enumerations\<close> the casts
  of bytes to enumerations. \<open>CTF_Persistence\<close> (persistence.hpp, persistence.cpp) has the snapshot format
  with its round trip and the detection of damage, and the replacement of the file with its atomicity.
  \<open>CTF_Frame\<close>, \<open>CTF_Protocol\<close> and \<open>CTF_Messages\<close> (protocol.hpp, protocol.cpp, protocol_evidence.cpp,
  protocol_messages.cpp) are the wire protocol: the codec of frames is exact in both directions, damage is
  refused except in the one field no checksum covers, and every message is read as it was sent.

  \<^bold>\<open>The service.\<close> \<open>CTF_Service\<close> and \<open>CTF_Inspection\<close> (service.hpp, service.cpp) compose the
  components. Every public method holds one mutex, so it is one step; \<^verbatim>\<open>flush\<close> and \<^verbatim>\<open>stop\<close> release it
  while they write the file and are two steps with anything in between. \<open>CTF_ServiceRun\<close> makes a machine of
  it, whose invariant every sequence of operations keeps. \<open>CTF_ServiceSafety\<close> shows which requests are
  granted, what a grant implies, and that closed sessions and cancelled collectives stay without authority;
  \<open>CTF_ServiceSessions\<close> that sessions are never confused and a frame is accepted once;
  \<open>CTF_ServiceDurable\<close> that a flush loses nothing, that a restart restores the durable state and nothing
  else, and how two overlapping flushes go wrong.

  \<^bold>\<open>The network.\<close> \<open>CTF_Transport\<close> (transport.hpp, transport.cpp) has the life of a descriptor,
  sending, the reassembly of frames from a byte stream, the loop of a session thread and the table of live
  sessions: the frames handed over are the frames sent, each descriptor is closed once, and the number of live
  sessions is bounded. \<open>CTF_Coordinator\<close> (coordinator.hpp, coordinator.cpp) is the handler, one function
  per message kind, and the server. \<open>CTF_CoordinatorRun\<close> shows that each of its operations is a sequence
  of at most 40 service operations, so that the properties of the service hold behind the network.
  \<open>CTF_CoordinatorSafety\<close> has what peers rely on: two connections never share a session, only the owner of a
  session acts in its name, a frame acts once, every frame is answered once, and a stop releases everything.
  \<open>CTF_CoordinatorWire\<close> follows a request to the bytes of its answer, and states where the answers fall
  short: they do not wait for the disk, a large decision does not fit a frame, and a shutdown request turns no
  work away.

  \<^bold>\<open>Bounds.\<close> No definition of the model takes fuel. The one loop of the sources without an evident bound,
  the retry of \<open>begin_boot\<close> until an epoch is new, is a partial function, and \<open>begin_boot_fresh\<close> shows that it
  returns; every other loop is a terminating function. Waiting for a quiet peer consumes one answer of the
  operating system per turn, and a send that goes on consumes bytes. The theorems on sessions assume that fewer
  than \<open>2 ^ 64\<close> identities are minted in a process, because the counter behind them has 64 bits; a service
  operation mints at most 4, so 160 times the number of coordinator operations has to stay below that. The
  theorem on reassembly assumes a read capacity of at least 48 bytes, the size of the envelope that the code's
  bound on the buffer leaves out; the default is far above it.

  \<^bold>\<open>Not modelled.\<close> Socket options, the creation and joining of threads, and the branches for Windows
  are calls of the operating system with no result the program uses. The handler calls of different connections
  are taken one after the other: the service's methods are atomic by its mutex, but an interleaving of two
  handlers between two of those methods, or with the handler's own counters, is not covered. That a blocked
  \<^verbatim>\<open>recv\<close> returns when its descriptor is closed is a promise of the operating system. The command-line tool
  (tools/ctfctl.cpp) parses arguments and prints, and is a client of the parts above; the programs under
  tests/, examples/ and validate/ exercise them.
\<close>

end
